(* ===== verification/Prelude.thy ===== *)
theory Prelude
  imports Main "HOL-Library.Word"
begin

text \<open>
  Shared base of the development: bytes and machine words, the three-way outcome of a C
  function (a value, an error code, or undefined behaviour), little- and big-endian integer
  layouts, and reads and writes of a C object as a list of bytes.
\<close>

unbundle bit_operations_syntax

type_synonym byte = "8 word"
type_synonym u16 = "16 word"
type_synonym u32 = "32 word"
type_synonym u64 = "64 word"

named_theorems layout_simps "lengths and fields of serialised structures"
named_theorems outcome_simps "evaluation of outcomes"

section \<open>Outcomes of C functions\<close>

text \<open>
  \<open>Good v\<close>: the success code with the out-parameters \<open>v\<close>; \<open>Bad e\<close>: the error code \<open>e\<close>;
  \<open>Fault\<close>: an access outside a C object (undefined behaviour).
\<close>

datatype ('e, 'a) outcome = Good 'a | Bad 'e | Fault

fun obind :: "('e, 'a) outcome \<Rightarrow> ('a \<Rightarrow> ('e, 'b) outcome) \<Rightarrow> ('e, 'b) outcome" where
  "obind (Good v) f = f v"
| "obind (Bad e) f = Bad e"
| "obind Fault f = Fault"

lemma obind_Good_iff: "obind r f = Good v \<longleftrightarrow> (\<exists>u. r = Good u \<and> f u = Good v)"
  by (cases r) auto

lemma obind_Fault_iff: "obind r f = Fault \<longleftrightarrow> r = Fault \<or> (\<exists>u. r = Good u \<and> f u = Fault)"
  by (cases r) auto

lemma obind_assoc: "obind (obind r f) g = obind r (\<lambda>v. obind (f v) g)"
  by (cases r) auto

definition is_good :: "('e, 'a) outcome \<Rightarrow> bool" where
  "is_good r \<longleftrightarrow> (case r of Good _ \<Rightarrow> True | _ \<Rightarrow> False)"

lemma is_good_simps [simp, outcome_simps]:
  "is_good (Good v)" "\<not> is_good (Bad e)" "\<not> is_good Fault"
  by (simp_all add: is_good_def)

section \<open>C objects as byte lists\<close>

text \<open>\<open>bread n off buf\<close> is what \<open>memcpy\<close> reads: \<open>None\<close> when the range leaves the object.\<close>

definition bread :: "nat \<Rightarrow> nat \<Rightarrow> byte list \<Rightarrow> byte list option" where
  "bread n off buf = (if off + n \<le> length buf then Some (take n (drop off buf)) else None)"

definition bwrite :: "nat \<Rightarrow> byte list \<Rightarrow> byte list \<Rightarrow> byte list option" where
  "bwrite off bs buf =
     (if off + length bs \<le> length buf
      then Some (take off buf @ bs @ drop (off + length bs) buf) else None)"

lemma bread_Some_iff: "bread n off buf = Some bs \<longleftrightarrow> off + n \<le> length buf \<and> bs = take n (drop off buf)"
  by (auto simp: bread_def)

lemma bread_None_iff: "bread n off buf = None \<longleftrightarrow> length buf < off + n"
  by (auto simp: bread_def)

lemma length_bread: "bread n off buf = Some bs \<Longrightarrow> length bs = n"
  by (auto simp: bread_Some_iff)

lemma bwrite_Some_iff: "bwrite off bs buf = Some buf' \<longleftrightarrow>
    off + length bs \<le> length buf \<and> buf' = take off buf @ bs @ drop (off + length bs) buf"
  by (auto simp: bwrite_def)

lemma bwrite_None_iff: "bwrite off bs buf = None \<longleftrightarrow> length buf < off + length bs"
  by (auto simp: bwrite_def)

lemma length_bwrite: "bwrite off bs buf = Some buf' \<Longrightarrow> length buf' = length buf"
  by (auto simp: bwrite_Some_iff)

lemma bwrite_fits:
  "off + length bs \<le> length buf \<Longrightarrow> \<exists>buf'. bwrite off bs buf = Some buf' \<and> length buf' = length buf"
  by (simp add: bwrite_def)

lemma bread_bwrite_same:
  "bwrite off bs buf = Some buf' \<Longrightarrow> bread (length bs) off buf' = Some bs"
  by (auto simp: bwrite_Some_iff bread_def)

lemma bread_sub:
  assumes "bread n off buf = Some bs" "k + m \<le> n"
  shows "bread m (off + k) buf = bread m k bs"
proof -
  from assms have len: "off + n \<le> length buf" and bs: "bs = take n (drop off buf)"
    by (simp_all add: bread_Some_iff)
  have "take m (drop k (take n (drop off buf))) = take m (drop (off + k) buf)"
    using assms(2) by (simp add: drop_take min_def add.commute)
  with len bs assms(2) show ?thesis by (simp add: bread_def)
qed

text \<open>
  \<open>memcpy dst doff src soff n\<close> with the pointers as object and offset; a NULL source is
  the empty object.
\<close>

definition memcpy :: "byte list \<Rightarrow> nat \<Rightarrow> byte list \<Rightarrow> nat \<Rightarrow> nat \<Rightarrow> ('e, byte list) outcome" where
  "memcpy dst doff src soff n =
     (case bread n soff src of None \<Rightarrow> Fault
      | Some bs \<Rightarrow> (case bwrite doff bs dst of None \<Rightarrow> Fault | Some d \<Rightarrow> Good d))"

definition obj :: "byte list option \<Rightarrow> byte list" where
  "obj p = (case p of None \<Rightarrow> [] | Some bs \<Rightarrow> bs)"

lemma obj_simps [simp]: "obj None = []" "obj (Some bs) = bs"
  by (simp_all add: obj_def)

lemma memcpy_Good_iff: "memcpy dst doff src soff n = Good d \<longleftrightarrow>
    soff + n \<le> length src \<and> doff + n \<le> length dst \<and>
    d = take doff dst @ take n (drop soff src) @ drop (doff + n) dst"
  by (auto simp: memcpy_def bread_def bwrite_def split: option.splits if_splits)

lemma memcpy_Fault_iff:
  "memcpy dst doff src soff n = Fault \<longleftrightarrow> length src < soff + n \<or> length dst < doff + n"
  by (auto simp: memcpy_def bread_def bwrite_def split: option.splits if_splits)

lemma memcpy_not_Bad [simp]: "memcpy dst doff src soff n \<noteq> Bad e"
  by (auto simp: memcpy_def split: option.splits)

lemma memcpy_cases:
  "memcpy dst doff src soff n =
     (if soff + n \<le> length src \<and> doff + n \<le> length dst
      then Good (take doff dst @ take n (drop soff src) @ drop (doff + n) dst) else Fault)"
  by (simp add: memcpy_def bread_def bwrite_def)

text \<open>Filling a zeroed buffer from left to right.\<close>

lemma memcpy_fill:
  "n \<le> length src \<Longrightarrow> n \<le> k \<Longrightarrow> c = length pre \<Longrightarrow>
   memcpy (pre @ replicate k 0) c src 0 n = Good ((pre @ take n src) @ replicate (k - n) 0)"
  by (simp add: memcpy_cases)

section \<open>Integer layouts\<close>

lemma unat_bounds [simp]:
  "unat (a :: byte) < 256" "unat (b :: u16) < 65536"
  "unat (c :: u32) < 4294967296" "unat (d :: u64) < 18446744073709551616"
  using unsigned_less [of a, where ?'a = nat] unsigned_less [of b, where ?'a = nat]
    unsigned_less [of c, where ?'a = nat] unsigned_less [of d, where ?'a = nat]
  by simp_all

fun le_encode :: "nat \<Rightarrow> nat \<Rightarrow> byte list" where
  "le_encode 0 x = []"
| "le_encode (Suc n) x = word_of_nat (x mod 256) # le_encode n (x div 256)"

fun le_decode :: "byte list \<Rightarrow> nat" where
  "le_decode [] = 0"
| "le_decode (b # bs) = unat b + 256 * le_decode bs"

lemma length_le_encode [simp, layout_simps]: "length (le_encode n x) = n"
  by (induction n arbitrary: x) auto

lemma unat_byte_of_nat: "x < 256 \<Longrightarrow> unat (word_of_nat x :: byte) = x"
  by (simp add: unat_of_nat)

lemma le_decode_encode: "le_decode (le_encode n x) = x mod 256 ^ n"
proof (induction n arbitrary: x)
  case 0
  show ?case by simp
next
  case (Suc n)
  have "le_decode (le_encode (Suc n) x) = x mod 256 + 256 * (x div 256 mod 256 ^ n)"
    by (simp add: Suc unat_of_nat)
  also have "\<dots> = x mod (256 * 256 ^ n)"
    by (simp add: mod_mult2_eq)
  finally show ?case by simp
qed

lemma le_decode_bound: "le_decode bs < 256 ^ length bs"
proof (induction bs)
  case (Cons b bs)
  have "unat b + 256 * le_decode bs < 256 + 256 * le_decode bs" by simp
  also have "\<dots> \<le> 256 * 256 ^ length bs" using Cons by simp
  finally show ?case by simp
qed simp

lemma le_encode_decode: "length bs = n \<Longrightarrow> le_encode n (le_decode bs) = bs"
proof (induction bs arbitrary: n)
  case (Cons b bs)
  then show ?case by (auto simp: unat_byte_of_nat)
qed simp

lemma le_decode_zeros: "le_decode (replicate n 0) = 0"
  by (induction n) simp_all

definition le16 :: "u16 \<Rightarrow> byte list" where "le16 w = le_encode 2 (unat w)"
definition le32 :: "u32 \<Rightarrow> byte list" where "le32 w = le_encode 4 (unat w)"
definition le64 :: "u64 \<Rightarrow> byte list" where "le64 w = le_encode 8 (unat w)"

lemma length_le [simp, layout_simps]:
  "length (le16 a) = 2" "length (le32 b) = 4" "length (le64 c) = 8"
  by (simp_all add: le16_def le32_def le64_def)

text \<open>Fields of a packed structure, by offset (x86 is little-endian).\<close>

definition get16 :: "nat \<Rightarrow> byte list \<Rightarrow> u16" where
  "get16 off buf = word_of_nat (le_decode (take 2 (drop off buf)))"
definition get32 :: "nat \<Rightarrow> byte list \<Rightarrow> u32" where
  "get32 off buf = word_of_nat (le_decode (take 4 (drop off buf)))"
definition get64 :: "nat \<Rightarrow> byte list \<Rightarrow> u64" where
  "get64 off buf = word_of_nat (le_decode (take 8 (drop off buf)))"

lemma get16_le16: "take 2 (drop off buf) = le16 w \<Longrightarrow> get16 off buf = w"
  by (simp add: get16_def le16_def le_decode_encode)

lemma get32_le32: "take 4 (drop off buf) = le32 w \<Longrightarrow> get32 off buf = w"
  by (simp add: get32_def le32_def le_decode_encode)

lemma get64_le64: "take 8 (drop off buf) = le64 w \<Longrightarrow> get64 off buf = w"
  by (simp add: get64_def le64_def le_decode_encode)

text \<open>The 4-byte big-endian length that frames a message.\<close>

definition be32_bytes :: "u32 \<Rightarrow> byte list" where
  "be32_bytes n = [ucast (drop_bit 24 n AND 0xFF), ucast (drop_bit 16 n AND 0xFF),
                   ucast (drop_bit 8 n AND 0xFF), ucast (n AND 0xFF)]"

fun be32_fold :: "u32 \<Rightarrow> byte list \<Rightarrow> u32" where
  "be32_fold acc [] = acc"
| "be32_fold acc (b # bs) = be32_fold (acc * 256 + (ucast b AND 0xFF)) bs"

lemma length_be32_bytes [simp, layout_simps]: "length (be32_bytes n) = 4"
  by (simp add: be32_bytes_def)

lemma unat_ucast_8_32 [simp]: "unat (ucast (b :: byte) :: u32) = unat b"
proof -
  have "unat b < 2 ^ 32" by (rule less_trans [OF unat_bounds(1)]) simp
  then show ?thesis by (simp add: unsigned_ucast_eq take_bit_nat_eq_self)
qed

lemma unat_ucast_32_64 [simp]: "unat (ucast (a :: u32) :: u64) = unat a"
proof -
  have "unat a < 2 ^ 64" by (rule less_trans [OF unat_bounds(3)]) simp
  then show ?thesis by (simp add: unsigned_ucast_eq take_bit_nat_eq_self)
qed

lemma unat_ucast_16_32 [simp]: "unat (ucast (a :: u16) :: u32) = unat a"
proof -
  have "unat a < 2 ^ 32" by (rule less_trans [OF unat_bounds(2)]) simp
  then show ?thesis by (simp add: unsigned_ucast_eq take_bit_nat_eq_self)
qed

lemma unat_ucast_64_32: "unat (ucast (x :: u64) :: u32) = unat x mod 4294967296"
  by (simp add: unsigned_ucast_eq take_bit_eq_mod)

lemma unat_ucast_32_8: "unat (ucast (x :: u32) :: byte) = unat x mod 256"
  by (simp add: unsigned_ucast_eq take_bit_eq_mod)

lemma unat_and_ff: "unat (x AND 0xFF :: u32) = unat x mod 256"
proof -
  have "x AND 0xFF = take_bit 8 x" by (simp only: take_bit_eq_mask mask_eq_exp_minus_1) simp
  then show ?thesis by (simp only: unsigned_take_bit_eq) (simp add: take_bit_eq_mod)
qed

lemma unat_drop_bit_32: "unat (drop_bit n (x :: u32)) = unat x div 2 ^ n"
proof -
  have "unat (drop_bit n x) = drop_bit n (unat x)"
    by (simp only: unsigned_drop_bit_eq) (simp add: take_bit_nat_eq_self)
  then show ?thesis by (simp only: drop_bit_eq_div)
qed

lemma unat_be32_byte:
  "unat (ucast (drop_bit n (x :: u32) AND 0xFF) :: byte) = unat x div 2 ^ n mod 256"
  by (simp add: unat_ucast_32_8 unat_and_ff unat_drop_bit_32)

lemma unat_be32_fold_step:
  assumes "unat acc < 16777216"
  shows "unat (acc * 256 + (ucast (b :: byte) AND 0xFF) :: u32) = unat acc * 256 + unat b"
proof -
  have b: "unat (ucast b AND 0xFF :: u32) = unat b" by (simp add: unat_and_ff)
  have "unat acc * 256 \<le> 16777215 * 256" using assms by simp
  with unat_bounds(1) [of b] have "unat acc * 256 + unat b < 4294967296" by linarith
  then show ?thesis using assms by (simp add: unat_word_ariths b)
qed

lemma unat32_of_nat [simp]: "n < 4294967296 \<Longrightarrow> unat (word_of_nat n :: u32) = n"
  by (simp add: unat_of_nat)

lemma word32_of_unat [simp]: "(word_of_nat (unat w) :: u32) = w"
  by simp

text \<open>\<open>(uint32_t)n\<close>; kept folded so that the simplifier does not distribute it over sums.\<close>

definition size32 :: "nat \<Rightarrow> u32" where
  "size32 n = word_of_nat n"

abbreviation len32 :: "byte list \<Rightarrow> u32" where
  "len32 bs \<equiv> size32 (length bs)"

lemma unat_size32 [simp]: "n < 4294967296 \<Longrightarrow> unat (size32 n) = n"
  by (simp add: size32_def)

lemma size32_unat [simp]: "size32 (unat w) = w"
  by (simp add: size32_def)

lemma size32_0 [simp]: "size32 0 = 0"
  by (simp add: size32_def)

lemma size32_0_iff [simp]: "n < 4294967296 \<Longrightarrow> size32 n = 0 \<longleftrightarrow> n = 0"
  by (simp add: word_unat_eq_iff)

lemma nat_base256_split:
  fixes x :: nat
  shows "(((x div 16777216 mod 256) * 256 + x div 65536 mod 256) * 256 + x div 256 mod 256) * 256
     + x mod 256 = x mod 4294967296"
proof -
  have s: "(y div 256 mod k) * 256 + y mod 256 = y mod (256 * k)" for y k :: nat
    by (simp add: mod_mult2_eq)
  have "(x div 16777216 mod 256) * 256 + x div 65536 mod 256 = x div 65536 mod 65536"
    using s [of "x div 65536" 256] by (simp add: div_mult2_eq [symmetric])
  moreover have "(x div 65536 mod 65536) * 256 + x div 256 mod 256 = x div 256 mod 16777216"
    using s [of "x div 256" 65536] by (simp add: div_mult2_eq [symmetric])
  moreover have "(x div 256 mod 16777216) * 256 + x mod 256 = x mod 4294967296"
    using s [of x 16777216] by simp
  ultimately show ?thesis by simp
qed

text \<open>Big-endian framing loses nothing: the loop of the reader inverts the shifts of the writer.\<close>

lemma be32_fold_bytes: "be32_fold 0 (be32_bytes n) = n"
proof -
  define b3 b2 b1 b0 :: byte where b: "b3 = ucast (drop_bit 24 n AND 0xFF)"
    "b2 = ucast (drop_bit 16 n AND 0xFF)" "b1 = ucast (drop_bit 8 n AND 0xFF)" "b0 = ucast (n AND 0xFF)"
  have u: "unat b3 = unat n div 16777216 mod 256" "unat b2 = unat n div 65536 mod 256"
    "unat b1 = unat n div 256 mod 256" "unat b0 = unat n mod 256"
    using unat_be32_byte [of 24 n] unat_be32_byte [of 16 n] unat_be32_byte [of 8 n]
    by (simp_all add: b unat_ucast_32_8 unat_and_ff)
  define a1 a2 a3 a4 :: u32 where a: "a1 = 0 * 256 + (ucast b3 AND 0xFF)"
    "a2 = a1 * 256 + (ucast b2 AND 0xFF)" "a3 = a2 * 256 + (ucast b1 AND 0xFF)"
    "a4 = a3 * 256 + (ucast b0 AND 0xFF)"
  have a1: "unat a1 = unat b3" by (simp add: a(1) unat_and_ff)
  have a2: "unat a2 = unat a1 * 256 + unat b2"
    unfolding a(2) by (rule unat_be32_fold_step) (use a1 unat_bounds(1) [of b3] in linarith)
  have a3: "unat a3 = unat a2 * 256 + unat b1"
    unfolding a(3) by (rule unat_be32_fold_step)
      (use a1 a2 unat_bounds(1) [of b3] unat_bounds(1) [of b2] in linarith)
  have a4: "unat a4 = unat a3 * 256 + unat b0"
    unfolding a(4) by (rule unat_be32_fold_step)
      (use a1 a2 a3 unat_bounds(1) [of b3] unat_bounds(1) [of b2] unat_bounds(1) [of b1] in linarith)
  have "unat a4 = unat n mod 4294967296"
    by (simp only: a4 a3 a2 a1 u nat_base256_split)
  also have "\<dots> = unat n" by (rule mod_less) simp
  finally have "a4 = n" by (rule word_unat_eq_iff [THEN iffD2])
  moreover have "be32_fold 0 (be32_bytes n) = a4"
    unfolding be32_bytes_def be32_fold.simps b [symmetric] a [symmetric] ..
  ultimately show ?thesis by simp
qed

end
