(* ===== verification/Qgs_Msg.thy ===== *)
theory Qgs_Msg
  imports Prelude
begin

text \<open>
  The QGS message library (QuoteGeneration/quote_wrapper/qgs_msg_lib): the packed wire
  structures of qgs_msg_lib.h, and every gen and inflate function of qgs_msg_lib.cpp.

  A structure with a flexible array member is a record with the array as its last field; its
  bytes are the little-endian fields followed by the array. A pointer returned into a serialised
  buffer is an offset into it (NULL is \<open>None\<close>) and its size. Each function takes
  \<open>outs\<close> (no out-pointer is NULL) and each gen function also \<open>mem\<close> (calloc succeeds).
\<close>

section \<open>Wire structures\<close>

datatype qgs_msg_error_t =
    QGS_MSG_ERROR_UNEXPECTED | QGS_MSG_ERROR_OUT_OF_MEMORY | QGS_MSG_ERROR_INVALID_PARAMETER
  | QGS_MSG_ERROR_INVALID_VERSION | QGS_MSG_ERROR_INVALID_TYPE | QGS_MSG_ERROR_INVALID_SIZE
  | QGS_MSG_ERROR_INVALID_CODE

fun QGS_MSG_MK_ERROR :: "u32 \<Rightarrow> u32" where
  "QGS_MSG_MK_ERROR x = 0x00012000 OR x"

fun qgs_msg_error_code :: "qgs_msg_error_t \<Rightarrow> u32" where
  "qgs_msg_error_code QGS_MSG_ERROR_UNEXPECTED = QGS_MSG_MK_ERROR 0x0001"
| "qgs_msg_error_code QGS_MSG_ERROR_OUT_OF_MEMORY = QGS_MSG_MK_ERROR 0x0002"
| "qgs_msg_error_code QGS_MSG_ERROR_INVALID_PARAMETER = QGS_MSG_MK_ERROR 0x0003"
| "qgs_msg_error_code QGS_MSG_ERROR_INVALID_VERSION = QGS_MSG_MK_ERROR 0x0004"
| "qgs_msg_error_code QGS_MSG_ERROR_INVALID_TYPE = QGS_MSG_MK_ERROR 0x0005"
| "qgs_msg_error_code QGS_MSG_ERROR_INVALID_SIZE = QGS_MSG_MK_ERROR 0x0006"
| "qgs_msg_error_code QGS_MSG_ERROR_INVALID_CODE = QGS_MSG_MK_ERROR 0x0007"

definition QGS_MSG_SUCCESS :: u32 where "QGS_MSG_SUCCESS = 0"
definition QGS_MSG_ERROR_MAX :: u32 where "QGS_MSG_ERROR_MAX = 0x00012008"
definition QGS_MSG_LIB_MAJOR_VER :: u16 where "QGS_MSG_LIB_MAJOR_VER = 1"
definition QGS_MSG_LIB_MINOR_VER :: u16 where "QGS_MSG_LIB_MINOR_VER = 1"
definition UINT32_MAX :: u64 where "UINT32_MAX = 0xFFFFFFFF"

datatype qgs_msg_type_t =
    GET_QUOTE_REQ | GET_QUOTE_RESP | GET_COLLATERAL_REQ | GET_COLLATERAL_RESP
  | GET_PLATFORM_INFO_REQ | GET_PLATFORM_INFO_RESP

fun msg_type :: "qgs_msg_type_t \<Rightarrow> u32" where
  "msg_type GET_QUOTE_REQ = 0"
| "msg_type GET_QUOTE_RESP = 1"
| "msg_type GET_COLLATERAL_REQ = 2"
| "msg_type GET_COLLATERAL_RESP = 3"
| "msg_type GET_PLATFORM_INFO_REQ = 4"
| "msg_type GET_PLATFORM_INFO_RESP = 5"

definition QGS_MSG_TYPE_MAX :: u32 where "QGS_MSG_TYPE_MAX = 6"

record qgs_msg_header_t =
  h_major_version :: u16
  h_minor_version :: u16
  h_type :: u32
  h_size :: u32
  h_error_code :: u32

record qgs_msg_get_quote_req_t =
  rq_header :: qgs_msg_header_t
  rq_report_size :: u32
  rq_id_list_size :: u32
  report_id_list :: "byte list"

record qgs_msg_get_quote_resp_t =
  rs_header :: qgs_msg_header_t
  rs_selected_id_size :: u32
  rs_quote_size :: u32
  id_quote :: "byte list"

record qgs_msg_get_collateral_req_t =
  cq_header :: qgs_msg_header_t
  cq_fsmpc_size :: u32
  cq_pckca_size :: u32
  fsmpc_pckca :: "byte list"

record qgs_msg_get_collateral_resp_t =
  cr_header :: qgs_msg_header_t
  cr_major_version :: u16
  cr_minor_version :: u16
  cr_pck_crl_issuer_chain_size :: u32
  cr_root_ca_crl_size :: u32
  cr_pck_crl_size :: u32
  cr_tcb_info_issuer_chain_size :: u32
  cr_tcb_info_size :: u32
  cr_qe_identity_issuer_chain_size :: u32
  cr_qe_identity_size :: u32
  collaterals :: "byte list"

record qgs_msg_get_platform_info_req_t =
  pq_header :: qgs_msg_header_t

record qgs_msg_get_platform_info_resp_t =
  pr_header :: qgs_msg_header_t
  pr_tdqe_isvsvn :: u16
  pr_pce_isvsvn :: u16
  pr_platform_id_size :: u32
  pr_cpusvn_size :: u32
  platform_id_cpusvn :: "byte list"

abbreviation "sizeof_header \<equiv> (16 :: nat)"
abbreviation "sizeof_get_quote_req \<equiv> (24 :: nat)"
abbreviation "sizeof_get_quote_resp \<equiv> (24 :: nat)"
abbreviation "sizeof_get_collateral_req \<equiv> (24 :: nat)"
abbreviation "sizeof_get_collateral_resp \<equiv> (48 :: nat)"
abbreviation "sizeof_get_platform_info_req \<equiv> (16 :: nat)"
abbreviation "sizeof_get_platform_info_resp \<equiv> (28 :: nat)"

section \<open>Bytes of the structures\<close>

definition header_bytes :: "qgs_msg_header_t \<Rightarrow> byte list" where
  "header_bytes h = le16 (h_major_version h) @ le16 (h_minor_version h) @ le32 (h_type h)
     @ le32 (h_size h) @ le32 (h_error_code h)"

definition header_of :: "byte list \<Rightarrow> qgs_msg_header_t" where
  "header_of buf = \<lparr>h_major_version = get16 0 buf, h_minor_version = get16 2 buf,
     h_type = get32 4 buf, h_size = get32 8 buf, h_error_code = get32 12 buf\<rparr>"

definition quote_req_bytes :: "qgs_msg_get_quote_req_t \<Rightarrow> byte list" where
  "quote_req_bytes r = header_bytes (rq_header r) @ le32 (rq_report_size r)
     @ le32 (rq_id_list_size r) @ report_id_list r"

definition quote_req_of :: "byte list \<Rightarrow> qgs_msg_get_quote_req_t" where
  "quote_req_of buf = \<lparr>rq_header = header_of buf, rq_report_size = get32 16 buf,
     rq_id_list_size = get32 20 buf, report_id_list = drop sizeof_get_quote_req buf\<rparr>"

definition quote_resp_bytes :: "qgs_msg_get_quote_resp_t \<Rightarrow> byte list" where
  "quote_resp_bytes r = header_bytes (rs_header r) @ le32 (rs_selected_id_size r)
     @ le32 (rs_quote_size r) @ id_quote r"

definition quote_resp_of :: "byte list \<Rightarrow> qgs_msg_get_quote_resp_t" where
  "quote_resp_of buf = \<lparr>rs_header = header_of buf, rs_selected_id_size = get32 16 buf,
     rs_quote_size = get32 20 buf, id_quote = drop sizeof_get_quote_resp buf\<rparr>"

definition collateral_req_bytes :: "qgs_msg_get_collateral_req_t \<Rightarrow> byte list" where
  "collateral_req_bytes r = header_bytes (cq_header r) @ le32 (cq_fsmpc_size r)
     @ le32 (cq_pckca_size r) @ fsmpc_pckca r"

definition collateral_req_of :: "byte list \<Rightarrow> qgs_msg_get_collateral_req_t" where
  "collateral_req_of buf = \<lparr>cq_header = header_of buf, cq_fsmpc_size = get32 16 buf,
     cq_pckca_size = get32 20 buf, fsmpc_pckca = drop sizeof_get_collateral_req buf\<rparr>"

definition collateral_resp_bytes :: "qgs_msg_get_collateral_resp_t \<Rightarrow> byte list" where
  "collateral_resp_bytes r = header_bytes (cr_header r) @ le16 (cr_major_version r)
     @ le16 (cr_minor_version r) @ le32 (cr_pck_crl_issuer_chain_size r)
     @ le32 (cr_root_ca_crl_size r) @ le32 (cr_pck_crl_size r)
     @ le32 (cr_tcb_info_issuer_chain_size r) @ le32 (cr_tcb_info_size r)
     @ le32 (cr_qe_identity_issuer_chain_size r) @ le32 (cr_qe_identity_size r) @ collaterals r"

definition collateral_resp_of :: "byte list \<Rightarrow> qgs_msg_get_collateral_resp_t" where
  "collateral_resp_of buf = \<lparr>cr_header = header_of buf, cr_major_version = get16 16 buf,
     cr_minor_version = get16 18 buf, cr_pck_crl_issuer_chain_size = get32 20 buf,
     cr_root_ca_crl_size = get32 24 buf, cr_pck_crl_size = get32 28 buf,
     cr_tcb_info_issuer_chain_size = get32 32 buf, cr_tcb_info_size = get32 36 buf,
     cr_qe_identity_issuer_chain_size = get32 40 buf, cr_qe_identity_size = get32 44 buf,
     collaterals = drop sizeof_get_collateral_resp buf\<rparr>"

definition platform_info_req_bytes :: "qgs_msg_get_platform_info_req_t \<Rightarrow> byte list" where
  "platform_info_req_bytes r = header_bytes (pq_header r)"

definition platform_info_resp_bytes :: "qgs_msg_get_platform_info_resp_t \<Rightarrow> byte list" where
  "platform_info_resp_bytes r = header_bytes (pr_header r) @ le16 (pr_tdqe_isvsvn r)
     @ le16 (pr_pce_isvsvn r) @ le32 (pr_platform_id_size r) @ le32 (pr_cpusvn_size r)
     @ platform_id_cpusvn r"

definition platform_info_resp_of :: "byte list \<Rightarrow> qgs_msg_get_platform_info_resp_t" where
  "platform_info_resp_of buf = \<lparr>pr_header = header_of buf, pr_tdqe_isvsvn = get16 16 buf,
     pr_pce_isvsvn = get16 18 buf, pr_platform_id_size = get32 20 buf,
     pr_cpusvn_size = get32 24 buf, platform_id_cpusvn = drop sizeof_get_platform_info_resp buf\<rparr>"

lemma length_header_bytes [simp, layout_simps]: "length (header_bytes h) = 16"
  by (simp add: header_bytes_def)

text \<open>Casting the bytes of a structure back gives the structure (the layouts have no padding).\<close>

lemmas fields_of = get16_le16 get32_le32

lemma header_of_bytes [simp]: "header_of (header_bytes h @ rest) = h"
  by (simp add: header_of_def header_bytes_def fields_of)

lemma header_of_bytes_only [simp]: "header_of (header_bytes h) = h"
  using header_of_bytes [of h "[]"] by simp

lemma field_after_header [simp]:
  "16 \<le> off \<Longrightarrow> get16 off (header_bytes h @ rest) = get16 (off - 16) rest"
  "16 \<le> off \<Longrightarrow> get32 off (header_bytes h @ rest) = get32 (off - 16) rest"
  by (simp_all add: get16_def get32_def)

lemma field_walk16 [simp]:
  "get16 0 (le16 w @ rest) = w"
  "2 \<le> off \<Longrightarrow> get16 off (le16 w @ rest) = get16 (off - 2) rest"
  "2 \<le> off \<Longrightarrow> get32 off (le16 w @ rest) = get32 (off - 2) rest"
  by (simp_all add: get16_def get32_def le16_def le_decode_encode)

lemma field_walk32 [simp]:
  "get32 0 (le32 w @ rest) = w"
  "4 \<le> off \<Longrightarrow> get16 off (le32 v @ rest) = get16 (off - 4) rest"
  "4 \<le> off \<Longrightarrow> get32 off (le32 v @ rest) = get32 (off - 4) rest"
  by (simp_all add: get16_def get32_def le32_def le_decode_encode)

lemma quote_req_of_bytes [simp]:
  "quote_req_of (quote_req_bytes r @ junk) = r\<lparr>report_id_list := report_id_list r @ junk\<rparr>"
  by (simp add: quote_req_of_def quote_req_bytes_def)

lemma quote_resp_of_bytes [simp]:
  "quote_resp_of (quote_resp_bytes r @ junk) = r\<lparr>id_quote := id_quote r @ junk\<rparr>"
  by (simp add: quote_resp_of_def quote_resp_bytes_def)

lemma collateral_req_of_bytes [simp]:
  "collateral_req_of (collateral_req_bytes r @ junk) = r\<lparr>fsmpc_pckca := fsmpc_pckca r @ junk\<rparr>"
  by (simp add: collateral_req_of_def collateral_req_bytes_def)

lemma collateral_resp_of_bytes [simp]:
  "collateral_resp_of (collateral_resp_bytes r @ junk) = r\<lparr>collaterals := collaterals r @ junk\<rparr>"
  by (simp add: collateral_resp_of_def collateral_resp_bytes_def)

lemma platform_info_resp_of_bytes [simp]:
  "platform_info_resp_of (platform_info_resp_bytes r @ junk) =
     r\<lparr>platform_id_cpusvn := platform_id_cpusvn r @ junk\<rparr>"
  by (simp add: platform_info_resp_of_def platform_info_resp_bytes_def)

lemma length_struct_bytes [simp, layout_simps]:
  "length (quote_req_bytes a) = 24 + length (report_id_list a)"
  "length (quote_resp_bytes b) = 24 + length (id_quote b)"
  "length (collateral_req_bytes c) = 24 + length (fsmpc_pckca c)"
  "length (collateral_resp_bytes d) = 48 + length (collaterals d)"
  "length (platform_info_resp_bytes e) = 28 + length (platform_id_cpusvn e)"
  by (simp_all add: quote_req_bytes_def quote_resp_bytes_def collateral_req_bytes_def
      collateral_resp_bytes_def platform_info_resp_bytes_def)

end
