(* ===== verification/Qgs_Ops.thy ===== *)
theory Qgs_Ops
  imports Qgs_Msg
begin

text \<open>
  The operations of qgs_msg_lib.cpp: the six generators and six inflaters of messages, the error
  response and the type query. Guards are in the order of the source; sizes stay at their C
  width (the 64-bit sum \<open>temp\<close> of 32-bit sizes is a \<^typ>\<open>u64\<close>).
\<close>

type_synonym 'a qgs_outcome = "(qgs_msg_error_t, 'a) outcome"

text \<open>A pointer into a serialised buffer (offset, or NULL) with its size.\<close>

type_synonym slice = "nat option \<times> u32"

definition msg_header :: "qgs_msg_type_t \<Rightarrow> u32 \<Rightarrow> u32 \<Rightarrow> qgs_msg_header_t" where
  "msg_header t sz err = \<lparr>h_major_version = QGS_MSG_LIB_MAJOR_VER,
     h_minor_version = QGS_MSG_LIB_MINOR_VER, h_type = msg_type t, h_size = sz, h_error_code = err\<rparr>"

section \<open>Quote request\<close>

definition qgs_msg_gen_get_quote_req ::
  "byte list option \<Rightarrow> u32 \<Rightarrow> byte list option \<Rightarrow> u32 \<Rightarrow> bool \<Rightarrow> bool \<Rightarrow> byte list qgs_outcome" where
  "qgs_msg_gen_get_quote_req p_report report_size p_id_list id_list_size outs mem =
     (if p_report = None \<or> report_size = 0 then Bad QGS_MSG_ERROR_INVALID_PARAMETER
      else if (p_id_list = None \<and> id_list_size \<noteq> 0) \<or> (p_id_list \<noteq> None \<and> id_list_size = 0)
      then Bad QGS_MSG_ERROR_INVALID_PARAMETER
      else if \<not> outs then Bad QGS_MSG_ERROR_INVALID_PARAMETER
      else let temp = (word_of_nat sizeof_get_quote_req :: u64) + ucast report_size + ucast id_list_size in
        if \<not> temp < UINT32_MAX then Bad QGS_MSG_ERROR_UNEXPECTED
        else let buf_size = (ucast temp :: u32) in
          if \<not> mem then Bad QGS_MSG_ERROR_OUT_OF_MEMORY
          else let tail0 = replicate (unat buf_size - sizeof_get_quote_req) 0 in
            obind (memcpy tail0 0 (obj p_report) 0 (unat report_size)) (\<lambda>tail1.
            obind (if id_list_size \<noteq> 0
                   then memcpy tail1 (unat report_size) (obj p_id_list) 0 (unat id_list_size)
                   else Good tail1) (\<lambda>tail2.
            Good (quote_req_bytes \<lparr>rq_header = msg_header GET_QUOTE_REQ buf_size 0,
              rq_report_size = report_size, rq_id_list_size = id_list_size,
              report_id_list = tail2\<rparr>))))"

definition qgs_msg_inflate_get_quote_req ::
  "byte list option \<Rightarrow> u32 \<Rightarrow> bool \<Rightarrow> (slice \<times> slice) qgs_outcome" where
  "qgs_msg_inflate_get_quote_req p_serialized_req sz outs =
     (if p_serialized_req = None \<or> sz = 0 then Bad QGS_MSG_ERROR_INVALID_PARAMETER
      else if \<not> outs then Bad QGS_MSG_ERROR_INVALID_PARAMETER
      else if unat sz < sizeof_get_quote_req then Bad QGS_MSG_ERROR_INVALID_PARAMETER
      else if length (obj p_serialized_req) < sizeof_get_quote_req then Fault
      else let r = quote_req_of (obj p_serialized_req); h = rq_header r in
        if h_major_version h \<noteq> QGS_MSG_LIB_MAJOR_VER then Bad QGS_MSG_ERROR_INVALID_VERSION
        else if h_type h \<noteq> msg_type GET_QUOTE_REQ then Bad QGS_MSG_ERROR_INVALID_TYPE
        else if h_size h \<noteq> sz then Bad QGS_MSG_ERROR_INVALID_SIZE
        else if h_error_code h \<noteq> 0 then Bad QGS_MSG_ERROR_INVALID_CODE
        else if rq_report_size r = 0 then Bad QGS_MSG_ERROR_INVALID_CODE
        else let temp = (word_of_nat sizeof_get_quote_req :: u64) + ucast (rq_report_size r)
                        + ucast (rq_id_list_size r) in
          if temp \<ge> UINT32_MAX then Bad QGS_MSG_ERROR_UNEXPECTED
          else if ucast (h_size h) \<noteq> temp then Bad QGS_MSG_ERROR_INVALID_SIZE
          else Good ((Some sizeof_get_quote_req, rq_report_size r),
            (if rq_id_list_size r \<noteq> 0
             then Some (sizeof_get_quote_req + unat (rq_report_size r)) else None,
             rq_id_list_size r)))"

section \<open>Quote response\<close>

definition qgs_msg_gen_get_quote_resp ::
  "byte list option \<Rightarrow> u32 \<Rightarrow> byte list option \<Rightarrow> u32 \<Rightarrow> bool \<Rightarrow> bool \<Rightarrow> byte list qgs_outcome" where
  "qgs_msg_gen_get_quote_resp p_selected_id id_size p_quote quote_size outs mem =
     (if \<not> outs then Bad QGS_MSG_ERROR_INVALID_PARAMETER
      else if (p_selected_id = None \<and> id_size \<noteq> 0) \<or> (p_selected_id \<noteq> None \<and> id_size = 0)
      then Bad QGS_MSG_ERROR_INVALID_PARAMETER
      else if p_quote = None \<or> quote_size = 0 then Bad QGS_MSG_ERROR_INVALID_PARAMETER
      else let temp = (word_of_nat sizeof_get_quote_resp :: u64) + ucast id_size + ucast quote_size in
        if \<not> temp < UINT32_MAX then Bad QGS_MSG_ERROR_UNEXPECTED
        else let buf_size = (ucast temp :: u32) in
          if \<not> mem then Bad QGS_MSG_ERROR_OUT_OF_MEMORY
          else let tail0 = replicate (unat buf_size - sizeof_get_quote_resp) 0 in
            obind (if id_size \<noteq> 0 then memcpy tail0 0 (obj p_selected_id) 0 (unat id_size)
                   else Good tail0) (\<lambda>tail1.
            obind (memcpy tail1 (unat id_size) (obj p_quote) 0 (unat quote_size)) (\<lambda>tail2.
            Good (quote_resp_bytes \<lparr>rs_header = msg_header GET_QUOTE_RESP buf_size QGS_MSG_SUCCESS,
              rs_selected_id_size = id_size, rs_quote_size = quote_size, id_quote = tail2\<rparr>))))"

definition qgs_msg_inflate_get_quote_resp ::
  "byte list option \<Rightarrow> u32 \<Rightarrow> bool \<Rightarrow> (slice \<times> slice) qgs_outcome" where
  "qgs_msg_inflate_get_quote_resp p_serialized_resp sz outs =
     (if p_serialized_resp = None \<or> sz = 0 then Bad QGS_MSG_ERROR_INVALID_PARAMETER
      else if \<not> outs then Bad QGS_MSG_ERROR_INVALID_PARAMETER
      else if unat sz < sizeof_get_quote_resp then Bad QGS_MSG_ERROR_INVALID_PARAMETER
      else if length (obj p_serialized_resp) < sizeof_get_quote_resp then Fault
      else let r = quote_resp_of (obj p_serialized_resp); h = rs_header r in
        if h_major_version h \<noteq> QGS_MSG_LIB_MAJOR_VER then Bad QGS_MSG_ERROR_INVALID_VERSION
        else if h_type h \<noteq> msg_type GET_QUOTE_RESP then Bad QGS_MSG_ERROR_INVALID_TYPE
        else if h_size h \<noteq> sz then Bad QGS_MSG_ERROR_INVALID_SIZE
        else let temp = (word_of_nat sizeof_get_quote_resp :: u64) + ucast (rs_selected_id_size r)
                        + ucast (rs_quote_size r) in
          if temp \<ge> UINT32_MAX then Bad QGS_MSG_ERROR_UNEXPECTED
          else if ucast (h_size h) \<noteq> temp then Bad QGS_MSG_ERROR_INVALID_SIZE
          else if h_error_code h = QGS_MSG_SUCCESS then
            (if rs_quote_size r = 0 then Bad QGS_MSG_ERROR_INVALID_SIZE
             else Good ((if rs_selected_id_size r \<noteq> 0
                         then (Some sizeof_get_quote_resp, rs_selected_id_size r) else (None, 0)),
               (Some (sizeof_get_quote_resp + unat (rs_selected_id_size r)), rs_quote_size r)))
          else if h_error_code h < QGS_MSG_ERROR_MAX then
            (if rs_selected_id_size r \<noteq> 0 \<or> rs_quote_size r \<noteq> 0
             then Bad QGS_MSG_ERROR_INVALID_SIZE
             else Good ((None, 0), (None, 0)))
          else Bad QGS_MSG_ERROR_INVALID_CODE)"

section \<open>Collateral request\<close>

definition qgs_msg_gen_get_collateral_req ::
  "byte list option \<Rightarrow> u32 \<Rightarrow> byte list option \<Rightarrow> u32 \<Rightarrow> bool \<Rightarrow> bool \<Rightarrow> byte list qgs_outcome" where
  "qgs_msg_gen_get_collateral_req p_fsmpc fsmpc_size p_pckca pckca_size outs mem =
     (if p_fsmpc = None \<or> fsmpc_size = 0 then Bad QGS_MSG_ERROR_INVALID_PARAMETER
      else if p_pckca = None \<or> pckca_size = 0 then Bad QGS_MSG_ERROR_INVALID_PARAMETER
      else if \<not> outs then Bad QGS_MSG_ERROR_INVALID_PARAMETER
      else let temp = (word_of_nat sizeof_get_collateral_req :: u64) + ucast fsmpc_size + ucast pckca_size in
        if \<not> temp < UINT32_MAX then Bad QGS_MSG_ERROR_UNEXPECTED
        else let buf_size = (ucast temp :: u32) in
          if \<not> mem then Bad QGS_MSG_ERROR_OUT_OF_MEMORY
          else let tail0 = replicate (unat buf_size - sizeof_get_collateral_req) 0 in
            obind (memcpy tail0 0 (obj p_fsmpc) 0 (unat fsmpc_size)) (\<lambda>tail1.
            obind (memcpy tail1 (unat fsmpc_size) (obj p_pckca) 0 (unat pckca_size)) (\<lambda>tail2.
            Good (collateral_req_bytes \<lparr>cq_header = msg_header GET_COLLATERAL_REQ buf_size 0,
              cq_fsmpc_size = fsmpc_size, cq_pckca_size = pckca_size, fsmpc_pckca = tail2\<rparr>))))"

definition qgs_msg_inflate_get_collateral_req ::
  "byte list option \<Rightarrow> u32 \<Rightarrow> bool \<Rightarrow> (slice \<times> slice) qgs_outcome" where
  "qgs_msg_inflate_get_collateral_req p_serialized_req sz outs =
     (if p_serialized_req = None \<or> sz = 0 then Bad QGS_MSG_ERROR_INVALID_PARAMETER
      else if \<not> outs then Bad QGS_MSG_ERROR_INVALID_PARAMETER
      else if unat sz < sizeof_get_collateral_req then Bad QGS_MSG_ERROR_INVALID_PARAMETER
      else if length (obj p_serialized_req) < sizeof_get_collateral_req then Fault
      else let r = collateral_req_of (obj p_serialized_req); h = cq_header r in
        if h_major_version h \<noteq> QGS_MSG_LIB_MAJOR_VER then Bad QGS_MSG_ERROR_INVALID_VERSION
        else if h_type h \<noteq> msg_type GET_COLLATERAL_REQ then Bad QGS_MSG_ERROR_INVALID_TYPE
        else if h_size h \<noteq> sz then Bad QGS_MSG_ERROR_INVALID_SIZE
        else if h_error_code h \<noteq> 0 then Bad QGS_MSG_ERROR_INVALID_CODE
        else if cq_fsmpc_size r = 0 \<or> cq_pckca_size r = 0 then Bad QGS_MSG_ERROR_INVALID_SIZE
        else let temp = (word_of_nat sizeof_get_collateral_req :: u64) + ucast (cq_fsmpc_size r)
                        + ucast (cq_pckca_size r) in
          if temp \<ge> UINT32_MAX then Bad QGS_MSG_ERROR_UNEXPECTED
          else if ucast (h_size h) \<noteq> temp then Bad QGS_MSG_ERROR_INVALID_SIZE
          else Good ((Some sizeof_get_collateral_req, cq_fsmpc_size r),
            (Some (sizeof_get_collateral_req + unat (cq_fsmpc_size r)), cq_pckca_size r)))"

section \<open>Error response and type query\<close>

definition qgs_msg_gen_error_resp :: "u32 \<Rightarrow> u32 \<Rightarrow> bool \<Rightarrow> bool \<Rightarrow> byte list qgs_outcome" where
  "qgs_msg_gen_error_resp error_code type outs mem =
     (if error_code = QGS_MSG_SUCCESS then Bad QGS_MSG_ERROR_INVALID_PARAMETER
      else if \<not> outs then Bad QGS_MSG_ERROR_INVALID_PARAMETER
      else let reply = (\<lambda>buf_size :: nat.
          if \<not> mem then Bad QGS_MSG_ERROR_OUT_OF_MEMORY
          else Good (header_bytes \<lparr>h_major_version = QGS_MSG_LIB_MAJOR_VER,
                 h_minor_version = QGS_MSG_LIB_MINOR_VER, h_type = type,
                 h_size = word_of_nat buf_size, h_error_code = error_code\<rparr>
               @ replicate (buf_size - sizeof_header) 0)) in
        if type = msg_type GET_QUOTE_RESP then reply sizeof_get_quote_resp
        else if type = msg_type GET_COLLATERAL_RESP then reply sizeof_get_collateral_resp
        else if type = msg_type GET_PLATFORM_INFO_RESP then reply sizeof_get_platform_info_resp
        else Bad QGS_MSG_ERROR_INVALID_TYPE)"

definition qgs_msg_get_type :: "byte list \<Rightarrow> u32 \<Rightarrow> u32 qgs_outcome" where
  "qgs_msg_get_type p_serialized_msg sz =
     (if unat sz < sizeof_header then Bad QGS_MSG_ERROR_INVALID_PARAMETER
      else if length p_serialized_msg < sizeof_header then Fault
      else let h = header_of p_serialized_msg in
        if h_major_version h \<noteq> QGS_MSG_LIB_MAJOR_VER then Bad QGS_MSG_ERROR_INVALID_VERSION
        else if h_type h \<ge> QGS_MSG_TYPE_MAX then Bad QGS_MSG_ERROR_INVALID_VERSION
        else Good (h_type h))"

section \<open>Platform information\<close>

definition qgs_msg_gen_get_platform_info_req :: "bool \<Rightarrow> bool \<Rightarrow> byte list qgs_outcome" where
  "qgs_msg_gen_get_platform_info_req outs mem =
     (if \<not> outs then Bad QGS_MSG_ERROR_INVALID_PARAMETER
      else if \<not> mem then Bad QGS_MSG_ERROR_OUT_OF_MEMORY
      else Good (platform_info_req_bytes \<lparr>pq_header =
             msg_header GET_PLATFORM_INFO_REQ (word_of_nat sizeof_get_platform_info_req) 0\<rparr>))"

definition qgs_msg_inflate_get_platform_info_req :: "byte list option \<Rightarrow> u32 \<Rightarrow> unit qgs_outcome" where
  "qgs_msg_inflate_get_platform_info_req p_serialized_req sz =
     (if p_serialized_req = None \<or> sz = 0 then Bad QGS_MSG_ERROR_INVALID_PARAMETER
      else if unat sz < sizeof_get_platform_info_req then Bad QGS_MSG_ERROR_INVALID_PARAMETER
      else if length (obj p_serialized_req) < sizeof_get_platform_info_req then Fault
      else let h = header_of (obj p_serialized_req) in
        if h_major_version h \<noteq> QGS_MSG_LIB_MAJOR_VER then Bad QGS_MSG_ERROR_INVALID_VERSION
        else if h_type h \<noteq> msg_type GET_PLATFORM_INFO_REQ then Bad QGS_MSG_ERROR_INVALID_TYPE
        else if h_size h \<noteq> sz then Bad QGS_MSG_ERROR_INVALID_SIZE
        else if h_error_code h \<noteq> 0 then Bad QGS_MSG_ERROR_INVALID_CODE
        else Good ())"

text \<open>
  The payload sizes are added as 32-bit values (\<open>platform_id_size + cpusvn_size\<close>) before they
  are widened into \<open>temp\<close>, as in the source.
\<close>

definition qgs_msg_gen_get_platform_info_resp ::
  "u16 \<Rightarrow> u16 \<Rightarrow> byte list option \<Rightarrow> u32 \<Rightarrow> byte list option \<Rightarrow> u32 \<Rightarrow> bool \<Rightarrow> bool
     \<Rightarrow> byte list qgs_outcome" where
  "qgs_msg_gen_get_platform_info_resp tdqe_isvsvn pce_isvsvn p_platform_id platform_id_size
       p_cpusvn cpusvn_size outs mem =
     (if \<not> outs then Bad QGS_MSG_ERROR_INVALID_PARAMETER
      else if p_platform_id = None \<or> platform_id_size = 0 then Bad QGS_MSG_ERROR_INVALID_PARAMETER
      else if p_cpusvn = None \<or> cpusvn_size = 0 then Bad QGS_MSG_ERROR_INVALID_PARAMETER
      else let temp = (2 + 2 + word_of_nat sizeof_get_platform_info_resp :: u64)
                      + ucast (platform_id_size + cpusvn_size) in
        if \<not> temp < UINT32_MAX then Bad QGS_MSG_ERROR_UNEXPECTED
        else let buf_size = (ucast temp :: u32) in
          if \<not> mem then Bad QGS_MSG_ERROR_OUT_OF_MEMORY
          else let tail0 = replicate (unat buf_size - sizeof_get_platform_info_resp) 0 in
            obind (memcpy tail0 0 (obj p_platform_id) 0 (unat platform_id_size)) (\<lambda>tail1.
            obind (memcpy tail1 (unat platform_id_size) (obj p_cpusvn) 0 (unat cpusvn_size)) (\<lambda>tail2.
            Good (platform_info_resp_bytes
              \<lparr>pr_header = msg_header GET_PLATFORM_INFO_RESP buf_size QGS_MSG_SUCCESS,
               pr_tdqe_isvsvn = tdqe_isvsvn, pr_pce_isvsvn = pce_isvsvn,
               pr_platform_id_size = platform_id_size, pr_cpusvn_size = cpusvn_size,
               platform_id_cpusvn = tail2\<rparr>))))"

definition qgs_msg_inflate_get_platform_info_resp ::
  "byte list option \<Rightarrow> u32 \<Rightarrow> bool \<Rightarrow> (u16 \<times> u16 \<times> slice \<times> slice) qgs_outcome" where
  "qgs_msg_inflate_get_platform_info_resp p_serialized_resp sz outs =
     (if p_serialized_resp = None \<or> sz = 0 then Bad QGS_MSG_ERROR_INVALID_PARAMETER
      else if \<not> outs then Bad QGS_MSG_ERROR_INVALID_PARAMETER
      else if unat sz < sizeof_get_platform_info_resp then Bad QGS_MSG_ERROR_INVALID_PARAMETER
      else if length (obj p_serialized_resp) < sizeof_get_platform_info_resp then Fault
      else let r = platform_info_resp_of (obj p_serialized_resp); h = pr_header r in
        if h_major_version h \<noteq> QGS_MSG_LIB_MAJOR_VER then Bad QGS_MSG_ERROR_INVALID_VERSION
        else if h_type h \<noteq> msg_type GET_PLATFORM_INFO_RESP then Bad QGS_MSG_ERROR_INVALID_TYPE
        else if h_size h \<noteq> sz then Bad QGS_MSG_ERROR_INVALID_SIZE
        else let temp = (2 + 2 + word_of_nat sizeof_get_platform_info_resp :: u64)
                        + ucast (pr_platform_id_size r) + ucast (pr_cpusvn_size r) in
          if temp \<ge> UINT32_MAX then Bad QGS_MSG_ERROR_UNEXPECTED
          else if ucast (h_size h) \<noteq> temp then Bad QGS_MSG_ERROR_INVALID_SIZE
          else if h_error_code h = QGS_MSG_SUCCESS then
            (if pr_platform_id_size r = 0 \<or> pr_cpusvn_size r = 0
             then Bad QGS_MSG_ERROR_INVALID_SIZE
             else Good (pr_tdqe_isvsvn r, pr_pce_isvsvn r,
               (Some sizeof_get_platform_info_resp, pr_platform_id_size r),
               (Some (sizeof_get_platform_info_resp + unat (pr_platform_id_size r)), pr_cpusvn_size r)))
          else if h_error_code h < QGS_MSG_ERROR_MAX then
            (if pr_platform_id_size r \<noteq> 0 \<or> pr_cpusvn_size r \<noteq> 0
             then Bad QGS_MSG_ERROR_INVALID_SIZE
             else Good (0, 0, (None, 0), (None, 0)))
          else Bad QGS_MSG_ERROR_INVALID_CODE)"


section \<open>Collateral response\<close>

text \<open>
  \<open>put_collateral upd (p, sz)\<close> is one \<open>if (size) { size field = ...; memcpy; p_ptr += size }\<close>
  of the generator; the state is the structure and the cursor \<open>p_ptr\<close> into its array.
\<close>

type_synonym blob = "byte list option \<times> u32"

definition put_collateral ::
  "((u32 \<Rightarrow> u32) \<Rightarrow> qgs_msg_get_collateral_resp_t \<Rightarrow> qgs_msg_get_collateral_resp_t) \<Rightarrow> blob
     \<Rightarrow> qgs_msg_get_collateral_resp_t \<times> nat \<Rightarrow> (qgs_msg_get_collateral_resp_t \<times> nat) qgs_outcome" where
  "put_collateral upd b st =
     (let (p, sz) = b; (r, cur) = st in
      if sz \<noteq> 0 then
        obind (memcpy (collaterals r) cur (obj p) 0 (unat sz)) (\<lambda>t.
        Good ((upd (\<lambda>_. sz) r)\<lparr>collaterals := t\<rparr>, cur + unat sz))
      else Good (r, cur))"

definition missing :: "blob \<Rightarrow> bool" where
  "missing b \<longleftrightarrow> fst b = None \<or> snd b = 0"

definition qgs_msg_gen_get_collateral_resp ::
  "u16 \<Rightarrow> u16 \<Rightarrow> blob \<Rightarrow> blob \<Rightarrow> blob \<Rightarrow> blob \<Rightarrow> blob \<Rightarrow> blob \<Rightarrow> blob \<Rightarrow> bool
     \<Rightarrow> qgs_msg_header_t \<Rightarrow> bool \<Rightarrow> byte list qgs_outcome" where
  "qgs_msg_gen_get_collateral_resp major_version minor_version pck_crl_issuer_chain root_ca_crl
       pck_crl tcb_info_issuer_chain tcb_info qe_identity_issuer_chain qe_identity outs
       p_req_header mem =
     (if \<not> outs then Bad QGS_MSG_ERROR_INVALID_PARAMETER
      else if missing pck_crl_issuer_chain \<or> missing root_ca_crl \<or> missing pck_crl
              \<or> missing tcb_info_issuer_chain \<or> missing tcb_info
              \<or> missing qe_identity_issuer_chain \<or> missing qe_identity
      then Bad QGS_MSG_ERROR_INVALID_PARAMETER
      else if h_major_version p_req_header \<noteq> QGS_MSG_LIB_MAJOR_VER
      then Bad QGS_MSG_ERROR_INVALID_VERSION
      else let base = (if h_minor_version p_req_header = 0
                       then 2 + 2 + word_of_nat sizeof_get_collateral_resp
                       else word_of_nat sizeof_get_collateral_resp :: u64);
               temp = base + ucast (snd pck_crl_issuer_chain) + ucast (snd root_ca_crl)
                      + ucast (snd pck_crl) + ucast (snd tcb_info_issuer_chain)
                      + ucast (snd tcb_info) + ucast (snd qe_identity_issuer_chain)
                      + ucast (snd qe_identity) in
        if \<not> temp < UINT32_MAX then Bad QGS_MSG_ERROR_UNEXPECTED
        else let buf_size = (ucast temp :: u32) in
          if \<not> mem then Bad QGS_MSG_ERROR_OUT_OF_MEMORY
          else let r0 = \<lparr>cr_header = msg_header GET_COLLATERAL_RESP buf_size QGS_MSG_SUCCESS,
                 cr_major_version = major_version, cr_minor_version = minor_version,
                 cr_pck_crl_issuer_chain_size = 0, cr_root_ca_crl_size = 0, cr_pck_crl_size = 0,
                 cr_tcb_info_issuer_chain_size = 0, cr_tcb_info_size = 0,
                 cr_qe_identity_issuer_chain_size = 0, cr_qe_identity_size = 0,
                 collaterals = replicate (unat buf_size - sizeof_get_collateral_resp) 0\<rparr> in
            obind (put_collateral cr_pck_crl_issuer_chain_size_update pck_crl_issuer_chain (r0, 0)) (\<lambda>s1.
            obind (put_collateral cr_root_ca_crl_size_update root_ca_crl s1) (\<lambda>s2.
            obind (put_collateral cr_pck_crl_size_update pck_crl s2) (\<lambda>s3.
            obind (put_collateral cr_tcb_info_issuer_chain_size_update tcb_info_issuer_chain s3) (\<lambda>s4.
            obind (put_collateral cr_tcb_info_size_update tcb_info s4) (\<lambda>s5.
            obind (put_collateral cr_qe_identity_issuer_chain_size_update qe_identity_issuer_chain s5) (\<lambda>s6.
            obind (if snd root_ca_crl \<noteq> 0
                   then obind (memcpy (collaterals (fst s6)) (snd s6) (obj (fst qe_identity)) 0
                                 (unat (snd qe_identity))) (\<lambda>t.
                        Good ((fst s6)\<lparr>cr_qe_identity_size := snd qe_identity, collaterals := t\<rparr>))
                   else Good (fst s6)) (\<lambda>r.
            Good (collateral_resp_bytes r)))))))))"

record collateral_view =
  cv_major_version :: u16
  cv_minor_version :: u16
  cv_pck_crl_issuer_chain :: slice
  cv_root_ca_crl :: slice
  cv_pck_crl :: slice
  cv_tcb_info_issuer_chain :: slice
  cv_tcb_info :: slice
  cv_qe_identity_issuer_chain :: slice
  cv_qe_identity :: slice

definition no_collateral :: collateral_view where
  "no_collateral = \<lparr>cv_major_version = 0, cv_minor_version = 0,
     cv_pck_crl_issuer_chain = (None, 0), cv_root_ca_crl = (None, 0), cv_pck_crl = (None, 0),
     cv_tcb_info_issuer_chain = (None, 0), cv_tcb_info = (None, 0),
     cv_qe_identity_issuer_chain = (None, 0), cv_qe_identity = (None, 0)\<rparr>"

definition qgs_msg_inflate_get_collateral_resp ::
  "byte list option \<Rightarrow> u32 \<Rightarrow> bool \<Rightarrow> collateral_view qgs_outcome" where
  "qgs_msg_inflate_get_collateral_resp p_serialized_resp sz outs =
     (if p_serialized_resp = None \<or> sz = 0 then Bad QGS_MSG_ERROR_INVALID_PARAMETER
      else if \<not> outs then Bad QGS_MSG_ERROR_INVALID_PARAMETER
      else if unat sz < sizeof_get_collateral_resp then Bad QGS_MSG_ERROR_INVALID_PARAMETER
      else if length (obj p_serialized_resp) < sizeof_get_collateral_resp then Fault
      else let r = collateral_resp_of (obj p_serialized_resp); h = cr_header r in
        if h_major_version h \<noteq> QGS_MSG_LIB_MAJOR_VER then Bad QGS_MSG_ERROR_INVALID_VERSION
        else if h_type h \<noteq> msg_type GET_COLLATERAL_RESP then Bad QGS_MSG_ERROR_INVALID_TYPE
        else if h_size h \<noteq> sz then Bad QGS_MSG_ERROR_INVALID_SIZE
        else let base = (if h_minor_version h = 0
                         then word_of_nat sizeof_get_collateral_resp + 2 + 2
                         else word_of_nat sizeof_get_collateral_resp :: u64);
                 temp = base + ucast (cr_pck_crl_issuer_chain_size r) + ucast (cr_root_ca_crl_size r)
                        + ucast (cr_pck_crl_size r) + ucast (cr_tcb_info_issuer_chain_size r)
                        + ucast (cr_tcb_info_size r) + ucast (cr_qe_identity_issuer_chain_size r)
                        + ucast (cr_qe_identity_size r) in
          if temp \<ge> UINT32_MAX then Bad QGS_MSG_ERROR_UNEXPECTED
          else if ucast (h_size h) \<noteq> temp then Bad QGS_MSG_ERROR_INVALID_SIZE
          else if h_error_code h = QGS_MSG_SUCCESS then
            (if cr_pck_crl_issuer_chain_size r = 0 \<or> cr_root_ca_crl_size r = 0
                \<or> cr_pck_crl_size r = 0 \<or> cr_tcb_info_issuer_chain_size r = 0
                \<or> cr_tcb_info_size r = 0 \<or> cr_qe_identity_issuer_chain_size r = 0
                \<or> cr_qe_identity_size r = 0
             then Bad QGS_MSG_ERROR_INVALID_SIZE
             else let o1 = sizeof_get_collateral_resp;
                      o2 = o1 + unat (cr_pck_crl_issuer_chain_size r);
                      o3 = o2 + unat (cr_root_ca_crl_size r);
                      o4 = o3 + unat (cr_pck_crl_size r);
                      o5 = o4 + unat (cr_tcb_info_issuer_chain_size r);
                      o6 = o5 + unat (cr_tcb_info_size r);
                      o7 = o6 + unat (cr_qe_identity_issuer_chain_size r) in
               Good \<lparr>cv_major_version = cr_major_version r, cv_minor_version = cr_minor_version r,
                 cv_pck_crl_issuer_chain = (Some o1, cr_pck_crl_issuer_chain_size r),
                 cv_root_ca_crl = (Some o2, cr_root_ca_crl_size r),
                 cv_pck_crl = (Some o3, cr_pck_crl_size r),
                 cv_tcb_info_issuer_chain = (Some o4, cr_tcb_info_issuer_chain_size r),
                 cv_tcb_info = (Some o5, cr_tcb_info_size r),
                 cv_qe_identity_issuer_chain = (Some o6, cr_qe_identity_issuer_chain_size r),
                 cv_qe_identity = (Some o7, cr_qe_identity_size r)\<rparr>)
          else if h_error_code h < QGS_MSG_ERROR_MAX then
            (if cr_pck_crl_issuer_chain_size r \<noteq> 0 \<or> cr_root_ca_crl_size r \<noteq> 0
                \<or> cr_pck_crl_size r \<noteq> 0 \<or> cr_tcb_info_issuer_chain_size r \<noteq> 0
                \<or> cr_tcb_info_size r \<noteq> 0 \<or> cr_qe_identity_issuer_chain_size r \<noteq> 0
                \<or> cr_qe_identity_size r \<noteq> 0
             then Bad QGS_MSG_ERROR_INVALID_SIZE
             else Good no_collateral)
          else Bad QGS_MSG_ERROR_INVALID_CODE)"

end
