(* ===== verification/Qgs_Codec.thy ===== *)
theory Qgs_Codec 
  imports Qgs_Ops
begin

text \<open>
  Correctness of the message library: when each inflate function accepts, what each generator
  writes, and the codec contract (locale \<open>msg_codec\<close>) that both sides of the protocol rely on,
  interpreted on the model of each message.
\<close>

lemma if_error_eq_Good:
  "(if c then Bad e else x) = Good v \<longleftrightarrow> \<not> c \<and> x = Good v"
  "(if c then Fault else x) = Good v \<longleftrightarrow> \<not> c \<and> x = Good v"
  "(if c then x else Bad e) = Good v \<longleftrightarrow> c \<and> x = Good v"
  by simp_all

section \<open>Sums of 32-bit sizes in 64 bits\<close>

lemma u64_sum2:
  fixes c :: u64 and a b :: u32
  assumes "unat c < 1099511627776"
  shows "unat (c + ucast a + ucast b) = unat c + unat a + unat b"
proof -
  have "unat c + unat a + unat b < 18446744073709551616"
    using assms unat_bounds(3) [of a] unat_bounds(3) [of b] by linarith
  moreover from this have "unat c + unat a < 18446744073709551616" by linarith
  ultimately show ?thesis by (simp add: unat_word_ariths)
qed

lemma u64_sum1:
  fixes c :: u64 and a :: u32
  assumes "unat c < 1099511627776"
  shows "unat (c + ucast a) = unat c + unat a"
proof -
  have "unat c + unat a < 18446744073709551616"
    using assms unat_bounds(3) [of a] by linarith
  then show ?thesis by (simp add: unat_word_ariths)
qed

lemma u64_sum7:
  fixes c :: u64 and a1 a2 a3 a4 a5 a6 a7 :: u32
  assumes "unat c < 4294967296"
  shows "unat (c + ucast a1 + ucast a2 + ucast a3 + ucast a4 + ucast a5 + ucast a6 + ucast a7)
    = unat c + unat a1 + unat a2 + unat a3 + unat a4 + unat a5 + unat a6 + unat a7"
proof -
  have "unat (c + ucast a1 + ucast a2) = unat c + unat a1 + unat a2"
    using assms by (intro u64_sum2) simp
  moreover from this have "unat (c + ucast a1 + ucast a2 + ucast a3 + ucast a4)
      = unat c + unat a1 + unat a2 + unat a3 + unat a4"
    using assms unat_bounds(3) [of a1] unat_bounds(3) [of a2] by (subst u64_sum2) linarith+
  moreover from this have "unat (c + ucast a1 + ucast a2 + ucast a3 + ucast a4 + ucast a5 + ucast a6)
      = unat c + unat a1 + unat a2 + unat a3 + unat a4 + unat a5 + unat a6"
    using assms unat_bounds(3) [of a1] unat_bounds(3) [of a2] unat_bounds(3) [of a3]
      unat_bounds(3) [of a4] by (subst u64_sum2) linarith+
  ultimately show ?thesis
    using assms unat_bounds(3) [of a1] unat_bounds(3) [of a2] unat_bounds(3) [of a3]
      unat_bounds(3) [of a4] unat_bounds(3) [of a5] unat_bounds(3) [of a6]
    by (subst u64_sum1) linarith+
qed

lemma inflate_get_quote_req_Good_iff:
  "qgs_msg_inflate_get_quote_req (Some buf) sz True = Good v \<longleftrightarrow>
     (let r = quote_req_of buf; h = rq_header r in
      24 \<le> length buf \<and> h_major_version h = QGS_MSG_LIB_MAJOR_VER \<and> h_type h = msg_type GET_QUOTE_REQ
      \<and> h_size h = sz \<and> h_error_code h = 0 \<and> rq_report_size r \<noteq> 0
      \<and> unat sz = 24 + unat (rq_report_size r) + unat (rq_id_list_size r) \<and> unat sz < 4294967295
      \<and> v = ((Some 24, rq_report_size r),
             (if rq_id_list_size r \<noteq> 0 then Some (24 + unat (rq_report_size r)) else None,
              rq_id_list_size r)))"
  by (auto simp: qgs_msg_inflate_get_quote_req_def Let_def word_le_nat_alt word_unat_eq_iff u64_sum2
      UINT32_MAX_def split: if_splits)

lemma inflate_get_quote_resp_Good_iff:
  "qgs_msg_inflate_get_quote_resp (Some buf) sz True = Good v \<longleftrightarrow>
     (let r = quote_resp_of buf; h = rs_header r; i = rs_selected_id_size r; q = rs_quote_size r in
      24 \<le> length buf \<and> h_major_version h = QGS_MSG_LIB_MAJOR_VER \<and> h_type h = msg_type GET_QUOTE_RESP
      \<and> h_size h = sz \<and> unat sz = 24 + unat i + unat q \<and> unat sz < 4294967295
      \<and> (if h_error_code h = QGS_MSG_SUCCESS
          then q \<noteq> 0 \<and> v = ((if i \<noteq> 0 then Some 24 else None, i), (Some (24 + unat i), q))
          else h_error_code h < QGS_MSG_ERROR_MAX \<and> i = 0 \<and> q = 0 \<and> v = ((None, 0), (None, 0))))"
  by (auto simp: qgs_msg_inflate_get_quote_resp_def Let_def word_le_nat_alt word_unat_eq_iff u64_sum2
      UINT32_MAX_def split: if_splits)

lemma inflate_get_collateral_req_Good_iff:
  "qgs_msg_inflate_get_collateral_req (Some buf) sz True = Good v \<longleftrightarrow>
     (let r = collateral_req_of buf; h = cq_header r; f = cq_fsmpc_size r; c = cq_pckca_size r in
      24 \<le> length buf \<and> h_major_version h = QGS_MSG_LIB_MAJOR_VER \<and> h_type h = msg_type GET_COLLATERAL_REQ
      \<and> h_size h = sz \<and> h_error_code h = 0 \<and> f \<noteq> 0 \<and> c \<noteq> 0
      \<and> unat sz = 24 + unat f + unat c \<and> unat sz < 4294967295
      \<and> v = ((Some 24, f), (Some (24 + unat f), c)))"
  by (auto simp: qgs_msg_inflate_get_collateral_req_def Let_def word_le_nat_alt word_unat_eq_iff u64_sum2
      UINT32_MAX_def split: if_splits)

lemma inflate_get_platform_info_resp_Good_iff:
  "qgs_msg_inflate_get_platform_info_resp (Some buf) sz True = Good v \<longleftrightarrow>
     (let r = platform_info_resp_of buf; h = pr_header r; i = pr_platform_id_size r; c = pr_cpusvn_size r in
      28 \<le> length buf \<and> h_major_version h = QGS_MSG_LIB_MAJOR_VER \<and> h_type h = msg_type GET_PLATFORM_INFO_RESP
      \<and> h_size h = sz \<and> unat sz = 32 + unat i + unat c \<and> unat sz < 4294967295
      \<and> (if h_error_code h = QGS_MSG_SUCCESS
          then i \<noteq> 0 \<and> c \<noteq> 0
            \<and> v = (pr_tdqe_isvsvn r, pr_pce_isvsvn r, (Some 28, i), (Some (28 + unat i), c))
          else h_error_code h < QGS_MSG_ERROR_MAX \<and> i = 0 \<and> c = 0
            \<and> v = (0, 0, (None, 0), (None, 0))))"
  by (auto simp: qgs_msg_inflate_get_platform_info_resp_def Let_def word_le_nat_alt word_unat_eq_iff u64_sum2
      UINT32_MAX_def split: if_splits)

lemma inflate_no_fault:
  "unat sz \<le> length buf \<Longrightarrow> qgs_msg_inflate_get_quote_req (Some buf) sz outs \<noteq> Fault"
  "unat sz \<le> length buf \<Longrightarrow> qgs_msg_inflate_get_quote_resp (Some buf) sz outs \<noteq> Fault"
  "unat sz \<le> length buf \<Longrightarrow> qgs_msg_inflate_get_collateral_req (Some buf) sz outs \<noteq> Fault"
  "unat sz \<le> length buf \<Longrightarrow> qgs_msg_inflate_get_collateral_resp (Some buf) sz outs \<noteq> Fault"
  "unat sz \<le> length buf \<Longrightarrow> qgs_msg_inflate_get_platform_info_resp (Some buf) sz outs \<noteq> Fault"
  by (simp_all add: qgs_msg_inflate_get_quote_req_def qgs_msg_inflate_get_quote_resp_def
    qgs_msg_inflate_get_collateral_req_def qgs_msg_inflate_get_collateral_resp_def
    qgs_msg_inflate_get_platform_info_resp_def Let_def)


lemma inflate_get_collateral_resp_Good_iff:
  "qgs_msg_inflate_get_collateral_resp (Some buf) sz True = Good v \<longleftrightarrow>
     (let r = collateral_resp_of buf; h = cr_header r;
          s1 = cr_pck_crl_issuer_chain_size r; s2 = cr_root_ca_crl_size r; s3 = cr_pck_crl_size r;
          s4 = cr_tcb_info_issuer_chain_size r; s5 = cr_tcb_info_size r;
          s6 = cr_qe_identity_issuer_chain_size r; s7 = cr_qe_identity_size r;
          o2 = 48 + unat s1; o3 = o2 + unat s2; o4 = o3 + unat s3; o5 = o4 + unat s4;
          o6 = o5 + unat s5; o7 = o6 + unat s6 in
      48 \<le> length buf \<and> h_major_version h = QGS_MSG_LIB_MAJOR_VER
      \<and> h_type h = msg_type GET_COLLATERAL_RESP \<and> h_size h = sz
      \<and> unat sz = (if h_minor_version h = 0 then 4 else 0) + o7 + unat s7 \<and> unat sz < 4294967295
      \<and> (if h_error_code h = QGS_MSG_SUCCESS
          then s1 \<noteq> 0 \<and> s2 \<noteq> 0 \<and> s3 \<noteq> 0 \<and> s4 \<noteq> 0 \<and> s5 \<noteq> 0 \<and> s6 \<noteq> 0 \<and> s7 \<noteq> 0
            \<and> v = \<lparr>cv_major_version = cr_major_version r, cv_minor_version = cr_minor_version r,
                 cv_pck_crl_issuer_chain = (Some 48, s1), cv_root_ca_crl = (Some o2, s2),
                 cv_pck_crl = (Some o3, s3), cv_tcb_info_issuer_chain = (Some o4, s4),
                 cv_tcb_info = (Some o5, s5), cv_qe_identity_issuer_chain = (Some o6, s6),
                 cv_qe_identity = (Some o7, s7)\<rparr>
          else h_error_code h < QGS_MSG_ERROR_MAX \<and> v = no_collateral
            \<and> s1 = 0 \<and> s2 = 0 \<and> s3 = 0 \<and> s4 = 0 \<and> s5 = 0 \<and> s6 = 0 \<and> s7 = 0))"
proof -
  define r where "r = collateral_resp_of buf"
  define T where "T = (if h_minor_version (cr_header r) = 0
      then word_of_nat sizeof_get_collateral_resp + 2 + 2
      else word_of_nat sizeof_get_collateral_resp :: u64)
      + ucast (cr_pck_crl_issuer_chain_size r) + ucast (cr_root_ca_crl_size r)
      + ucast (cr_pck_crl_size r) + ucast (cr_tcb_info_issuer_chain_size r)
      + ucast (cr_tcb_info_size r) + ucast (cr_qe_identity_issuer_chain_size r)
      + ucast (cr_qe_identity_size r)"
  have T: "unat T = (if h_minor_version (cr_header r) = 0 then 52 else 48)
      + unat (cr_pck_crl_issuer_chain_size r) + unat (cr_root_ca_crl_size r)
      + unat (cr_pck_crl_size r) + unat (cr_tcb_info_issuer_chain_size r)
      + unat (cr_tcb_info_size r) + unat (cr_qe_identity_issuer_chain_size r)
      + unat (cr_qe_identity_size r)"
    unfolding T_def by (subst u64_sum7) simp_all
  have max: "UINT32_MAX \<le> T \<longleftrightarrow> 4294967295 \<le> unat T"
    by (simp add: word_le_nat_alt UINT32_MAX_def)
  have eq: "ucast s = T \<longleftrightarrow> unat s = unat T" for s :: u32
    by (simp add: word_unat_eq_iff)
  show ?thesis
    unfolding qgs_msg_inflate_get_collateral_resp_def Let_def obj_simps r_def [symmetric]
      T_def [symmetric] if_error_eq_Good max eq
    by (auto simp: T split: if_split)
qed

section \<open>What the generators write\<close>

definition ptr :: "byte list \<Rightarrow> byte list option" where
  "ptr bs = (if bs = [] then None else Some bs)"

lemma obj_ptr [simp]: "obj (ptr bs) = bs"
  by (simp add: ptr_def)

lemma ptr_None_iff [simp]: "ptr bs = None \<longleftrightarrow> bs = []"
  by (simp add: ptr_def)

lemma sum2_fits:
  fixes c :: u64
  assumes "unat c + na + nb < 4294967295" and "na < 4294967296" and "nb < 4294967296"
  defines "t \<equiv> c + ucast (size32 na) + ucast (size32 nb)"
  shows "t < UINT32_MAX" and "(ucast t :: u32) = size32 (unat c + na + nb)"
    and "unat (ucast t :: u32) = unat c + na + nb"
proof -
  have t: "unat t = unat c + na + nb"
    using assms(1-3) by (simp add: t_def u64_sum2)
  then show "t < UINT32_MAX" using assms(1) by (simp add: word_less_nat_alt UINT32_MAX_def)
  show "unat (ucast t :: u32) = unat c + na + nb" using t assms(1) by (simp add: unat_ucast_64_32)
  then show "(ucast t :: u32) = size32 (unat c + na + nb)" by (metis size32_unat)
qed

definition ser_quote_req :: "byte list \<times> byte list \<Rightarrow> byte list" where
  "ser_quote_req m = (case m of (rep, ids) \<Rightarrow> quote_req_bytes
     \<lparr>rq_header = msg_header GET_QUOTE_REQ (size32 (24 + length rep + length ids)) 0,
      rq_report_size = len32 rep, rq_id_list_size = len32 ids, report_id_list = rep @ ids\<rparr>)"

definition ser_quote_resp :: "byte list \<times> byte list \<Rightarrow> byte list" where
  "ser_quote_resp m = (case m of (i, q) \<Rightarrow> quote_resp_bytes
     \<lparr>rs_header = msg_header GET_QUOTE_RESP (size32 (24 + length i + length q)) QGS_MSG_SUCCESS,
      rs_selected_id_size = len32 i, rs_quote_size = len32 q, id_quote = i @ q\<rparr>)"

definition ser_collateral_req :: "byte list \<times> byte list \<Rightarrow> byte list" where
  "ser_collateral_req m = (case m of (f, c) \<Rightarrow> collateral_req_bytes
     \<lparr>cq_header = msg_header GET_COLLATERAL_REQ (size32 (24 + length f + length c)) 0,
      cq_fsmpc_size = len32 f, cq_pckca_size = len32 c, fsmpc_pckca = f @ c\<rparr>)"

lemma gen_get_quote_req_ok:
  assumes "rep \<noteq> []" "24 + length rep + length ids < 4294967295"
  shows "qgs_msg_gen_get_quote_req (Some rep) (len32 rep) (ptr ids) (len32 ids) True True
    = Good (ser_quote_req (rep, ids))"
  using assms sum2_fits [of 24 "length rep" "length ids"]
  by (simp add: qgs_msg_gen_get_quote_req_def Let_def memcpy_cases ser_quote_req_def)

lemma gen_get_quote_resp_ok:
  assumes "q \<noteq> []" "24 + length i + length q < 4294967295"
  shows "qgs_msg_gen_get_quote_resp (ptr i) (len32 i) (Some q) (len32 q) True True
    = Good (ser_quote_resp (i, q))"
  using assms sum2_fits [of 24 "length i" "length q"]
  by (cases "i = []")
    (simp_all add: qgs_msg_gen_get_quote_resp_def Let_def memcpy_cases ser_quote_resp_def)

lemma gen_get_collateral_req_ok:
  assumes "f \<noteq> []" "c \<noteq> []" "24 + length f + length c < 4294967295"
  shows "qgs_msg_gen_get_collateral_req (Some f) (len32 f) (Some c) (len32 c) True True
    = Good (ser_collateral_req (f, c))"
  using assms sum2_fits [of 24 "length f" "length c"]
  by (simp add: qgs_msg_gen_get_collateral_req_def Let_def memcpy_cases ser_collateral_req_def)


lemma sum7_fits:
  fixes c :: u64
  assumes "unat c + n1 + n2 + n3 + n4 + n5 + n6 + n7 < 4294967295"
  defines "t \<equiv> c + ucast (size32 n1) + ucast (size32 n2)
    + ucast (size32 n3) + ucast (size32 n4) + ucast (size32 n5)
    + ucast (size32 n6) + ucast (size32 n7)"
  shows "t < UINT32_MAX" and "(ucast t :: u32) = size32 (unat c + n1 + n2 + n3 + n4 + n5 + n6 + n7)"
    and "unat (ucast t :: u32) = unat c + n1 + n2 + n3 + n4 + n5 + n6 + n7"
proof -
  have n: "n1 < 4294967296" "n2 < 4294967296" "n3 < 4294967296" "n4 < 4294967296"
    "n5 < 4294967296" "n6 < 4294967296" "n7 < 4294967296" and c: "unat c < 4294967296"
    using assms(1) by linarith+
  have t: "unat t = unat c + n1 + n2 + n3 + n4 + n5 + n6 + n7"
    unfolding t_def by (subst u64_sum7 [OF c]) (simp only: unat_size32 [OF n(1)]
      unat_size32 [OF n(2)] unat_size32 [OF n(3)] unat_size32 [OF n(4)]
      unat_size32 [OF n(5)] unat_size32 [OF n(6)] unat_size32 [OF n(7)])
  then show "t < UINT32_MAX" using assms(1) by (simp add: word_less_nat_alt UINT32_MAX_def)
  show "unat (ucast t :: u32) = unat c + n1 + n2 + n3 + n4 + n5 + n6 + n7"
    using t assms(1) by (simp only: unat_ucast_64_32 t) (rule mod_less, linarith)
  then show "(ucast t :: u32) = size32 (unat c + n1 + n2 + n3 + n4 + n5 + n6 + n7)"
    by (metis size32_unat)
qed

text \<open>The seven collaterals of a response, as the caller means them.\<close>

record collateral_data =
  cd_major_version :: u16
  cd_minor_version :: u16
  cd_pck_crl_issuer_chain :: "byte list"
  cd_root_ca_crl :: "byte list"
  cd_pck_crl :: "byte list"
  cd_tcb_info_issuer_chain :: "byte list"
  cd_tcb_info :: "byte list"
  cd_qe_identity_issuer_chain :: "byte list"
  cd_qe_identity :: "byte list"

fun cd_total :: "collateral_data \<Rightarrow> nat" where
  "cd_total d = length (cd_pck_crl_issuer_chain d) + length (cd_root_ca_crl d) + length (cd_pck_crl d)
     + length (cd_tcb_info_issuer_chain d) + length (cd_tcb_info d)
     + length (cd_qe_identity_issuer_chain d) + length (cd_qe_identity d)"

definition cd_complete :: "collateral_data \<Rightarrow> bool" where
  "cd_complete d \<longleftrightarrow> cd_pck_crl_issuer_chain d \<noteq> [] \<and> cd_root_ca_crl d \<noteq> [] \<and> cd_pck_crl d \<noteq> []
     \<and> cd_tcb_info_issuer_chain d \<noteq> [] \<and> cd_tcb_info d \<noteq> []
     \<and> cd_qe_identity_issuer_chain d \<noteq> [] \<and> cd_qe_identity d \<noteq> []"

definition ser_collateral_resp :: "collateral_data \<Rightarrow> byte list" where
  "ser_collateral_resp d = collateral_resp_bytes
     \<lparr>cr_header = msg_header GET_COLLATERAL_RESP (size32 (48 + cd_total d)) QGS_MSG_SUCCESS,
      cr_major_version = cd_major_version d, cr_minor_version = cd_minor_version d,
      cr_pck_crl_issuer_chain_size = len32 (cd_pck_crl_issuer_chain d),
      cr_root_ca_crl_size = len32 (cd_root_ca_crl d), cr_pck_crl_size = len32 (cd_pck_crl d),
      cr_tcb_info_issuer_chain_size = len32 (cd_tcb_info_issuer_chain d),
      cr_tcb_info_size = len32 (cd_tcb_info d),
      cr_qe_identity_issuer_chain_size = len32 (cd_qe_identity_issuer_chain d),
      cr_qe_identity_size = len32 (cd_qe_identity d),
      collaterals = cd_pck_crl_issuer_chain d @ cd_root_ca_crl d @ cd_pck_crl d
        @ cd_tcb_info_issuer_chain d @ cd_tcb_info d @ cd_qe_identity_issuer_chain d
        @ cd_qe_identity d\<rparr>"

definition blob_of :: "byte list \<Rightarrow> blob" where
  "blob_of bs = (Some bs, len32 bs)"

lemma blob_of_simps [simp]: "fst (blob_of bs) = Some bs" "snd (blob_of bs) = len32 bs"
  by (simp_all add: blob_of_def)

definition gen_collateral_resp :: "collateral_data \<Rightarrow> qgs_msg_header_t \<Rightarrow> byte list qgs_outcome" where
  "gen_collateral_resp d req = qgs_msg_gen_get_collateral_resp (cd_major_version d)
     (cd_minor_version d) (blob_of (cd_pck_crl_issuer_chain d)) (blob_of (cd_root_ca_crl d))
     (blob_of (cd_pck_crl d)) (blob_of (cd_tcb_info_issuer_chain d)) (blob_of (cd_tcb_info d))
     (blob_of (cd_qe_identity_issuer_chain d)) (blob_of (cd_qe_identity d)) True req True"

lemma gen_get_collateral_resp_ok:
  assumes c: "cd_complete d" and len: "48 + cd_total d < 4294967295"
    and req: "h_major_version req = QGS_MSG_LIB_MAJOR_VER" "h_minor_version req \<noteq> 0"
  shows "gen_collateral_resp d req = Good (ser_collateral_resp d)"
proof -
  have l: "length (cd_pck_crl_issuer_chain d) < 4294967296" "length (cd_root_ca_crl d) < 4294967296"
    "length (cd_pck_crl d) < 4294967296" "length (cd_tcb_info_issuer_chain d) < 4294967296"
    "length (cd_tcb_info d) < 4294967296" "length (cd_qe_identity_issuer_chain d) < 4294967296"
    "length (cd_qe_identity d) < 4294967296"
    using len by simp_all
  have ne: "cd_pck_crl_issuer_chain d \<noteq> []" "cd_root_ca_crl d \<noteq> []" "cd_pck_crl d \<noteq> []"
    "cd_tcb_info_issuer_chain d \<noteq> []" "cd_tcb_info d \<noteq> []" "cd_qe_identity_issuer_chain d \<noteq> []"
    "cd_qe_identity d \<noteq> []"
    using c by (simp_all add: cd_complete_def)
  let ?n = "48 + cd_total d"
  define T where "T = (48 :: u64) + ucast (len32 (cd_pck_crl_issuer_chain d))
     + ucast (len32 (cd_root_ca_crl d)) + ucast (len32 (cd_pck_crl d))
     + ucast (len32 (cd_tcb_info_issuer_chain d)) + ucast (len32 (cd_tcb_info d))
     + ucast (len32 (cd_qe_identity_issuer_chain d)) + ucast (len32 (cd_qe_identity d))"
  define B where "B = (ucast T :: u32)"
  have T: "T < UINT32_MAX" and BT: "B = size32 ?n" and B: "unat B = ?n"
    using len sum7_fits [of 48 "length (cd_pck_crl_issuer_chain d)" "length (cd_root_ca_crl d)"
      "length (cd_pck_crl d)" "length (cd_tcb_info_issuer_chain d)" "length (cd_tcb_info d)"
      "length (cd_qe_identity_issuer_chain d)" "length (cd_qe_identity d)"]
    by (simp_all only: T_def [symmetric] B_def [symmetric]) (simp_all add: add.assoc)
  show ?thesis
    unfolding gen_collateral_resp_def qgs_msg_gen_get_collateral_resp_def
      ser_collateral_resp_def BT [symmetric]
    using ne l req
    by (simp add: Let_def missing_def T_def [symmetric] T B_def [symmetric] B
        put_collateral_def blob_of_def memcpy_cases)
qed


text \<open>
  The platform information response: the payload needs the 32-bit sum of its sizes not to wrap.
  Four bytes of the buffer stay zero after the payload (the base counts the two versions twice).
\<close>

definition ser_platform_info_resp :: "u16 \<times> u16 \<times> byte list \<times> byte list \<Rightarrow> byte list" where
  "ser_platform_info_resp m = (case m of (tdqe, pce, pid, svn) \<Rightarrow> platform_info_resp_bytes
     \<lparr>pr_header = msg_header GET_PLATFORM_INFO_RESP (size32 (32 + length pid + length svn)) QGS_MSG_SUCCESS,
      pr_tdqe_isvsvn = tdqe, pr_pce_isvsvn = pce, pr_platform_id_size = len32 pid,
      pr_cpusvn_size = len32 svn, platform_id_cpusvn = pid @ svn @ replicate 4 0\<rparr>)"

lemma gen_get_platform_info_resp_ok:
  assumes "pid \<noteq> []" "svn \<noteq> []" "32 + length pid + length svn < 4294967295"
  shows "qgs_msg_gen_get_platform_info_resp tdqe pce (Some pid) (len32 pid) (Some svn) (len32 svn)
     True True = Good (ser_platform_info_resp (tdqe, pce, pid, svn))"
proof -
  let ?n = "32 + length pid + length svn"
  define T where "T = (32 :: u64) + ucast (len32 pid + len32 svn)"
  define B where "B = (ucast T :: u32)"
  have "unat (len32 pid + len32 svn) = length pid + length svn"
    using assms(3) by (simp add: unat_word_ariths)
  then have u: "unat T = ?n" by (simp add: T_def u64_sum1)
  then have T: "T < UINT32_MAX" using assms(3) by (simp add: word_less_nat_alt UINT32_MAX_def)
  have B: "unat B = ?n" using u assms(3) by (simp add: B_def unat_ucast_64_32)
  then have BT: "B = size32 ?n" by (metis size32_unat)
  show ?thesis
    unfolding ser_platform_info_resp_def qgs_msg_gen_get_platform_info_resp_def
    using assms
    by (simp add: Let_def T_def [symmetric] T B_def [symmetric] B memcpy_cases)
      (simp add: BT add.assoc)
qed

text \<open>With a wrapping sum the buffer is smaller than the first copy: an out-of-bounds write.\<close>

lemma gen_get_platform_info_resp_wraps:
  assumes "pid_size \<noteq> 0" "svn_size \<noteq> 0" "4294967296 \<le> unat pid_size + unat svn_size"
    and "unat pid_size + unat svn_size - 4294967296 + 32 < 4294967295"
    and "unat svn_size + 4 < 4294967296"
  shows "qgs_msg_gen_get_platform_info_resp tdqe pce (Some pid) pid_size (Some svn) svn_size
     True True = Fault"
proof -
  define T where "T = (32 :: u64) + ucast (pid_size + svn_size)"
  define B where "B = (ucast T :: u32)"
  have "unat (pid_size + svn_size) = (unat pid_size + unat svn_size) mod 4294967296"
    by (simp add: unat_word_ariths)
  also have "\<dots> = unat pid_size + unat svn_size - 4294967296"
  proof -
    have "unat pid_size + unat svn_size - 4294967296 < 4294967296" using assms(4) by linarith
    then show ?thesis using assms(3) by (metis le_mod_geq mod_less)
  qed
  finally have s: "unat (pid_size + svn_size) = unat pid_size + unat svn_size - 4294967296" .
  then have u: "unat T = 32 + (unat pid_size + unat svn_size - 4294967296)"
    by (simp add: T_def u64_sum1)
  then have T: "T < UINT32_MAX" using assms(4) by (simp add: word_less_nat_alt UINT32_MAX_def)
  have B: "unat B = 32 + (unat pid_size + unat svn_size - 4294967296)"
    using u assms(4) by (simp add: B_def unat_ucast_64_32)
  have "unat B - 28 < unat pid_size" using B assms(3,5) by linarith
  then have "memcpy (replicate (unat B - 28) 0) 0 pid 0 (unat pid_size)
      = (Fault :: byte list qgs_outcome)"
    by (simp add: memcpy_cases)
  then show ?thesis
    unfolding qgs_msg_gen_get_platform_info_resp_def
    using assms(1,2) by (simp add: Let_def T_def [symmetric] T B_def [symmetric])
qed

lemma length_ser [simp, layout_simps]:
  "length (ser_quote_req m) = 24 + length (fst m) + length (snd m)"
  "length (ser_quote_resp m) = 24 + length (fst m) + length (snd m)"
  "length (ser_collateral_req m) = 24 + length (fst m) + length (snd m)"
  "length (ser_collateral_resp d) = 48 + cd_total d"
  "length (ser_platform_info_resp p) = 32 + length (fst (snd (snd p))) + length (snd (snd (snd p)))"
  by (simp_all add: ser_quote_req_def ser_quote_resp_def ser_collateral_req_def
      ser_collateral_resp_def ser_platform_info_resp_def split: prod.split)

lemma drop_struct [simp, layout_simps]:
  "drop 24 (quote_req_bytes a) = report_id_list a"
  "drop 24 (quote_resp_bytes b) = id_quote b"
  "drop 24 (collateral_req_bytes c) = fsmpc_pckca c"
  "drop 48 (collateral_resp_bytes d) = collaterals d"
  "drop 28 (platform_info_resp_bytes e) = platform_id_cpusvn e"
  by (simp_all add: quote_req_bytes_def quote_resp_bytes_def collateral_req_bytes_def
      collateral_resp_bytes_def platform_info_resp_bytes_def header_bytes_def)

lemma drop_struct_plus [simp, layout_simps]:
  "drop (24 + k) (quote_req_bytes a) = drop k (report_id_list a)"
  "drop (24 + k) (quote_resp_bytes b) = drop k (id_quote b)"
  "drop (24 + k) (collateral_req_bytes c) = drop k (fsmpc_pckca c)"
  "drop (48 + k) (collateral_resp_bytes d) = drop k (collaterals d)"
  "drop (28 + k) (platform_info_resp_bytes e) = drop k (platform_id_cpusvn e)"
  by (simp_all only: add.commute [of _ k] drop_drop [symmetric] drop_struct)

section \<open>The codec contract\<close>

definition slice_bytes :: "byte list \<Rightarrow> slice \<Rightarrow> byte list option" where
  "slice_bytes buf s = (case fst s of None \<Rightarrow> Some [] | Some off \<Rightarrow> bread (unat (snd s)) off buf)"

fun view_pair :: "byte list \<Rightarrow> slice \<times> slice \<Rightarrow> (byte list \<times> byte list) option" where
  "view_pair buf (a, b) =
     (case (slice_bytes buf a, slice_bytes buf b) of
        (Some x, Some y) \<Rightarrow> Some (x, y) | _ \<Rightarrow> None)"

text \<open>
  A message on the wire is framed by its big-endian length (4 bytes), as the attestation
  library sends it.
\<close>

definition frame :: "byte list \<Rightarrow> byte list" where
  "frame bs = be32_bytes (len32 bs) @ bs"

definition frame_length :: "byte list \<Rightarrow> u32" where
  "frame_length buf = be32_fold 0 (take 4 buf)"

lemma frame_length_frame [simp]: "frame_length (frame bs @ junk) = len32 bs"
  by (simp add: frame_length_def frame_def be32_fold_bytes)

lemma drop_frame [simp]: "drop 4 (frame bs @ junk) = bs @ junk"
  by (simp add: frame_def)

locale msg_codec =
  fixes wf :: "'m \<Rightarrow> bool"
    and gen :: "'m \<Rightarrow> byte list qgs_outcome"
    and inflate :: "byte list \<Rightarrow> u32 \<Rightarrow> 'v qgs_outcome"
    and view :: "byte list \<Rightarrow> 'v \<Rightarrow> 'm option"
  assumes gen_total: "wf m \<Longrightarrow> \<exists>bs. gen m = Good bs \<and> 0 < length bs \<and> length bs < 4294967295"
    and inflate_gen: "wf m \<Longrightarrow> gen m = Good bs \<Longrightarrow>
      \<exists>v. inflate (bs @ junk) (len32 bs) = Good v \<and> view (bs @ junk) v = Some m"
    and inflate_safe: "unat n \<le> length buf \<Longrightarrow> inflate buf n \<noteq> Fault"
    and inflate_in_bounds: "inflate buf n = Good v \<Longrightarrow> unat n \<le> length buf \<Longrightarrow> view buf v \<noteq> None"
begin

lemma gen_injective: "wf m \<Longrightarrow> wf m' \<Longrightarrow> gen m = gen m' \<Longrightarrow> m = m'"
proof -
  assume wf: "wf m" "wf m'" and eq: "gen m = gen m'"
  from gen_total [OF wf(1)] obtain bs where bs: "gen m = Good bs" by blast
  from inflate_gen [OF wf(1) bs, of "[]"] obtain v
    where v: "inflate bs (len32 bs) = Good v" "view bs v = Some m" by auto
  from inflate_gen [OF wf(2), of bs "[]"] bs eq obtain v'
    where "inflate bs (len32 bs) = Good v'" "view bs v' = Some m'" by auto
  with v show "m = m'" by simp
qed

lemma framed_roundtrip:
  "wf m \<Longrightarrow> \<exists>bs v. gen m = Good bs \<and>
     inflate (drop 4 (frame bs @ junk)) (frame_length (frame bs @ junk)) = Good v \<and>
     view (drop 4 (frame bs @ junk)) v = Some m"
  using gen_total inflate_gen by (metis drop_frame frame_length_frame)

lemma received_view:
  "unat n \<le> length buf \<Longrightarrow>
     (\<exists>v m. inflate buf n = Good v \<and> view buf v = Some m) \<or> (\<exists>e. inflate buf n = Bad e)"
  using inflate_safe inflate_in_bounds by (cases "inflate buf n") fastforce+

end

definition wf_pair :: "byte list \<times> byte list \<Rightarrow> bool" where
  "wf_pair m \<longleftrightarrow> 24 + length (fst m) + length (snd m) < 4294967295"

definition gen_quote_req :: "byte list \<times> byte list \<Rightarrow> byte list qgs_outcome" where
  "gen_quote_req m = qgs_msg_gen_get_quote_req (Some (fst m)) (len32 (fst m)) (ptr (snd m))
     (len32 (snd m)) True True"

definition gen_quote_resp :: "byte list \<times> byte list \<Rightarrow> byte list qgs_outcome" where
  "gen_quote_resp m = qgs_msg_gen_get_quote_resp (ptr (fst m)) (len32 (fst m)) (Some (snd m))
     (len32 (snd m)) True True"

definition gen_collateral_req :: "byte list \<times> byte list \<Rightarrow> byte list qgs_outcome" where
  "gen_collateral_req m = qgs_msg_gen_get_collateral_req (Some (fst m)) (len32 (fst m))
     (Some (snd m)) (len32 (snd m)) True True"

lemma slice_bytes_in_bounds:
  "off + unat n \<le> length buf \<Longrightarrow> slice_bytes buf (Some off, n) \<noteq> None"
  "slice_bytes buf (None, n) \<noteq> None"
  by (simp_all add: slice_bytes_def bread_def)

lemma view_pair_eq_None: "view_pair buf v \<noteq> None \<longleftrightarrow>
    slice_bytes buf (fst v) \<noteq> None \<and> slice_bytes buf (snd v) \<noteq> None"
  by (cases v) (auto split: option.splits)

lemma msg_header_simps [simp]:
  "h_major_version (msg_header t sz e) = QGS_MSG_LIB_MAJOR_VER"
  "h_minor_version (msg_header t sz e) = QGS_MSG_LIB_MINOR_VER"
  "h_type (msg_header t sz e) = msg_type t"
  "h_size (msg_header t sz e) = sz" "h_error_code (msg_header t sz e) = e"
  by (simp_all add: msg_header_def)

lemmas codec_simps = Let_def slice_bytes_def bread_def view_pair_eq_None
  inflate_get_quote_req_Good_iff inflate_get_quote_resp_Good_iff
  inflate_get_collateral_req_Good_iff inflate_get_collateral_resp_Good_iff
  inflate_get_platform_info_resp_Good_iff

interpretation quote_req: msg_codec "\<lambda>m. fst m \<noteq> [] \<and> wf_pair m" gen_quote_req
    "\<lambda>buf n. qgs_msg_inflate_get_quote_req (Some buf) n True" view_pair
proof unfold_locales
  fix m :: "byte list \<times> byte list" and bs junk assume wf: "fst m \<noteq> [] \<and> wf_pair m"
  have g: "gen_quote_req m = Good (ser_quote_req m)"
    using wf by (cases m) (simp add: gen_quote_req_def wf_pair_def gen_get_quote_req_ok)
  then show "\<exists>bs. gen_quote_req m = Good bs \<and> 0 < length bs \<and> length bs < 4294967295"
    using wf by (simp add: wf_pair_def del: length_greater_0_conv)
  assume "gen_quote_req m = Good bs"
  with g have bs: "bs = ser_quote_req m" by simp
  show "\<exists>v. qgs_msg_inflate_get_quote_req (Some (bs @ junk)) (len32 bs) True = Good v
      \<and> view_pair (bs @ junk) v = Some m"
    using wf by (cases m) (simp add: bs codec_simps wf_pair_def, simp add: ser_quote_req_def bread_def)
next
  fix buf :: "byte list" and n v
  assume n: "unat (n :: u32) \<le> length buf"
  then show "qgs_msg_inflate_get_quote_req (Some buf) n True \<noteq> Fault"
    by (rule inflate_no_fault)
  assume "qgs_msg_inflate_get_quote_req (Some buf) n True = Good v"
  then show "view_pair buf v \<noteq> None"
    using n by (auto simp: codec_simps split: if_splits)
qed

interpretation quote_resp: msg_codec "\<lambda>m. snd m \<noteq> [] \<and> wf_pair m" gen_quote_resp
    "\<lambda>buf n. qgs_msg_inflate_get_quote_resp (Some buf) n True" view_pair
proof unfold_locales
  fix m :: "byte list \<times> byte list" and bs junk assume wf: "snd m \<noteq> [] \<and> wf_pair m"
  have g: "gen_quote_resp m = Good (ser_quote_resp m)"
    using wf by (cases m) (simp add: gen_quote_resp_def wf_pair_def gen_get_quote_resp_ok)
  then show "\<exists>bs. gen_quote_resp m = Good bs \<and> 0 < length bs \<and> length bs < 4294967295"
    using wf by (simp add: wf_pair_def del: length_greater_0_conv)
  assume "gen_quote_resp m = Good bs"
  with g have bs: "bs = ser_quote_resp m" by simp
  show "\<exists>v. qgs_msg_inflate_get_quote_resp (Some (bs @ junk)) (len32 bs) True = Good v
      \<and> view_pair (bs @ junk) v = Some m"
    using wf by (cases m) (simp add: bs codec_simps wf_pair_def, simp add: ser_quote_resp_def bread_def)
next
  fix buf :: "byte list" and n v
  assume n: "unat (n :: u32) \<le> length buf"
  then show "qgs_msg_inflate_get_quote_resp (Some buf) n True \<noteq> Fault"
    by (rule inflate_no_fault)
  assume "qgs_msg_inflate_get_quote_resp (Some buf) n True = Good v"
  then show "view_pair buf v \<noteq> None"
    using n by (auto simp: codec_simps split: if_splits)
qed

interpretation collateral_req: msg_codec "\<lambda>m. fst m \<noteq> [] \<and> snd m \<noteq> [] \<and> wf_pair m" gen_collateral_req
    "\<lambda>buf n. qgs_msg_inflate_get_collateral_req (Some buf) n True" view_pair
proof unfold_locales
  fix m :: "byte list \<times> byte list" and bs junk assume wf: "fst m \<noteq> [] \<and> snd m \<noteq> [] \<and> wf_pair m"
  have g: "gen_collateral_req m = Good (ser_collateral_req m)"
    using wf by (cases m) (simp add: gen_collateral_req_def wf_pair_def gen_get_collateral_req_ok)
  then show "\<exists>bs. gen_collateral_req m = Good bs \<and> 0 < length bs \<and> length bs < 4294967295"
    using wf by (simp add: wf_pair_def del: length_greater_0_conv)
  assume "gen_collateral_req m = Good bs"
  with g have bs: "bs = ser_collateral_req m" by simp
  show "\<exists>v. qgs_msg_inflate_get_collateral_req (Some (bs @ junk)) (len32 bs) True = Good v
      \<and> view_pair (bs @ junk) v = Some m"
    using wf by (cases m) (simp add: bs codec_simps wf_pair_def, simp add: ser_collateral_req_def bread_def)
next
  fix buf :: "byte list" and n v
  assume n: "unat (n :: u32) \<le> length buf"
  then show "qgs_msg_inflate_get_collateral_req (Some buf) n True \<noteq> Fault"
    by (rule inflate_no_fault)
  assume "qgs_msg_inflate_get_collateral_req (Some buf) n True = Good v"
  then show "view_pair buf v \<noteq> None"
    using n by (auto simp: codec_simps split: if_splits)
qed

fun view_platform_info ::
  "byte list \<Rightarrow> u16 \<times> u16 \<times> slice \<times> slice \<Rightarrow> (u16 \<times> u16 \<times> byte list \<times> byte list) option" where
  "view_platform_info buf (tdqe, pce, a, b) =
     (case view_pair buf (a, b) of None \<Rightarrow> None | Some (x, y) \<Rightarrow> Some (tdqe, pce, x, y))"

definition gen_platform_info_resp :: "u16 \<times> u16 \<times> byte list \<times> byte list \<Rightarrow> byte list qgs_outcome" where
  "gen_platform_info_resp m = (case m of (tdqe, pce, pid, svn) \<Rightarrow>
     qgs_msg_gen_get_platform_info_resp tdqe pce (Some pid) (len32 pid) (Some svn) (len32 svn) True True)"

definition wf_platform_info :: "u16 \<times> u16 \<times> byte list \<times> byte list \<Rightarrow> bool" where
  "wf_platform_info m \<longleftrightarrow> (case m of (_, _, pid, svn) \<Rightarrow>
     pid \<noteq> [] \<and> svn \<noteq> [] \<and> 32 + length pid + length svn < 4294967295)"

interpretation platform_info_resp: msg_codec wf_platform_info gen_platform_info_resp
    "\<lambda>buf n. qgs_msg_inflate_get_platform_info_resp (Some buf) n True" view_platform_info
proof unfold_locales
  fix m and bs junk assume wf: "wf_platform_info m"
  have g: "gen_platform_info_resp m = Good (ser_platform_info_resp m)"
    using wf by (cases m)
      (simp add: gen_platform_info_resp_def wf_platform_info_def gen_get_platform_info_resp_ok)
  then show "\<exists>bs. gen_platform_info_resp m = Good bs \<and> 0 < length bs \<and> length bs < 4294967295"
    using wf by (cases m) (simp add: wf_platform_info_def del: length_greater_0_conv)
  assume "gen_platform_info_resp m = Good bs"
  with g have bs: "bs = ser_platform_info_resp m" by simp
  show "\<exists>v. qgs_msg_inflate_get_platform_info_resp (Some (bs @ junk)) (len32 bs) True = Good v
      \<and> view_platform_info (bs @ junk) v = Some m"
    using wf by (cases m)
      (simp add: bs codec_simps wf_platform_info_def, simp add: ser_platform_info_resp_def bread_def)
next
  fix buf :: "byte list" and n v
  assume n: "unat (n :: u32) \<le> length buf"
  then show "qgs_msg_inflate_get_platform_info_resp (Some buf) n True \<noteq> Fault"
    by (rule inflate_no_fault)
  assume "qgs_msg_inflate_get_platform_info_resp (Some buf) n True = Good v"
  then show "view_platform_info buf v \<noteq> None"
    using n by (auto simp: codec_simps split: if_splits)
qed

definition view_collateral :: "byte list \<Rightarrow> collateral_view \<Rightarrow> collateral_data option" where
  "view_collateral buf v =
     Option.bind (slice_bytes buf (cv_pck_crl_issuer_chain v)) (\<lambda>c1.
     Option.bind (slice_bytes buf (cv_root_ca_crl v)) (\<lambda>c2.
     Option.bind (slice_bytes buf (cv_pck_crl v)) (\<lambda>c3.
     Option.bind (slice_bytes buf (cv_tcb_info_issuer_chain v)) (\<lambda>c4.
     Option.bind (slice_bytes buf (cv_tcb_info v)) (\<lambda>c5.
     Option.bind (slice_bytes buf (cv_qe_identity_issuer_chain v)) (\<lambda>c6.
     Option.bind (slice_bytes buf (cv_qe_identity v)) (\<lambda>c7.
     Some \<lparr>cd_major_version = cv_major_version v, cd_minor_version = cv_minor_version v,
       cd_pck_crl_issuer_chain = c1, cd_root_ca_crl = c2, cd_pck_crl = c3,
       cd_tcb_info_issuer_chain = c4, cd_tcb_info = c5, cd_qe_identity_issuer_chain = c6,
       cd_qe_identity = c7\<rparr>)))))))"

definition wf_collateral :: "collateral_data \<Rightarrow> bool" where
  "wf_collateral d \<longleftrightarrow> cd_complete d \<and> 48 + cd_total d < 4294967295"

text \<open>The header of a collateral request of this version of the library.\<close>

abbreviation this_version_request :: qgs_msg_header_t where
  "this_version_request \<equiv> msg_header GET_COLLATERAL_REQ 0 0"

interpretation collateral_resp: msg_codec wf_collateral "\<lambda>d. gen_collateral_resp d this_version_request"
    "\<lambda>buf n. qgs_msg_inflate_get_collateral_resp (Some buf) n True" view_collateral
proof unfold_locales
  fix m and bs junk assume wf: "wf_collateral m"
  have g: "gen_collateral_resp m this_version_request = Good (ser_collateral_resp m)"
    using wf by (simp add: wf_collateral_def gen_get_collateral_resp_ok QGS_MSG_LIB_MINOR_VER_def
        del: cd_total.simps)
  then show "\<exists>bs. gen_collateral_resp m this_version_request = Good bs \<and> 0 < length bs
      \<and> length bs < 4294967295"
    using wf by (simp add: wf_collateral_def del: length_greater_0_conv cd_total.simps)
  assume "gen_collateral_resp m this_version_request = Good bs"
  with g have bs: "bs = ser_collateral_resp m" by simp
  show "\<exists>v. qgs_msg_inflate_get_collateral_resp (Some (bs @ junk)) (len32 bs) True = Good v
      \<and> view_collateral (bs @ junk) v = Some m"
    using wf
    by (simp add: bs codec_simps wf_collateral_def cd_complete_def QGS_MSG_LIB_MINOR_VER_def)
      (simp add: ser_collateral_resp_def view_collateral_def slice_bytes_def bread_def add.assoc
        QGS_MSG_LIB_MINOR_VER_def)
next
  fix buf :: "byte list" and n v
  assume n: "unat (n :: u32) \<le> length buf"
  then show "qgs_msg_inflate_get_collateral_resp (Some buf) n True \<noteq> Fault"
    by (rule inflate_no_fault)
  assume "qgs_msg_inflate_get_collateral_resp (Some buf) n True = Good v"
  then show "view_collateral buf v \<noteq> None"
    using n by (auto simp: codec_simps view_collateral_def no_collateral_def split: if_splits)
qed

end
