(* ===== verification/Tdx_Types.thy ===== *)
theory Tdx_Types
  imports Prelude
begin

text \<open>
  Data of the TDX attestation library (QuoteGeneration/quote_wrapper/tdx_attest: tdx_attest.h and
  the head of tdx_attest.c): error codes, attestation key ids, the request header exchanged with
  the VMM, and the log of resources and messages that the later theories write.
\<close>

section \<open>tdx_attest.h\<close>

datatype tdx_attest_error_t =
    TDX_ATTEST_ERROR_UNEXPECTED | TDX_ATTEST_ERROR_INVALID_PARAMETER
  | TDX_ATTEST_ERROR_OUT_OF_MEMORY | TDX_ATTEST_ERROR_VSOCK_FAILURE
  | TDX_ATTEST_ERROR_REPORT_FAILURE | TDX_ATTEST_ERROR_EXTEND_FAILURE
  | TDX_ATTEST_ERROR_NOT_SUPPORTED | TDX_ATTEST_ERROR_QUOTE_FAILURE | TDX_ATTEST_ERROR_BUSY
  | TDX_ATTEST_ERROR_DEVICE_FAILURE | TDX_ATTEST_ERROR_INVALID_RTMR_INDEX
  | TDX_ATTEST_ERROR_UNSUPPORTED_ATT_KEY_ID

type_synonym 'a tdx_outcome = "(tdx_attest_error_t, 'a) outcome"

fun tdx_attest_error_code :: "tdx_attest_error_t \<Rightarrow> nat" where
  "tdx_attest_error_code TDX_ATTEST_ERROR_UNEXPECTED = 0x0001"
| "tdx_attest_error_code TDX_ATTEST_ERROR_INVALID_PARAMETER = 0x0002"
| "tdx_attest_error_code TDX_ATTEST_ERROR_OUT_OF_MEMORY = 0x0003"
| "tdx_attest_error_code TDX_ATTEST_ERROR_VSOCK_FAILURE = 0x0004"
| "tdx_attest_error_code TDX_ATTEST_ERROR_REPORT_FAILURE = 0x0005"
| "tdx_attest_error_code TDX_ATTEST_ERROR_EXTEND_FAILURE = 0x0006"
| "tdx_attest_error_code TDX_ATTEST_ERROR_NOT_SUPPORTED = 0x0007"
| "tdx_attest_error_code TDX_ATTEST_ERROR_QUOTE_FAILURE = 0x0008"
| "tdx_attest_error_code TDX_ATTEST_ERROR_BUSY = 0x0009"
| "tdx_attest_error_code TDX_ATTEST_ERROR_DEVICE_FAILURE = 0x000a"
| "tdx_attest_error_code TDX_ATTEST_ERROR_INVALID_RTMR_INDEX = 0x000b"
| "tdx_attest_error_code TDX_ATTEST_ERROR_UNSUPPORTED_ATT_KEY_ID = 0x000c"

text \<open>A \<open>tdx_uuid_t\<close> is its 16 bytes.\<close>

type_synonym tdx_uuid_t = "byte list"

definition TDX_SGX_ECDSA_ATTESTATION_ID :: tdx_uuid_t where
  "TDX_SGX_ECDSA_ATTESTATION_ID =
     [0xe8, 0x6c, 0x04, 0x6e, 0x8c, 0xc4, 0x4d, 0x95, 0x81, 0x73, 0xfc, 0x43, 0xc1, 0xfa, 0x4f, 0x3f]"

definition TDX_SGX_MLDSA_65_ATTESTATION_ID :: tdx_uuid_t where
  "TDX_SGX_MLDSA_65_ATTESTATION_ID =
     [0xe8, 0x6c, 0x04, 0x6e, 0x8c, 0xc4, 0x4d, 0x95, 0x81, 0x73, 0xfc, 0x43, 0xc1, 0xfa, 0x4f, 0x40]"

definition TDX_SGX_MLDSA_87_ATTESTATION_ID :: tdx_uuid_t where
  "TDX_SGX_MLDSA_87_ATTESTATION_ID =
     [0xe8, 0x6c, 0x04, 0x6e, 0x8c, 0xc4, 0x4d, 0x95, 0x81, 0x73, 0xfc, 0x43, 0xc1, 0xfa, 0x4f, 0x41]"

definition TDX_SGX_MLDSA_44_ATTESTATION_ID :: tdx_uuid_t where
  "TDX_SGX_MLDSA_44_ATTESTATION_ID =
     [0xe8, 0x6c, 0x04, 0x6e, 0x8c, 0xc4, 0x4d, 0x95, 0x81, 0x73, 0xfc, 0x43, 0xc1, 0xfa, 0x4f, 0x42]"

definition TDX_UUID_SIZE :: nat where "TDX_UUID_SIZE = 16"
definition TDX_REPORT_DATA_SIZE :: nat where "TDX_REPORT_DATA_SIZE = 64"
definition TDX_REPORT_SIZE :: nat where "TDX_REPORT_SIZE = 1024"

record tdx_rtmr_event_t =
  ev_version :: u32
  ev_rtmr_index :: u64
  ev_extend_data :: "byte list"
  ev_event_type :: u32
  ev_event_data_size :: u32
  ev_event_data :: "byte list"

section \<open>tdx_attest.c: request structures and limits\<close>

definition GET_QUOTE_SUCCESS :: u64 where "GET_QUOTE_SUCCESS = 0"
definition GET_QUOTE_IN_FLIGHT :: u64 where "GET_QUOTE_IN_FLIGHT = 0xffffffffffffffff"
definition GET_QUOTE_ERROR :: u64 where "GET_QUOTE_ERROR = 0x8000000000000000"
definition GET_QUOTE_SERVICE_UNAVAILABLE :: u64 where
  "GET_QUOTE_SERVICE_UNAVAILABLE = 0x8000000000000001"

definition TDX_EXTEND_RTMR_DATA_LEN :: nat where "TDX_EXTEND_RTMR_DATA_LEN = 48"

record tdx_report_req =
  rr_reportdata :: "byte list"
  rr_tdreport :: "byte list"

record tdx_extend_rtmr_req =
  er_data :: "byte list"
  er_index :: byte

text \<open>The flexible array \<open>data\<close> is the rest of the allocated object, as bytes.\<close>

record tdx_quote_hdr =
  qh_version :: u64
  qh_status :: u64
  qh_in_len :: u32
  qh_out_len :: u32
  qh_data :: "byte list"

abbreviation "sizeof_tdx_quote_hdr \<equiv> (24 :: nat)"

definition HEADER_SIZE :: nat where "HEADER_SIZE = 4"
definition REQ_BUF_SIZE :: nat where "REQ_BUF_SIZE = 4 * 4 * 1024"
definition QUOTE_BUF_SIZE :: nat where "QUOTE_BUF_SIZE = 8 * 1024"
definition QUOTE_MIN_SIZE :: nat where "QUOTE_MIN_SIZE = 1020"
definition MAX_PORT_NUMBER :: nat where "MAX_PORT_NUMBER = 0xFFFF"
definition WRONG_PORT_NUMBER :: nat where "WRONG_PORT_NUMBER = MAX_PORT_NUMBER + 1"

lemmas tdx_sizes = HEADER_SIZE_def REQ_BUF_SIZE_def QUOTE_BUF_SIZE_def QUOTE_MIN_SIZE_def
  MAX_PORT_NUMBER_def WRONG_PORT_NUMBER_def TDX_UUID_SIZE_def TDX_REPORT_DATA_SIZE_def
  TDX_REPORT_SIZE_def TDX_EXTEND_RTMR_DATA_LEN_def

definition g_intel_tdqe_ecdsa_uuid :: tdx_uuid_t where
  "g_intel_tdqe_ecdsa_uuid = TDX_SGX_ECDSA_ATTESTATION_ID"
definition g_intel_tdqe_mldsa_44_uuid :: tdx_uuid_t where
  "g_intel_tdqe_mldsa_44_uuid = TDX_SGX_MLDSA_44_ATTESTATION_ID"
definition g_intel_tdqe_mldsa_65_uuid :: tdx_uuid_t where
  "g_intel_tdqe_mldsa_65_uuid = TDX_SGX_MLDSA_65_ATTESTATION_ID"
definition g_intel_tdqe_mldsa_87_uuid :: tdx_uuid_t where
  "g_intel_tdqe_mldsa_87_uuid = TDX_SGX_MLDSA_87_ATTESTATION_ID"

lemmas uuid_defs = g_intel_tdqe_ecdsa_uuid_def g_intel_tdqe_mldsa_44_uuid_def
  g_intel_tdqe_mldsa_65_uuid_def g_intel_tdqe_mldsa_87_uuid_def
  TDX_SGX_ECDSA_ATTESTATION_ID_def TDX_SGX_MLDSA_44_ATTESTATION_ID_def
  TDX_SGX_MLDSA_65_ATTESTATION_ID_def TDX_SGX_MLDSA_87_ATTESTATION_ID_def

lemma length_uuids [simp]:
  "length g_intel_tdqe_ecdsa_uuid = 16" "length g_intel_tdqe_mldsa_44_uuid = 16"
  "length g_intel_tdqe_mldsa_65_uuid = 16" "length g_intel_tdqe_mldsa_87_uuid = 16"
  by (simp_all add: uuid_defs)

text \<open>The key types of the quote header that the library knows.\<close>

definition TDX_ATTEST_QUOTE_ALG_ECDSA_P256 :: u16 where "TDX_ATTEST_QUOTE_ALG_ECDSA_P256 = 2"
definition TDX_ATTEST_QUOTE_ALG_MLDSA_44 :: u16 where "TDX_ATTEST_QUOTE_ALG_MLDSA_44 = 4"
definition TDX_ATTEST_QUOTE_ALG_MLDSA_65 :: u16 where "TDX_ATTEST_QUOTE_ALG_MLDSA_65 = 5"
definition TDX_ATTEST_QUOTE_ALG_MLDSA_87 :: u16 where "TDX_ATTEST_QUOTE_ALG_MLDSA_87 = 6"

lemmas quote_alg_defs = TDX_ATTEST_QUOTE_ALG_ECDSA_P256_def TDX_ATTEST_QUOTE_ALG_MLDSA_44_def
  TDX_ATTEST_QUOTE_ALG_MLDSA_65_def TDX_ATTEST_QUOTE_ALG_MLDSA_87_def

record tdx_quote_header_prefix_t =
  qp_version :: u16
  qp_att_key_type :: u16

definition quote_header_prefix_of :: "byte list \<Rightarrow> tdx_quote_header_prefix_t" where
  "quote_header_prefix_of q = \<lparr>qp_version = get16 0 q, qp_att_key_type = get16 2 q\<rparr>"

section \<open>errno values\<close>

abbreviation ENOENT :: int where "ENOENT \<equiv> 2"
abbreviation EINTR :: int where "EINTR \<equiv> 4"
abbreviation EIO :: int where "EIO \<equiv> 5"
abbreviation ENOMEM :: int where "ENOMEM \<equiv> 12"
abbreviation EBUSY :: int where "EBUSY \<equiv> 16"
abbreviation EEXIST :: int where "EEXIST \<equiv> 17"
abbreviation EINVAL :: int where "EINVAL \<equiv> 22"
abbreviation ENAMETOOLONG :: int where "ENAMETOOLONG \<equiv> 36"
abbreviation EOPNOTSUPP :: int where "EOPNOTSUPP \<equiv> 95"
abbreviation ETIMEDOUT :: int where "ETIMEDOUT \<equiv> 110"

section \<open>Log of system calls\<close>

text \<open>
  Each call that acquires or releases something (a descriptor, a directory stream, a heap block,
  the mutex) or that sends data out of the TD appends an event, in program order.
\<close>

datatype resource =
    Dev_fd | Local_sock | Vsock_sock | Dir_stream | Mkdir_mutex | Provider_fd | Generation_fd
  | Lock_fd | Inblob_fd | Outblob_fd | Blob_mem | Req_mem | Quote_mem | Config_file | Config_line
  | Rtmr_fd | Collateral_mem | Collateral_field nat

datatype event =
    Acquire resource
  | Release resource
  | Sent resource "byte list"
  | Report_ioctl
  | Configfs_request "byte list"
  | Tdcall_ioctl tdx_quote_hdr

text \<open>
  \<open>held rs log\<close>: what is still held after the log; \<open>None\<close> when something is released that is not
  held (a double close or double free).
\<close>

fun held :: "resource list \<Rightarrow> event list \<Rightarrow> resource list option" where
  "held rs [] = Some rs"
| "held rs (Acquire r # es) = held (r # rs) es"
| "held rs (Release r # es) = (if r \<in> set rs then held (remove1 r rs) es else None)"
| "held rs (_ # es) = held rs es"

lemma held_append: "held rs (xs @ ys) = (case held rs xs of None \<Rightarrow> None | Some rs' \<Rightarrow> held rs' ys)"
  by (induction rs xs rule: held.induct) auto

end
