(* ===== verification/Tdx_Config.thy ===== *)
theory Tdx_Config
  imports Tdx_Types
begin

text \<open>
  Configuration of the attestation library (tdx_attest.c): environment switches, the key-id
  helpers, and the parser of /etc/tdx-attest.conf that yields the vsock port. The environment is a
  function from names to C strings; a C string is read up to its first NUL.
\<close>

section \<open>C strings and the scanning functions of the C library\<close>

type_synonym environment = "string \<Rightarrow> string option"

definition cstr :: "string \<Rightarrow> string" where
  "cstr s = takeWhile (\<lambda>c. c \<noteq> CHR 0x00) s"

definition isspace :: "char \<Rightarrow> bool" where
  "isspace c \<longleftrightarrow> c = CHR '' '' \<or> c = CHR 0x09 \<or> c = CHR 0x0A \<or> c = CHR 0x0B \<or> c = CHR 0x0C \<or> c = CHR 0x0D"

definition isdigit :: "char \<Rightarrow> bool" where
  "isdigit c \<longleftrightarrow> of_char CHR ''0'' \<le> (of_char c :: nat) \<and> (of_char c :: nat) \<le> of_char CHR ''9''"

definition digit_value :: "char \<Rightarrow> nat" where
  "digit_value c = of_char c - of_char CHR ''0''"

fun dec_value :: "nat \<Rightarrow> string \<Rightarrow> nat" where
  "dec_value acc [] = acc"
| "dec_value acc (c # cs) = dec_value (acc * 10 + digit_value c) cs"

fun match_literal :: "string \<Rightarrow> string \<Rightarrow> string option" where
  "match_literal [] s = Some s"
| "match_literal (p # ps) [] = None"
| "match_literal (p # ps) (c # cs) = (if p = c then match_literal ps cs else None)"

definition LONG_MAX :: int where "LONG_MAX = 9223372036854775807"
definition LONG_MIN :: int where "LONG_MIN = - 9223372036854775808"

text \<open>\<open>strtol(s, &end, 10)\<close>: value, whether errno is ERANGE, and the characters consumed.\<close>

definition strtol10 :: "string \<Rightarrow> int \<times> bool \<times> nat" where
  "strtol10 str =
     (let s = cstr str; s1 = dropWhile isspace s;
          neg = (case s1 of c # _ \<Rightarrow> c = CHR ''-'' | [] \<Rightarrow> False);
          signed = (case s1 of c # _ \<Rightarrow> c = CHR ''-'' \<or> c = CHR ''+'' | [] \<Rightarrow> False);
          s2 = (if signed then tl s1 else s1);
          ds = takeWhile isdigit s2
      in if ds = [] then (0, False, 0)
         else let v = (if neg then - int (dec_value 0 ds) else int (dec_value 0 ds));
                  n = length s - length s2 + length ds
              in if v > LONG_MAX then (LONG_MAX, True, n)
                 else if v < LONG_MIN then (LONG_MIN, True, n)
                 else (v, False, n))"

section \<open>Environment switches\<close>

definition env_flag :: "string option \<Rightarrow> bool" where
  "env_flag v = (case v of Some (c # _) \<Rightarrow> c \<noteq> CHR 0x00 \<and> c \<noteq> CHR ''0'' | _ \<Rightarrow> False)"

definition direct_trace_enabled :: "environment \<Rightarrow> bool" where
  "direct_trace_enabled env = env_flag (env ''TDX_ATTEST_TRACE_DIRECT'')"

definition local_qgs_forced :: "environment \<Rightarrow> bool" where
  "local_qgs_forced env = env_flag (env ''TDX_ATTEST_FORCE_LOCAL_QGS'')"

definition mldsa_full_dcap_required :: "environment \<Rightarrow> bool" where
  "mldsa_full_dcap_required env = env_flag (env ''TDX_MLDSA_REQUIRE_FULL_DCAP'')"

definition DEFAULT_TDX_ATTEST_LOCAL_QGS_SOCKET :: string where
  "DEFAULT_TDX_ATTEST_LOCAL_QGS_SOCKET = ''/var/run/tdx-qgs/qgs.socket''"

definition get_local_qgs_socket_path :: "environment \<Rightarrow> string option" where
  "get_local_qgs_socket_path env =
     (case env ''TDX_ATTEST_LOCAL_QGS_SOCKET'' of
        Some (c # cs) \<Rightarrow> if c \<noteq> CHR 0x00 then Some (c # cs)
          else if local_qgs_forced env then Some DEFAULT_TDX_ATTEST_LOCAL_QGS_SOCKET else None
      | _ \<Rightarrow> if local_qgs_forced env then Some DEFAULT_TDX_ATTEST_LOCAL_QGS_SOCKET else None)"

section \<open>Attestation key ids\<close>

definition is_mldsa_uuid :: "tdx_uuid_t \<Rightarrow> bool" where
  "is_mldsa_uuid u \<longleftrightarrow> u = g_intel_tdqe_mldsa_44_uuid \<or> u = g_intel_tdqe_mldsa_65_uuid
     \<or> u = g_intel_tdqe_mldsa_87_uuid"

text \<open>The loop over \<open>list_size\<close> entries; reading past the array is a fault.\<close>

fun scan_mldsa :: "tdx_uuid_t list \<Rightarrow> nat \<Rightarrow> bool tdx_outcome" where
  "scan_mldsa us 0 = Good False"
| "scan_mldsa [] (Suc n) = Fault"
| "scan_mldsa (u # us) (Suc n) = (if is_mldsa_uuid u then Good True else scan_mldsa us n)"

definition uuid_list_requests_mldsa :: "tdx_uuid_t list option \<Rightarrow> u32 \<Rightarrow> bool tdx_outcome" where
  "uuid_list_requests_mldsa p_att_key_id_list list_size =
     (case p_att_key_id_list of None \<Rightarrow> Good False
      | Some us \<Rightarrow> if list_size = 0 then Good False else scan_mldsa us (unat list_size))"

definition refuse_mldsa_quote_fallback ::
  "environment \<Rightarrow> tdx_uuid_t list option \<Rightarrow> u32 \<Rightarrow> bool tdx_outcome" where
  "refuse_mldsa_quote_fallback env p_att_key_id_list list_size =
     (if mldsa_full_dcap_required env then uuid_list_requests_mldsa p_att_key_id_list list_size
      else Good False)"

definition infer_att_key_id_from_quote :: "byte list \<Rightarrow> u32 \<Rightarrow> tdx_uuid_t option" where
  "infer_att_key_id_from_quote p_quote quote_size =
     (if unat quote_size < 4 then None
      else let t = qp_att_key_type (quote_header_prefix_of p_quote) in
        if t = TDX_ATTEST_QUOTE_ALG_ECDSA_P256 then Some g_intel_tdqe_ecdsa_uuid
        else if t = TDX_ATTEST_QUOTE_ALG_MLDSA_44 then Some g_intel_tdqe_mldsa_44_uuid
        else if t = TDX_ATTEST_QUOTE_ALG_MLDSA_65 then Some g_intel_tdqe_mldsa_65_uuid
        else if t = TDX_ATTEST_QUOTE_ALG_MLDSA_87 then Some g_intel_tdqe_mldsa_87_uuid
        else None)"

section \<open>The vsock port\<close>

text \<open>\<open>sscanf(line, " %10[#]", temp) == 1\<close>\<close>

definition scan_comment :: "string \<Rightarrow> bool" where
  "scan_comment line = (case dropWhile isspace (cstr line) of c # _ \<Rightarrow> c = CHR ''#'' | [] \<Rightarrow> False)"

text \<open>
  \<open>sscanf(line, " port = %10[0-9] %n", temp, &number)\<close>: the digits and what follows
  the number and its trailing white space (\<open>line[number]\<close> on).
\<close>

definition scan_port :: "string \<Rightarrow> (string \<times> string) option" where
  "scan_port line =
     (case match_literal ''port'' (dropWhile isspace (cstr line)) of None \<Rightarrow> None
      | Some s1 \<Rightarrow> (case match_literal ''='' (dropWhile isspace s1) of None \<Rightarrow> None
        | Some s2 \<Rightarrow>
            let s3 = dropWhile isspace s2; ds = take 10 (takeWhile isdigit s3) in
            if ds = [] then None
            else Some (ds, dropWhile isspace (drop (length ds) s3))))"

fun scan_config :: "string list \<Rightarrow> nat" where
  "scan_config [] = WRONG_PORT_NUMBER"
| "scan_config (line # lines) =
     (if scan_comment line then scan_config lines
      else case scan_port line of None \<Rightarrow> scan_config lines
      | Some (temp, rest) \<Rightarrow>
          if rest \<noteq> [] then scan_config lines
          else let (long_num, erange, consumed) = strtol10 temp in
            if consumed = 0 then WRONG_PORT_NUMBER
            else if erange \<or> long_num > int MAX_PORT_NUMBER then WRONG_PORT_NUMBER
            else nat (long_num mod 0x10000))"

text \<open>\<open>None\<close>: the configuration file cannot be opened.\<close>

definition get_vsock_port :: "string list option \<Rightarrow> nat" where
  "get_vsock_port config = (case config of None \<Rightarrow> WRONG_PORT_NUMBER | Some lines \<Rightarrow> scan_config lines)"

section \<open>Facts\<close>

lemma env_flag_simps [simp]: "\<not> env_flag None" "\<not> env_flag (Some [])"
  by (simp_all add: env_flag_def)

lemma scan_mldsa_total: "n \<le> length us \<Longrightarrow> scan_mldsa us n = Good (\<exists>u \<in> set (take n us). is_mldsa_uuid u)"
  by (induction us n rule: scan_mldsa.induct) auto

lemma strtol10_nonneg: "strtol10 s = (v, False, n) \<Longrightarrow> n \<noteq> 0 \<Longrightarrow> v \<le> LONG_MAX"
  by (auto simp: strtol10_def Let_def split: if_splits)

text \<open>Decimal notation, the inverse of the scan.\<close>

fun print_dec :: "nat \<Rightarrow> string" where
  "print_dec n = (if n < 10 then [char_of (n + 48)] else print_dec (n div 10) @ [char_of (n mod 10 + 48)])"

declare print_dec.simps [simp del]

lemma digit_char [simp]: "d < 10 \<Longrightarrow> isdigit (char_of (d + 48))"
  "d < 10 \<Longrightarrow> digit_value (char_of (d + 48)) = d"
  by (simp_all add: isdigit_def digit_value_def)

lemma dec_value_append: "dec_value acc (xs @ ys) = dec_value (dec_value acc xs) ys"
  by (induction xs arbitrary: acc) auto

lemma dec_value_print: "dec_value 0 (print_dec n) = n"
proof (induction n rule: print_dec.induct)
  case (1 n)
  show ?case
  proof (cases "n < 10")
    case False
    then have "dec_value 0 (print_dec (n div 10)) = n div 10" by (rule 1)
    with False show ?thesis by (subst print_dec.simps) (simp add: dec_value_append)
  qed (subst print_dec.simps, simp)
qed

lemma print_dec_digits: "\<forall>c \<in> set (print_dec n). isdigit c"
proof (induction n rule: print_dec.induct)
  case (1 n)
  then show ?case by (subst print_dec.simps) auto
qed

lemma print_dec_nonempty [simp]: "print_dec n \<noteq> []"
  by (subst print_dec.simps) simp

lemma length_print_dec: "n < 10 ^ Suc k \<Longrightarrow> length (print_dec n) \<le> Suc k"
proof (induction k arbitrary: n)
  case 0
  then show ?case by (subst print_dec.simps) simp
next
  case (Suc k)
  show ?case
  proof (cases "n < 10")
    case False
    from Suc.prems have "n div 10 < 10 ^ Suc k" by (simp add: div_less_iff_less_mult mult.commute)
    from Suc.IH [OF this] False show ?thesis by (subst print_dec.simps) simp
  qed (subst print_dec.simps, simp)
qed

lemma digit_not_space: "isdigit c \<Longrightarrow> \<not> isspace c \<and> c \<noteq> CHR 0x00 \<and> c \<noteq> CHR ''-'' \<and> c \<noteq> CHR ''+''"
  by (auto simp: isdigit_def isspace_def)

end
