(* ===== verification/Tdx_Transport.thy ===== *)
theory Tdx_Transport
  imports Tdx_Config Qgs_Codec
begin

text \<open>
  The three ways tdx_attest.c sends a framed quote request and reads the framed response: the
  local QGS socket, vsock, and the TDCALL ioctl; the construction of the request and the
  extraction of the quote. The request buffer (\<open>qh_data\<close>) is shared: a transport overwrites it
  with what it receives.

  A socket is the record of what the kernel answers: whether socket and connect succeed, the
  value of send, and the chunks that arrive. \<open>recv\<close> of \<open>n\<close> bytes takes at most \<open>n\<close> bytes of the
  next chunk; when no chunk is left the peer has closed the connection and it returns 0. The
  receive loop is a \<open>partial_function\<close>: \<open>None\<close> is a loop that never ends.
\<close>

section \<open>Sockets\<close>

datatype rx = Rx_error | Rx_data "byte list"

record sock_env =
  se_socket_ok :: bool
  se_connect_ok :: bool
  se_send_ret :: int
  se_recvs :: "rx list"

fun recv :: "nat \<Rightarrow> rx list \<Rightarrow> byte list option \<times> rx list" where
  "recv n [] = (Some [], [])"
| "recv n (Rx_error # rs) = (None, rs)"
| "recv n (Rx_data d # rs) = (Some (take n d), if n < length d then Rx_data (drop n d) # rs else rs)"

lemma length_recv: "recv n rs = (Some d, rs') \<Longrightarrow> length d \<le> n"
  by (induction n rs rule: recv.induct) auto

text \<open>
  The receive loop: \<open>Good (True, data)\<close> when the body is complete, \<open>Good (False, data)\<close> when recv
  reports an error.
\<close>

partial_function (option) recv_body ::
  "byte list \<Rightarrow> nat \<Rightarrow> nat \<Rightarrow> rx list \<Rightarrow> (bool \<times> byte list) tdx_outcome option" where
  "recv_body data recieved_bytes body_size script =
     (if recieved_bytes < body_size then
        (case recv (body_size - recieved_bytes) script of
           (None, _) \<Rightarrow> Some (Good (False, data))
         | (Some d, script') \<Rightarrow>
             (case bwrite (HEADER_SIZE + recieved_bytes) d data of
                None \<Rightarrow> Some Fault
              | Some data' \<Rightarrow> recv_body data' (recieved_bytes + length d) body_size script'))
      else Some (Good (True, data)))"

text \<open>
  The result of a transport: its outcome with \<open>*p_payload_body_size\<close>, the request buffer
  afterwards, and the log.
\<close>

type_synonym transport_result = "u32 tdx_outcome \<times> byte list \<times> event list"

text \<open>The part both sockets share, from \<open>send\<close> to the end of the receive loop.\<close>

definition payload_capacity :: nat where
  "payload_capacity = REQ_BUF_SIZE - sizeof_tdx_quote_hdr - HEADER_SIZE"

definition exchange_payload ::
  "resource \<Rightarrow> sock_env \<Rightarrow> byte list \<Rightarrow> u32 \<Rightarrow> transport_result option" where
  "exchange_payload s w data blob_payload_size =
     (case bread (unat blob_payload_size) 0 data of None \<Rightarrow> Some (Fault, data, [])
      | Some out \<Rightarrow>
        if int (unat blob_payload_size) \<noteq> se_send_ret w
        then Some (Bad TDX_ATTEST_ERROR_VSOCK_FAILURE, data, [Sent s out])
        else (case recv HEADER_SIZE (se_recvs w) of
          (None, _) \<Rightarrow> Some (Bad TDX_ATTEST_ERROR_VSOCK_FAILURE, data, [Sent s out])
        | (Some hdr, script) \<Rightarrow>
          (case bwrite 0 hdr data of None \<Rightarrow> Some (Fault, data, [Sent s out])
           | Some data1 \<Rightarrow>
             if length hdr \<noteq> HEADER_SIZE
             then Some (Bad TDX_ATTEST_ERROR_VSOCK_FAILURE, data1, [Sent s out])
             else let body_size = be32_fold 0 (take HEADER_SIZE data1) in
               if payload_capacity < unat body_size
               then Some (Bad TDX_ATTEST_ERROR_UNEXPECTED, data1, [Sent s out])
               else (case recv_body data1 0 (unat body_size) script of
                 None \<Rightarrow> None
               | Some (Good (True, data2)) \<Rightarrow> Some (Good body_size, data2, [Sent s out])
               | Some (Good (False, data2)) \<Rightarrow>
                   Some (Bad TDX_ATTEST_ERROR_VSOCK_FAILURE, data2, [Sent s out])
               | Some (Bad e) \<Rightarrow> Some (Bad e, data1, [Sent s out])
               | Some Fault \<Rightarrow> Some (Fault, data1, [Sent s out])))))"

definition vsock_get_quote_payload ::
  "string list option \<Rightarrow> sock_env \<Rightarrow> byte list \<Rightarrow> u32 \<Rightarrow> transport_result option" where
  "vsock_get_quote_payload config w p_blob_payload blob_payload_size =
     (let vsock_port = get_vsock_port config in
      if vsock_port = WRONG_PORT_NUMBER
      then Some (Bad TDX_ATTEST_ERROR_NOT_SUPPORTED, p_blob_payload, [])
      else if \<not> se_socket_ok w
      then Some (Bad TDX_ATTEST_ERROR_VSOCK_FAILURE, p_blob_payload, [])
      else if \<not> se_connect_ok w
      then Some (Bad TDX_ATTEST_ERROR_VSOCK_FAILURE, p_blob_payload,
                 [Acquire Vsock_sock, Release Vsock_sock])
      else map_option (\<lambda>(r, data, log). (r, data, Acquire Vsock_sock # log @ [Release Vsock_sock]))
             (exchange_payload Vsock_sock w p_blob_payload blob_payload_size))"

text \<open>\<open>sizeof(addr.sun_path)\<close>\<close>

definition SUN_PATH_SIZE :: nat where "SUN_PATH_SIZE = 108"

definition local_qgs_get_quote_payload ::
  "environment \<Rightarrow> sock_env \<Rightarrow> byte list \<Rightarrow> u32 \<Rightarrow> transport_result option" where
  "local_qgs_get_quote_payload env w p_blob_payload blob_payload_size =
     (case get_local_qgs_socket_path env of
        None \<Rightarrow> Some (Bad TDX_ATTEST_ERROR_NOT_SUPPORTED, p_blob_payload, [])
      | Some socket_path \<Rightarrow>
        let unavailable = (if local_qgs_forced env then TDX_ATTEST_ERROR_VSOCK_FAILURE
                           else TDX_ATTEST_ERROR_NOT_SUPPORTED) in
        if \<not> se_socket_ok w then Some (Bad unavailable, p_blob_payload, [])
        else if length (cstr socket_path) \<ge> SUN_PATH_SIZE
        then Some (Bad TDX_ATTEST_ERROR_INVALID_PARAMETER, p_blob_payload,
                   [Acquire Local_sock, Release Local_sock])
        else if \<not> se_connect_ok w
        then Some (Bad unavailable, p_blob_payload, [Acquire Local_sock, Release Local_sock])
        else map_option (\<lambda>(r, data, log). (r, data, Acquire Local_sock # log @ [Release Local_sock]))
               (exchange_payload Local_sock w p_blob_payload blob_payload_size))"

section \<open>TDCALL\<close>

text \<open>What the GET_QUOTE ioctl returns, and the shared buffer as the VMM leaves it.\<close>

record tdcall_env =
  tc_ioctl_ret :: int
  tc_blob :: tdx_quote_hdr



definition tdcall_get_quote_payload ::
  "tdcall_env \<Rightarrow> tdx_quote_hdr \<Rightarrow> u32 tdx_outcome \<times> tdx_quote_hdr \<times> event list" where
  "tdcall_get_quote_payload w p_get_quote_blob =
     (let log = [Tdcall_ioctl p_get_quote_blob]; blob = tc_blob w in
      if EBUSY = tc_ioctl_ret w then (Bad TDX_ATTEST_ERROR_BUSY, blob, log)
      else if tc_ioctl_ret w \<noteq> 0 then (Bad TDX_ATTEST_ERROR_QUOTE_FAILURE, blob, log)
      else if qh_status blob \<noteq> 0 \<or> unat (qh_out_len blob) \<le> HEADER_SIZE then
        (if GET_QUOTE_IN_FLIGHT = qh_status blob then (Bad TDX_ATTEST_ERROR_BUSY, blob, log)
         else if GET_QUOTE_SERVICE_UNAVAILABLE = qh_status blob
         then (Bad TDX_ATTEST_ERROR_NOT_SUPPORTED, blob, log)
         else (Bad TDX_ATTEST_ERROR_UNEXPECTED, blob, log))
      else if length (qh_data blob) < HEADER_SIZE then (Fault, blob, log)
      else let body_size = be32_fold 0 (take HEADER_SIZE (qh_data blob)) in
        if body_size \<noteq> qh_out_len blob - word_of_nat HEADER_SIZE
        then (Bad TDX_ATTEST_ERROR_UNEXPECTED, blob, log)
        else (Good body_size, blob, log))"

section \<open>The request\<close>

definition generate_get_quote_blob ::
  "byte list \<Rightarrow> tdx_uuid_t list option \<Rightarrow> u32 \<Rightarrow> bool \<Rightarrow> tdx_quote_hdr
     \<Rightarrow> tdx_quote_hdr tdx_outcome \<times> event list" where
  "generate_get_quote_blob p_tdx_report p_att_key_id_list list_size mem p_get_quote_blob =
     (let given = (p_att_key_id_list \<noteq> None \<and> list_size \<noteq> 0);
          p_id_list = (if given then map_option concat p_att_key_id_list else None);
          id_list_size = (if given then list_size * word_of_nat TDX_UUID_SIZE else 0) in
      case qgs_msg_gen_get_quote_req (Some p_tdx_report) (word_of_nat TDX_REPORT_SIZE)
             p_id_list id_list_size True mem of
        Fault \<Rightarrow> (Fault, [])
      | Bad _ \<Rightarrow> (Bad TDX_ATTEST_ERROR_UNEXPECTED, [])
      | Good req \<Rightarrow>
          let msg_size = len32 req in
          if unat msg_size > payload_capacity
          then (Bad TDX_ATTEST_ERROR_NOT_SUPPORTED, [Acquire Req_mem, Release Req_mem])
          else (case bwrite 0 (be32_bytes msg_size) (qh_data p_get_quote_blob) of
                  None \<Rightarrow> (Fault, [Acquire Req_mem])
                | Some d1 \<Rightarrow> (case bwrite HEADER_SIZE req d1 of
                    None \<Rightarrow> (Fault, [Acquire Req_mem])
                  | Some d2 \<Rightarrow>
                      (Good \<lparr>qh_version = 1, qh_status = 0,
                         qh_in_len = word_of_nat HEADER_SIZE + msg_size, qh_out_len = 0,
                         qh_data = d2\<rparr>,
                       [Acquire Req_mem, Release Req_mem]))))"

section \<open>The response\<close>

text \<open>
  \<open>want\<close>: \<open>p_selected_att_key_id\<close> is not NULL; \<open>kid\<close>: what it points to (\<open>None\<close> while nothing has
  been written). \<open>mem\<close>: malloc of the quote succeeds.
\<close>

definition extract_quote_from_blob_payload ::
  "byte list \<Rightarrow> u32 \<Rightarrow> bool \<Rightarrow> bool \<Rightarrow> tdx_uuid_t option
     \<Rightarrow> byte list tdx_outcome \<times> tdx_uuid_t option \<times> event list" where
  "extract_quote_from_blob_payload p_blob_payload payload_body_size want mem kid =
     (let msg = drop HEADER_SIZE p_blob_payload in
      case qgs_msg_inflate_get_quote_resp (Some msg) payload_body_size True of
        Fault \<Rightarrow> (Fault, kid, [])
      | Bad _ \<Rightarrow> (Bad TDX_ATTEST_ERROR_UNEXPECTED, kid, [])
      | Good ((p_selected_id, id_size), (p_quote, quote_size)) \<Rightarrow>
        if h_error_code (header_of msg) \<noteq> 0 then (Bad TDX_ATTEST_ERROR_UNEXPECTED, kid, [])
        else
          let sel = (if \<not> want then Good kid
                     else case p_selected_id of
                       Some off \<Rightarrow> if unat id_size = TDX_UUID_SIZE
                         then (case bread TDX_UUID_SIZE off msg of None \<Rightarrow> Fault | Some u \<Rightarrow> Good (Some u))
                         else Bad TDX_ATTEST_ERROR_UNEXPECTED
                     | None \<Rightarrow> if id_size = 0 then Good (Some g_intel_tdqe_ecdsa_uuid)
                         else Bad TDX_ATTEST_ERROR_UNEXPECTED) in
          (case sel of
             Fault \<Rightarrow> (Fault, kid, [])
           | Bad e \<Rightarrow> (Bad e, kid, [])
           | Good kid1 \<Rightarrow>
             if \<not> mem then (Bad TDX_ATTEST_ERROR_OUT_OF_MEMORY, kid1, [])
             else (case Option.bind p_quote (\<lambda>off. bread (unat quote_size) off msg) of
                None \<Rightarrow> (Fault, kid1, [Acquire Quote_mem])
              | Some quote \<Rightarrow>
                  let kid2 = (if want then (case infer_att_key_id_from_quote quote quote_size of
                                              Some u \<Rightarrow> Some u | None \<Rightarrow> kid1)
                              else kid1) in
                  (Good quote, kid2, [Acquire Quote_mem]))))"

end
