(* ===== verification/Tdx_Configfs.thy ===== *)
theory Tdx_Configfs
  imports Tdx_Config
begin

text \<open>
  The configfs-tsm path of tdx_attest.c: preparing the report directory (with the process-wide
  \<open>b_mkdir\<close> flag and its mutex), reading the generation counter, and obtaining a quote that the
  counter shows to belong to the report data written.

  Each record of answers has one field per system call of the function, in program order; an
  answer is arbitrary, so a theorem about all answers covers every interleaving with other
  processes. A directory that opens is \<open>None\<close>, one that does not is \<open>Some errno\<close>.
\<close>

definition MAX_PATH :: nat where "MAX_PATH = 260"

definition DEFAULT_DCAP_TDX_QUOTE_CONFIGFS_PATH :: string where
  "DEFAULT_DCAP_TDX_QUOTE_CONFIGFS_PATH = ''/sys/kernel/config/tsm/report/com.intel.dcap''"

section \<open>Preparing the report directory\<close>

record prepare_env =
  pe_env_dir_ok :: bool              \<comment> \<open>opendir of the directory named by the environment\<close>
  pe_default_dir :: "int option"     \<comment> \<open>opendir of the default directory\<close>
  pe_report_dir :: "int option"      \<comment> \<open>opendir of its parent\<close>
  pe_mkdir :: "int option"
  pe_default_dir_again :: bool       \<comment> \<open>opendir after mkdir failed with EEXIST\<close>
  pe_access :: "nat \<Rightarrow> bool"         \<comment> \<open>the provider file exists at the k-th try\<close>
  pe_provider_open :: bool
  pe_provider_read :: "string option"

text \<open>The loop of at most five tries for the files the kernel creates in a new directory.\<close>

fun wait_provider :: "(nat \<Rightarrow> bool) \<Rightarrow> nat \<Rightarrow> nat \<Rightarrow> bool" where
  "wait_provider acc retry 0 = False"
| "wait_provider acc retry (Suc n) = (if acc retry then True else wait_provider acc (Suc retry) n)"

text \<open>
  The body of the second loop (it runs once): it returns the status, the new \<open>b_mkdir\<close> and its
  log.
\<close>

definition prepare_default_dir ::
  "prepare_env \<Rightarrow> bool \<Rightarrow> unit tdx_outcome \<times> bool \<times> event list" where
  "prepare_default_dir w b_mkdir =
     (let lock = [Acquire Mkdir_mutex]; unlock = [Release Mkdir_mutex];
          dir = [Acquire Dir_stream]; closedir = [Release Dir_stream] in
      case pe_default_dir w of
        None \<Rightarrow> (Good (), b_mkdir, lock @ dir @ unlock @ closedir)
      | Some errno \<Rightarrow>
        if errno = ENOMEM then (Bad TDX_ATTEST_ERROR_OUT_OF_MEMORY, b_mkdir, lock @ unlock)
        else if errno \<noteq> ENOENT then (Bad TDX_ATTEST_ERROR_QUOTE_FAILURE, b_mkdir, lock @ unlock)
        else (case pe_report_dir w of
          Some errno \<Rightarrow>
            if errno = ENOENT then (Bad TDX_ATTEST_ERROR_NOT_SUPPORTED, b_mkdir, lock @ unlock)
            else if errno = ENOMEM then (Bad TDX_ATTEST_ERROR_OUT_OF_MEMORY, b_mkdir, lock @ unlock)
            else (Bad TDX_ATTEST_ERROR_QUOTE_FAILURE, b_mkdir, lock @ unlock)
        | None \<Rightarrow>
            if \<not> b_mkdir
            then (Bad TDX_ATTEST_ERROR_QUOTE_FAILURE, b_mkdir, lock @ dir @ closedir @ unlock)
            else (case pe_mkdir w of
              Some errno \<Rightarrow>
                if errno = EEXIST \<and> pe_default_dir_again w
                then (Good (), False, lock @ dir @ closedir @ unlock @ dir @ closedir)
                else (Bad TDX_ATTEST_ERROR_QUOTE_FAILURE, False, lock @ dir @ closedir @ unlock)
            | None \<Rightarrow>
                if wait_provider (pe_access w) 0 5
                then (Good (), False, lock @ dir @ closedir @ unlock)
                else (Bad TDX_ATTEST_ERROR_QUOTE_FAILURE, False, lock @ dir @ closedir @ unlock))))"

definition prepare_configfs ::
  "environment \<Rightarrow> prepare_env \<Rightarrow> bool \<Rightarrow> string tdx_outcome \<times> bool \<times> event list" where
  "prepare_configfs env w b_mkdir =
     (let (found, b_mkdir', log) =
        (case env ''DCAP_TDX_QUOTE_CONFIGFS_PATH'' of
           None \<Rightarrow> (case prepare_default_dir w b_mkdir of
               (Good _, b, l) \<Rightarrow> (Good DEFAULT_DCAP_TDX_QUOTE_CONFIGFS_PATH, b, l)
             | (Bad e, b, l) \<Rightarrow> (Bad e, b, l)
             | (Fault, b, l) \<Rightarrow> (Fault, b, l))
         | Some path \<Rightarrow>
             if length (cstr path) \<ge> MAX_PATH - 20
             then (Bad TDX_ATTEST_ERROR_QUOTE_FAILURE, b_mkdir, [])
             else if \<not> pe_env_dir_ok w then (Bad TDX_ATTEST_ERROR_QUOTE_FAILURE, b_mkdir, [])
             else (Good (cstr path), b_mkdir, [Acquire Dir_stream, Release Dir_stream])) in
      case found of
        Fault \<Rightarrow> (Fault, b_mkdir', log)
      | Bad e \<Rightarrow> (Bad e, b_mkdir', log)
      | Good configfs_path \<Rightarrow>
          if \<not> pe_provider_open w then (Bad TDX_ATTEST_ERROR_UNEXPECTED, b_mkdir', log)
          else let log' = log @ [Acquire Provider_fd, Release Provider_fd] in
            (case pe_provider_read w of
               None \<Rightarrow> (Bad TDX_ATTEST_ERROR_QUOTE_FAILURE, b_mkdir', log')
             | Some content \<Rightarrow>
                 let provider = take 15 content in
                 if provider = [] \<or> take 9 provider \<noteq> ''tdx_guest''
                 then (Bad TDX_ATTEST_ERROR_QUOTE_FAILURE, b_mkdir', log')
                 else (Good configfs_path, b_mkdir', log')))"

section \<open>The generation counter\<close>

definition GENERATION_MAX_LENGTH :: nat where "GENERATION_MAX_LENGTH = 20"

text \<open>One opening and reading of the generation file: \<open>None\<close> cannot be opened; \<open>Some None\<close> read fails.\<close>

type_synonym gen_file = "string option option"

definition read_configfs_generation :: "gen_file \<Rightarrow> int tdx_outcome \<times> event list" where
  "read_configfs_generation f =
     (case f of
        None \<Rightarrow> (Bad TDX_ATTEST_ERROR_UNEXPECTED, [])
      | Some rd \<Rightarrow>
        let log = [Acquire Generation_fd, Release Generation_fd] in
        (case rd of
           None \<Rightarrow> (Bad TDX_ATTEST_ERROR_UNEXPECTED, log)
         | Some content \<Rightarrow>
             let str = take GENERATION_MAX_LENGTH content in
             if str = [] then (Bad TDX_ATTEST_ERROR_UNEXPECTED, log)
             else if length str \<ge> GENERATION_MAX_LENGTH then (Bad TDX_ATTEST_ERROR_UNEXPECTED, log)
             else (let (generation, erange, _) = strtol10 str in
               if erange then (Bad TDX_ATTEST_ERROR_UNEXPECTED, log)
               else (Good generation, log))))"

section \<open>Getting a quote\<close>

record configfs_env =
  cf_prepare :: prepare_env
  cf_lock_open :: bool
  cf_flock_ok :: bool
  cf_gen_first :: gen_file
  cf_inblob_open :: bool
  cf_write :: "nat \<Rightarrow> int \<times> int"                    \<comment> \<open>value of the k-th write, errno after it\<close>
  cf_gen_poll :: "nat \<Rightarrow> gen_file"                   \<comment> \<open>generation file at the k-th poll\<close>
  cf_usleep_ok :: "nat \<Rightarrow> bool"
  cf_outblob_open :: bool
  cf_buf_mem :: bool
  cf_read :: "nat \<Rightarrow> byte list option \<times> int"       \<comment> \<open>k-th read of outblob, errno after it\<close>
  cf_gen_last :: gen_file
  cf_realloc_ok :: bool

text \<open>
  Three tries to write the report data while errno is EBUSY: the last value and errno.
\<close>

fun write_inblob :: "(nat \<Rightarrow> int \<times> int) \<Rightarrow> nat \<Rightarrow> nat \<Rightarrow> int \<times> int \<Rightarrow> int \<times> int" where
  "write_inblob wr retry 0 prev = prev"
| "write_inblob wr retry (Suc n) prev =
     (if snd (wr retry) \<noteq> EBUSY then wr retry else write_inblob wr (Suc retry) n (wr retry))"

text \<open>The loop that polls the generation until it changes; \<open>None\<close>: it never does.\<close>

partial_function (option) poll_generation ::
  "(nat \<Rightarrow> gen_file) \<Rightarrow> (nat \<Rightarrow> bool) \<Rightarrow> int \<Rightarrow> nat \<Rightarrow> event list \<Rightarrow> (int tdx_outcome \<times> event list) option"
  where
  "poll_generation gen usleep_ok generation1 k log =
     (case read_configfs_generation (gen k) of
        (Good generation2, l) \<Rightarrow>
          if generation2 = generation1 \<and> usleep_ok k
          then poll_generation gen usleep_ok generation1 (Suc k) (log @ l)
          else Some (Good generation2, log @ l)
      | (Bad e, l) \<Rightarrow> Some (Bad e, log @ l)
      | (Fault, l) \<Rightarrow> Some (Fault, log @ l))"

text \<open>
  Three tries to read the quote while errno is EBUSY, EINTR or ETIMEDOUT.
\<close>

fun read_outblob ::
  "(nat \<Rightarrow> byte list option \<times> int) \<Rightarrow> nat \<Rightarrow> nat \<Rightarrow> byte list option \<times> int \<Rightarrow> byte list option \<times> int"
  where
  "read_outblob rd retry 0 prev = prev"
| "read_outblob rd retry (Suc n) prev =
     (let r = (map_option (take QUOTE_BUF_SIZE) (fst (rd retry)), snd (rd retry)) in
      if snd r = EBUSY then read_outblob rd (Suc retry) n r
      else if snd r \<noteq> EINTR \<and> snd r \<noteq> ETIMEDOUT then r
      else read_outblob rd (Suc retry) n r)"

text \<open>The part after the generation has moved to \<open>generation2\<close>.\<close>

definition read_quote ::
  "configfs_env \<Rightarrow> int \<Rightarrow> byte list tdx_outcome \<times> event list" where
  "read_quote w generation2 =
     (if \<not> cf_outblob_open w then (Bad TDX_ATTEST_ERROR_UNEXPECTED, [Release Lock_fd])
      else if \<not> cf_buf_mem w
      then (Bad TDX_ATTEST_ERROR_OUT_OF_MEMORY, [Acquire Outblob_fd, Release Lock_fd, Release Outblob_fd])
      else
        let log = [Acquire Outblob_fd, Acquire Quote_mem];
            (buf, errno) = read_outblob (cf_read w) 0 3 (None, 0) in
        (case buf of
           None \<Rightarrow> (Bad (if errno = EBUSY \<or> errno = EINTR \<or> errno = ETIMEDOUT
                        then TDX_ATTEST_ERROR_BUSY else TDX_ATTEST_ERROR_QUOTE_FAILURE),
                   log @ [Release Lock_fd, Release Outblob_fd, Release Quote_mem])
         | Some quote \<Rightarrow>
           if quote = []
           then (Bad (if errno = EBUSY \<or> errno = EINTR \<or> errno = ETIMEDOUT
                      then TDX_ATTEST_ERROR_BUSY else TDX_ATTEST_ERROR_QUOTE_FAILURE),
                 log @ [Release Lock_fd, Release Outblob_fd, Release Quote_mem])
           else if length quote \<le> QUOTE_MIN_SIZE \<or> length quote = QUOTE_BUF_SIZE
           then (Bad TDX_ATTEST_ERROR_QUOTE_FAILURE,
                 log @ [Release Outblob_fd, Release Lock_fd, Release Quote_mem])
           else (case read_configfs_generation (cf_gen_last w) of
               (Good generation3, l) \<Rightarrow>
                 let log1 = log @ [Release Outblob_fd] @ l @ [Release Lock_fd] in
                 if generation3 \<noteq> generation2
                 then (Bad TDX_ATTEST_ERROR_BUSY, log1 @ [Release Quote_mem])
                 else if \<not> cf_realloc_ok w
                 then (Bad TDX_ATTEST_ERROR_OUT_OF_MEMORY, log1 @ [Release Quote_mem])
                 else (Good quote, log1)
             | (Bad e, l) \<Rightarrow>
                 (Bad e, log @ [Release Outblob_fd] @ l @ [Release Lock_fd, Release Quote_mem])
             | (Fault, l) \<Rightarrow> (Fault, log @ [Release Outblob_fd] @ l))))"

text \<open>The part under the lock, up to the poll; a \<open>generation1\<close> of LONG_MAX overflows when incremented.\<close>

definition request_quote ::
  "configfs_env \<Rightarrow> byte list \<Rightarrow> (byte list tdx_outcome \<times> event list) option" where
  "request_quote w report_data =
     (case read_configfs_generation (cf_gen_first w) of
        (Fault, l) \<Rightarrow> Some (Fault, l)
      | (Bad e, l) \<Rightarrow> Some (Bad e, l @ [Release Lock_fd])
      | (Good generation1, l) \<Rightarrow>
        if \<not> cf_inblob_open w then Some (Bad TDX_ATTEST_ERROR_UNEXPECTED, l @ [Release Lock_fd])
        else
          let l1 = l @ [Acquire Inblob_fd, Configfs_request (take TDX_REPORT_DATA_SIZE report_data)];
              (byte_size, errno) = write_inblob (cf_write w) 0 3 (0, 0) in
          if byte_size \<noteq> int TDX_REPORT_DATA_SIZE
          then Some (Bad (if errno = EBUSY then TDX_ATTEST_ERROR_BUSY else TDX_ATTEST_ERROR_UNEXPECTED),
                     l1 @ [Release Lock_fd, Release Inblob_fd])
          else (case poll_generation (cf_gen_poll w) (cf_usleep_ok w) generation1 0
                       (l1 @ [Release Inblob_fd]) of
              None \<Rightarrow> None
            | Some (Fault, l2) \<Rightarrow> Some (Fault, l2)
            | Some (Bad e, l2) \<Rightarrow> Some (Bad e, l2 @ [Release Lock_fd])
            | Some (Good generation2, l2) \<Rightarrow>
                if generation1 = LONG_MAX then Some (Fault, l2)
                else if generation2 \<noteq> generation1 + 1
                then Some (Bad TDX_ATTEST_ERROR_BUSY, l2 @ [Release Lock_fd])
                else (case read_quote w generation2 of (r, l3) \<Rightarrow> Some (r, l2 @ l3))))"

definition configfs_get_quote ::
  "environment \<Rightarrow> configfs_env \<Rightarrow> bool \<Rightarrow> byte list
     \<Rightarrow> (byte list tdx_outcome \<times> bool \<times> event list) option" where
  "configfs_get_quote env w b_mkdir report_data =
     (case prepare_configfs env (cf_prepare w) b_mkdir of
        (Fault, b, l) \<Rightarrow> Some (Fault, b, l)
      | (Bad e, b, l) \<Rightarrow> Some (Bad e, b, l)
      | (Good path, b, l) \<Rightarrow>
        if \<not> cf_lock_open w then Some (Bad TDX_ATTEST_ERROR_UNEXPECTED, b, l)
        else if \<not> cf_flock_ok w
        then Some (Bad TDX_ATTEST_ERROR_UNEXPECTED, b, l @ [Acquire Lock_fd, Release Lock_fd])
        else map_option (\<lambda>(r, l'). (r, b, l @ [Acquire Lock_fd] @ l')) (request_quote w report_data))"

end
