(* ===== verification/Tdx_Attest.thy ===== *)
theory Tdx_Attest
  imports Tdx_Transport Tdx_Configfs
begin

text \<open>
  The API of the attestation library (tdx_attest.c outside SERVTD_ATTEST): tdx_att_get_quote with
  its four transports in order, tdx_att_get_report, tdx_att_get_supported_att_key_ids and
  tdx_att_extend with its sysfs and ioctl paths.
\<close>

record attest_env =
  ae_env :: environment
  ae_config :: "string list option"
  ae_blob_mem :: bool
  ae_blob_junk :: "byte list"              \<comment> \<open>the malloc'ed request buffer, uninitialised\<close>
  ae_dev_open :: bool
  ae_report :: "byte list \<Rightarrow> byte list option"  \<comment> \<open>GET_REPORT0, \<open>None\<close> for -1\<close>
  ae_req_mem :: bool
  ae_local :: sock_env
  ae_local_quote_mem :: bool
  ae_vsock :: sock_env
  ae_vsock_quote_mem :: bool
  ae_configfs :: configfs_env
  ae_tdcall :: tdcall_env
  ae_tdcall_quote_mem :: bool

section \<open>Reports\<close>

text \<open>The contents of a C array of \<open>n\<close> bytes.\<close>

definition array_of :: "nat \<Rightarrow> byte list \<Rightarrow> byte list" where
  "array_of n bs = take n (bs @ replicate n 0)"

lemma length_array_of [simp]: "length (array_of n bs) = n"
  by (simp add: array_of_def)

definition get_tdx_report ::
  "attest_env \<Rightarrow> bool \<Rightarrow> byte list option \<Rightarrow> bool \<Rightarrow> byte list tdx_outcome \<times> event list" where
  "get_tdx_report w devfd_valid p_tdx_report_data p_tdx_report_valid =
     (if \<not> devfd_valid then (Bad TDX_ATTEST_ERROR_UNEXPECTED, [])
      else if \<not> p_tdx_report_valid then (Bad TDX_ATTEST_ERROR_INVALID_PARAMETER, [])
      else case p_tdx_report_data of
        None \<Rightarrow> (Bad TDX_ATTEST_ERROR_INVALID_PARAMETER, [])
      | Some data \<Rightarrow> (case bread TDX_REPORT_DATA_SIZE 0 data of
          None \<Rightarrow> (Fault, [])
        | Some reportdata \<Rightarrow>
            let req = \<lparr>rr_reportdata = reportdata, rr_tdreport = replicate TDX_REPORT_SIZE 0\<rparr> in
            (case ae_report w (rr_reportdata req) of
               None \<Rightarrow> (Bad TDX_ATTEST_ERROR_REPORT_FAILURE, [Report_ioctl])
             | Some tdreport \<Rightarrow>
                 (Good (rr_tdreport (req\<lparr>rr_tdreport := array_of TDX_REPORT_SIZE tdreport\<rparr>)),
                  [Report_ioctl]))))"

definition tdx_att_get_report ::
  "attest_env \<Rightarrow> byte list option \<Rightarrow> bool \<Rightarrow> byte list tdx_outcome \<times> event list" where
  "tdx_att_get_report w p_tdx_report_data p_tdx_report_valid =
     (if \<not> ae_dev_open w then (Bad TDX_ATTEST_ERROR_DEVICE_FAILURE, [])
      else (case get_tdx_report w True p_tdx_report_data p_tdx_report_valid of
        (r, l) \<Rightarrow> (r, [Acquire Dev_fd] @ l @ [Release Dev_fd])))"

section \<open>Quotes\<close>

fun all_supported :: "tdx_uuid_t list \<Rightarrow> nat \<Rightarrow> bool tdx_outcome" where
  "all_supported us 0 = Good True"
| "all_supported [] (Suc n) = Fault"
| "all_supported (u # us) (Suc n) =
     (if u \<noteq> g_intel_tdqe_ecdsa_uuid \<and> u \<noteq> g_intel_tdqe_mldsa_44_uuid
         \<and> u \<noteq> g_intel_tdqe_mldsa_65_uuid \<and> u \<noteq> g_intel_tdqe_mldsa_87_uuid
      then Good False else all_supported us n)"

record get_quote_result =
  gq_ret :: "byte list tdx_outcome"
  gq_key_id :: "tdx_uuid_t option"
  gq_b_mkdir :: bool
  gq_log :: "event list"

text \<open>A payload transport followed by the extraction of the quote from what it received.\<close>

definition deliver ::
  "transport_result \<Rightarrow> bool \<Rightarrow> bool \<Rightarrow> tdx_uuid_t option
     \<Rightarrow> byte list tdx_outcome \<times> byte list \<times> tdx_uuid_t option \<times> event list" where
  "deliver t want mem kid =
     (case t of
        (Good body, data, log) \<Rightarrow>
          (case extract_quote_from_blob_payload data body want mem kid of
             (r, kid', l) \<Rightarrow> (r, data, kid', log @ l))
      | (Bad e, data, log) \<Rightarrow> (Bad e, data, kid, log)
      | (Fault, data, log) \<Rightarrow> (Fault, data, kid, log))"

definition get_quote_by_tdcall ::
  "attest_env \<Rightarrow> bool \<Rightarrow> tdx_quote_hdr \<Rightarrow> tdx_uuid_t option
     \<Rightarrow> byte list tdx_outcome \<times> tdx_uuid_t option \<times> event list" where
  "get_quote_by_tdcall w want blob kid =
     (case tdcall_get_quote_payload (ae_tdcall w) blob of
        (r, blob', l) \<Rightarrow>
          (case deliver (r, qh_data blob', l) want (ae_tdcall_quote_mem w) kid of
             (q, _, kid', l') \<Rightarrow> (q, kid', l')))"

text \<open>From the configfs call on: only NOT_SUPPORTED goes on to the TDCALL.\<close>

definition get_quote_by_fallback ::
  "attest_env \<Rightarrow> byte list \<Rightarrow> bool \<Rightarrow> bool \<Rightarrow> tdx_quote_hdr \<Rightarrow> tdx_uuid_t option
     \<Rightarrow> get_quote_result option" where
  "get_quote_by_fallback w report_data b_mkdir want blob kid =
     (case configfs_get_quote (ae_env w) (ae_configfs w) b_mkdir report_data of
        None \<Rightarrow> None
      | Some (r, b, l) \<Rightarrow>
        if r = Bad TDX_ATTEST_ERROR_NOT_SUPPORTED then
          (case get_quote_by_tdcall w want blob kid of
             (q, kid', l') \<Rightarrow>
               Some \<lparr>gq_ret = q, gq_key_id = kid', gq_b_mkdir = b, gq_log = l @ l'\<rparr>)
        else Some \<lparr>gq_ret = r,
               gq_key_id = (if is_good r \<and> want then Some g_intel_tdqe_ecdsa_uuid else kid),
               gq_b_mkdir = b, gq_log = l\<rparr>)"

text \<open>
  From the vsock call on. The buffer sent is whatever the local transport left in it; \<open>qh_in_len\<close>
  is that of the request.
\<close>

definition get_quote_by_vsock ::
  "attest_env \<Rightarrow> byte list \<Rightarrow> bool \<Rightarrow> bool \<Rightarrow> bool \<Rightarrow> tdx_quote_hdr \<Rightarrow> tdx_uuid_t option
     \<Rightarrow> get_quote_result option" where
  "get_quote_by_vsock w report_data b_mkdir require_remote_mldsa_quote want blob kid =
     (case vsock_get_quote_payload (ae_config w) (ae_vsock w) (qh_data blob) (qh_in_len blob) of
        None \<Rightarrow> None
      | Some t \<Rightarrow>
        (case deliver t want (ae_vsock_quote_mem w) kid of
           (ret, data, kid', l) \<Rightarrow>
             if (require_remote_mldsa_quote \<and> \<not> is_good ret)
                \<or> ret \<noteq> Bad TDX_ATTEST_ERROR_NOT_SUPPORTED
             then Some \<lparr>gq_ret = ret, gq_key_id = kid', gq_b_mkdir = b_mkdir, gq_log = l\<rparr>
             else map_option (\<lambda>g. g\<lparr>gq_log := l @ gq_log g\<rparr>)
                    (get_quote_by_fallback w report_data b_mkdir want (blob\<lparr>qh_data := data\<rparr>) kid')))"

definition get_quote_by_local ::
  "attest_env \<Rightarrow> byte list \<Rightarrow> bool \<Rightarrow> bool \<Rightarrow> bool \<Rightarrow> tdx_quote_hdr \<Rightarrow> tdx_uuid_t option
     \<Rightarrow> get_quote_result option" where
  "get_quote_by_local w report_data b_mkdir require_remote_mldsa_quote want blob kid =
     (case local_qgs_get_quote_payload (ae_env w) (ae_local w) (qh_data blob) (qh_in_len blob) of
        None \<Rightarrow> None
      | Some t \<Rightarrow>
        (case deliver t want (ae_local_quote_mem w) kid of
           (ret, data, kid', l) \<Rightarrow>
             if is_good ret \<or> ret = Fault \<or> local_qgs_forced (ae_env w)
             then Some \<lparr>gq_ret = ret, gq_key_id = kid', gq_b_mkdir = b_mkdir, gq_log = l\<rparr>
             else map_option (\<lambda>g. g\<lparr>gq_log := l @ gq_log g\<rparr>)
                    (get_quote_by_vsock w report_data b_mkdir require_remote_mldsa_quote want
                       (blob\<lparr>qh_data := data\<rparr>) kid')))"

definition early :: "byte list tdx_outcome \<Rightarrow> bool \<Rightarrow> event list \<Rightarrow> get_quote_result option" where
  "early r b_mkdir log = Some \<lparr>gq_ret = r, gq_key_id = None, gq_b_mkdir = b_mkdir, gq_log = log\<rparr>"

text \<open>From the open device to ret_point.\<close>

definition get_quote_with_device ::
  "attest_env \<Rightarrow> bool \<Rightarrow> bool \<Rightarrow> byte list option \<Rightarrow> tdx_uuid_t list option \<Rightarrow> u32 \<Rightarrow> bool
     \<Rightarrow> get_quote_result option" where
  "get_quote_with_device w b_mkdir require_remote_mldsa_quote p_tdx_report_data p_att_key_id_list
       list_size want =
     (case get_tdx_report w True p_tdx_report_data True of
        (Bad e, l) \<Rightarrow> early (Bad e) b_mkdir l
      | (Fault, l) \<Rightarrow> early Fault b_mkdir l
      | (Good tdx_report, l) \<Rightarrow>
        (case generate_get_quote_blob tdx_report p_att_key_id_list list_size (ae_req_mem w)
                \<lparr>qh_version = 0, qh_status = 0, qh_in_len = 0, qh_out_len = 0,
                 qh_data = array_of (REQ_BUF_SIZE - sizeof_tdx_quote_hdr) (ae_blob_junk w)\<rparr> of
           (Bad e, l') \<Rightarrow> early (Bad e) b_mkdir (l @ l')
         | (Fault, l') \<Rightarrow> early Fault b_mkdir (l @ l')
         | (Good blob, l') \<Rightarrow>
             map_option (\<lambda>g. g\<lparr>gq_log := l @ l' @ gq_log g\<rparr>)
               (get_quote_by_local w (obj p_tdx_report_data) b_mkdir require_remote_mldsa_quote
                  want blob None)))"

definition tdx_att_get_quote ::
  "attest_env \<Rightarrow> bool \<Rightarrow> byte list option \<Rightarrow> tdx_uuid_t list option \<Rightarrow> u32 \<Rightarrow> bool \<Rightarrow> bool \<Rightarrow> u32
     \<Rightarrow> get_quote_result option" where
  "tdx_att_get_quote w b_mkdir p_tdx_report_data p_att_key_id_list list_size want pp_quote_valid flags =
     (case refuse_mldsa_quote_fallback (ae_env w) p_att_key_id_list list_size of
        Fault \<Rightarrow> early Fault b_mkdir []
      | Bad e \<Rightarrow> early (Bad e) b_mkdir []
      | Good require_remote_mldsa_quote \<Rightarrow>
        if (p_att_key_id_list = None \<and> list_size \<noteq> 0) \<or> (p_att_key_id_list \<noteq> None \<and> list_size = 0)
        then early (Bad TDX_ATTEST_ERROR_INVALID_PARAMETER) b_mkdir []
        else if \<not> pp_quote_valid then early (Bad TDX_ATTEST_ERROR_INVALID_PARAMETER) b_mkdir []
        else if flags \<noteq> 0 then early (Bad TDX_ATTEST_ERROR_INVALID_PARAMETER) b_mkdir []
        else (case (case p_att_key_id_list of None \<Rightarrow> Good True
                    | Some us \<Rightarrow> all_supported us (unat list_size)) of
            Fault \<Rightarrow> early Fault b_mkdir []
          | Bad e \<Rightarrow> early (Bad e) b_mkdir []
          | Good False \<Rightarrow> early (Bad TDX_ATTEST_ERROR_UNSUPPORTED_ATT_KEY_ID) b_mkdir []
          | Good True \<Rightarrow>
            if \<not> ae_blob_mem w then early (Bad TDX_ATTEST_ERROR_OUT_OF_MEMORY) b_mkdir []
            else if \<not> ae_dev_open w
            then early (Bad TDX_ATTEST_ERROR_DEVICE_FAILURE) b_mkdir [Acquire Blob_mem, Release Blob_mem]
            else map_option
                (\<lambda>g. g\<lparr>gq_log := [Acquire Blob_mem, Acquire Dev_fd] @ gq_log g
                                 @ [Release Dev_fd, Release Blob_mem]\<rparr>)
                (get_quote_with_device w b_mkdir require_remote_mldsa_quote p_tdx_report_data
                   p_att_key_id_list list_size want)))"

definition tdx_att_free_quote :: "event list" where
  "tdx_att_free_quote = [Release Quote_mem]"

section \<open>Supported key ids\<close>

text \<open>
  \<open>*p_list_size\<close> is in and out (\<open>None\<close> is NULL); the result is the status, the new size, and what is
  written to the list.
\<close>

definition tdx_att_get_supported_att_key_ids ::
  "bool \<Rightarrow> u32 option \<Rightarrow> unit tdx_outcome \<times> u32 option \<times> tdx_uuid_t list" where
  "tdx_att_get_supported_att_key_ids list_valid p_list_size =
     (case p_list_size of
        None \<Rightarrow> (Bad TDX_ATTEST_ERROR_INVALID_PARAMETER, None, [])
      | Some n \<Rightarrow>
        if list_valid \<and> n = 0 then (Bad TDX_ATTEST_ERROR_INVALID_PARAMETER, Some n, [])
        else if \<not> list_valid \<and> n \<noteq> 0 then (Bad TDX_ATTEST_ERROR_INVALID_PARAMETER, Some n, [])
        else if list_valid then
          (if n < 4 then (Bad TDX_ATTEST_ERROR_INVALID_PARAMETER, Some 4, [])
           else (Good (), Some 4, [g_intel_tdqe_ecdsa_uuid, g_intel_tdqe_mldsa_44_uuid,
                   g_intel_tdqe_mldsa_65_uuid, g_intel_tdqe_mldsa_87_uuid]))
        else (Good (), Some 4, []))"

section \<open>Extending a runtime measurement register\<close>

definition DEFAULT_DCAP_TDX_RTMR_SYSFS_PATH :: string where
  "DEFAULT_DCAP_TDX_RTMR_SYSFS_PATH = ''/sys/class/misc/tdx_guest/measurements''"

text \<open>The device as the extend path sees it; errors are positive errno values.\<close>

record extend_env =
  xe_env :: environment
  xe_open :: "string \<Rightarrow> int option"              \<comment> \<open>errno of opening a sysfs file\<close>
  xe_write :: "byte list \<Rightarrow> int \<times> int"          \<comment> \<open>value of write, errno\<close>
  xe_has_ioctl :: bool                         \<comment> \<open>TDX_CMD_EXTEND_RTMR is defined\<close>
  xe_dev_open :: "int option"
  xe_ioctl :: "tdx_extend_rtmr_req \<Rightarrow> int \<times> int"  \<comment> \<open>value of ioctl, errno\<close>

definition rtmr_path :: "environment \<Rightarrow> u64 \<Rightarrow> string" where
  "rtmr_path env rtmr =
     (case env ''DCAP_TDX_RTMR_SYSFS_PATH'' of None \<Rightarrow> DEFAULT_DCAP_TDX_RTMR_SYSFS_PATH
      | Some p \<Rightarrow> cstr p) @ ''/rtmr'' @ print_dec (unat rtmr) @ '':sha384''"

definition sysfs_extend_rtmr :: "extend_env \<Rightarrow> u64 \<Rightarrow> byte list \<Rightarrow> int \<times> event list" where
  "sysfs_extend_rtmr w rtmr data =
     (let mrfname = rtmr_path (xe_env w) rtmr in
      if length mrfname \<ge> MAX_PATH then (- ENAMETOOLONG, [])
      else case xe_open w mrfname of
        Some errno \<Rightarrow> (- errno, [])
      | None \<Rightarrow>
          let (rc, errno) = xe_write w (take TDX_EXTEND_RTMR_DATA_LEN data);
              log = [Acquire Rtmr_fd, Release Rtmr_fd] in
          if rc \<noteq> int TDX_EXTEND_RTMR_DATA_LEN
          then (if rc < 0 then - errno else - EIO, log)
          else (0, log))"

definition ioctl_extend_rtmr :: "extend_env \<Rightarrow> u64 \<Rightarrow> byte list \<Rightarrow> int \<times> event list" where
  "ioctl_extend_rtmr w rtmr data =
     (if \<not> xe_has_ioctl w then (- EOPNOTSUPP, [])
      else case xe_dev_open w of
        Some errno \<Rightarrow> (- errno, [])
      | None \<Rightarrow>
          let req = \<lparr>er_data = take TDX_EXTEND_RTMR_DATA_LEN data, er_index = ucast rtmr\<rparr>;
              (err, errno) = xe_ioctl w req;
              log = [Acquire Dev_fd, Release Dev_fd] in
          (if err < 0 then - errno else err, log))"

definition tdx_att_extend :: "extend_env \<Rightarrow> tdx_rtmr_event_t option \<Rightarrow> unit tdx_outcome \<times> event list" where
  "tdx_att_extend w p_rtmr_event =
     (case p_rtmr_event of
        None \<Rightarrow> (Bad TDX_ATTEST_ERROR_INVALID_PARAMETER, [])
      | Some ev \<Rightarrow>
        if ev_version ev \<noteq> 1 then (Bad TDX_ATTEST_ERROR_INVALID_PARAMETER, [])
        else if ev_event_data_size ev \<noteq> 0 then (Bad TDX_ATTEST_ERROR_NOT_SUPPORTED, [])
        else if ev_rtmr_index ev > 3 then (Bad TDX_ATTEST_ERROR_INVALID_PARAMETER, [])
        else
          let (err0, l0) = sysfs_extend_rtmr w (ev_rtmr_index ev) (ev_extend_data ev);
              (err, l) = (if err0 = - ENOENT
                          then (case ioctl_extend_rtmr w (ev_rtmr_index ev) (ev_extend_data ev) of
                                  (e, l1) \<Rightarrow> (e, l0 @ l1))
                          else (err0, l0)) in
          (if err = 0 then (Good (), l)
           else if err = - ENOENT then (Bad TDX_ATTEST_ERROR_DEVICE_FAILURE, l)
           else if err = - EINVAL then (Bad TDX_ATTEST_ERROR_INVALID_RTMR_INDEX, l)
           else if err = - EOPNOTSUPP then (Bad TDX_ATTEST_ERROR_NOT_SUPPORTED, l)
           else (Bad TDX_ATTEST_ERROR_EXTEND_FAILURE, l)))"

end
