(* ===== verification/Tdx_Flow.thy ===== *)
theory Tdx_Flow
  imports Tdx_Attest
begin

text \<open>
  Facts about the flow of data and resources through the attestation library: what the receive
  loop delivers, the contract of a payload transport (locale \<open>payload_transport\<close>) with its
  interpretations for vsock and the local socket, and the balance of every log.
\<close>

section \<open>The receive loop\<close>

lemma recv_body_unfold_done [simp]:
  "body \<le> got \<Longrightarrow> recv_body data got body script = Some (Good (True, data))"
  by (simp add: recv_body.simps)

text \<open>On end of file with bytes missing the loop never ends.\<close>

lemma recv_body_eof:
  assumes "got < body" "HEADER_SIZE + got \<le> length data"
  shows "recv_body data got body [] = None"
proof (rule ccontr)
  assume "recv_body data got body [] \<noteq> None"
  then obtain r where r: "recv_body data got body [] = Some r" by blast
  have "script = [] \<longrightarrow> HEADER_SIZE + g \<le> length d \<longrightarrow> b \<le> g"
    if "recv_body d g b script = Some r" for d g b script r
  proof (rule recv_body.raw_induct
      [where P = "\<lambda>d g b script r. script = [] \<longrightarrow> HEADER_SIZE + g \<le> length d \<longrightarrow> b \<le> g", OF _ that])
    fix f d g b script and r :: "(bool \<times> byte list) tdx_outcome"
    assume IH: "\<And>d g b script r. f d g b script = Some r \<Longrightarrow>
        script = [] \<longrightarrow> HEADER_SIZE + g \<le> length d \<longrightarrow> b \<le> g"
      and eq: "(if g < b then
        (case recv (b - g) script of
           (None, _) \<Rightarrow> Some (Good (False, d))
         | (Some x, script') \<Rightarrow>
             (case bwrite (HEADER_SIZE + g) x d of
                None \<Rightarrow> Some Fault
              | Some data' \<Rightarrow> f data' (g + length x) b script'))
      else Some (Good (True, d))) = Some r"
    show "script = [] \<longrightarrow> HEADER_SIZE + g \<le> length d \<longrightarrow> b \<le> g"
    proof (intro impI)
      assume "script = []" and l: "HEADER_SIZE + g \<le> length d"
      show "b \<le> g"
      proof (rule ccontr)
        assume "\<not> b \<le> g"
        with eq l \<open>script = []\<close> have "f d g b [] = Some r" by (simp add: bwrite_def)
        from IH [OF this] l \<open>\<not> b \<le> g\<close> show False by simp
      qed
    qed
  qed
  from this [OF r] assms show False by simp
qed

lemma recv_body_chunks:
  assumes "HEADER_SIZE + body \<le> length data" "got \<le> body"
  shows "recv_body data got body (map Rx_data chunks) =
    (if body - got \<le> length (concat chunks)
     then Some (Good (True, take (HEADER_SIZE + got) data @ take (body - got) (concat chunks)
                            @ drop (HEADER_SIZE + body) data))
     else None)"
  using assms
proof (induction chunks arbitrary: data got)
  case Nil
  show ?case
  proof (cases "got < body")
    case True
    with Nil show ?thesis by (simp add: recv_body_eof)
  qed (use Nil in simp)
next
  case (Cons d chunks)
  show ?case
  proof (cases "got < body")
    case True
    let ?d = "take (body - got) d"
    let ?rest = "if body - got < length d then Rx_data (drop (body - got) d) # map Rx_data chunks else map Rx_data chunks"
    let ?data = "take (HEADER_SIZE + got) data @ ?d @ drop (HEADER_SIZE + got + length ?d) data"
    have w: "bwrite (HEADER_SIZE + got) ?d data = Some ?data"
      using Cons.prems True by (simp add: bwrite_def)
    have step: "recv_body data got body (map Rx_data (d # chunks)) = recv_body ?data (got + length ?d) body ?rest"
      using True w by (subst recv_body.simps) (simp del: length_take)
    show ?thesis
    proof (cases "body - got \<le> length d")
      case True
      then show ?thesis using step Cons.prems \<open>got < body\<close> by (simp add: min_def)
    next
      case False
      then have d: "?d = d" by simp
      have len: "\<not> length data \<le> HEADER_SIZE + got"
        using Cons.prems \<open>got < body\<close> by linarith
      have "recv_body ?data (got + length d) body (map Rx_data chunks) =
        (if body - (got + length d) \<le> length (concat chunks)
         then Some (Good (True, take (HEADER_SIZE + (got + length d)) ?data
            @ take (body - (got + length d)) (concat chunks) @ drop (HEADER_SIZE + body) ?data))
         else None)"
        using Cons.prems False len by (intro Cons.IH) (simp_all add: min_def)
      then show ?thesis
        using step False Cons.prems len by (auto simp add: d min_def add.commute [of body HEADER_SIZE])
    qed
  qed (use Cons in simp)
qed

lemma recv_body_safe:
  assumes "recv_body data got body script = Some r" "HEADER_SIZE + body \<le> length data" "got \<le> body"
  shows "\<exists>ok d. r = Good (ok, d) \<and> length d = length data"
proof -
  have "HEADER_SIZE + b \<le> length d \<longrightarrow> g \<le> b \<longrightarrow> (\<exists>ok d'. r = Good (ok, d') \<and> length d' = length d)"
    if "recv_body d g b script = Some r" for d g b script r
  proof (rule recv_body.raw_induct [where P = "\<lambda>d g b script r. HEADER_SIZE + b \<le> length d \<longrightarrow> g \<le> b
      \<longrightarrow> (\<exists>ok d'. r = Good (ok, d') \<and> length d' = length d)", OF _ that])
    fix f d g b script and r :: "(bool \<times> byte list) tdx_outcome"
    assume IH: "\<And>d g b script r. f d g b script = Some r \<Longrightarrow> HEADER_SIZE + b \<le> length d \<longrightarrow> g \<le> b
        \<longrightarrow> (\<exists>ok d'. r = Good (ok, d') \<and> length d' = length d)"
      and eq: "(if g < b then
        (case recv (b - g) script of
           (None, _) \<Rightarrow> Some (Good (False, d))
         | (Some x, script') \<Rightarrow>
             (case bwrite (HEADER_SIZE + g) x d of
                None \<Rightarrow> Some Fault
              | Some data' \<Rightarrow> f data' (g + length x) b script'))
      else Some (Good (True, d))) = Some r"
    show "HEADER_SIZE + b \<le> length d \<longrightarrow> g \<le> b \<longrightarrow> (\<exists>ok d'. r = Good (ok, d') \<and> length d' = length d)"
    proof (intro impI)
      assume l: "HEADER_SIZE + b \<le> length d" "g \<le> b"
      show "\<exists>ok d'. r = Good (ok, d') \<and> length d' = length d"
      proof (cases "g < b")
        case True
        obtain o' script' where rc: "recv (b - g) script = (o', script')" by fastforce
        show ?thesis
        proof (cases o')
          case (Some x)
          have x: "length x \<le> b - g" using rc Some length_recv by blast
          then have "HEADER_SIZE + g + length x \<le> length d" using l True by linarith
          then obtain d' where w: "bwrite (HEADER_SIZE + g) x d = Some d'" "length d' = length d"
            using bwrite_fits by blast
          with eq True rc Some have "f d' (g + length x) b script' = Some r" by simp
          from IH [OF this] w l x True show ?thesis by simp
        qed (use eq True rc in auto)
      qed (use eq in auto)
    qed
  qed
  from this [OF assms(1)] assms(2,3) show ?thesis by simp
qed

lemma take_be32_bound: "payload_capacity = 16356"
  by (simp add: payload_capacity_def tdx_sizes)

section \<open>The contract of a payload transport\<close>

text \<open>The request buffer is \<open>REQ_BUF_SIZE\<close> bytes with its header.\<close>

definition request_buffer :: "byte list \<Rightarrow> bool" where
  "request_buffer data \<longleftrightarrow> length data = REQ_BUF_SIZE - sizeof_tdx_quote_hdr"

lemma exchange_payload_contract:
  assumes "exchange_payload s w data n = Some (r, data', log)"
    and "request_buffer data" "unat n \<le> length data"
  shows "r \<noteq> Fault \<and> length data' = length data
    \<and> (\<forall>b. r = Good b \<longrightarrow> HEADER_SIZE + unat b \<le> length data') \<and> (\<exists>out. log = [Sent s out])"
proof -
  have len: "length data = 16360" using assms(2) by (simp add: request_buffer_def tdx_sizes)
  then have rd: "bread (unat n) 0 data = Some (take (unat n) data)" using assms(3) by (simp add: bread_def)
  obtain hdr script where rc: "recv HEADER_SIZE (se_recvs w) = (hdr, script)" by fastforce
  show ?thesis
  proof (cases hdr)
    case None
    with assms(1) rd rc show ?thesis by (auto simp: exchange_payload_def split: if_splits)
  next
    case (Some h)
    have h: "length h \<le> 4" using length_recv [of HEADER_SIZE "se_recvs w" h script] rc Some
      by (simp add: tdx_sizes)
    then obtain d1 where w: "bwrite 0 h data = Some d1" and d1: "length d1 = length data"
      using len by (auto simp: bwrite_def)
    have body: "\<exists>ok d'. x = Good (ok, d') \<and> length d' = 16360"
      if "recv_body d 0 b script' = Some x" "\<not> 16356 < b" "length d = 16360" for d b script' x
      using recv_body_safe [OF that(1)] that by (simp add: tdx_sizes)
    have l4: "HEADER_SIZE = 4" by (simp add: tdx_sizes)
    show ?thesis
      using assms(1) rd rc Some w d1 len
      by (auto simp: exchange_payload_def Let_def take_be32_bound l4 split: if_splits option.splits
          outcome.splits bool.splits dest!: body)
  qed
qed

text \<open>A log that only opens, uses and closes the socket \<open>s\<close>.\<close>

definition socket_log :: "resource \<Rightarrow> event list \<Rightarrow> bool" where
  "socket_log s log \<longleftrightarrow> log = [] \<or> log = [Acquire s, Release s] \<or> (\<exists>out. log = [Acquire s, Sent s out, Release s])"

lemma held_socket_log: "socket_log s log \<Longrightarrow> held rs log = Some rs"
  by (auto simp: socket_log_def)

text \<open>
  \<open>run\<close> sends the first \<open>n\<close> bytes of the request buffer and overwrites the buffer with the answer:
  what a caller of a transport relies on.
\<close>

locale payload_transport =
  fixes run :: "byte list \<Rightarrow> u32 \<Rightarrow> transport_result option" and s :: resource
  assumes run_safe: "request_buffer data \<Longrightarrow> unat n \<le> length data \<Longrightarrow> run data n = Some (r, data', log) \<Longrightarrow>
      r \<noteq> Fault \<and> request_buffer data'"
    and run_body: "request_buffer data \<Longrightarrow> unat n \<le> length data \<Longrightarrow> run data n = Some (Good b, data', log) \<Longrightarrow>
      HEADER_SIZE + unat b \<le> length data'"
    and run_log: "request_buffer data \<Longrightarrow> unat n \<le> length data \<Longrightarrow> run data n = Some (r, data', log) \<Longrightarrow>
      socket_log s log"

lemma extract_safe:
  assumes "HEADER_SIZE + unat b \<le> length data"
  shows "fst (extract_quote_from_blob_payload data b want mem kid) \<noteq> Fault"
proof -
  let ?msg = "drop HEADER_SIZE data"
  have n: "unat b \<le> length ?msg" using assms by simp
  show ?thesis
  proof (cases "qgs_msg_inflate_get_quote_resp (Some ?msg) b True")
    case (Good v)
    from n this show ?thesis
      unfolding inflate_get_quote_resp_Good_iff
      by (auto simp: extract_quote_from_blob_payload_def Good Let_def bread_def quote_resp_of_def QGS_MSG_SUCCESS_def TDX_UUID_SIZE_def split: if_splits)
  qed (use inflate_no_fault(2) [OF n] in \<open>auto simp: extract_quote_from_blob_payload_def Let_def\<close>)
qed

lemma extract_log:
  assumes "extract_quote_from_blob_payload data b want mem kid = (q, kid', l)"
  shows "q \<noteq> Fault \<Longrightarrow> l = (if is_good q then [Acquire Quote_mem] else [])"
  using assms
  by (auto simp: extract_quote_from_blob_payload_def Let_def split: outcome.splits prod.splits if_splits option.splits)

context payload_transport
begin

text \<open>A transport followed by the extraction keeps the contract of a step of tdx_att_get_quote.\<close>

lemma deliver_contract:
  assumes "request_buffer data" "unat n \<le> length data" "run data n = Some t"
    and "deliver t want mem kid = (q, data', kid', l)"
  shows "q \<noteq> Fault" "request_buffer data'"
    "held rs l = Some (if is_good q then Quote_mem # rs else rs)"
    "set l \<subseteq> {Acquire s, Release s, Acquire Quote_mem} \<union> range (Sent s)"
proof -
  obtain r d log where t: "t = (r, d, log)" by (cases t)
  note run = assms(3) [unfolded t]
  have safe: "r \<noteq> Fault" "request_buffer d" using run_safe [OF assms(1,2) run] by simp_all
  have log: "socket_log s log" by (rule run_log [OF assms(1,2) run])
  then have sub: "set log \<subseteq> {Acquire s, Release s} \<union> range (Sent s)" by (auto simp: socket_log_def)
  have "q \<noteq> Fault \<and> request_buffer data'
        \<and> held rs l = Some (if is_good q then Quote_mem # rs else rs)
        \<and> set l \<subseteq> {Acquire s, Release s, Acquire Quote_mem} \<union> range (Sent s)"
  proof (cases r)
    case (Good b)
    obtain q' k' l' where e: "extract_quote_from_blob_payload d b want mem kid = (q', k', l')"
      by (cases "extract_quote_from_blob_payload d b want mem kid")
    have q': "q' \<noteq> Fault"
      using extract_safe [of b d want mem kid] run_body [of data n b d log] assms(1,2) run Good e by simp
    from assms(4) t Good e have "q = q'" "data' = d" "l = log @ l'" by (auto simp: deliver_def)
    with q' safe(2) extract_log [OF e q'] held_socket_log [OF log] sub
    show ?thesis by (auto simp: held_append)
  qed (use assms(4) t safe held_socket_log [OF log] sub in \<open>auto simp: deliver_def\<close>)
  then show "q \<noteq> Fault" "request_buffer data'"
    "held rs l = Some (if is_good q then Quote_mem # rs else rs)"
    "set l \<subseteq> {Acquire s, Release s, Acquire Quote_mem} \<union> range (Sent s)"
    by auto
qed

end

lemma vsock_cases:
  assumes "vsock_get_quote_payload config w data n = Some (r, data', log)"
  shows "(\<exists>e. r = Bad e \<and> data' = data \<and> socket_log Vsock_sock log)
    \<or> (\<exists>log'. exchange_payload Vsock_sock w data n = Some (r, data', log')
         \<and> log = Acquire Vsock_sock # log' @ [Release Vsock_sock])"
  using assms by (auto simp: vsock_get_quote_payload_def Let_def socket_log_def split: if_splits)

lemma local_cases:
  assumes "local_qgs_get_quote_payload env w data n = Some (r, data', log)"
  shows "(\<exists>e. r = Bad e \<and> data' = data \<and> socket_log Local_sock log)
    \<or> (\<exists>log'. exchange_payload Local_sock w data n = Some (r, data', log')
         \<and> log = Acquire Local_sock # log' @ [Release Local_sock])"
  using assms by (auto simp: local_qgs_get_quote_payload_def Let_def socket_log_def
      split: if_splits option.splits)

lemma transport_laws:
  assumes "request_buffer data" "unat n \<le> length data"
    and "(\<exists>e. r = Bad e \<and> data' = data \<and> socket_log s log)
      \<or> (\<exists>log'. exchange_payload s w data n = Some (r, data', log') \<and> log = Acquire s # log' @ [Release s])"
  shows "r \<noteq> Fault \<and> request_buffer data'" "r = Good b \<Longrightarrow> HEADER_SIZE + unat b \<le> length data'"
    "socket_log s log"
  using assms(3) exchange_payload_contract [of s w data n r data'] assms(1,2)
  by (auto simp: socket_log_def request_buffer_def)

lemma transport_unfold:
  assumes "request_buffer data" "unat n \<le> length data"
  shows "vsock_get_quote_payload config w data n = Some (r, data', log) \<Longrightarrow>
      r \<noteq> Fault \<and> request_buffer data' \<and> (\<forall>b. r = Good b \<longrightarrow> HEADER_SIZE + unat b \<le> length data')
      \<and> socket_log Vsock_sock log"
    "local_qgs_get_quote_payload env w data n = Some (r, data', log) \<Longrightarrow>
      r \<noteq> Fault \<and> request_buffer data' \<and> (\<forall>b. r = Good b \<longrightarrow> HEADER_SIZE + unat b \<le> length data')
      \<and> socket_log Local_sock log"
  subgoal premises p
    using transport_laws [OF assms vsock_cases [OF p]] by metis
  subgoal premises p
    using transport_laws [OF assms local_cases [OF p]] by metis
  done

interpretation vsock: payload_transport "vsock_get_quote_payload config w" Vsock_sock
  for config w
  by (rule payload_transport.intro) (drule (2) transport_unfold(1); simp)+

interpretation local_qgs: payload_transport "local_qgs_get_quote_payload env w" Local_sock
  for env w
  by (rule payload_transport.intro) (drule (2) transport_unfold(2); simp)+

end
