(* ===== verification/Tdx_Safe.thy ===== *)
theory Tdx_Safe
  imports Tdx_Flow
begin

text \<open>
  Every stage of tdx_att_get_quote releases what it acquires and keeps its request buffer whole:
  lemmas per stage, composed in the order of the code.
\<close>

section \<open>Balance\<close>

text \<open>What a stage leaves acquired: the quote it returns, nothing else.\<close>

definition balanced :: "byte list tdx_outcome \<Rightarrow> event list \<Rightarrow> bool" where
  "balanced r l \<longleftrightarrow> (\<forall>rs. held rs l = Some (if is_good r then Quote_mem # rs else rs))"

definition neutral :: "event list \<Rightarrow> bool" where
  "neutral l \<longleftrightarrow> (\<forall>rs. held rs l = Some rs)"

lemma neutral_simps [simp]:
  "neutral []" "neutral (Report_ioctl # l) = neutral l"
  "neutral (Acquire r # Release r # l) = neutral l"
  by (simp_all add: neutral_def)

lemma neutral_append: "neutral l \<Longrightarrow> neutral l' \<Longrightarrow> neutral (l @ l')"
  by (simp add: neutral_def held_append)

lemma held_neutral_append: "neutral l \<Longrightarrow> held rs (l @ l') = held rs l'"
  by (simp add: neutral_def held_append)

lemma balanced_after: "neutral l \<Longrightarrow> balanced r l' \<Longrightarrow> balanced r (l @ l')"
  by (simp add: neutral_def balanced_def held_append)

lemma balanced_Bad [simp]: "balanced (Bad e) l = neutral l"
  by (simp add: balanced_def neutral_def)

lemma neutral_held: "neutral l \<Longrightarrow> held rs l = Some rs"
  by (simp add: neutral_def)

section \<open>The request\<close>

lemma gen_get_quote_req_total:
  assumes "unat report_size \<le> length rep" "unat ids_size \<le> length (obj ids)"
  shows "qgs_msg_gen_get_quote_req (Some rep) report_size ids ids_size True mem \<noteq> Fault"
    and "qgs_msg_gen_get_quote_req (Some rep) report_size ids ids_size True mem = Good bs \<Longrightarrow>
      length bs = 24 + unat report_size + unat ids_size \<and> length bs < 4294967295"
proof -
  have "unat (24 + ucast report_size + ucast ids_size :: u64) = 24 + unat report_size + unat ids_size"
    by (subst u64_sum2) simp_all
  then have "qgs_msg_gen_get_quote_req (Some rep) report_size ids ids_size True mem \<noteq> Fault
    \<and> (\<forall>bs. qgs_msg_gen_get_quote_req (Some rep) report_size ids ids_size True mem = Good bs \<longrightarrow>
      length bs = 24 + unat report_size + unat ids_size \<and> length bs < 4294967295)"
    using assms
    by (auto simp: qgs_msg_gen_get_quote_req_def Let_def UINT32_MAX_def word_less_nat_alt
        memcpy_cases obind_Good_iff obind_Fault_iff unat_ucast_64_32 split: if_splits)
  then show "qgs_msg_gen_get_quote_req (Some rep) report_size ids ids_size True mem \<noteq> Fault"
    "qgs_msg_gen_get_quote_req (Some rep) report_size ids ids_size True mem = Good bs \<Longrightarrow>
      length bs = 24 + unat report_size + unat ids_size \<and> length bs < 4294967295" by simp_all
qed

lemma all_supported_length:
  "all_supported us n = Good True \<Longrightarrow> n \<le> length us"
  "all_supported us n = Good True \<Longrightarrow> 16 * n \<le> length (concat us)"
  by (induction us n rule: all_supported.induct) (auto split: if_splits)

lemma all_supported_total:
  "n \<le> length us \<Longrightarrow> all_supported us n = Good (\<forall>u \<in> set (take n us). u = g_intel_tdqe_ecdsa_uuid
     \<or> is_mldsa_uuid u)"
  by (induction us n rule: all_supported.induct) (auto simp: is_mldsa_uuid_def)

text \<open>A key id list of a caller: absent with size 0, or with that many supported ids.\<close>

definition id_list_ok :: "tdx_uuid_t list option \<Rightarrow> u32 \<Rightarrow> bool" where
  "id_list_ok ids n \<longleftrightarrow> (case ids of None \<Rightarrow> True | Some us \<Rightarrow> all_supported us (unat n) = Good True)"

lemma unat_times_16: "unat (n * 16 :: u32) \<le> 16 * unat n"
  by (simp add: unat_word_ariths)

lemma generate_contract:
  assumes "generate_get_quote_blob rep ids n mem blob = (r, l)"
    and "length rep = TDX_REPORT_SIZE" "id_list_ok ids n" "request_buffer (qh_data blob)"
  shows "r \<noteq> Fault" "neutral l"
    "r = Good b \<Longrightarrow> request_buffer (qh_data b) \<and> unat (qh_in_len b) \<le> length (qh_data b)"
    "set l \<subseteq> {Acquire Req_mem, Release Req_mem}"
proof -
  define given where "given = (ids \<noteq> None \<and> n \<noteq> 0)"
  define p where "p = (if given then map_option concat ids else None)"
  define m where "m = (if given then n * word_of_nat TDX_UUID_SIZE else 0)"
  note unf = assms(1) [unfolded generate_get_quote_blob_def Let_def, folded given_def, folded p_def m_def]
  have m: "unat m \<le> length (obj p)"
  proof (cases given)
    case True
    then obtain us where us: "ids = Some us" by (auto simp: given_def)
    with assms(3) have "16 * unat n \<le> length (concat us)"
      by (simp add: id_list_ok_def all_supported_length)
    with True us show ?thesis
      using unat_times_16 [of n] by (simp add: m_def p_def TDX_UUID_SIZE_def)
  qed (simp add: m_def)
  have rs: "unat (word_of_nat TDX_REPORT_SIZE :: u32) = 1024" by (simp add: TDX_REPORT_SIZE_def)
  note gen = gen_get_quote_req_total [of "word_of_nat TDX_REPORT_SIZE" rep m p mem, OF _ m]
  have len: "length rep = 1024" "length (qh_data blob) = 16360"
    using assms(2,4) by (simp_all add: tdx_sizes request_buffer_def)
  have "r \<noteq> Fault \<and> neutral l \<and> (\<forall>b. r = Good b \<longrightarrow> request_buffer (qh_data b)
      \<and> unat (qh_in_len b) \<le> length (qh_data b)) \<and> set l \<subseteq> {Acquire Req_mem, Release Req_mem}"
  proof (cases "qgs_msg_gen_get_quote_req (Some rep) (word_of_nat TDX_REPORT_SIZE) p m True mem")
    case (Good req)
    have size_req: "length req < 4294967295" using gen(2) [of req] Good rs len by simp
    show ?thesis
    proof (cases "length req \<le> 16356")
      case True
      then have in_len: "unat (4 + len32 req) = 4 + length req" by (simp add: unat_word_ariths)
      from True len obtain d1 where d1: "bwrite 0 (be32_bytes (len32 req)) (qh_data blob) = Some d1"
        "length d1 = 16360"
        using bwrite_fits [of 0 "be32_bytes (len32 req)" "qh_data blob"] by auto
      then obtain d2 where d2: "bwrite HEADER_SIZE req d1 = Some d2" "length d2 = 16360"
        using bwrite_fits [of HEADER_SIZE req d1] True by (auto simp: tdx_sizes)
      from unf Good show ?thesis
        using True size_req in_len d1 d2
        by (auto simp: take_be32_bound request_buffer_def tdx_sizes)
    qed (use unf Good size_req in \<open>auto simp: take_be32_bound\<close>)
  next
    case (Bad e)
    with unf show ?thesis by auto
  next
    case Fault
    with gen(1) rs len show ?thesis by simp
  qed
  then show "r \<noteq> Fault" "neutral l"
    "r = Good b \<Longrightarrow> request_buffer (qh_data b) \<and> unat (qh_in_len b) \<le> length (qh_data b)"
    "set l \<subseteq> {Acquire Req_mem, Release Req_mem}" by auto
qed

section \<open>The configfs path\<close>

lemma prepare_default_dir_contract:
  assumes "prepare_default_dir w b = (r, b', l)"
  shows "r \<noteq> Fault" "neutral l" "b' \<longrightarrow> b"
  using assms
  by (auto simp: prepare_default_dir_def Let_def neutral_def split: option.splits if_splits)

lemma prepare_configfs_contract:
  assumes "prepare_configfs env w b = (r, b', l)"
  shows "r \<noteq> Fault \<and> neutral l"
proof -
  obtain r1 b1 l1 where p: "prepare_default_dir w b = (r1, b1, l1)" by (cases "prepare_default_dir w b")
  note pd = prepare_default_dir_contract [OF p]
  have fin: "r \<noteq> Fault \<and> neutral l"
    if "neutral l0" "(if \<not> pe_provider_open w then (Bad TDX_ATTEST_ERROR_UNEXPECTED, b0, l0)
          else let log' = l0 @ [Acquire Provider_fd, Release Provider_fd] in
            (case pe_provider_read w of
               None \<Rightarrow> (Bad TDX_ATTEST_ERROR_QUOTE_FAILURE, b0, log')
             | Some content \<Rightarrow>
                 let provider = take 15 content in
                 if provider = [] \<or> take 9 provider \<noteq> ''tdx_guest''
                 then (Bad TDX_ATTEST_ERROR_QUOTE_FAILURE, b0, log')
                 else (Good pth, b0, log'))) = (r, b', l)" for l0 b0 pth
    using that by (auto simp: Let_def neutral_append split: if_splits option.splits)
  show ?thesis
  proof (cases "env ''DCAP_TDX_QUOTE_CONFIGFS_PATH''")
    case None
    show ?thesis
    proof (cases r1)
      case (Good u)
      with assms p None pd(2) show ?thesis
        by (intro fin [of l1 b1 DEFAULT_DCAP_TDX_QUOTE_CONFIGFS_PATH]) (simp_all add: prepare_configfs_def)
    qed (use assms p pd None in \<open>auto simp: prepare_configfs_def\<close>)
  next
    case (Some path)
    show ?thesis
    proof (cases "MAX_PATH - 20 \<le> length (cstr path) \<or> \<not> pe_env_dir_ok w")
      case True
      with assms Some show ?thesis
        by (cases "MAX_PATH - 20 \<le> length (cstr path)") (auto simp: prepare_configfs_def)
    next
      case False
      with assms Some show ?thesis by (intro fin [of "[Acquire Dir_stream, Release Dir_stream]"]) (simp_all add: prepare_configfs_def)
    qed
  qed
qed

lemma read_configfs_generation_contract:
  assumes "read_configfs_generation f = (r, l)"
  shows "r \<noteq> Fault" "neutral l"
  using assms by (auto simp: read_configfs_generation_def Let_def split: option.splits if_splits prod.splits)

lemma poll_generation_contract:
  assumes "poll_generation gen us g k log = Some (r, log')"
  shows "r \<noteq> Fault \<and> (\<exists>l. log' = log @ l \<and> neutral l)"
proof -
  have "fst res \<noteq> Fault \<and> (\<exists>l. snd res = log @ l \<and> neutral l)"
    if "poll_generation gen us g k log = Some res" for gen us g k log res
  proof (rule poll_generation.raw_induct
      [where P = "\<lambda>gen us g k log res. fst res \<noteq> Fault \<and> (\<exists>l. snd res = log @ l \<and> neutral l)", OF _ that])
    fix f gen us g k log res
    assume IH: "\<And>gen us g k log res. f gen us g k log = Some res \<Longrightarrow>
        fst res \<noteq> Fault \<and> (\<exists>l. snd res = log @ l \<and> neutral l)"
      and eq: "(case read_configfs_generation (gen k) of
        (Good generation2, l) \<Rightarrow>
          if generation2 = g \<and> us k
          then f gen us g (Suc k) (log @ l)
          else Some (Good generation2, log @ l)
      | (Bad e, l) \<Rightarrow> Some (Bad e, log @ l)
      | (Fault, l) \<Rightarrow> Some (Fault, log @ l)) = Some res"
    obtain r l where rd: "read_configfs_generation (gen k) = (r, l)" by fastforce
    note c = read_configfs_generation_contract [OF rd]
    show "fst res \<noteq> Fault \<and> (\<exists>l. snd res = log @ l \<and> neutral l)"
    proof (cases r)
      case (Good g2)
      show ?thesis
      proof (cases "g2 = g \<and> us k")
        case True
        with eq rd Good have "f gen us g (Suc k) (log @ l) = Some res" by simp
        from IH [OF this] c(2) show ?thesis by (auto intro: neutral_append)
      qed (use eq rd Good c in auto)
    qed (use eq rd c in auto)
  qed
  from this [OF assms] show ?thesis by simp
qed

lemma read_outblob_length:
  assumes "read_outblob rd k n prev = (Some q, e)"
    and "\<forall>p. fst prev = Some p \<longrightarrow> length p \<le> QUOTE_BUF_SIZE"
  shows "length q \<le> QUOTE_BUF_SIZE"
  using assms
proof (induction rd k n prev rule: read_outblob.induct)
  case (2 rd retry n prev)
  have p: "\<forall>p. fst (map_option (take QUOTE_BUF_SIZE) (fst (rd retry)), snd (rd retry)) = Some p
      \<longrightarrow> length p \<le> QUOTE_BUF_SIZE" by auto
  from 2(1) [OF refl _ _ p] 2(2) [OF refl _ _ _ p] 2(3) show ?case
    by (auto simp: Let_def split: if_splits)
qed simp

lemma read_quote_contract:
  assumes "read_quote w g = (r, l)"
  shows "held (Lock_fd # rs) l = Some (if is_good r then Quote_mem # rs else rs)" "r \<noteq> Fault"
    "r = Good q \<Longrightarrow> QUOTE_MIN_SIZE < length q \<and> length q < QUOTE_BUF_SIZE
      \<and> fst (read_configfs_generation (cf_gen_last w)) = Good g"
proof -
  obtain r3 l3 where g: "read_configfs_generation (cf_gen_last w) = (r3, l3)" by fastforce
  note gc = read_configfs_generation_contract [OF g]
  obtain buf e where rd: "read_outblob (cf_read w) 0 3 (None, 0) = (buf, e)" by fastforce
  have "held (Lock_fd # rs) l = Some (if is_good r then Quote_mem # rs else rs) \<and> r \<noteq> Fault
    \<and> (\<forall>q. r = Good q \<longrightarrow> QUOTE_MIN_SIZE < length q \<and> length q < QUOTE_BUF_SIZE \<and> r3 = Good g)"
    using assms g gc(1) rd read_outblob_length [of "cf_read w" 0 3 "(None, 0)"] neutral_held [OF gc(2)]
    by (auto simp: read_quote_def Let_def held_append split: option.splits if_splits outcome.splits)
  then show "held (Lock_fd # rs) l = Some (if is_good r then Quote_mem # rs else rs)" "r \<noteq> Fault"
    "r = Good q \<Longrightarrow> QUOTE_MIN_SIZE < length q \<and> length q < QUOTE_BUF_SIZE
      \<and> fst (read_configfs_generation (cf_gen_last w)) = Good g"
    by (simp_all add: g)
qed

lemma request_quote_contract:
  assumes "request_quote w report_data = Some (r, l)" "r \<noteq> Fault"
  shows "held (Lock_fd # rs) l = Some (if is_good r then Quote_mem # rs else rs)"
proof -
  obtain r1 l1 where g: "read_configfs_generation (cf_gen_first w) = (r1, l1)" by fastforce
  note gc = read_configfs_generation_contract [OF g]
  show ?thesis
  proof (cases r1)
    case (Good g1)
    obtain n e where wr: "write_inblob (cf_write w) 0 3 (0, 0) = (n, e)" by fastforce
    let ?l1 = "l1 @ [Acquire Inblob_fd, Configfs_request (take TDX_REPORT_DATA_SIZE report_data)]"
    show ?thesis
    proof (cases "cf_inblob_open w \<and> n = int TDX_REPORT_DATA_SIZE")
      case True
      with assms g Good wr obtain r2 l2 where
        p: "poll_generation (cf_gen_poll w) (cf_usleep_ok w) g1 0 (?l1 @ [Release Inblob_fd]) = Some (r2, l2)"
        by (auto simp: request_quote_def Let_def split: option.splits)
      then obtain l2' where l2: "l2 = (?l1 @ [Release Inblob_fd]) @ l2'" "neutral l2'" "r2 \<noteq> Fault"
        using poll_generation_contract [OF p] by blast
      obtain r3 l3 where rq: "read_quote w (g1 + 1) = (r3, l3)" by fastforce
      have "held (Lock_fd # rs) l2 = Some (Lock_fd # rs)"
        unfolding l2(1) by (simp add: held_append neutral_held [OF gc(2)] neutral_held [OF l2(2)])
      then show ?thesis
        using assms g Good wr True p l2(3) read_quote_contract(1) [OF rq, of rs] rq
        by (cases r2) (auto simp: request_quote_def Let_def held_append split: if_splits prod.splits)
    qed (use assms g Good wr neutral_held [OF gc(2)] in
        \<open>auto simp: request_quote_def Let_def held_append split: if_splits\<close>)
  qed (use assms g gc(1) neutral_held [OF gc(2)] in \<open>auto simp: request_quote_def held_append\<close>)
qed

lemma request_quote_Good:
  assumes "request_quote w report_data = Some (Good q, l)"
  shows "\<exists>g k. fst (read_configfs_generation (cf_gen_first w)) = Good g
    \<and> fst (read_configfs_generation (cf_gen_poll w k)) = Good (g + 1)
    \<and> fst (read_configfs_generation (cf_gen_last w)) = Good (g + 1)
    \<and> Configfs_request (take TDX_REPORT_DATA_SIZE report_data) \<in> set l
    \<and> QUOTE_MIN_SIZE < length q \<and> length q < QUOTE_BUF_SIZE"
proof -
  obtain r1 l1 where g: "read_configfs_generation (cf_gen_first w) = (r1, l1)" by fastforce
  with assms obtain g1 where r1: "r1 = Good g1" by (cases r1) (auto simp: request_quote_def)
  obtain n e where wr: "write_inblob (cf_write w) 0 3 (0, 0) = (n, e)" by fastforce
  let ?l1 = "l1 @ [Acquire Inblob_fd, Configfs_request (take TDX_REPORT_DATA_SIZE report_data)]"
  obtain g2 l2 l3 where
    p: "poll_generation (cf_gen_poll w) (cf_usleep_ok w) g1 0 (?l1 @ [Release Inblob_fd]) = Some (Good g2, l2)"
    and g2: "g2 = g1 + 1" and rq: "read_quote w g2 = (Good q, l3)" and l: "l = l2 @ l3"
    using assms g r1 wr
    by (auto simp: request_quote_def Let_def split: if_splits option.splits outcome.splits prod.splits)
  have polled: "fst res = Good g2 \<longrightarrow> (\<exists>k l. read_configfs_generation (gen k) = (Good g2, l))"
    if "poll_generation gen us g k log = Some res" for gen us g k log res
    by (rule poll_generation.raw_induct [where P = "\<lambda>gen us g k log res. fst res = Good g2 \<longrightarrow>
          (\<exists>k l. read_configfs_generation (gen k) = (Good g2, l))", OF _ that])
      (fastforce split: prod.splits outcome.splits if_splits)
  then obtain k l' where "read_configfs_generation (cf_gen_poll w k) = (Good g2, l')"
    using p by force
  moreover from poll_generation_contract [OF p] obtain l2' where "l2 = ?l1 @ [Release Inblob_fd] @ l2'" by auto
  ultimately show ?thesis
    using read_quote_contract(3) [OF rq refl] g r1 g2 l
    by (intro exI [of _ g1] exI [of _ k]) simp
qed

lemma configfs_contract:
  assumes "configfs_get_quote env w b report_data = Some (r, b', l)" "r \<noteq> Fault"
  shows "balanced r l"
proof -
  obtain r1 b1 l1 where p: "prepare_configfs env (cf_prepare w) b = (r1, b1, l1)"
    by (cases "prepare_configfs env (cf_prepare w) b")
  note pc = prepare_configfs_contract [OF p]
  show ?thesis
  proof (cases r1)
    case (Good path)
    with assms p pc show ?thesis
      by (auto simp: configfs_get_quote_def balanced_def neutral_def held_append
          request_quote_contract split: if_splits)
  qed (use assms p pc in \<open>auto simp: configfs_get_quote_def\<close>)
qed

section \<open>The stages of tdx_att_get_quote\<close>

lemma tdcall_contract:
  assumes "get_quote_by_tdcall w want blob kid = (q, kid', l)" "q \<noteq> Fault"
  shows "balanced q l"
proof -
  obtain r b' l1 where t: "tdcall_get_quote_payload (ae_tdcall w) blob = (r, b', l1)"
    by (cases "tdcall_get_quote_payload (ae_tdcall w) blob")
  then have l1: "l1 = [Tdcall_ioctl blob]"
    by (auto simp: tdcall_get_quote_payload_def Let_def split: if_splits)
  show ?thesis
  proof (cases r)
    case (Good body)
    obtain q' k' l' where e: "extract_quote_from_blob_payload (qh_data b') body want
        (ae_tdcall_quote_mem w) kid = (q', k', l')"
      by (cases "extract_quote_from_blob_payload (qh_data b') body want (ae_tdcall_quote_mem w) kid")
    from assms t Good e extract_log [OF e] l1 show ?thesis
      by (auto simp: get_quote_by_tdcall_def deliver_def balanced_def)
  qed (use assms t l1 in \<open>auto simp: get_quote_by_tdcall_def deliver_def neutral_def\<close>)
qed

lemma fallback_contract:
  assumes "get_quote_by_fallback w report_data b want blob kid = Some g" "gq_ret g \<noteq> Fault"
  shows "balanced (gq_ret g) (gq_log g)"
proof -
  obtain r b' l where c: "configfs_get_quote (ae_env w) (ae_configfs w) b report_data = Some (r, b', l)"
    using assms(1) by (auto simp: get_quote_by_fallback_def split: option.splits)
  show ?thesis
  proof (cases "r = Bad TDX_ATTEST_ERROR_NOT_SUPPORTED")
    case True
    obtain q k l' where t: "get_quote_by_tdcall w want blob kid = (q, k, l')"
      by (cases "get_quote_by_tdcall w want blob kid")
    from assms c True t configfs_contract [OF c] tdcall_contract [OF t] show ?thesis
      by (auto simp: get_quote_by_fallback_def intro: balanced_after)
  qed (use assms c configfs_contract [OF c] in \<open>auto simp: get_quote_by_fallback_def\<close>)
qed

lemma balancedI: "(\<And>rs. held rs l = Some (if is_good r then Quote_mem # rs else rs)) \<Longrightarrow> balanced r l"
  by (simp add: balanced_def)

lemma vsock_contract:
  assumes "get_quote_by_vsock w report_data b req want blob kid = Some g" "gq_ret g \<noteq> Fault"
    and "request_buffer (qh_data blob)" "unat (qh_in_len blob) \<le> length (qh_data blob)"
  shows "balanced (gq_ret g) (gq_log g)"
proof -
  obtain t where t: "vsock_get_quote_payload (ae_config w) (ae_vsock w) (qh_data blob) (qh_in_len blob) = Some t"
    using assms(1) by (auto simp: get_quote_by_vsock_def split: option.splits)
  obtain r d k l where dl: "deliver t want (ae_vsock_quote_mem w) kid = (r, d, k, l)"
    by (cases "deliver t want (ae_vsock_quote_mem w) kid")
  have bal: "balanced r l" by (rule balancedI) (rule vsock.deliver_contract(3) [OF assms(3,4) t dl])
  show ?thesis
  proof (cases "(req \<and> \<not> is_good r) \<or> r \<noteq> Bad TDX_ATTEST_ERROR_NOT_SUPPORTED")
    case False
    with assms(1) t dl obtain g' where
      g': "get_quote_by_fallback w report_data b want (blob\<lparr>qh_data := d\<rparr>) k = Some g'"
        "g = g'\<lparr>gq_log := l @ gq_log g'\<rparr>"
      by (auto simp: get_quote_by_vsock_def)
    with fallback_contract [OF g'(1)] assms(2) bal False show ?thesis
      by (auto intro: balanced_after)
  qed (use assms(1) t dl bal in \<open>auto simp: get_quote_by_vsock_def\<close>)
qed

lemma local_contract:
  assumes "get_quote_by_local w report_data b req want blob kid = Some g" "gq_ret g \<noteq> Fault"
    and "request_buffer (qh_data blob)" "unat (qh_in_len blob) \<le> length (qh_data blob)"
  shows "balanced (gq_ret g) (gq_log g)"
proof -
  obtain t where t: "local_qgs_get_quote_payload (ae_env w) (ae_local w) (qh_data blob) (qh_in_len blob) = Some t"
    using assms(1) by (auto simp: get_quote_by_local_def split: option.splits)
  obtain r d k l where dl: "deliver t want (ae_local_quote_mem w) kid = (r, d, k, l)"
    by (cases "deliver t want (ae_local_quote_mem w) kid")
  note c = local_qgs.deliver_contract [OF assms(3,4) t dl]
  have bal: "balanced r l" by (rule balancedI) (rule c(3))
  show ?thesis
  proof (cases "is_good r \<or> r = Fault \<or> local_qgs_forced (ae_env w)")
    case False
    with assms(1) t dl obtain g' where
      g': "get_quote_by_vsock w report_data b req want (blob\<lparr>qh_data := d\<rparr>) k = Some g'"
        "g = g'\<lparr>gq_log := l @ gq_log g'\<rparr>"
      by (auto simp: get_quote_by_local_def)
    have "length d = length (qh_data blob)" using c(2) assms(3) by (simp add: request_buffer_def)
    with vsock_contract [OF g'(1)] g'(2) assms(2,4) c(2) bal False show ?thesis
      by (cases r) (auto intro: balanced_after)
  qed (use assms(1) t dl bal in \<open>auto simp: get_quote_by_local_def\<close>)
qed

lemma get_tdx_report_contract:
  assumes "get_tdx_report w True p True = (r, l)"
  shows "neutral l" "r = Good rep \<Longrightarrow> length rep = TDX_REPORT_SIZE \<and> TDX_REPORT_DATA_SIZE \<le> length (obj p)"
    "set l \<subseteq> {Report_ioctl}" "r = Fault \<Longrightarrow> length (obj p) < TDX_REPORT_DATA_SIZE"
  using assms by (auto simp: get_tdx_report_def bread_def split: option.splits if_splits)

lemma device_contract:
  assumes "get_quote_with_device w b req p ids n want = Some g" "gq_ret g \<noteq> Fault" "id_list_ok ids n"
  shows "balanced (gq_ret g) (gq_log g)"
proof -
  obtain r l where rep: "get_tdx_report w True p True = (r, l)" by fastforce
  note rc = get_tdx_report_contract [OF rep]
  show ?thesis
  proof (cases r)
    case (Good rp)
    let ?blob = "\<lparr>qh_version = 0, qh_status = 0, qh_in_len = 0, qh_out_len = 0,
                 qh_data = array_of (REQ_BUF_SIZE - sizeof_tdx_quote_hdr) (ae_blob_junk w)\<rparr>"
    obtain r2 l2 where gen: "generate_get_quote_blob rp ids n (ae_req_mem w) ?blob = (r2, l2)" by fastforce
    have len: "length rp = TDX_REPORT_SIZE" "request_buffer (qh_data ?blob)"
      using rc(2) Good by (simp_all add: request_buffer_def)
    note gc = generate_contract [OF gen len(1) assms(3) len(2)]
    show ?thesis
    proof (cases r2)
      case (Good blob)
      with assms(1) rep \<open>r = Good rp\<close> gen obtain g' where
        g': "get_quote_by_local w (obj p) b req want blob None = Some g'" "g = g'\<lparr>gq_log := l @ l2 @ gq_log g'\<rparr>"
        by (auto simp: get_quote_with_device_def)
      with local_contract [OF g'(1)] assms(2) gc(2) gc(3) [OF Good] rc(1) show ?thesis
        by (auto intro!: balanced_after)
    qed (use assms(1) rep \<open>r = Good rp\<close> gen gc rc(1) in
        \<open>auto simp: get_quote_with_device_def early_def intro!: neutral_append\<close>)
  qed (use assms rep rc(1) in \<open>auto simp: get_quote_with_device_def early_def\<close>)
qed

lemma get_quote_cases:
  assumes "tdx_att_get_quote w b p ids n want pq flags = Some g"
  shows "(\<exists>e. gq_ret g = Bad e \<and> neutral (gq_log g) \<and> set (gq_log g) \<subseteq> {Acquire Blob_mem, Release Blob_mem})
    \<or> (gq_ret g = Fault \<and> \<not> (case ids of None \<Rightarrow> True | Some us \<Rightarrow> unat n \<le> length us))
    \<or> (\<exists>req g'. refuse_mldsa_quote_fallback (ae_env w) ids n = Good req \<and> id_list_ok ids n
        \<and> get_quote_with_device w b req p ids n want = Some g'
        \<and> g = g'\<lparr>gq_log := [Acquire Blob_mem, Acquire Dev_fd] @ gq_log g' @ [Release Dev_fd, Release Blob_mem]\<rparr>)"
proof -
  have e: "early r b l = Some g \<Longrightarrow> gq_ret g = r \<and> gq_log g = l" for r l by (auto simp: early_def)
  have fault: "refuse_mldsa_quote_fallback (ae_env w) ids n = Fault \<Longrightarrow>
      \<not> (case ids of None \<Rightarrow> True | Some us \<Rightarrow> unat n \<le> length us)"
    by (auto simp: refuse_mldsa_quote_fallback_def uuid_list_requests_mldsa_def scan_mldsa_total
        split: if_splits option.splits)
  have fault2: "ids = Some us \<Longrightarrow> all_supported us (unat n) = Fault \<Longrightarrow> \<not> unat n \<le> length us" for us
    by (auto simp: all_supported_total)
  show ?thesis
  proof (cases "refuse_mldsa_quote_fallback (ae_env w) ids n")
    case (Good req)
    define sup where "sup = (case ids of None \<Rightarrow> Good True | Some us \<Rightarrow> all_supported us (unat n))"
    show ?thesis
    proof (cases sup)
      case (Good x)
      show ?thesis
      proof (cases x)
        case True
        then have "id_list_ok ids n" using Good by (auto simp: sup_def id_list_ok_def split: option.splits)
        with assms Good True \<open>refuse_mldsa_quote_fallback (ae_env w) ids n = Good req\<close> show ?thesis
          by (auto simp: tdx_att_get_quote_def sup_def [symmetric] split: if_splits dest!: e)
      qed (use assms Good \<open>refuse_mldsa_quote_fallback (ae_env w) ids n = Good req\<close> in
          \<open>auto simp: tdx_att_get_quote_def sup_def [symmetric] split: if_splits dest!: e\<close>)
    next
      case Fault
      then obtain us where "ids = Some us" "all_supported us (unat n) = Fault"
        by (auto simp: sup_def split: option.splits)
      from fault2 [OF this] this assms \<open>refuse_mldsa_quote_fallback (ae_env w) ids n = Good req\<close> show ?thesis
        by (auto simp: tdx_att_get_quote_def split: if_splits dest!: e)
    qed (use assms \<open>refuse_mldsa_quote_fallback (ae_env w) ids n = Good req\<close> in
          \<open>auto simp: tdx_att_get_quote_def sup_def [symmetric] split: if_splits dest!: e\<close>)
  qed (use assms fault in \<open>auto simp: tdx_att_get_quote_def dest!: e\<close>)
qed

lemma get_quote_balanced:
  assumes "tdx_att_get_quote w b p ids n want pq flags = Some g" "gq_ret g \<noteq> Fault"
  shows "held [] (gq_log g) = Some (if is_good (gq_ret g) then [Quote_mem] else [])"
  using get_quote_cases [OF assms(1)]
proof (elim disjE exE conjE)
  fix req g'
  assume ok: "id_list_ok ids n" and d: "get_quote_with_device w b req p ids n want = Some g'"
    and g: "g = g'\<lparr>gq_log := [Acquire Blob_mem, Acquire Dev_fd] @ gq_log g' @ [Release Dev_fd, Release Blob_mem]\<rparr>"
  from device_contract [OF d _ ok] assms(2) g show ?thesis
    by (auto simp: balanced_def held_append)
qed (use assms(2) in \<open>auto simp: neutral_held\<close>)

end
