(* ===== verification/Tdx_Paths.thy ===== *)
theory Tdx_Paths
  imports Tdx_Safe
begin

text \<open>
  Absence of undefined behaviour in tdx_att_get_quote, the stages each outcome may have used, and
  the key id reported with a quote.
\<close>

section \<open>No out-of-bounds access\<close>

text \<open>
  What the library trusts without a check: that the VMM's length fits the shared buffer, and that
  the kernel's generation counter can be incremented.
\<close>

definition vmm_in_bounds :: "attest_env \<Rightarrow> bool" where
  "vmm_in_bounds w \<longleftrightarrow> unat (qh_out_len (tc_blob (ae_tdcall w))) \<le> length (qh_data (tc_blob (ae_tdcall w)))"

definition counter_in_range :: "attest_env \<Rightarrow> bool" where
  "counter_in_range w \<longleftrightarrow> fst (read_configfs_generation (cf_gen_first (ae_configfs w))) \<noteq> Good LONG_MAX"

lemma request_quote_no_fault:
  assumes "request_quote w d = Some (r, l)" "fst (read_configfs_generation (cf_gen_first w)) \<noteq> Good LONG_MAX"
  shows "r \<noteq> Fault"
proof -
  obtain r1 l1 where g: "read_configfs_generation (cf_gen_first w) = (r1, l1)" by fastforce
  note gc = read_configfs_generation_contract [OF g]
  show ?thesis
  proof (cases r1)
    case (Good g1)
    show ?thesis
      using assms g Good
      by (auto simp: request_quote_def Let_def dest: poll_generation_contract read_quote_contract(2)
          split: if_splits option.splits outcome.splits prod.splits)
  qed (use assms g gc in \<open>auto simp: request_quote_def\<close>)
qed

lemma configfs_no_fault:
  assumes "configfs_get_quote env w b d = Some (r, b', l)"
    "fst (read_configfs_generation (cf_gen_first w)) \<noteq> Good LONG_MAX"
  shows "r \<noteq> Fault"
proof -
  obtain r1 b1 l1 where p: "prepare_configfs env (cf_prepare w) b = (r1, b1, l1)"
    by (cases "prepare_configfs env (cf_prepare w) b")
  note pc = prepare_configfs_contract [OF p]
  from assms p pc request_quote_no_fault show ?thesis
    by (cases r1) (auto simp: configfs_get_quote_def split: if_splits)
qed

lemma tdcall_payload_bound:
  assumes "tdcall_get_quote_payload w blob = (r, b', l)"
    "unat (qh_out_len (tc_blob w)) \<le> length (qh_data (tc_blob w))"
  shows "r \<noteq> Fault \<and> b' = tc_blob w \<and> (\<forall>n. r = Good n \<longrightarrow> HEADER_SIZE + unat n \<le> length (qh_data b'))"
proof -
  have s: "unat (o' - 4 :: u32) = unat o' - 4" if "4 < unat o'" for o' :: u32
    using that by (subst unat_sub) (auto simp: word_le_nat_alt)
  from assms s show ?thesis
    by (auto simp: tdcall_get_quote_payload_def Let_def HEADER_SIZE_def split: if_splits)
qed

lemma tdcall_no_fault:
  assumes "get_quote_by_tdcall w want blob kid = (q, kid', l)" "vmm_in_bounds w"
  shows "q \<noteq> Fault"
proof -
  obtain r b' l1 where t: "tdcall_get_quote_payload (ae_tdcall w) blob = (r, b', l1)"
    by (cases "tdcall_get_quote_payload (ae_tdcall w) blob")
  note b = tdcall_payload_bound [OF t assms(2) [unfolded vmm_in_bounds_def]]
  show ?thesis
  proof (cases r)
    case (Good body)
    with b extract_safe [of body "qh_data b'" want "ae_tdcall_quote_mem w" kid] assms(1) t show ?thesis
      by (auto simp: get_quote_by_tdcall_def deliver_def split: prod.splits)
  qed (use assms(1) t b in \<open>auto simp: get_quote_by_tdcall_def deliver_def\<close>)
qed

lemma fallback_no_fault:
  assumes "get_quote_by_fallback w d b want blob kid = Some g" "vmm_in_bounds w" "counter_in_range w"
  shows "gq_ret g \<noteq> Fault"
  using assms
  by (auto simp: get_quote_by_fallback_def counter_in_range_def configfs_no_fault tdcall_no_fault
      split: option.splits if_splits prod.splits)

lemma vsock_no_fault:
  assumes "get_quote_by_vsock w d b req want blob kid = Some g" "vmm_in_bounds w" "counter_in_range w"
    "request_buffer (qh_data blob)" "unat (qh_in_len blob) \<le> length (qh_data blob)"
  shows "gq_ret g \<noteq> Fault"
proof -
  obtain t where t: "vsock_get_quote_payload (ae_config w) (ae_vsock w) (qh_data blob) (qh_in_len blob) = Some t"
    using assms(1) by (auto simp: get_quote_by_vsock_def split: option.splits)
  obtain r d' k l where dl: "deliver t want (ae_vsock_quote_mem w) kid = (r, d', k, l)"
    by (cases "deliver t want (ae_vsock_quote_mem w) kid")
  from vsock.deliver_contract(1) [OF assms(4,5) t dl] assms t dl fallback_no_fault show ?thesis
    by (auto simp: get_quote_by_vsock_def split: if_splits)
qed

lemma local_no_fault:
  assumes "get_quote_by_local w d b req want blob kid = Some g" "vmm_in_bounds w" "counter_in_range w"
    "request_buffer (qh_data blob)" "unat (qh_in_len blob) \<le> length (qh_data blob)"
  shows "gq_ret g \<noteq> Fault"
proof -
  obtain t where t: "local_qgs_get_quote_payload (ae_env w) (ae_local w) (qh_data blob) (qh_in_len blob) = Some t"
    using assms(1) by (auto simp: get_quote_by_local_def split: option.splits)
  obtain r d' k l where dl: "deliver t want (ae_local_quote_mem w) kid = (r, d', k, l)"
    by (cases "deliver t want (ae_local_quote_mem w) kid")
  note c = local_qgs.deliver_contract [OF assms(4,5) t dl]
  have "length d' = length (qh_data blob)" using c(2) assms(4) by (simp add: request_buffer_def)
  with c assms t dl vsock_no_fault show ?thesis
    by (auto simp: get_quote_by_local_def split: if_splits)
qed

lemma device_no_fault:
  assumes "get_quote_with_device w b req p ids n want = Some g" "id_list_ok ids n"
    "vmm_in_bounds w" "counter_in_range w" "p = None \<or> TDX_REPORT_DATA_SIZE \<le> length (obj p)"
  shows "gq_ret g \<noteq> Fault"
proof -
  obtain r l where rep: "get_tdx_report w True p True = (r, l)" by fastforce
  note rc = get_tdx_report_contract [OF rep]
  have "r \<noteq> Fault" using rc(4) assms(5) rep by (cases p) (auto simp: get_tdx_report_def)
  show ?thesis
  proof (cases r)
    case (Good rp)
    let ?blob = "\<lparr>qh_version = 0, qh_status = 0, qh_in_len = 0, qh_out_len = 0,
                 qh_data = array_of (REQ_BUF_SIZE - sizeof_tdx_quote_hdr) (ae_blob_junk w)\<rparr>"
    obtain r2 l2 where gen: "generate_get_quote_blob rp ids n (ae_req_mem w) ?blob = (r2, l2)" by fastforce
    have len: "length rp = TDX_REPORT_SIZE" "request_buffer (qh_data ?blob)"
      using rc(2) Good by (simp_all add: request_buffer_def)
    note gc = generate_contract [OF gen len(1) assms(2) len(2)]
    show ?thesis
    proof (cases r2)
      case (Good blob)
      with assms(1,3,4) rep \<open>r = Good rp\<close> gen gc(3) [OF Good] local_no_fault show ?thesis
        by (auto simp: get_quote_with_device_def)
    qed (use assms(1) rep \<open>r = Good rp\<close> gen gc rc(1) in
        \<open>auto simp: get_quote_with_device_def early_def\<close>)
  qed (use assms rep rc(1) \<open>r \<noteq> Fault\<close> in \<open>auto simp: get_quote_with_device_def early_def\<close>)
qed

lemma get_quote_no_fault:
  assumes "tdx_att_get_quote w b p ids n want pq flags = Some g"
    "vmm_in_bounds w" "counter_in_range w" "p = None \<or> TDX_REPORT_DATA_SIZE \<le> length (obj p)"
    "case ids of None \<Rightarrow> True | Some us \<Rightarrow> unat n \<le> length us"
  shows "gq_ret g \<noteq> Fault"
  using get_quote_cases [OF assms(1)] assms(2-) device_no_fault by auto

section \<open>Which transports were used\<close>

definition uses_fallback :: "event list \<Rightarrow> bool" where
  "uses_fallback l \<longleftrightarrow> (\<exists>e \<in> set l. case e of Configfs_request _ \<Rightarrow> True | Tdcall_ioctl _ \<Rightarrow> True | _ \<Rightarrow> False)"

lemma uses_fallback_simps [simp]:
  "\<not> uses_fallback []" "uses_fallback (Acquire r # l) = uses_fallback l"
  "uses_fallback (Release r # l) = uses_fallback l" "uses_fallback (Sent r out # l) = uses_fallback l"
  "uses_fallback (Report_ioctl # l) = uses_fallback l"
  "uses_fallback (Configfs_request d # l)" "uses_fallback (Tdcall_ioctl t # l)"
  "uses_fallback (l @ l') \<longleftrightarrow> uses_fallback l \<or> uses_fallback l'"
  by (auto simp: uses_fallback_def)

lemma socket_log_no_fallback: "set l \<subseteq> {Acquire s, Release s, Acquire Quote_mem} \<union> range (Sent s) \<Longrightarrow> \<not> uses_fallback l"
  by (auto simp: uses_fallback_def split: event.splits)

lemma vsock_required:
  assumes "get_quote_by_vsock w d b True want blob kid = Some g"
    "request_buffer (qh_data blob)" "unat (qh_in_len blob) \<le> length (qh_data blob)"
  shows "\<not> uses_fallback (gq_log g)"
proof -
  obtain t where t: "vsock_get_quote_payload (ae_config w) (ae_vsock w) (qh_data blob) (qh_in_len blob) = Some t"
    using assms(1) by (auto simp: get_quote_by_vsock_def split: option.splits)
  obtain r d' k l where dl: "deliver t want (ae_vsock_quote_mem w) kid = (r, d', k, l)"
    by (cases "deliver t want (ae_vsock_quote_mem w) kid")
  from socket_log_no_fallback [OF vsock.deliver_contract(4) [OF assms(2,3) t dl]] assms(1) t dl show ?thesis
    by (cases r) (auto simp: get_quote_by_vsock_def)
qed

lemma local_required:
  assumes "get_quote_by_local w d b True want blob kid = Some g"
    "request_buffer (qh_data blob)" "unat (qh_in_len blob) \<le> length (qh_data blob)"
  shows "\<not> uses_fallback (gq_log g)"
proof -
  obtain t where t: "local_qgs_get_quote_payload (ae_env w) (ae_local w) (qh_data blob) (qh_in_len blob) = Some t"
    using assms(1) by (auto simp: get_quote_by_local_def split: option.splits)
  obtain r d' k l where dl: "deliver t want (ae_local_quote_mem w) kid = (r, d', k, l)"
    by (cases "deliver t want (ae_local_quote_mem w) kid")
  note c = local_qgs.deliver_contract [OF assms(2,3) t dl]
  have "length d' = length (qh_data blob)" using c(2) assms(2) by (simp add: request_buffer_def)
  with vsock_required socket_log_no_fallback [OF c(4)] assms t dl c(2) show ?thesis
    by (auto simp: get_quote_by_local_def split: if_splits)
qed

lemma small_log_no_fallback:
  "set l \<subseteq> {Report_ioctl} \<Longrightarrow> \<not> uses_fallback l"
  "set l \<subseteq> {Acquire r, Release r} \<Longrightarrow> \<not> uses_fallback l"
  by (auto simp: uses_fallback_def split: event.splits)

lemma device_required:
  assumes "get_quote_with_device w b True p ids n want = Some g" "id_list_ok ids n"
  shows "\<not> uses_fallback (gq_log g)"
proof -
  obtain r l where rep: "get_tdx_report w True p True = (r, l)" by fastforce
  note rc = get_tdx_report_contract [OF rep]
  show ?thesis
  proof (cases r)
    case (Good rp)
    let ?blob = "\<lparr>qh_version = 0, qh_status = 0, qh_in_len = 0, qh_out_len = 0,
                 qh_data = array_of (REQ_BUF_SIZE - sizeof_tdx_quote_hdr) (ae_blob_junk w)\<rparr>"
    obtain r2 l2 where gen: "generate_get_quote_blob rp ids n (ae_req_mem w) ?blob = (r2, l2)" by fastforce
    have len: "length rp = TDX_REPORT_SIZE" "request_buffer (qh_data ?blob)"
      using rc(2) Good by (simp_all add: request_buffer_def)
    note gc = generate_contract [OF gen len(1) assms(2) len(2)]
    note quiet = small_log_no_fallback(1) [OF rc(3)] small_log_no_fallback(2) [OF gc(4)]
    show ?thesis
    proof (cases r2)
      case (Good blob)
      with assms(1) rep \<open>r = Good rp\<close> gen gc(3) [OF Good] local_required quiet show ?thesis
        by (auto simp: get_quote_with_device_def)
    qed (use assms(1) rep \<open>r = Good rp\<close> gen quiet in
        \<open>auto simp: get_quote_with_device_def early_def\<close>)
  qed (use assms rep small_log_no_fallback(1) [OF rc(3)] in \<open>auto simp: get_quote_with_device_def early_def\<close>)
qed

section \<open>The key id of a quote\<close>

lemma extract_key_id:
  assumes "extract_quote_from_blob_payload data b True mem kid = (Good q, kid', l)"
  shows "\<exists>u. kid' = Some u \<and> (\<forall>v. infer_att_key_id_from_quote q (len32 q) = Some v \<longrightarrow> u = v)"
proof -
  have q: "infer_att_key_id_from_quote q (len32 q) = infer_att_key_id_from_quote q n"
    if "Option.bind aa (\<lambda>off. bread (unat n) off m) = Some q" for aa m and n :: u32
    using that length_bread [of "unat n" _ m q] by (cases aa) auto
  show ?thesis
    using assms
    by (auto simp: extract_quote_from_blob_payload_def Let_def q TDX_UUID_SIZE_def
        split: outcome.splits if_splits option.splits dest!: sym [of "Some _"])
qed

lemma deliver_key_id:
  assumes "deliver t True mem kid = (Good q, d, kid', l)"
  shows "\<exists>u. kid' = Some u \<and> (\<forall>v. infer_att_key_id_from_quote q (len32 q) = Some v \<longrightarrow> u = v)"
  using assms by (auto simp: deliver_def extract_key_id split: prod.splits outcome.splits)

text \<open>\<open>key_id_ok q k l\<close>: the id reported is the one the quote carries, unless configfs made the quote.\<close>

definition key_id_ok :: "byte list \<Rightarrow> tdx_uuid_t option \<Rightarrow> event list \<Rightarrow> bool" where
  "key_id_ok q k l \<longleftrightarrow> (\<exists>u. k = Some u \<and>
     ((\<forall>v. infer_att_key_id_from_quote q (len32 q) = Some v \<longrightarrow> u = v)
      \<or> (u = g_intel_tdqe_ecdsa_uuid \<and> (\<exists>d. Configfs_request d \<in> set l))))"

lemma key_id_ok_mono: "key_id_ok q k l \<Longrightarrow> set l \<subseteq> set l' \<Longrightarrow> key_id_ok q k l'"
  by (auto simp: key_id_ok_def)

lemma deliver_key_id_ok: "deliver t True mem kid = (Good q, d, kid', l) \<Longrightarrow> key_id_ok q kid' l'"
  using deliver_key_id by (fastforce simp: key_id_ok_def)

lemma fallback_key_id:
  assumes "get_quote_by_fallback w d b True blob kid = Some g" "gq_ret g = Good q"
  shows "key_id_ok q (gq_key_id g) (gq_log g)"
proof -
  obtain r b' l where c: "configfs_get_quote (ae_env w) (ae_configfs w) b d = Some (r, b', l)"
    using assms(1) by (auto simp: get_quote_by_fallback_def split: option.splits)
  show ?thesis
  proof (cases "r = Bad TDX_ATTEST_ERROR_NOT_SUPPORTED")
    case True
    with assms c show ?thesis
      by (auto simp: get_quote_by_fallback_def get_quote_by_tdcall_def split: prod.splits
          intro: deliver_key_id_ok)
  next
    case False
    with assms c have r: "r = Good q" by (auto simp: get_quote_by_fallback_def)
    from c [unfolded r] obtain l1 l2 where l: "l = l1 @ [Acquire Lock_fd] @ l2"
      and rq: "request_quote (ae_configfs w) d = Some (Good q, l2)"
      by (auto simp: configfs_get_quote_def split: prod.splits outcome.splits if_splits)
    from request_quote_Good [OF rq] l False assms c r show ?thesis
      by (auto simp: get_quote_by_fallback_def key_id_ok_def)
  qed
qed

lemma vsock_key_id:
  assumes "get_quote_by_vsock w d b req True blob kid = Some g" "gq_ret g = Good q"
  shows "key_id_ok q (gq_key_id g) (gq_log g)"
proof -
  obtain t where t: "vsock_get_quote_payload (ae_config w) (ae_vsock w) (qh_data blob) (qh_in_len blob) = Some t"
    using assms(1) by (auto simp: get_quote_by_vsock_def split: option.splits)
  obtain r d' k l where dl: "deliver t True (ae_vsock_quote_mem w) kid = (r, d', k, l)"
    by (cases "deliver t True (ae_vsock_quote_mem w) kid")
  show ?thesis
  proof (cases "(req \<and> \<not> is_good r) \<or> r \<noteq> Bad TDX_ATTEST_ERROR_NOT_SUPPORTED")
    case True
    with assms t dl deliver_key_id_ok [of t "ae_vsock_quote_mem w" kid q] show ?thesis
      by (auto simp: get_quote_by_vsock_def)
  next
    case False
    with assms t dl obtain g' where g': "get_quote_by_fallback w d b True (blob\<lparr>qh_data := d'\<rparr>) k = Some g'"
        "g = g'\<lparr>gq_log := l @ gq_log g'\<rparr>"
      by (auto simp: get_quote_by_vsock_def)
    with fallback_key_id [OF g'(1)] assms(2) show ?thesis by (auto intro: key_id_ok_mono)
  qed
qed

lemma local_key_id:
  assumes "get_quote_by_local w d b req True blob kid = Some g" "gq_ret g = Good q"
  shows "key_id_ok q (gq_key_id g) (gq_log g)"
proof -
  obtain t where t: "local_qgs_get_quote_payload (ae_env w) (ae_local w) (qh_data blob) (qh_in_len blob) = Some t"
    using assms(1) by (auto simp: get_quote_by_local_def split: option.splits)
  obtain r d' k l where dl: "deliver t True (ae_local_quote_mem w) kid = (r, d', k, l)"
    by (cases "deliver t True (ae_local_quote_mem w) kid")
  show ?thesis
  proof (cases "is_good r \<or> r = Fault \<or> local_qgs_forced (ae_env w)")
    case True
    with assms t dl deliver_key_id_ok [of t "ae_local_quote_mem w" kid q] show ?thesis
      by (auto simp: get_quote_by_local_def)
  next
    case False
    with assms t dl obtain g' where g': "get_quote_by_vsock w d b req True (blob\<lparr>qh_data := d'\<rparr>) k = Some g'"
        "g = g'\<lparr>gq_log := l @ gq_log g'\<rparr>"
      by (auto simp: get_quote_by_local_def)
    with vsock_key_id [OF g'(1)] assms(2) show ?thesis by (auto intro: key_id_ok_mono)
  qed
qed

lemma get_quote_key_id:
  assumes "tdx_att_get_quote w b p ids n True pq flags = Some g" "gq_ret g = Good q"
  shows "key_id_ok q (gq_key_id g) (gq_log g)"
  using get_quote_cases [OF assms(1)]
proof (elim disjE exE conjE)
  fix req g'
  assume d: "get_quote_with_device w b req p ids n True = Some g'"
    and g: "g = g'\<lparr>gq_log := [Acquire Blob_mem, Acquire Dev_fd] @ gq_log g' @ [Release Dev_fd, Release Blob_mem]\<rparr>"
  have "\<exists>l1 l2 blob g2. get_quote_by_local w (obj p) b req True blob None = Some g2
      \<and> g' = g2\<lparr>gq_log := l1 @ l2 @ gq_log g2\<rparr>"
    using d g assms(2) by (auto simp: get_quote_with_device_def early_def split: prod.splits outcome.splits)
  then obtain l1 l2 blob g2 where
    l: "get_quote_by_local w (obj p) b req True blob None = Some g2"
    and k: "g' = g2\<lparr>gq_log := l1 @ l2 @ gq_log g2\<rparr>" by blast
  from local_key_id [OF l, of q] k g assms(2) show ?thesis by (auto intro: key_id_ok_mono)
qed (use assms(2) in auto)

end
