(* ===== verification/Tdx_Correct.thy ===== *)
theory Tdx_Correct
  imports Tdx_Paths
begin

text \<open>
  The properties of the attestation library: what it leaves acquired, what it reads and sends,
  which quotes and key ids it hands out, and how it extends a measurement register.
\<close>

section \<open>Resources and memory\<close>


definition quiet_sock :: sock_env where
  "quiet_sock = \<lparr>se_socket_ok = True, se_connect_ok = True, se_send_ret = 1052, se_recvs = []\<rparr>"

text \<open>An environment with an open device, a local QGS that closes the connection, and no vsock port.\<close>

definition sample_configfs :: configfs_env where
  "sample_configfs = \<lparr>cf_prepare = \<lparr>pe_env_dir_ok = False, pe_default_dir = Some ENOENT,
       pe_report_dir = Some ENOENT, pe_mkdir = None, pe_default_dir_again = False,
       pe_access = (\<lambda>_. False), pe_provider_open = False, pe_provider_read = None\<rparr>,
     cf_lock_open = False, cf_flock_ok = False, cf_gen_first = None, cf_inblob_open = False,
     cf_write = (\<lambda>_. (0, 0)), cf_gen_poll = (\<lambda>_. None), cf_usleep_ok = (\<lambda>_. True),
     cf_outblob_open = False, cf_buf_mem = False, cf_read = (\<lambda>_. (None, 0)), cf_gen_last = None,
     cf_realloc_ok = False\<rparr>"

definition sample_env :: "(string \<Rightarrow> string option) \<Rightarrow> bool \<Rightarrow> attest_env" where
  "sample_env env dev = \<lparr>ae_env = env, ae_config = None, ae_blob_mem = True, ae_blob_junk = [],
     ae_dev_open = dev, ae_report = (\<lambda>_. None), ae_req_mem = True, ae_local = quiet_sock,
     ae_local_quote_mem = True, ae_vsock = quiet_sock, ae_vsock_quote_mem = True,
     ae_configfs = sample_configfs, ae_tdcall = \<lparr>tc_ioctl_ret = 1, tc_blob = \<lparr>qh_version = 1,
       qh_status = 0, qh_in_len = 0, qh_out_len = 0, qh_data = []\<rparr>\<rparr>,
     ae_tdcall_quote_mem = True\<rparr>"

abbreviation "no_environment \<equiv> (\<lambda>_. None) :: environment"

lemma sample_no_report:
  "tdx_att_get_quote (sample_env no_environment True) b (Some (replicate 64 0)) None 0 want True 0
    = Some \<lparr>gq_ret = Bad TDX_ATTEST_ERROR_REPORT_FAILURE, gq_key_id = None, gq_b_mkdir = b,
        gq_log = [Acquire Blob_mem, Acquire Dev_fd, Report_ioctl, Release Dev_fd, Release Blob_mem]\<rparr>"
  by (simp add: tdx_att_get_quote_def sample_env_def refuse_mldsa_quote_fallback_def
      mldsa_full_dcap_required_def get_quote_with_device_def get_tdx_report_def bread_def early_def
      TDX_REPORT_DATA_SIZE_def)


text \<open>
  C16. For any answer of the local QGS, the vsock peer, configfs and the file system, a call with valid
  pointers never reads or writes outside its objects, as long as the TDCALL response announces a
  length within the shared buffer and the generation counter can be incremented.
\<close>

theorem get_quote_memory_safe:
  assumes "tdx_att_get_quote w b p ids n want pq flags = Some g"
    "unat (qh_out_len (tc_blob (ae_tdcall w))) \<le> length (qh_data (tc_blob (ae_tdcall w)))"
    "fst (read_configfs_generation (cf_gen_first (ae_configfs w))) \<noteq> Good LONG_MAX"
    "p = None \<or> 64 \<le> length (obj p)"
    "case ids of None \<Rightarrow> True | Some us \<Rightarrow> unat n \<le> length us"
  shows "gq_ret g \<noteq> Fault"
  using assms get_quote_no_fault [of w b p ids n want pq flags g]
  by (simp add: vmm_in_bounds_def counter_in_range_def TDX_REPORT_DATA_SIZE_def)

theorem get_quote_memory_safe_witness:
  "\<exists>g. tdx_att_get_quote (sample_env no_environment True) True (Some (replicate 64 0)) None 0 True
      True 0 = Some g \<and> gq_ret g \<noteq> Fault"
  using get_quote_memory_safe [OF sample_no_report [of True True]]
    sample_no_report [of True True]
  by (simp add: sample_env_def sample_configfs_def read_configfs_generation_def)

text \<open>
  C17. The length in a TDCALL response is only compared with the length framed in the same buffer, never
  with the size of the buffer: a response that announces more than the buffer holds, framed
  consistently, makes the library copy the quote from beyond the buffer.
\<close>

theorem tdcall_response_overread:
  assumes "tc_ioctl_ret (ae_tdcall w) = 0"
    and "tc_blob (ae_tdcall w) = \<lparr>qh_version = 1, qh_status = 0, qh_in_len = il, qh_out_len = size32 (4 + m),
      qh_data = be32_bytes (size32 m) @ quote_resp_bytes \<lparr>rs_header = msg_header GET_QUOTE_RESP (size32 m) 0,
        rs_selected_id_size = 0, rs_quote_size = size32 (m - 24), id_quote = rest\<rparr>\<rparr>"
    and "24 + length rest < m" "m < 4294967290" "ae_tdcall_quote_mem w"
  shows "fst (get_quote_by_tdcall w want blob kid) = Fault"
proof -
  let ?msg = "quote_resp_bytes \<lparr>rs_header = msg_header GET_QUOTE_RESP (size32 m) 0,
        rs_selected_id_size = 0, rs_quote_size = size32 (m - 24), id_quote = rest\<rparr>"
  have m: "unat (size32 m) = m" "unat (size32 (4 + m)) = 4 + m" "unat (size32 (m - 24)) = m - 24"
    using assms(3,4) by simp_all
  have len: "length ?msg = 24 + length rest" by (simp add: layout_simps)
  have off: "size32 (4 + m) - word_of_nat HEADER_SIZE = size32 m"
    by (simp add: size32_def HEADER_SIZE_def)
  have p: "tdcall_get_quote_payload (ae_tdcall w) blob
      = (Good (size32 m), tc_blob (ae_tdcall w), [Tdcall_ioctl blob])"
    using assms(1-3) m(2) off
    by (simp add: tdcall_get_quote_payload_def Let_def HEADER_SIZE_def be32_fold_bytes)
  have "qgs_msg_inflate_get_quote_resp (Some ?msg) (size32 m) True
      = Good ((None, 0), (Some 24, size32 (m - 24)))"
    unfolding inflate_get_quote_resp_Good_iff
    using assms(3,4) m len quote_resp_of_bytes [of r "[]" for r]
    by (simp add: Let_def QGS_MSG_SUCCESS_def)
  moreover have "bread (unat (size32 (m - 24))) 24 ?msg = None"
    using m(3) len assms(3) by (simp add: bread_def)
  moreover have "h_error_code (header_of ?msg) = 0"
    by (simp add: quote_resp_bytes_def msg_header_def)
  ultimately show ?thesis
    using p assms(2,5)
    by (simp add: get_quote_by_tdcall_def deliver_def extract_quote_from_blob_payload_def Let_def
        HEADER_SIZE_def split: prod.splits)
qed


definition overlong_env :: attest_env where
  "overlong_env = (sample_env no_environment True)\<lparr>ae_tdcall := \<lparr>tc_ioctl_ret = 0,
     tc_blob = \<lparr>qh_version = 1, qh_status = 0, qh_in_len = 0, qh_out_len = size32 (4 + 100000),
      qh_data = be32_bytes (size32 100000) @ quote_resp_bytes
        \<lparr>rs_header = msg_header GET_QUOTE_RESP (size32 100000) 0,
         rs_selected_id_size = 0, rs_quote_size = size32 (100000 - 24), id_quote = replicate 16332 0\<rparr>\<rparr>\<rparr>\<rparr>"

theorem tdcall_response_overread_witness:
  "fst (get_quote_by_tdcall overlong_env True (tc_blob (ae_tdcall overlong_env)) None) = Fault"
  by (rule tdcall_response_overread [of overlong_env 0 100000 "replicate 16332 0"])
    (simp_all add: overlong_env_def sample_env_def)

section \<open>Which quotes are handed out\<close>

text \<open>
  C18. When TDX_MLDSA_REQUIRE_FULL_DCAP is set and the caller asks for an ML-DSA key, no call ever
  reaches configfs or the TDCALL, whatever the QGS answers: an ML-DSA request is not silently
  downgraded.
\<close>

theorem mldsa_request_never_falls_back:
  assumes "mldsa_full_dcap_required (ae_env w)" "unat n \<le> length us"
    and "\<exists>u \<in> set (take (unat n) us). is_mldsa_uuid u"
    and "tdx_att_get_quote w b p (Some us) n want pq flags = Some g"
  shows "\<not> uses_fallback (gq_log g)"
proof -
  have "n \<noteq> 0" using assms(3) by auto
  then have "refuse_mldsa_quote_fallback (ae_env w) (Some us) n = Good True"
    using assms(1-3) by (simp add: refuse_mldsa_quote_fallback_def uuid_list_requests_mldsa_def scan_mldsa_total)
  with get_quote_cases [OF assms(4)] assms(2) device_required
    small_log_no_fallback(2) [of "gq_log g" Blob_mem]
  show ?thesis by auto
qed

definition mldsa_environment :: environment where
  "mldsa_environment = [''TDX_MLDSA_REQUIRE_FULL_DCAP'' \<mapsto> ''1'']"

theorem mldsa_request_never_falls_back_witness:
  "\<not> uses_fallback (gq_log \<lparr>gq_ret = Bad TDX_ATTEST_ERROR_DEVICE_FAILURE, gq_key_id = None,
      gq_b_mkdir = True, gq_log = [Acquire Blob_mem, Release Blob_mem]\<rparr>)"
  by (rule mldsa_request_never_falls_back [of "sample_env mldsa_environment False" 1
        "[g_intel_tdqe_mldsa_65_uuid]" True "Some []" False True 0])
    (simp_all add: sample_env_def mldsa_environment_def mldsa_full_dcap_required_def env_flag_def
      is_mldsa_uuid_def tdx_att_get_quote_def refuse_mldsa_quote_fallback_def early_def
      uuid_list_requests_mldsa_def uuid_defs)

text \<open>
  A key id the library does not know is refused before anything is allocated, opened or sent,
  wherever it stands in the list.
\<close>

theorem unsupported_key_id_refused:
  assumes "n \<noteq> 0" "unat n \<le> length us" "u \<in> set (take (unat n) us)"
    and "u \<notin> {g_intel_tdqe_ecdsa_uuid, g_intel_tdqe_mldsa_44_uuid, g_intel_tdqe_mldsa_65_uuid,
          g_intel_tdqe_mldsa_87_uuid}"
  shows "tdx_att_get_quote w b p (Some us) n want True 0 = Some \<lparr>
      gq_ret = Bad TDX_ATTEST_ERROR_UNSUPPORTED_ATT_KEY_ID, gq_key_id = None, gq_b_mkdir = b, gq_log = []\<rparr>"
proof -
  have "all_supported us (unat n) = Good False"
    using assms by (auto simp: all_supported_total is_mldsa_uuid_def)
  moreover obtain x where "refuse_mldsa_quote_fallback (ae_env w) (Some us) n = Good x"
    using assms(1,2) by (cases "mldsa_full_dcap_required (ae_env w)")
      (auto simp: refuse_mldsa_quote_fallback_def uuid_list_requests_mldsa_def scan_mldsa_total)
  ultimately show ?thesis
    using assms(1) by (simp add: tdx_att_get_quote_def early_def)
qed

theorem unsupported_key_id_refused_witness:
  "gq_ret (the (tdx_att_get_quote (sample_env no_environment True) True (Some [])
      (Some [g_intel_tdqe_ecdsa_uuid, [0, 0, 0, 0, 0, 0, 0, 0, 0, 0, 0, 0, 0, 0, 0, 0]]) 2 True True 0))
    = Bad TDX_ATTEST_ERROR_UNSUPPORTED_ATT_KEY_ID"
  by (subst unsupported_key_id_refused [of 2 _ "[0, 0, 0, 0, 0, 0, 0, 0, 0, 0, 0, 0, 0, 0, 0, 0]"])
    (simp_all add: uuid_defs)

text \<open>
  The key id reported with a quote is the one its header carries when the library knows it; only
  a quote made by configfs is reported as ECDSA without a look at it.
\<close>

theorem key_id_matches_quote:
  assumes "tdx_att_get_quote w b p ids n True pq flags = Some g" "gq_ret g = Good q"
  shows "\<exists>u. gq_key_id g = Some u \<and>
     ((\<forall>v. infer_att_key_id_from_quote q (len32 q) = Some v \<longrightarrow> u = v)
      \<or> (u = g_intel_tdqe_ecdsa_uuid \<and> (\<exists>d. Configfs_request d \<in> set (gq_log g))))"
  using get_quote_key_id [OF assms] by (simp add: key_id_ok_def)


section \<open>Delivery\<close>

lemma exchange_payload_stream:
  assumes "request_buffer data" "unat n \<le> length data" "se_send_ret w = int (unat n)"
    and "se_recvs w = Rx_data (be32_bytes body) # map Rx_data chunks" "unat body \<le> payload_capacity"
  shows "exchange_payload s w data n =
    (if unat body \<le> length (concat chunks)
     then Some (Good body, be32_bytes body @ take (unat body) (concat chunks)
                  @ drop (HEADER_SIZE + unat body) data, [Sent s (take (unat n) data)])
     else None)"
proof -
  have len: "length data = 16360" using assms(1) by (simp add: request_buffer_def tdx_sizes)
  have rd: "bread (unat n) 0 data = Some (take (unat n) data)" using assms(2) by (simp add: bread_def)
  have hs: "HEADER_SIZE = 4" by (simp add: HEADER_SIZE_def)
  have w: "bwrite 0 (be32_bytes body) data = Some (be32_bytes body @ drop 4 data)"
    using len by (simp add: bwrite_def)
  have "recv_body (be32_bytes body @ drop 4 data) 0 (unat body) (map Rx_data chunks) =
    (if unat body \<le> length (concat chunks)
     then Some (Good (True, be32_bytes body @ take (unat body) (concat chunks)
        @ drop (HEADER_SIZE + unat body) data)) else None)"
    using assms(5) len
    by (subst recv_body_chunks) (simp_all add: hs take_be32_bound add.commute)
  then show ?thesis
    using assms(3-5) rd w len
    by (simp add: exchange_payload_def hs be32_fold_bytes Let_def)
qed

lemma exchange_ok:
  assumes "request_buffer data" "unat n \<le> length data" "se_send_ret w = int (unat n)"
    and "se_recvs w = Rx_data (be32_bytes (len32 resp)) # map Rx_data chunks" "concat chunks = resp"
    and "length resp \<le> payload_capacity"
  shows "exchange_payload s w data n = Some (Good (len32 resp), be32_bytes (len32 resp) @ resp
    @ drop (HEADER_SIZE + length resp) data, [Sent s (take (unat n) data)])"
proof -
  have "unat (len32 resp) = length resp" using assms(6) by (simp add: take_be32_bound)
  with exchange_payload_stream [OF assms(1-4), of s] assms(5,6) show ?thesis by simp
qed

lemma extract_resp:
  assumes "qgs_msg_gen_get_quote_resp (ptr i) (len32 i) (Some q) (len32 q) True True = Good resp"
    and "q \<noteq> []" "24 + length i + length q \<le> payload_capacity" "i = [] \<or> length i = 16"
  shows "\<exists>kid. extract_quote_from_blob_payload (be32_bytes (len32 resp) @ resp @ rest) (len32 resp) want True None
      = (Good q, kid, [Acquire Quote_mem]) \<and> 24 + length i + length q = length resp
    \<and> (want \<longrightarrow> kid = Some (case infer_att_key_id_from_quote q (len32 q) of Some v \<Rightarrow> v
          | None \<Rightarrow> if i = [] then g_intel_tdqe_ecdsa_uuid else i))"
proof -
  have small: "24 + length i + length q < 4294967295" using assms(3) by (simp add: take_be32_bound)
  from assms(1) gen_get_quote_resp_ok [OF assms(2) small] have resp: "resp = ser_quote_resp (i, q)" by simp
  then have len: "length resp = 24 + length i + length q" by (simp add: ser_quote_resp_def)
  have inf: "qgs_msg_inflate_get_quote_resp (Some (resp @ rest)) (len32 resp) True
      = Good ((if i \<noteq> [] then Some 24 else None, len32 i), (Some (24 + length i), len32 q))"
    unfolding inflate_get_quote_resp_Good_iff
    using small len resp assms(2) by (simp add: Let_def QGS_MSG_SUCCESS_def ser_quote_resp_def add.assoc)
  have err: "h_error_code (header_of (resp @ rest)) = 0"
    by (simp add: resp ser_quote_resp_def quote_resp_bytes_def QGS_MSG_SUCCESS_def)
  have rd: "bread 16 24 (resp @ rest) = Some i" if "length i = 16"
    using that len by (simp add: bread_def resp ser_quote_resp_def)
  have rq: "bread (length q) (24 + length i) (resp @ rest) = Some q"
    using len by (simp add: bread_def resp ser_quote_resp_def)
  have q: "unat (len32 q) = length q" "unat (len32 i) = length i" using small by simp_all
  show ?thesis
    using assms(4) inf err rd rq q len
    by (auto simp: extract_quote_from_blob_payload_def Let_def HEADER_SIZE_def TDX_UUID_SIZE_def
        split: option.splits)
qed

text \<open>The TD report that the device returns, and the request built on it.\<close>

lemma generate_report_only:
  assumes "length rep = 1024" "mem" "request_buffer (qh_data blob)"
  shows "\<exists>b. generate_get_quote_blob rep None 0 mem blob = (Good b, [Acquire Req_mem, Release Req_mem])
    \<and> unat (qh_in_len b) = 1052
    \<and> qh_data b = be32_bytes (size32 1048) @ ser_quote_req (rep, []) @ drop 1052 (qh_data blob)"
proof -
  have "len32 rep = word_of_nat TDX_REPORT_SIZE" using assms(1) by (simp add: size32_def TDX_REPORT_SIZE_def)
  moreover have "rep \<noteq> []" using assms(1) by auto
  ultimately have gen: "qgs_msg_gen_get_quote_req (Some rep) (word_of_nat TDX_REPORT_SIZE) None 0 True mem
      = Good (ser_quote_req (rep, []))"
    using gen_get_quote_req_ok [of rep "[]"] assms(1,2) by (simp add: ptr_def)
  have len: "length (ser_quote_req (rep, [])) = 1048" "length (qh_data blob) = 16360"
    using assms(1,3) by (simp_all add: ser_quote_req_def request_buffer_def tdx_sizes)
  show ?thesis
    using len by (simp add: generate_get_quote_blob_def gen Let_def take_be32_bound bwrite_def
        HEADER_SIZE_def min_def size32_def)
qed

lemma local_qgs_delivery:
  assumes "get_local_qgs_socket_path (ae_env w) = Some path" "length (cstr path) < SUN_PATH_SIZE"
    and "ae_blob_mem w" "ae_dev_open w" "ae_req_mem w" "ae_local_quote_mem w"
    and "64 \<le> length report_data" "ae_report w (take 64 report_data) = Some tdreport"
    and "qgs_msg_gen_get_quote_resp (ptr i) (len32 i) (Some q) (len32 q) True True = Good resp"
    and "q \<noteq> []" "24 + length i + length q \<le> 16356" "i = [] \<or> length i = 16"
    and "ae_local w = \<lparr>se_socket_ok = True, se_connect_ok = True, se_send_ret = 1052,
           se_recvs = Rx_data (be32_bytes (len32 resp)) # map Rx_data chunks\<rparr>"
    and "concat chunks = resp"
  shows "\<exists>g. tdx_att_get_quote w b (Some report_data) None 0 want True 0 = Some g \<and> gq_ret g = Good q
    \<and> (want \<longrightarrow> gq_key_id g = Some (case infer_att_key_id_from_quote q (len32 q) of Some v \<Rightarrow> v
          | None \<Rightarrow> if i = [] then g_intel_tdqe_ecdsa_uuid else i))"
proof -
  define rep where "rep = array_of 1024 tdreport"
  define blob0 where "blob0 = \<lparr>qh_version = 0, qh_status = 0, qh_in_len = 0, qh_out_len = 0,
                 qh_data = array_of (REQ_BUF_SIZE - sizeof_tdx_quote_hdr) (ae_blob_junk w)\<rparr>"
  have rep: "get_tdx_report w True (Some report_data) True = (Good rep, [Report_ioctl])"
    using assms(7,8) by (simp add: get_tdx_report_def bread_def tdx_sizes rep_def)
  have "length rep = 1024" "request_buffer (qh_data blob0)"
    by (simp_all add: rep_def blob0_def request_buffer_def)
  then obtain blob where gen: "generate_get_quote_blob rep None 0 (ae_req_mem w) blob0
        = (Good blob, [Acquire Req_mem, Release Req_mem])" and in_len: "unat (qh_in_len blob) = 1052"
    using generate_report_only assms(5) by blast
  have buf: "request_buffer (qh_data blob)" "1052 \<le> length (qh_data blob)"
    using generate_contract(3) [OF gen, of blob] \<open>request_buffer (qh_data blob0)\<close> \<open>length rep = 1024\<close> in_len
    by (auto simp: id_list_ok_def tdx_sizes)
  have cap: "24 + length i + length q \<le> payload_capacity" using assms(11) by (simp add: take_be32_bound)
  obtain kid where ext: "extract_quote_from_blob_payload (be32_bytes (len32 resp) @ resp
          @ drop (HEADER_SIZE + length resp) (qh_data blob)) (len32 resp) want True None
        = (Good q, kid, [Acquire Quote_mem])"
    and len: "length resp = 24 + length i + length q"
    and kid: "want \<longrightarrow> kid = Some (case infer_att_key_id_from_quote q (len32 q) of Some v \<Rightarrow> v
          | None \<Rightarrow> if i = [] then g_intel_tdqe_ecdsa_uuid else i)"
    using extract_resp [OF assms(9,10) cap assms(12)] by metis
  have size_resp: "unat (len32 resp) = length resp" using len assms(11) by simp
  have "exchange_payload Local_sock (ae_local w) (qh_data blob) (qh_in_len blob)
     = Some (Good (len32 resp), be32_bytes (len32 resp) @ resp @ drop (HEADER_SIZE + length resp) (qh_data blob),
         [Sent Local_sock (take 1052 (qh_data blob))])"
    using exchange_payload_stream [OF buf(1), of "qh_in_len blob" "ae_local w" "len32 resp" chunks Local_sock]
      buf(2) in_len assms(13,14) cap size_resp len by simp
  then have "\<exists>g. get_quote_by_local w report_data b False want blob None = Some g \<and> gq_ret g = Good q
      \<and> gq_key_id g = kid"
    using assms(1,2,6,13) ext
    by (simp add: get_quote_by_local_def local_qgs_get_quote_payload_def Let_def deliver_def)
  then show ?thesis
    using rep gen kid assms(3,4)
    by (auto simp: tdx_att_get_quote_def refuse_mldsa_quote_fallback_def uuid_list_requests_mldsa_def
        get_quote_with_device_def blob0_def [symmetric])
qed

definition local_environment :: environment where
  "local_environment = [''TDX_ATTEST_LOCAL_QGS_SOCKET'' \<mapsto> ''/run/qgs'']"

text \<open>A quote of four bytes with an ECDSA header, answered in two pieces.\<close>

definition sample_resp :: "byte list" where
  "sample_resp = ser_quote_resp ([], [4, 0, 2, 0])"

definition delivering_env :: attest_env where
  "delivering_env = (sample_env local_environment True)\<lparr>ae_report := (\<lambda>d. Some (d @ [7])),
     ae_local := \<lparr>se_socket_ok = True, se_connect_ok = True, se_send_ret = 1052,
       se_recvs = Rx_data (be32_bytes (len32 sample_resp))
         # map Rx_data [take 10 sample_resp, drop 10 sample_resp]\<rparr>\<rparr>"

lemma sample_resp_generated:
  "qgs_msg_gen_get_quote_resp (ptr []) (len32 []) (Some [4, 0, 2, 0]) (len32 [4 :: byte, 0, 2, 0]) True True
    = Good sample_resp"
  unfolding sample_resp_def by (rule gen_get_quote_resp_ok) simp_all

lemma delivering_env_simps [simp]:
  "get_local_qgs_socket_path (ae_env delivering_env) = Some ''/run/qgs''"
  "ae_blob_mem delivering_env" "ae_dev_open delivering_env" "ae_req_mem delivering_env"
  "ae_local_quote_mem delivering_env" "ae_report delivering_env d = Some (d @ [7])"
  "ae_local delivering_env = \<lparr>se_socket_ok = True, se_connect_ok = True, se_send_ret = 1052,
       se_recvs = Rx_data (be32_bytes (len32 sample_resp))
         # map Rx_data [take 10 sample_resp, drop 10 sample_resp]\<rparr>"
  by (simp_all add: delivering_env_def sample_env_def local_environment_def get_local_qgs_socket_path_def)

lemma sample_delivered:
  "\<exists>g. tdx_att_get_quote delivering_env b (Some (replicate 64 0)) None 0 True True 0 = Some g
    \<and> gq_ret g = Good [4, 0, 2, 0]"
  using local_qgs_delivery [OF _ _ _ _ _ _ _ _ sample_resp_generated, of delivering_env "''/run/qgs''"
      "replicate 64 0" "replicate 64 0 @ [7]" "[take 10 sample_resp, drop 10 sample_resp]" b True]
  by (auto simp: SUN_PATH_SIZE_def cstr_def)

text \<open>
  A quote generated by a reachable local QGS arrives whole: with the socket path configured, a
  response built by the message library and sent in any number of pieces, tdx_att_get_quote returns
  exactly the quote of the response, and reports its key id.
\<close>

theorem local_qgs_quote_delivered:
  assumes "get_local_qgs_socket_path (ae_env w) = Some path" "length (cstr path) < SUN_PATH_SIZE"
    and "ae_blob_mem w" "ae_dev_open w" "ae_req_mem w" "ae_local_quote_mem w"
    and "64 \<le> length report_data" "ae_report w (take 64 report_data) = Some tdreport"
    and "qgs_msg_gen_get_quote_resp (ptr i) (len32 i) (Some q) (len32 q) True True = Good resp"
    and "q \<noteq> []" "24 + length i + length q \<le> 16356" "i = [] \<or> length i = 16"
    and "ae_local w = \<lparr>se_socket_ok = True, se_connect_ok = True, se_send_ret = 1052,
           se_recvs = Rx_data (be32_bytes (len32 resp)) # map Rx_data chunks\<rparr>"
    and "concat chunks = resp"
  shows "\<exists>g. tdx_att_get_quote w b (Some report_data) None 0 want True 0 = Some g \<and> gq_ret g = Good q
    \<and> (want \<longrightarrow> gq_key_id g = Some (case infer_att_key_id_from_quote q (len32 q) of Some v \<Rightarrow> v
          | None \<Rightarrow> if i = [] then g_intel_tdqe_ecdsa_uuid else i))"
  using assms by (rule local_qgs_delivery)

theorem local_qgs_quote_delivered_witness:
  "\<exists>g. tdx_att_get_quote delivering_env False (Some (replicate 64 0)) None 0 True True 0 = Some g
    \<and> gq_ret g = Good [4, 0, 2, 0] \<and> gq_key_id g = Some g_intel_tdqe_ecdsa_uuid"
  using local_qgs_quote_delivered [OF _ _ _ _ _ _ _ _ sample_resp_generated, of delivering_env "''/run/qgs''"
      "replicate 64 0" "replicate 64 0 @ [7]" "[take 10 sample_resp, drop 10 sample_resp]" False True]
  by (auto simp: SUN_PATH_SIZE_def cstr_def infer_att_key_id_from_quote_def quote_header_prefix_of_def
      get16_def quote_alg_defs)

theorem key_id_matches_quote_witness:
  "\<exists>g u. tdx_att_get_quote delivering_env True (Some (replicate 64 0)) None 0 True True 0 = Some g
    \<and> gq_key_id g = Some u"
proof -
  obtain g where g: "tdx_att_get_quote delivering_env True (Some (replicate 64 0)) None 0 True True 0 = Some g"
    "gq_ret g = Good [4, 0, 2, 0]"
    using sample_delivered by blast
  from key_id_matches_quote [OF g] g show ?thesis by blast
qed



text \<open>
  The transports share one buffer: when the local QGS answers and the answer is not a usable
  quote, the request has been overwritten, and what goes to the vsock peer next is the answer of the
  local QGS, not the request.
\<close>

theorem vsock_is_sent_the_local_answer:
  assumes "get_local_qgs_socket_path (ae_env w) = Some path" "length (cstr path) < SUN_PATH_SIZE"
    and "\<not> local_qgs_forced (ae_env w)"
    and "request_buffer (qh_data blob)" "unat (qh_in_len blob) \<le> length (qh_data blob)"
    and "ae_local w = \<lparr>se_socket_ok = True, se_connect_ok = True, se_send_ret = int (unat (qh_in_len blob)),
           se_recvs = Rx_data (be32_bytes (len32 answer)) # map Rx_data chunks\<rparr>"
    and "concat chunks = answer" "length answer \<le> 16356"
    and "\<not> is_good (fst (extract_quote_from_blob_payload
          (be32_bytes (len32 answer) @ answer @ drop (4 + length answer) (qh_data blob)) (len32 answer)
          want (ae_local_quote_mem w) kid))"
    and "get_vsock_port (ae_config w) \<noteq> WRONG_PORT_NUMBER" "se_socket_ok (ae_vsock w)" "se_connect_ok (ae_vsock w)"
    and "get_quote_by_local w d b req want blob kid = Some g"
  shows "Sent Vsock_sock (take (unat (qh_in_len blob))
      (be32_bytes (len32 answer) @ answer @ drop (4 + length answer) (qh_data blob))) \<in> set (gq_log g)"
proof -
  let ?data = "be32_bytes (len32 answer) @ answer @ drop (4 + length answer) (qh_data blob)"
  have size_a: "unat (len32 answer) = length answer" using assms(8) by simp
  have len: "length (qh_data blob) = 16360" using assms(4) by (simp add: request_buffer_def tdx_sizes)
  have "exchange_payload Local_sock (ae_local w) (qh_data blob) (qh_in_len blob)
     = Some (Good (len32 answer), ?data, [Sent Local_sock (take (unat (qh_in_len blob)) (qh_data blob))])"
    using exchange_payload_stream [OF assms(4,5), of "ae_local w" "len32 answer" chunks Local_sock]
      assms(6,7,8) size_a by (simp add: take_be32_bound HEADER_SIZE_def)
  moreover obtain r k l where e: "extract_quote_from_blob_payload ?data (len32 answer) want (ae_local_quote_mem w) kid
      = (r, k, l)" by (cases "extract_quote_from_blob_payload ?data (len32 answer) want (ae_local_quote_mem w) kid")
  moreover have "r \<noteq> Fault"
    using extract_safe [of "len32 answer" ?data want "ae_local_quote_mem w" kid] e len size_a
    by (simp add: HEADER_SIZE_def)
  moreover have "\<not> is_good r" using assms(9) e by simp
  ultimately obtain g' l' where
    g': "get_quote_by_vsock w d b req want (blob\<lparr>qh_data := ?data\<rparr>) k = Some g'" "gq_log g = l' @ gq_log g'"
    using assms(1-3,6,13)
    by (auto simp: get_quote_by_local_def local_qgs_get_quote_payload_def Let_def deliver_def)
  have rd: "bread (unat (qh_in_len blob)) 0 ?data = Some (take (unat (qh_in_len blob)) ?data)"
    using assms(5) len by (simp add: bread_def)
  have sent: "Sent s (take (unat (qh_in_len blob)) ?data) \<in> set log"
    if "exchange_payload s v ?data (qh_in_len blob) = Some (x, y, log)" for s v x y log
    using that rd by (auto simp: exchange_payload_def Let_def split: if_splits option.splits prod.splits
        outcome.splits bool.splits)
  obtain x y log where ex: "exchange_payload Vsock_sock (ae_vsock w) ?data (qh_in_len blob) = Some (x, y, log)"
    and vp: "vsock_get_quote_payload (ae_config w) (ae_vsock w) ?data (qh_in_len blob)
      = Some (x, y, Acquire Vsock_sock # log @ [Release Vsock_sock])"
    using g'(1) assms(10-12)
    by (auto simp: get_quote_by_vsock_def vsock_get_quote_payload_def Let_def split: option.splits)
  have "Sent Vsock_sock (take (unat (qh_in_len blob)) ?data) \<in> set (gq_log g')"
    using sent [OF ex] g'(1) vp
    by (auto simp: get_quote_by_vsock_def deliver_def split: outcome.splits if_splits prod.splits)
  with g'(2) show ?thesis by simp
qed

definition stale_env :: attest_env where
  "stale_env = (sample_env local_environment True)\<lparr>ae_config := Some [''port=4050''],
     ae_local := \<lparr>se_socket_ok = True, se_connect_ok = True, se_send_ret = 8,
       se_recvs = [Rx_data (be32_bytes 2), Rx_data [9, 9]]\<rparr>,
     ae_vsock := \<lparr>se_socket_ok = True, se_connect_ok = True, se_send_ret = -1, se_recvs = []\<rparr>\<rparr>"

definition stale_blob :: tdx_quote_hdr where
  "stale_blob = \<lparr>qh_version = 1, qh_status = 0, qh_in_len = 8, qh_out_len = 0,
     qh_data = [0, 0, 0, 4, 1, 2, 3, 4] @ replicate 16352 0\<rparr>"

lemma port_4050: "get_vsock_port (Some [''port=4050'']) = 4050"
  by (simp add: get_vsock_port_def scan_comment_def scan_port_def cstr_def isspace_def isdigit_def
      strtol10_def digit_value_def LONG_MAX_def LONG_MIN_def Let_def MAX_PORT_NUMBER_def)

theorem vsock_is_sent_the_local_answer_witness:
  "\<exists>g. get_quote_by_local stale_env [] True False True stale_blob None = Some g
    \<and> Sent Vsock_sock [0, 0, 0, 2, 9, 9, 3, 4] \<in> set (gq_log g)"
proof -
  have rd: "exchange_payload Local_sock (ae_local stale_env) (qh_data stale_blob) (qh_in_len stale_blob)
     = Some (Good 2, [0, 0, 0, 2, 9, 9, 3, 4] @ replicate 16352 0, [Sent Local_sock [0, 0, 0, 4, 1, 2, 3, 4]])"
    using exchange_payload_stream [of "qh_data stale_blob" "qh_in_len stale_blob" "ae_local stale_env" 2
        "[[9, 9]]" Local_sock]
    by (simp add: stale_env_def stale_blob_def request_buffer_def tdx_sizes take_be32_bound be32_bytes_def
        sample_env_def)
  have ext: "extract_quote_from_blob_payload ([0, 0, 0, 2, 9, 9, 3, 4] @ rest) 2 True m None
      = (Bad TDX_ATTEST_ERROR_UNEXPECTED, None, [])" for rest m
    by (simp add: extract_quote_from_blob_payload_def Let_def qgs_msg_inflate_get_quote_resp_def)
  have env: "get_local_qgs_socket_path (ae_env stale_env) = Some ''/run/qgs''"
    "\<not> local_qgs_forced (ae_env stale_env)" "ae_config stale_env = Some [''port=4050'']"
    by (simp_all add: stale_env_def sample_env_def local_environment_def get_local_qgs_socket_path_def
        local_qgs_forced_def env_flag_def)
  have two: "size32 (Suc (Suc 0)) = 2" by (simp add: size32_def)
  have "\<exists>g. get_quote_by_local stale_env [] True False True stale_blob None = Some g"
    using env rd ext
    by (simp add: get_quote_by_local_def local_qgs_get_quote_payload_def deliver_def SUN_PATH_SIZE_def cstr_def
        get_quote_by_vsock_def vsock_get_quote_payload_def port_4050 WRONG_PORT_NUMBER_def MAX_PORT_NUMBER_def
        exchange_payload_def [of Vsock_sock] bread_def, simp add: stale_env_def stale_blob_def)
  then obtain g where g: "get_quote_by_local stale_env [] True False True stale_blob None = Some g" by blast
  have "Sent Vsock_sock (take (unat (qh_in_len stale_blob)) (be32_bytes (len32 [9, 9]) @ [9, 9]
      @ drop (4 + length [9 :: byte, 9]) (qh_data stale_blob))) \<in> set (gq_log g)"
    by (rule vsock_is_sent_the_local_answer [OF env(1) _ env(2) _ _ _ _ _ _ _ _ _ g, where chunks = "[[9, 9]]"])
      (use ext in \<open>simp_all add: two stale_env_def stale_blob_def request_buffer_def tdx_sizes port_4050
        sample_env_def SUN_PATH_SIZE_def cstr_def be32_bytes_def\<close>)
  with g show ?thesis by (auto simp: two stale_blob_def be32_bytes_def)
qed







section \<open>Requests and configuration\<close>

lemma supported_concat_length:
  "all_supported us (length us) = Good True \<Longrightarrow> length (concat us) = 16 * length us"
  by (induction us) (auto split: if_splits)

lemma request_built:
  assumes "length rep = 1024" "us \<noteq> []" "length us \<le> 956" "all_supported us (length us) = Good True"
    and "request_buffer (qh_data blob)"
  obtains b where "fst (generate_get_quote_blob rep (Some us) (size32 (length us)) True blob) = Good b"
    "qh_in_len b = 4 + len32 (ser_quote_req (rep, concat us))"
    "qh_data b = frame (ser_quote_req (rep, concat us)) @ drop (4 + length (ser_quote_req (rep, concat us))) (qh_data blob)"
    "length (concat us) = 16 * length us"
proof -
  have ids: "length (concat us) = 16 * length us" by (rule supported_concat_length [OF assms(4)])
  then have ids_ne: "concat us \<noteq> []" using assms(2) by (metis length_0_conv mult_eq_0_iff zero_neq_numeral)
  then have pp: "ptr (concat us) = Some (concat us)" unfolding ptr_def by (rule if_not_P)
  have "size32 (length us) * word_of_nat TDX_UUID_SIZE = len32 (concat us)"
    by (simp only: ids) (simp add: size32_def TDX_UUID_SIZE_def mult.commute)
  moreover have "len32 rep = word_of_nat TDX_REPORT_SIZE" using assms(1) by (simp add: size32_def TDX_REPORT_SIZE_def)
  moreover have rep: "rep \<noteq> []" using assms(1) by auto
  moreover have "24 + length rep + length (concat us) < 4294967295" using ids assms(1,3) by simp
  ultimately have gen: "qgs_msg_gen_get_quote_req (Some rep) (word_of_nat TDX_REPORT_SIZE) (Some (concat us))
      (size32 (length us) * word_of_nat TDX_UUID_SIZE) True True = Good (ser_quote_req (rep, concat us))"
    using gen_get_quote_req_ok [of rep "concat us"] by (simp add: pp)
  define req where "req = ser_quote_req (rep, concat us)"
  have len: "length req = 1048 + 16 * length us" "length (qh_data blob) = 16360"
    using assms(1,5) ids by (simp_all add: req_def ser_quote_req_def request_buffer_def tdx_sizes)
  have small: "length req \<le> 16356" using len assms(3) by simp
  have n: "size32 (length us) \<noteq> 0" using assms(2,3) by simp
  obtain b where "fst (generate_get_quote_blob rep (Some us) (size32 (length us)) True blob) = Good b"
    "qh_in_len b = 4 + len32 req" "qh_data b = frame req @ drop (4 + length req) (qh_data blob)"
    using gen len(2) small n
    by (auto simp: generate_get_quote_blob_def req_def [symmetric] Let_def take_be32_bound bwrite_def
        HEADER_SIZE_def frame_def add.commute)
  with that ids show ?thesis unfolding req_def by blast
qed

text \<open>
  What goes out is what was asked: with up to 956 supported key ids, the framed request that
  tdx_att_get_quote builds is accepted by the request parser of the QGS, which reads back exactly the
  report and the ids.
\<close>

theorem request_read_back:
  assumes "length rep = 1024" "us \<noteq> []" "length us \<le> 956" "all_supported us (length us) = Good True"
    and "request_buffer (qh_data blob)"
  shows "\<exists>b v. fst (generate_get_quote_blob rep (Some us) (size32 (length us)) True blob) = Good b
    \<and> be32_fold 0 (take 4 (qh_data b)) = qh_in_len b - 4
    \<and> qgs_msg_inflate_get_quote_req (Some (drop 4 (qh_data b))) (qh_in_len b - 4) True = Good v
    \<and> view_pair (drop 4 (qh_data b)) v = Some (rep, concat us)"
proof -
  define req where "req = ser_quote_req (rep, concat us)"
  obtain b where b: "fst (generate_get_quote_blob rep (Some us) (size32 (length us)) True blob) = Good b"
    "qh_in_len b = 4 + len32 req" "qh_data b = frame req @ drop (4 + length req) (qh_data blob)"
    and ids: "length (concat us) = 16 * length us"
    unfolding req_def by (rule request_built [OF assms])
  have rep: "rep \<noteq> []" using assms(1) by auto
  have "gen_quote_req (rep, concat us) = Good req"
    using gen_get_quote_req_ok [of rep "concat us"] rep ids assms(1,3)
    by (simp add: gen_quote_req_def req_def)
  moreover have "fst (rep, concat us) \<noteq> [] \<and> wf_pair (rep, concat us)"
    using rep ids assms(1,3) by (simp add: wf_pair_def)
  ultimately obtain v where v: "qgs_msg_inflate_get_quote_req (Some (drop 4 (qh_data b))) (frame_length (qh_data b)) True
        = Good v" "view_pair (drop 4 (qh_data b)) v = Some (rep, concat us)"
    using quote_req.framed_roundtrip [of "(rep, concat us)" "drop (4 + length req) (qh_data blob)"]
    unfolding b(3) by auto
  have "frame_length (qh_data b) = len32 req" unfolding b(3) by (rule frame_length_frame)
  then show ?thesis
    using b(1,2) v by (intro exI [of _ b] exI [of _ v]) (simp add: frame_length_def)
qed

theorem request_read_back_witness:
  "\<exists>b v. fst (generate_get_quote_blob (replicate 1024 7) (Some [g_intel_tdqe_mldsa_87_uuid])
        (size32 (length [g_intel_tdqe_mldsa_87_uuid])) True stale_blob) = Good b
    \<and> view_pair (drop 4 (qh_data b)) v = Some (replicate 1024 7, g_intel_tdqe_mldsa_87_uuid)"
proof -
  have "length (replicate 1024 (7 :: byte)) = 1024" "request_buffer (qh_data stale_blob)"
    "all_supported [g_intel_tdqe_mldsa_87_uuid] (length [g_intel_tdqe_mldsa_87_uuid]) = Good True"
    by (simp_all add: request_buffer_def stale_blob_def tdx_sizes)
  from request_read_back [OF this(1) _ _ this(3) this(2)] show ?thesis by simp blast
qed

lemma dropWhile_digits [simp]:
  "dropWhile isspace (print_dec p @ s) = print_dec p @ s"
  using print_dec_digits [of p] digit_not_space
  by (cases "print_dec p") auto

lemma takeWhile_digits:
  "takeWhile isdigit (print_dec p @ CHR 0x0A # s) = print_dec p"
  "takeWhile isdigit (print_dec p) = print_dec p"
proof -
  have "takeWhile isdigit (print_dec p @ t) = print_dec p @ takeWhile isdigit t" for t
    by (rule takeWhile_append2) (use print_dec_digits in blast)
  from this [of "CHR 0x0A # s"] this [of "[]"] show
    "takeWhile isdigit (print_dec p @ CHR 0x0A # s) = print_dec p" "takeWhile isdigit (print_dec p) = print_dec p"
    by (simp_all add: isdigit_def)
qed

lemma cstr_digits: "cstr (print_dec p) = print_dec p" "cstr (print_dec p @ [CHR 0x0A]) = print_dec p @ [CHR 0x0A]"
proof -
  have "cstr (print_dec p @ t) = print_dec p @ cstr t" for t
    unfolding cstr_def by (rule takeWhile_append2) (use print_dec_digits digit_not_space in blast)
  from this [of "[]"] this [of "[CHR 0x0A]"] show
    "cstr (print_dec p) = print_dec p" "cstr (print_dec p @ [CHR 0x0A]) = print_dec p @ [CHR 0x0A]"
    by (simp_all add: cstr_def)
qed

lemma strtol10_digits:
  assumes "p \<le> 65535"
  shows "strtol10 (print_dec p) = (int p, False, length (print_dec p))"
proof -
  obtain c cs where c: "print_dec p = c # cs" by (cases "print_dec p") auto
  then have dig: "isdigit c" using print_dec_digits [of p] by simp
  then have sign: "c \<noteq> CHR ''-''" "c \<noteq> CHR ''+''" "\<not> isspace c" using digit_not_space by blast+
  have "cstr (c # cs) = c # cs" "takeWhile isdigit cs = cs" "dec_value 0 (c # cs) = p"
    using cstr_digits(1) [of p] takeWhile_digits(2) [of p] dec_value_print [of p] c dig by simp_all
  then show ?thesis
    using assms sign dig c
    by (simp add: strtol10_def LONG_MAX_def LONG_MIN_def Let_def del: takeWhile_eq_all_conv)
qed

lemma scan_config_bound: "scan_config lines \<le> WRONG_PORT_NUMBER"
proof (induction lines rule: scan_config.induct)
  case (2 line lines)
  have "nat (x mod 65536) \<le> 65536" for x :: int
    using pos_mod_bound [of 65536 x] by linarith
  with 2 show ?case
    by (auto simp: Let_def WRONG_PORT_NUMBER_def MAX_PORT_NUMBER_def split: option.splits prod.splits)
qed simp

text \<open>
  The vsock port: whatever the configuration file holds, the port is at most 65535 or the value
  that marks it unset, and a line "port = p" with p in decimal yields p.
\<close>

theorem vsock_port_configured:
  assumes "p \<le> 65535"
  shows "get_vsock_port config \<le> 65536
    \<and> get_vsock_port (Some ((''port = '' @ print_dec p @ [CHR 0x0A]) # lines)) = p"
proof -
  have len: "length (print_dec p) \<le> 10" using length_print_dec [of p 9] assms by simp
  have c: "cstr (''port = '' @ print_dec p @ [CHR 0x0A]) = ''port = '' @ print_dec p @ [CHR 0x0A]"
    using cstr_digits(2) [of p] by (simp add: cstr_def)
  have ports: "scan_port (''port = '' @ print_dec p @ [CHR 0x0A]) = Some (print_dec p, [])"
    unfolding scan_port_def c using len by (simp add: isspace_def [of "CHR ''p''"] isspace_def [of "CHR '' ''"]
        isspace_def [of "CHR ''=''"] isspace_def [of "CHR 0x0A"] takeWhile_digits Let_def)
  have com: "\<not> scan_comment (''port = '' @ print_dec p @ [CHR 0x0A])"
    unfolding scan_comment_def c by (simp add: isspace_def [of "CHR ''p''"])
  have "nat (int p mod 65536) = p" using assms by simp
  with ports com assms have "scan_config ((''port = '' @ print_dec p @ [CHR 0x0A]) # lines) = p"
    by (simp only: scan_config.simps) (simp add: strtol10_digits MAX_PORT_NUMBER_def Let_def)
  moreover have "get_vsock_port config \<le> 65536"
    using scan_config_bound by (auto simp: get_vsock_port_def WRONG_PORT_NUMBER_def MAX_PORT_NUMBER_def
        split: option.splits)
  ultimately show ?thesis by (simp add: get_vsock_port_def)
qed

theorem vsock_port_configured_witness:
  "get_vsock_port (Some [''port = '' @ print_dec 4050 @ [CHR 0x0A]]) = 4050"
  using vsock_port_configured [of 4050 None "[]"] by simp

text \<open>
  The two calls of the key id protocol fit together: the first, without a list, tells the size;
  the second fills a list of that size with ids that tdx_att_get_quote accepts, and a list one too
  short is refused without being written.
\<close>

theorem supported_ids_two_calls:
  shows "\<exists>n us. tdx_att_get_supported_att_key_ids False (Some 0) = (Good (), Some n, [])
    \<and> tdx_att_get_supported_att_key_ids True (Some n) = (Good (), Some n, us)
    \<and> length us = unat n \<and> all_supported us (unat n) = Good True \<and> distinct us
    \<and> tdx_att_get_supported_att_key_ids True (Some (n - 1)) = (Bad TDX_ATTEST_ERROR_INVALID_PARAMETER, Some n, [])"
  by (intro exI [of _ 4] exI [of _ "[g_intel_tdqe_ecdsa_uuid, g_intel_tdqe_mldsa_44_uuid,
                   g_intel_tdqe_mldsa_65_uuid, g_intel_tdqe_mldsa_87_uuid]"] conjI)
    (simp_all add: tdx_att_get_supported_att_key_ids_def all_supported_total is_mldsa_uuid_def,
     simp_all add: uuid_defs)

section \<open>Measurement registers\<close>

lemma ucast_index: "rtmr \<le> 3 \<Longrightarrow> unat (ucast (rtmr :: u64) :: byte) = unat rtmr"
  by (simp add: unsigned_ucast_eq take_bit_nat_eq_self word_le_nat_alt)

lemma extend_logs_neutral:
  "neutral (snd (sysfs_extend_rtmr w rtmr d))" "neutral (snd (ioctl_extend_rtmr w rtmr d))"
  by (auto simp: sysfs_extend_rtmr_def ioctl_extend_rtmr_def Let_def split: prod.splits option.splits)

text \<open>The libc convention: a call that fails sets errno to a positive value.\<close>

definition errno_positive :: "extend_env \<Rightarrow> bool" where
  "errno_positive w \<longleftrightarrow> (\<forall>p e. xe_open w p = Some e \<longrightarrow> 0 < e) \<and> (\<forall>e. xe_dev_open w = Some e \<longrightarrow> 0 < e)
     \<and> (\<forall>d. fst (xe_write w d) < 0 \<longrightarrow> 0 < snd (xe_write w d))
     \<and> (\<forall>r. fst (xe_ioctl w r) < 0 \<longrightarrow> 0 < snd (xe_ioctl w r))"

lemma sysfs_extend_zero:
  assumes "errno_positive w" "sysfs_extend_rtmr w r d = (0, l)"
  shows "xe_open w (rtmr_path (xe_env w) r) = None \<and> fst (xe_write w (take 48 d)) = 48"
proof -
  obtain rc errno where wr: "xe_write w (take 48 d) = (rc, errno)" by fastforce
  have "rc < 0 \<Longrightarrow> errno \<noteq> 0" "xe_open w p \<noteq> Some 0" for p
    using assms(1) wr by (metis errno_positive_def fst_conv less_irrefl snd_conv)
      (metis assms(1) errno_positive_def less_irrefl)
  then show ?thesis
    using assms(2) wr by (auto simp: sysfs_extend_rtmr_def Let_def tdx_sizes split: if_splits option.splits)
qed

lemma ioctl_extend_zero:
  assumes "errno_positive w" "ioctl_extend_rtmr w r d = (0, l)"
  shows "xe_has_ioctl w \<and> fst (xe_ioctl w \<lparr>er_data = take 48 d, er_index = ucast r\<rparr>) = 0"
proof -
  obtain err errno where io: "xe_ioctl w \<lparr>er_data = take 48 d, er_index = ucast r\<rparr> = (err, errno)" by fastforce
  have "err < 0 \<Longrightarrow> errno \<noteq> 0" "xe_dev_open w \<noteq> Some 0"
    using assms(1) io by (metis errno_positive_def fst_conv less_irrefl snd_conv)
      (metis assms(1) errno_positive_def less_irrefl)
  then show ?thesis
    using assms(2) io by (auto simp: ioctl_extend_rtmr_def Let_def tdx_sizes split: if_splits option.splits)
qed

text \<open>
  A successful extend has extended the register that was named, with the 48 bytes of the event:
  through its own sysfs file, written in full, or, only when that file does not exist, through the
  ioctl, whose 8-bit index is exactly the register's; and everything opened has been closed.
\<close>

theorem extend_reaches_named_register:
  assumes "tdx_att_extend w (Some ev) = (Good (), l)" "errno_positive w"
  shows "unat (ev_rtmr_index ev) \<le> 3 \<and> held [] l = Some []
   \<and> (let path = rtmr_path (xe_env w) (ev_rtmr_index ev); data = take 48 (ev_extend_data ev) in
      (xe_open w path = None \<and> fst (xe_write w data) = 48)
      \<or> (xe_has_ioctl w \<and> (xe_open w path = Some ENOENT \<or> snd (xe_write w data) = ENOENT) \<and>
         (\<exists>i. unat i = unat (ev_rtmr_index ev)
            \<and> fst (xe_ioctl w \<lparr>er_data = data, er_index = i\<rparr>) = 0)))"
proof -
  let ?r = "ev_rtmr_index ev" and ?d = "ev_extend_data ev"
  obtain e0 l0 where s: "sysfs_extend_rtmr w ?r ?d = (e0, l0)" by fastforce
  obtain e1 l1 where i: "ioctl_extend_rtmr w ?r ?d = (e1, l1)" by fastforce
  have neutral: "neutral l0" "neutral l1" using extend_logs_neutral [of w ?r ?d] s i by simp_all
  have idx: "?r \<le> 3" using assms(1) by (simp add: tdx_att_extend_def split: if_splits)
  have l: "l = (if e0 = - ENOENT then l0 @ l1 else l0)" and e: "(if e0 = - ENOENT then e1 else e0) = 0"
    using assms(1) s i by (auto simp: tdx_att_extend_def Let_def split: if_splits)
  have held: "held [] l = Some []"
    using neutral by (simp add: l neutral_held neutral_append)
  have u: "unat (ucast ?r :: byte) = unat ?r" by (rule ucast_index [OF idx])
  show ?thesis
  proof (cases "e0 = - ENOENT")
    case True
    then have "xe_open w (rtmr_path (xe_env w) ?r) = Some ENOENT \<or> snd (xe_write w (take 48 ?d)) = ENOENT"
      using s by (auto simp: sysfs_extend_rtmr_def Let_def tdx_sizes split: if_splits option.splits prod.splits)
    note open_failed = this
    from e True have "e1 = 0" by simp
    with i have "xe_has_ioctl w" and "fst (xe_ioctl w \<lparr>er_data = take 48 ?d, er_index = ucast ?r\<rparr>) = 0"
      using ioctl_extend_zero [OF assms(2)] by blast+
    with open_failed show ?thesis
      using idx held u by (auto simp: word_le_nat_alt Let_def)
  next
    case False
    with e s have "xe_open w (rtmr_path (xe_env w) ?r) = None \<and> fst (xe_write w (take 48 ?d)) = 48"
      using sysfs_extend_zero [OF assms(2)] by simp
    with idx held show ?thesis by (simp add: word_le_nat_alt Let_def)
  qed
qed

definition sysfs_env :: extend_env where
  "sysfs_env = \<lparr>xe_env = no_environment, xe_open = (\<lambda>_. None), xe_write = (\<lambda>d. (int (length d), 0)),
     xe_has_ioctl = False, xe_dev_open = None, xe_ioctl = (\<lambda>_. (0, 0))\<rparr>"

definition sample_event :: tdx_rtmr_event_t where
  "sample_event = \<lparr>ev_version = 1, ev_rtmr_index = 2, ev_extend_data = replicate 48 5, ev_event_type = 0,
     ev_event_data_size = 0, ev_event_data = []\<rparr>"

lemma sysfs_extend_works:
  "tdx_att_extend sysfs_env (Some sample_event) = (Good (), [Acquire Rtmr_fd, Release Rtmr_fd])"
proof -
  have "length (print_dec 2) \<le> 1" using length_print_dec [of 2 0] by simp
  then have "length (rtmr_path no_environment 2) < MAX_PATH"
    by (simp add: rtmr_path_def DEFAULT_DCAP_TDX_RTMR_SYSFS_PATH_def MAX_PATH_def)
  then show ?thesis
    by (simp add: tdx_att_extend_def sysfs_extend_rtmr_def sysfs_env_def sample_event_def tdx_sizes Let_def)
qed

theorem extend_reaches_named_register_witness:
  "fst (xe_write sysfs_env (replicate 48 5)) = 48 \<and> unat (ev_rtmr_index sample_event) \<le> 3"
  using extend_reaches_named_register [OF sysfs_extend_works]
  by (simp add: errno_positive_def) (simp add: sysfs_env_def sample_event_def)

end
