(* ===== verification/Tdqe_Mldsa.thy ===== *)
theory Tdqe_Mldsa
  imports Prelude
begin

text \<open>
  The ML-DSA attestation key of the TD quoting enclave: the adapter to mldsa-native
  (ae/tdqe/tdqe_mldsa_adapter.c), and of ae/tdqe/quoting_enclave_tdqe.cpp the tables per algorithm, the
  derivation of the key seed from the seal key, the key generation and the signing step of the quote.

  mldsa-native and the SGX SDK are parameters: the record \<open>mldsa_native\<close> holds the functions of each
  parameter set, \<open>tdqe_env\<close> what the SDK calls return.
\<close>

section \<open>Constants\<close>

definition SGX_QL_ALG_ECDSA_P256 :: nat where "SGX_QL_ALG_ECDSA_P256 = 2"
definition SGX_QL_ALG_MLDSA_44 :: nat where "SGX_QL_ALG_MLDSA_44 = 4"
definition SGX_QL_ALG_MLDSA_65 :: nat where "SGX_QL_ALG_MLDSA_65 = 5"
definition SGX_QL_ALG_MLDSA_87 :: nat where "SGX_QL_ALG_MLDSA_87 = 6"

definition SGX_QL_MLDSA_44_SIG_SIZE :: nat where "SGX_QL_MLDSA_44_SIG_SIZE = 2420"
definition SGX_QL_MLDSA_44_PUB_KEY_SIZE :: nat where "SGX_QL_MLDSA_44_PUB_KEY_SIZE = 1312"
definition SGX_QL_MLDSA_65_SIG_SIZE :: nat where "SGX_QL_MLDSA_65_SIG_SIZE = 3309"
definition SGX_QL_MLDSA_65_PUB_KEY_SIZE :: nat where "SGX_QL_MLDSA_65_PUB_KEY_SIZE = 1952"
definition SGX_QL_MLDSA_87_SIG_SIZE :: nat where "SGX_QL_MLDSA_87_SIG_SIZE = 4627"
definition SGX_QL_MLDSA_87_PUB_KEY_SIZE :: nat where "SGX_QL_MLDSA_87_PUB_KEY_SIZE = 2592"

definition TDQE_SUCCESS :: int where "TDQE_SUCCESS = 0"
definition TDQE_ERROR_UNEXPECTED :: int where "TDQE_ERROR_UNEXPECTED = 0x00010001"
definition TDQE_ERROR_INVALID_PARAMETER :: int where "TDQE_ERROR_INVALID_PARAMETER = 0x00010002"
definition TDQE_ERROR_OUT_OF_MEMORY :: int where "TDQE_ERROR_OUT_OF_MEMORY = 0x00010003"
definition TDQE_ERROR_CRYPTO :: int where "TDQE_ERROR_CRYPTO = 0x00010005"
definition TDQE_ERROR_ATT_KEY_GEN :: int where "TDQE_ERROR_ATT_KEY_GEN = 0x00010006"
definition TDQE_ERROR_INVALID_REPORT :: int where "TDQE_ERROR_INVALID_REPORT = 0x00010008"
definition TDQE_ECDSABLOB_ERROR :: int where "TDQE_ECDSABLOB_ERROR = 0x00010004"
definition TDQE_UNABLE_TO_GENERATE_QE_REPORT :: int where "TDQE_UNABLE_TO_GENERATE_QE_REPORT = 0x00010009"
definition TDQE_REPORT_FORMAT_NOT_SUPPORTED :: int where "TDQE_REPORT_FORMAT_NOT_SUPPORTED = 0x0001000C"
definition TDQE_ERROR_UNSUPPORTED_ATT_KEY_ID :: int where "TDQE_ERROR_UNSUPPORTED_ATT_KEY_ID = 0x0001000D"

text \<open>The certification key type of an encrypted PPID, which the enclave and the quote library name.\<close>

definition PPID_RSA3072_ENCRYPTED :: nat where "PPID_RSA3072_ENCRYPTED = 3"

definition TDQE_MLDSA_65_SEED_SIZE :: nat where "TDQE_MLDSA_65_SEED_SIZE = 32"
definition HASH_DRBG_OUT_LEN :: nat where "HASH_DRBG_OUT_LEN = 40"

lemmas alg_defs = SGX_QL_ALG_ECDSA_P256_def SGX_QL_ALG_MLDSA_44_def SGX_QL_ALG_MLDSA_65_def
  SGX_QL_ALG_MLDSA_87_def
lemmas sig_size_defs = SGX_QL_MLDSA_44_SIG_SIZE_def SGX_QL_MLDSA_65_SIG_SIZE_def SGX_QL_MLDSA_87_SIG_SIZE_def
lemmas tdqe_status_defs = TDQE_SUCCESS_def TDQE_ERROR_UNEXPECTED_def TDQE_ERROR_INVALID_PARAMETER_def
  TDQE_ERROR_OUT_OF_MEMORY_def TDQE_ERROR_CRYPTO_def TDQE_ERROR_ATT_KEY_GEN_def

section \<open>The adapter\<close>

text \<open>
  The functions of one parameter set. A buffer that a function writes is an argument and a result; the
  last argument of sign and verify is the constant 0 of the code.
\<close>

record mldsa_functions =
  fn_keygen :: "byte list \<Rightarrow> byte list \<Rightarrow> byte list \<Rightarrow> int \<times> byte list \<times> byte list"
  fn_sign :: "byte list \<Rightarrow> byte list \<Rightarrow> byte list \<Rightarrow> byte list \<Rightarrow> byte list \<Rightarrow> int \<Rightarrow> int \<times> byte list \<times> nat"
  fn_verify :: "byte list \<Rightarrow> byte list \<Rightarrow> byte list \<Rightarrow> byte list \<Rightarrow> int \<Rightarrow> int"
  fn_prepare_prefix :: "byte list \<Rightarrow> byte list option \<Rightarrow> byte list option \<Rightarrow> int \<Rightarrow> byte list \<times> nat"
  fn_rndbytes :: nat

record tdqe_mldsa_backend_t = mldsa_functions +
  be_signature_size :: nat

record mldsa_native =
  mldsa44 :: mldsa_functions
  mldsa65 :: mldsa_functions
  mldsa87 :: mldsa_functions
  mld_domain_separation_max_bytes :: nat
  mld_prehash_none :: int

definition with_size :: "mldsa_functions \<Rightarrow> nat \<Rightarrow> tdqe_mldsa_backend_t" where
  "with_size f n = mldsa_functions.extend f (tdqe_mldsa_backend_t.fields n)"

definition get_mldsa_backend :: "mldsa_native \<Rightarrow> nat \<Rightarrow> tdqe_mldsa_backend_t option" where
  "get_mldsa_backend mn algorithm_id =
     (if algorithm_id = SGX_QL_ALG_MLDSA_44 then Some (with_size (mldsa44 mn) SGX_QL_MLDSA_44_SIG_SIZE)
      else if algorithm_id = SGX_QL_ALG_MLDSA_65 then Some (with_size (mldsa65 mn) SGX_QL_MLDSA_65_SIG_SIZE)
      else if algorithm_id = SGX_QL_ALG_MLDSA_87 then Some (with_size (mldsa87 mn) SGX_QL_MLDSA_87_SIG_SIZE)
      else None)"

text \<open>\<open>None\<close> among the arguments is a NULL pointer.\<close>

definition tdqe_mldsa_keygen ::
  "mldsa_native \<Rightarrow> nat \<Rightarrow> byte list option \<Rightarrow> byte list option \<Rightarrow> byte list option
     \<Rightarrow> int \<times> byte list option \<times> byte list option" where
  "tdqe_mldsa_keygen mn algorithm_id public_key private_key seed =
     (case (public_key, private_key, seed) of
        (Some pk, Some sk, Some s) \<Rightarrow>
          (case get_mldsa_backend mn algorithm_id of None \<Rightarrow> (- 1, public_key, private_key)
           | Some backend \<Rightarrow> (case fn_keygen backend pk sk s of (ret, pk', sk') \<Rightarrow> (ret, Some pk', Some sk')))
      | _ \<Rightarrow> (- 1, public_key, private_key))"

definition tdqe_mldsa_sign ::
  "mldsa_native \<Rightarrow> nat \<Rightarrow> byte list option \<Rightarrow> byte list option \<Rightarrow> nat \<Rightarrow> byte list option
     \<Rightarrow> int \<times> byte list option" where
  "tdqe_mldsa_sign mn algorithm_id signature message message_len private_key =
     (case (signature, message, private_key) of
        (Some sig, Some m, Some sk) \<Rightarrow>
          (case get_mldsa_backend mn algorithm_id of None \<Rightarrow> (- 1, signature)
           | Some backend \<Rightarrow>
               let deterministic_rnd = replicate (fn_rndbytes (mldsa87 mn)) 0;
                   (pre, pre_len) = fn_prepare_prefix backend (replicate (mld_domain_separation_max_bytes mn) 0)
                     None None (mld_prehash_none mn) in
               if pre_len = 0 then (- 1, signature)
               else (case fn_sign backend sig (take message_len m) (take pre_len pre) deterministic_rnd sk 0 of
                       (ret, sig', signature_len) \<Rightarrow>
                         (if ret \<noteq> 0 \<or> signature_len \<noteq> be_signature_size backend then (- 1, Some sig')
                          else (0, Some sig'))))
      | _ \<Rightarrow> (- 1, signature))"

definition tdqe_mldsa_verify ::
  "mldsa_native \<Rightarrow> nat \<Rightarrow> byte list option \<Rightarrow> byte list option \<Rightarrow> nat \<Rightarrow> byte list option \<Rightarrow> int" where
  "tdqe_mldsa_verify mn algorithm_id signature message message_len public_key =
     (case (signature, message, public_key) of
        (Some sig, Some m, Some pk) \<Rightarrow>
          (case get_mldsa_backend mn algorithm_id of None \<Rightarrow> - 1
           | Some backend \<Rightarrow>
               let (pre, pre_len) = fn_prepare_prefix backend (replicate (mld_domain_separation_max_bytes mn) 0)
                     None None (mld_prehash_none mn) in
               if pre_len = 0 then - 1
               else fn_verify backend (take (be_signature_size backend) sig) (take message_len m) (take pre_len pre) pk 0)
      | _ \<Rightarrow> - 1)"

definition tdqe_mldsa44_keygen ::
  "mldsa_native \<Rightarrow> byte list option \<Rightarrow> byte list option \<Rightarrow> byte list option
     \<Rightarrow> int \<times> byte list option \<times> byte list option" where
  "tdqe_mldsa44_keygen mn = tdqe_mldsa_keygen mn SGX_QL_ALG_MLDSA_44"

definition tdqe_mldsa65_keygen ::
  "mldsa_native \<Rightarrow> byte list option \<Rightarrow> byte list option \<Rightarrow> byte list option
     \<Rightarrow> int \<times> byte list option \<times> byte list option" where
  "tdqe_mldsa65_keygen mn = tdqe_mldsa_keygen mn SGX_QL_ALG_MLDSA_65"

definition tdqe_mldsa87_keygen ::
  "mldsa_native \<Rightarrow> byte list option \<Rightarrow> byte list option \<Rightarrow> byte list option
     \<Rightarrow> int \<times> byte list option \<times> byte list option" where
  "tdqe_mldsa87_keygen mn = tdqe_mldsa_keygen mn SGX_QL_ALG_MLDSA_87"

definition tdqe_mldsa44_sign ::
  "mldsa_native \<Rightarrow> byte list option \<Rightarrow> byte list option \<Rightarrow> nat \<Rightarrow> byte list option
     \<Rightarrow> int \<times> byte list option" where
  "tdqe_mldsa44_sign mn = tdqe_mldsa_sign mn SGX_QL_ALG_MLDSA_44"

definition tdqe_mldsa65_sign ::
  "mldsa_native \<Rightarrow> byte list option \<Rightarrow> byte list option \<Rightarrow> nat \<Rightarrow> byte list option
     \<Rightarrow> int \<times> byte list option" where
  "tdqe_mldsa65_sign mn = tdqe_mldsa_sign mn SGX_QL_ALG_MLDSA_65"

definition tdqe_mldsa87_sign ::
  "mldsa_native \<Rightarrow> byte list option \<Rightarrow> byte list option \<Rightarrow> nat \<Rightarrow> byte list option
     \<Rightarrow> int \<times> byte list option" where
  "tdqe_mldsa87_sign mn = tdqe_mldsa_sign mn SGX_QL_ALG_MLDSA_87"

definition tdqe_mldsa44_verify ::
  "mldsa_native \<Rightarrow> byte list option \<Rightarrow> byte list option \<Rightarrow> nat \<Rightarrow> byte list option \<Rightarrow> int" where
  "tdqe_mldsa44_verify mn = tdqe_mldsa_verify mn SGX_QL_ALG_MLDSA_44"

definition tdqe_mldsa65_verify ::
  "mldsa_native \<Rightarrow> byte list option \<Rightarrow> byte list option \<Rightarrow> nat \<Rightarrow> byte list option \<Rightarrow> int" where
  "tdqe_mldsa65_verify mn = tdqe_mldsa_verify mn SGX_QL_ALG_MLDSA_65"

definition tdqe_mldsa87_verify ::
  "mldsa_native \<Rightarrow> byte list option \<Rightarrow> byte list option \<Rightarrow> nat \<Rightarrow> byte list option \<Rightarrow> int" where
  "tdqe_mldsa87_verify mn = tdqe_mldsa_verify mn SGX_QL_ALG_MLDSA_87"


lemmas adapter_defs = tdqe_mldsa44_keygen_def tdqe_mldsa65_keygen_def tdqe_mldsa87_keygen_def
  tdqe_mldsa44_sign_def tdqe_mldsa65_sign_def tdqe_mldsa87_sign_def
  tdqe_mldsa44_verify_def tdqe_mldsa65_verify_def tdqe_mldsa87_verify_def

section \<open>The tables of the quoting enclave\<close>

definition is_supported_att_key_algorithm :: "nat \<Rightarrow> bool" where
  "is_supported_att_key_algorithm algorithm_id =
     (algorithm_id = SGX_QL_ALG_ECDSA_P256 \<or> algorithm_id = SGX_QL_ALG_MLDSA_44
      \<or> algorithm_id = SGX_QL_ALG_MLDSA_65 \<or> algorithm_id = SGX_QL_ALG_MLDSA_87)"

text \<open>The signature and the public key at the front of the signature data.\<close>

definition get_quote_sig_data_struct_size :: "nat \<Rightarrow> nat" where
  "get_quote_sig_data_struct_size algorithm_id =
     (if algorithm_id = SGX_QL_ALG_MLDSA_44 then SGX_QL_MLDSA_44_SIG_SIZE + SGX_QL_MLDSA_44_PUB_KEY_SIZE
      else if algorithm_id = SGX_QL_ALG_MLDSA_87 then SGX_QL_MLDSA_87_SIG_SIZE + SGX_QL_MLDSA_87_PUB_KEY_SIZE
      else if algorithm_id = SGX_QL_ALG_MLDSA_65 then SGX_QL_MLDSA_65_SIG_SIZE + SGX_QL_MLDSA_65_PUB_KEY_SIZE
      else 64 + 64)"

definition get_quote_signature_size :: "nat \<Rightarrow> nat" where
  "get_quote_signature_size algorithm_id =
     (if algorithm_id = SGX_QL_ALG_MLDSA_44 then SGX_QL_MLDSA_44_SIG_SIZE
      else if algorithm_id = SGX_QL_ALG_MLDSA_87 then SGX_QL_MLDSA_87_SIG_SIZE
      else if algorithm_id = SGX_QL_ALG_MLDSA_65 then SGX_QL_MLDSA_65_SIG_SIZE
      else 64)"

section \<open>Key derivation\<close>

record seal_key_request =
  sk_cpu_svn :: "byte list"
  sk_isv_svn :: "byte list"
  sk_key_id :: "byte list"
  sk_key_name :: int
  sk_key_policy :: int
  sk_xfrm_mask :: int
  sk_misc_mask :: int
  sk_flags_mask :: int

record tdqe_env =
  te_native :: mldsa_native
  te_create_report :: "int \<times> byte list \<times> byte list"   \<comment> \<open>status, cpu_svn, isv_svn\<close>
  te_get_key :: "seal_key_request \<Rightarrow> int \<times> byte list"
  te_cmac :: "byte list \<Rightarrow> byte list \<Rightarrow> int \<times> byte list"
  te_keyselect_seal :: int
  te_keypolicy_mrsigner :: int
  te_flags_mode64bit :: int
  te_error_out_of_memory :: int

definition QE_ATT_STRING :: "byte list" where
  "QE_ATT_STRING = map of_char ''TDX_QE_DER''"

definition seed_content :: "byte \<Rightarrow> byte list" where
  "seed_content counter = [counter] @ QE_ATT_STRING @ [0, 0, 0, 0x01, 0x40]"

text \<open>One block of the derivation, and the status it ends with on a failure of the CMAC.\<close>

definition seed_block :: "tdqe_env \<Rightarrow> byte list \<Rightarrow> byte \<Rightarrow> int + byte list" where
  "seed_block w key counter =
     (case te_cmac w key (seed_content counter) of (status, block) \<Rightarrow>
        if status \<noteq> 0
        then Inl (if status = te_error_out_of_memory w then TDQE_ERROR_OUT_OF_MEMORY else TDQE_ERROR_CRYPTO)
        else Inr (take 16 block))"

text \<open>The three blocks of 16, 16 and 8 bytes.\<close>

definition seed_blocks :: "tdqe_env \<Rightarrow> byte list \<Rightarrow> int + byte list" where
  "seed_blocks w key =
     (case seed_block w key 0x01 of Inl e \<Rightarrow> Inl e | Inr b1 \<Rightarrow>
      case seed_block w key 0x02 of Inl e \<Rightarrow> Inl e | Inr b2 \<Rightarrow>
      case seed_block w key 0x03 of Inl e \<Rightarrow> Inl e | Inr b3 \<Rightarrow>
        Inr (b1 @ b2 @ take (HASH_DRBG_OUT_LEN - 2 * 16) b3))"

definition seal_seed :: "tdqe_env \<Rightarrow> byte list \<Rightarrow> int + byte list" where
  "seal_seed w key_id =
     (case te_create_report w of (status, cpu_svn, isv_svn) \<Rightarrow>
        if status \<noteq> 0
        then Inl (if status = te_error_out_of_memory w then TDQE_ERROR_OUT_OF_MEMORY else TDQE_ERROR_UNEXPECTED)
        else case te_get_key w
            \<lparr>sk_cpu_svn = cpu_svn, sk_isv_svn = isv_svn, sk_key_id = key_id, sk_key_name = te_keyselect_seal w,
             sk_key_policy = te_keypolicy_mrsigner w, sk_xfrm_mask = 0, sk_misc_mask = 0xFFFFFFFF,
             sk_flags_mask = NOT (te_flags_mode64bit w)\<rparr> of (status, key) \<Rightarrow>
          if status \<noteq> 0 then Inl TDQE_ERROR_CRYPTO else seed_blocks w key)"

text \<open>The status and the seed buffer, wiped on a failure after the parameter check.\<close>

definition get_att_key_seed_from_seal_key ::
  "tdqe_env \<Rightarrow> byte list option \<Rightarrow> nat \<Rightarrow> byte list option \<Rightarrow> int \<times> byte list option" where
  "get_att_key_seed_from_seal_key w p_att_seed att_seed_size p_req_key_id =
     (case (p_att_seed, p_req_key_id) of
        (Some seed, Some key_id) \<Rightarrow>
          if att_seed_size = 0 \<or> att_seed_size > HASH_DRBG_OUT_LEN then (TDQE_ERROR_INVALID_PARAMETER, p_att_seed)
          else (case seal_seed w key_id of
                  Inl e \<Rightarrow> (e, Some (replicate att_seed_size 0 @ drop att_seed_size seed))
                | Inr out \<Rightarrow> (TDQE_SUCCESS, Some (take att_seed_size out @ drop att_seed_size seed)))
      | _ \<Rightarrow> (TDQE_ERROR_INVALID_PARAMETER, p_att_seed))"

text \<open>The parameter set the quoting enclave uses: 65 for every identifier that is neither 44 nor 87.\<close>

definition get_att_key_based_from_seal_key_mldsa ::
  "tdqe_env \<Rightarrow> nat \<Rightarrow> byte list option \<Rightarrow> byte list option \<Rightarrow> byte list option
     \<Rightarrow> int \<times> byte list option \<times> byte list option" where
  "get_att_key_based_from_seal_key_mldsa w algorithm_id p_att_pub_key p_att_priv_key p_req_key_id =
     (let mn = te_native w;
          (ret, att_seed) = get_att_key_seed_from_seal_key w (Some (replicate TDQE_MLDSA_65_SEED_SIZE 0))
            TDQE_MLDSA_65_SEED_SIZE p_req_key_id in
      if ret \<noteq> TDQE_SUCCESS then (ret, p_att_pub_key, p_att_priv_key)
      else (case (if algorithm_id = SGX_QL_ALG_MLDSA_87 then tdqe_mldsa87_keygen mn p_att_pub_key p_att_priv_key att_seed
                  else if algorithm_id = SGX_QL_ALG_MLDSA_44 then tdqe_mldsa44_keygen mn p_att_pub_key p_att_priv_key att_seed
                  else tdqe_mldsa65_keygen mn p_att_pub_key p_att_priv_key att_seed) of
              (r, pk, sk) \<Rightarrow> (if r \<noteq> 0 then TDQE_ERROR_ATT_KEY_GEN else TDQE_SUCCESS, pk, sk)))"

section \<open>The signing step of the quote\<close>

text \<open>
  The ML-DSA branch of the signature: the quote's signature field and public key field afterwards.
  \<open>public_key\<close> and \<open>private_key\<close> come from the key blob.
\<close>

definition sign_quote_mldsa ::
  "mldsa_native \<Rightarrow> nat \<Rightarrow> byte list \<Rightarrow> byte list \<Rightarrow> byte list \<Rightarrow> nat \<Rightarrow> byte list \<Rightarrow> byte list \<Rightarrow> nat
     \<Rightarrow> int \<times> byte list \<times> byte list" where
  "sign_quote_mldsa mn algorithm_id quote_sig quote_sig_pub_key quote_buf sign_buf_size private_key public_key
     public_key_size =
     (case (if algorithm_id = SGX_QL_ALG_MLDSA_87
            then tdqe_mldsa87_sign mn (Some quote_sig) (Some quote_buf) sign_buf_size (Some private_key)
            else if algorithm_id = SGX_QL_ALG_MLDSA_44
            then tdqe_mldsa44_sign mn (Some quote_sig) (Some quote_buf) sign_buf_size (Some private_key)
            else tdqe_mldsa65_sign mn (Some quote_sig) (Some quote_buf) sign_buf_size (Some private_key)) of
        (rsign, sig) \<Rightarrow>
          if rsign \<noteq> 0 then (TDQE_ERROR_UNEXPECTED, obj sig, quote_sig_pub_key)
          else if (if algorithm_id = SGX_QL_ALG_MLDSA_87
                   then tdqe_mldsa87_verify mn sig (Some quote_buf) sign_buf_size (Some public_key)
                   else if algorithm_id = SGX_QL_ALG_MLDSA_44
                   then tdqe_mldsa44_verify mn sig (Some quote_buf) sign_buf_size (Some public_key)
                   else tdqe_mldsa65_verify mn sig (Some quote_buf) sign_buf_size (Some public_key)) \<noteq> 0
          then (TDQE_ERROR_UNEXPECTED, obj sig, quote_sig_pub_key)
          else (TDQE_SUCCESS, obj sig,
                take public_key_size public_key @ drop public_key_size quote_sig_pub_key))"

section \<open>Facts\<close>

text \<open>The parameter set the quoting enclave takes for an identifier.\<close>

definition quote_alg :: "nat \<Rightarrow> nat" where
  "quote_alg algorithm_id =
     (if algorithm_id = SGX_QL_ALG_MLDSA_87 then SGX_QL_ALG_MLDSA_87
      else if algorithm_id = SGX_QL_ALG_MLDSA_44 then SGX_QL_ALG_MLDSA_44 else SGX_QL_ALG_MLDSA_65)"

lemma with_size_simps [simp]:
  "be_signature_size (with_size f n) = n" "fn_sign (with_size f n) = fn_sign f"
  "fn_verify (with_size f n) = fn_verify f" "fn_keygen (with_size f n) = fn_keygen f"
  "fn_prepare_prefix (with_size f n) = fn_prepare_prefix f"
  by (simp_all add: with_size_def mldsa_functions.defs tdqe_mldsa_backend_t.defs)

lemma quote_alg_cases:
  "(if algorithm_id = SGX_QL_ALG_MLDSA_87 then f SGX_QL_ALG_MLDSA_87
    else if algorithm_id = SGX_QL_ALG_MLDSA_44 then f SGX_QL_ALG_MLDSA_44 else f SGX_QL_ALG_MLDSA_65)
   = f (quote_alg algorithm_id)"
  by (simp add: quote_alg_def)

text \<open>Both the signature and the check go through the one backend of the identifier.\<close>

lemma sign_quote_alg:
  "sign_quote_mldsa mn a sig0 pkf quote n sk pk pksz =
     (case tdqe_mldsa_sign mn (quote_alg a) (Some sig0) (Some quote) n (Some sk) of (r, sig) \<Rightarrow>
        if r \<noteq> 0 then (TDQE_ERROR_UNEXPECTED, obj sig, pkf)
        else if tdqe_mldsa_verify mn (quote_alg a) sig (Some quote) n (Some pk) \<noteq> 0
        then (TDQE_ERROR_UNEXPECTED, obj sig, pkf)
        else (TDQE_SUCCESS, obj sig, take pksz pk @ drop pksz pkf))"
  unfolding sign_quote_mldsa_def adapter_defs quote_alg_def
  by (cases "a = SGX_QL_ALG_MLDSA_87"; cases "a = SGX_QL_ALG_MLDSA_44") (simp_all add: case_prod_beta)

lemma quote_backend:
  "\<exists>f. f \<in> {mldsa44 mn, mldsa65 mn, mldsa87 mn}
     \<and> get_mldsa_backend mn (quote_alg a) = Some (with_size f (get_quote_signature_size (quote_alg a)))"
  by (auto simp: get_mldsa_backend_def quote_alg_def get_quote_signature_size_def alg_defs)

lemma quote_alg_mldsa: "a \<in> {SGX_QL_ALG_MLDSA_44, SGX_QL_ALG_MLDSA_65, SGX_QL_ALG_MLDSA_87} \<Longrightarrow> quote_alg a = a"
  by (auto simp: quote_alg_def)

text \<open>The prefix and the randomness both operations use.\<close>

abbreviation mldsa_prefix :: "mldsa_native \<Rightarrow> tdqe_mldsa_backend_t \<Rightarrow> byte list \<times> nat" where
  "mldsa_prefix mn be \<equiv> fn_prepare_prefix be (replicate (mld_domain_separation_max_bytes mn) 0) None None
     (mld_prehash_none mn)"

abbreviation zero_rnd :: "mldsa_native \<Rightarrow> byte list" where
  "zero_rnd mn \<equiv> replicate (fn_rndbytes (mldsa87 mn)) 0"

lemma sign_ok:
  "tdqe_mldsa_sign mn a (Some sig0) (Some m) n (Some sk) = (0, sig)
   \<longleftrightarrow> (\<exists>be pre len s. get_mldsa_backend mn a = Some be \<and> mldsa_prefix mn be = (pre, len) \<and> len \<noteq> 0
         \<and> fn_sign be sig0 (take n m) (take len pre) (zero_rnd mn) sk 0 = (0, s, be_signature_size be)
         \<and> sig = Some s)"
  by (auto simp: tdqe_mldsa_sign_def Let_def split: option.splits prod.splits if_splits)

lemma verify_ok:
  "get_mldsa_backend mn a = Some be \<Longrightarrow> mldsa_prefix mn be = (pre, len) \<Longrightarrow> len \<noteq> 0
   \<Longrightarrow> tdqe_mldsa_verify mn a (Some sig) (Some m) n (Some pk)
     = fn_verify be (take (be_signature_size be) sig) (take n m) (take len pre) pk 0"
  by (simp add: tdqe_mldsa_verify_def)

text \<open>
  When the check after signing fails, the signature field still holds what the backend wrote; the ECDSA
  branch of the same function overwrites it with random bytes there.
\<close>

lemma failed_check_leaves_signature:
  assumes "tdqe_mldsa_sign mn (quote_alg a) (Some sig0) (Some quote) n (Some sk) = (0, Some sig)"
    "tdqe_mldsa_verify mn (quote_alg a) (Some sig) (Some quote) n (Some pk) \<noteq> 0"
  shows "sign_quote_mldsa mn a sig0 pkf quote n sk pk pksz = (TDQE_ERROR_UNEXPECTED, sig, pkf)"
  using assms by (simp add: sign_quote_alg obj_def)

section \<open>Properties\<close>

text \<open>
  When the signing step of an ML-DSA quote reports success, the backend of the quote's own
  algorithm produced the signature over exactly the signed bytes of the quote with the fixed prefix and
  zero randomness, its length is the size the quote format reserves for that algorithm, the same backend
  accepted that very signature under the public key of the blob, and that key is the one in the quote.
\<close>

theorem signed_quote_was_checked:
  assumes "sign_quote_mldsa mn a sig0 pkf quote n sk pk pksz = (TDQE_SUCCESS, sig, pkf')"
    "a \<in> {SGX_QL_ALG_MLDSA_44, SGX_QL_ALG_MLDSA_65, SGX_QL_ALG_MLDSA_87}"
  shows "\<exists>be pre len. get_mldsa_backend mn a = Some be \<and> mldsa_prefix mn be = (pre, len) \<and> len \<noteq> 0
    \<and> fn_sign be sig0 (take n quote) (take len pre) (zero_rnd mn) sk 0 = (0, sig, get_quote_signature_size a)
    \<and> fn_verify be (take (get_quote_signature_size a) sig) (take n quote) (take len pre) pk 0 = 0
    \<and> take (min pksz (length pk)) pkf' = take pksz pk"
proof -
  note a = quote_alg_mldsa [OF assms(2)]
  obtain s where s: "tdqe_mldsa_sign mn a (Some sig0) (Some quote) n (Some sk) = (0, s)"
    and v: "tdqe_mldsa_verify mn a s (Some quote) n (Some pk) = 0"
    and out: "sig = obj s" "pkf' = take pksz pk @ drop pksz pkf"
    using assms(1) by (auto simp: sign_quote_alg a tdqe_status_defs split: prod.splits if_splits)
  from s obtain be pre len s' where be: "get_mldsa_backend mn a = Some be" "mldsa_prefix mn be = (pre, len)" "len \<noteq> 0"
    "fn_sign be sig0 (take n quote) (take len pre) (zero_rnd mn) sk 0 = (0, s', be_signature_size be)" "s = Some s'"
    unfolding sign_ok by blast
  have "be_signature_size be = get_quote_signature_size a"
    using quote_backend [of mn a] be(1) a by auto
  moreover have "fn_verify be (take (be_signature_size be) s') (take n quote) (take len pre) pk 0 = 0"
    using v verify_ok [OF be(1-3)] be(5) by simp
  moreover have "take (min pksz (length pk)) pkf' = take pksz pk"
    by (cases "pksz \<le> length pk") (simp_all add: out)
  ultimately show ?thesis using be out(1) by (auto simp: obj_def)
qed

text \<open>A toy parameter set: the signature is a padded sum of key, prefix and message.\<close>

definition toy_tag :: "nat \<Rightarrow> byte list \<Rightarrow> byte list \<Rightarrow> byte list \<Rightarrow> byte list" where
  "toy_tag n m pre k = (let s = sum_list m + sum_list pre + sum_list k in s # replicate (n - 1) 0)"

definition toy_functions :: "nat \<Rightarrow> mldsa_functions" where
  "toy_functions n = \<lparr>fn_keygen = (\<lambda>pk sk s. (0, s, s)),
     fn_sign = (\<lambda>sig m pre rnd sk mu. (0, toy_tag n m pre (take 32 sk), n)),
     fn_verify = (\<lambda>sig m pre pk mu. if sig = toy_tag n m pre (take 32 pk) then 0 else - 1),
     fn_prepare_prefix = (\<lambda>buf ph ctx alg. ([0, 0] @ drop 2 buf, 2)), fn_rndbytes = 32\<rparr>"

definition toy_native :: mldsa_native where
  "toy_native = \<lparr>mldsa44 = toy_functions 2420, mldsa65 = toy_functions 3309, mldsa87 = toy_functions 4627,
     mld_domain_separation_max_bytes = 4, mld_prehash_none = 0\<rparr>"

theorem signed_quote_was_checked_witness:
  "\<exists>sig pkf'. sign_quote_mldsa toy_native 5 [] (replicate 2 9) [1, 2, 3] 2 [7] [7] 1 = (TDQE_SUCCESS, sig, pkf')
     \<and> take 1 pkf' = [7]
     \<and> (\<exists>be pre len. get_mldsa_backend toy_native 5 = Some be \<and> mldsa_prefix toy_native be = (pre, len)
         \<and> fn_verify be (take 3309 sig) (take 2 [1, 2, 3]) (take len pre) [7] 0 = 0)"
proof -
  have "sign_quote_mldsa toy_native 5 [] (replicate 2 9) [1, 2, 3] 2 [7] [7] 1
      = (TDQE_SUCCESS, 10 # replicate 3308 0, [7, 9])"
    by (simp add: sign_quote_alg quote_alg_def tdqe_mldsa_sign_def tdqe_mldsa_verify_def get_mldsa_backend_def
        toy_native_def toy_functions_def toy_tag_def alg_defs sig_size_defs obj_def)
  from signed_quote_was_checked [OF this] this show ?thesis
    by (simp add: alg_defs get_quote_signature_size_def sig_size_defs) blast
qed

text \<open>
  The documented contract of a parameter set: key generation succeeds, a signature under the private key
  has the size of the parameter set and verifies under the public key generated with it, for the same
  message and prefix, and a prefix is never empty.
\<close>

definition parameter_set_works :: "mldsa_functions \<Rightarrow> nat \<Rightarrow> bool" where
  "parameter_set_works f n \<longleftrightarrow>
     (\<forall>pk0 sk0 s. \<exists>pk sk. fn_keygen f pk0 sk0 s = (0, pk, sk)
        \<and> (\<forall>sig0 m pre rnd. \<exists>sig. fn_sign f sig0 m pre rnd sk 0 = (0, sig, n) \<and> fn_verify f (take n sig) m pre pk 0 = 0))
     \<and> (\<forall>buf alg. snd (fn_prepare_prefix f buf None None alg) \<noteq> 0)"

text \<open>
  For each of the three parameter sets, the key pair derived from the seal key signs every quote:
  key derivation, signature, self check and the copy of the public key agree on the parameter set, the
  prefix and the sizes, so that the signing step succeeds whenever the seed could be derived and
  mldsa-native behaves as documented.
\<close>

theorem derived_key_signs_quotes:
  assumes "parameter_set_works (mldsa44 (te_native w)) SGX_QL_MLDSA_44_SIG_SIZE"
    "parameter_set_works (mldsa65 (te_native w)) SGX_QL_MLDSA_65_SIG_SIZE"
    "parameter_set_works (mldsa87 (te_native w)) SGX_QL_MLDSA_87_SIG_SIZE"
    "seal_seed w key_id = Inr seed" "a \<in> {SGX_QL_ALG_MLDSA_44, SGX_QL_ALG_MLDSA_65, SGX_QL_ALG_MLDSA_87}"
  shows "\<exists>pk sk. get_att_key_based_from_seal_key_mldsa w a (Some pk0) (Some sk0) (Some key_id) = (TDQE_SUCCESS, Some pk, Some sk)
    \<and> (\<exists>sig. sign_quote_mldsa (te_native w) a sig0 pkf quote n sk pk pksz
          = (TDQE_SUCCESS, sig, take pksz pk @ drop pksz pkf))"
proof -
  note a = quote_alg_mldsa [OF assms(5)]
  obtain f where be: "get_mldsa_backend (te_native w) a = Some (with_size f (get_quote_signature_size a))"
    and f: "parameter_set_works f (get_quote_signature_size a)"
    using assms(1-3,5) by (auto simp: get_mldsa_backend_def get_quote_signature_size_def alg_defs)
  obtain pk sk where k: "fn_keygen f pk0 sk0 (take 32 seed) = (0, pk, sk)"
    and sg: "\<And>sig0 m pre rnd. \<exists>sig. fn_sign f sig0 m pre rnd sk 0 = (0, sig, get_quote_signature_size a)
          \<and> fn_verify f (take (get_quote_signature_size a) sig) m pre pk 0 = 0"
    using f unfolding parameter_set_works_def by metis
  obtain pre len where pre: "mldsa_prefix (te_native w) (with_size f (get_quote_signature_size a)) = (pre, len)" "len \<noteq> 0"
    using f unfolding parameter_set_works_def by (metis prod.collapse with_size_simps(5))
  have key: "get_att_key_based_from_seal_key_mldsa w a (Some pk0) (Some sk0) (Some key_id) = (TDQE_SUCCESS, Some pk, Some sk)"
  proof -
    have "tdqe_mldsa_keygen (te_native w) (quote_alg a) (Some pk0) (Some sk0) (Some (take 32 seed)) = (0, Some pk, Some sk)"
      using be k by (simp add: tdqe_mldsa_keygen_def a)
    then show ?thesis
      using assms(4,5)
      by (auto simp: get_att_key_based_from_seal_key_mldsa_def get_att_key_seed_from_seal_key_def Let_def
          TDQE_MLDSA_65_SEED_SIZE_def HASH_DRBG_OUT_LEN_def adapter_defs quote_alg_def alg_defs)
  qed
  obtain sig where sig: "fn_sign f sig0 (take n quote) (take len pre) (zero_rnd (te_native w)) sk 0
        = (0, sig, get_quote_signature_size a)"
    "fn_verify f (take (get_quote_signature_size a) sig) (take n quote) (take len pre) pk 0 = 0" using sg by blast
  have "tdqe_mldsa_sign (te_native w) a (Some sig0) (Some quote) n (Some sk) = (0, Some sig)"
    using be pre sig(1) by (simp add: sign_ok)
  moreover have "tdqe_mldsa_verify (te_native w) a (Some sig) (Some quote) n (Some pk) = 0"
    using verify_ok [OF be pre] sig(2) by simp
  ultimately have "sign_quote_mldsa (te_native w) a sig0 pkf quote n sk pk pksz
      = (TDQE_SUCCESS, sig, take pksz pk @ drop pksz pkf)"
    by (simp add: sign_quote_alg a obj_def)
  with key show ?thesis by blast
qed

definition toy_env :: tdqe_env where
  "toy_env = \<lparr>te_native = toy_native, te_create_report = (0, replicate 16 3, [1, 0]),
     te_get_key = (\<lambda>kr. (0, replicate 16 5)), te_cmac = (\<lambda>k m. (0, map (\<lambda>b. b XOR hd m) k)),
     te_keyselect_seal = 4, te_keypolicy_mrsigner = 2, te_flags_mode64bit = 4, te_error_out_of_memory = 3\<rparr>"

lemma toy_native_simps:
  "te_native toy_env = toy_native" "mldsa44 toy_native = toy_functions 2420"
  "mldsa65 toy_native = toy_functions 3309" "mldsa87 toy_native = toy_functions 4627"
  by (simp_all add: toy_env_def toy_native_def)

lemma toy_parameter_set: "n > 0 \<Longrightarrow> parameter_set_works (toy_functions n) n"
  by (simp add: parameter_set_works_def toy_functions_def toy_tag_def Let_def)

lemma toy_seed:
  "seal_seed toy_env (replicate 32 0) = Inr (replicate 16 4 @ replicate 16 7 @ replicate 8 6)"
  by (simp add: seal_seed_def seed_blocks_def seed_block_def seed_content_def toy_env_def HASH_DRBG_OUT_LEN_def
      eval_nat_numeral)

theorem derived_key_signs_quotes_witness:
  "\<exists>pk sk. get_att_key_based_from_seal_key_mldsa toy_env 6 (Some (replicate 2592 0)) (Some (replicate 4896 0))
        (Some (replicate 32 0)) = (TDQE_SUCCESS, Some pk, Some sk)
     \<and> (\<exists>sig. sign_quote_mldsa toy_native 6 (replicate 4627 0) (replicate 2592 0) (replicate 632 1) 632 sk pk 2592
          = (TDQE_SUCCESS, sig, take 2592 pk @ drop 2592 (replicate 2592 0)))"
  by (rule derived_key_signs_quotes [of toy_env "replicate 32 0" _ 6, OF _ _ _ toy_seed, unfolded toy_native_simps])
    (simp_all add: toy_parameter_set alg_defs sig_size_defs)

text \<open>
  The seed of the attestation key, for a buffer of the size asked for (at most 40 bytes): on success
  it is the beginning of the three CMACs, under the seal key, of the blocks that start with the counters
  1, 2 and 3 and hold the fixed label, whatever the buffer held; on any failure the buffer is all zeros
  and no key pair is generated, so that the caller's key buffers are untouched.
\<close>

theorem seed_is_derived_or_wiped:
  assumes "get_att_key_seed_from_seal_key w (Some buf) n (Some key_id) = (ret, out)" "length buf = n" "0 < n" "n \<le> 40"
  shows "(ret = TDQE_SUCCESS \<longrightarrow> (\<exists>key t1 t2 t3.
      te_cmac w key ([1] @ QE_ATT_STRING @ [0, 0, 0, 1, 0x40]) = (0, t1)
      \<and> te_cmac w key ([2] @ QE_ATT_STRING @ [0, 0, 0, 1, 0x40]) = (0, t2)
      \<and> te_cmac w key ([3] @ QE_ATT_STRING @ [0, 0, 0, 1, 0x40]) = (0, t3)
      \<and> out = Some (take n (take 16 t1 @ take 16 t2 @ take 8 t3))))
    \<and> (ret \<noteq> TDQE_SUCCESS \<longrightarrow> out = Some (replicate n 0))"
proof -
  have blk: "\<exists>t. te_cmac w key (seed_content c) = (0, t) \<and> b = take 16 t" if "seed_block w key c = Inr b" for key c b
    using that by (auto simp: seed_block_def split: prod.splits if_splits)
  have nz: "seal_seed w key_id \<noteq> Inl TDQE_SUCCESS"
    by (auto simp: seal_seed_def seed_blocks_def seed_block_def tdqe_status_defs split: sum.splits prod.splits if_splits)
  have n: "\<not> (n = 0 \<or> n > HASH_DRBG_OUT_LEN)" using assms(3,4) by (simp add: HASH_DRBG_OUT_LEN_def)
  show ?thesis
  proof (cases "seal_seed w key_id")
    case (Inl e)
    with nz have "e \<noteq> TDQE_SUCCESS" by auto
    with Inl assms(1,2) n show ?thesis by (auto simp: get_att_key_seed_from_seal_key_def)
  next
    case (Inr o')
    then obtain key b1 b2 b3 where b: "seed_block w key 1 = Inr b1" "seed_block w key 2 = Inr b2"
      "seed_block w key 3 = Inr b3" "o' = b1 @ b2 @ take 8 b3"
      by (auto simp: seal_seed_def seed_blocks_def HASH_DRBG_OUT_LEN_def split: sum.splits prod.splits if_splits)
    have "out = Some (take n o')" "ret = TDQE_SUCCESS"
      using assms(1,2) n Inr by (auto simp: get_att_key_seed_from_seal_key_def)
    moreover obtain t1 t2 t3 where "te_cmac w key (seed_content 1) = (0, t1)" "te_cmac w key (seed_content 2) = (0, t2)"
      "te_cmac w key (seed_content 3) = (0, t3)" "b1 = take 16 t1" "b2 = take 16 t2" "b3 = take 16 t3"
      using blk [OF b(1)] blk [OF b(2)] blk [OF b(3)] by blast
    ultimately show ?thesis by (auto simp: seed_content_def b(4))
  qed
qed

theorem seed_is_derived_or_wiped_witness:
  "\<exists>key t1 t2 t3. te_cmac toy_env key ([1] @ QE_ATT_STRING @ [0, 0, 0, 1, 0x40]) = (0, t1)
     \<and> te_cmac toy_env key ([2] @ QE_ATT_STRING @ [0, 0, 0, 1, 0x40]) = (0, t2)
     \<and> Some (replicate 16 4 @ replicate 16 7) = Some (take 32 (take 16 t1 @ take 16 t2 @ take 8 t3))"
proof -
  have "get_att_key_seed_from_seal_key toy_env (Some (replicate 32 9)) 32 (Some (replicate 32 0))
      = (TDQE_SUCCESS, Some (replicate 16 4 @ replicate 16 7))"
    by (simp add: get_att_key_seed_from_seal_key_def toy_seed HASH_DRBG_OUT_LEN_def)
  from seed_is_derived_or_wiped [OF this] show ?thesis by simp blast
qed

end
