(* ===== verification/Td_Wrapper.thy ===== *)
theory Td_Wrapper
  imports Tdx_Config Tdqe_Mldsa
begin

text \<open>
  The API of the TD quote library (QuoteGeneration/quote_wrapper/tdx_quote/td_ql_wrapper.cpp, Linux):
  contexts with their attestation key and enclave paths, and the entry points that check their
  arguments, call the methods of the context and translate their errors.

  The methods of tee_att_config_t (td_ql_logic.cpp) are the record \<open>config_methods\<close>; \<open>'w\<close> is
  everything they act on: the private members of the context, the enclaves, the platform library (Td_Api
  instantiates them with the model of td_ql_logic.cpp). The status codes of the SGX SDK are the parameter \<open>sdk\<close>.
\<close>

section \<open>td_ql_wrapper.h\<close>

definition TEE_ATT_MK_ERROR :: "int \<Rightarrow> int" where "TEE_ATT_MK_ERROR x = 0x00011000 OR x"

definition TEE_ATT_SUCCESS :: int where "TEE_ATT_SUCCESS = 0"
definition TEE_ATT_ERROR_MIN :: int where "TEE_ATT_ERROR_MIN = TEE_ATT_MK_ERROR 0x0001"
definition TEE_ATT_ERROR_UNEXPECTED :: int where "TEE_ATT_ERROR_UNEXPECTED = TEE_ATT_MK_ERROR 0x0001"
definition TEE_ATT_ERROR_INVALID_PARAMETER :: int where "TEE_ATT_ERROR_INVALID_PARAMETER = TEE_ATT_MK_ERROR 0x0002"
definition TEE_ATT_ERROR_OUT_OF_MEMORY :: int where "TEE_ATT_ERROR_OUT_OF_MEMORY = TEE_ATT_MK_ERROR 0x0003"
definition TEE_ATT_UNSUPPORTED_ATT_KEY_ID :: int where "TEE_ATT_UNSUPPORTED_ATT_KEY_ID = TEE_ATT_MK_ERROR 0x000b"
definition TEE_ATT_PLATFORM_LIB_UNAVAILABLE :: int where "TEE_ATT_PLATFORM_LIB_UNAVAILABLE = TEE_ATT_MK_ERROR 0x000e"
definition TEE_ATT_ATT_KEY_NOT_INITIALIZED :: int where "TEE_ATT_ATT_KEY_NOT_INITIALIZED = TEE_ATT_MK_ERROR 0x000f"
definition TEE_ATT_ENCLAVE_LOST :: int where "TEE_ATT_ENCLAVE_LOST = TEE_ATT_MK_ERROR 0x0014"
definition TEE_ATT_INVALID_REPORT :: int where "TEE_ATT_INVALID_REPORT = TEE_ATT_MK_ERROR 0x0015"
definition TEE_ATT_ENCLAVE_LOAD_ERROR :: int where "TEE_ATT_ENCLAVE_LOAD_ERROR = TEE_ATT_MK_ERROR 0x0016"
definition TEE_ATT_UNABLE_TO_GENERATE_QE_REPORT :: int where
  "TEE_ATT_UNABLE_TO_GENERATE_QE_REPORT = TEE_ATT_MK_ERROR 0x0017"
definition TEE_ATT_QE_REPORT_UNSUPPORTED_FORMAT :: int where
  "TEE_ATT_QE_REPORT_UNSUPPORTED_FORMAT = TEE_ATT_MK_ERROR 0x0020"
definition TEE_ATT_ERROR_INVALID_PRIVILEGE :: int where "TEE_ATT_ERROR_INVALID_PRIVILEGE = TEE_ATT_MK_ERROR 0x0035"
definition TEE_ATT_ERROR_MAX :: int where "TEE_ATT_ERROR_MAX = TEE_ATT_MK_ERROR 0x00FF"

lemmas tee_att_codes = TEE_ATT_SUCCESS_def TEE_ATT_ERROR_MIN_def TEE_ATT_ERROR_UNEXPECTED_def
  TEE_ATT_ERROR_INVALID_PARAMETER_def TEE_ATT_ERROR_OUT_OF_MEMORY_def TEE_ATT_UNSUPPORTED_ATT_KEY_ID_def
  TEE_ATT_PLATFORM_LIB_UNAVAILABLE_def TEE_ATT_ATT_KEY_NOT_INITIALIZED_def TEE_ATT_ENCLAVE_LOST_def
  TEE_ATT_INVALID_REPORT_def TEE_ATT_ENCLAVE_LOAD_ERROR_def TEE_ATT_UNABLE_TO_GENERATE_QE_REPORT_def
  TEE_ATT_QE_REPORT_UNSUPPORTED_FORMAT_def TEE_ATT_ERROR_INVALID_PRIVILEGE_def TEE_ATT_ERROR_MAX_def
  TEE_ATT_MK_ERROR_def

definition SGX_QL_SUCCESS :: int where "SGX_QL_SUCCESS = 0"
definition PCK_CERT_CHAIN :: u16 where "PCK_CERT_CHAIN = 5"

record sgx_ql_att_key_id_t =
  aki_id :: u16
  aki_version :: u16
  aki_mrsigner_length :: u16
  aki_mrsigner :: "byte list"
  aki_prod_id :: u32
  aki_extended_prod_id :: "byte list"
  aki_config_id :: "byte list"
  aki_family_id :: "byte list"
  aki_algorithm_id :: nat

record tee_platform_info_t =
  pi_platform_id :: "byte list"
  pi_cpu_svn :: "byte list"
  pi_tdqe_isv_svn :: u16
  pi_pce_isv_svn :: u16

datatype tee_att_bootstrap_mode_t = TEE_ATT_BOOTSTRAP_LEGACY_PCE | TEE_ATT_BOOTSTRAP_TRUSTED_TDX_ONLY

datatype tee_att_ae_type_t = TEE_ATT_TDQE | TEE_ATT_PCE | TEE_ATT_QPL | TEE_ATT_IDE

text \<open>The public members of a context; a path is the string its array holds.\<close>

record tee_att_config_t =
  m_att_key_algorithm_id :: nat
  m_bootstrap_mode :: tee_att_bootstrap_mode_t
  tdqe_path :: string
  qpl_path :: string
  ide_path :: string


record 'w config_methods =
  cm_new :: "'w \<Rightarrow> 'w"                                     \<comment> \<open>the private members a constructor sets up\<close>
  cm_delete :: "tee_att_config_t \<Rightarrow> 'w \<Rightarrow> 'w"
  cm_init_quote :: "tee_att_config_t \<Rightarrow> nat \<Rightarrow> bool \<Rightarrow> 'w \<Rightarrow> int \<times> byte list \<times> 'w"   \<comment> \<open>status, key id\<close>
  cm_get_quote_size :: "tee_att_config_t \<Rightarrow> nat \<Rightarrow> 'w \<Rightarrow> int \<times> u32 \<times> 'w"
  cm_get_quote :: "tee_att_config_t \<Rightarrow> byte list \<Rightarrow> u32 \<Rightarrow> 'w \<Rightarrow> int \<times> byte list \<times> 'w"
  cm_get_platform_info :: "tee_att_config_t \<Rightarrow> 'w \<Rightarrow> int \<times> tee_platform_info_t \<times> 'w"
  cm_get_qpl_handle :: "tee_att_config_t \<Rightarrow> 'w \<Rightarrow> bool \<times> 'w"      \<comment> \<open>the handle is not NULL\<close>

section \<open>Attestation keys\<close>

definition g_tdqe_mrsigner :: "byte list" where
  "g_tdqe_mrsigner =
     [0x8c, 0x4f, 0x57, 0x75, 0xd7, 0x96, 0x50, 0x3e, 0x96, 0x13, 0x7f, 0x77, 0xc6, 0x8a, 0x82, 0x9a,
      0x00, 0x56, 0xac, 0x8d, 0xed, 0x70, 0x14, 0x0b, 0x08, 0x1b, 0x09, 0x44, 0x90, 0xc5, 0x7b, 0xff]"

definition tdqe_att_key_id :: "nat \<Rightarrow> sgx_ql_att_key_id_t" where
  "tdqe_att_key_id algorithm_id =
     \<lparr>aki_id = 0, aki_version = 0, aki_mrsigner_length = 32, aki_mrsigner = g_tdqe_mrsigner @ replicate 16 0,
      aki_prod_id = 2, aki_extended_prod_id = replicate 16 0, aki_config_id = replicate 64 0,
      aki_family_id = replicate 16 0, aki_algorithm_id = algorithm_id\<rparr>"

definition g_default_ecdsa_p256_att_key_id :: sgx_ql_att_key_id_t where
  "g_default_ecdsa_p256_att_key_id = tdqe_att_key_id SGX_QL_ALG_ECDSA_P256"
definition g_default_mldsa_65_att_key_id :: sgx_ql_att_key_id_t where
  "g_default_mldsa_65_att_key_id = tdqe_att_key_id SGX_QL_ALG_MLDSA_65"
definition g_default_mldsa_44_att_key_id :: sgx_ql_att_key_id_t where
  "g_default_mldsa_44_att_key_id = tdqe_att_key_id SGX_QL_ALG_MLDSA_44"
definition g_default_mldsa_87_att_key_id :: sgx_ql_att_key_id_t where
  "g_default_mldsa_87_att_key_id = tdqe_att_key_id SGX_QL_ALG_MLDSA_87"

lemmas default_key_ids = g_default_ecdsa_p256_att_key_id_def g_default_mldsa_65_att_key_id_def
  g_default_mldsa_44_att_key_id_def g_default_mldsa_87_att_key_id_def

definition is_supported_tdx_att_key_algorithm :: "nat \<Rightarrow> bool" where
  "is_supported_tdx_att_key_algorithm algorithm_id =
     (algorithm_id = SGX_QL_ALG_ECDSA_P256 \<or> algorithm_id = SGX_QL_ALG_MLDSA_44
      \<or> algorithm_id = SGX_QL_ALG_MLDSA_65 \<or> algorithm_id = SGX_QL_ALG_MLDSA_87)"

definition get_default_att_key_id_for_algorithm :: "nat \<Rightarrow> sgx_ql_att_key_id_t" where
  "get_default_att_key_id_for_algorithm algorithm_id =
     (if algorithm_id = SGX_QL_ALG_MLDSA_44 then g_default_mldsa_44_att_key_id
      else if algorithm_id = SGX_QL_ALG_MLDSA_87 then g_default_mldsa_87_att_key_id
      else if algorithm_id = SGX_QL_ALG_MLDSA_65 then g_default_mldsa_65_att_key_id
      else g_default_ecdsa_p256_att_key_id)"

definition get_default_bootstrap_mode_for_algorithm :: "environment \<Rightarrow> nat \<Rightarrow> tee_att_bootstrap_mode_t" where
  "get_default_bootstrap_mode_for_algorithm env algorithm_id =
     (if algorithm_id = SGX_QL_ALG_MLDSA_87 \<or> algorithm_id = SGX_QL_ALG_MLDSA_44
         \<or> algorithm_id = SGX_QL_ALG_MLDSA_65
      then (case env ''TDX_MLDSA_BOOTSTRAP_MODE'' of
              None \<Rightarrow> TEE_ATT_BOOTSTRAP_TRUSTED_TDX_ONLY
            | Some mode \<Rightarrow>
                if cstr mode = ''legacy_pce'' then TEE_ATT_BOOTSTRAP_LEGACY_PCE
                else if cstr mode = ''trusted_tdx_only'' then TEE_ATT_BOOTSTRAP_TRUSTED_TDX_ONLY
                else TEE_ATT_BOOTSTRAP_TRUSTED_TDX_ONLY)
      else TEE_ATT_BOOTSTRAP_LEGACY_PCE)"

section \<open>Contexts\<close>

abbreviation "WRAPPER_MAX_PATH \<equiv> (260 :: nat)"

text \<open>The index of the last occurrence of a character.\<close>

definition strrchr :: "string \<Rightarrow> char \<Rightarrow> nat option" where
  "strrchr s c = (let r = dropWhile (\<lambda>x. x \<noteq> c) (rev s) in if r = [] then None else Some (length r - 1))"

text \<open>\<open>strncat(s, t, MAX_PATH - strlen(s) - 1)\<close> when there is room for a character.\<close>

definition strncat_path :: "string \<Rightarrow> string \<Rightarrow> string" where
  "strncat_path s t =
     (let remaining = WRAPPER_MAX_PATH - length s in
      if remaining > 1 then s @ take (remaining - 1) t else s)"

definition TDQE_ID_ENCLAVE_FILE_NAME :: string where
  "TDQE_ID_ENCLAVE_FILE_NAME = ''libsgx_id_enclave.signed.so.1''"

text \<open>The path of the id enclave, from the path of the TD quoting enclave: three components up.\<close>

definition id_enclave_path :: "string \<Rightarrow> string" where
  "id_enclave_path p =
     (case strrchr p CHR ''/'' of None \<Rightarrow> p
      | Some i \<Rightarrow> let dir = take i p in
          (case strrchr dir CHR ''/'' of None \<Rightarrow> dir
           | Some j \<Rightarrow> let dir' = take j dir in
               (case strrchr dir' CHR ''/'' of None \<Rightarrow> dir'
                | Some k \<Rightarrow>
                    let component = k + 1;
                        p1 = take component dir' @ take (WRAPPER_MAX_PATH - component - 1) ''id_enclave'';
                        p2 = strncat_path p1 ''/linux/'';
                        remaining = WRAPPER_MAX_PATH - length p1 in
                    if remaining > 1 then strncat_path p2 TDQE_ID_ENCLAVE_FILE_NAME else p1)))"

definition tee_att_create_context ::
  "'w config_methods \<Rightarrow> environment \<Rightarrow> sgx_ql_att_key_id_t option \<Rightarrow> string option \<Rightarrow> bool \<Rightarrow> 'w
     \<Rightarrow> int \<times> tee_att_config_t option \<times> 'w" where
  "tee_att_create_context cm env p_att_key_id p_qe_path pp_context w =
     (if \<not> pp_context then (TEE_ATT_ERROR_INVALID_PARAMETER, None, w)
      else if (case p_att_key_id of None \<Rightarrow> False
               | Some k \<Rightarrow> aki_id k \<noteq> 0 \<or> aki_version k \<noteq> 0 \<or> aki_mrsigner_length k \<noteq> 32
                   \<or> take 32 (aki_mrsigner k) \<noteq> g_tdqe_mrsigner \<or> aki_prod_id k \<noteq> 2
                   \<or> \<not> is_supported_tdx_att_key_algorithm (aki_algorithm_id k))
      then (TEE_ATT_UNSUPPORTED_ATT_KEY_ID, None, w)
      else
        let alg = (case p_att_key_id of None \<Rightarrow> SGX_QL_ALG_ECDSA_P256 | Some k \<Rightarrow> aki_algorithm_id k);
            ctx = \<lparr>m_att_key_algorithm_id = alg,
                   m_bootstrap_mode = get_default_bootstrap_mode_for_algorithm env alg,
                   tdqe_path = [], qpl_path = [], ide_path = []\<rparr>;
            w1 = cm_new cm w in
        case p_qe_path of
          None \<Rightarrow> (TEE_ATT_SUCCESS, Some ctx, w1)
        | Some path \<Rightarrow>
            if length (cstr path) > WRAPPER_MAX_PATH - 1
            then (TEE_ATT_ERROR_INVALID_PARAMETER, None, cm_delete cm ctx w1)
            else (TEE_ATT_SUCCESS,
                  Some (ctx\<lparr>tdqe_path := cstr path, ide_path := id_enclave_path (cstr path)\<rparr>), w1))"

definition tee_att_free_context :: "'w config_methods \<Rightarrow> tee_att_config_t option \<Rightarrow> 'w \<Rightarrow> int \<times> 'w" where
  "tee_att_free_context cm p_context w =
     (case p_context of None \<Rightarrow> (TEE_ATT_ERROR_INVALID_PARAMETER, w)
      | Some ctx \<Rightarrow> (TEE_ATT_SUCCESS, cm_delete cm ctx w))"

section \<open>Errors\<close>

datatype sgx_status_t =
    SGX_ERROR_INVALID_PARAMETER | SGX_ERROR_OUT_OF_MEMORY | SGX_ERROR_ENCLAVE_FILE_ACCESS
  | SGX_ERROR_ENCLAVE_LOST | SGX_ERROR_INVALID_ENCLAVE | SGX_ERROR_UNDEFINED_SYMBOL
  | SGX_ERROR_MODE_INCOMPATIBLE | SGX_ERROR_INVALID_METADATA | SGX_ERROR_MEMORY_MAP_CONFLICT
  | SGX_ERROR_INVALID_VERSION | SGX_ERROR_INVALID_ATTRIBUTE | SGX_ERROR_NDEBUG_ENCLAVE
  | SGX_ERROR_INVALID_MISC | SGX_ERROR_DEVICE_BUSY | SGX_ERROR_NO_DEVICE | SGX_ERROR_INVALID_SIGNATURE
  | SGX_ERROR_INVALID_ENCLAVE_ID | SGX_ERROR_SERVICE_INVALID_PRIVILEGE | SGX_ERROR_UNEXPECTED

definition load_errors :: "sgx_status_t list" where
  "load_errors = [SGX_ERROR_INVALID_ENCLAVE, SGX_ERROR_UNDEFINED_SYMBOL, SGX_ERROR_MODE_INCOMPATIBLE,
     SGX_ERROR_INVALID_METADATA, SGX_ERROR_MEMORY_MAP_CONFLICT, SGX_ERROR_INVALID_VERSION,
     SGX_ERROR_INVALID_ATTRIBUTE, SGX_ERROR_NDEBUG_ENCLAVE, SGX_ERROR_INVALID_MISC, SGX_ERROR_DEVICE_BUSY,
     SGX_ERROR_NO_DEVICE, SGX_ERROR_INVALID_SIGNATURE, SGX_ERROR_INVALID_ENCLAVE_ID]"

definition translate_sdk :: "(sgx_status_t \<Rightarrow> int) \<Rightarrow> int \<Rightarrow> int" where
  "translate_sdk sdk status =
     (if status = sdk SGX_ERROR_OUT_OF_MEMORY then TEE_ATT_ERROR_OUT_OF_MEMORY
      else if status = sdk SGX_ERROR_ENCLAVE_FILE_ACCESS then TEE_ATT_ENCLAVE_LOAD_ERROR
      else if status \<in> set (map sdk load_errors) then TEE_ATT_ENCLAVE_LOAD_ERROR
      else if status = sdk SGX_ERROR_SERVICE_INVALID_PRIVILEGE then TEE_ATT_ERROR_INVALID_PRIVILEGE
      else if status = sdk SGX_ERROR_ENCLAVE_LOST then TEE_ATT_ENCLAVE_LOST
      else TEE_ATT_ERROR_UNEXPECTED)"

definition translate_sdk_parameter :: "(sgx_status_t \<Rightarrow> int) \<Rightarrow> int \<Rightarrow> int" where
  "translate_sdk_parameter sdk status =
     (if status = sdk SGX_ERROR_INVALID_PARAMETER then TEE_ATT_ERROR_INVALID_PARAMETER
      else translate_sdk sdk status)"

definition outside_tee_att :: "int \<Rightarrow> bool" where
  "outside_tee_att ret = (ret \<noteq> TEE_ATT_SUCCESS \<and> (ret < TEE_ATT_ERROR_MIN \<or> ret > TEE_ATT_ERROR_MAX))"

definition translate_init :: "(sgx_status_t \<Rightarrow> int) \<Rightarrow> int \<Rightarrow> int" where
  "translate_init sdk ret =
     (if \<not> outside_tee_att ret then ret
      else if ret = TDQE_ERROR_UNSUPPORTED_ATT_KEY_ID then TEE_ATT_UNSUPPORTED_ATT_KEY_ID
      else if ret = TDQE_ERROR_INVALID_PARAMETER then TEE_ATT_ERROR_INVALID_PARAMETER
      else if ret = TDQE_ERROR_OUT_OF_MEMORY then TEE_ATT_ERROR_OUT_OF_MEMORY
      else if ret = TDQE_ERROR_UNEXPECTED \<or> ret = TDQE_ERROR_CRYPTO \<or> ret = TDQE_ERROR_ATT_KEY_GEN
              \<or> ret = TDQE_ECDSABLOB_ERROR
      then TEE_ATT_ERROR_UNEXPECTED
      else translate_sdk_parameter sdk ret)"

definition translate_quote :: "(sgx_status_t \<Rightarrow> int) \<Rightarrow> int \<Rightarrow> int" where
  "translate_quote sdk ret =
     (if \<not> outside_tee_att ret then ret
      else if ret = TDQE_ERROR_UNSUPPORTED_ATT_KEY_ID then TEE_ATT_UNSUPPORTED_ATT_KEY_ID
      else if ret = TDQE_ERROR_INVALID_PARAMETER then TEE_ATT_ERROR_INVALID_PARAMETER
      else if ret = TDQE_ERROR_INVALID_REPORT then TEE_ATT_INVALID_REPORT
      else if ret = TDQE_ERROR_CRYPTO then TEE_ATT_ERROR_UNEXPECTED
      else if ret = TDQE_ERROR_OUT_OF_MEMORY then TEE_ATT_ERROR_OUT_OF_MEMORY
      else if ret = TDQE_UNABLE_TO_GENERATE_QE_REPORT then TEE_ATT_UNABLE_TO_GENERATE_QE_REPORT
      else if ret = TDQE_REPORT_FORMAT_NOT_SUPPORTED then TEE_ATT_QE_REPORT_UNSUPPORTED_FORMAT
      else translate_sdk_parameter sdk ret)"

definition translate_size :: "(sgx_status_t \<Rightarrow> int) \<Rightarrow> int \<Rightarrow> int" where
  "translate_size sdk ret = (if outside_tee_att ret then translate_sdk sdk ret else ret)"

section \<open>Quotes\<close>

abbreviation "sizeof_ref_sha256_hash_t \<equiv> (32 :: nat)"
abbreviation "sizeof_sgx_report2_t \<equiv> (1024 :: nat)"

text \<open>The status, \<open>*p_pub_key_id_size\<close> and the key id written.\<close>

definition tee_att_init_quote ::
  "'w config_methods \<Rightarrow> (sgx_status_t \<Rightarrow> int) \<Rightarrow> tee_att_config_t option \<Rightarrow> bool \<Rightarrow> nat option \<Rightarrow> bool \<Rightarrow> 'w
     \<Rightarrow> int \<times> nat option \<times> byte list option \<times> 'w" where
  "tee_att_init_quote cm sdk p_context refresh_att_key p_pub_key_id_size p_pub_key_id w =
     (case p_context of None \<Rightarrow> (TEE_ATT_ERROR_INVALID_PARAMETER, p_pub_key_id_size, None, w)
      | Some ctx \<Rightarrow>
        (case p_pub_key_id_size of None \<Rightarrow> (TEE_ATT_ERROR_INVALID_PARAMETER, None, None, w)
         | Some n \<Rightarrow>
           if \<not> p_pub_key_id then (TEE_ATT_SUCCESS, Some sizeof_ref_sha256_hash_t, None, w)
           else if n \<noteq> sizeof_ref_sha256_hash_t then (TEE_ATT_ERROR_INVALID_PARAMETER, Some n, None, w)
           else (case cm_init_quote cm ctx PPID_RSA3072_ENCRYPTED refresh_att_key w of
                   (ret, key, w') \<Rightarrow> (translate_init sdk ret, Some n, Some key, w'))))"

definition tee_att_get_quote_size ::
  "'w config_methods \<Rightarrow> (sgx_status_t \<Rightarrow> int) \<Rightarrow> tee_att_config_t option \<Rightarrow> bool \<Rightarrow> 'w \<Rightarrow> int \<times> u32 option \<times> 'w" where
  "tee_att_get_quote_size cm sdk p_context p_quote_size w =
     (case p_context of None \<Rightarrow> (TEE_ATT_ERROR_INVALID_PARAMETER, None, w)
      | Some ctx \<Rightarrow>
        if \<not> p_quote_size then (TEE_ATT_ERROR_INVALID_PARAMETER, None, w)
        else (case cm_get_quote_size cm ctx PPID_RSA3072_ENCRYPTED w of
                (ret, n, w') \<Rightarrow> (translate_size sdk ret, Some n, w')))"

definition tee_att_get_quote ::
  "'w config_methods \<Rightarrow> (sgx_status_t \<Rightarrow> int) \<Rightarrow> tee_att_config_t option \<Rightarrow> byte list option \<Rightarrow> u32 \<Rightarrow> u32 \<Rightarrow> 'w
     \<Rightarrow> int \<times> byte list \<times> 'w" where
  "tee_att_get_quote cm sdk p_context p_report report_size quote_size w =
     (case p_context of None \<Rightarrow> (TEE_ATT_ERROR_INVALID_PARAMETER, [], w)
      | Some ctx \<Rightarrow>
        (case p_report of None \<Rightarrow> (TEE_ATT_ERROR_INVALID_PARAMETER, [], w)
         | Some report \<Rightarrow>
           if unat report_size \<noteq> sizeof_sgx_report2_t then (TEE_ATT_ERROR_INVALID_PARAMETER, [], w)
           else (case cm_get_quote cm ctx report quote_size w of
                   (ret, quote, w') \<Rightarrow> (translate_quote sdk ret, quote, w'))))"

definition tee_att_get_keyid ::
  "tee_att_config_t option \<Rightarrow> bool \<Rightarrow> int \<times> sgx_ql_att_key_id_t option" where
  "tee_att_get_keyid p_context p_att_key_id =
     (case p_context of None \<Rightarrow> (TEE_ATT_ERROR_INVALID_PARAMETER, None)
      | Some ctx \<Rightarrow>
        if \<not> p_att_key_id then (TEE_ATT_ERROR_INVALID_PARAMETER, None)
        else (TEE_ATT_SUCCESS, Some (get_default_att_key_id_for_algorithm (m_att_key_algorithm_id ctx))))"

definition tee_att_get_platform_info ::
  "'w config_methods \<Rightarrow> tee_att_config_t option \<Rightarrow> bool \<Rightarrow> 'w \<Rightarrow> int \<times> tee_platform_info_t option \<times> 'w" where
  "tee_att_get_platform_info cm p_context p_platform_info w =
     (case p_context of None \<Rightarrow> (TEE_ATT_ERROR_INVALID_PARAMETER, None, w)
      | Some ctx \<Rightarrow>
        if \<not> p_platform_info then (TEE_ATT_ERROR_INVALID_PARAMETER, None, w)
        else (case cm_get_platform_info cm ctx w of (ret, i, w') \<Rightarrow> (ret, Some i, w')))"

definition tee_att_get_qpl_handle ::
  "'w config_methods \<Rightarrow> tee_att_config_t option \<Rightarrow> bool \<Rightarrow> 'w \<Rightarrow> int \<times> bool \<times> 'w" where
  "tee_att_get_qpl_handle cm p_context pp_qpl_handle w =
     (case p_context of None \<Rightarrow> (TEE_ATT_ERROR_INVALID_PARAMETER, False, w)
      | Some ctx \<Rightarrow>
        if \<not> pp_qpl_handle then (TEE_ATT_ERROR_INVALID_PARAMETER, False, w)
        else (case cm_get_qpl_handle cm ctx w of
                (handle, w') \<Rightarrow> if handle then (TEE_ATT_SUCCESS, True, w')
                               else (TEE_ATT_PLATFORM_LIB_UNAVAILABLE, False, w')))"

section \<open>Paths\<close>

definition sgx_set_context_path ::
  "tee_att_config_t option \<Rightarrow> tee_att_ae_type_t \<Rightarrow> string \<Rightarrow> int \<times> tee_att_config_t option" where
  "sgx_set_context_path p_context type p_path =
     (case p_context of None \<Rightarrow> (TEE_ATT_ERROR_INVALID_PARAMETER, None)
      | Some ctx \<Rightarrow>
        if type = TEE_ATT_PCE then (TEE_ATT_ERROR_INVALID_PARAMETER, Some ctx)
        else if length (cstr p_path) > WRAPPER_MAX_PATH - 1 then (TEE_ATT_ERROR_INVALID_PARAMETER, Some ctx)
        else (TEE_ATT_SUCCESS, Some (case type of
            TEE_ATT_TDQE \<Rightarrow> ctx\<lparr>tdqe_path := cstr p_path\<rparr>
          | TEE_ATT_QPL \<Rightarrow> ctx\<lparr>qpl_path := cstr p_path\<rparr>
          | _ \<Rightarrow> ctx\<lparr>ide_path := cstr p_path\<rparr>)))"

datatype pce_result = Pce_success | Pce_invalid_parameter | Pce_other

definition S_IFREG :: nat where "S_IFREG = 0x8000"

text \<open>\<open>stat\<close>: the mode of the file, \<open>None\<close> when stat fails; \<open>set_pce\<close>: sgx_set_pce_path.\<close>

definition tee_att_set_path ::
  "(string \<Rightarrow> nat option) \<Rightarrow> (string \<Rightarrow> pce_result) \<Rightarrow> tee_att_config_t option \<Rightarrow> tee_att_ae_type_t \<Rightarrow> string option
     \<Rightarrow> int \<times> tee_att_config_t option" where
  "tee_att_set_path stat set_pce p_context type p_path =
     (case p_path of None \<Rightarrow> (TEE_ATT_ERROR_INVALID_PARAMETER, p_context)
      | Some path \<Rightarrow>
        if (case stat (cstr path) of None \<Rightarrow> True | Some st_mode \<Rightarrow> st_mode AND S_IFREG = 0) then (TEE_ATT_ERROR_INVALID_PARAMETER, p_context)
        else if type = TEE_ATT_PCE
        then ((case set_pce (cstr path) of
                 Pce_success \<Rightarrow> TEE_ATT_SUCCESS
               | Pce_invalid_parameter \<Rightarrow> TEE_ATT_ERROR_INVALID_PARAMETER
               | Pce_other \<Rightarrow> TEE_ATT_ERROR_UNEXPECTED), p_context)
        else sgx_set_context_path p_context type path)"

end
