(* ===== verification/Qgs_Logic.thy ===== *)
theory Qgs_Logic
  imports Td_Wrapper Qgs_Codec
begin

text \<open>
  The request handler of the quote generation service (QuoteGeneration/quote_wrapper/qgs/qgs_ql_logic.cpp):
  the selection of an attestation key, the thread's context of the TD quote library, and the answers to
  quote, collateral and platform information requests and to raw TD reports.

  A handler takes the thread's context (the thread-specific \<open>ptr\<close>, \<open>None\<close> for NULL) and the state
  \<open>'w\<close> of the library, and returns them. \<open>Good []\<close> is an empty response, upon which the server
  closes the connection; \<open>Fault\<close> is a read outside the request or the quote.
\<close>

section \<open>Environment and keys\<close>

definition k_qgs_default_ecdsa_p256_att_key_id :: sgx_ql_att_key_id_t where
  "k_qgs_default_ecdsa_p256_att_key_id = tdqe_att_key_id SGX_QL_ALG_ECDSA_P256"
definition k_qgs_default_mldsa_65_att_key_id :: sgx_ql_att_key_id_t where
  "k_qgs_default_mldsa_65_att_key_id = tdqe_att_key_id SGX_QL_ALG_MLDSA_65"
definition k_qgs_default_mldsa_44_att_key_id :: sgx_ql_att_key_id_t where
  "k_qgs_default_mldsa_44_att_key_id = tdqe_att_key_id SGX_QL_ALG_MLDSA_44"
definition k_qgs_default_mldsa_87_att_key_id :: sgx_ql_att_key_id_t where
  "k_qgs_default_mldsa_87_att_key_id = tdqe_att_key_id SGX_QL_ALG_MLDSA_87"

lemmas qgs_key_ids = k_qgs_default_ecdsa_p256_att_key_id_def k_qgs_default_mldsa_65_att_key_id_def
  k_qgs_default_mldsa_44_att_key_id_def k_qgs_default_mldsa_87_att_key_id_def

definition kQeReportCertificationDataType :: u16 where "kQeReportCertificationDataType = 6"

definition get_qgs_tdqe_path :: "environment \<Rightarrow> string option" where
  "get_qgs_tdqe_path env =
     (case env ''QGS_TDQE_PATH'' of
        Some path \<Rightarrow> if cstr path \<noteq> [] then Some path else None
      | None \<Rightarrow> None)"

definition qgs_is_mldsa_uuid :: "tdx_uuid_t \<Rightarrow> bool" where
  "qgs_is_mldsa_uuid u = (u = TDX_SGX_MLDSA_44_ATTESTATION_ID \<or> u = TDX_SGX_MLDSA_65_ATTESTATION_ID
     \<or> u = TDX_SGX_MLDSA_87_ATTESTATION_ID)"

definition force_refresh_mldsa_request :: "environment \<Rightarrow> bool" where
  "force_refresh_mldsa_request env =
     (case env ''TDX_MLDSA_FORCE_REFRESH_ON_QGS_REQUEST'' of Some v \<Rightarrow> cstr v = ''1'' | None \<Rightarrow> False)"

definition require_full_dcap_mldsa_quote :: "environment \<Rightarrow> bool" where
  "require_full_dcap_mldsa_quote env =
     (case env ''TDX_MLDSA_REQUIRE_FULL_DCAP'' of Some v \<Rightarrow> cstr v = ''1'' | None \<Rightarrow> False)"

definition get_mldsa_sig_data_struct_size_for_algorithm :: "nat \<Rightarrow> nat" where
  "get_mldsa_sig_data_struct_size_for_algorithm algorithm_id =
     (if algorithm_id = SGX_QL_ALG_MLDSA_44 then SGX_QL_MLDSA_44_SIG_SIZE + SGX_QL_MLDSA_44_PUB_KEY_SIZE
      else if algorithm_id = SGX_QL_ALG_MLDSA_87 then SGX_QL_MLDSA_87_SIG_SIZE + SGX_QL_MLDSA_87_PUB_KEY_SIZE
      else SGX_QL_MLDSA_65_SIG_SIZE + SGX_QL_MLDSA_65_PUB_KEY_SIZE)"

definition get_mldsa_algorithm_id_for_uuid :: "tdx_uuid_t \<Rightarrow> nat" where
  "get_mldsa_algorithm_id_for_uuid u =
     (if u = TDX_SGX_MLDSA_44_ATTESTATION_ID then SGX_QL_ALG_MLDSA_44
      else if u = TDX_SGX_MLDSA_87_ATTESTATION_ID then SGX_QL_ALG_MLDSA_87
      else SGX_QL_ALG_MLDSA_65)"

section \<open>The certification data of an ML-DSA quote\<close>

abbreviation "sizeof_quote4 \<equiv> (636 :: nat)"
abbreviation "sizeof_certification_data \<equiv> (6 :: nat)"
abbreviation "sizeof_qe_report_certification_data \<equiv> (448 :: nat)"
abbreviation "sizeof_auth_data \<equiv> (2 :: nat)"

definition rd16 :: "nat \<Rightarrow> byte list \<Rightarrow> u16 qgs_outcome" where
  "rd16 off q = (if off + 2 \<le> length q then Good (get16 off q) else Fault)"

definition rd32 :: "nat \<Rightarrow> byte list \<Rightarrow> u32 qgs_outcome" where
  "rd32 off q = (if off + 4 \<le> length q then Good (get32 off q) else Fault)"

text \<open>
  \<open>None\<close> is false. Sizes are summed in 32 bits (\<open>uint32_t\<close>), pointers are offsets into the quote
  and do not wrap.
\<close>

definition get_mldsa_quote_inner_cert_key_type ::
  "byte list \<Rightarrow> u32 \<Rightarrow> nat \<Rightarrow> u16 option qgs_outcome" where
  "get_mldsa_quote_inner_cert_key_type q quote_size algorithm_id =
     (let outer = sizeof_quote4 + get_mldsa_sig_data_struct_size_for_algorithm algorithm_id in
      if unat quote_size < outer + sizeof_certification_data + sizeof_qe_report_certification_data
           + sizeof_auth_data + sizeof_certification_data
      then Good None
      else
        obind (rd16 0 q) (\<lambda>version.
        obind (rd16 2 q) (\<lambda>att_key_type.
        if version \<noteq> 4 \<or> unat att_key_type \<noteq> algorithm_id then Good None
        else
          obind (rd16 outer q) (\<lambda>outer_type.
          if outer_type \<noteq> kQeReportCertificationDataType then Good None
          else
            obind (rd32 (outer + 2) q) (\<lambda>outer_size.
            let outer_total_size = size32 sizeof_certification_data + outer_size in
            if size32 outer + outer_total_size > quote_size then Good None
            else if unat outer_size < sizeof_qe_report_certification_data + sizeof_auth_data then Good None
            else
              let data = outer + sizeof_certification_data; outer_end = data + unat outer_size;
                  auth = data + sizeof_qe_report_certification_data in
              if auth + sizeof_auth_data > outer_end then Good None
              else
                obind (rd16 auth q) (\<lambda>auth_size.
                let auth_end = auth + sizeof_auth_data + unat auth_size in
                if auth_end + sizeof_certification_data > outer_end then Good None
                else
                  obind (rd32 (auth_end + 2) q) (\<lambda>inner_size.
                  let inner_total_size = size32 sizeof_certification_data + inner_size in
                  if auth_end + unat inner_total_size > outer_end then Good None
                  else obind (rd16 auth_end q) (\<lambda>t. Good (Some t)))))))))"

section \<open>Selection of the key\<close>

text \<open>The loop over the ids of the list: the first one the service knows.\<close>

fun scan_uuids :: "byte list \<Rightarrow> nat \<Rightarrow> (sgx_ql_att_key_id_t \<times> tdx_uuid_t) option qgs_outcome" where
  "scan_uuids ids 0 = Good None"
| "scan_uuids ids (Suc n) =
     (case bread TDX_UUID_SIZE 0 ids of None \<Rightarrow> Fault
      | Some candidate \<Rightarrow>
          if candidate = TDX_SGX_MLDSA_44_ATTESTATION_ID
          then Good (Some (k_qgs_default_mldsa_44_att_key_id, TDX_SGX_MLDSA_44_ATTESTATION_ID))
          else if candidate = TDX_SGX_MLDSA_87_ATTESTATION_ID
          then Good (Some (k_qgs_default_mldsa_87_att_key_id, TDX_SGX_MLDSA_87_ATTESTATION_ID))
          else if candidate = TDX_SGX_MLDSA_65_ATTESTATION_ID
          then Good (Some (k_qgs_default_mldsa_65_att_key_id, TDX_SGX_MLDSA_65_ATTESTATION_ID))
          else if candidate = TDX_SGX_ECDSA_ATTESTATION_ID
          then Good (Some (k_qgs_default_ecdsa_p256_att_key_id, TDX_SGX_ECDSA_ATTESTATION_ID))
          else scan_uuids (drop TDX_UUID_SIZE ids) n)"

definition select_tdx_att_key_id_from_uuid_list ::
  "byte list option \<Rightarrow> u32 \<Rightarrow> (sgx_ql_att_key_id_t \<times> tdx_uuid_t) option qgs_outcome" where
  "select_tdx_att_key_id_from_uuid_list p_id_list id_list_size =
     (case p_id_list of None \<Rightarrow> Good None
      | Some ids \<Rightarrow>
          if id_list_size = 0 then Good None
          else if unat id_list_size mod TDX_UUID_SIZE \<noteq> 0 then Good None
          else scan_uuids ids (unat id_list_size div TDX_UUID_SIZE))"

text \<open>The status, the selected id, the thread's context and the library afterwards.\<close>

definition ensure_context_for_quote_request ::
  "'w config_methods \<Rightarrow> environment \<Rightarrow> byte list option \<Rightarrow> u32 \<Rightarrow> tee_att_config_t option \<Rightarrow> 'w
     \<Rightarrow> (int \<times> tdx_uuid_t \<times> tee_att_config_t option \<times> 'w) qgs_outcome" where
  "ensure_context_for_quote_request cm env p_id_list id_list_size p_ctx w =
     (case p_ctx of None \<Rightarrow> Good (TEE_ATT_SUCCESS, TDX_SGX_ECDSA_ATTESTATION_ID, None, w)
      | Some ctx \<Rightarrow>
        obind (select_tdx_att_key_id_from_uuid_list p_id_list id_list_size) (\<lambda>sel.
        case sel of None \<Rightarrow> Good (TEE_ATT_SUCCESS, TDX_SGX_ECDSA_ATTESTATION_ID, Some ctx, w)
        | Some (requested, uuid) \<Rightarrow>
            (case tee_att_get_keyid (Some ctx) True of
               (ret, current) \<Rightarrow>
                 if ret \<noteq> TEE_ATT_SUCCESS then Good (ret, TDX_SGX_ECDSA_ATTESTATION_ID, Some ctx, w)
                 else if aki_algorithm_id (the current) = aki_algorithm_id requested
                 then Good (TEE_ATT_SUCCESS, uuid, Some ctx, w)
                 else
                   let (_, w1) = tee_att_free_context cm (Some ctx) w;
                       (ret, ctx', w2) = tee_att_create_context cm env (Some requested) (get_qgs_tdqe_path env) True w1 in
                   if ret \<noteq> TEE_ATT_SUCCESS then Good (ret, TDX_SGX_ECDSA_ATTESTATION_ID, None, w2)
                   else Good (TEE_ATT_SUCCESS, uuid, ctx', w2))))"

section \<open>Quote requests\<close>

definition vector_resize :: "nat \<Rightarrow> byte list \<Rightarrow> byte list" where
  "vector_resize n v = take n v @ replicate (n - length v) 0"

text \<open>The buffer after the library has written \<open>bs\<close> to its front.\<close>

definition filled :: "byte list \<Rightarrow> byte list \<Rightarrow> byte list" where
  "filled buf bs = take (length buf) bs @ drop (length bs) buf"

record quote_try =
  qt_ret :: int
  qt_error :: u32
  qt_size :: u32
  qt_buf :: "byte list"

text \<open>One round of the retry loop; with \<open>refresh\<close> it renews the attestation key first.\<close>

definition quote_attempt ::
  "'w config_methods \<Rightarrow> (sgx_status_t \<Rightarrow> int) \<Rightarrow> environment \<Rightarrow> tee_att_config_t option \<Rightarrow> byte list \<Rightarrow> u32
     \<Rightarrow> tdx_uuid_t \<Rightarrow> bool \<Rightarrow> byte list \<Rightarrow> 'w \<Rightarrow> (quote_try \<times> 'w) qgs_outcome" where
  "quote_attempt cm sdk env p_ctx report report_size uuid refresh quote_buf w =
     (let w1 = (if refresh
                then (case tee_att_init_quote cm sdk p_ctx True (Some 32) True w of (_, _, _, w') \<Rightarrow> w')
                else w);
          (ret, n, w2) = tee_att_get_quote_size cm sdk p_ctx True w1;
          failed = (\<lambda>r buf sz. \<lparr>qt_ret = r, qt_error = qgs_msg_error_code QGS_MSG_ERROR_UNEXPECTED,
                               qt_size = sz, qt_buf = buf\<rparr>) in
      if ret \<noteq> TEE_ATT_SUCCESS then Good (failed ret quote_buf 0, w2)
      else
        let sz = the n; buf = vector_resize (unat sz) quote_buf;
            (ret, bs, w3) = tee_att_get_quote cm sdk p_ctx (Some report) report_size sz w2;
            buf' = filled buf bs in
        if ret \<noteq> TEE_ATT_SUCCESS then Good (failed ret buf' sz, w3)
        else if require_full_dcap_mldsa_quote env \<and> qgs_is_mldsa_uuid uuid
        then
          obind (get_mldsa_quote_inner_cert_key_type buf' sz (get_mldsa_algorithm_id_for_uuid uuid)) (\<lambda>t.
          case t of None \<Rightarrow> Good (failed TEE_ATT_ERROR_UNEXPECTED buf' sz, w3)
          | Some cert_key_type \<Rightarrow>
              if cert_key_type \<noteq> PCK_CERT_CHAIN
              then Good (failed TEE_ATT_ATT_KEY_NOT_INITIALIZED buf' sz, w3)
              else Good (\<lparr>qt_ret = TEE_ATT_SUCCESS, qt_error = QGS_MSG_SUCCESS, qt_size = sz, qt_buf = buf'\<rparr>, w3))
        else Good (\<lparr>qt_ret = TEE_ATT_SUCCESS, qt_error = QGS_MSG_SUCCESS, qt_size = sz, qt_buf = buf'\<rparr>, w3))"

text \<open>\<open>do \<dots> while (not initialized && retry--)\<close>; the round with \<open>retry == 0\<close> refreshes the key.\<close>

primrec quote_loop ::
  "'w config_methods \<Rightarrow> (sgx_status_t \<Rightarrow> int) \<Rightarrow> environment \<Rightarrow> tee_att_config_t option \<Rightarrow> byte list \<Rightarrow> u32
     \<Rightarrow> tdx_uuid_t \<Rightarrow> nat \<Rightarrow> byte list \<Rightarrow> 'w \<Rightarrow> (quote_try \<times> 'w) qgs_outcome" where
  "quote_loop cm sdk env p_ctx report report_size uuid 0 quote_buf w =
     quote_attempt cm sdk env p_ctx report report_size uuid True quote_buf w"
| "quote_loop cm sdk env p_ctx report report_size uuid (Suc retry) quote_buf w =
     obind (quote_attempt cm sdk env p_ctx report report_size uuid False quote_buf w) (\<lambda>(t, w').
     if qt_ret t = TEE_ATT_ATT_KEY_NOT_INITIALIZED
     then quote_loop cm sdk env p_ctx report report_size uuid retry (qt_buf t) w'
     else Good (t, w'))"

text \<open>What the handler sends: an empty response when the generator fails.\<close>

definition response :: "byte list qgs_outcome \<Rightarrow> byte list qgs_outcome" where
  "response g = (case g of Good bs \<Rightarrow> Good bs | Bad _ \<Rightarrow> Good [] | Fault \<Rightarrow> Fault)"

definition error_response :: "bool \<Rightarrow> qgs_msg_type_t \<Rightarrow> byte list qgs_outcome" where
  "error_response mem t =
     response (qgs_msg_gen_error_resp (qgs_msg_error_code QGS_MSG_ERROR_UNEXPECTED) (msg_type t) True mem)"

definition handle_quote_request ::
  "'w config_methods \<Rightarrow> (sgx_status_t \<Rightarrow> int) \<Rightarrow> environment \<Rightarrow> bool \<Rightarrow> byte list \<Rightarrow> u32 \<Rightarrow> tee_att_config_t option
     \<Rightarrow> 'w \<Rightarrow> byte list qgs_outcome \<times> tee_att_config_t option \<times> 'w" where
  "handle_quote_request cm sdk env mem p_req req_size p_ctx w =
     (case qgs_msg_inflate_get_quote_req (Some p_req) req_size True of
        Fault \<Rightarrow> (Fault, p_ctx, w)
      | Bad _ \<Rightarrow> (error_response mem GET_QUOTE_RESP, p_ctx, w)
      | Good (rep, ids) \<Rightarrow>
        (case (slice_bytes p_req rep, slice_bytes p_req ids) of
           (Some report, Some id_bytes) \<Rightarrow>
             (case ensure_context_for_quote_request cm env
                 (if fst ids = None then None else Some id_bytes) (snd ids) p_ctx w of
                Fault \<Rightarrow> (Fault, p_ctx, w)
              | Bad _ \<Rightarrow> (Fault, p_ctx, w)
              | Good (ret, uuid, p_ctx1, w1) \<Rightarrow>
                if ret \<noteq> TEE_ATT_SUCCESS then (Good [], p_ctx1, w1)
                else
                  let mldsa = qgs_is_mldsa_uuid uuid;
                      (ret, _, _, w2) = tee_att_init_quote cm sdk p_ctx1 (force_refresh_mldsa_request env \<and> mldsa)
                        (Some 32) True w1;
                      renew = (ret = TEE_ATT_ATT_KEY_NOT_INITIALIZED \<and> mldsa) in
                  if \<not> renew \<and> ret \<noteq> TEE_ATT_SUCCESS \<and> \<not> mldsa then (Good [], p_ctx1, w2)
                  else
                    (case quote_loop cm sdk env p_ctx1 report (snd rep) uuid (if renew then 0 else 1) [] w2 of
                       Fault \<Rightarrow> (Fault, p_ctx1, w2)
                     | Bad _ \<Rightarrow> (Fault, p_ctx1, w2)
                     | Good (t, w3) \<Rightarrow>
                         (if qt_error t = QGS_MSG_SUCCESS
                          then response (qgs_msg_gen_get_quote_resp (Some uuid) (size32 TDX_UUID_SIZE)
                                 (Some (qt_buf t)) (qt_size t) True mem)
                          else error_response mem GET_QUOTE_RESP, p_ctx1, w3)))
         | _ \<Rightarrow> (Fault, p_ctx, w)))"

section \<open>Collateral and platform information\<close>

record qpl_collateral =
  qc_major_version :: u16
  qc_minor_version :: u16
  qc_pck_crl_issuer_chain :: blob
  qc_root_ca_crl :: blob
  qc_pck_crl :: blob
  qc_tcb_info_issuer_chain :: blob
  qc_tcb_info :: blob
  qc_qe_identity_issuer_chain :: blob
  qc_qe_identity :: blob

text \<open>
  The provider library: whether it exports both functions, and the functions. \<open>p_pckca\<close> is the object
  from the pointer to the end of the request.
\<close>

record 'w qpl_functions =
  qpl_found :: bool
  qpl_get_collateral :: "byte list \<Rightarrow> u16 \<Rightarrow> byte list \<Rightarrow> 'w \<Rightarrow> int \<times> qpl_collateral \<times> 'w"
  qpl_free_collateral :: "'w \<Rightarrow> 'w"


definition handle_collateral_request ::
  "'w config_methods \<Rightarrow> 'w qpl_functions \<Rightarrow> bool \<Rightarrow> byte list \<Rightarrow> u32 \<Rightarrow> tee_att_config_t option \<Rightarrow> 'w
     \<Rightarrow> byte list qgs_outcome \<times> 'w" where
  "handle_collateral_request cm qf mem p_req req_size p_ctx w =
     (case qgs_msg_inflate_get_collateral_req (Some p_req) req_size True of
        Fault \<Rightarrow> (Fault, w)
      | Bad _ \<Rightarrow> (error_response mem GET_COLLATERAL_RESP, w)
      | Good (fsmpc, pckca) \<Rightarrow>
        if unat (snd fsmpc) \<ge> 0xFFFF then (error_response mem GET_COLLATERAL_RESP, w)
        else
          (case tee_att_get_qpl_handle cm p_ctx True w of
             (ret, handle, w1) \<Rightarrow>
               if ret \<noteq> TEE_ATT_SUCCESS \<or> \<not> handle \<or> \<not> qpl_found qf
               then (error_response mem GET_COLLATERAL_RESP, w1)
               else
                 (case slice_bytes p_req fsmpc of None \<Rightarrow> (Fault, w1)
                  | Some f \<Rightarrow>
                    (case qpl_get_collateral qf f (ucast (snd fsmpc)) (drop (the (fst pckca)) p_req) w1 of
                       (quote3_ret, c, w2) \<Rightarrow>
                         if quote3_ret \<noteq> SGX_QL_SUCCESS then (error_response mem GET_COLLATERAL_RESP, w2)
                         else (response (qgs_msg_gen_get_collateral_resp (qc_major_version c) (qc_minor_version c)
                                  (qc_pck_crl_issuer_chain c) (qc_root_ca_crl c) (qc_pck_crl c)
                                  (qc_tcb_info_issuer_chain c) (qc_tcb_info c) (qc_qe_identity_issuer_chain c)
                                  (qc_qe_identity c) True (header_of p_req) mem),
                               qpl_free_collateral qf w2)))))"

definition handle_platform_info_request ::
  "'w config_methods \<Rightarrow> bool \<Rightarrow> byte list \<Rightarrow> u32 \<Rightarrow> tee_att_config_t option \<Rightarrow> 'w \<Rightarrow> byte list qgs_outcome \<times> 'w" where
  "handle_platform_info_request cm mem p_req req_size p_ctx w =
     (case qgs_msg_inflate_get_platform_info_req (Some p_req) req_size of
        Fault \<Rightarrow> (Fault, w)
      | Bad _ \<Rightarrow> (error_response mem GET_PLATFORM_INFO_RESP, w)
      | Good _ \<Rightarrow>
        (case tee_att_get_platform_info cm p_ctx True w of
           (ret, info, w1) \<Rightarrow>
             if ret \<noteq> TEE_ATT_SUCCESS then (error_response mem GET_PLATFORM_INFO_RESP, w1)
             else (response (qgs_msg_gen_get_platform_info_resp (pi_tdqe_isv_svn (the info)) (pi_pce_isv_svn (the info))
                     (Some (pi_platform_id (the info))) 16 (Some (pi_cpu_svn (the info))) 16 True mem), w1)))"

section \<open>get_resp\<close>

text \<open>The context of the thread, created at its first request; \<open>False\<close>: an empty response.\<close>

definition bootstrap_context ::
  "'w config_methods \<Rightarrow> (sgx_status_t \<Rightarrow> int) \<Rightarrow> environment \<Rightarrow> u32 \<Rightarrow> tee_att_config_t option \<Rightarrow> 'w
     \<Rightarrow> bool \<times> tee_att_config_t option \<times> 'w" where
  "bootstrap_context cm sdk env req_type p_ctx w =
     (if p_ctx \<noteq> None then (True, p_ctx, w)
      else
        let (ret, ctx, w1) = tee_att_create_context cm env None (get_qgs_tdqe_path env) True w in
        if ret \<noteq> TEE_ATT_SUCCESS then (False, None, w1)
        else
          let (_, _, w2) = tee_att_get_qpl_handle cm ctx True w1 in
          if req_type \<noteq> msg_type GET_PLATFORM_INFO_REQ \<and> req_type \<noteq> msg_type GET_QUOTE_REQ
          then (case tee_att_init_quote cm sdk ctx False (Some 32) True w2 of
                  (ret, _, _, w3) \<Rightarrow> (ret = TEE_ATT_SUCCESS, ctx, w3))
          else (True, ctx, w2))"

definition get_resp ::
  "'w config_methods \<Rightarrow> (sgx_status_t \<Rightarrow> int) \<Rightarrow> 'w qpl_functions \<Rightarrow> environment \<Rightarrow> bool \<Rightarrow> byte list \<Rightarrow> u32
     \<Rightarrow> tee_att_config_t option \<Rightarrow> 'w \<Rightarrow> byte list qgs_outcome \<times> tee_att_config_t option \<times> 'w" where
  "get_resp cm sdk qf env mem p_req req_size p_ctx w =
     (case qgs_msg_get_type p_req req_size of
        Fault \<Rightarrow> (Fault, p_ctx, w)
      | Bad _ \<Rightarrow> (Good [], p_ctx, w)
      | Good req_type \<Rightarrow>
        (case bootstrap_context cm sdk env req_type p_ctx w of
           (ok, p_ctx1, w1) \<Rightarrow>
             if \<not> ok then (Good [], p_ctx1, w1)
             else if req_type = msg_type GET_QUOTE_REQ
             then handle_quote_request cm sdk env mem p_req req_size p_ctx1 w1
             else if req_type = msg_type GET_COLLATERAL_REQ
             then (case handle_collateral_request cm qf mem p_req req_size p_ctx1 w1 of (r, w2) \<Rightarrow> (r, p_ctx1, w2))
             else if req_type = msg_type GET_PLATFORM_INFO_REQ
             then (case handle_platform_info_request cm mem p_req req_size p_ctx1 w1 of (r, w2) \<Rightarrow> (r, p_ctx1, w2))
             else (Good [], p_ctx1, w1)))"

section \<open>get_raw_resp\<close>

text \<open>
  The layout of a TD report (sgx_report2_t) belongs to the SGX SDK: \<open>legit\<close> stands for the checks of
  its type and of its reserved bytes.
\<close>

definition raw_attempt ::
  "'w config_methods \<Rightarrow> (sgx_status_t \<Rightarrow> int) \<Rightarrow> tee_att_config_t option \<Rightarrow> byte list \<Rightarrow> bool \<Rightarrow> byte list \<Rightarrow> 'w
     \<Rightarrow> int \<times> byte list \<times> 'w" where
  "raw_attempt cm sdk p_ctx req refresh resp w =
     (let w1 = (if refresh
                then (case tee_att_init_quote cm sdk p_ctx True (Some 32) True w of (_, _, _, w') \<Rightarrow> w')
                else w);
          (ret, n, w2) = tee_att_get_quote_size cm sdk p_ctx True w1 in
      if ret \<noteq> TEE_ATT_SUCCESS then (ret, resp, w2)
      else
        let buf = vector_resize (unat (the n)) resp;
            (ret, bs, w3) = tee_att_get_quote cm sdk p_ctx (Some req) (len32 req) (the n) w2 in
        (ret, if ret \<noteq> TEE_ATT_SUCCESS then [] else filled buf bs, w3))"

definition get_raw_resp ::
  "'w config_methods \<Rightarrow> (sgx_status_t \<Rightarrow> int) \<Rightarrow> (byte list \<Rightarrow> bool) \<Rightarrow> environment \<Rightarrow> byte list
     \<Rightarrow> tee_att_config_t option \<Rightarrow> 'w \<Rightarrow> byte list \<times> tee_att_config_t option \<times> 'w" where
  "get_raw_resp cm sdk legit env req p_ctx w =
     (let (ok, p_ctx1, w1) =
        (if p_ctx \<noteq> None then (True, p_ctx, w)
         else
           let (ret, ctx, w1) = tee_att_create_context cm env None (get_qgs_tdqe_path env) True w in
           if ret \<noteq> TEE_ATT_SUCCESS then (False, None, w1)
           else
             let (_, _, w2) = tee_att_get_qpl_handle cm ctx True w1;
                 (_, _, _, w3) = tee_att_init_quote cm sdk ctx False (Some 32) True w2 in
             (True, ctx, w3)) in
      if \<not> ok \<or> length req \<noteq> sizeof_sgx_report2_t \<or> \<not> legit req then ([], p_ctx1, w1)
      else
        let (ret, resp, w2) = raw_attempt cm sdk p_ctx1 req False [] w1 in
        if ret = TEE_ATT_ATT_KEY_NOT_INITIALIZED
        then (let (_, resp', w3) = raw_attempt cm sdk p_ctx1 req True resp w2 in (resp', p_ctx1, w3))
        else (resp, p_ctx1, w2))"

end
