(* ===== verification/Qgs_Server.thy ===== *)
theory Qgs_Server
  imports Qgs_Logic
begin

text \<open>
  A connection of the quote generation service (QuoteGeneration/quote_wrapper/qgs/qgs_server.cpp): the
  reads of QgsConnection into its buffer, the choice between a framed request, a raw report and another
  read, and the response written before the socket is closed.

  What arrives is a list of chunks; when no chunk is left the peer has stopped sending, and the
  connection ends by end of file or by the timer.
\<close>

definition QGS_HEADER_SIZE :: nat where "QGS_HEADER_SIZE = 4"

text \<open>The buffer start_read sets up.\<close>

definition READBUF_SIZE :: nat where "READBUF_SIZE = 4096"

definition decode_header :: "byte list \<Rightarrow> u32" where
  "decode_header buf = (if length buf < QGS_HEADER_SIZE then 0 else be32_fold 0 (take QGS_HEADER_SIZE buf))"

definition encode_header :: "u32 \<Rightarrow> byte list" where
  "encode_header n = be32_bytes n"

section \<open>Reading\<close>

text \<open>
  asio::async_read: at least \<open>need\<close> bytes and at most \<open>room\<close>. The result is whether it ended
  without an error, the bytes read, and what is still to arrive.
\<close>

fun async_read :: "nat \<Rightarrow> nat \<Rightarrow> byte list \<Rightarrow> byte list list \<Rightarrow> bool \<times> byte list \<times> byte list list" where
  "async_read 0 room acc chunks = (True, acc, chunks)"
| "async_read need 0 acc chunks = (True, acc, chunks)"
| "async_read need room acc [] = (False, acc, [])"
| "async_read need room acc (c # cs) =
     (if length c \<le> room then async_read (need - length c) (room - length c) (acc @ c) cs
      else (True, acc @ take room c, drop room c # cs))"

text \<open>\<open>Wait n\<close>: async_read with transfer_exactly(\<open>n\<close>).\<close>

datatype read_action = Wait nat | Request "byte list" | Raw_request "byte list"

definition handle_read :: "byte list \<Rightarrow> u64 \<Rightarrow> read_action" where
  "handle_read readbuf bytes_transferred =
     (let msg_len = decode_header readbuf; msg = drop QGS_HEADER_SIZE readbuf in
      if msg_len = 0 \<or> h_size (header_of msg) \<noteq> msg_len
         \<or> \<not> is_good (qgs_msg_get_type msg (ucast bytes_transferred - word_of_nat QGS_HEADER_SIZE))
      then if bytes_transferred = 1024 then Raw_request (take (unat bytes_transferred) readbuf)
           else Wait (unat (1024 - bytes_transferred))
      else
        let total = msg_len + word_of_nat QGS_HEADER_SIZE in
        if ucast total > bytes_transferred then Wait (unat (ucast total - bytes_transferred))
        else Request (take (unat bytes_transferred) readbuf))"

datatype served = Dropped | Served "byte list" | Served_raw "byte list"

lemma async_read_consumes:
  assumes "async_read need room acc chunks = (ok, data, rest)"
  shows "\<exists>new. data = acc @ new \<and> concat chunks = new @ concat rest"
  using assms
  by (induction need room acc chunks rule: async_read.induct) (fastforce split: if_splits)+

lemma async_read_progress:
  assumes "async_read need room acc chunks = (True, data, rest)" "0 < need" "0 < room"
  shows "sum_list (map length rest) < sum_list (map length chunks)"
  using assms
proof (induction need room acc chunks rule: async_read.induct)
  case (4 m k acc c cs)
  show ?case
  proof (cases "length c \<le> Suc k")
    case True
    with 4 have r: "async_read (Suc m - length c) (Suc k - length c) (acc @ c) cs = (True, data, rest)" by simp
    have "sum_list (map length rest) \<le> sum_list (map length cs)"
      using async_read_consumes [OF r] by (metis length_append length_concat le_add2)
    moreover have "sum_list (map length rest) < sum_list (map length cs)" if "c = []"
      using 4(1) [OF True r] that by simp
    ultimately show ?thesis by (cases c) auto
  qed (use 4 in auto)
qed auto

lemma length_async_read:
  assumes "async_read need room acc chunks = (ok, data, rest)" shows "length data \<le> length acc + room"
  using assms
  by (induction need room acc chunks rule: async_read.induct) (force split: if_splits)+

lemma unat_diff_pos: "a \<noteq> b \<Longrightarrow> 0 < unat (a - b)"
  using unat_eq_zero [of "a - b"] by fastforce

lemma handle_read_waits: "handle_read buf n = Wait k \<Longrightarrow> k \<noteq> 0"
  by (auto simp: handle_read_def Let_def intro!: unat_diff_pos split: if_splits)

lemma reads_decrease:
  assumes "(x, y) = async_read need room [] chunks" "x = True" "(data, rest) = y" "handle_read buf n = Wait k"
  shows "((buf, k, min k READBUF_SIZE, rest), readbuf, need, room, chunks)
    \<in> measures [\<lambda>(_, _, _, chunks). sum_list (map length chunks),
        \<lambda>(_, need, room, _). if need = 0 \<or> room = 0 then 1 else 0]"
proof (cases "need = 0 \<or> room = 0")
  case True
  then have "rest = chunks" using assms(1-3) by (cases need; cases room) auto
  with True handle_read_waits [OF assms(4)] show ?thesis by (simp add: READBUF_SIZE_def)
next
  case False
  moreover have "async_read need room [] chunks = (True, data, rest)" using assms(1-3) by simp
  ultimately show ?thesis using async_read_progress [of need room "[]" chunks data rest] by simp
qed

text \<open>
  The reads of a connection. After the first one each read goes to the front of the same buffer, as
  \<open>asio::buffer(m_readbuf)\<close> says.
\<close>

function connection_reads :: "byte list \<Rightarrow> nat \<Rightarrow> nat \<Rightarrow> byte list list \<Rightarrow> served" where
  "connection_reads readbuf need room chunks =
     (case async_read need room [] chunks of
        (False, _, _) \<Rightarrow> Dropped
      | (True, data, rest) \<Rightarrow>
          let readbuf' = filled readbuf data in
          (case handle_read readbuf' (word_of_nat (length data)) of
             Wait n \<Rightarrow> connection_reads readbuf' n (min n READBUF_SIZE) rest
           | Request req \<Rightarrow> Served req
           | Raw_request req \<Rightarrow> Served_raw req))"
  by pat_completeness auto

termination connection_reads
  apply (relation "measures [\<lambda>(_, _, _, chunks). sum_list (map length chunks),
      \<lambda>(_, need, room, _). if need = 0 \<or> room = 0 then 1 else 0]")
   apply (rule wf_measures)
  apply (erule (3) reads_decrease)
  done

declare connection_reads.simps [simp del]

text \<open>start_read: at least the framing and a message header.\<close>

definition connection :: "byte list list \<Rightarrow> served" where
  "connection chunks =
     connection_reads (replicate READBUF_SIZE 0) (QGS_HEADER_SIZE + sizeof_header) READBUF_SIZE chunks"

section \<open>Serving\<close>

text \<open>What is written to the socket before it is closed.\<close>

definition handle_request ::
  "'w config_methods \<Rightarrow> (sgx_status_t \<Rightarrow> int) \<Rightarrow> 'w qpl_functions \<Rightarrow> environment \<Rightarrow> bool \<Rightarrow> byte list
     \<Rightarrow> tee_att_config_t option \<Rightarrow> 'w \<Rightarrow> byte list qgs_outcome \<times> tee_att_config_t option \<times> 'w" where
  "handle_request cm sdk qf env mem readbuf p_ctx w =
     (case get_resp cm sdk qf env mem (drop QGS_HEADER_SIZE readbuf)
             (len32 readbuf - word_of_nat QGS_HEADER_SIZE) p_ctx w of
        (r, p_ctx', w') \<Rightarrow>
          (obind r (\<lambda>resp. Good (if len32 resp = 0 then [] else encode_header (len32 resp) @ resp)), p_ctx', w'))"

definition handle_raw_request ::
  "'w config_methods \<Rightarrow> (sgx_status_t \<Rightarrow> int) \<Rightarrow> (byte list \<Rightarrow> bool) \<Rightarrow> environment \<Rightarrow> byte list
     \<Rightarrow> tee_att_config_t option \<Rightarrow> 'w \<Rightarrow> byte list qgs_outcome \<times> tee_att_config_t option \<times> 'w" where
  "handle_raw_request cm sdk legit env readbuf p_ctx w =
     (case get_raw_resp cm sdk legit env readbuf p_ctx w of
        (resp, p_ctx', w') \<Rightarrow> (Good (if len32 resp = 0 then [] else resp), p_ctx', w'))"

definition serve_connection ::
  "'w config_methods \<Rightarrow> (sgx_status_t \<Rightarrow> int) \<Rightarrow> 'w qpl_functions \<Rightarrow> (byte list \<Rightarrow> bool) \<Rightarrow> environment \<Rightarrow> bool
     \<Rightarrow> byte list list \<Rightarrow> tee_att_config_t option \<Rightarrow> 'w
     \<Rightarrow> byte list qgs_outcome \<times> tee_att_config_t option \<times> 'w" where
  "serve_connection cm sdk qf legit env mem chunks p_ctx w =
     (case connection chunks of
        Dropped \<Rightarrow> (Good [], p_ctx, w)
      | Served req \<Rightarrow> handle_request cm sdk qf env mem req p_ctx w
      | Served_raw req \<Rightarrow> handle_raw_request cm sdk legit env req p_ctx w)"

section \<open>Reads into the same buffer\<close>

lemma filled_length [simp]: "length (filled buf bs) = length buf"
  by (simp add: filled_def min_def)

lemma take_filled: "n \<le> length bs \<Longrightarrow> n \<le> length buf \<Longrightarrow> take n (filled buf bs) = take n bs"
  by (simp add: filled_def)

lemma async_read_at_once:
  "need \<le> length c \<Longrightarrow> length c \<le> room \<Longrightarrow> need \<noteq> 0 \<Longrightarrow> async_read need room acc (c # cs) = (True, acc @ c, cs)"
proof -
  assume n: "need \<le> length c" "length c \<le> room" "need \<noteq> 0"
  then obtain m k where "need = Suc m" "room = Suc k" by (cases need; cases room) auto
  moreover from n have "need - length c = 0" by simp
  ultimately show ?thesis using n(2) by simp
qed

end
