(* ===== verification/Qgs_Serve.thy ===== *)
theory Qgs_Serve
  imports Qgs_Server
begin

text \<open>
  Facts about the quote generation service: the context contract of the TD quote library (locale
  \<open>context_factory\<close>, interpreted on tee_att_create_context), the key selection, the retry loop, and the
  answer to a quote request.
\<close>

section \<open>Contexts\<close>

definition uuid_algorithm :: "tdx_uuid_t \<Rightarrow> nat" where
  "uuid_algorithm u =
     (if u = TDX_SGX_MLDSA_44_ATTESTATION_ID then SGX_QL_ALG_MLDSA_44
      else if u = TDX_SGX_MLDSA_87_ATTESTATION_ID then SGX_QL_ALG_MLDSA_87
      else if u = TDX_SGX_MLDSA_65_ATTESTATION_ID then SGX_QL_ALG_MLDSA_65
      else SGX_QL_ALG_ECDSA_P256)"

definition known_uuid :: "tdx_uuid_t \<Rightarrow> bool" where
  "known_uuid u \<longleftrightarrow> u = TDX_SGX_ECDSA_ATTESTATION_ID \<or> qgs_is_mldsa_uuid u"

definition path_fits :: "environment \<Rightarrow> bool" where
  "path_fits env \<longleftrightarrow> (\<forall>p. get_qgs_tdqe_path env = Some p \<longrightarrow> length (cstr p) < 260)"

lemma tdx_uuids_distinct [simp]:
  "TDX_SGX_MLDSA_44_ATTESTATION_ID \<noteq> TDX_SGX_MLDSA_87_ATTESTATION_ID"
  "TDX_SGX_MLDSA_44_ATTESTATION_ID \<noteq> TDX_SGX_MLDSA_65_ATTESTATION_ID"
  "TDX_SGX_MLDSA_44_ATTESTATION_ID \<noteq> TDX_SGX_ECDSA_ATTESTATION_ID"
  "TDX_SGX_MLDSA_87_ATTESTATION_ID \<noteq> TDX_SGX_MLDSA_44_ATTESTATION_ID"
  "TDX_SGX_MLDSA_87_ATTESTATION_ID \<noteq> TDX_SGX_MLDSA_65_ATTESTATION_ID"
  "TDX_SGX_MLDSA_87_ATTESTATION_ID \<noteq> TDX_SGX_ECDSA_ATTESTATION_ID"
  "TDX_SGX_MLDSA_65_ATTESTATION_ID \<noteq> TDX_SGX_MLDSA_44_ATTESTATION_ID"
  "TDX_SGX_MLDSA_65_ATTESTATION_ID \<noteq> TDX_SGX_MLDSA_87_ATTESTATION_ID"
  "TDX_SGX_MLDSA_65_ATTESTATION_ID \<noteq> TDX_SGX_ECDSA_ATTESTATION_ID"
  "TDX_SGX_ECDSA_ATTESTATION_ID \<noteq> TDX_SGX_MLDSA_44_ATTESTATION_ID"
  "TDX_SGX_ECDSA_ATTESTATION_ID \<noteq> TDX_SGX_MLDSA_87_ATTESTATION_ID"
  "TDX_SGX_ECDSA_ATTESTATION_ID \<noteq> TDX_SGX_MLDSA_65_ATTESTATION_ID"
  by (simp_all add: uuid_defs)

lemma ecdsa_not_mldsa [simp]: "\<not> qgs_is_mldsa_uuid TDX_SGX_ECDSA_ATTESTATION_ID"
  by (simp add: qgs_is_mldsa_uuid_def)

lemma mldsa_uuids [simp]:
  "qgs_is_mldsa_uuid TDX_SGX_MLDSA_44_ATTESTATION_ID" "qgs_is_mldsa_uuid TDX_SGX_MLDSA_65_ATTESTATION_ID"
  "qgs_is_mldsa_uuid TDX_SGX_MLDSA_87_ATTESTATION_ID"
  by (simp_all add: qgs_is_mldsa_uuid_def)

lemma length_known_uuid: "known_uuid u \<Longrightarrow> length u = 16"
  by (auto simp: known_uuid_def qgs_is_mldsa_uuid_def uuid_defs)

lemma alg_numbers:
  "SGX_QL_ALG_ECDSA_P256 = 2" "SGX_QL_ALG_MLDSA_44 = 4" "SGX_QL_ALG_MLDSA_65 = 5" "SGX_QL_ALG_MLDSA_87 = 6"
  by (simp_all add: SGX_QL_ALG_ECDSA_P256_def SGX_QL_ALG_MLDSA_44_def SGX_QL_ALG_MLDSA_65_def SGX_QL_ALG_MLDSA_87_def)

lemma tdqe_key_simps [simp]:
  "aki_algorithm_id (tdqe_att_key_id a) = a" "aki_id (tdqe_att_key_id a) = 0" "aki_version (tdqe_att_key_id a) = 0"
  "aki_mrsigner_length (tdqe_att_key_id a) = 32" "take 32 (aki_mrsigner (tdqe_att_key_id a)) = g_tdqe_mrsigner"
  "aki_prod_id (tdqe_att_key_id a) = 2"
  by (simp_all add: tdqe_att_key_id_def g_tdqe_mrsigner_def)

text \<open>
  What the service relies on: a context is created for the key that was asked for (ECDSA by default), and
  tells its key.
\<close>

locale context_factory =
  fixes create :: "sgx_ql_att_key_id_t option \<Rightarrow> string option \<Rightarrow> 'w \<Rightarrow> int \<times> 'c option \<times> 'w"
    and keyid :: "'c option \<Rightarrow> int \<times> sgx_ql_att_key_id_t option"
  assumes create_key: "create k path w = (TEE_ATT_SUCCESS, c, w') \<Longrightarrow>
      \<exists>ctx key. c = Some ctx \<and> keyid c = (TEE_ATT_SUCCESS, Some key)
        \<and> aki_algorithm_id key = (case k of None \<Rightarrow> SGX_QL_ALG_ECDSA_P256 | Some k' \<Rightarrow> aki_algorithm_id k')"
    and create_error: "create k path w = (e, c, w') \<Longrightarrow> e \<noteq> TEE_ATT_SUCCESS \<Longrightarrow> c = None"
begin

definition switch :: "sgx_ql_att_key_id_t \<Rightarrow> string option \<Rightarrow> 'c \<Rightarrow> ('w \<Rightarrow> 'w) \<Rightarrow> 'w \<Rightarrow> int \<times> 'c option \<times> 'w" where
  "switch k path ctx free w =
     (if aki_algorithm_id (the (snd (keyid (Some ctx)))) = aki_algorithm_id k then (TEE_ATT_SUCCESS, Some ctx, w)
      else create (Some k) path (free w))"

text \<open>Creating on demand leaves a context of the key asked for, or none.\<close>

lemma switch_key:
  assumes "switch k path ctx free w = (e, c, w')"
  shows "e = TEE_ATT_SUCCESS \<Longrightarrow> \<exists>ctx'. c = Some ctx' \<and> aki_algorithm_id (the (snd (keyid c))) = aki_algorithm_id k"
    "e \<noteq> TEE_ATT_SUCCESS \<Longrightarrow> c = None"
  using assms create_key [of "Some k" path "free w" c w'] create_error [of "Some k" path "free w" e c w']
  by (auto simp: switch_def split: if_splits)

end

lemma supported_default_key:
  "is_supported_tdx_att_key_algorithm a \<Longrightarrow> aki_algorithm_id (get_default_att_key_id_for_algorithm a) = a"
  by (auto simp: is_supported_tdx_att_key_algorithm_def get_default_att_key_id_for_algorithm_def default_key_ids)

lemma created_context:
  assumes "tee_att_create_context cm env k path True w = (TEE_ATT_SUCCESS, c, w')"
  shows "\<exists>ctx. c = Some ctx \<and> is_supported_tdx_att_key_algorithm (m_att_key_algorithm_id ctx)
    \<and> m_att_key_algorithm_id ctx = (case k of None \<Rightarrow> SGX_QL_ALG_ECDSA_P256 | Some k' \<Rightarrow> aki_algorithm_id k')"
proof -
  have "is_supported_tdx_att_key_algorithm SGX_QL_ALG_ECDSA_P256"
    by (simp add: is_supported_tdx_att_key_algorithm_def)
  with assms show ?thesis
    by (cases k; cases path) (auto simp: tee_att_create_context_def Let_def tee_att_codes split: if_splits)
qed

interpretation td_ql: context_factory "\<lambda>k path. tee_att_create_context cm env k path True"
    "\<lambda>c. tee_att_get_keyid c True"
  for cm :: "'w config_methods" and env
proof unfold_locales
  fix k path w c w' e
  show "\<exists>ctx key. c = Some ctx \<and> tee_att_get_keyid c True = (TEE_ATT_SUCCESS, Some key)
        \<and> aki_algorithm_id key = (case k of None \<Rightarrow> SGX_QL_ALG_ECDSA_P256 | Some k' \<Rightarrow> aki_algorithm_id k')"
    if "tee_att_create_context cm env k path True w = (TEE_ATT_SUCCESS, c, w')"
    using created_context [OF that] supported_default_key by (fastforce simp: tee_att_get_keyid_def)
  show "c = None" if "tee_att_create_context cm env k path True w = (e, c, w')" "e \<noteq> TEE_ATT_SUCCESS"
    using that by (auto simp: tee_att_create_context_def Let_def split: if_splits option.splits)
qed

text \<open>The id enclave's path fits its array, whatever path the enclave has.\<close>

lemma create_context_total:
  assumes "path_fits env" "is_supported_tdx_att_key_algorithm a"
  shows "\<exists>ctx w'. tee_att_create_context cm env (Some (tdqe_att_key_id a)) (get_qgs_tdqe_path env) True w
      = (TEE_ATT_SUCCESS, Some ctx, w')"
    "\<exists>ctx w'. tee_att_create_context cm env None (get_qgs_tdqe_path env) True w = (TEE_ATT_SUCCESS, Some ctx, w')"
  using assms by (auto simp: tee_att_create_context_def Let_def path_fits_def split: option.splits)

section \<open>Key selection\<close>

lemma uuid_algorithm_simps [simp]:
  "uuid_algorithm TDX_SGX_ECDSA_ATTESTATION_ID = SGX_QL_ALG_ECDSA_P256"
  "uuid_algorithm TDX_SGX_MLDSA_44_ATTESTATION_ID = SGX_QL_ALG_MLDSA_44"
  "uuid_algorithm TDX_SGX_MLDSA_65_ATTESTATION_ID = SGX_QL_ALG_MLDSA_65"
  "uuid_algorithm TDX_SGX_MLDSA_87_ATTESTATION_ID = SGX_QL_ALG_MLDSA_87"
  by (simp_all add: uuid_algorithm_def)

lemma uuid_algorithm_supported: "is_supported_tdx_att_key_algorithm (uuid_algorithm u)"
  by (simp add: uuid_algorithm_def is_supported_tdx_att_key_algorithm_def)

lemma scan_uuids_head:
  assumes "known_uuid u"
  shows "scan_uuids (u @ rest) (Suc n) = Good (Some (tdqe_att_key_id (uuid_algorithm u), u))"
  using assms length_known_uuid [OF assms]
  by (auto simp: known_uuid_def qgs_is_mldsa_uuid_def bread_def TDX_UUID_SIZE_def qgs_key_ids)

lemma select_head:
  assumes "known_uuid u" "length rest mod 16 = 0" "16 + length rest < 4294967296"
  shows "select_tdx_att_key_id_from_uuid_list (Some (u @ rest)) (len32 (u @ rest))
    = Good (Some (tdqe_att_key_id (uuid_algorithm u), u))"
proof -
  have n: "length (u @ rest) = 16 + length rest" using length_known_uuid [OF assms(1)] by simp
  have "(16 + length rest) mod 16 = 0" using assms(2) by simp
  moreover have "(16 + length rest) div 16 = Suc (length rest div 16)" by simp
  ultimately show ?thesis
    using assms(3) n scan_uuids_head [OF assms(1)]
    by (simp add: select_tdx_att_key_id_from_uuid_list_def TDX_UUID_SIZE_def del: length_append)
qed

lemma get_keyid_supported:
  assumes "is_supported_tdx_att_key_algorithm (m_att_key_algorithm_id ctx)"
  obtains key where "tee_att_get_keyid (Some ctx) True = (TEE_ATT_SUCCESS, Some key)"
    "aki_algorithm_id key = m_att_key_algorithm_id ctx"
  using supported_default_key [OF assms] by (simp add: tee_att_get_keyid_def)

text \<open>The service switches contexts as the contract says.\<close>

lemma ensure_is_switch:
  assumes "select_tdx_att_key_id_from_uuid_list ids n = Good (Some (k, u))"
    and "is_supported_tdx_att_key_algorithm (m_att_key_algorithm_id ctx)"
  shows "ensure_context_for_quote_request cm env ids n (Some ctx) w
    = (case td_ql.switch cm env k (get_qgs_tdqe_path env) ctx (cm_delete cm ctx) w of
         (e, c, w') \<Rightarrow> Good (e, if e = TEE_ATT_SUCCESS then u else TDX_SGX_ECDSA_ATTESTATION_ID,
                          if e = TEE_ATT_SUCCESS then c else None, w'))"
  using get_keyid_supported [OF assms(2)] assms(1) td_ql.create_error [of cm env "Some k" "get_qgs_tdqe_path env"]
  by (force simp: ensure_context_for_quote_request_def td_ql.switch_def tee_att_free_context_def
      split: prod.splits if_splits)

text \<open>A context whose key is that of the selected id, the same one or a new one.\<close>

lemma ensure_context_selects:
  assumes "select_tdx_att_key_id_from_uuid_list ids n = Good (Some (tdqe_att_key_id (uuid_algorithm u), u))"
    and "path_fits env" "is_supported_tdx_att_key_algorithm (m_att_key_algorithm_id ctx)"
  shows "\<exists>ctx' w'. ensure_context_for_quote_request cm env ids n (Some ctx) w
      = Good (TEE_ATT_SUCCESS, u, Some ctx', w') \<and> m_att_key_algorithm_id ctx' = uuid_algorithm u"
proof -
  let ?k = "tdqe_att_key_id (uuid_algorithm u)" and ?path = "get_qgs_tdqe_path env"
  obtain ctx1 w1 where c: "tee_att_create_context cm env (Some ?k) ?path True (cm_delete cm ctx w)
      = (TEE_ATT_SUCCESS, Some ctx1, w1)"
    using create_context_total(1) [OF assms(2) uuid_algorithm_supported,
        where cm = cm and w = "cm_delete cm ctx w"] by blast
  from created_context [OF c] have "m_att_key_algorithm_id ctx1 = uuid_algorithm u" by simp
  with c ensure_is_switch [OF assms(1,3), of cm env w] get_keyid_supported [OF assms(3)] show ?thesis
    by (force simp: td_ql.switch_def)
qed

section \<open>The retry loop\<close>

text \<open>A library that quotes \<open>rep\<close> as \<open>q\<close> in every context of the algorithm.\<close>

definition quotes_with :: "'w config_methods \<Rightarrow> nat \<Rightarrow> byte list \<Rightarrow> byte list \<Rightarrow> bool" where
  "quotes_with cm alg rep q \<longleftrightarrow> (\<forall>ctx. m_att_key_algorithm_id ctx = alg \<longrightarrow> (\<forall>refresh w.
     fst (cm_init_quote cm ctx PPID_RSA3072_ENCRYPTED refresh w) = 0
     \<and> (\<exists>w'. cm_get_quote_size cm ctx PPID_RSA3072_ENCRYPTED w = (0, len32 q, w'))
     \<and> (\<exists>w'. cm_get_quote cm ctx rep (len32 q) w = (0, q, w'))))"

text \<open>The policy of TDX_MLDSA_REQUIRE_FULL_DCAP admits the quote.\<close>

definition dcap_policy_ok :: "environment \<Rightarrow> tdx_uuid_t \<Rightarrow> byte list \<Rightarrow> bool" where
  "dcap_policy_ok env u q \<longleftrightarrow> (require_full_dcap_mldsa_quote env \<and> qgs_is_mldsa_uuid u \<longrightarrow>
     get_mldsa_quote_inner_cert_key_type q (len32 q) (get_mldsa_algorithm_id_for_uuid u) = Good (Some PCK_CERT_CHAIN))"

lemma translate_success [simp]:
  "translate_init sdk 0 = 0" "translate_quote sdk 0 = 0" "translate_size sdk 0 = 0"
  by (simp_all add: translate_init_def translate_quote_def translate_size_def outside_tee_att_def TEE_ATT_SUCCESS_def)

lemma vector_resize_length [simp]: "length (vector_resize n v) = n"
  by (simp add: vector_resize_def)

lemma filled_all: "length bs = length buf \<Longrightarrow> filled buf bs = bs"
  by (simp add: filled_def)

lemma quote_attempt_ok:
  assumes "quotes_with cm alg rep q" "m_att_key_algorithm_id ctx = alg" "length rep = 1024"
    and "length q < 4294967296" "dcap_policy_ok env u q"
  shows "\<exists>w'. quote_attempt cm sdk env (Some ctx) rep (len32 rep) u refresh buf w
    = Good (\<lparr>qt_ret = TEE_ATT_SUCCESS, qt_error = QGS_MSG_SUCCESS, qt_size = len32 q, qt_buf = q\<rparr>, w')"
proof -
  define w1 where "w1 = (if refresh
    then (case tee_att_init_quote cm sdk (Some ctx) True (Some 32) True w of (_, _, _, w') \<Rightarrow> w') else w)"
  obtain w2 where s: "cm_get_quote_size cm ctx PPID_RSA3072_ENCRYPTED w1 = (0, len32 q, w2)"
    using assms(1,2) unfolding quotes_with_def by blast
  obtain w3 where g: "cm_get_quote cm ctx rep (len32 q) w2 = (0, q, w3)"
    using assms(1,2) unfolding quotes_with_def by blast
  have buf: "filled (vector_resize (length q) b) q = q" for b by (rule filled_all) simp
  show ?thesis
    unfolding quote_attempt_def w1_def [symmetric]
    using s g assms(3-5)
    by (simp add: Let_def tee_att_get_quote_size_def tee_att_get_quote_def TEE_ATT_SUCCESS_def buf
        dcap_policy_ok_def)
qed

lemma quote_loop_ok:
  assumes "quotes_with cm alg rep q" "m_att_key_algorithm_id ctx = alg" "length rep = 1024"
    and "length q < 4294967296" "dcap_policy_ok env u q"
  shows "\<exists>w'. quote_loop cm sdk env (Some ctx) rep (len32 rep) u retry buf w
    = Good (\<lparr>qt_ret = TEE_ATT_SUCCESS, qt_error = QGS_MSG_SUCCESS, qt_size = len32 q, qt_buf = q\<rparr>, w')"
proof (cases retry)
  case 0
  with quote_attempt_ok [OF assms, of sdk True buf w] show ?thesis by simp
next
  case (Suc n)
  from quote_attempt_ok [OF assms, of sdk False buf w] Suc show ?thesis by (auto simp: tee_att_codes)
qed

section \<open>Quote requests\<close>

lemma quote_req_of_only: "quote_req_of (quote_req_bytes r) = r"
  using quote_req_of_bytes [of r "[]"] by simp

lemma inflate_ser_quote_req:
  assumes "rep \<noteq> []" "24 + length rep + length ids < 4294967295"
  shows "qgs_msg_inflate_get_quote_req (Some (ser_quote_req (rep, ids))) (len32 (ser_quote_req (rep, ids))) True
      = Good ((Some 24, len32 rep), (if ids = [] then None else Some (24 + length rep), len32 ids))"
    "slice_bytes (ser_quote_req (rep, ids)) (Some 24, len32 rep) = Some rep"
    "slice_bytes (ser_quote_req (rep, ids)) (if ids = [] then None else Some (24 + length rep), len32 ids) = Some ids"
  using assms
  by (simp add: inflate_get_quote_req_Good_iff Let_def, simp add: ser_quote_req_def quote_req_of_only)
    (use assms in \<open>simp_all add: slice_bytes_def bread_def ser_quote_req_def quote_req_bytes_def\<close>)

text \<open>The context that serves the request, and the id it serves it under.\<close>

lemma handle_quote_request_ok:
  assumes "rep \<noteq> []" "24 + length rep + length ids < 4294967295" "length rep = 1024"
    and "ensure_context_for_quote_request cm env (if ids = [] then None else Some ids) (len32 ids) p_ctx w
      = Good (TEE_ATT_SUCCESS, u, Some ctx, w')"
    and "quotes_with cm (m_att_key_algorithm_id ctx) rep q" "dcap_policy_ok env u q"
    and "q \<noteq> []" "40 + length q < 4294967295" "length u = 16"
  shows "\<exists>w''. handle_quote_request cm sdk env True (ser_quote_req (rep, ids)) (len32 (ser_quote_req (rep, ids))) p_ctx w
    = (Good (ser_quote_resp (u, q)), Some ctx, w'')"
proof -
  define refresh where "refresh = (force_refresh_mldsa_request env \<and> qgs_is_mldsa_uuid u)"
  obtain k w2 where i: "cm_init_quote cm ctx PPID_RSA3072_ENCRYPTED refresh w' = (0, k, w2)"
    using assms(5) unfolding quotes_with_def by (metis prod.collapse)
  obtain w3 where l: "quote_loop cm sdk env (Some ctx) rep (len32 rep) u 1 [] w2
      = Good (\<lparr>qt_ret = TEE_ATT_SUCCESS, qt_error = QGS_MSG_SUCCESS, qt_size = len32 q, qt_buf = q\<rparr>, w3)"
    using quote_loop_ok [OF assms(5) refl assms(3) _ assms(6), of sdk 1 "[]" w2] assms(8) by auto
  have g: "qgs_msg_gen_get_quote_resp (Some u) (size32 TDX_UUID_SIZE) (Some q) (len32 q) True True
      = Good (ser_quote_resp (u, q))"
    using gen_get_quote_resp_ok [of q u] assms(7-9) by (cases u) (simp_all add: ptr_def TDX_UUID_SIZE_def)
  have "TEE_ATT_ATT_KEY_NOT_INITIALIZED \<noteq> 0" by (simp add: tee_att_codes)
  with inflate_ser_quote_req [OF assms(1,2)] show ?thesis
    using assms(4) i l g
    by (auto simp del: quote_loop.simps simp: handle_quote_request_def Let_def tee_att_init_quote_def refresh_def [symmetric]
        TEE_ATT_SUCCESS_def response_def)
qed

lemma quote_req_type:
  "24 + length rep + length ids < 4294967295 \<Longrightarrow>
   qgs_msg_get_type (ser_quote_req (rep, ids)) (len32 (ser_quote_req (rep, ids))) = Good (msg_type GET_QUOTE_REQ)"
  by (simp add: qgs_msg_get_type_def Let_def) (simp add: ser_quote_req_def quote_req_bytes_def QGS_MSG_TYPE_MAX_def)

definition thread_ok :: "tee_att_config_t option \<Rightarrow> bool" where
  "thread_ok p_ctx \<longleftrightarrow> (\<forall>ctx. p_ctx = Some ctx \<longrightarrow> is_supported_tdx_att_key_algorithm (m_att_key_algorithm_id ctx))"

lemma bootstrap_quote:
  assumes "path_fits env" "thread_ok p_ctx"
  shows "\<exists>ctx w'. bootstrap_context cm sdk env (msg_type GET_QUOTE_REQ) p_ctx w = (True, Some ctx, w')
    \<and> is_supported_tdx_att_key_algorithm (m_att_key_algorithm_id ctx) \<and> (\<forall>c. p_ctx = Some c \<longrightarrow> ctx = c)"
proof (cases p_ctx)
  case None
  obtain ctx w1 where c: "tee_att_create_context cm env None (get_qgs_tdqe_path env) True w
      = (TEE_ATT_SUCCESS, Some ctx, w1)"
    using create_context_total(2) [OF assms(1), where cm = cm and w = w, of SGX_QL_ALG_ECDSA_P256]
    by (auto simp: is_supported_tdx_att_key_algorithm_def)
  from created_context [OF c] c None show ?thesis
    by (auto simp: bootstrap_context_def split: prod.splits)
qed (use assms(2) in \<open>simp add: bootstrap_context_def thread_ok_def\<close>)

text \<open>A request that names keys is served with the first one, whatever the thread did before.\<close>

lemma get_resp_selected:
  assumes "known_uuid u" "length rest mod 16 = 0" "length rep = 1024" "1080 + length rest < 4294967295"
    and "path_fits env" "thread_ok p_ctx"
    and "quotes_with cm (uuid_algorithm u) rep q" "dcap_policy_ok env u q" "q \<noteq> []" "40 + length q < 4294967295"
  shows "\<exists>ctx' w'. get_resp cm sdk qf env True (ser_quote_req (rep, u @ rest)) (len32 (ser_quote_req (rep, u @ rest))) p_ctx w
    = (Good (ser_quote_resp (u, q)), Some ctx', w') \<and> m_att_key_algorithm_id ctx' = uuid_algorithm u"
proof -
  have u: "length u = 16" by (rule length_known_uuid [OF assms(1)])
  then have size: "24 + length rep + length (u @ rest) < 4294967295" "u @ rest \<noteq> []" "rep \<noteq> []" using assms(3,4) by auto
  obtain ctx w1 where b: "bootstrap_context cm sdk env (msg_type GET_QUOTE_REQ) p_ctx w = (True, Some ctx, w1)"
    "is_supported_tdx_att_key_algorithm (m_att_key_algorithm_id ctx)"
    using bootstrap_quote [OF assms(5,6), of cm sdk w] by blast
  obtain ctx' w2 where e: "ensure_context_for_quote_request cm env (Some (u @ rest)) (len32 (u @ rest)) (Some ctx) w1
      = Good (TEE_ATT_SUCCESS, u, Some ctx', w2)" "m_att_key_algorithm_id ctx' = uuid_algorithm u"
    using ensure_context_selects [OF select_head [OF assms(1,2)] assms(5) b(2), of cm w1] assms(4) by auto
  have "\<exists>w3. handle_quote_request cm sdk env True (ser_quote_req (rep, u @ rest))
      (len32 (ser_quote_req (rep, u @ rest))) (Some ctx) w1 = (Good (ser_quote_resp (u, q)), Some ctx', w3)"
    by (rule handle_quote_request_ok [OF size(3,1) assms(3) _ _ assms(8-10) u])
      (simp only: if_not_P [OF size(2)] e(1), simp only: e(2) assms(7))
  then show ?thesis
    using quote_req_type [OF size(1)] b(1) e(2) by (auto simp: get_resp_def simp del: length_append)
qed

text \<open>A request without keys is served with the key the thread has, as an ECDSA quote.\<close>

lemma get_resp_default:
  assumes "length rep = 1024" "quotes_with cm (m_att_key_algorithm_id ctx) rep q" "q \<noteq> []" "40 + length q < 4294967295"
  shows "\<exists>w'. get_resp cm sdk qf env True (ser_quote_req (rep, [])) (len32 (ser_quote_req (rep, []))) (Some ctx) w
    = (Good (ser_quote_resp (TDX_SGX_ECDSA_ATTESTATION_ID, q)), Some ctx, w')"
proof -
  have size: "24 + length rep + length [] < 4294967295" "rep \<noteq> []" using assms(1) by auto
  have e: "ensure_context_for_quote_request cm env None 0 (Some ctx) w
      = Good (TEE_ATT_SUCCESS, TDX_SGX_ECDSA_ATTESTATION_ID, Some ctx, w)"
    by (simp add: ensure_context_for_quote_request_def select_tdx_att_key_id_from_uuid_list_def)
  have u: "length TDX_SGX_ECDSA_ATTESTATION_ID = 16" by (simp add: uuid_defs)
  have "\<exists>w3. handle_quote_request cm sdk env True (ser_quote_req (rep, []))
      (len32 (ser_quote_req (rep, []))) (Some ctx) w = (Good (ser_quote_resp (TDX_SGX_ECDSA_ATTESTATION_ID, q)), Some ctx, w3)"
    by (rule handle_quote_request_ok [OF size(2,1) assms(1) _ assms(2) _ assms(3,4) u])
      (simp_all add: e dcap_policy_ok_def)
  then show ?thesis
    using quote_req_type [OF size(1)] by (simp add: get_resp_def bootstrap_context_def)
qed

section \<open>Reads\<close>

text \<open>A message whose header is in order.\<close>

definition good_message :: "byte list \<Rightarrow> bool" where
  "good_message msg \<longleftrightarrow> 16 \<le> length msg \<and> length msg < 4294967292 \<and> h_size (header_of msg) = len32 msg
     \<and> h_major_version (header_of msg) = QGS_MSG_LIB_MAJOR_VER \<and> h_type (header_of msg) < QGS_MSG_TYPE_MAX"

lemma header_of_prefix: "16 \<le> n \<Longrightarrow> header_of (take n buf) = header_of buf"
  by (simp add: header_of_def get16_def get32_def drop_take min_def)

lemma header_of_append: "16 \<le> length msg \<Longrightarrow> header_of (msg @ rest) = header_of msg"
  using header_of_prefix [of "length msg" "msg @ rest"] by simp

lemma good_quote_req:
  assumes "24 + length rep + length ids < 4294967292"
  shows "good_message (ser_quote_req (rep, ids))"
  using assms
  by (simp add: good_message_def) (simp add: ser_quote_req_def quote_req_bytes_def QGS_MSG_TYPE_MAX_def)

lemma unat_u64 [simp]: "n < 18446744073709551616 \<Longrightarrow> unat (word_of_nat n :: u64) = n"
  by (simp add: unat_of_nat)

lemma received_size:
  assumes "20 \<le> n" "n \<le> 4096"
  shows "unat (ucast (word_of_nat n :: u64) - word_of_nat QGS_HEADER_SIZE :: u32) = n - 4"
proof -
  have "unat (ucast (word_of_nat n :: u64) :: u32) = n" using assms by (simp add: unat_ucast_64_32)
  moreover have "unat (word_of_nat QGS_HEADER_SIZE :: u32) = 4" by (simp add: QGS_HEADER_SIZE_def)
  moreover from calculation have "(word_of_nat QGS_HEADER_SIZE :: u32) \<le> ucast (word_of_nat n :: u64)"
    using assms by (simp add: word_le_nat_alt)
  ultimately show ?thesis by (simp add: unat_sub)
qed

text \<open>What a read decides once the buffer starts with the framing and the header of a message.\<close>

lemma handle_read_frame:
  assumes "good_message msg" "take 20 buf = take 20 (frame msg)" "20 \<le> n" "n \<le> 4096" "n \<le> length buf"
  shows "handle_read buf (word_of_nat n)
    = (if n < 4 + length msg then Wait (4 + length msg - n) else Request (take n buf))"
proof -
  have len: "16 \<le> length msg" "length msg < 4294967292" using assms(1) by (simp_all add: good_message_def)
  have "take 4 buf = take 4 (frame msg)" using arg_cong [OF assms(2), of "take 4"] by simp
  then have hdr: "decode_header buf = len32 msg"
    using assms(3,5) by (simp add: decode_header_def QGS_HEADER_SIZE_def frame_def be32_fold_bytes)
  have "take 16 (drop 4 buf) = take 16 (drop 4 (frame msg))"
    using arg_cong [OF assms(2), of "drop 4"] by (simp add: drop_take)
  then have h: "header_of (drop 4 buf) = header_of msg"
    using header_of_prefix [of 16 "drop 4 buf"] header_of_prefix [of 16 msg] by (simp add: frame_def)
  have ty: "is_good (qgs_msg_get_type (drop 4 buf) (ucast (word_of_nat n :: u64) - word_of_nat QGS_HEADER_SIZE))"
    using assms(1,3,5) received_size [OF assms(3,4)] h
    by (auto simp: qgs_msg_get_type_def Let_def good_message_def)
  have tot: "unat (len32 msg + word_of_nat QGS_HEADER_SIZE) = 4 + length msg"
    using len(2) by (simp add: unat_word_ariths QGS_HEADER_SIZE_def)
  have n: "unat (word_of_nat n :: u64) = n" using assms(4) by simp
  have nz: "len32 msg \<noteq> 0" using len by auto
  have less: "word_of_nat n < (ucast (len32 msg + word_of_nat QGS_HEADER_SIZE) :: u64) \<longleftrightarrow> n < 4 + length msg"
    using tot n by (simp add: word_less_nat_alt)
  have diff: "unat (ucast (len32 msg + word_of_nat QGS_HEADER_SIZE) - word_of_nat n :: u64) = 4 + length msg - n"
    if "n < 4 + length msg"
    using tot n that by (subst unat_sub) (simp_all add: word_le_nat_alt)
  show ?thesis
    using assms(1) hdr h ty nz less diff n
    by (simp add: handle_read_def Let_def good_message_def QGS_HEADER_SIZE_def)
qed

text \<open>A message that arrives in one piece is handed over.\<close>

lemma connection_at_once:
  assumes "good_message msg" "4 + length msg \<le> READBUF_SIZE"
  shows "connection (frame msg # cs) = Served (frame msg)"
proof -
  have len: "length (frame msg) = 4 + length msg" by (simp add: frame_def)
  have small: "4 + length msg \<le> 4096" "16 \<le> length msg" using assms by (simp_all add: READBUF_SIZE_def good_message_def)
  define buf where "buf = filled (replicate READBUF_SIZE 0) (frame msg)"
  have buf: "take (length (frame msg)) buf = frame msg" "length buf = 4096"
    using take_filled [of "length (frame msg)" "frame msg" "replicate READBUF_SIZE 0"] small len
    by (simp_all add: buf_def READBUF_SIZE_def)
  have t20: "take 20 buf = take 20 (frame msg)"
    using arg_cong [OF buf(1), of "take 20"] small len by simp
  have "handle_read buf (word_of_nat (length (frame msg))) = Request (frame msg)"
    using handle_read_frame [OF assms(1) t20, of "length (frame msg)"] small len buf by simp
  moreover have "async_read (QGS_HEADER_SIZE + sizeof_header) READBUF_SIZE [] (frame msg # cs) = (True, [] @ frame msg, cs)"
    by (rule async_read_at_once) (use small len in \<open>simp_all add: QGS_HEADER_SIZE_def READBUF_SIZE_def\<close>)
  ultimately show ?thesis
    by (simp add: connection_def connection_reads.simps buf_def Let_def)
qed

text \<open>
  A message in two reads: the second one goes to the front of the buffer, so what is decided is decided
  on the second piece.
\<close>

lemma handle_read_piece:
  assumes "handle_read (filled buf y) (word_of_nat (length y)) = a" "length y \<le> length buf" "length buf = 4096"
  shows "a = Request y \<or> a = Raw_request y \<or> (\<exists>k. a = Wait k \<and> k \<noteq> 0)"
proof -
  have t: "take (unat (word_of_nat (length y) :: u64)) (filled buf y) = y"
    using assms(2,3) by (simp add: filled_def)
  show ?thesis
  proof (cases a)
    case (Wait k)
    with handle_read_waits [of "filled buf y"] assms(1) show ?thesis by blast
  qed (use assms(1) t in \<open>auto simp: handle_read_def Let_def split: if_splits\<close>)
qed

lemma async_read_none: "need \<noteq> 0 \<Longrightarrow> room \<noteq> 0 \<Longrightarrow> async_read need room acc [] = (False, acc, [])"
  by (cases need; cases room) auto

lemma second_read:
  assumes "length buf = 4096" "y \<noteq> []" "length y \<le> 4096" "n = length y"
  shows "connection_reads buf n (min n READBUF_SIZE) [y] \<in> {Dropped, Served y, Served_raw y}"
proof -
  have r: "async_read n (min n READBUF_SIZE) [] [y] = (True, [] @ y, [])"
    by (rule async_read_at_once) (use assms in \<open>simp_all add: READBUF_SIZE_def\<close>)
  have "connection_reads b k (min k READBUF_SIZE) [] = Dropped" if "k \<noteq> 0" for b k
    using that by (subst connection_reads.simps) (simp add: async_read_none READBUF_SIZE_def)
  with r handle_read_piece [OF refl, of y buf] assms show ?thesis
    by (subst connection_reads.simps) (auto simp: Let_def)
qed

lemma split_message:
  assumes "good_message msg" "frame msg = x @ y" "20 \<le> length x" "length x \<le> 4096" "y \<noteq> []" "length y \<le> 4096"
  shows "connection [x, y] \<in> {Dropped, Served y, Served_raw y}"
proof -
  define buf where "buf = filled (replicate READBUF_SIZE 0) x"
  have len: "length x + length y = 4 + length msg" "length buf = 4096"
    using arg_cong [OF assms(2), of length] by (simp_all add: frame_def buf_def READBUF_SIZE_def)
  have x: "take (length x) buf = x" using assms(4) by (simp add: buf_def filled_def READBUF_SIZE_def)
  have "take 20 buf = take 20 (take (length x) buf)" using assms(3) by (simp add: min_def)
  then have t20: "take 20 buf = take 20 (frame msg)" unfolding x using assms(2,3) by simp
  have "length x < 4 + length msg" using len(1) assms(5) by (cases y) auto
  then have "handle_read buf (word_of_nat (length x)) = Wait (length y)"
    using handle_read_frame [OF assms(1) t20 assms(3,4)] len assms(4) by simp
  moreover have "async_read (QGS_HEADER_SIZE + sizeof_header) READBUF_SIZE [] [x, y] = (True, [] @ x, [y])"
    by (rule async_read_at_once) (use assms(3,4) in \<open>simp_all add: QGS_HEADER_SIZE_def READBUF_SIZE_def\<close>)
  ultimately have "connection [x, y] = connection_reads buf (length y) (min (length y) READBUF_SIZE) [y]"
    unfolding connection_def by (subst connection_reads.simps) (simp add: buf_def Let_def)
  with second_read [OF len(2) assms(5,6) refl] show ?thesis by simp
qed

text \<open>A chunk that is larger than the buffer is split by the read itself.\<close>

lemma large_chunk:
  assumes "4096 < length c"
  shows "connection [c] = connection [take 4096 c, drop 4096 c]"
proof -
  have "async_read (QGS_HEADER_SIZE + sizeof_header) READBUF_SIZE [] [c] = (True, take 4096 c, [drop 4096 c])"
    using assms by (simp add: QGS_HEADER_SIZE_def READBUF_SIZE_def numeral_eq_Suc)
  moreover have "async_read (QGS_HEADER_SIZE + sizeof_header) READBUF_SIZE [] [take 4096 c, drop 4096 c]
      = (True, [] @ take 4096 c, [drop 4096 c])"
    by (rule async_read_at_once) (use assms in \<open>simp_all add: QGS_HEADER_SIZE_def READBUF_SIZE_def\<close>)
  ultimately show ?thesis unfolding connection_def by (simp add: connection_reads.simps)
qed

end
