(* ===== verification/Qgs_Service.thy ===== *)
theory Qgs_Service
  imports Qgs_Serve Tdx_Correct
begin

text \<open>
  Properties of the quote generation service and of the quote library's API: the request of a trust
  domain served end to end, key selection, the ML-DSA certification policy, failures, requests in
  pieces, error translation, and paths.
\<close>

section \<open>End to end\<close>


text \<open>A framed quote request in one piece.\<close>

lemma serve_framed:
  assumes "good_message msg" "4 + length msg \<le> READBUF_SIZE"
    and "get_resp cm sdk qf env mem msg (len32 msg) p_ctx w = (Good resp, p_ctx', w')"
    and "0 < length resp" "length resp < 4294967296"
  shows "serve_connection cm sdk qf legit env mem [frame msg] p_ctx w = (Good (frame resp), p_ctx', w')"
proof -
  have n: "len32 (frame msg) - word_of_nat QGS_HEADER_SIZE = len32 msg"
    by (simp add: frame_def QGS_HEADER_SIZE_def size32_def)
  have d: "drop QGS_HEADER_SIZE (frame msg) = msg" by (simp add: frame_def QGS_HEADER_SIZE_def)
  have nz: "len32 resp \<noteq> 0" using assms(4,5) by simp
  show ?thesis
    unfolding serve_connection_def connection_at_once [OF assms(1,2)] served.case handle_request_def n d
    using assms(3) nz by (simp add: encode_header_def frame_def)
qed


text \<open>A request without ids on a thread whose key cannot be initialized.\<close>

lemma init_failure_served:
  assumes "length rep = 1024"
    and "cm_init_quote cm ctx PPID_RSA3072_ENCRYPTED False w = (e, key, w')" "translate_init sdk e \<noteq> TEE_ATT_SUCCESS"
  shows "serve_connection cm sdk qf legit env True [frame (ser_quote_req (rep, []))] (Some ctx) w = (Good [], Some ctx, w')"
proof -
  define msg where "msg = ser_quote_req (rep, [])"
  have size: "24 + length rep + length [] < 4294967295" "rep \<noteq> []" using assms(1) by auto
  have g: "good_message msg" unfolding msg_def by (rule good_quote_req) (use assms(1) in simp)
  have l: "4 + length msg \<le> READBUF_SIZE" using assms(1) by (simp add: msg_def ser_quote_req_def READBUF_SIZE_def)
  have "ensure_context_for_quote_request cm env None 0 (Some ctx) w
      = Good (TEE_ATT_SUCCESS, TDX_SGX_ECDSA_ATTESTATION_ID, Some ctx, w)"
    by (simp add: ensure_context_for_quote_request_def select_tdx_att_key_id_from_uuid_list_def)
  then have "handle_quote_request cm sdk env True msg (len32 msg) (Some ctx) w = (Good [], Some ctx, w')"
    using inflate_ser_quote_req [OF size(2,1)] assms(2,3)
    by (simp add: handle_quote_request_def msg_def Let_def tee_att_init_quote_def)
  then have r: "get_resp cm sdk qf env True msg (len32 msg) (Some ctx) w = (Good [], Some ctx, w')"
    using quote_req_type [OF size(1)] by (simp add: get_resp_def bootstrap_context_def msg_def)
  have "len32 (frame msg) - word_of_nat QGS_HEADER_SIZE = len32 msg" "drop QGS_HEADER_SIZE (frame msg) = msg"
    by (simp_all add: frame_def QGS_HEADER_SIZE_def size32_def)
  with r show ?thesis
    by (simp add: msg_def [symmetric] serve_connection_def connection_at_once [OF g l] handle_request_def)
qed

section \<open>The thread's context\<close>

text \<open>What a context must satisfy: a key the library knows, and paths that fit their arrays.\<close>

definition context_ok :: "tee_att_config_t \<Rightarrow> bool" where
  "context_ok ctx \<longleftrightarrow> is_supported_tdx_att_key_algorithm (m_att_key_algorithm_id ctx)
     \<and> length (tdqe_path ctx) < WRAPPER_MAX_PATH \<and> length (ide_path ctx) < WRAPPER_MAX_PATH"

lemma strrchr_bound: "strrchr s c = Some i \<Longrightarrow> i < length s"
  using length_dropWhile_le [of "\<lambda>x. x \<noteq> c" "rev s"]
  by (cases "dropWhile (\<lambda>x. x \<noteq> c) (rev s)") (simp_all add: strrchr_def Let_def)

lemma length_strncat_path: "length s < WRAPPER_MAX_PATH \<Longrightarrow> length (strncat_path s t) < WRAPPER_MAX_PATH"
  unfolding strncat_path_def Let_def by (cases "260 - length s > 1") (auto simp: min_def)

text \<open>One directory up.\<close>

lemma strrchr_take:
  assumes "strrchr p c = Some i" "length p < n" shows "length (take i p) < n" "i < n"
  using assms strrchr_bound [OF assms(1)] by simp_all

lemma length_id_enclave_path:
  assumes "length p < WRAPPER_MAX_PATH" shows "length (id_enclave_path p) < WRAPPER_MAX_PATH"
proof -
  have name: "length (take c d @ take (260 - c - 1) x) < 260" if "c \<le> length d" "length d < 260" for c and d x :: string
    using that by simp
  show ?thesis
  proof (cases "strrchr p CHR ''/''")
    case (Some i)
    define d where "d = take i p"
    have d: "length d < 260" unfolding d_def by (rule strrchr_take [OF Some assms])
    show ?thesis
    proof (cases "strrchr d CHR ''/''")
      case j: (Some j)
      define d' where "d' = take j d"
      have d': "length d' < 260" unfolding d'_def by (rule strrchr_take [OF j d])
      show ?thesis
      proof (cases "strrchr d' CHR ''/''")
        case k: (Some k)
        have "k + 1 \<le> length d'" using strrchr_bound [OF k] by simp
        from length_strncat_path [OF length_strncat_path [OF name [OF this d']]] name [OF this d'] show ?thesis
          using Some j k by (simp add: id_enclave_path_def d_def [symmetric] d'_def [symmetric] Let_def del: length_append)
      qed (use Some j d' in \<open>simp add: id_enclave_path_def d_def [symmetric] d'_def [symmetric] Let_def\<close>)
    qed (use Some d in \<open>simp add: id_enclave_path_def d_def [symmetric] Let_def\<close>)
  qed (use assms in \<open>simp add: id_enclave_path_def\<close>)
qed

lemma created_context_ok:
  assumes "tee_att_create_context cm env k path True w = (e, c, w')"
  shows "\<forall>ctx. c = Some ctx \<longrightarrow> context_ok ctx"
proof -
  have "is_supported_tdx_att_key_algorithm SGX_QL_ALG_ECDSA_P256"
    by (simp add: is_supported_tdx_att_key_algorithm_def)
  with assms show ?thesis
    by (auto simp: tee_att_create_context_def Let_def context_ok_def length_id_enclave_path
        split: if_splits option.splits)
qed

definition thread_inv :: "tee_att_config_t option \<Rightarrow> bool" where
  "thread_inv p_ctx \<longleftrightarrow> (\<forall>ctx. p_ctx = Some ctx \<longrightarrow> context_ok ctx)"

lemma thread_inv_simps [simp]: "thread_inv None" "thread_inv (Some ctx) = context_ok ctx"
  by (simp_all add: thread_inv_def)

lemma thread_inv_ok: "thread_inv p_ctx \<Longrightarrow> thread_ok p_ctx"
  by (simp add: thread_inv_def thread_ok_def context_ok_def)

lemma create_inv [intro]: "tee_att_create_context cm env k path True w = (e, c, w') \<Longrightarrow> thread_inv c"
  using created_context_ok [of cm env k path w e c w'] by (simp add: thread_inv_def)

lemma ensure_inv:
  assumes "ensure_context_for_quote_request cm env ids n p_ctx w = Good (e, u, p', w')" "thread_inv p_ctx"
  shows "thread_inv p'"
proof (cases p_ctx)
  case (Some ctx)
  with assms(1) obtain sel where "select_tdx_att_key_id_from_uuid_list ids n = Good sel"
    by (auto simp: ensure_context_for_quote_request_def obind_Good_iff)
  with assms Some show ?thesis
    by (cases sel) (auto simp: ensure_context_for_quote_request_def Let_def split: prod.split_asm if_split_asm)
qed (use assms in \<open>simp add: ensure_context_for_quote_request_def\<close>)

lemma quote_request_inv:
  assumes "handle_quote_request cm sdk env mem req n p_ctx w = (r, p', w')" "thread_inv p_ctx"
  shows "thread_inv p'"
proof -
  note ensure_inv [OF _ assms(2), intro]
  from assms show ?thesis
    by (auto simp: handle_quote_request_def Let_def split: option.splits outcome.splits prod.splits if_splits)
qed

lemma bootstrap_inv:
  assumes "bootstrap_context cm sdk env ty p_ctx w = (ok, p', w')" "thread_inv p_ctx"
  shows "thread_inv p'"
  using assms by (auto simp: bootstrap_context_def Let_def split: prod.splits if_splits)

lemma get_resp_inv:
  assumes "get_resp cm sdk qf env mem req n p_ctx w = (r, p', w')" "thread_inv p_ctx"
  shows "thread_inv p'"
proof (cases "qgs_msg_get_type req n")
  case (Good ty)
  obtain ok p1 w1 where b: "bootstrap_context cm sdk env ty p_ctx w = (ok, p1, w1)" by (metis prod_cases3)
  from bootstrap_inv [OF this assms(2)] have i: "thread_inv p1" .
  note quote_request_inv [OF _ i, dest]
  from assms(1) Good b i show ?thesis by (auto simp: get_resp_def split: prod.splits if_splits)
qed (use assms in \<open>simp_all add: get_resp_def\<close>)

lemma get_raw_resp_inv:
  assumes "get_raw_resp cm sdk legit env req p_ctx w = (r, p', w')" "thread_inv p_ctx"
  shows "thread_inv p'"
  using assms by (auto simp: get_raw_resp_def Let_def split: prod.splits if_splits)

lemma serve_connection_inv:
  assumes "serve_connection cm sdk qf legit env mem chunks p_ctx w = (r, p', w')" "thread_inv p_ctx"
  shows "thread_inv p'"
proof -
  note [dest] = get_resp_inv [OF _ assms(2)] get_raw_resp_inv [OF _ assms(2)]
  from assms show ?thesis
    by (auto simp: serve_connection_def handle_request_def handle_raw_request_def split: served.splits prod.splits)
qed

text \<open>The states of a thread: it starts without a context and serves connections, whatever arrives.\<close>

inductive thread_state ::
  "'w config_methods \<Rightarrow> (sgx_status_t \<Rightarrow> int) \<Rightarrow> 'w qpl_functions \<Rightarrow> (byte list \<Rightarrow> bool) \<Rightarrow> environment
     \<Rightarrow> tee_att_config_t option \<Rightarrow> 'w \<Rightarrow> bool"
  for cm sdk qf legit env where
    start: "thread_state cm sdk qf legit env None w"
  | serve: "thread_state cm sdk qf legit env p_ctx w
      \<Longrightarrow> serve_connection cm sdk qf legit env mem chunks p_ctx w = (r, p_ctx', w')
      \<Longrightarrow> thread_state cm sdk qf legit env p_ctx' w'"

lemma thread_state_inv: "thread_state cm sdk qf legit env p_ctx w \<Longrightarrow> thread_inv p_ctx"
  by (induction rule: thread_state.induct) (simp_all add: serve_connection_inv)

section \<open>The certification policy\<close>









section \<open>Certification data\<close>

abbreviation "outer_offset alg \<equiv> sizeof_quote4 + get_mldsa_sig_data_struct_size_for_algorithm alg"

lemma mldsa_sig_sizes:
  "get_mldsa_sig_data_struct_size_for_algorithm alg < 10000"
  by (simp add: get_mldsa_sig_data_struct_size_for_algorithm_def SGX_QL_MLDSA_44_SIG_SIZE_def SGX_QL_MLDSA_44_PUB_KEY_SIZE_def
      SGX_QL_MLDSA_65_SIG_SIZE_def SGX_QL_MLDSA_65_PUB_KEY_SIZE_def SGX_QL_MLDSA_87_SIG_SIZE_def SGX_QL_MLDSA_87_PUB_KEY_SIZE_def)

lemma outer_sum:
  "unat (size32 (outer_offset alg) + (size32 6 + s)) = (outer_offset alg + 6 + unat s) mod 4294967296"
proof -
  have "size32 a + (size32 b + s) = size32 (a + b + unat s)" for a b by (simp add: size32_def)
  moreover have "unat (size32 k) = k mod 4294967296" for k by (simp add: size32_def unat_of_nat)
  ultimately show ?thesis by metis
qed

text \<open>The sizes inside the outer certification data, when the walk gets there.\<close>

definition walk_reaches :: "byte list \<Rightarrow> nat \<Rightarrow> bool" where
  "walk_reaches q alg \<longleftrightarrow> (let outer = outer_offset alg; s = unat (get32 (outer + 2) q); auth = outer + 454 in
     outer + 462 \<le> length q \<and> get16 0 q = 4 \<and> unat (get16 2 q) = alg \<and> get16 outer q = kQeReportCertificationDataType
     \<and> (outer + 6 + s) mod 4294967296 \<le> length q \<and> 450 \<le> s
     \<and> unat (get16 auth q) + 456 \<le> s)"

lemma walk_fault_iff:
  assumes "length q < 4294967296"
  shows "get_mldsa_quote_inner_cert_key_type q (len32 q) alg = Fault
    \<longleftrightarrow> walk_reaches q alg \<and> length q < outer_offset alg + 462 + unat (get16 (outer_offset alg + 454) q)"
proof -
  define outer where "outer = outer_offset alg"
  define s where "s = get32 (outer + 2) q"
  define a where "a = unat (get16 (outer + 454) q)"
  have n: "unat (len32 q) = length q" using assms by simp
  have sum: "unat (size32 outer + (size32 6 + s)) = (outer + 6 + unat s) mod 4294967296"
    unfolding outer_def by (rule outer_sum)
  have o: "outer < 20000" using mldsa_sig_sizes [of alg] by (simp add: outer_def)
  have s: "get32 (Suc (Suc outer)) q = s" by (simp add: s_def)
  show ?thesis
    unfolding get_mldsa_quote_inner_cert_key_type_def Let_def outer_def [symmetric] walk_reaches_def
      s_def [symmetric] a_def [symmetric]
    using n sum o
    by (auto simp: rd16_def rd32_def obind_Fault_iff s a_def [symmetric] word_less_nat_alt word_le_nat_alt
        add.commute add.left_commute
        split: if_splits)
qed

text \<open>Without a wrap the data a quote announces lies inside it.\<close>

lemma walk_no_wrap:
  assumes "length q < 4294967296" "outer_offset alg + 6 + unat (get32 (outer_offset alg + 2) q) < 4294967296"
  shows "get_mldsa_quote_inner_cert_key_type q (len32 q) alg \<noteq> Fault"
  unfolding walk_fault_iff [OF assms(1)] using assms(2) by (auto simp: walk_reaches_def Let_def)

section \<open>Errors of the API\<close>

definition tee_att_status :: "int \<Rightarrow> bool" where
  "tee_att_status e \<longleftrightarrow> e = TEE_ATT_SUCCESS \<or> (TEE_ATT_ERROR_MIN \<le> e \<and> e \<le> TEE_ATT_ERROR_MAX)"

lemma translate_status:
  "tee_att_status (translate_init sdk e)" "tee_att_status (translate_quote sdk e)" "tee_att_status (translate_size sdk e)"
  by (auto simp: translate_init_def translate_quote_def translate_size_def translate_sdk_parameter_def translate_sdk_def
      outside_tee_att_def tee_att_status_def tee_att_codes)

lemma translate_quote_success: "translate_quote sdk e = TEE_ATT_SUCCESS \<longleftrightarrow> e = TEE_ATT_SUCCESS"
  by (auto simp: translate_quote_def translate_sdk_parameter_def translate_sdk_def outside_tee_att_def tee_att_codes)

lemma invalid_parameter_status: "tee_att_status TEE_ATT_ERROR_INVALID_PARAMETER" "tee_att_status TEE_ATT_SUCCESS"
  by (simp_all add: tee_att_status_def tee_att_codes)

section \<open>Properties\<close>


text \<open>
  C21. Whatever connections a thread of the service has served, with any library and any bytes from its
  peers, its context has one of the four algorithms the library supports, and the two paths it holds fit
  the arrays they are copied to.
\<close>

theorem thread_context_sound:
  assumes "thread_state cm sdk qf legit env (Some ctx) w"
  shows "is_supported_tdx_att_key_algorithm (m_att_key_algorithm_id ctx)
    \<and> length (tdqe_path ctx) < 260 \<and> length (ide_path ctx) < 260"
  using thread_state_inv [OF assms] by (simp add: context_ok_def)

text \<open>
  A thread keeps the key of the last request that named one. A request without key ids that comes
  after a request for an ML-DSA key is therefore answered with an ML-DSA quote, and the answer names it
  as ECDSA.
\<close>

theorem unnamed_request_inherits_key:
  assumes "known_uuid u" "length rep = 1024" "path_fits env" "thread_state cm sdk qf legit env p_ctx w"
    and "quotes_with cm (uuid_algorithm u) rep q" "dcap_policy_ok env u q" "q \<noteq> []" "40 + length q \<le> 16356"
  shows "\<exists>ctx w1. serve_connection cm sdk qf legit env True [frame (ser_quote_req (rep, u))] p_ctx w
      = (Good (frame (ser_quote_resp (u, q))), Some ctx, w1)
    \<and> (\<exists>w2. serve_connection cm sdk qf legit env True [frame (ser_quote_req (rep, []))] (Some ctx) w1
      = (Good (frame (ser_quote_resp (TDX_SGX_ECDSA_ATTESTATION_ID, q))), Some ctx, w2))"
proof -
  have u16: "length u = 16" by (rule length_known_uuid [OF assms(1)])
  have ok: "thread_ok p_ctx" by (rule thread_inv_ok [OF thread_state_inv [OF assms(4)]])
  have size: "1080 + length [] < 4294967295" "40 + length q < 4294967295" using assms(8) by simp_all
  have g: "good_message (ser_quote_req (rep, ids))" "4 + length (ser_quote_req (rep, ids)) \<le> READBUF_SIZE"
    if "ids = u \<or> ids = []" for ids
    by (rule good_quote_req, use that u16 assms(2) in auto)
      (use that u16 assms(2) in \<open>auto simp: READBUF_SIZE_def ser_quote_req_def\<close>)
  have r: "length (ser_quote_resp (i, q)) = 40 + length q" if "length i = 16" for i
    using that by (simp add: ser_quote_resp_def)
  obtain ctx w1 where a: "get_resp cm sdk qf env True (ser_quote_req (rep, u)) (len32 (ser_quote_req (rep, u))) p_ctx w
      = (Good (ser_quote_resp (u, q)), Some ctx, w1)" "m_att_key_algorithm_id ctx = uuid_algorithm u"
    using get_resp_selected [OF assms(1) _ assms(2) size(1) assms(3) ok assms(5-7) size(2), of sdk qf w] by auto
  obtain w2 where b: "get_resp cm sdk qf env True (ser_quote_req (rep, [])) (len32 (ser_quote_req (rep, []))) (Some ctx) w1
      = (Good (ser_quote_resp (TDX_SGX_ECDSA_ATTESTATION_ID, q)), Some ctx, w2)"
    using get_resp_default [OF assms(2) _ assms(7) size(2)] assms(5) a(2) by metis
  have e16: "length TDX_SGX_ECDSA_ATTESTATION_ID = 16" by (simp add: uuid_defs)
  show ?thesis
    using serve_framed [OF g [OF disjI1 [OF refl]] a(1)] serve_framed [OF g [OF disjI2 [OF refl]] b]
      r [OF u16] r [OF e16] assms(8) by simp
qed


text \<open>
  A request that the service cannot initialize the ECDSA key for is not answered: the connection is
  closed without the error response that every later failure gets, and the client reports a transport
  failure.
\<close>

theorem init_failure_unanswered:
  assumes "length rep = 1024"
    and "cm_init_quote cm ctx PPID_RSA3072_ENCRYPTED False w = (e, key, w')" "translate_init sdk e \<noteq> TEE_ATT_SUCCESS"
    and "request_buffer data" "unat n \<le> length data" "se_send_ret se = int (unat n)"
    and "fst (serve_connection cm sdk qf legit env True [frame (ser_quote_req (rep, []))] (Some ctx) w) = Good out"
    and "concat chunks = out" "se_recvs se = map Rx_data chunks"
  shows "out = [] \<and> (\<exists>data' log. exchange_payload s se data n = Some (Bad TDX_ATTEST_ERROR_VSOCK_FAILURE, data', log))"
proof -
  from init_failure_served [OF assms(1-3), of qf legit env] assms(7) have out: "out = []" by simp
  have "\<exists>script. recv HEADER_SIZE (se_recvs se) = (Some [], script)"
    using assms(8,9) out by (cases chunks) (simp_all add: HEADER_SIZE_def)
  then obtain script where "recv HEADER_SIZE (se_recvs se) = (Some [], script)" by blast
  then show ?thesis
    using assms(4-6) out by (simp add: exchange_payload_def bread_def bwrite_def HEADER_SIZE_def)
qed

text \<open>
  C24. The walk to the inner certification data stays inside the quote as long as the size of the outer
  data does not wrap the 32-bit sum; otherwise it reads beyond the quote exactly when the sum wraps to
  something small and the size of the authentication data leads past the end.
\<close>

theorem certification_walk_bounds:
  assumes "length q < 4294967296"
  shows "(outer_offset alg + 6 + unat (get32 (outer_offset alg + 2) q) < 4294967296
      \<longrightarrow> get_mldsa_quote_inner_cert_key_type q (len32 q) alg \<noteq> Fault)
    \<and> (get_mldsa_quote_inner_cert_key_type q (len32 q) alg = Fault
      \<longleftrightarrow> walk_reaches q alg \<and> length q < outer_offset alg + 462 + unat (get16 (outer_offset alg + 454) q))"
  using walk_no_wrap [OF assms] walk_fault_iff [OF assms] by blast


text \<open>
  The quote functions of the library's API report only their own codes: whatever the enclaves and the
  SDK return, the status is success or lies between TEE_ATT_ERROR_MIN and TEE_ATT_ERROR_MAX, and success
  comes only from success.
\<close>

theorem api_status_translated:
  "tee_att_status (fst (tee_att_init_quote cm sdk p_ctx refresh sz key w))
    \<and> tee_att_status (fst (tee_att_get_quote_size cm sdk p_ctx out w))
    \<and> tee_att_status (fst (tee_att_get_quote cm sdk p_ctx report rsz qsz w))
    \<and> (fst (tee_att_get_quote cm sdk (Some ctx) (Some rep) 1024 qsz w) = TEE_ATT_SUCCESS
       \<longleftrightarrow> fst (cm_get_quote cm ctx rep qsz w) = TEE_ATT_SUCCESS)"
proof (intro conjI)
  show "tee_att_status (fst (tee_att_init_quote cm sdk p_ctx refresh sz key w))"
    "tee_att_status (fst (tee_att_get_quote_size cm sdk p_ctx out w))"
    "tee_att_status (fst (tee_att_get_quote cm sdk p_ctx report rsz qsz w))"
    by (auto simp: tee_att_init_quote_def tee_att_get_quote_size_def tee_att_get_quote_def translate_status
        invalid_parameter_status split: option.split prod.split)
  show "fst (tee_att_get_quote cm sdk (Some ctx) (Some rep) 1024 qsz w) = TEE_ATT_SUCCESS
      \<longleftrightarrow> fst (cm_get_quote cm ctx rep qsz w) = TEE_ATT_SUCCESS"
    by (simp add: tee_att_get_quote_def translate_quote_success split: prod.split)
qed

section \<open>Examples\<close>

definition demo_methods :: "byte list \<Rightarrow> unit config_methods" where
  "demo_methods q = \<lparr>cm_new = id, cm_delete = (\<lambda>_. id), cm_init_quote = (\<lambda>_ _ _ w. (0, [], w)),
     cm_get_quote_size = (\<lambda>_ _ w. (0, len32 q, w)), cm_get_quote = (\<lambda>_ _ _ w. (0, q, w)),
     cm_get_platform_info = (\<lambda>_ w. (0, \<lparr>pi_platform_id = replicate 16 0, pi_cpu_svn = replicate 16 0,
       pi_tdqe_isv_svn = 1, pi_pce_isv_svn = 1\<rparr>, w)), cm_get_qpl_handle = (\<lambda>_ w. (False, w))\<rparr>"

definition demo_provider :: "unit qpl_functions" where
  "demo_provider = \<lparr>qpl_found = False, qpl_get_collateral = (\<lambda>_ _ _ w. (1, \<lparr>qc_major_version = 0, qc_minor_version = 0,
     qc_pck_crl_issuer_chain = (None, 0), qc_root_ca_crl = (None, 0), qc_pck_crl = (None, 0),
     qc_tcb_info_issuer_chain = (None, 0), qc_tcb_info = (None, 0), qc_qe_identity_issuer_chain = (None, 0),
     qc_qe_identity = (None, 0)\<rparr>, w)), qpl_free_collateral = id\<rparr>"

abbreviation "demo_sdk \<equiv> (\<lambda>s :: sgx_status_t. 1 :: int)"
abbreviation "demo_legit \<equiv> (\<lambda>r :: byte list. False)"
abbreviation "demo_raw_report \<equiv> (replicate 1024 7 :: byte list)"


definition wrapping_quote :: "byte list" where
  "wrapping_quote = [4, 0, 5, 0] @ replicate 5893 0 @ [6, 0, 0xF1, 0xE8, 0xFF, 0xFF] @ replicate 448 0 @ [1, 0, 0, 0, 0, 0, 0, 0]"

lemma demo_quotes: "quotes_with (demo_methods q) alg rep q"
  by (simp add: quotes_with_def demo_methods_def)

lemma demo_simps [simp]: "path_fits Map.empty" "dcap_policy_ok Map.empty u q"
  by (simp_all add: path_fits_def get_qgs_tdqe_path_def dcap_policy_ok_def require_full_dcap_mldsa_quote_def)

lemma mldsa_65_offset: "get_mldsa_sig_data_struct_size_for_algorithm 5 = 5261"
  by (simp add: get_mldsa_sig_data_struct_size_for_algorithm_def alg_numbers SGX_QL_MLDSA_65_SIG_SIZE_def SGX_QL_MLDSA_65_PUB_KEY_SIZE_def)


abbreviation "full_dcap_env \<equiv> [''TDX_MLDSA_REQUIRE_FULL_DCAP'' \<mapsto> ''1''] :: environment"

lemma demo_ecdsa:
  "\<exists>ctx w1. serve_connection (demo_methods [4, 0, 2, 0]) demo_sdk demo_provider demo_legit Map.empty True
      [frame (ser_quote_req (demo_raw_report, TDX_SGX_ECDSA_ATTESTATION_ID))] None () = (Good (frame
        (ser_quote_resp (TDX_SGX_ECDSA_ATTESTATION_ID, [4, 0, 2, 0]))), Some ctx, w1)"
proof -
  let ?u = TDX_SGX_ECDSA_ATTESTATION_ID and ?req = "ser_quote_req (demo_raw_report, TDX_SGX_ECDSA_ATTESTATION_ID)"
  have u: "known_uuid ?u" "length ?u = 16" by (simp_all add: known_uuid_def uuid_defs)
  obtain ctx w1 where g: "get_resp (demo_methods [4, 0, 2, 0]) demo_sdk demo_provider Map.empty True ?req (len32 ?req) None ()
      = (Good (ser_quote_resp (?u, [4, 0, 2, 0])), Some ctx, w1)"
    using get_resp_selected [OF u(1) _ _ _ demo_simps(1) _ demo_quotes demo_simps(2), of "[]" demo_raw_report None
        "[4, 0, 2, 0]" demo_sdk demo_provider "()"]
    by (auto simp: thread_ok_def)
  have "good_message ?req" by (rule good_quote_req) (simp add: u)
  moreover have "4 + length ?req \<le> READBUF_SIZE" "0 < length (ser_quote_resp (?u, [4, 0, 2, 0]))"
    "length (ser_quote_resp (?u, [4, 0, 2, 0])) < 4294967296"
    by (simp_all add: u READBUF_SIZE_def ser_quote_req_def ser_quote_resp_def)
  ultimately show ?thesis using serve_framed [OF _ _ g] by blast
qed

theorem certification_walk_bounds_witness:
  "get_mldsa_quote_inner_cert_key_type wrapping_quote (len32 wrapping_quote) SGX_QL_ALG_MLDSA_65 = Fault"
proof -
  have l: "length wrapping_quote = 6359" by (simp add: wrapping_quote_def)
  have g: "get16 0 wrapping_quote = 4" "get16 2 wrapping_quote = 5" "get16 5897 wrapping_quote = 6"
    "get32 5899 wrapping_quote = 4294961393" "get16 6351 wrapping_quote = 1"
    by (simp_all add: get16_def get32_def wrapping_quote_def)
  show ?thesis
    using certification_walk_bounds [of wrapping_quote SGX_QL_ALG_MLDSA_65]
    by (simp add: walk_reaches_def mldsa_65_offset l g kQeReportCertificationDataType_def alg_numbers)
qed

theorem thread_context_sound_witness:
  "\<exists>ctx w. thread_state (demo_methods [4, 0, 2, 0]) demo_sdk demo_provider demo_legit Map.empty (Some ctx) w
    \<and> length (ide_path ctx) < 260"
proof -
  let ?cm = "demo_methods [4, 0, 2, 0]"
  obtain ctx w1 where "serve_connection ?cm demo_sdk demo_provider demo_legit Map.empty True
      [frame (ser_quote_req (demo_raw_report, TDX_SGX_ECDSA_ATTESTATION_ID))] None () = (Good (frame
        (ser_quote_resp (TDX_SGX_ECDSA_ATTESTATION_ID, [4, 0, 2, 0]))), Some ctx, w1)"
    using demo_ecdsa by blast
  from thread_state.serve [OF thread_state.start this]
  have s: "thread_state ?cm demo_sdk demo_provider demo_legit Map.empty (Some ctx) w1" .
  from thread_context_sound [OF s] s show ?thesis by blast
qed

text \<open>Two connections of one thread: an ML-DSA-65 key, then none.\<close>

theorem unnamed_request_inherits_key_witness:
  "\<exists>ctx w1 w2. serve_connection (demo_methods [4, 0, 5, 0]) demo_sdk demo_provider demo_legit Map.empty True
      [frame (ser_quote_req (demo_raw_report, TDX_SGX_MLDSA_65_ATTESTATION_ID))] None ()
      = (Good (frame (ser_quote_resp (TDX_SGX_MLDSA_65_ATTESTATION_ID, [4, 0, 5, 0]))), Some ctx, w1)
    \<and> serve_connection (demo_methods [4, 0, 5, 0]) demo_sdk demo_provider demo_legit Map.empty True
      [frame (ser_quote_req (demo_raw_report, []))] (Some ctx) w1
      = (Good (frame (ser_quote_resp (TDX_SGX_ECDSA_ATTESTATION_ID, [4, 0, 5, 0]))), Some ctx, w2)"
proof -
  have "known_uuid TDX_SGX_MLDSA_65_ATTESTATION_ID" by (simp add: known_uuid_def)
  from unnamed_request_inherits_key [OF this _ demo_simps(1) thread_state.start demo_quotes demo_simps(2),
      of demo_raw_report "[4, 0, 5, 0]" demo_sdk demo_provider demo_legit "()"]
  show ?thesis by simp
qed


definition failing_methods :: "unit config_methods" where
  "failing_methods = (demo_methods [])\<lparr>cm_init_quote := (\<lambda>_ _ _ w. (TEE_ATT_ERROR_UNEXPECTED, [], w))\<rparr>"

definition demo_context :: tee_att_config_t where
  "demo_context = \<lparr>m_att_key_algorithm_id = SGX_QL_ALG_ECDSA_P256, m_bootstrap_mode = TEE_ATT_BOOTSTRAP_LEGACY_PCE,
     tdqe_path = [], qpl_path = [], ide_path = []\<rparr>"

theorem init_failure_unanswered_witness:
  "\<exists>w data' log. serve_connection failing_methods demo_sdk demo_provider demo_legit Map.empty True
        [frame (ser_quote_req (demo_raw_report, []))] (Some demo_context) () = (Good [], Some demo_context, w)
    \<and> exchange_payload Vsock_sock \<lparr>se_socket_ok = True, se_connect_ok = True, se_send_ret = 0, se_recvs = []\<rparr>
      (replicate 16360 0) 0 = Some (Bad TDX_ATTEST_ERROR_VSOCK_FAILURE, data', log)"
proof -
  let ?se = "\<lparr>se_socket_ok = True, se_connect_ok = True, se_send_ret = 0, se_recvs = []\<rparr>"
  have i: "cm_init_quote failing_methods demo_context PPID_RSA3072_ENCRYPTED False () = (TEE_ATT_ERROR_UNEXPECTED, [], ())"
    "translate_init demo_sdk TEE_ATT_ERROR_UNEXPECTED \<noteq> TEE_ATT_SUCCESS"
    by (simp_all add: failing_methods_def translate_init_def outside_tee_att_def tee_att_codes)
  have s: "serve_connection failing_methods demo_sdk demo_provider demo_legit Map.empty True
      [frame (ser_quote_req (demo_raw_report, []))] (Some demo_context) () = (Good [], Some demo_context, ())"
    by (rule init_failure_served [OF _ i]) simp
  have rb: "request_buffer (replicate 16360 0)" by (simp add: request_buffer_def tdx_sizes)
  have lr: "length demo_raw_report = 1024" by simp
  have "[] = ([] :: byte list) \<and> (\<exists>data' log. exchange_payload Vsock_sock ?se (replicate 16360 0) 0
      = Some (Bad TDX_ATTEST_ERROR_VSOCK_FAILURE, data', log))"
    by (rule init_failure_unanswered [OF lr i rb, where qf = demo_provider and legit = demo_legit and env = Map.empty
          and chunks = "[]"]) (simp_all add: s)
  with s show ?thesis by blast
qed



end
