(* ===== verification/Pck_Select.thy ===== *)
theory Pck_Select
  imports Prelude "HOL-Library.Multiset"
begin

text \<open>
  The PCK certificate selection library (tools/PCKCertSelection/PCKCertSelectionLib): of the certificates
  cached for a platform, the best one for its current TCB.

  The parsers of the attestation library (TcbInfo::parse, PckCertificate::parse; a git submodule) are the
  parameter \<open>parsers\<close>: \<open>None\<close> is an exception, and the records hold what the accessors return.
  \<open>Fault\<close> is an access outside a vector.
\<close>

section \<open>Data\<close>

datatype pck_cert_selection_res_t =
    PCK_CERT_SELECT_SUCCESS | PCK_CERT_SELECT_INVALID_ARG | PCK_CERT_SELECT_INVALID_CERT
  | PCK_CERT_SELECT_INVALID_CERT_CPUSVN | PCK_CERT_SELECT_INVALID_CERT_VERSION | PCK_CERT_SELECT_UNEXPECTED
  | PCK_CERT_SELECT_INVALID_PCK_PCEID | PCK_CERT_SELECT_INVALID_PPID | PCK_CERT_SELECT_INVALID_FMSPC
  | PCK_CERT_SELECT_INVALID_TCB | PCK_CERT_SELECT_INVALID_TCB_PCEID | PCK_CERT_SELECT_UNSUPPORTED_TCB_TYPE
  | PCK_CERT_SELECT_PCK_NOT_FOUND

definition CPUSVN_SIZE :: nat where "CPUSVN_SIZE = 16"
definition PCK_CERT_VERSION :: nat where "PCK_CERT_VERSION = 3"
definition HW_TYPE :: nat where "HW_TYPE = 6"

text \<open>TCB components and PCESVN.\<close>

type_synonym tcb = "byte list \<times> int"

record tcb_info =
  ti_version :: nat
  ti_tcb_type :: int
  ti_pce_id :: "byte list"
  ti_fmspc :: "byte list"
  ti_levels :: "tcb list"

record pck_certificate =
  pk_version :: nat
  pk_cpusvn :: "byte list"
  pk_tcb :: tcb
  pk_pce_id :: "byte list"
  pk_fmspc :: "byte list"
  pk_ppid :: "byte list"

record parsers =
  parse_tcb_info :: "string \<Rightarrow> tcb_info option"
  parse_pck :: "string \<Rightarrow> pck_certificate option"
  version_v2 :: nat
  version_v3 :: nat

section \<open>TCBManager\<close>

record tcb_manager =
  tcbInfoString :: string
  tm_tcbInfo :: "tcb_info option"
  tcb_type :: int

definition supported_version :: "parsers \<Rightarrow> tcb_info \<Rightarrow> bool" where
  "supported_version P t = (ti_version t = version_v2 P \<or> ti_version t = version_v3 P)"

definition tcb_parse_wrapper :: "parsers \<Rightarrow> tcb_manager \<Rightarrow> pck_cert_selection_res_t \<times> tcb_manager" where
  "tcb_parse_wrapper P m =
     (case parse_tcb_info P (tcbInfoString m) of None \<Rightarrow> (PCK_CERT_SELECT_INVALID_TCB, m)
      | Some t \<Rightarrow>
          let m1 = m\<lparr>tm_tcbInfo := Some t\<rparr>; m2 = m1\<lparr>tcb_type := ti_tcb_type t\<rparr> in
          if \<not> supported_version P t then (PCK_CERT_SELECT_INVALID_TCB, m1)
          else if tcb_type m2 \<noteq> 0 then (PCK_CERT_SELECT_UNSUPPORTED_TCB_TYPE, m2)
          else (PCK_CERT_SELECT_SUCCESS, m2))"

definition decompose_cpusvn_components :: "tcb_manager \<Rightarrow> byte list \<Rightarrow> pck_cert_selection_res_t \<times> byte list" where
  "decompose_cpusvn_components m cpusvn =
     (if tcb_type m = 0 then (PCK_CERT_SELECT_SUCCESS, cpusvn) else (PCK_CERT_SELECT_UNSUPPORTED_TCB_TYPE, []))"

definition extract_config_id_from_cpusvn :: "tcb_manager \<Rightarrow> byte list \<Rightarrow> (pck_cert_selection_res_t, u32) outcome" where
  "extract_config_id_from_cpusvn m cpusvn =
     (if tcb_type m = 0 then (if HW_TYPE < length cpusvn then Good (ucast (cpusvn ! HW_TYPE)) else Fault)
      else Bad PCK_CERT_SELECT_UNSUPPORTED_TCB_TYPE)"

section \<open>Comparisons\<close>

fun equal_bytes_from :: "byte list \<Rightarrow> byte list \<Rightarrow> bool" where
  "equal_bytes_from (x # xs) (y # ys) = (if x \<noteq> y then False else equal_bytes_from xs ys)"
| "equal_bytes_from _ _ = True"

definition equal_bytes :: "byte list \<Rightarrow> byte list \<Rightarrow> bool" where
  "equal_bytes left right = (if length left \<noteq> length right then False else equal_bytes_from left right)"

datatype comp_res_t = COMP_ERROR | COMP_EQUAL_OR_GREATER | COMP_LOWER | COMP_UNDEFINED

fun compare_bytes :: "byte list \<Rightarrow> byte list \<Rightarrow> bool \<times> bool \<Rightarrow> bool \<times> bool" where
  "compare_bytes (x # xs) (y # ys) (left_lower, right_lower) =
     compare_bytes xs ys (if x < y then True else left_lower, if x > y then True else right_lower)"
| "compare_bytes _ _ flags = flags"

definition compare_tcb_components :: "tcb \<Rightarrow> tcb \<Rightarrow> comp_res_t" where
  "compare_tcb_components left right =
     (if length (fst left) \<noteq> CPUSVN_SIZE \<or> length (fst right) \<noteq> CPUSVN_SIZE then COMP_ERROR
      else
        let (left_lower, right_lower) = compare_bytes (fst left) (fst right)
              (if snd left < snd right then True else False, if snd left > snd right then True else False) in
        if left_lower \<and> right_lower then COMP_UNDEFINED
        else if left_lower then COMP_LOWER
        else COMP_EQUAL_OR_GREATER)"

abbreviation tcb_ge :: "tcb \<Rightarrow> tcb \<Rightarrow> bool" where
  "tcb_ge l r \<equiv> compare_tcb_components l r = COMP_EQUAL_OR_GREATER"

section \<open>PCKSorter: input\<close>

record pck_sorter =
  platformSvn :: "byte list"
  pceIsvSvn :: u16
  pceID :: u16
  tcbmgr :: tcb_manager
  pemCerts :: "string option list"
  pcks :: "pck_certificate list"
  ps_tcbInfo :: "tcb_info option"
  buckets :: "nat list list"

text \<open>\<open>static_cast<int16_t>((id[0] << 8) + id[1])\<close>\<close>

definition pce_id_value :: "byte list \<Rightarrow> int" where
  "pce_id_value bs = sint (word_of_int (uint (bs ! 0) * 256 + uint (bs ! 1)) :: u16)"

text \<open>The loop over the certificates; \<open>ppid\<close> is the one of the first, \<open>acc\<close> the validated ones.\<close>

fun parse_pcks ::
  "parsers \<Rightarrow> bool \<Rightarrow> pck_sorter \<Rightarrow> tcb_info \<Rightarrow> byte list option \<Rightarrow> pck_certificate list \<Rightarrow> string option list
     \<Rightarrow> (pck_cert_selection_res_t, pck_certificate list) outcome" where
  "parse_pcks P with_component s t ppid acc [] = Good acc"
| "parse_pcks P with_component s t ppid acc (None # rest) = Bad PCK_CERT_SELECT_INVALID_ARG"
| "parse_pcks P with_component s t ppid acc (Some pem # rest) =
     (case parse_pck P pem of None \<Rightarrow> Bad PCK_CERT_SELECT_INVALID_CERT
      | Some c \<Rightarrow>
          if pk_version c \<noteq> PCK_CERT_VERSION then Bad PCK_CERT_SELECT_INVALID_CERT_VERSION
          else if \<not> with_component
               \<and> \<not> equal_bytes (snd (decompose_cpusvn_components (tcbmgr s) (pk_cpusvn c))) (fst (pk_tcb c))
          then Bad PCK_CERT_SELECT_INVALID_CERT_CPUSVN
          else if length (pk_pce_id c) < 2 then Fault
          else if uint (pceID s) \<noteq> pce_id_value (pk_pce_id c) then Bad PCK_CERT_SELECT_INVALID_PCK_PCEID
          else if \<not> equal_bytes (ti_fmspc t) (pk_fmspc c) then Bad PCK_CERT_SELECT_INVALID_FMSPC
          else
            (case ppid of
               None \<Rightarrow> parse_pcks P with_component s t (Some (pk_ppid c)) (acc @ [c]) rest
             | Some p \<Rightarrow>
                 if \<not> equal_bytes p (pk_ppid c) then Bad PCK_CERT_SELECT_INVALID_PPID
                 else parse_pcks P with_component s t ppid (acc @ [c]) rest))"

definition parse_input_tcb :: "parsers \<Rightarrow> pck_sorter \<Rightarrow> pck_cert_selection_res_t \<times> pck_sorter" where
  "parse_input_tcb P s =
     (case tcb_parse_wrapper P (tcbmgr s) of
        (ret, m) \<Rightarrow>
          (ret, if ret = PCK_CERT_SELECT_SUCCESS then s\<lparr>tcbmgr := m, ps_tcbInfo := tm_tcbInfo m\<rparr> else s\<lparr>tcbmgr := m\<rparr>))"

text \<open>The outcome is \<open>Good ()\<close> for PCK_CERT_SELECT_SUCCESS.\<close>

definition parse_input_tcb_and_pcks ::
  "parsers \<Rightarrow> bool \<Rightarrow> pck_sorter \<Rightarrow> (pck_cert_selection_res_t, unit) outcome \<times> pck_sorter" where
  "parse_input_tcb_and_pcks P with_component s =
     (case parse_input_tcb P s of
        (ret, s1) \<Rightarrow>
          if ret \<noteq> PCK_CERT_SELECT_SUCCESS then (Bad ret, s1)
          else
            let t = the (ps_tcbInfo s1) in
            if length (ti_pce_id t) < 2 then (Fault, s1)
            else if pce_id_value (ti_pce_id t) \<noteq> uint (pceID s1) then (Bad PCK_CERT_SELECT_INVALID_TCB_PCEID, s1)
            else
              (case parse_pcks P with_component s1 t None (pcks s1) (pemCerts s1) of
                 Good cs \<Rightarrow> (Good (), s1\<lparr>pcks := cs\<rparr>)
               | Bad e \<Rightarrow> (Bad e, s1\<lparr>pcks := []\<rparr>)
               | Fault \<Rightarrow> (Fault, s1)))"

section \<open>PCKSorter: sorting\<close>

text \<open>The first level that the TCB reaches; \<open>n\<close> is the index of the first one of the list.\<close>

fun level_index :: "tcb \<Rightarrow> nat \<Rightarrow> tcb list \<Rightarrow> nat option" where
  "level_index x n [] = None"
| "level_index x n (l # ls) = (if tcb_ge x l then Some n else level_index x (Suc n) ls)"

fun insert_into_bucket :: "(nat \<Rightarrow> bool) \<Rightarrow> nat \<Rightarrow> nat list \<Rightarrow> nat list" where
  "insert_into_bucket higher pck_index [] = [pck_index]"
| "insert_into_bucket higher pck_index (cur # rest) =
     (if higher cur then pck_index # cur # rest else cur # insert_into_bucket higher pck_index rest)"

definition sort_pck :: "tcb_info \<Rightarrow> pck_certificate list \<Rightarrow> nat \<Rightarrow> nat list list \<Rightarrow> nat list list" where
  "sort_pck t ps pck_index bs =
     (let x = pk_tcb (ps ! pck_index);
          bucket_index = (case level_index x 0 (ti_levels t) of None \<Rightarrow> length bs - 1 | Some i \<Rightarrow> i) in
      bs[bucket_index := insert_into_bucket (\<lambda>cur. tcb_ge x (pk_tcb (ps ! cur))) pck_index (bs ! bucket_index)])"

definition resize_buckets :: "nat \<Rightarrow> nat list list \<Rightarrow> nat list list" where
  "resize_buckets n bs = take n bs @ replicate (n - length bs) []"

definition sort_to_buckets :: "pck_sorter \<Rightarrow> pck_sorter" where
  "sort_to_buckets s =
     (let t = the (ps_tcbInfo s) in
      s\<lparr>buckets := fold (sort_pck t (pcks s)) [0..<length (pcks s)] (resize_buckets (length (ti_levels t) + 1) (buckets s))\<rparr>)"

fun find_in_bucket :: "(nat \<Rightarrow> bool) \<Rightarrow> nat list \<Rightarrow> nat option" where
  "find_in_bucket matches [] = None"
| "find_in_bucket matches (cur # rest) = (if matches cur then Some cur else find_in_bucket matches rest)"

fun find_in_buckets :: "(nat \<Rightarrow> bool) \<Rightarrow> nat list list \<Rightarrow> nat option" where
  "find_in_buckets matches [] = None"
| "find_in_buckets matches (b # bs) =
     (case find_in_bucket matches b of Some i \<Rightarrow> Some i | None \<Rightarrow> find_in_buckets matches bs)"

definition find_best_pck :: "parsers \<Rightarrow> bool \<Rightarrow> pck_sorter \<Rightarrow> (pck_cert_selection_res_t, nat) outcome" where
  "find_best_pck P with_component s =
     (if \<not> supported_version P (the (ps_tcbInfo s)) then Bad PCK_CERT_SELECT_INVALID_TCB
      else
        let components = (if with_component then platformSvn s
                          else snd (decompose_cpusvn_components (tcbmgr s) (platformSvn s))) in
        (case find_in_buckets (\<lambda>i. tcb_ge (components, uint (pceIsvSvn s)) (pk_tcb (pcks s ! i))) (buckets s) of
           Some i \<Rightarrow> Good i | None \<Rightarrow> Bad PCK_CERT_SELECT_PCK_NOT_FOUND))"

text \<open>The index, and the sorter afterwards.\<close>

definition select_best_pck ::
  "parsers \<Rightarrow> bool \<Rightarrow> pck_sorter \<Rightarrow> (pck_cert_selection_res_t, nat) outcome \<times> pck_sorter" where
  "select_best_pck P with_component s =
     (case parse_input_tcb_and_pcks P with_component s of
        (Good (), s1) \<Rightarrow> let s2 = sort_to_buckets s1 in (find_best_pck P with_component s2, s2)
      | (Bad e, s1) \<Rightarrow> (Bad e, s1)
      | (Fault, s1) \<Rightarrow> (Fault, s1))"

section \<open>The API\<close>

definition TCBManager :: "string \<Rightarrow> tcb_manager" where
  "TCBManager tcb_info = \<lparr>tcbInfoString = tcb_info, tm_tcbInfo = None, tcb_type = 0\<rparr>"

definition PCKSorter :: "byte list \<Rightarrow> u16 \<Rightarrow> u16 \<Rightarrow> string \<Rightarrow> string option list \<Rightarrow> pck_sorter" where
  "PCKSorter platform_svn pce_isvsvn pce_id tcb_info pem_certs =
     \<lparr>platformSvn = platform_svn, pceIsvSvn = pce_isvsvn, pceID = pce_id, tcbmgr = TCBManager tcb_info,
      pemCerts = pem_certs, pcks = [], ps_tcbInfo = None, buckets = []\<rparr>"

text \<open>\<open>with_component\<close>: pck_cert_select_with_component, the same code built with PCK_CERT_SELECTION_WITH_COMPONENT.\<close>

definition pck_cert_select ::
  "parsers \<Rightarrow> bool \<Rightarrow> byte list option \<Rightarrow> u16 \<Rightarrow> u16 \<Rightarrow> string option \<Rightarrow> string option list option \<Rightarrow> bool
     \<Rightarrow> (pck_cert_selection_res_t, nat) outcome" where
  "pck_cert_select P with_component platform_svn pce_isvsvn pce_id tcb_info pem_certs best_cert_index =
     (case (platform_svn, tcb_info, pem_certs) of
        (Some svn, Some info, Some certs) \<Rightarrow>
          if \<not> best_cert_index \<or> length certs = 0 then Bad PCK_CERT_SELECT_INVALID_ARG
          else fst (select_best_pck P with_component (PCKSorter svn pce_isvsvn pce_id info certs))
      | _ \<Rightarrow> Bad PCK_CERT_SELECT_INVALID_ARG)"

definition get_configure_id :: "parsers \<Rightarrow> byte list \<Rightarrow> tcb_manager \<Rightarrow> (pck_cert_selection_res_t, u32) outcome" where
  "get_configure_id P svn m =
     (case tcb_parse_wrapper P m of
        (ret, m1) \<Rightarrow> if ret \<noteq> PCK_CERT_SELECT_SUCCESS then Bad ret else extract_config_id_from_cpusvn m1 svn)"

definition platform_sgx_hw_config ::
  "parsers \<Rightarrow> byte list option \<Rightarrow> string option \<Rightarrow> bool \<Rightarrow> (pck_cert_selection_res_t, u32) outcome" where
  "platform_sgx_hw_config P platform_svn tcb_info configuration_id =
     (case (platform_svn, tcb_info) of
        (Some svn, Some info) \<Rightarrow>
          if \<not> configuration_id then Bad PCK_CERT_SELECT_INVALID_ARG else get_configure_id P svn (TCBManager info)
      | _ \<Rightarrow> Bad PCK_CERT_SELECT_INVALID_ARG)"

end
