(* ===== verification/Pck_Correct.thy ===== *)
theory Pck_Correct
  imports Pck_Select
begin

text \<open>
  What the selection promises. The comparison of TCBs is a partial order only, so the library cannot sort;
  the contract (locale \<open>tcb_order\<close>, interpreted on compare_tcb_components) is that no certificate is ever
  behind one that it is strictly above of, which is what makes the first match a maximal one.
\<close>

section \<open>Selection in a partial order\<close>

locale tcb_order =
  fixes ge :: "'a \<Rightarrow> 'a \<Rightarrow> bool"
  assumes trans: "ge a b \<Longrightarrow> ge b c \<Longrightarrow> ge a c"
begin

definition above :: "'a \<Rightarrow> 'a \<Rightarrow> bool" where
  "above a b \<longleftrightarrow> ge a b \<and> \<not> ge b a"

text \<open>No later element is strictly above an earlier one.\<close>

definition descending :: "('i \<Rightarrow> 'a) \<Rightarrow> 'i list \<Rightarrow> bool" where
  "descending key xs \<longleftrightarrow> sorted_wrt (\<lambda>x y. \<not> above (key y) (key x)) xs"

lemma above_trans: "ge a b \<Longrightarrow> above b c \<Longrightarrow> above a c"
  unfolding above_def using trans by blast

lemma above_ge: "above a b \<Longrightarrow> ge b c \<Longrightarrow> above a c"
  unfolding above_def using trans by blast

lemma descending_simps [simp]:
  "descending key []" "descending key (x # xs) \<longleftrightarrow> (\<forall>y\<in>set xs. \<not> above (key y) (key x)) \<and> descending key xs"
  by (simp_all add: descending_def)

lemma descending_append:
  "descending key (xs @ ys) \<longleftrightarrow> descending key xs \<and> descending key ys
     \<and> (\<forall>x\<in>set xs. \<forall>y\<in>set ys. \<not> above (key y) (key x))"
  by (simp add: descending_def sorted_wrt_append)

text \<open>The first match of a descending list is a maximal one.\<close>

lemma first_match_maximal:
  assumes "descending key xs" "find_in_bucket matches xs = Some i" "j \<in> set xs" "matches j"
  shows "matches i \<and> i \<in> set xs \<and> \<not> above (key j) (key i)"
  using assms by (induction xs) (auto simp: above_def split: if_splits)

text \<open>The first of the levels an element reaches; the number of levels if none.\<close>

definition first_level :: "'a list \<Rightarrow> 'a \<Rightarrow> nat" where
  "first_level levels x = length (takeWhile (\<lambda>l. \<not> ge x l) levels)"

lemma first_level_mono: "ge x y \<Longrightarrow> first_level levels x \<le> first_level levels y"
  unfolding first_level_def by (induction levels) (auto dest: trans)

text \<open>Descending buckets, one per level, are descending one after the other.\<close>

lemma buckets_descending:
  assumes "\<forall>b < length bs. descending key (bs ! b) \<and> (\<forall>x\<in>set (bs ! b). first_level levels (key x) = b + n)"
  shows "descending key (concat bs)"
  using assms
proof (induction bs arbitrary: n)
  case (Cons b bs)
  have tl: "\<forall>k < length bs. descending key (bs ! k) \<and> (\<forall>x\<in>set (bs ! k). first_level levels (key x) = k + Suc n)"
    using Cons.prems by force
  have "\<not> above (key y) (key x)" if "x \<in> set b" "y \<in> set (concat bs)" for x y
  proof -
    from that(2) obtain ys where "ys \<in> set bs" "y \<in> set ys" by auto
    then obtain k where k: "k < length bs" "y \<in> set (bs ! k)" by (auto simp: in_set_conv_nth [of ys])
    have "first_level levels (key y) = k + Suc n" using tl k by blast
    moreover have "first_level levels (key x) = n" using Cons.prems that(1) by force
    ultimately show ?thesis using first_level_mono [of "key y" "key x" levels] by (auto simp: above_def)
  qed
  moreover have "descending key b" using Cons.prems by force
  ultimately show ?case using Cons.IH [OF tl] by (auto simp: descending_append)
qed simp

end

section \<open>Buckets\<close>

lemma mset_insert_into_bucket [simp]: "mset (insert_into_bucket h x xs) = add_mset x (mset xs)"
  by (induction xs) auto

lemma set_insert_into_bucket [simp]: "set (insert_into_bucket h x xs) = insert x (set xs)"
  by (induction xs) auto

lemma find_in_buckets_concat: "find_in_buckets m bs = find_in_bucket m (concat bs)"
proof (induction bs)
  case (Cons b bs)
  have "find_in_bucket m (b @ ys) = (case find_in_bucket m b of Some i \<Rightarrow> Some i | None \<Rightarrow> find_in_bucket m ys)" for ys
    by (induction b) auto
  with Cons show ?case by (simp split: option.split)
qed simp

lemma find_in_bucket_None: "find_in_bucket m xs = None \<longleftrightarrow> (\<forall>x\<in>set xs. \<not> m x)"
  by (induction xs) auto

section \<open>The comparison\<close>

lemma compare_bytes_flags:
  assumes "length xs = length ys"
  shows "compare_bytes xs ys (l, r) = (l \<or> (\<exists>i < length xs. xs ! i < ys ! i), r \<or> (\<exists>i < length xs. xs ! i > ys ! i))"
  using assms
proof (induction xs ys arbitrary: l r rule: list_induct2)
  case (Cons x xs y ys)
  have "(\<exists>i < length (x # xs). P ((x # xs) ! i) ((y # ys) ! i)) \<longleftrightarrow> P x y \<or> (\<exists>i < length xs. P (xs ! i) (ys ! i))"
    for P :: "byte \<Rightarrow> byte \<Rightarrow> bool"
    by (auto simp: less_Suc_eq_0_disj)
  from this [of "(<)"] this [of "\<lambda>a b. a > b"] show ?case using Cons.IH by simp
qed simp

lemma tcb_ge_iff:
  "tcb_ge l r \<longleftrightarrow> length (fst l) = 16 \<and> length (fst r) = 16 \<and> snd l \<ge> snd r \<and> (\<forall>i < 16. fst l ! i \<ge> fst r ! i)"
proof (cases "length (fst l) = 16 \<and> length (fst r) = 16")
  case True
  then show ?thesis
    by (simp add: compare_tcb_components_def CPUSVN_SIZE_def compare_bytes_flags Ball_def) (meson linorder_not_less)
qed (auto simp: compare_tcb_components_def CPUSVN_SIZE_def)

interpretation tcb: tcb_order tcb_ge
  by unfold_locales (fastforce simp: tcb_ge_iff)

lemma above_strict:
  "tcb.above l r \<longleftrightarrow> tcb_ge l r \<and> l \<noteq> r"
proof -
  have "l = r" if "tcb_ge l r" "tcb_ge r l"
    using that by (auto simp: tcb_ge_iff intro!: prod_eqI nth_equalityI order.antisym)
  moreover have "tcb_ge l l" if "tcb_ge l r" "l = r" using that by simp
  ultimately show ?thesis by (auto simp: tcb.above_def)
qed

lemma insert_descending:
  assumes "tcb.descending key xs"
  shows "tcb.descending key (insert_into_bucket (\<lambda>y. tcb_ge (key x) (key y)) x xs)"
  using assms
proof (induction xs)
  case (Cons y ys)
  show ?case
  proof (cases "tcb_ge (key x) (key y)")
    case True
    with Cons.prems show ?thesis by (auto simp: tcb.above_def dest: tcb.trans)
  next
    case False
    with Cons show ?thesis by (auto simp: tcb.above_def)
  qed
qed simp

lemma level_index_first:
  "level_index x n levels = (if tcb.first_level levels x < length levels then Some (n + tcb.first_level levels x) else None)"
  by (induction levels arbitrary: n) (auto simp: tcb.first_level_def)

lemma equal_bytes_iff [simp]: "equal_bytes l r \<longleftrightarrow> l = r"
proof -
  have "length l = length r \<Longrightarrow> equal_bytes_from l r \<longleftrightarrow> l = r"
    by (induction l r rule: list_induct2) auto
  then show ?thesis by (auto simp: equal_bytes_def)
qed

section \<open>Sorting\<close>

lemma mset_concat_update:
  "b < length bs \<Longrightarrow> mset (concat (bs[b := ys])) + mset (bs ! b) = mset (concat bs) + mset ys"
  by (induction bs arbitrary: b) (auto split: nat.split simp: ac_simps)

text \<open>Every index once, in the bucket of the first level its TCB reaches, descending in each.\<close>

definition sorted_buckets :: "tcb_info \<Rightarrow> pck_certificate list \<Rightarrow> nat list \<Rightarrow> nat list list \<Rightarrow> bool" where
  "sorted_buckets t ps seen bs \<longleftrightarrow> length bs = Suc (length (ti_levels t)) \<and> mset (concat bs) = mset seen
     \<and> (\<forall>b < length bs. tcb.descending (\<lambda>i. pk_tcb (ps ! i)) (bs ! b)
          \<and> (\<forall>i\<in>set (bs ! b). tcb.first_level (ti_levels t) (pk_tcb (ps ! i)) = b))"

lemma sort_pck_sorted:
  assumes "sorted_buckets t ps seen bs"
  shows "sorted_buckets t ps (seen @ [i]) (sort_pck t ps i bs)"
proof -
  let ?x = "pk_tcb (ps ! i)" and ?key = "\<lambda>i. pk_tcb (ps ! i)"
  define b where "b = tcb.first_level (ti_levels t) ?x"
  have len: "length bs = Suc (length (ti_levels t))" using assms by (simp add: sorted_buckets_def)
  have b: "b < length bs" using len by (simp add: b_def tcb.first_level_def le_imp_less_Suc length_takeWhile_le)
  have idx: "(case level_index ?x 0 (ti_levels t) of None \<Rightarrow> length bs - 1 | Some i \<Rightarrow> i) = b"
    using b len by (auto simp: level_index_first b_def)
  have s: "sort_pck t ps i bs = bs[b := insert_into_bucket (\<lambda>cur. tcb_ge ?x (?key cur)) i (bs ! b)]"
    by (simp add: sort_pck_def idx)
  have "mset (concat (sort_pck t ps i bs)) = mset (seen @ [i])"
    using mset_concat_update [OF b, of "insert_into_bucket (\<lambda>cur. tcb_ge ?x (?key cur)) i (bs ! b)"] assms
    by (simp add: s sorted_buckets_def)
  moreover have "tcb.descending ?key (insert_into_bucket (\<lambda>cur. tcb_ge ?x (?key cur)) i (bs ! b))"
    by (rule insert_descending) (use assms b in \<open>simp add: sorted_buckets_def\<close>)
  ultimately show ?thesis
    using assms b by (auto simp: sorted_buckets_def s nth_list_update b_def)
qed

lemma fold_sort_pck_sorted:
  "sorted_buckets t ps seen bs \<Longrightarrow> sorted_buckets t ps (seen @ js) (fold (sort_pck t ps) js bs)"
proof (induction js arbitrary: seen bs)
  case (Cons i js)
  from Cons.IH [OF sort_pck_sorted [OF Cons.prems, of i]] show ?case by simp
qed simp

lemma sort_to_buckets_sorted:
  assumes "buckets s = []"
  shows "sorted_buckets (the (ps_tcbInfo s)) (pcks s) [0..<length (pcks s)] (buckets (sort_to_buckets s))"
proof -
  have "concat (replicate n []) = []" for n by (induction n) auto
  then have "sorted_buckets (the (ps_tcbInfo s)) (pcks s) []
      (resize_buckets (length (ti_levels (the (ps_tcbInfo s))) + 1) (buckets s))"
    using assms by (simp add: sorted_buckets_def resize_buckets_def del: replicate_Suc)
  from fold_sort_pck_sorted [OF this] show ?thesis by (simp add: sort_to_buckets_def Let_def)
qed

lemma sorted_concat:
  assumes "sorted_buckets t ps seen bs"
  shows "tcb.descending (\<lambda>i. pk_tcb (ps ! i)) (concat bs)" "set (concat bs) = set seen"
  using tcb.buckets_descending [of bs "\<lambda>i. pk_tcb (ps ! i)" "ti_levels t" 0] assms
    mset_eq_setD [of "concat bs" seen]
  by (auto simp: sorted_buckets_def)

section \<open>Validation\<close>

definition valid_pck :: "bool \<Rightarrow> pck_sorter \<Rightarrow> tcb_info \<Rightarrow> pck_certificate \<Rightarrow> bool" where
  "valid_pck with_component s t c \<longleftrightarrow> pk_version c = PCK_CERT_VERSION
     \<and> (with_component \<or> snd (decompose_cpusvn_components (tcbmgr s) (pk_cpusvn c)) = fst (pk_tcb c))
     \<and> 2 \<le> length (pk_pce_id c) \<and> pce_id_value (pk_pce_id c) = uint (pceID s) \<and> pk_fmspc c = ti_fmspc t"

definition parsed :: "parsers \<Rightarrow> string option \<Rightarrow> pck_certificate \<Rightarrow> bool" where
  "parsed P pem c \<longleftrightarrow> (\<exists>x. pem = Some x \<and> parse_pck P x = Some c)"

definition same_ppid :: "byte list option \<Rightarrow> pck_certificate list \<Rightarrow> bool" where
  "same_ppid ppid cs \<longleftrightarrow> (case ppid of Some p \<Rightarrow> \<forall>c\<in>set cs. pk_ppid c = p
     | None \<Rightarrow> \<forall>c\<in>set cs. pk_ppid c = pk_ppid (hd cs))"

lemma parse_pcks_Good_iff:
  "parse_pcks P wc s t ppid acc certs = Good cs
   \<longleftrightarrow> (\<exists>new. cs = acc @ new \<and> list_all2 (parsed P) certs new \<and> (\<forall>c\<in>set new. valid_pck wc s t c) \<and> same_ppid ppid new)"
proof (induction P wc s t ppid acc certs rule: parse_pcks.induct)
  case (3 P wc s t ppid acc pem rest)
  have ex: "(\<exists>new. cs = acc @ new \<and> list_all2 (parsed P) (Some pem # rest) new \<and> Q new)
      \<longleftrightarrow> (\<exists>c new. parse_pck P pem = Some c \<and> cs = (acc @ [c]) @ new \<and> list_all2 (parsed P) rest new \<and> Q (c # new))" for Q
    by (auto simp: list_all2_Cons1 parsed_def)
  show ?case
    unfolding ex using 3 by (cases ppid) (auto simp: valid_pck_def same_ppid_def split: option.splits)
qed (auto simp: same_ppid_def parsed_def list_all2_Cons1 split: option.splits)

text \<open>What the inputs have to be.\<close>

definition valid_tcb_info :: "parsers \<Rightarrow> u16 \<Rightarrow> string \<Rightarrow> tcb_info \<Rightarrow> bool" where
  "valid_tcb_info P pce_id info t \<longleftrightarrow> parse_tcb_info P info = Some t \<and> supported_version P t \<and> ti_tcb_type t = 0
     \<and> 2 \<le> length (ti_pce_id t) \<and> pce_id_value (ti_pce_id t) = uint pce_id"

definition valid_input ::
  "parsers \<Rightarrow> bool \<Rightarrow> u16 \<Rightarrow> string \<Rightarrow> string option list \<Rightarrow> tcb_info \<Rightarrow> pck_certificate list \<Rightarrow> bool" where
  "valid_input P with_component pce_id info certs t cs \<longleftrightarrow> valid_tcb_info P pce_id info t
     \<and> list_all2 (parsed P) certs cs \<and> same_ppid None cs
     \<and> (\<forall>c\<in>set cs. pk_version c = 3 \<and> (with_component \<or> pk_cpusvn c = fst (pk_tcb c)) \<and> 2 \<le> length (pk_pce_id c)
          \<and> pce_id_value (pk_pce_id c) = uint pce_id \<and> pk_fmspc c = ti_fmspc t)"

lemma valid_pck_type0:
  "tcb_type (tcbmgr s) = 0 \<Longrightarrow> valid_pck wc s t c \<longleftrightarrow> pk_version c = 3 \<and> (wc \<or> pk_cpusvn c = fst (pk_tcb c))
     \<and> 2 \<le> length (pk_pce_id c) \<and> pce_id_value (pk_pce_id c) = uint (pceID s) \<and> pk_fmspc c = ti_fmspc t"
  by (simp add: valid_pck_def decompose_cpusvn_components_def PCK_CERT_VERSION_def)

text \<open>The validation of a fresh sorter.\<close>

lemma parse_input_fresh:
  assumes "parse_input_tcb_and_pcks P wc (PCKSorter svn isv pce_id info certs) = (r, s)"
  shows "r = Good () \<longleftrightarrow> (\<exists>t cs. valid_input P wc pce_id info certs t cs)"
    "r \<noteq> Good () \<Longrightarrow> pcks s = []"
    "r = Good () \<Longrightarrow> valid_input P wc pce_id info certs (the (ps_tcbInfo s)) (pcks s) \<and> buckets s = []
       \<and> platformSvn s = svn \<and> pceIsvSvn s = isv \<and> tcb_type (tcbmgr s) = 0"
proof -
  define s0 where "s0 = PCKSorter svn isv pce_id info certs"
  note fresh = s0_def PCKSorter_def TCBManager_def
  have "(r = Good () \<longleftrightarrow> (\<exists>t cs. valid_input P wc pce_id info certs t cs)) \<and> (r \<noteq> Good () \<longrightarrow> pcks s = [])
    \<and> (r = Good () \<longrightarrow> valid_input P wc pce_id info certs (the (ps_tcbInfo s)) (pcks s) \<and> buckets s = []
       \<and> platformSvn s = svn \<and> pceIsvSvn s = isv \<and> tcb_type (tcbmgr s) = 0)"
  proof (cases "\<exists>t. parse_tcb_info P info = Some t \<and> supported_version P t \<and> ti_tcb_type t = 0")
    case True
    then obtain t where t: "parse_tcb_info P info = Some t" "supported_version P t" "ti_tcb_type t = 0" by blast
    define s1 where "s1 = s0\<lparr>tcbmgr := \<lparr>tcbInfoString = info, tm_tcbInfo = Some t, tcb_type = 0\<rparr>, ps_tcbInfo := Some t\<rparr>"
    have s1: "pcks s1 = []" "buckets s1 = []" "pceID s1 = pce_id" "pemCerts s1 = certs" "ps_tcbInfo s1 = Some t"
      "tcb_type (tcbmgr s1) = 0" "platformSvn s1 = svn" "pceIsvSvn s1 = isv"
      by (simp_all add: s1_def fresh)
    have p: "parse_input_tcb P s0 = (PCK_CERT_SELECT_SUCCESS, s1)"
      using t by (simp add: parse_input_tcb_def tcb_parse_wrapper_def Let_def s1_def fresh)
    have iff: "parse_pcks P wc s1 t None [] certs = Good cs \<longleftrightarrow> list_all2 (parsed P) certs cs \<and> same_ppid None cs
        \<and> (\<forall>c\<in>set cs. valid_pck wc s1 t c)" for cs
      unfolding parse_pcks_Good_iff by auto
    note v = valid_input_def valid_tcb_info_def valid_pck_type0 [OF s1(6)] s1(3)
    have r: "(if length (ti_pce_id t) < 2 then (Fault, s1)
          else if pce_id_value (ti_pce_id t) \<noteq> uint pce_id then (Bad PCK_CERT_SELECT_INVALID_TCB_PCEID, s1)
          else (case parse_pcks P wc s1 t None [] certs of Good cs \<Rightarrow> (Good (), s1\<lparr>pcks := cs\<rparr>)
                | Bad e \<Rightarrow> (Bad e, s1\<lparr>pcks := []\<rparr>) | Fault \<Rightarrow> (Fault, s1))) = (r, s)"
      using assms by (simp add: parse_input_tcb_and_pcks_def s0_def [symmetric] p s1 cong: if_cong)
    have good: "r = Good () \<longleftrightarrow> 2 \<le> length (ti_pce_id t) \<and> pce_id_value (ti_pce_id t) = uint pce_id
        \<and> (\<exists>cs. parse_pcks P wc s1 t None [] certs = Good cs \<and> s = s1\<lparr>pcks := cs\<rparr>)"
      using r by (auto split: if_splits outcome.splits)
    then have "r = Good () \<longrightarrow> valid_input P wc pce_id info certs (the (ps_tcbInfo s)) (pcks s) \<and> buckets s = []
       \<and> platformSvn s = svn \<and> pceIsvSvn s = isv \<and> tcb_type (tcbmgr s) = 0"
      using t s1 by (auto simp: v iff)
    moreover have "r \<noteq> Good () \<longrightarrow> pcks s = []" using r s1(1) by (auto split: if_splits outcome.splits)
    moreover have "r = Good ()" if "valid_input P wc pce_id info certs t' cs" for t' cs
      using that t iff [of cs] r by (auto simp: v)
    moreover have "\<exists>t cs. valid_input P wc pce_id info certs t cs" if "r = Good ()"
      using that good t by (auto simp: v iff)
    ultimately show ?thesis by blast
  next
    case False
    then have "r \<noteq> Good () \<and> pcks s = []"
      using assms by (auto simp: parse_input_tcb_and_pcks_def parse_input_tcb_def tcb_parse_wrapper_def Let_def
          PCKSorter_def TCBManager_def split: option.splits if_splits)
    with False show ?thesis by (auto simp: valid_input_def valid_tcb_info_def)
  qed
  then show "r = Good () \<longleftrightarrow> (\<exists>t cs. valid_input P wc pce_id info certs t cs)" "r \<noteq> Good () \<Longrightarrow> pcks s = []"
    "r = Good () \<Longrightarrow> valid_input P wc pce_id info certs (the (ps_tcbInfo s)) (pcks s) \<and> buckets s = []
       \<and> platformSvn s = svn \<and> pceIsvSvn s = isv \<and> tcb_type (tcbmgr s) = 0"
    by blast+
qed

section \<open>Properties\<close>

text \<open>The order of TCBs: all 16 components and the PCESVN.\<close>

definition at_least :: "tcb \<Rightarrow> tcb \<Rightarrow> bool" where
  "at_least l r \<longleftrightarrow> length (fst l) = 16 \<and> length (fst r) = 16 \<and> snd l \<ge> snd r \<and> (\<forall>i < 16. fst l ! i \<ge> fst r ! i)"

definition strictly_above :: "tcb \<Rightarrow> tcb \<Rightarrow> bool" where
  "strictly_above l r \<longleftrightarrow> at_least l r \<and> l \<noteq> r"

lemma tcb_ge_at_least: "tcb_ge l r \<longleftrightarrow> at_least l r"
  by (simp add: tcb_ge_iff at_least_def)

lemma above_iff: "tcb.above l r \<longleftrightarrow> strictly_above l r"
  by (simp add: above_strict strictly_above_def tcb_ge_at_least [of l r])

lemma valid_input_unique:
  "valid_input P wc pce_id info certs t cs \<Longrightarrow> valid_input P wc pce_id info certs t' cs' \<Longrightarrow> t' = t \<and> cs' = cs"
  by (auto simp: valid_input_def valid_tcb_info_def list_all2_conv_all_nth parsed_def intro!: nth_equalityI) force

text \<open>A call with valid inputs runs find_best_pck on the sorted certificates.\<close>

lemma select_valid:
  assumes "valid_input P wc pce_id info certs t cs"
  shows "\<exists>bs. sorted_buckets t cs [0..<length cs] bs \<and>
    fst (select_best_pck P wc (PCKSorter svn isv pce_id info certs)) =
      (case find_in_bucket (\<lambda>i. at_least (svn, uint isv) (pk_tcb (cs ! i))) (concat bs) of
         Some i \<Rightarrow> Good i | None \<Rightarrow> Bad PCK_CERT_SELECT_PCK_NOT_FOUND)"
proof -
  obtain r s where p: "parse_input_tcb_and_pcks P wc (PCKSorter svn isv pce_id info certs) = (r, s)" by fastforce
  note pf = parse_input_fresh [OF p]
  have r: "r = Good ()" using pf(1) assms by blast
  have s: "the (ps_tcbInfo s) = t" "pcks s = cs" "buckets s = []" "platformSvn s = svn" "pceIsvSvn s = isv"
    "tcb_type (tcbmgr s) = 0"
    using pf(3) [OF r] valid_input_unique [OF assms] by auto
  let ?s = "sort_to_buckets s"
  have k: "the (ps_tcbInfo ?s) = t" "pcks ?s = cs" "platformSvn ?s = svn" "pceIsvSvn ?s = isv" "tcb_type (tcbmgr ?s) = 0"
    using s by (simp_all add: sort_to_buckets_def Let_def)
  have "sorted_buckets t cs [0..<length cs] (buckets ?s)" using sort_to_buckets_sorted [OF s(3)] s by simp
  moreover have "supported_version P t" using assms by (simp add: valid_input_def valid_tcb_info_def)
  moreover have "fst (select_best_pck P wc (PCKSorter svn isv pce_id info certs)) = find_best_pck P wc ?s"
    unfolding select_best_pck_def p r prod.case outcome.case old.unit.case Let_def fst_conv ..
  ultimately show ?thesis
    by (intro exI [of _ "buckets ?s"])
      (simp add: find_best_pck_def k decompose_cpusvn_components_def find_in_buckets_concat
        tcb_ge_at_least)
qed

lemma find_in_bucket_Some: "find_in_bucket m xs = Some i \<Longrightarrow> i \<in> set xs \<and> m i"
  by (induction xs) (auto split: if_splits)

text \<open>C26. With valid inputs the call returns the index of a certificate whose TCB the platform reaches, and no other
  certificate the platform reaches is strictly above it; it answers PCK_CERT_SELECT_PCK_NOT_FOUND exactly if the platform
  reaches none of them.\<close>

theorem selected_pck_is_maximal:
  assumes "valid_input P wc pce_id info certs t cs" "certs \<noteq> []"
  shows "case pck_cert_select P wc (Some svn) isv pce_id (Some info) (Some certs) True of
      Good i \<Rightarrow> i < length cs \<and> at_least (svn, uint isv) (pk_tcb (cs ! i))
        \<and> (\<forall>j < length cs. at_least (svn, uint isv) (pk_tcb (cs ! j)) \<longrightarrow> \<not> strictly_above (pk_tcb (cs ! j)) (pk_tcb (cs ! i)))
    | Bad e \<Rightarrow> e = PCK_CERT_SELECT_PCK_NOT_FOUND \<and> (\<forall>j < length cs. \<not> at_least (svn, uint isv) (pk_tcb (cs ! j)))
    | Fault \<Rightarrow> False"
proof -
  let ?m = "\<lambda>i. at_least (svn, uint isv) (pk_tcb (cs ! i))"
  obtain bs where bs: "sorted_buckets t cs [0..<length cs] bs"
      "fst (select_best_pck P wc (PCKSorter svn isv pce_id info certs)) =
      (case find_in_bucket ?m (concat bs) of Some i \<Rightarrow> Good i | None \<Rightarrow> Bad PCK_CERT_SELECT_PCK_NOT_FOUND)"
    using select_valid [OF assms(1)] by blast
  note c = sorted_concat [OF bs(1)]
  show ?thesis
  proof (cases "find_in_bucket ?m (concat bs)")
    case None
    then show ?thesis using find_in_bucket_None [of ?m "concat bs"] assms(2)
      unfolding c(2) by (simp add: pck_cert_select_def bs(2))
  next
    case (Some i)
    then show ?thesis
      using tcb.first_match_maximal [OF c(1) Some, unfolded c(2)] find_in_bucket_Some [OF Some, unfolded c(2)] assms(2)
      by (simp add: pck_cert_select_def bs(2) above_iff)
  qed
qed

lemma parse_pcks_not_not_found: "parse_pcks P wc s t ppid acc certs \<noteq> Bad PCK_CERT_SELECT_PCK_NOT_FOUND"
  by (induction P wc s t ppid acc certs rule: parse_pcks.induct) (auto split: option.splits)

lemma parse_input_not_not_found: "fst (parse_input_tcb_and_pcks P wc s) \<noteq> Bad PCK_CERT_SELECT_PCK_NOT_FOUND"
  by (auto simp: parse_input_tcb_and_pcks_def parse_input_tcb_def tcb_parse_wrapper_def Let_def parse_pcks_not_not_found
      split: option.splits if_splits outcome.splits prod.splits)

text \<open>The inputs are accepted, that is the call returns an index or PCK_CERT_SELECT_PCK_NOT_FOUND, exactly if
  there is a certificate, the TCB info and all certificates parse, and they have the supported versions and TCB type,
  the PCE id of the caller, one FMSPC and one PPID; a failed validation leaves no certificate in the sorter.\<close>

theorem only_valid_inputs_accepted:
  "((\<exists>i. pck_cert_select P wc (Some svn) isv pce_id (Some info) (Some certs) True \<in> {Good i, Bad PCK_CERT_SELECT_PCK_NOT_FOUND})
      \<longleftrightarrow> certs \<noteq> [] \<and> (\<exists>t cs. valid_input P wc pce_id info certs t cs))
   \<and> (case parse_input_tcb_and_pcks P wc (PCKSorter svn isv pce_id info certs) of
        (r, s) \<Rightarrow> r = Good () \<or> pcks s = [])"
proof -
  obtain r s where p: "parse_input_tcb_and_pcks P wc (PCKSorter svn isv pce_id info certs) = (r, s)" by fastforce
  note pf = parse_input_fresh [OF p]
  have "\<exists>i. fst (select_best_pck P wc (PCKSorter svn isv pce_id info certs)) \<in> {Good i, Bad PCK_CERT_SELECT_PCK_NOT_FOUND}"
    if "valid_input P wc pce_id info certs t cs" for t cs
    using select_valid [OF that, of svn isv] by (auto split: option.splits)
  moreover have "fst (select_best_pck P wc (PCKSorter svn isv pce_id info certs)) \<noteq> Good i
      \<and> fst (select_best_pck P wc (PCKSorter svn isv pce_id info certs)) \<noteq> Bad PCK_CERT_SELECT_PCK_NOT_FOUND"
    if "r \<noteq> Good ()" for i
    using that parse_input_not_not_found [of P wc "PCKSorter svn isv pce_id info certs"] p
    by (auto simp: select_best_pck_def split: outcome.splits)
  ultimately have "(\<exists>i. fst (select_best_pck P wc (PCKSorter svn isv pce_id info certs)) \<in> {Good i, Bad PCK_CERT_SELECT_PCK_NOT_FOUND})
      \<longleftrightarrow> (\<exists>t cs. valid_input P wc pce_id info certs t cs)"
    using pf(1) by blast
  then show ?thesis using pf(2) p by (cases "certs = []") (auto simp: pck_cert_select_def)
qed

lemma first_level_reached:
  "(tcb.first_level levels x < length levels \<longrightarrow> tcb_ge x (levels ! tcb.first_level levels x))
   \<and> (\<forall>l < tcb.first_level levels x. \<not> tcb_ge x (levels ! l))"
  unfolding tcb.first_level_def by (induction levels) (auto simp: less_Suc_eq_0_disj)

text \<open>C27. Sorting puts every certificate once into the buckets, in the bucket of the first TCB level it reaches (the
  last bucket if none), and behind no certificate of its bucket that it is strictly above of.\<close>

theorem buckets_hold_every_certificate:
  assumes "buckets s = []"
  shows "let bs = buckets (sort_to_buckets s); levels = ti_levels (the (ps_tcbInfo s)); key = \<lambda>i. pk_tcb (pcks s ! i) in
    length bs = length levels + 1 \<and> mset (concat bs) = mset [0..<length (pcks s)]
    \<and> (\<forall>b < length bs. \<forall>i\<in>set (bs ! b). (b < length levels \<longrightarrow> at_least (key i) (levels ! b))
         \<and> (\<forall>l < b. \<not> at_least (key i) (levels ! l)))
    \<and> (\<forall>b < length bs. sorted_wrt (\<lambda>i j. \<not> strictly_above (key j) (key i)) (bs ! b))"
proof -
  have A: "at_least x (levels ! b)" if "tcb.first_level levels x = b" "b < length levels" for b x levels
    using that first_level_reached [of levels x] by (auto simp: tcb_ge_at_least)
  have B: "\<not> at_least x (levels ! l)" if "tcb.first_level levels x = b" "l < b" for b x levels l
    using that first_level_reached [of levels x] tcb_ge_at_least [of x "levels ! l"] by auto
  note s = sort_to_buckets_sorted [OF assms, unfolded sorted_buckets_def tcb.descending_def above_iff]
  show ?thesis unfolding Let_def by (intro conjI allI ballI impI A B) (use s in auto)
qed

text \<open>The two-byte PCE ids are read into an int16_t and compared with the uint16_t of the caller: for a PCE id from
  0x8000 up every call is refused, whatever the TCB info and the certificates hold.\<close>

theorem high_pce_id_always_refused:
  assumes "0x8000 \<le> pce_id" "parse_tcb_info P info = Some t" "supported_version P t" "ti_tcb_type t = 0"
    "2 \<le> length (ti_pce_id t)" "certs \<noteq> []"
  shows "pck_cert_select P wc (Some svn) isv pce_id (Some info) (Some certs) True = Bad PCK_CERT_SELECT_INVALID_TCB_PCEID"
proof -
  have "0x8000 \<le> uint pce_id" using assms(1) by (simp add: word_le_def)
  moreover have "pce_id_value bs < 0x8000" for bs
    using sint_lt [of "word_of_int (uint (bs ! 0) * 256 + uint (bs ! 1)) :: u16"] by (simp add: pce_id_value_def)
  ultimately have "pce_id_value (ti_pce_id t) \<noteq> uint pce_id" by (metis linorder_not_less)
  then show ?thesis
    using assms(2-) by (simp add: pck_cert_select_def select_best_pck_def parse_input_tcb_and_pcks_def parse_input_tcb_def
        tcb_parse_wrapper_def PCKSorter_def TCBManager_def Let_def)
qed

section \<open>A platform with two certificates\<close>

definition demo_level :: "byte \<Rightarrow> tcb" where
  "demo_level x = (x # replicate 15 0, 10)"

definition demo_pck :: "byte \<Rightarrow> pck_certificate" where
  "demo_pck x = \<lparr>pk_version = 3, pk_cpusvn = x # replicate 15 0, pk_tcb = demo_level x, pk_pce_id = [0, 1], pk_fmspc = [7],
     pk_ppid = [9]\<rparr>"

definition demo_tcb_info :: tcb_info where
  "demo_tcb_info = \<lparr>ti_version = 3, ti_tcb_type = 0, ti_pce_id = [0, 1], ti_fmspc = [7], ti_levels = [demo_level 4]\<rparr>"

definition demo_parsers :: parsers where
  "demo_parsers = \<lparr>parse_tcb_info = (\<lambda>s. if s = ''tcb'' then Some demo_tcb_info else None),
     parse_pck = (\<lambda>s. if s = ''low'' then Some (demo_pck 3) else if s = ''high'' then Some (demo_pck 5) else None),
     version_v2 = 2, version_v3 = 3\<rparr>"

lemmas demo_pck_defs = demo_level_def demo_pck_def demo_tcb_info_def demo_parsers_def

lemma demo_valid_input: "valid_input demo_parsers False 1 ''tcb'' [Some ''low'', Some ''high''] demo_tcb_info [demo_pck 3, demo_pck 5]"
  by (simp add: valid_input_def valid_tcb_info_def parsed_def same_ppid_def supported_version_def pce_id_value_def demo_pck_defs)

lemma demo_at_least: "at_least (demo_level 6) (demo_level 3) \<and> at_least (demo_level 6) (demo_level 5)
    \<and> at_least (demo_level 5) (demo_level 3)"
  by (simp add: at_least_def demo_level_def nth_Cons split: nat.split)

theorem selected_pck_is_maximal_witness:
  "pck_cert_select demo_parsers False (Some (6 # replicate 15 0)) 10 1 (Some ''tcb'') (Some [Some ''low'', Some ''high'']) True = Good 1"
proof -
  have l: "(6 # replicate 15 0, uint (10 :: u16)) = demo_level 6" by (simp add: demo_level_def)
  have p: "pk_tcb ([demo_pck 3, demo_pck 5] ! 0) = demo_level 3" "pk_tcb ([demo_pck 3, demo_pck 5] ! 1) = demo_level 5"
    by (simp_all add: demo_pck_def)
  have a: "strictly_above (demo_level 5) (demo_level 3)"
    using demo_at_least by (simp add: strictly_above_def) (simp add: demo_level_def)
  show ?thesis
    using selected_pck_is_maximal [OF demo_valid_input, of "6 # replicate 15 0" 10, unfolded l] p a demo_at_least
    by (auto split: outcome.splits simp: less_2_cases_iff numeral_2_eq_2 less_Suc_eq)
qed

theorem buckets_hold_every_certificate_witness:
  "let s = (PCKSorter [] 10 1 [] [])\<lparr>ps_tcbInfo := Some demo_tcb_info, pcks := [demo_pck 3, demo_pck 5]\<rparr> in
     length (buckets (sort_to_buckets s)) = 2 \<and> set (concat (buckets (sort_to_buckets s))) = {0, 1}"
proof -
  define s where "s = (PCKSorter [] 10 1 [] [])\<lparr>ps_tcbInfo := Some demo_tcb_info, pcks := [demo_pck 3, demo_pck 5]\<rparr>"
  have "buckets s = []" "length (pcks s) = 2" "length (ti_levels (the (ps_tcbInfo s))) = 1"
    by (simp_all add: s_def PCKSorter_def demo_tcb_info_def)
  from buckets_hold_every_certificate [OF this(1)] this(2,3)
  have "length (buckets (sort_to_buckets s)) = 2" "mset (concat (buckets (sort_to_buckets s))) = mset [0..<2]"
    unfolding Let_def by auto
  moreover have "set [0..<2 :: nat] = {0, 1}" by auto
  ultimately show ?thesis unfolding s_def [symmetric] Let_def using mset_eq_setD by metis
qed

theorem high_pce_id_always_refused_witness:
  "let P = demo_parsers\<lparr>parse_tcb_info := (\<lambda>_. Some (demo_tcb_info\<lparr>ti_pce_id := [0x80, 1]\<rparr>))\<rparr> in
     pck_cert_select P False (Some (replicate 16 9)) 10 0x8001 (Some ''tcb'') (Some [Some ''low'']) True
       = Bad PCK_CERT_SELECT_INVALID_TCB_PCEID"
  using high_pce_id_always_refused [of "0x8001" "demo_parsers\<lparr>parse_tcb_info := (\<lambda>_. Some (demo_tcb_info\<lparr>ti_pce_id := [0x80, 1]\<rparr>))\<rparr>"
      "''tcb''" "demo_tcb_info\<lparr>ti_pce_id := [0x80, 1]\<rparr>" "[Some ''low'']" False "replicate 16 9" 10]
  by (simp add: supported_version_def demo_parsers_def demo_tcb_info_def)

end
