(* ===== verification/Servtd.thy ===== *)
theory Servtd
  imports Tdx_Flow
begin

text \<open>
  Attestation inside a service TD: tdx_att_get_quote_by_report (tdx_attest.c, SERVTD_ATTEST),
  tdx_att_get_collateral and tdx_att_free_collateral (tdx_verify.c), and the wrapper
  (servtd_attest_wrapper.cpp) with its one-time heap initialisation.

  servtd_get_quote, the TDVMCALL provided by the service TD's core, is not part of the repository:
  it is the field \<open>sv_get_quote\<close>, as are strncpy_s (\<open>sv_strncpy_s src\<close>: what copying the \<open>n\<close> bytes
  \<open>src\<close> into a fresh block of \<open>n\<close> bytes leaves there) and do_verify_quote_integrity.
\<close>

section \<open>servtd_com.h and tdx_verify.h\<close>

definition SERVTD_HEADER_SIZE :: nat where "SERVTD_HEADER_SIZE = 4"
definition SERVTD_REQ_BUF_SIZE :: nat where "SERVTD_REQ_BUF_SIZE = 16 * 4 * 1024"
abbreviation "sizeof_servtd_tdx_quote_hdr \<equiv> (24 :: nat)"

datatype tdx_verify_error_t =
    TDX_VERIFY_ERROR_UNEXPECTED | TDX_VERIFY_ERROR_INVALID_PARAMETER | TDX_VERIFY_ERROR_OUT_OF_MEMORY
  | TDX_VERIFY_ERROR_VSOCK_FAILURE | TDX_VERIFY_ERROR_REPORT_FAILURE | TDX_VERIFY_ERROR_EXTEND_FAILURE
  | TDX_VERIFY_ERROR_NOT_SUPPORTED | TDX_VERIFY_ERROR_QUOTE_FAILURE | TDX_VERIFY_ERROR_BUSY

fun tdx_verify_error_code :: "tdx_verify_error_t \<Rightarrow> nat" where
  "tdx_verify_error_code TDX_VERIFY_ERROR_UNEXPECTED = 0x0001"
| "tdx_verify_error_code TDX_VERIFY_ERROR_INVALID_PARAMETER = 0x0002"
| "tdx_verify_error_code TDX_VERIFY_ERROR_OUT_OF_MEMORY = 0x0003"
| "tdx_verify_error_code TDX_VERIFY_ERROR_VSOCK_FAILURE = 0x0004"
| "tdx_verify_error_code TDX_VERIFY_ERROR_REPORT_FAILURE = 0x0005"
| "tdx_verify_error_code TDX_VERIFY_ERROR_EXTEND_FAILURE = 0x0006"
| "tdx_verify_error_code TDX_VERIFY_ERROR_NOT_SUPPORTED = 0x0007"
| "tdx_verify_error_code TDX_VERIFY_ERROR_QUOTE_FAILURE = 0x0008"
| "tdx_verify_error_code TDX_VERIFY_ERROR_BUSY = 0x0009"

record servtd_env =
  sv_blob_mem :: bool
  sv_blob_junk :: "byte list"
  sv_req_mem :: bool
  sv_get_quote :: "tdx_quote_hdr \<Rightarrow> int \<times> tdx_quote_hdr"
  sv_coll_mem :: bool
  sv_field_mem :: "nat \<Rightarrow> bool"
  sv_strncpy_s :: "byte list \<Rightarrow> byte list"

section \<open>The request\<close>

text \<open>Both clients frame their request in a fresh blob; \<open>None\<close> is a write outside it.\<close>

definition servtd_capacity :: nat where
  "servtd_capacity = SERVTD_REQ_BUF_SIZE - sizeof_servtd_tdx_quote_hdr - SERVTD_HEADER_SIZE"

definition servtd_request :: "byte list \<Rightarrow> byte list \<Rightarrow> tdx_quote_hdr option" where
  "servtd_request junk req =
     (let msg_size = len32 req in
      Option.bind (bwrite 0 (be32_bytes msg_size)
          (array_of (SERVTD_REQ_BUF_SIZE - sizeof_servtd_tdx_quote_hdr) junk)) (\<lambda>d1.
      Option.bind (bwrite SERVTD_HEADER_SIZE req d1) (\<lambda>d2.
      Some \<lparr>qh_version = 1, qh_status = 0, qh_in_len = word_of_nat SERVTD_HEADER_SIZE + msg_size,
        qh_out_len = 0, qh_data = d2\<rparr>)))"

section \<open>Quote by report\<close>

text \<open>
  From the return of servtd_get_quote on: the status, and the quote to copy into the caller's
  buffer.
\<close>

definition servtd_extract_quote :: "tdx_quote_hdr \<Rightarrow> u32 \<Rightarrow> byte list tdx_outcome" where
  "servtd_extract_quote blob p_quote_size =
     (if qh_status blob \<noteq> 0 \<or> unat (qh_out_len blob) \<le> SERVTD_HEADER_SIZE then
        (if GET_QUOTE_IN_FLIGHT = qh_status blob then Bad TDX_ATTEST_ERROR_BUSY
         else if GET_QUOTE_SERVICE_UNAVAILABLE = qh_status blob then Bad TDX_ATTEST_ERROR_NOT_SUPPORTED
         else Bad TDX_ATTEST_ERROR_UNEXPECTED)
      else if length (qh_data blob) < SERVTD_HEADER_SIZE then Fault
      else let in_msg_size = be32_fold 0 (take SERVTD_HEADER_SIZE (qh_data blob));
               msg = drop SERVTD_HEADER_SIZE (qh_data blob) in
        if in_msg_size \<noteq> qh_out_len blob - word_of_nat SERVTD_HEADER_SIZE
        then Bad TDX_ATTEST_ERROR_UNEXPECTED
        else (case qgs_msg_inflate_get_quote_resp (Some msg) in_msg_size True of
            Fault \<Rightarrow> Fault
          | Bad _ \<Rightarrow> Bad TDX_ATTEST_ERROR_UNEXPECTED
          | Good ((p_selected_id, id_size), (tmp_p_quote, quote_size)) \<Rightarrow>
              if h_error_code (header_of msg) \<noteq> 0 then Bad TDX_ATTEST_ERROR_UNEXPECTED
              else if quote_size > p_quote_size then Bad TDX_ATTEST_ERROR_OUT_OF_MEMORY
              else (case slice_bytes msg (tmp_p_quote, quote_size) of
                      None \<Rightarrow> Fault | Some quote \<Rightarrow> Good quote)))"

text \<open>
  \<open>p_quote\<close> is the caller's buffer and \<open>p_quote_size\<close> what its size parameter points to; the result
  is the status, both afterwards, and the log.
\<close>

definition tdx_att_get_quote_by_report ::
  "servtd_env \<Rightarrow> byte list option \<Rightarrow> u32 \<Rightarrow> byte list option \<Rightarrow> u32 option
     \<Rightarrow> unit tdx_outcome \<times> byte list option \<times> u32 option \<times> event list" where
  "tdx_att_get_quote_by_report w p_tdx_report tdx_report_size p_quote p_quote_size =
     (let fail = (\<lambda>e l. (Bad e, p_quote, p_quote_size, l)); fault = (\<lambda>l. (Fault, p_quote, p_quote_size, l)) in
      if p_tdx_report = None \<or> word_of_nat TDX_REPORT_SIZE \<noteq> tdx_report_size
      then fail TDX_ATTEST_ERROR_INVALID_PARAMETER []
      else (case (p_quote, p_quote_size) of
        (Some buffer, Some capacity) \<Rightarrow>
          if capacity = 0 then fail TDX_ATTEST_ERROR_INVALID_PARAMETER []
          else if \<not> sv_blob_mem w then fail TDX_ATTEST_ERROR_OUT_OF_MEMORY []
          else (case qgs_msg_gen_get_quote_req p_tdx_report tdx_report_size None 0 True (sv_req_mem w) of
              Fault \<Rightarrow> fault [Acquire Blob_mem]
            | Bad _ \<Rightarrow> fail TDX_ATTEST_ERROR_UNEXPECTED [Acquire Blob_mem, Release Blob_mem]
            | Good req \<Rightarrow>
                let l = [Acquire Blob_mem, Acquire Req_mem]; l' = [Release Req_mem, Release Blob_mem] in
                if unat (len32 req) > servtd_capacity then fail TDX_ATTEST_ERROR_NOT_SUPPORTED (l @ l')
                else (case servtd_request (sv_blob_junk w) req of
                    None \<Rightarrow> fault l
                  | Some blob \<Rightarrow>
                      let (servtd_get_quote_ret, blob') = sv_get_quote w blob;
                          l2 = l @ [Tdcall_ioctl blob] in
                      if servtd_get_quote_ret \<noteq> 0 then fail TDX_ATTEST_ERROR_QUOTE_FAILURE (l2 @ l')
                      else (case servtd_extract_quote blob' capacity of
                          Fault \<Rightarrow> fault l2
                        | Bad e \<Rightarrow> fail e (l2 @ l')
                        | Good quote \<Rightarrow>
                            (case bwrite 0 quote buffer of
                               None \<Rightarrow> fault l2
                             | Some buffer' \<Rightarrow> (Good (), Some buffer', Some (len32 quote), l2 @ l')))))
      | _ \<Rightarrow> fail TDX_ATTEST_ERROR_INVALID_PARAMETER []))"

section \<open>Collateral\<close>

text \<open>The structure of sgx_ql_lib_common.h; each string is a pointer (\<open>None\<close> is NULL) and a size.\<close>

record tdx_ql_qve_collateral_t =
  co_major_version :: u16
  co_minor_version :: u16
  co_tee_type :: u32
  co_pck_crl_issuer_chain :: blob
  co_root_ca_crl :: blob
  co_pck_crl :: blob
  co_tcb_info_issuer_chain :: blob
  co_tcb_info :: blob
  co_qe_identity_issuer_chain :: blob
  co_qe_identity :: blob

definition zero_collateral :: tdx_ql_qve_collateral_t where
  "zero_collateral = \<lparr>co_major_version = 0, co_minor_version = 0, co_tee_type = 0,
     co_pck_crl_issuer_chain = (None, 0), co_root_ca_crl = (None, 0), co_pck_crl = (None, 0),
     co_tcb_info_issuer_chain = (None, 0), co_tcb_info = (None, 0),
     co_qe_identity_issuer_chain = (None, 0), co_qe_identity = (None, 0)\<rparr>"

definition co_strings :: "tdx_ql_qve_collateral_t \<Rightarrow> blob list" where
  "co_strings c = [co_pck_crl_issuer_chain c, co_root_ca_crl c, co_pck_crl c, co_tcb_info_issuer_chain c,
     co_tcb_info c, co_qe_identity_issuer_chain c, co_qe_identity c]"

text \<open>SAFE_FREE of every string that is not NULL, in order, and of the structure.\<close>

fun free_strings :: "nat \<Rightarrow> blob list \<Rightarrow> event list" where
  "free_strings k [] = []"
| "free_strings k ((p, n) # bs) =
     (if p \<noteq> None then [Release (Collateral_field k)] else []) @ free_strings (Suc k) bs"

definition tdx_att_free_collateral :: "tdx_ql_qve_collateral_t option \<Rightarrow> event list" where
  "tdx_att_free_collateral p_verification_collateral =
     (case p_verification_collateral of None \<Rightarrow> []
      | Some c \<Rightarrow> free_strings 0 (co_strings c) @ [Release Collateral_mem])"

text \<open>
  One malloc, strncpy_s and size per string; it stops at the first failed malloc, whose pointer is
  NULL. \<open>Fault\<close> is a source outside the message.
\<close>

type_synonym string_update = "(blob \<Rightarrow> blob) \<Rightarrow> tdx_ql_qve_collateral_t \<Rightarrow> tdx_ql_qve_collateral_t"

fun copy_strings ::
  "servtd_env \<Rightarrow> byte list \<Rightarrow> nat \<Rightarrow> (string_update \<times> slice) list \<Rightarrow> tdx_ql_qve_collateral_t
     \<Rightarrow> (tdx_verify_error_t, unit) outcome \<times> tdx_ql_qve_collateral_t \<times> event list" where
  "copy_strings w msg k [] c = (Good (), c, [])"
| "copy_strings w msg k ((set_string, s) # rest) c =
     (if \<not> sv_field_mem w k then (Bad TDX_VERIFY_ERROR_OUT_OF_MEMORY, c, [])
      else case slice_bytes msg s of
        None \<Rightarrow> (Fault, c, [Acquire (Collateral_field k)])
      | Some src \<Rightarrow>
          (case copy_strings w msg (Suc k) rest (set_string (\<lambda>_. (Some (sv_strncpy_s w src), snd s)) c) of
             (r, c', l) \<Rightarrow> (r, c', Acquire (Collateral_field k) # l)))"

definition string_copies :: "collateral_view \<Rightarrow> (string_update \<times> slice) list" where
  "string_copies v =
     [(co_pck_crl_issuer_chain_update, cv_pck_crl_issuer_chain v),
      (co_root_ca_crl_update, cv_root_ca_crl v),
      (co_pck_crl_update, cv_pck_crl v),
      (co_tcb_info_issuer_chain_update, cv_tcb_info_issuer_chain v),
      (co_tcb_info_update, cv_tcb_info v),
      (co_qe_identity_issuer_chain_update, cv_qe_identity_issuer_chain v),
      (co_qe_identity_update, cv_qe_identity v)]"

text \<open>
  From the return of servtd_get_quote to ret_point: the status, \<open>*pp_verification_collateral\<close>
  (unchanged while nothing has been allocated) and the log.
\<close>

definition build_collateral ::
  "servtd_env \<Rightarrow> tdx_quote_hdr \<Rightarrow> tdx_ql_qve_collateral_t option
     \<Rightarrow> (tdx_verify_error_t, unit) outcome \<times> tdx_ql_qve_collateral_t option \<times> event list" where
  "build_collateral w blob old =
     (let in_msg_size = qh_out_len blob - word_of_nat SERVTD_HEADER_SIZE;
          msg = drop SERVTD_HEADER_SIZE (qh_data blob) in
      if qh_status blob \<noteq> 0 \<or> unat (qh_out_len blob) \<le> SERVTD_HEADER_SIZE then
        (if GET_QUOTE_IN_FLIGHT = qh_status blob then (Bad TDX_VERIFY_ERROR_BUSY, old, [])
         else if GET_QUOTE_SERVICE_UNAVAILABLE = qh_status blob then (Bad TDX_VERIFY_ERROR_NOT_SUPPORTED, old, [])
         else (Bad TDX_VERIFY_ERROR_UNEXPECTED, old, []))
      else (case qgs_msg_inflate_get_collateral_resp (Some msg) in_msg_size True of
          Fault \<Rightarrow> (Fault, old, [])
        | Bad _ \<Rightarrow> (Bad TDX_VERIFY_ERROR_UNEXPECTED, old, [])
        | Good v \<Rightarrow>
            if h_error_code (header_of msg) \<noteq> 0 then (Bad TDX_VERIFY_ERROR_UNEXPECTED, old, [])
            else if \<not> sv_coll_mem w then (Bad TDX_VERIFY_ERROR_OUT_OF_MEMORY, None, [])
            else (case copy_strings w msg 0 (string_copies v)
                     (zero_collateral\<lparr>co_major_version := cv_major_version v,
                        co_minor_version := cv_minor_version v, co_tee_type := 0x81\<rparr>) of
               (r, c, l) \<Rightarrow> (r, Some c, Acquire Collateral_mem # l))))"

text \<open>The part of ret_point that frees on failure.\<close>

definition free_on_failure ::
  "(tdx_verify_error_t, unit) outcome \<times> tdx_ql_qve_collateral_t option \<times> event list
     \<Rightarrow> (tdx_verify_error_t, unit) outcome \<times> tdx_ql_qve_collateral_t option \<times> event list" where
  "free_on_failure res =
     (case res of
        (Bad e, p, l) \<Rightarrow> (Bad e, None, l @ tdx_att_free_collateral p)
      | (r, p, l) \<Rightarrow> (r, p, l))"

text \<open>
  \<open>pck_ca\<close> is the object the C string lies in, \<open>pp\<close> is \<open>None\<close> when the pointer to the result is NULL,
  otherwise \<open>Some\<close> of what it points to.
\<close>

definition tdx_att_get_collateral ::
  "servtd_env \<Rightarrow> byte list option \<Rightarrow> u16 \<Rightarrow> byte list option \<Rightarrow> tdx_ql_qve_collateral_t option option
     \<Rightarrow> (tdx_verify_error_t, unit) outcome \<times> tdx_ql_qve_collateral_t option option \<times> event list" where
  "tdx_att_get_collateral w fmspc fmspc_size pck_ca pp =
     (case (fmspc, pck_ca, pp) of
        (Some _, Some ca, Some old) \<Rightarrow>
          if fmspc_size = 0 then (Bad TDX_VERIFY_ERROR_INVALID_PARAMETER, pp, [])
          else if \<not> sv_blob_mem w
          then (case free_on_failure (Bad TDX_VERIFY_ERROR_OUT_OF_MEMORY, old, []) of
                  (r, p, l) \<Rightarrow> (r, Some p, l))
          else if 0 \<notin> set ca then (Fault, pp, [Acquire Blob_mem])
          else (case qgs_msg_gen_get_collateral_req fmspc (ucast fmspc_size) pck_ca
                  (word_of_nat (length (takeWhile (\<lambda>b. b \<noteq> 0) ca)) + 1) True (sv_req_mem w) of
              Fault \<Rightarrow> (Fault, pp, [Acquire Blob_mem])
            | Bad _ \<Rightarrow> (case free_on_failure (Bad TDX_VERIFY_ERROR_UNEXPECTED, old, []) of
                  (r, p, l) \<Rightarrow> (r, Some p, [Acquire Blob_mem, Release Blob_mem] @ l))
            | Good req \<Rightarrow>
                let start = [Acquire Blob_mem, Acquire Req_mem]; finish = [Release Req_mem, Release Blob_mem] in
                if unat (len32 req) > servtd_capacity
                then (case free_on_failure (Bad TDX_VERIFY_ERROR_NOT_SUPPORTED, old, []) of
                  (r, p, l) \<Rightarrow> (r, Some p, start @ finish @ l))
                else (case servtd_request (sv_blob_junk w) req of
                    None \<Rightarrow> (Fault, pp, start)
                  | Some blob \<Rightarrow>
                      let (servtd_get_collateral_ret, blob') = sv_get_quote w blob;
                          (r1, p1, l1) = (if servtd_get_collateral_ret \<noteq> 0
                                          then (Bad TDX_VERIFY_ERROR_QUOTE_FAILURE, old, [])
                                          else build_collateral w blob' old);
                          (r, p, l) = free_on_failure (r1, p1, []) in
                      (r, Some p, start @ [Tdcall_ioctl blob] @ l1 @ finish @ l)))
      | _ \<Rightarrow> (Bad TDX_VERIFY_ERROR_INVALID_PARAMETER, pp, []))"

section \<open>The wrapper\<close>

text \<open>An enumeration of C: its integer. verify_quote_integrity returns one it has not built itself.\<close>

type_synonym servtd_attest_error_t = u32

definition SERVTD_ATTEST_SUCCESS :: servtd_attest_error_t where "SERVTD_ATTEST_SUCCESS = 0x0000"
definition SERVTD_ATTEST_ERROR_UNEXPECTED :: servtd_attest_error_t where
  "SERVTD_ATTEST_ERROR_UNEXPECTED = 0x0001"
definition SERVTD_ATTEST_ERROR_INVALID_PARAMETER :: servtd_attest_error_t where
  "SERVTD_ATTEST_ERROR_INVALID_PARAMETER = 0x0002"
definition SERVTD_ATTEST_ERROR_OUT_OF_MEMORY :: servtd_attest_error_t where
  "SERVTD_ATTEST_ERROR_OUT_OF_MEMORY = 0x0003"
definition SERVTD_ATTEST_ERROR_QUOTE_FAILURE :: servtd_attest_error_t where
  "SERVTD_ATTEST_ERROR_QUOTE_FAILURE = 0x0070"

lemmas servtd_error_defs = SERVTD_ATTEST_SUCCESS_def SERVTD_ATTEST_ERROR_UNEXPECTED_def
  SERVTD_ATTEST_ERROR_INVALID_PARAMETER_def SERVTD_ATTEST_ERROR_OUT_OF_MEMORY_def
  SERVTD_ATTEST_ERROR_QUOTE_FAILURE_def

fun servtd_status :: "unit tdx_outcome \<Rightarrow> servtd_attest_error_t option" where
  "servtd_status (Good _) = Some SERVTD_ATTEST_SUCCESS"
| "servtd_status (Bad TDX_ATTEST_ERROR_INVALID_PARAMETER) = Some SERVTD_ATTEST_ERROR_INVALID_PARAMETER"
| "servtd_status (Bad TDX_ATTEST_ERROR_OUT_OF_MEMORY) = Some SERVTD_ATTEST_ERROR_OUT_OF_MEMORY"
| "servtd_status (Bad TDX_ATTEST_ERROR_QUOTE_FAILURE) = Some SERVTD_ATTEST_ERROR_QUOTE_FAILURE"
| "servtd_status (Bad _) = Some SERVTD_ATTEST_ERROR_UNEXPECTED"
| "servtd_status Fault = None"

text \<open>\<open>None\<close>: undefined behaviour in the call.\<close>

definition get_quote ::
  "servtd_env \<Rightarrow> byte list option \<Rightarrow> u32 \<Rightarrow> byte list option \<Rightarrow> u32 option
     \<Rightarrow> servtd_attest_error_t option \<times> byte list option \<times> u32 option" where
  "get_quote w p_tdx_report tdx_report_size p_quote p_quote_size =
     (case tdx_att_get_quote_by_report w p_tdx_report tdx_report_size p_quote p_quote_size of
        (status, q, n, _) \<Rightarrow> (servtd_status status, q, n))"

text \<open>\<open>verify\<close> is do_verify_quote_integrity, whose 8-bit status is returned as it is.\<close>

definition sizeof_sgx_quote4_t :: nat where "sizeof_sgx_quote4_t = 48 + 584 + 4"

definition verify_quote_integrity ::
  "(byte list \<Rightarrow> u32 \<Rightarrow> byte list \<Rightarrow> u32 \<Rightarrow> byte) \<Rightarrow> byte list option \<Rightarrow> u32 \<Rightarrow> byte list option \<Rightarrow> u32
     \<Rightarrow> bool \<Rightarrow> bool \<Rightarrow> servtd_attest_error_t" where
  "verify_quote_integrity verify p_quote quote_size root_pub_key root_pub_key_size suppl_valid suppl_size_valid =
     (case p_quote of None \<Rightarrow> SERVTD_ATTEST_ERROR_UNEXPECTED
      | Some q \<Rightarrow>
        if unat quote_size < sizeof_sgx_quote4_t then SERVTD_ATTEST_ERROR_UNEXPECTED
        else if \<not> suppl_valid \<or> \<not> suppl_size_valid then SERVTD_ATTEST_ERROR_UNEXPECTED
        else (case root_pub_key of None \<Rightarrow> SERVTD_ATTEST_ERROR_UNEXPECTED
          | Some key \<Rightarrow> ucast (verify q quote_size key root_pub_key_size)))"

text \<open>The global heap; the base is 0 until it is initialised.\<close>

record servtd_heap =
  heap_base :: u64
  heap_size :: u64

definition HEAP_PAGE_SIZE :: u64 where "HEAP_PAGE_SIZE = 0x1000"
definition SIZE_MAX :: u64 where "SIZE_MAX = 0xffffffffffffffff"

definition init_heap :: "servtd_heap \<Rightarrow> u64 \<Rightarrow> u32 \<Rightarrow> servtd_attest_error_t \<times> servtd_heap" where
  "init_heap h p_td_heap_base td_heap_size =
     (if heap_base h \<noteq> 0 then (SERVTD_ATTEST_ERROR_INVALID_PARAMETER, h)
      else if p_td_heap_base = 0 \<or> p_td_heap_base AND (HEAP_PAGE_SIZE - 1) \<noteq> 0
      then (SERVTD_ATTEST_ERROR_INVALID_PARAMETER, h)
      else if ucast td_heap_size AND (HEAP_PAGE_SIZE - 1) \<noteq> 0
      then (SERVTD_ATTEST_ERROR_INVALID_PARAMETER, h)
      else if ucast td_heap_size > SIZE_MAX - p_td_heap_base
      then (SERVTD_ATTEST_ERROR_INVALID_PARAMETER, h)
      else (SERVTD_ATTEST_SUCCESS, \<lparr>heap_base = p_td_heap_base, heap_size = ucast td_heap_size\<rparr>))"

end
