(* ===== verification/Servtd_Correct.thy ===== *)
theory Servtd_Correct
  imports Servtd Tdx_Correct
begin

text \<open>
  Properties of the service TD's attestation library: delivery of quotes and collateral through the
  TDVMCALL, what a call leaves allocated, and the heap.
\<close>

section \<open>Quotes\<close>

lemma servtd_sizes: "SERVTD_HEADER_SIZE = 4" "servtd_capacity = 65508"
  by (simp_all add: SERVTD_HEADER_SIZE_def servtd_capacity_def SERVTD_REQ_BUF_SIZE_def)

lemma servtd_request_ok:
  assumes "length req \<le> servtd_capacity"
  shows "\<exists>blob. servtd_request junk req = Some blob"
proof -
  have len: "length (array_of (SERVTD_REQ_BUF_SIZE - sizeof_servtd_tdx_quote_hdr) junk) = 65512"
    by (simp add: SERVTD_REQ_BUF_SIZE_def)
  obtain d1 where d1: "bwrite 0 (be32_bytes (len32 req))
      (array_of (SERVTD_REQ_BUF_SIZE - sizeof_servtd_tdx_quote_hdr) junk) = Some d1" "length d1 = 65512"
    using bwrite_fits [of 0 "be32_bytes (len32 req)"
        "array_of (SERVTD_REQ_BUF_SIZE - sizeof_servtd_tdx_quote_hdr) junk"] len by auto
  obtain d2 where "bwrite SERVTD_HEADER_SIZE req d1 = Some d2"
    using bwrite_fits [of SERVTD_HEADER_SIZE req d1] d1(2) assms by (auto simp: servtd_sizes)
  with d1(1) show ?thesis by (simp add: servtd_request_def Let_def)
qed

text \<open>A blob the VMM fills with the response \<open>resp\<close>.\<close>

definition vmm_answer :: "byte list \<Rightarrow> byte list \<Rightarrow> tdx_quote_hdr \<Rightarrow> bool" where
  "vmm_answer resp junk blob \<longleftrightarrow> qh_status blob = 0 \<and> qh_out_len blob = 4 + len32 resp
     \<and> qh_data blob = frame resp @ junk"

lemma out_len_frame:
  assumes "0 < length resp" "length resp < 4294967290"
  shows "\<not> unat (4 + len32 resp) \<le> 4" "4 + len32 resp - word_of_nat SERVTD_HEADER_SIZE = len32 resp"
  using assms by (simp_all add: unat_word_ariths servtd_sizes)

lemma take_frame [simp]: "take 4 (frame bs) = be32_bytes (len32 bs)" "drop 4 (frame bs) = bs"
  by (simp_all add: frame_def)

lemma length_frame [simp]: "length (frame bs) = 4 + length bs"
  by (simp add: frame_def)

lemma extract_quote_delivers:
  assumes "qgs_msg_gen_get_quote_resp (ptr i) (len32 i) (Some q) (len32 q) True True = Good resp"
    and "q \<noteq> []" "24 + length i + length q < 4294967290" "vmm_answer resp junk blob"
  shows "servtd_extract_quote blob n =
    (if length q \<le> unat n then Good q else Bad TDX_ATTEST_ERROR_OUT_OF_MEMORY)"
proof -
  have small: "24 + length i + length q < 4294967295" using assms(3) by simp
  from assms(1) gen_get_quote_resp_ok [OF assms(2) small] have resp: "resp = ser_quote_resp (i, q)" by simp
  then have len: "length resp = 24 + length i + length q" by (simp add: ser_quote_resp_def)
  have inf: "qgs_msg_inflate_get_quote_resp (Some (resp @ junk)) (len32 resp) True
      = Good ((if i \<noteq> [] then Some 24 else None, len32 i), (Some (24 + length i), len32 q))"
    unfolding inflate_get_quote_resp_Good_iff
    using small len resp assms(2) by (simp add: Let_def QGS_MSG_SUCCESS_def ser_quote_resp_def add.assoc)
  have err: "h_error_code (header_of (resp @ junk)) = 0"
    by (simp add: resp ser_quote_resp_def quote_resp_bytes_def QGS_MSG_SUCCESS_def)
  have rq: "bread (length q) (24 + length i) (resp @ junk) = Some q"
    using len by (simp add: bread_def resp ser_quote_resp_def)
  have le: "n < len32 q \<longleftrightarrow> \<not> length q \<le> unat n"
    using small by (simp add: word_less_nat_alt not_le)
  show ?thesis
    using assms(4) inf err rq small len out_len_frame [of resp] assms(3)
    by (simp add: servtd_extract_quote_def vmm_answer_def servtd_sizes be32_fold_bytes Let_def le
        slice_bytes_def)
qed

text \<open>
  C28. In a service TD, a quote the VMM answers with reaches the caller's buffer whole, with its size,
  exactly when the buffer the caller declared is large enough; otherwise the buffer and its declared
  size are left as they were. The request and the blob are released either way.
\<close>

theorem servtd_quote_delivered:
  assumes "length rep = 1024" "n \<noteq> 0" "unat n \<le> length buf" "sv_blob_mem w" "sv_req_mem w"
    and "\<And>blob. fst (sv_get_quote w blob) = 0 \<and> vmm_answer resp junk (snd (sv_get_quote w blob))"
    and "qgs_msg_gen_get_quote_resp (ptr i) (len32 i) (Some q) (len32 q) True True = Good resp"
    and "q \<noteq> []" "24 + length i + length q < 4294967290"
  shows "\<exists>l. tdx_att_get_quote_by_report w (Some rep) 1024 (Some buf) (Some n) =
      (if length q \<le> unat n then (Good (), Some (q @ drop (length q) buf), Some (len32 q), l)
       else (Bad TDX_ATTEST_ERROR_OUT_OF_MEMORY, Some buf, Some n, l)) \<and> held [] l = Some []"
proof -
  have gen: "qgs_msg_gen_get_quote_req (Some rep) 1024 None 0 True True = Good (ser_quote_req (rep, []))"
  proof -
    have "len32 rep = 1024" using assms(1) by (simp add: size32_def)
    moreover have "rep \<noteq> []" using assms(1) by auto
    ultimately show ?thesis using gen_get_quote_req_ok [of rep "[]"] assms(1) by (simp add: ptr_def)
  qed
  have len: "length (ser_quote_req (rep, [])) = 1048" using assms(1) by (simp add: ser_quote_req_def)
  then obtain blob where rq: "servtd_request (sv_blob_junk w) (ser_quote_req (rep, [])) = Some blob"
    using servtd_request_ok by (fastforce simp: servtd_sizes)
  obtain blob' where gq: "sv_get_quote w blob = (0, blob')" "vmm_answer resp junk blob'"
    using assms(6) [of blob] by (cases "sv_get_quote w blob") auto
  note ex = extract_quote_delivers [OF assms(7-9) gq(2), of n]
  show ?thesis
    using assms(1-5) gen rq gq(1) ex len
    by (auto simp: tdx_att_get_quote_by_report_def Let_def TDX_REPORT_SIZE_def servtd_sizes bwrite_def)
qed

definition sample_servtd :: "byte list \<Rightarrow> servtd_env" where
  "sample_servtd resp = \<lparr>sv_blob_mem = True, sv_blob_junk = [], sv_req_mem = True,
     sv_get_quote = (\<lambda>_. (0, \<lparr>qh_version = 1, qh_status = 0, qh_in_len = 0,
       qh_out_len = 4 + len32 resp, qh_data = frame resp\<rparr>)),
     sv_coll_mem = True, sv_field_mem = (\<lambda>_. True), sv_strncpy_s = id\<rparr>"

theorem servtd_quote_delivered_witness:
  "fst (tdx_att_get_quote_by_report (sample_servtd sample_resp) (Some (replicate 1024 7)) 1024
      (Some (replicate 100 0)) (Some 100)) = Good ()"
proof -
  have ans: "fst (sv_get_quote (sample_servtd sample_resp) blob) = 0
      \<and> vmm_answer sample_resp [] (snd (sv_get_quote (sample_servtd sample_resp) blob))" for blob
    by (simp add: sample_servtd_def vmm_answer_def)
  show ?thesis
    using servtd_quote_delivered [OF _ _ _ _ _ ans sample_resp_generated, of "replicate 1024 7" 100
        "replicate 100 0"]
    by (auto simp: sample_servtd_def)
qed

section \<open>Collateral\<close>

lemma slice_bytes_length: "slice_bytes msg s = Some b \<Longrightarrow> fst s \<noteq> None \<Longrightarrow> length b = unat (snd s)"
  by (auto simp: slice_bytes_def length_bread)

text \<open>What copying the seven strings allocates and leaves in the structure.\<close>

definition copied :: "servtd_env \<Rightarrow> collateral_view \<Rightarrow> collateral_data \<Rightarrow> tdx_ql_qve_collateral_t" where
  "copied w v d = \<lparr>co_major_version = cv_major_version v, co_minor_version = cv_minor_version v,
     co_tee_type = 0x81,
     co_pck_crl_issuer_chain = (Some (sv_strncpy_s w (cd_pck_crl_issuer_chain d)), snd (cv_pck_crl_issuer_chain v)),
     co_root_ca_crl = (Some (sv_strncpy_s w (cd_root_ca_crl d)), snd (cv_root_ca_crl v)),
     co_pck_crl = (Some (sv_strncpy_s w (cd_pck_crl d)), snd (cv_pck_crl v)),
     co_tcb_info_issuer_chain = (Some (sv_strncpy_s w (cd_tcb_info_issuer_chain d)), snd (cv_tcb_info_issuer_chain v)),
     co_tcb_info = (Some (sv_strncpy_s w (cd_tcb_info d)), snd (cv_tcb_info v)),
     co_qe_identity_issuer_chain = (Some (sv_strncpy_s w (cd_qe_identity_issuer_chain d)), snd (cv_qe_identity_issuer_chain v)),
     co_qe_identity = (Some (sv_strncpy_s w (cd_qe_identity d)), snd (cv_qe_identity v))\<rparr>"

definition start_collateral :: "collateral_view \<Rightarrow> tdx_ql_qve_collateral_t" where
  "start_collateral v = zero_collateral\<lparr>co_major_version := cv_major_version v,
     co_minor_version := cv_minor_version v, co_tee_type := 0x81\<rparr>"

lemma view_collateral_slices:
  assumes "view_collateral msg v = Some d"
  shows "slice_bytes msg (cv_pck_crl_issuer_chain v) = Some (cd_pck_crl_issuer_chain d)"
    "slice_bytes msg (cv_root_ca_crl v) = Some (cd_root_ca_crl d)"
    "slice_bytes msg (cv_pck_crl v) = Some (cd_pck_crl d)"
    "slice_bytes msg (cv_tcb_info_issuer_chain v) = Some (cd_tcb_info_issuer_chain d)"
    "slice_bytes msg (cv_tcb_info v) = Some (cd_tcb_info d)"
    "slice_bytes msg (cv_qe_identity_issuer_chain v) = Some (cd_qe_identity_issuer_chain d)"
    "slice_bytes msg (cv_qe_identity v) = Some (cd_qe_identity d)"
  using assms by (auto simp: view_collateral_def bind_eq_Some_conv)

text \<open>The strings copied before malloc first fails, as a plain fold.\<close>

fun apply_strings ::
  "(byte list \<Rightarrow> byte list) \<Rightarrow> byte list \<Rightarrow> (string_update \<times> slice) list \<Rightarrow> tdx_ql_qve_collateral_t
     \<Rightarrow> tdx_ql_qve_collateral_t" where
  "apply_strings cp msg [] c = c"
| "apply_strings cp msg ((set_string, s) # rest) c =
     apply_strings cp msg rest (set_string (\<lambda>_. (Some (cp (the (slice_bytes msg s))), snd s)) c)"

lemma copy_strings_split:
  assumes "\<forall>(u, s) \<in> set ups. slice_bytes msg s \<noteq> None"
  shows "\<exists>j\<le>length ups. copy_strings w msg k ups c =
      (if j = length ups then Good () else Bad TDX_VERIFY_ERROR_OUT_OF_MEMORY,
       apply_strings (sv_strncpy_s w) msg (take j ups) c,
       map (\<lambda>i. Acquire (Collateral_field i)) [k..<k + j])
    \<and> (\<forall>i<j. sv_field_mem w (k + i)) \<and> (j < length ups \<longrightarrow> \<not> sv_field_mem w (k + j))"
  using assms
proof (induction ups arbitrary: k c)
  case (Cons us ups)
  obtain u s where us: "us = (u, s)" by (cases us)
  with Cons.prems obtain src where src: "slice_bytes msg s = Some src" by auto
  show ?case
  proof (cases "sv_field_mem w k")
    case True
    obtain j where j: "j \<le> length ups" "copy_strings w msg (Suc k) ups (u (\<lambda>_. (Some (sv_strncpy_s w src), snd s)) c) =
      (if j = length ups then Good () else Bad TDX_VERIFY_ERROR_OUT_OF_MEMORY,
       apply_strings (sv_strncpy_s w) msg (take j ups) (u (\<lambda>_. (Some (sv_strncpy_s w src), snd s)) c),
       map (\<lambda>i. Acquire (Collateral_field i)) [Suc k..<Suc k + j])"
      "\<forall>i<j. sv_field_mem w (Suc k + i)" "j < length ups \<longrightarrow> \<not> sv_field_mem w (Suc k + j)"
      using Cons.IH [of "Suc k"] Cons.prems by (metis list.set_intros(2))
    have "\<forall>i<Suc j. sv_field_mem w (k + i)" using j(3) True by (auto simp: less_Suc_eq_0_disj)
    moreover have "[k..<k + Suc j] = k # [Suc k..<Suc k + j]" by (simp add: upt_conv_Cons)
    ultimately show ?thesis
      using j us src True by (intro exI [of _ "Suc j"]) simp
  qed (use us in \<open>intro exI [of _ 0], simp\<close>)
qed simp

lemma free_strings_none: "free_strings k ((None, n) # bs) = free_strings (Suc k) bs"
  "free_strings k ((Some b, n) # bs) = Release (Collateral_field k) # free_strings (Suc k) bs"
  by simp_all

lemma copy_collateral:
  assumes "view_collateral msg v = Some d"
    and "copy_strings w msg 0 (string_copies v) (start_collateral v) = (r, c, l)"
  shows "r \<noteq> Fault \<and> held (Collateral_mem # rs) (l @ tdx_att_free_collateral (Some c)) = Some rs
    \<and> (is_good r \<longrightarrow> c = copied w v d) \<and> (is_good r \<longleftrightarrow> (\<forall>k<7. sv_field_mem w k))
    \<and> (\<exists>ks. l = map Acquire (map Collateral_field ks))"
proof -
  note slices = view_collateral_slices [OF assms(1)]
  have slices_ok: "\<forall>(u, s) \<in> set (string_copies v). slice_bytes msg s \<noteq> None"
    by (simp add: string_copies_def slices)
  have seven: "length (string_copies v) = 7" by (simp add: string_copies_def)
  obtain j where j0: "j \<le> 7" "(r, c, l) = (if j = 7 then Good () else Bad TDX_VERIFY_ERROR_OUT_OF_MEMORY,
      apply_strings (sv_strncpy_s w) msg (take j (string_copies v)) (start_collateral v),
      map (\<lambda>i. Acquire (Collateral_field i)) [0..<j])"
    and mem: "\<forall>i<j. sv_field_mem w i" "j < 7 \<longrightarrow> \<not> sv_field_mem w j"
    using copy_strings_split [OF slices_ok, of w 0 "start_collateral v"]
    unfolding seven add_0 assms(2) by blast
  then have j: "j \<le> 7" "r = (if j = 7 then Good () else Bad TDX_VERIFY_ERROR_OUT_OF_MEMORY)"
    "c = apply_strings (sv_strncpy_s w) msg (take j (string_copies v)) (start_collateral v)"
    "l = map (\<lambda>i. Acquire (Collateral_field i)) [0..<j]" by blast+
  have good: "is_good r \<longleftrightarrow> (\<forall>k<7. sv_field_mem w k)"
    using j(1,2) mem by (cases "j = 7") (auto simp: le_less)
  consider "j = 0" | "j = 1" | "j = 2" | "j = 3" | "j = 4" | "j = 5" | "j = 6" | "j = 7"
    using j(1) by linarith
  then have "held (Collateral_mem # rs) (l @ tdx_att_free_collateral (Some c)) = Some rs
    \<and> (j = 7 \<longrightarrow> c = copied w v d)"
    by cases (simp_all only: j(3,4), simp_all add: string_copies_def slices start_collateral_def
      zero_collateral_def copied_def tdx_att_free_collateral_def co_strings_def upt_rec)
  moreover have "l = map Acquire (map Collateral_field [0..<j])" using j(4) by simp
  ultimately show ?thesis using good j(2) by (auto split: if_splits)
qed




lemma free_on_failure_simps [simp]:
  "free_on_failure (Bad e, p, l) = (Bad e, None, l @ tdx_att_free_collateral p)"
  "free_on_failure (Good u, p, l) = (Good u, p, l)"
  "free_on_failure (Fault, p, l) = (Fault, p, l)"
  by (simp_all add: free_on_failure_def)

lemma free_nothing [simp]: "tdx_att_free_collateral None = []"
  by (simp add: tdx_att_free_collateral_def)


text \<open>A collateral with short texts, and the answer the VMM gives with it.\<close>

definition sample_collateral :: collateral_data where
  "sample_collateral = \<lparr>cd_major_version = 3, cd_minor_version = 1, cd_pck_crl_issuer_chain = [65, 0],
     cd_root_ca_crl = [48, 1, 2], cd_pck_crl = [48, 0, 7, 0], cd_tcb_info_issuer_chain = [66, 0],
     cd_tcb_info = [67, 0], cd_qe_identity_issuer_chain = [68, 0], cd_qe_identity = [69, 0]\<rparr>"

lemma sample_collateral_wf: "wf_collateral sample_collateral"
  by (simp add: wf_collateral_def cd_complete_def sample_collateral_def)

lemma collateral_generated:
  assumes "wf_collateral d"
  shows "gen_collateral_resp d this_version_request = Good (ser_collateral_resp d)"
    "0 < length (ser_collateral_resp d)" "length (ser_collateral_resp d) < 4294967295"
    "\<exists>v. qgs_msg_inflate_get_collateral_resp (Some (ser_collateral_resp d @ junk))
        (len32 (ser_collateral_resp d)) True = Good v
      \<and> view_collateral (ser_collateral_resp d @ junk) v = Some d"
proof -
  from collateral_resp.gen_total [OF assms] obtain bs where
    bs: "gen_collateral_resp d this_version_request = Good bs" "0 < length bs" "length bs < 4294967295" by blast
  have eq: "gen_collateral_resp d this_version_request = Good (ser_collateral_resp d)"
    using assms by (simp add: wf_collateral_def gen_get_collateral_resp_ok QGS_MSG_LIB_MINOR_VER_def
        del: cd_total.simps)
  with bs collateral_resp.inflate_gen [OF assms bs(1)] show
    "gen_collateral_resp d this_version_request = Good (ser_collateral_resp d)"
    "0 < length (ser_collateral_resp d)" "length (ser_collateral_resp d) < 4294967295"
    "\<exists>v. qgs_msg_inflate_get_collateral_resp (Some (ser_collateral_resp d @ junk))
        (len32 (ser_collateral_resp d)) True = Good v
      \<and> view_collateral (ser_collateral_resp d @ junk) v = Some d" by auto
qed

lemma ser_collateral_error: "h_error_code (header_of (ser_collateral_resp d @ junk)) = 0"
  by (simp add: ser_collateral_resp_def collateral_resp_bytes_def QGS_MSG_SUCCESS_def)

lemma view_collateral_sizes:
  assumes "qgs_msg_inflate_get_collateral_resp (Some buf) n True = Good v" "h_error_code (header_of buf) = 0"
    and "view_collateral buf v = Some d"
  shows "snd (cv_pck_crl_issuer_chain v) = len32 (cd_pck_crl_issuer_chain d)"
    "snd (cv_root_ca_crl v) = len32 (cd_root_ca_crl d)" "snd (cv_pck_crl v) = len32 (cd_pck_crl d)"
    "snd (cv_tcb_info_issuer_chain v) = len32 (cd_tcb_info_issuer_chain d)"
    "snd (cv_tcb_info v) = len32 (cd_tcb_info d)"
    "snd (cv_qe_identity_issuer_chain v) = len32 (cd_qe_identity_issuer_chain d)"
    "snd (cv_qe_identity v) = len32 (cd_qe_identity d)"
    "cv_major_version v = cd_major_version d" "cv_minor_version v = cd_minor_version d"
proof -
  have ptrs: "fst (cv_pck_crl_issuer_chain v) \<noteq> None" "fst (cv_root_ca_crl v) \<noteq> None" "fst (cv_pck_crl v) \<noteq> None"
    "fst (cv_tcb_info_issuer_chain v) \<noteq> None" "fst (cv_tcb_info v) \<noteq> None"
    "fst (cv_qe_identity_issuer_chain v) \<noteq> None" "fst (cv_qe_identity v) \<noteq> None"
    using assms(1,2) unfolding inflate_get_collateral_resp_Good_iff
    by (auto simp: Let_def QGS_MSG_SUCCESS_def collateral_resp_of_def)
  note sl = view_collateral_slices [OF assms(3)]
  show "snd (cv_pck_crl_issuer_chain v) = len32 (cd_pck_crl_issuer_chain d)"
    "snd (cv_root_ca_crl v) = len32 (cd_root_ca_crl d)" "snd (cv_pck_crl v) = len32 (cd_pck_crl d)"
    "snd (cv_tcb_info_issuer_chain v) = len32 (cd_tcb_info_issuer_chain d)"
    "snd (cv_tcb_info v) = len32 (cd_tcb_info d)"
    "snd (cv_qe_identity_issuer_chain v) = len32 (cd_qe_identity_issuer_chain d)"
    "snd (cv_qe_identity v) = len32 (cd_qe_identity d)"
    using ptrs sl [THEN slice_bytes_length] by simp_all
  show "cv_major_version v = cd_major_version d" "cv_minor_version v = cd_minor_version d"
    using assms(3) by (auto simp: view_collateral_def bind_eq_Some_conv)
qed

lemma collateral_call:
  assumes "f \<noteq> []" "length f < 65536" "0 \<notin> set ca" "length ca < 60000 - length f"
    and "sv_blob_mem w" "sv_req_mem w"
  shows "\<exists>blob. tdx_att_get_collateral w (Some f) (word_of_nat (length f)) (Some (ca @ [0])) (Some old) =
    (let (ret, blob') = sv_get_quote w blob;
         (r1, p1, l1) = (if ret \<noteq> 0 then (Bad TDX_VERIFY_ERROR_QUOTE_FAILURE, old, [])
                         else build_collateral w blob' old);
         (r, p, l) = free_on_failure (r1, p1, []) in
     (r, Some p, [Acquire Blob_mem, Acquire Req_mem, Tdcall_ioctl blob] @ l1
         @ [Release Req_mem, Release Blob_mem] @ l))"
proof -
  have n: "(ucast (word_of_nat (length f) :: u16) :: u32) = len32 f"
    using assms(2) by (simp add: word_unat_eq_iff unat_of_nat)
  have n0: "(word_of_nat (length f) :: u16) \<noteq> 0"
    using assms(1,2) by (simp add: word_unat_eq_iff unat_of_nat)
  have "takeWhile (\<lambda>b. b \<noteq> 0) (ca @ [0]) = ca"
    using assms(3) by (subst takeWhile_append2) auto
  then have m: "word_of_nat (length (takeWhile (\<lambda>b. b \<noteq> 0) (ca @ [0]))) + 1 = len32 (ca @ [0])"
    by (simp add: size32_def add.commute)
  have gen: "qgs_msg_gen_get_collateral_req (Some f) (len32 f) (Some (ca @ [0])) (len32 (ca @ [0])) True True
      = Good (ser_collateral_req (f, ca @ [0]))"
    by (rule gen_get_collateral_req_ok) (use assms in simp_all)
  have len: "length (ser_collateral_req (f, ca @ [0])) = 25 + length f + length ca"
    by (simp add: ser_collateral_req_def)
  with assms(4) have "length (ser_collateral_req (f, ca @ [0])) \<le> servtd_capacity" by (simp add: servtd_sizes)
  then obtain blob where "servtd_request (sv_blob_junk w) (ser_collateral_req (f, ca @ [0])) = Some blob"
    using servtd_request_ok by blast
  moreover have "length f + length ca \<le> 65483" using assms(4) by linarith
  ultimately show ?thesis
    using n0 m gen len assms by (intro exI [of _ blob])
      (simp add: tdx_att_get_collateral_def n servtd_sizes Let_def)
qed

text \<open>
  The documented behaviour of strncpy_s with the size of the destination as its count: the string up
  to its terminator is copied; a source without terminator leaves the empty string.
\<close>

definition strncpy_s_doc :: "(byte list \<Rightarrow> byte list) \<Rightarrow> bool" where
  "strncpy_s_doc cp \<longleftrightarrow>
     (\<forall>src. 0 \<in> set src \<longrightarrow> takeWhile (\<lambda>b. b \<noteq> 0) (cp src) = takeWhile (\<lambda>b. b \<noteq> 0) src)
   \<and> (\<forall>src. 0 \<notin> set src \<longrightarrow> takeWhile (\<lambda>b. b \<noteq> 0) (cp src) = [])
   \<and> (\<forall>str. 0 \<notin> set str \<longrightarrow> cp (str @ [0]) = str @ [0])"

text \<open>The collateral that the strings of \<open>d\<close>, copied by \<open>cp\<close>, make.\<close>

definition collateral_from :: "(byte list \<Rightarrow> byte list) \<Rightarrow> collateral_data \<Rightarrow> tdx_ql_qve_collateral_t" where
  "collateral_from cp d = \<lparr>co_major_version = cd_major_version d, co_minor_version = cd_minor_version d,
     co_tee_type = 0x81,
     co_pck_crl_issuer_chain = (Some (cp (cd_pck_crl_issuer_chain d)), len32 (cd_pck_crl_issuer_chain d)),
     co_root_ca_crl = (Some (cp (cd_root_ca_crl d)), len32 (cd_root_ca_crl d)),
     co_pck_crl = (Some (cp (cd_pck_crl d)), len32 (cd_pck_crl d)),
     co_tcb_info_issuer_chain = (Some (cp (cd_tcb_info_issuer_chain d)), len32 (cd_tcb_info_issuer_chain d)),
     co_tcb_info = (Some (cp (cd_tcb_info d)), len32 (cd_tcb_info d)),
     co_qe_identity_issuer_chain = (Some (cp (cd_qe_identity_issuer_chain d)), len32 (cd_qe_identity_issuer_chain d)),
     co_qe_identity = (Some (cp (cd_qe_identity d)), len32 (cd_qe_identity d))\<rparr>"

lemma collateral_delivery:
  assumes "f \<noteq> []" "length f < 65536" "0 \<notin> set ca" "length ca < 60000 - length f"
    and "sv_blob_mem w" "sv_req_mem w" "sv_coll_mem w" "\<forall>k<7. sv_field_mem w k"
    and "wf_collateral d" "gen_collateral_resp d this_version_request = Good resp" "length resp < 4294967290"
    and "\<And>blob. fst (sv_get_quote w blob) = 0 \<and> vmm_answer resp junk (snd (sv_get_quote w blob))"
  shows "\<exists>l. tdx_att_get_collateral w (Some f) (word_of_nat (length f)) (Some (ca @ [0])) (Some None)
      = (Good (), Some (Some (collateral_from (sv_strncpy_s w) d)), l)"
proof -
  note gen = collateral_generated [OF assms(9)]
  have resp: "resp = ser_collateral_resp d" using gen(1) assms(10) by simp
  obtain v where v: "qgs_msg_inflate_get_collateral_resp (Some (resp @ junk)) (len32 resp) True = Good v"
    "view_collateral (resp @ junk) v = Some d"
    using gen(4) resp by blast
  have err: "h_error_code (header_of (resp @ junk)) = 0" by (simp add: resp ser_collateral_error)
  obtain blob where call: "tdx_att_get_collateral w (Some f) (word_of_nat (length f)) (Some (ca @ [0])) (Some None) =
    (let (ret, blob') = sv_get_quote w blob;
         (r1, p1, l1) = (if ret \<noteq> 0 then (Bad TDX_VERIFY_ERROR_QUOTE_FAILURE, None, [])
                         else build_collateral w blob' None);
         (r, p, l) = free_on_failure (r1, p1, []) in
     (r, Some p, [Acquire Blob_mem, Acquire Req_mem, Tdcall_ioctl blob] @ l1
         @ [Release Req_mem, Release Blob_mem] @ l))"
    using collateral_call [OF assms(1-6)] by blast
  obtain blob' where gq: "sv_get_quote w blob = (0, blob')" "vmm_answer resp junk blob'"
    using assms(12) [of blob] by (cases "sv_get_quote w blob") auto
  obtain r c l where cp: "copy_strings w (resp @ junk) 0 (string_copies v) (start_collateral v) = (r, c, l)"
    by (cases "copy_strings w (resp @ junk) 0 (string_copies v) (start_collateral v)")
  from copy_collateral [OF v(2) cp, of "[]"] assms(8) have r: "r = Good ()" "c = copied w v d"
    by (cases r; simp)+
  have c: "c = collateral_from (sv_strncpy_s w) d"
    by (simp add: r(2) copied_def collateral_from_def view_collateral_sizes [OF v(1) err v(2)])
  have ol: "\<not> unat (4 + len32 resp) \<le> 4" "4 + len32 resp - word_of_nat SERVTD_HEADER_SIZE = len32 resp"
    using out_len_frame [of resp] gen(2) assms(11) resp by simp_all
  have "build_collateral w blob' None = (Good (), Some c, Acquire Collateral_mem # l)"
    using gq(2) v(1) err cp assms(7) r(1) ol
    by (simp add: build_collateral_def vmm_answer_def Let_def servtd_sizes start_collateral_def)
  with call gq(1) c show ?thesis by simp
qed

lemma sample_servtd_answer:
  "fst (sv_get_quote (sample_servtd resp) blob) = 0 \<and> vmm_answer resp [] (snd (sv_get_quote (sample_servtd resp) blob))"
  by (simp add: sample_servtd_def vmm_answer_def)

text \<open>A strncpy_s with its documented behaviour.\<close>

definition sample_strncpy_s :: "byte list \<Rightarrow> byte list" where
  "sample_strncpy_s src = (if 0 \<in> set src then takeWhile (\<lambda>b. b \<noteq> 0) src
       @ replicate (length src - length (takeWhile (\<lambda>b. b \<noteq> 0) src)) 0 else replicate (length src) 0)"

lemma sample_strncpy_s_doc: "strncpy_s_doc sample_strncpy_s"
proof -
  have tw: "takeWhile (\<lambda>b. b \<noteq> 0) (str @ t) = str @ takeWhile (\<lambda>b. b \<noteq> 0) t" if "0 \<notin> set str"
    for str t :: "byte list" using that by (subst takeWhile_append2) auto
  have z: "takeWhile (\<lambda>b. b \<noteq> 0) (replicate k (0 :: byte)) = []" for k by (cases k) simp_all
  have "0 \<notin> set (takeWhile (\<lambda>b. b \<noteq> 0) src)" for src :: "byte list" by (auto dest: set_takeWhileD)
  then show ?thesis
    by (auto simp: strncpy_s_doc_def sample_strncpy_s_def tw z simp flip: takeWhile_append)
qed

definition strncpy_env :: servtd_env where
  "strncpy_env = (sample_servtd (ser_collateral_resp sample_collateral))\<lparr>sv_strncpy_s := sample_strncpy_s\<rparr>"

lemma strncpy_env_simps [simp]:
  "sv_blob_mem strncpy_env" "sv_req_mem strncpy_env" "sv_coll_mem strncpy_env" "sv_field_mem strncpy_env k"
  "sv_strncpy_s strncpy_env = sample_strncpy_s"
  "fst (sv_get_quote strncpy_env blob) = 0"
  "vmm_answer (ser_collateral_resp sample_collateral) [] (snd (sv_get_quote strncpy_env blob))"
  by (simp_all add: strncpy_env_def sample_servtd_def vmm_answer_def)

lemma length_sample_collateral: "length (ser_collateral_resp sample_collateral) < 4294967290"
  by (simp add: sample_collateral_def ser_collateral_resp_def)



text \<open>
  A binary string without a NUL, such as a DER encoded CRL of a collateral version 3.1, is lost: it
  arrives as the empty C string, although its size and the status are those of a success.
\<close>

theorem binary_crl_lost:
  assumes "f \<noteq> []" "length f < 65536" "0 \<notin> set ca" "length ca < 60000 - length f"
    and "sv_blob_mem w" "sv_req_mem w" "sv_coll_mem w" "\<forall>k<7. sv_field_mem w k"
    and "wf_collateral d" "gen_collateral_resp d this_version_request = Good resp" "length resp < 4294967290"
    and "\<And>blob. fst (sv_get_quote w blob) = 0 \<and> vmm_answer resp junk (snd (sv_get_quote w blob))"
    and "strncpy_s_doc (sv_strncpy_s w)" "0 \<notin> set (cd_root_ca_crl d)"
  shows "\<exists>c l crl. tdx_att_get_collateral w (Some f) (word_of_nat (length f)) (Some (ca @ [0])) (Some None)
      = (Good (), Some (Some c), l)
    \<and> co_root_ca_crl c = (Some crl, len32 (cd_root_ca_crl d)) \<and> takeWhile (\<lambda>b. b \<noteq> 0) crl = []"
  using collateral_delivery [OF assms(1-12)] assms(13,14)
  by (auto simp: collateral_from_def strncpy_s_doc_def)

theorem binary_crl_lost_witness:
  "\<exists>c l crl. tdx_att_get_collateral strncpy_env (Some [1, 2]) (word_of_nat (length [1 :: byte, 2])) (Some ([112] @ [0]))
      (Some None) = (Good (), Some (Some c), l)
    \<and> co_root_ca_crl c = (Some crl, 3) \<and> takeWhile (\<lambda>b. b \<noteq> 0) crl = []"
proof -
  have crl: "0 \<notin> set (cd_root_ca_crl sample_collateral)" "len32 (cd_root_ca_crl sample_collateral) = 3"
    by (simp_all add: sample_collateral_def size32_def)
  show ?thesis
    using binary_crl_lost [OF _ _ _ _ _ _ _ _ sample_collateral_wf
        collateral_generated(1) [OF sample_collateral_wf] length_sample_collateral,
        of "[1, 2]" "[112]" strncpy_env "[]"] sample_strncpy_s_doc crl
    by fastforce
qed

text \<open>
  A call that fails before it allocates anything takes what its output pointer holds for its own:
  collateral the caller still had there is freed and the pointer cleared.
\<close>

theorem failed_call_frees_callers_collateral:
  assumes "f \<noteq> []" "length f < 65536" "0 \<notin> set ca" "length ca < 60000 - length f"
    and "sv_blob_mem w" "sv_req_mem w" "\<And>blob. fst (sv_get_quote w blob) \<noteq> 0"
  shows "\<exists>l. tdx_att_get_collateral w (Some f) (word_of_nat (length f)) (Some (ca @ [0])) (Some (Some c))
      = (Bad TDX_VERIFY_ERROR_QUOTE_FAILURE, Some None, l @ tdx_att_free_collateral (Some c))
    \<and> held [] l = Some [] \<and> Release Collateral_mem \<in> set (tdx_att_free_collateral (Some c))"
proof -
  obtain blob where call: "tdx_att_get_collateral w (Some f) (word_of_nat (length f)) (Some (ca @ [0]))
      (Some (Some c)) = (let (ret, blob') = sv_get_quote w blob;
         (r1, p1, l1) = (if ret \<noteq> 0 then (Bad TDX_VERIFY_ERROR_QUOTE_FAILURE, Some c, [])
                         else build_collateral w blob' (Some c));
         (r, p, l) = free_on_failure (r1, p1, []) in
     (r, Some p, [Acquire Blob_mem, Acquire Req_mem, Tdcall_ioctl blob] @ l1
         @ [Release Req_mem, Release Blob_mem] @ l))"
    using collateral_call [OF assms(1-6)] by blast
  with assms(7) [of blob] show ?thesis
    by (intro exI [of _ "[Acquire Blob_mem, Acquire Req_mem, Tdcall_ioctl blob, Release Req_mem, Release Blob_mem]"])
      (auto simp: tdx_att_free_collateral_def split: prod.splits)
qed

theorem failed_call_frees_callers_collateral_witness:
  "\<exists>l. tdx_att_get_collateral ((sample_servtd [])\<lparr>sv_get_quote := (\<lambda>b. (1, b))\<rparr>) (Some [1, 2])
      (word_of_nat (length [1 :: byte, 2])) (Some ([112] @ [0])) (Some (Some zero_collateral))
      = (Bad TDX_VERIFY_ERROR_QUOTE_FAILURE, Some None, l @ tdx_att_free_collateral (Some zero_collateral))"
  using failed_call_frees_callers_collateral [of "[1, 2]" "[112]"
      "(sample_servtd [])\<lparr>sv_get_quote := (\<lambda>b. (1, b))\<rparr>" zero_collateral]
  by (auto simp: sample_servtd_def)


section \<open>The heap\<close>

text \<open>
  The heap of a service TD is set once: the base is page aligned and not NULL, the region does not
  wrap around the address space, and every later call is refused and changes nothing.
\<close>

theorem init_heap_once:
  assumes "init_heap h b n = (SERVTD_ATTEST_SUCCESS, h')"
  shows "heap_base h = 0 \<and> heap_base h' = b \<and> b \<noteq> 0 \<and> unat b mod 4096 = 0 \<and> unat n mod 4096 = 0
    \<and> unat (heap_base h') + unat (heap_size h') < 2 ^ 64
    \<and> (\<forall>b' n'. init_heap h' b' n' = (SERVTD_ATTEST_ERROR_INVALID_PARAMETER, h'))"
proof -
  have mask: "x AND 0xFFF = 0 \<longleftrightarrow> unat x mod 4096 = 0" for x :: u64
  proof -
    have "x AND 0xFFF = take_bit 12 x" by (simp only: take_bit_eq_mask mask_eq_exp_minus_1) simp
    then have "unat (x AND 0xFFF) = unat x mod 4096"
      by (simp only: unsigned_take_bit_eq) (simp add: take_bit_eq_mod)
    then show ?thesis by (metis unat_0 unat_eq_zero)
  qed
  have bnd: "unat (0xffffffffffffffff - b :: u64) = 18446744073709551615 - unat b"
  proof -
    have "unat b \<le> 18446744073709551615" using unat_bounds(4) [of b] by linarith
    then show ?thesis by (subst unat_sub) (simp_all only: word_le_nat_alt, simp_all)
  qed
  from assms have h: "heap_base h = 0" "b \<noteq> 0" "b AND 0xFFF = 0" "(ucast n :: u64) AND 0xFFF = 0"
    "\<not> ucast n > (0xffffffffffffffff - b :: u64)" "h' = \<lparr>heap_base = b, heap_size = ucast n\<rparr>"
    by (auto simp: init_heap_def HEAP_PAGE_SIZE_def SIZE_MAX_def servtd_error_defs split: if_splits)
  from h(5) have "unat n \<le> 18446744073709551615 - unat b"
    by (simp add: word_less_nat_alt bnd)
  then have "unat b + unat n < 18446744073709551616"
    using unat_bounds(4) [of b] by linarith
  with h show ?thesis
    using mask [of b] mask [of "ucast n"] by (simp add: init_heap_def)
qed

theorem init_heap_once_witness:
  "\<forall>b' n'. fst (init_heap \<lparr>heap_base = 0x10000, heap_size = 0x2000\<rparr> b' n') = SERVTD_ATTEST_ERROR_INVALID_PARAMETER"
proof -
  have "init_heap \<lparr>heap_base = 0, heap_size = 0\<rparr> 0x10000 0x2000
      = (SERVTD_ATTEST_SUCCESS, \<lparr>heap_base = 0x10000, heap_size = 0x2000\<rparr>)"
    by (simp add: init_heap_def HEAP_PAGE_SIZE_def SIZE_MAX_def)
  from init_heap_once [OF this] show ?thesis by simp
qed

end
