(* ===== verification/Cmac.thy ===== *)
theory Cmac
  imports Prelude
begin

text \<open>
  The CMAC of the production launch enclave (driver/win/PLE/cmac.c, mbedtls/cmac.h), with the AES-128
  block encryption of the AES-NI instructions as a parameter \<open>aes\<close>, and its equivalence with the
  algorithm of RFC 4493.
\<close>

section \<open>The code\<close>

definition MBEDTLS_AES_BLOCK_SIZE :: nat where "MBEDTLS_AES_BLOCK_SIZE = 16"

record mbedtls_cmac_context_t =
  cm_state :: "byte list"
  cm_unprocessed_block :: "byte list"
  cm_unprocessed_len :: nat

text \<open>
  The loop runs from the last byte to the first; \<open>shift_left_blocks bs\<close> is the shifted bytes with the
  overflow of the first one.
\<close>

fun shift_left_bytes :: "byte list \<Rightarrow> byte list \<times> byte" where
  "shift_left_bytes [] = ([], 0)"
| "shift_left_bytes (b # bs) =
     (let (out, overflow) = shift_left_bytes bs in ((push_bit 1 b OR overflow) # out, drop_bit 7 b))"

definition cmac_multiply_by_u :: "byte list \<Rightarrow> byte list" where
  "cmac_multiply_by_u input =
     (let out = fst (shift_left_bytes (take MBEDTLS_AES_BLOCK_SIZE input));
          mask = - (drop_bit 7 (input ! 0)) in
      out[MBEDTLS_AES_BLOCK_SIZE - 1 := (out ! (MBEDTLS_AES_BLOCK_SIZE - 1)) XOR (0x87 AND mask)])"

definition cmac_generate_subkeys :: "(byte list \<Rightarrow> byte list) \<Rightarrow> byte list \<times> byte list" where
  "cmac_generate_subkeys aes =
     (let L = aes (replicate MBEDTLS_AES_BLOCK_SIZE 0); K1 = cmac_multiply_by_u L in
      (K1, cmac_multiply_by_u K1))"

definition cmac_xor_block :: "byte list \<Rightarrow> byte list \<Rightarrow> byte list" where
  "cmac_xor_block input1 input2 = map (\<lambda>i. input1 ! i XOR input2 ! i) [0..<MBEDTLS_AES_BLOCK_SIZE]"

definition cmac_pad :: "nat \<Rightarrow> byte list \<Rightarrow> nat \<Rightarrow> byte list" where
  "cmac_pad padded_block_len last_block last_block_len =
     map (\<lambda>j. if j < last_block_len then last_block ! j else if j = last_block_len then 0x80 else 0x00)
       [0..<padded_block_len]"

text \<open>The loop over whole blocks: state and remaining input after \<open>k\<close> rounds.\<close>

fun cmac_blocks :: "(byte list \<Rightarrow> byte list) \<Rightarrow> nat \<Rightarrow> byte list \<Rightarrow> byte list \<Rightarrow> byte list \<times> byte list" where
  "cmac_blocks aes 0 state input = (state, input)"
| "cmac_blocks aes (Suc k) state input =
     cmac_blocks aes k (aes (cmac_xor_block input state)) (drop MBEDTLS_AES_BLOCK_SIZE input)"

definition cmac_update_rest ::
  "(byte list \<Rightarrow> byte list) \<Rightarrow> mbedtls_cmac_context_t \<Rightarrow> byte list \<Rightarrow> mbedtls_cmac_context_t" where
  "cmac_update_rest aes ctx input =
     (let n = (length input + MBEDTLS_AES_BLOCK_SIZE - 1) div MBEDTLS_AES_BLOCK_SIZE;
          (state, rest) = cmac_blocks aes (n - 1) (cm_state ctx) input; ul = cm_unprocessed_len ctx in
      if rest \<noteq> []
      then ctx\<lparr>cm_state := state,
             cm_unprocessed_block := take ul (cm_unprocessed_block ctx) @ rest
               @ drop (ul + length rest) (cm_unprocessed_block ctx),
             cm_unprocessed_len := ul + length rest\<rparr>
      else ctx\<lparr>cm_state := state\<rparr>)"

definition mbedtls_cipher_cmac_update ::
  "(byte list \<Rightarrow> byte list) \<Rightarrow> mbedtls_cmac_context_t \<Rightarrow> byte list \<Rightarrow> mbedtls_cmac_context_t" where
  "mbedtls_cipher_cmac_update aes ctx input =
     (let ul = cm_unprocessed_len ctx; room = MBEDTLS_AES_BLOCK_SIZE - ul in
      if ul > 0 \<and> length input > room
      then let block = take ul (cm_unprocessed_block ctx) @ take room input
                 @ drop MBEDTLS_AES_BLOCK_SIZE (cm_unprocessed_block ctx) in
        cmac_update_rest aes
          \<lparr>cm_state = aes (cmac_xor_block block (cm_state ctx)), cm_unprocessed_block = block,
           cm_unprocessed_len = 0\<rparr> (drop room input)
      else cmac_update_rest aes ctx input)"

text \<open>The output, and the wiped context.\<close>

definition mbedtls_cipher_cmac_finish ::
  "(byte list \<Rightarrow> byte list) \<Rightarrow> mbedtls_cmac_context_t \<Rightarrow> byte list \<times> mbedtls_cmac_context_t" where
  "mbedtls_cipher_cmac_finish aes ctx =
     (let (K1, K2) = cmac_generate_subkeys aes;
          M_last = (if cm_unprocessed_len ctx < MBEDTLS_AES_BLOCK_SIZE
                    then cmac_xor_block (cmac_pad MBEDTLS_AES_BLOCK_SIZE (cm_unprocessed_block ctx)
                           (cm_unprocessed_len ctx)) K2
                    else cmac_xor_block (cm_unprocessed_block ctx) K1);
          state = aes (cmac_xor_block M_last (cm_state ctx)) in
      (take MBEDTLS_AES_BLOCK_SIZE state,
       \<lparr>cm_state = replicate MBEDTLS_AES_BLOCK_SIZE 0,
        cm_unprocessed_block = replicate MBEDTLS_AES_BLOCK_SIZE 0, cm_unprocessed_len = 0\<rparr>))"

definition zero_cmac_context :: mbedtls_cmac_context_t where
  "zero_cmac_context = \<lparr>cm_state = replicate MBEDTLS_AES_BLOCK_SIZE 0,
     cm_unprocessed_block = replicate MBEDTLS_AES_BLOCK_SIZE 0, cm_unprocessed_len = 0\<rparr>"

definition MBEDTLS_ERR_CIPHER_BAD_INPUT_DATA :: int where "MBEDTLS_ERR_CIPHER_BAD_INPUT_DATA = - 0x6100"

text \<open>\<open>aes key\<close> is the encryption under the expanded key; \<open>None\<close> is a NULL pointer.\<close>

definition mbedtls_cipher_cmac ::
  "(byte list \<Rightarrow> byte list \<Rightarrow> byte list) \<Rightarrow> byte list option \<Rightarrow> byte list option \<Rightarrow> byte list option
     \<Rightarrow> int \<times> byte list option" where
  "mbedtls_cipher_cmac aes key input out =
     (case (key, input, out) of
        (Some k, Some m, Some _) \<Rightarrow>
          (0, Some (fst (mbedtls_cipher_cmac_finish (aes k)
                 (mbedtls_cipher_cmac_update (aes k) zero_cmac_context m))))
      | _ \<Rightarrow> (MBEDTLS_ERR_CIPHER_BAD_INPUT_DATA, out))"

section \<open>RFC 4493\<close>

text \<open>Doubling in the field of 128-bit blocks, on the big-endian value of a block.\<close>

fun be_value :: "byte list \<Rightarrow> nat" where
  "be_value [] = 0"
| "be_value (b # bs) = unat b * 256 ^ length bs + be_value bs"

definition rfc_double :: "nat \<Rightarrow> nat" where
  "rfc_double x = (if 2 ^ 127 \<le> x then (2 * x) mod 2 ^ 128 XOR 0x87 else 2 * x)"

definition xor_bytes :: "byte list \<Rightarrow> byte list \<Rightarrow> byte list" where
  "xor_bytes xs ys = map (\<lambda>(x, y). x XOR y) (zip xs ys)"

function rfc_chain :: "(byte list \<Rightarrow> byte list) \<Rightarrow> byte list \<Rightarrow> byte list \<Rightarrow> byte list \<times> byte list" where
  "rfc_chain aes x m =
     (if length m \<le> 16 then (x, m) else rfc_chain aes (aes (xor_bytes x (take 16 m))) (drop 16 m))"
  by auto
termination by (relation "measure (\<lambda>(aes, x, m). length m)") auto

declare rfc_chain.simps [simp del]

text \<open>\<open>T\<close> is the tag of \<open>m\<close>, for the subkeys obtained by doubling \<open>aes 0\<close> once and twice.\<close>

definition rfc4493_tag :: "(byte list \<Rightarrow> byte list) \<Rightarrow> byte list \<Rightarrow> byte list \<Rightarrow> byte list \<Rightarrow> byte list" where
  "rfc4493_tag aes k1 k2 m =
     (let (x, rest) = rfc_chain aes (replicate 16 0) m;
          m_last = (if length rest = 16 then xor_bytes rest k1
                    else xor_bytes (rest @ [0x80] @ replicate (15 - length rest) 0) k2) in
      aes (xor_bytes m_last x))"

section \<open>Facts\<close>

lemma be_value_bound: "be_value bs < 256 ^ length bs"
proof (induction bs)
  case (Cons b bs)
  have "unat b * 256 ^ length bs + be_value bs < (unat b + 1) * 256 ^ length bs" using Cons by simp
  also have "\<dots> \<le> 256 * 256 ^ length bs" proof (rule mult_right_mono)
    show "unat b + 1 \<le> 256" using unat_bounds(1) [of b] by linarith
  qed simp
  finally show ?case by simp
qed simp

lemma be_value_append: "be_value (xs @ ys) = be_value xs * 256 ^ length ys + be_value ys"
  by (induction xs) (simp_all add: power_add algebra_simps)

lemma length_shift_left [simp]: "length (fst (shift_left_bytes bs)) = length bs"
  by (induction bs) (auto split: prod.splits)

lemma unat_drop_bit_7: "unat (drop_bit 7 (b :: byte)) = unat b div 128"
proof -
  have "unat (drop_bit 7 b) = drop_bit 7 (unat b)"
    by (simp only: unsigned_drop_bit_eq) (simp add: take_bit_nat_eq_self)
  then show ?thesis by (simp add: drop_bit_eq_div)
qed

lemma even_below_256: "even x \<Longrightarrow> x < 256 \<Longrightarrow> x \<le> (254 :: nat)"
  by presburger

lemma shift_or:
  assumes "unat o' < 2"
  shows "unat (push_bit 1 b OR o' :: byte) = (2 * unat b) mod 256 + unat o'"
proof -
  have "o' = 0 \<or> o' = 1" using assms by (auto simp: less_Suc_eq word_unat_eq_iff numeral_2_eq_2)
  then have "push_bit 1 b OR o' = push_bit 1 b + o'"
    by (auto simp: or_one_eq)
  moreover have p: "unat (push_bit 1 b) = (2 * unat b) mod 256"
    by (simp add: unat_word_ariths mult.commute)
  moreover have "(2 * unat b) mod 256 + unat o' < 256"
  proof -
    have "even ((2 * unat b) mod 256)" by (simp add: dvd_mod)
    then have "(2 * unat b) mod 256 \<le> 254" by (rule even_below_256) simp
    with assms show ?thesis by linarith
  qed
  ultimately show ?thesis by (simp add: unat_word_ariths)
qed

lemma shift_left_value:
  "be_value (fst (shift_left_bytes bs)) = (2 * be_value bs) mod 256 ^ length bs
   \<and> unat (snd (shift_left_bytes bs)) = (2 * be_value bs) div 256 ^ length bs"
proof (induction bs)
  case (Cons b bs)
  obtain out o' where so: "shift_left_bytes bs = (out, o')" by fastforce
  let ?N = "256 ^ length bs :: nat"
  have N: "?N > 0" by simp
  have len: "length out = length bs" using length_shift_left [of bs] so by simp
  from Cons so have out: "be_value out = (2 * be_value bs) mod ?N" and o': "unat o' = (2 * be_value bs) div ?N"
    by simp_all
  have "2 * be_value bs < 2 * ?N" using be_value_bound [of bs] by simp
  then have lt: "unat o' < 2" using o' by (simp add: div_less_iff_less_mult)
  have two: "2 * be_value bs = unat o' * ?N + be_value out"
    using out o' div_mult_mod_eq [of "2 * be_value bs" ?N] by simp
  have eq: "2 * be_value (b # bs) = (2 * unat b + unat o') * ?N + be_value out"
    using two by (simp add: algebra_simps)
  have "be_value (fst (shift_left_bytes (b # bs))) = ((2 * unat b) mod 256 + unat o') * ?N + be_value out"
    using so len shift_or [OF lt, of b] by simp
  also have "\<dots> = (2 * be_value (b # bs)) mod (256 * ?N)"
  proof -
    have "((2 * unat b) mod 256 + unat o') * ?N + be_value out < 256 * ?N"
    proof -
      have "even ((2 * unat b) mod 256)" by (simp add: dvd_mod)
      then have "(2 * unat b) mod 256 \<le> 254" by (rule even_below_256) simp
      with lt have "(2 * unat b) mod 256 + unat o' + 1 \<le> 256" by linarith
      then have "((2 * unat b) mod 256 + unat o' + 1) * ?N \<le> 256 * ?N" by (rule mult_right_mono) (rule zero_le)
      moreover have "be_value out < ?N" using out by simp
      ultimately show ?thesis by (simp only: add_mult_distrib mult_1)
    qed
    moreover have "2 * be_value (b # bs) = (2 * unat b div 256) * (256 * ?N)
        + (((2 * unat b) mod 256 + unat o') * ?N + be_value out)"
    proof -
      define d m where dm: "d = 2 * unat b div 256" "m = (2 * unat b) mod 256"
      have ub: "2 * unat b = d * 256 + m" unfolding dm by (rule div_mult_mod_eq [symmetric])
      show ?thesis unfolding eq dm [symmetric] unfolding ub by (simp only: add_mult_distrib mult.assoc add.assoc)
    qed
    ultimately show ?thesis by simp
  qed
  finally have 1: "be_value (fst (shift_left_bytes (b # bs))) = (2 * be_value (b # bs)) mod 256 ^ length (b # bs)"
    by simp
  have "(2 * be_value (b # bs)) div (256 * ?N) = (2 * be_value (b # bs)) div ?N div 256"
    by (simp add: div_mult2_eq [symmetric] mult.commute)
  also have "(2 * be_value (b # bs)) div ?N = 2 * unat b + unat o'"
    unfolding eq using out by simp
  also have "(2 * unat b + unat o') div 256 = unat b div 128"
  proof -
    have "unat b = 128 * (unat b div 128) + unat b mod 128" by simp
    moreover have "unat b mod 128 < 128" by simp
    ultimately show ?thesis using lt by linarith
  qed
  finally have "unat (snd (shift_left_bytes (b # bs))) = (2 * be_value (b # bs)) div 256 ^ length (b # bs)"
    using so by (simp add: unat_drop_bit_7)
  with 1 show ?case by blast
qed simp

lemma xor_low_byte:
  fixes y c :: byte
  shows "(X * 256 + unat y) XOR unat c = X * 256 + unat (y XOR c)"
proof -
  have low: "v < 256 \<Longrightarrow> take_bit 8 (X * 256 + v) = v \<and> drop_bit 8 (X * 256 + v) = X" for v :: nat
    by (simp add: take_bit_eq_mod drop_bit_eq_div)
  have c: "take_bit 8 (unat c) = unat c" "drop_bit 8 (unat c) = 0"
    using unat_bounds(1) [of c] by (simp_all add: take_bit_eq_mod drop_bit_eq_div)
  have "take_bit 8 ((X * 256 + unat y) XOR unat c) = unat (y XOR c)"
    using low [of "unat y"] c by (simp add: take_bit_xor unsigned_xor_eq)
  moreover have "drop_bit 8 ((X * 256 + unat y) XOR unat c) = X"
    using low [of "unat y"] c by (simp add: drop_bit_xor)
  moreover have "v = push_bit 8 (drop_bit 8 v) + take_bit 8 v" for v :: nat
    by (simp add: bits_ident)
  ultimately show ?thesis
    by (metis push_bit_eq_mult power2_eq_square numeral_eq_Suc mult.commute low unat_bounds(1) bits_ident)
qed

lemma multiply_by_u_value:
  assumes "length bs = 16"
  shows "length (cmac_multiply_by_u bs) = 16" "be_value (cmac_multiply_by_u bs) = rfc_double (be_value bs)"
proof -
  obtain b0 rest where bs: "bs = b0 # rest" using assms by (cases bs) auto
  define out where "out = fst (shift_left_bytes bs)"
  have len: "length out = 16" by (simp add: out_def assms)
  have out: "be_value out = (2 * be_value bs) mod 2 ^ 128"
    using shift_left_value [of bs] assms by (simp add: out_def)
  obtain xs y where xs: "out = xs @ [y]" using len by (cases out rule: rev_cases) auto
  then have xs15: "length xs = 15" using len by simp
  define mask where "mask = - (drop_bit 7 b0)"
  have take: "take MBEDTLS_AES_BLOCK_SIZE bs = bs" using assms by (simp add: MBEDTLS_AES_BLOCK_SIZE_def)
  have hd: "bs ! 0 = b0" by (simp add: bs)
  have u: "cmac_multiply_by_u bs = xs @ [y XOR (0x87 AND mask)]"
    unfolding cmac_multiply_by_u_def take out_def [symmetric] hd mask_def [symmetric] Let_def
    using xs xs15 by (simp add: MBEDTLS_AES_BLOCK_SIZE_def list_update_append nth_append)
  then show "length (cmac_multiply_by_u bs) = 16" using xs15 by simp
  have rest: "be_value rest < 2 ^ 120" using be_value_bound [of rest] bs assms by simp
  have be: "be_value bs = unat b0 * 2 ^ 120 + be_value rest" using bs assms by simp
  have msb: "128 \<le> unat b0 \<longleftrightarrow> 2 ^ 127 \<le> be_value bs"
    using rest unfolding be by simp linarith
  have v: "be_value (cmac_multiply_by_u bs) = be_value xs * 256 + unat (y XOR (0x87 AND mask))"
    by (simp add: u be_value_append)
  have bo: "be_value out = be_value xs * 256 + unat y" by (simp add: xs be_value_append)
  show "be_value (cmac_multiply_by_u bs) = rfc_double (be_value bs)"
  proof (cases "128 \<le> unat b0")
    case True
    have "unat b0 div 128 = 1"
      using True unat_bounds(1) [of b0] by (intro div_nat_eqI) simp_all
    then have "unat (drop_bit 7 b0) = 1" by (simp add: unat_drop_bit_7)
    then have "drop_bit 7 b0 = 1" by (simp add: word_unat_eq_iff)
    then have "mask = - 1" by (simp add: mask_def)
    then have "be_value (cmac_multiply_by_u bs) = be_value out XOR unat (0x87 :: byte)"
      unfolding v bo xor_low_byte by simp
    with True msb out show ?thesis by (simp add: rfc_double_def)
  next
    case False
    then have "unat (drop_bit 7 b0) = 0" by (simp add: unat_drop_bit_7)
    then have "drop_bit 7 b0 = 0" by (simp add: word_unat_eq_iff)
    then have "mask = 0" by (simp add: mask_def)
    with v bo out False msb show ?thesis by (simp add: rfc_double_def)
  qed
qed

lemma cmac_xor_block_xor:
  "length a = 16 \<Longrightarrow> length b = 16 \<Longrightarrow> cmac_xor_block a b = xor_bytes a b"
  by (rule nth_equalityI) (simp_all add: cmac_xor_block_def xor_bytes_def MBEDTLS_AES_BLOCK_SIZE_def)

lemma cmac_xor_block_take: "16 \<le> length a \<Longrightarrow> cmac_xor_block a b = cmac_xor_block (take 16 a) b"
  by (simp add: cmac_xor_block_def MBEDTLS_AES_BLOCK_SIZE_def)

lemma xor_bytes_commute: "xor_bytes a b = xor_bytes b a"
  by (induction a b rule: list_induct2') (simp_all add: xor_bytes_def xor.commute)

lemma length_xor_bytes [simp]: "length (xor_bytes a b) = min (length a) (length b)"
  by (simp add: xor_bytes_def)

lemma cmac_blocks_chain:
  assumes "\<And>x. length (aes x) = 16" "length st = 16"
  shows "cmac_blocks aes ((length m + 15) div 16 - 1) st m = rfc_chain aes st m"
  using assms(2)
proof (induction m arbitrary: st rule: measure_induct_rule [of length])
  case (less m)
  show ?case
  proof (cases "length m \<le> 16")
    case True
    then have "(length m + 15) div 16 - 1 = 0" by (cases "length m = 0") auto
    then show ?thesis using True by (simp only:) (simp add: rfc_chain.simps)
  next
    case False
    then have n: "(length m + 15) div 16 - 1 = Suc ((length (drop 16 m) + 15) div 16 - 1)" by simp
    have x: "cmac_xor_block m st = xor_bytes st (take 16 m)"
      using False less.prems by (simp add: cmac_xor_block_take [of m] cmac_xor_block_xor xor_bytes_commute)
    have "rfc_chain aes st m = rfc_chain aes (aes (xor_bytes st (take 16 m))) (drop 16 m)"
      using False by (subst rfc_chain.simps) simp
    moreover have "cmac_blocks aes ((length (drop 16 m) + 15) div 16 - 1) (aes (xor_bytes st (take 16 m))) (drop 16 m)
        = rfc_chain aes (aes (xor_bytes st (take 16 m))) (drop 16 m)"
      using False by (intro less.IH) (simp_all add: assms(1))
    ultimately show ?thesis
      unfolding n by (simp only: cmac_blocks.simps x MBEDTLS_AES_BLOCK_SIZE_def)
  qed
qed

lemma rfc_chain_rest:
  assumes "\<And>x. length (aes x) = 16" "length st = 16" "rfc_chain aes st m = (x, r)"
  shows "length x = 16 \<and> length r \<le> 16 \<and> (m \<noteq> [] \<longrightarrow> r \<noteq> [])"
  using assms(2,3)
proof (induction m arbitrary: st rule: measure_induct_rule [of length])
  case (less m)
  show ?case
  proof (cases "length m \<le> 16")
    case True
    with less.prems show ?thesis by (simp add: rfc_chain.simps)
  next
    case False
    then have "rfc_chain aes (aes (xor_bytes st (take 16 m))) (drop 16 m) = (x, r)"
      using less.prems(2) by (subst (asm) rfc_chain.simps) simp
    from less.IH [OF _ _ this] False assms(1) show ?thesis by auto
  qed
qed

lemma cmac_pad_rfc:
  assumes "length r < 16" "take (length r) block = r" "length block = 16"
  shows "cmac_pad 16 block (length r) = r @ [0x80] @ replicate (15 - length r) 0"
proof (rule nth_equalityI)
  fix i assume "i < length (cmac_pad 16 block (length r))"
  then have i: "i < 16" by (simp add: cmac_pad_def)
  have "i < length r \<Longrightarrow> block ! i = r ! i" using assms(2) by (metis nth_take)
  then show "cmac_pad 16 block (length r) ! i = (r @ [0x80] @ replicate (15 - length r) 0) ! i"
    using i assms(1) by (auto simp: cmac_pad_def nth_append nth_Cons split: nat.split)
qed (use assms(1) in \<open>simp add: cmac_pad_def\<close>)

text \<open>The code computes the tag of the RFC, for any length of the message.\<close>

lemma cmac_is_rfc4493:
  assumes "\<And>x. length (aes x) = 16" "(K1, K2) = cmac_generate_subkeys aes"
  shows "fst (mbedtls_cipher_cmac_finish aes (mbedtls_cipher_cmac_update aes zero_cmac_context m))
    = rfc4493_tag aes K1 K2 m"
proof -
  obtain x r where ch: "rfc_chain aes (replicate 16 0) m = (x, r)" by fastforce
  have rest: "length x = 16" "length r \<le> 16" "m \<noteq> [] \<longrightarrow> r \<noteq> []"
    using rfc_chain_rest [OF _ _ ch] assms(1) by simp_all
  have bl: "cmac_blocks aes ((length m + 15) div 16 - 1) (replicate 16 0) m = (x, r)"
    using cmac_blocks_chain [of aes "replicate 16 0" m] assms(1) ch by simp
  define block where "block = (if r \<noteq> [] then r @ drop (length r) (replicate 16 0) else replicate 16 0 :: byte list)"
  have block: "length block = 16" "take (length r) block = r" using rest by (auto simp: block_def)
  have upd: "mbedtls_cipher_cmac_update aes zero_cmac_context m
      = \<lparr>cm_state = x, cm_unprocessed_block = block, cm_unprocessed_len = length r\<rparr>"
    using bl by (auto simp: add.commute [of "length m"] mbedtls_cipher_cmac_update_def cmac_update_rest_def zero_cmac_context_def
        MBEDTLS_AES_BLOCK_SIZE_def Let_def block_def)
  have L: "length (aes y) = 16" for y by (rule assms(1))
  have K: "length K1 = 16" "length K2 = 16"
    using assms(2) multiply_by_u_value(1) L
    by (auto simp: cmac_generate_subkeys_def MBEDTLS_AES_BLOCK_SIZE_def Let_def)
  have "block = r" if "length r = 16" using block that by simp
  then show ?thesis
    using rest block K assms(2) L ch cmac_pad_rfc [of r block]
    by (auto simp: upd mbedtls_cipher_cmac_finish_def rfc4493_tag_def MBEDTLS_AES_BLOCK_SIZE_def Let_def
        cmac_xor_block_xor split: prod.splits)
qed

section \<open>Properties\<close>

text \<open>
  C31. \<open>mbedtls_cipher_cmac\<close> returns 0 and the tag of RFC 4493 for a message of any length, the empty
  one included: K1 is the double of the encryption of the zero block in the field of 128-bit blocks, K2
  the double of K1, and the last block is masked with K1 when it is whole and padded with 0x80 00.. and
  masked with K2 when it is not. AES is any function with 16-byte results.
\<close>

theorem cmac_follows_rfc4493:
  assumes "\<And>k x. length (aes k x) = 16"
  shows "\<exists>K1 K2. mbedtls_cipher_cmac aes (Some key) (Some m) (Some out) = (0, Some (rfc4493_tag (aes key) K1 K2 m))
    \<and> length K1 = 16 \<and> be_value K1 = rfc_double (be_value (aes key (replicate 16 0)))
    \<and> length K2 = 16 \<and> be_value K2 = rfc_double (be_value K1)"
proof -
  define K where "K = cmac_generate_subkeys (aes key)"
  have "(fst K, snd K) = cmac_generate_subkeys (aes key)" by (simp add: K_def)
  note tag = cmac_is_rfc4493 [OF assms this]
  have "length (fst K) = 16" "length (snd K) = 16"
    "be_value (fst K) = rfc_double (be_value (aes key (replicate 16 0)))"
    "be_value (snd K) = rfc_double (be_value (fst K))"
    using multiply_by_u_value assms
    by (simp_all add: K_def cmac_generate_subkeys_def MBEDTLS_AES_BLOCK_SIZE_def Let_def)
  then show ?thesis
    by (intro exI [of _ "fst K"] exI [of _ "snd K"]) (simp add: mbedtls_cipher_cmac_def tag)
qed

theorem cmac_follows_rfc4493_witness:
  "\<exists>K1 K2. mbedtls_cipher_cmac (\<lambda>k x. map (\<lambda>i. (x @ k) ! i + 200) [0..<16]) (Some (replicate 16 1)) (Some [1, 2, 3])
      (Some []) = (0, Some (rfc4493_tag (\<lambda>x. map (\<lambda>i. (x @ replicate 16 1) ! i + 200) [0..<16]) K1 K2 [1, 2, 3]))
    \<and> be_value K1 = rfc_double (be_value (replicate 16 200))"
proof -
  have "map (\<lambda>i. (replicate 16 0 @ replicate 16 1) ! i + 200) [0..<16] = (replicate 16 200 :: byte list)"
    by code_simp
  then show ?thesis
    using cmac_follows_rfc4493 [of "\<lambda>k x. map (\<lambda>i. (x @ k) ! i + 200) [0..<16]" "replicate 16 1" "[1, 2, 3]" "[]"]
    by auto
qed

end
