(* ===== verification/Launch_Enclave.thy ===== *)
theory Launch_Enclave
  imports Cmac
begin

text \<open>
  The production launch enclave (driver/win/PLE: main.c, string.c, whitelist.h, the structures of
  asm/sgx_arch.h it uses): it checks a request in untrusted memory and signs an EINIT token.

  RDRAND, EREPORT, EGETKEY and the AES round instructions are those of the processor: the record
  \<open>ple_env\<close> holds what they return, together with the enclave's address range and what the untrusted
  host leaves in \<open>output.result\<close> between the enclave's write and its read back.
\<close>

section \<open>string.c\<close>

text \<open>Each function returns \<open>None\<close> when it leaves an object.\<close>

fun ple_memset :: "byte list \<Rightarrow> nat \<Rightarrow> int \<Rightarrow> nat \<Rightarrow> byte list option" where
  "ple_memset s i c 0 = Some s"
| "ple_memset s i c (Suc n) =
     (if i < length s then ple_memset (s[i := word_of_int c]) (Suc i) c n else None)"

fun ple_memcpy :: "byte list \<Rightarrow> byte list \<Rightarrow> nat \<Rightarrow> nat \<Rightarrow> byte list option" where
  "ple_memcpy dest src i 0 = Some dest"
| "ple_memcpy dest src i (Suc n) =
     (if i < length dest \<and> i < length src then ple_memcpy (dest[i := src ! i]) src (Suc i) n else None)"

text \<open>The elements are signed char.\<close>

fun ple_memcmp :: "byte list \<Rightarrow> byte list \<Rightarrow> nat \<Rightarrow> nat \<Rightarrow> int option" where
  "ple_memcmp s1 s2 i 0 = Some 0"
| "ple_memcmp s1 s2 i (Suc n) =
     (if i < length s1 \<and> i < length s2
      then (if s1 ! i \<noteq> s2 ! i then Some (sint (s1 ! i) - sint (s2 ! i)) else ple_memcmp s1 s2 (Suc i) n)
      else None)"

fun ple_strcmp :: "byte list \<Rightarrow> byte list \<Rightarrow> int option" where
  "ple_strcmp (a # s1) (b # s2) =
     (if a \<noteq> 0 \<or> b \<noteq> 0
      then (let delta = int (unat a) - int (unat b) in if delta \<noteq> 0 then Some delta else ple_strcmp s1 s2)
      else Some 0)"
| "ple_strcmp _ _ = None"

section \<open>Structures\<close>

record sgx_einittoken_payload =
  tp_valid :: u32
  tp_attributes :: u64
  tp_xfrm :: u64
  tp_mrenclave :: "byte list"
  tp_mrsigner :: "byte list"

text \<open>The bytes the CMAC is computed over; the reserved fields are zero.\<close>

definition payload_bytes :: "sgx_einittoken_payload \<Rightarrow> byte list" where
  "payload_bytes p = le32 (tp_valid p) @ replicate 44 0 @ le64 (tp_attributes p) @ le64 (tp_xfrm p)
     @ tp_mrenclave p @ replicate 32 0 @ tp_mrsigner p @ replicate 32 0"

record sgx_einittoken =
  et_payload :: sgx_einittoken_payload
  et_cpusvnle :: "byte list"
  et_isvprodidle :: u16
  et_isvsvnle :: u16
  et_maskedmiscselectle :: u32
  et_maskedattributesle :: u64
  et_maskedxfrmle :: u64
  et_keyid :: "byte list"
  et_mac :: "byte list"

definition zero_payload :: sgx_einittoken_payload where
  "zero_payload = \<lparr>tp_valid = 0, tp_attributes = 0, tp_xfrm = 0, tp_mrenclave = replicate 32 0,
     tp_mrsigner = replicate 32 0\<rparr>"

definition zero_token :: sgx_einittoken where
  "zero_token = \<lparr>et_payload = zero_payload, et_cpusvnle = replicate 16 0, et_isvprodidle = 0,
     et_isvsvnle = 0, et_maskedmiscselectle = 0, et_maskedattributesle = 0, et_maskedxfrmle = 0,
     et_keyid = replicate 32 0, et_mac = replicate 16 0\<rparr>"

record sgx_report =
  sr_cpusvn :: "byte list"
  sr_miscselect :: u32
  sr_attributes :: u64
  sr_xfrm :: u64
  sr_isvprodid :: u16
  sr_isvsvn :: u16

record sgx_keyrequest =
  kr_keyname :: u16
  kr_isvsvn :: u16
  kr_cpusvn :: "byte list"
  kr_attributemask :: u64
  kr_xfrmmask :: u64
  kr_keyid :: "byte list"
  kr_miscmask :: u32

definition SGX_ATTR_MODE64BIT :: int where "SGX_ATTR_MODE64BIT = 0x004"
definition SGX_ATTR_RESERVED_MASK :: u64 where "SGX_ATTR_RESERVED_MASK = 0xFFFFFFFFFFFFFB49"
definition SGX_FLAGS_PROVISION_KEY :: u64 where "SGX_FLAGS_PROVISION_KEY = 0x0000000000000010"

definition SGX_SUCCESS :: int where "SGX_SUCCESS = 0"
definition SGX_INVALID_ATTRIBUTE :: int where "SGX_INVALID_ATTRIBUTE = 2"
definition SGX_INVALID_PRIVILEGE :: int where "SGX_INVALID_PRIVILEGE = 0x40000002"
definition SGX_UNEXPECTED_ERROR :: int where "SGX_UNEXPECTED_ERROR = 0x40000003"

lemmas sgx_status_defs = SGX_SUCCESS_def SGX_INVALID_ATTRIBUTE_def SGX_INVALID_PRIVILEGE_def
  SGX_UNEXPECTED_ERROR_def

section \<open>whitelist.h\<close>

definition G_SERVICE_ENCLAVE_MRSIGNER :: "byte list list" where
  "G_SERVICE_ENCLAVE_MRSIGNER =
    [[0xEC, 0x15, 0xB1, 0x07, 0x87, 0xD2, 0xF8, 0x46, 0x67, 0xCE, 0xB0, 0xB5, 0x98, 0xFF, 0xC4, 0x4A,
      0x1F, 0x1C, 0xB8, 0x0F, 0x67, 0x0A, 0xAE, 0x5D, 0xF9, 0xE8, 0xFA, 0x9F, 0x63, 0x76, 0xE1, 0xF8],
     [0xC5, 0x4A, 0x62, 0xF2, 0xBE, 0x9E, 0xF7, 0x6E, 0xFB, 0x1F, 0x39, 0x30, 0xAD, 0x81, 0xEA, 0x7F,
      0x60, 0xDE, 0xFC, 0x1F, 0x5F, 0x25, 0xE0, 0x9B, 0x7C, 0x06, 0x7A, 0x81, 0x5A, 0xE0, 0xC6, 0xCB],
     [0x8C, 0x4F, 0x57, 0x75, 0xD7, 0x96, 0x50, 0x3E, 0x96, 0x13, 0x7F, 0x77, 0xC6, 0x8A, 0x82, 0x9A,
      0x00, 0x56, 0xAC, 0x8D, 0xED, 0x70, 0x14, 0x0B, 0x08, 0x1B, 0x09, 0x44, 0x90, 0xC5, 0x7B, 0xFF]]"

section \<open>main.c\<close>

record ple_env =
  pl_rdrand :: "nat \<Rightarrow> u32 option"        \<comment> \<open>the k-th execution of RDRAND\<close>
  pl_ereport :: "int \<times> sgx_report"
  pl_egetkey :: "sgx_keyrequest \<Rightarrow> int \<times> byte list"
  pl_aes :: "byte list \<Rightarrow> byte list \<Rightarrow> byte list"
  pl_enclave_base :: u64
  pl_enclave_size :: u64
  pl_reread :: "int \<Rightarrow> int"               \<comment> \<open>output.result as it is read back\<close>

definition RAND_NR_TRIES :: nat where "RAND_NR_TRIES = 10"

text \<open>The value and the number of executions so far; the first argument is the tries left.\<close>

fun rdrand_tries :: "(nat \<Rightarrow> u32 option) \<Rightarrow> nat \<Rightarrow> nat \<Rightarrow> u32 option \<times> nat" where
  "rdrand_tries rd 0 k = (None, k)"
| "rdrand_tries rd (Suc n) k = (case rd k of Some v \<Rightarrow> (Some v, Suc k) | None \<Rightarrow> rdrand_tries rd n (Suc k))"

definition rdrand_uint32 :: "(nat \<Rightarrow> u32 option) \<Rightarrow> nat \<Rightarrow> u32 option \<times> nat" where
  "rdrand_uint32 rd k = rdrand_tries rd RAND_NR_TRIES k"

text \<open>
  The loop over the words of keyid, the first argument of them left: the words drawn, and whether all
  of them were; a failed RDRAND leaves 0.
\<close>

fun fill_keyid :: "nat \<Rightarrow> (nat \<Rightarrow> u32 option) \<Rightarrow> nat \<Rightarrow> byte list \<times> bool" where
  "fill_keyid 0 rd k = ([], True)"
| "fill_keyid (Suc n) rd k =
     (case rdrand_uint32 rd k of
        (None, _) \<Rightarrow> (replicate (4 * Suc n) 0, False)
      | (Some v, k') \<Rightarrow> (case fill_keyid n rd k' of (bs, ok) \<Rightarrow> (le32 v @ bs, ok)))"

definition sign_einittoken :: "ple_env \<Rightarrow> sgx_einittoken \<Rightarrow> int \<times> sgx_einittoken" where
  "sign_einittoken w einittoken =
     (let (keyid, ok) = fill_keyid (32 div 4) (pl_rdrand w) 0; t1 = einittoken\<lparr>et_keyid := keyid\<rparr> in
      if \<not> ok then (SGX_UNEXPECTED_ERROR, t1)
      else
        let keyrequest = \<lparr>kr_keyname = 0, kr_isvsvn = et_isvsvnle t1, kr_cpusvn = et_cpusvnle t1,
              kr_attributemask = word_of_int (NOT SGX_ATTR_MODE64BIT), kr_xfrmmask = 0,
              kr_keyid = et_keyid t1, kr_miscmask = 0xFFFFFFFF\<rparr>;
            t2 = t1\<lparr>et_maskedmiscselectle := et_maskedmiscselectle t1 AND kr_miscmask keyrequest,
              et_maskedattributesle := et_maskedattributesle t1 AND kr_attributemask keyrequest,
              et_maskedxfrmle := et_maskedxfrmle t1 AND kr_xfrmmask keyrequest\<rparr>;
            (failed, launch_key) = pl_egetkey w keyrequest in
        if failed \<noteq> 0 then (0, t2)
        else (case mbedtls_cipher_cmac (pl_aes w) (Some launch_key) (Some (payload_bytes (et_payload t2)))
                    (Some (et_mac t2)) of
                (ret, mac) \<Rightarrow> (if ret \<noteq> 0 then SGX_UNEXPECTED_ERROR else SGX_SUCCESS,
                               t2\<lparr>et_mac := obj mac\<rparr>)))"

text \<open>The token is the zeroed one until the report has been obtained.\<close>

definition create_einittoken ::
  "ple_env \<Rightarrow> byte list \<Rightarrow> byte list \<Rightarrow> u64 \<Rightarrow> u64 \<Rightarrow> sgx_einittoken \<Rightarrow> int \<times> sgx_einittoken" where
  "create_einittoken w mrenclave mrsigner attributes xfrm einittoken =
     (if attributes AND SGX_ATTR_RESERVED_MASK \<noteq> 0 then (SGX_INVALID_ATTRIBUTE, einittoken)
      else case pl_ereport w of (failed, report) \<Rightarrow>
        if failed \<noteq> 0 then (SGX_UNEXPECTED_ERROR, einittoken)
        else sign_einittoken w (zero_token\<lparr>
          et_payload := \<lparr>tp_valid = 1, tp_attributes = attributes, tp_xfrm = xfrm,
            tp_mrenclave = take 32 mrenclave, tp_mrsigner = take 32 mrsigner\<rparr>,
          et_cpusvnle := sr_cpusvn report, et_isvsvnle := sr_isvsvn report,
          et_isvprodidle := sr_isvprodid report, et_maskedattributesle := sr_attributes report,
          et_maskedxfrmle := sr_xfrm report, et_maskedmiscselectle := sr_miscselect report\<rparr>))"

definition is_outside_enclave :: "u64 \<Rightarrow> u64 \<Rightarrow> u64 \<Rightarrow> u64 \<Rightarrow> bool" where
  "is_outside_enclave enclave_start enclave_size addr len =
     (let enclave_end = enclave_start + enclave_size - 1; start = addr;
          end' = (if len > 0 then start + len - 1 else start) in
      if start > end' \<or> enclave_start > enclave_end then False
      else start > enclave_end \<or> end' < enclave_start)"

text \<open>The request in untrusted memory: 392 bytes with its output.\<close>

record sgx_launch_request =
  lr_mrenclave :: "byte list"
  lr_mrsigner :: "byte list"
  lr_attributes :: u64
  lr_xfrm :: u64
  lr_token :: sgx_einittoken
  lr_result :: int

abbreviation "sizeof_sgx_launch_request \<equiv> (392 :: u64)"

text \<open>The search of the whitelist; \<open>None\<close> is a read outside an object.\<close>

fun is_service_enclave :: "byte list list \<Rightarrow> byte list \<Rightarrow> bool option" where
  "is_service_enclave [] mrsigner = Some False"
| "is_service_enclave (s # ss) mrsigner =
     (case ple_memcmp s mrsigner 0 32 of None \<Rightarrow> None
      | Some r \<Rightarrow> if r = 0 then Some True else is_service_enclave ss mrsigner)"

text \<open>
  The request afterwards; \<open>None\<close> is a read outside an object. The decision to copy the token is taken
  on \<open>output.result\<close> as read back from untrusted memory.
\<close>

definition encl_body :: "ple_env \<Rightarrow> u64 \<Rightarrow> sgx_launch_request \<Rightarrow> sgx_launch_request option" where
  "encl_body w req_addr req =
     (if req_addr = 0 then Some req
      else if \<not> is_outside_enclave (pl_enclave_base w) (pl_enclave_size w) req_addr sizeof_sgx_launch_request
      then Some req
      else
        let mrenclave = take 32 (lr_mrenclave req); mrsigner = take 32 (lr_mrsigner req);
            attributes = lr_attributes req; xfrm = lr_xfrm req;
            issue = (let (result, token) = create_einittoken w mrenclave mrsigner attributes xfrm zero_token;
                         req1 = req\<lparr>lr_result := pl_reread w result\<rparr> in
                     if lr_result req1 = SGX_SUCCESS then req1\<lparr>lr_token := token\<rparr> else req1) in
        if attributes AND SGX_FLAGS_PROVISION_KEY \<noteq> 0
        then (case is_service_enclave G_SERVICE_ENCLAVE_MRSIGNER mrsigner of
                None \<Rightarrow> None
              | Some True \<Rightarrow> Some issue
              | Some False \<Rightarrow> Some (req\<lparr>lr_token := (lr_token req)\<lparr>et_payload := (et_payload (lr_token req))\<lparr>tp_valid := 0\<rparr>\<rparr>,
                                       lr_result := SGX_INVALID_PRIVILEGE\<rparr>))
        else Some issue)"

section \<open>Facts\<close>

lemma ple_memcpy_copies:
  "i + n \<le> length dest \<Longrightarrow> i + n \<le> length src
   \<Longrightarrow> ple_memcpy dest src i n = Some (take i dest @ take n (drop i src) @ drop (i + n) dest)"
proof (induction n arbitrary: dest i)
  case (Suc n)
  have "ple_memcpy (dest[i := src ! i]) src (Suc i) n
      = Some (take (Suc i) (dest[i := src ! i]) @ take n (drop (Suc i) src) @ drop (Suc i + n) (dest[i := src ! i]))"
    using Suc.prems by (intro Suc.IH) simp_all
  moreover have "take (Suc i) (dest[i := src ! i]) = take i dest @ [src ! i]"
    using Suc.prems by (simp add: take_Suc_conv_app_nth)
  moreover have "take (Suc n) (drop i src) = src ! i # take n (drop (Suc i) src)"
    using Suc.prems by (simp add: Cons_nth_drop_Suc [symmetric])
  ultimately show ?case using Suc.prems by simp
qed simp

lemma ple_memcmp_zero:
  "i + n \<le> length s1 \<Longrightarrow> i + n \<le> length s2
   \<Longrightarrow> \<exists>r. ple_memcmp s1 s2 i n = Some r \<and> (r = 0 \<longleftrightarrow> take n (drop i s1) = take n (drop i s2))"
proof (induction n arbitrary: i)
  case (Suc n)
  have t: "take (Suc n) (drop i s1) = s1 ! i # take n (drop (Suc i) s1)"
    "take (Suc n) (drop i s2) = s2 ! i # take n (drop (Suc i) s2)"
    using Suc.prems by (simp_all add: Cons_nth_drop_Suc [symmetric])
  show ?case
  proof (cases "s1 ! i = s2 ! i")
    case True
    with Suc.IH [of "Suc i"] Suc.prems t show ?thesis by auto
  next
    case False
    then have "sint (s1 ! i) - sint (s2 ! i) \<noteq> 0" by (metis signed_word_eqI eq_iff_diff_eq_0)
    with False Suc.prems t show ?thesis by auto
  qed
qed simp

lemma is_service_enclave_iff:
  "length m = 32 \<Longrightarrow> \<forall>s\<in>set ss. length s = 32 \<Longrightarrow> is_service_enclave ss m = Some (m \<in> set ss)"
proof (induction ss)
  case (Cons s ss)
  then obtain r where "ple_memcmp s m 0 32 = Some r" "r = 0 \<longleftrightarrow> s = m"
    using ple_memcmp_zero [of 0 32 s m] by auto
  with Cons show ?case by auto
qed simp

lemma whitelist_lengths: "\<forall>s\<in>set G_SERVICE_ENCLAVE_MRSIGNER. length s = 32"
  by (simp add: G_SERVICE_ENCLAVE_MRSIGNER_def)

lemma length_fill_keyid: "length (fst (fill_keyid n rd k)) = 4 * n"
  by (induction n arbitrary: k) (auto split: prod.splits option.splits, (metis fst_conv)+)

lemma fill_keyid_ok_rdrand:
  "snd (fill_keyid (Suc n) rd k) \<Longrightarrow> \<exists>v k'. rdrand_uint32 rd k = (Some v, k')"
  by (auto split: prod.splits option.splits)

lemma payload_sz:
  "length (tp_mrenclave p) = 32 \<Longrightarrow> length (tp_mrsigner p) = 32 \<Longrightarrow> length (payload_bytes p) = 192"
  by (simp add: payload_bytes_def)

text \<open>A token that leaves the signer with a failure code carries the MAC it came in with.\<close>

lemma sign_failure_keeps_mac:
  "sign_einittoken w t = (r, t') \<Longrightarrow> r \<noteq> SGX_SUCCESS \<Longrightarrow> et_mac t' = et_mac t"
  by (auto simp: sign_einittoken_def sgx_status_defs mbedtls_cipher_cmac_def Let_def split: prod.splits if_splits)

text \<open>The request for the launch key, and what a signed token holds.\<close>

definition launch_key_request :: "u16 \<Rightarrow> byte list \<Rightarrow> byte list \<Rightarrow> sgx_keyrequest" where
  "launch_key_request isvsvn cpusvn keyid = \<lparr>kr_keyname = 0, kr_isvsvn = isvsvn, kr_cpusvn = cpusvn,
     kr_attributemask = word_of_int (NOT SGX_ATTR_MODE64BIT), kr_xfrmmask = 0, kr_keyid = keyid,
     kr_miscmask = 0xFFFFFFFF\<rparr>"

lemma sign_einittoken_ok:
  assumes "fill_keyid 8 (pl_rdrand w) 0 = (keyid, True)" "\<And>kr. pl_egetkey w kr = (0, launch_key kr)"
  shows "\<exists>t'. sign_einittoken w t = (SGX_SUCCESS, t') \<and> et_payload t' = et_payload t \<and> et_keyid t' = keyid
    \<and> et_isvsvnle t' = et_isvsvnle t \<and> et_cpusvnle t' = et_cpusvnle t
    \<and> et_mac t' = (let aes = pl_aes w (launch_key (launch_key_request (et_isvsvnle t) (et_cpusvnle t) keyid)) in
        fst (mbedtls_cipher_cmac_finish aes (mbedtls_cipher_cmac_update aes zero_cmac_context (payload_bytes (et_payload t)))))"
  using assms(1) by (simp add: sign_einittoken_def assms(2) Let_def mbedtls_cipher_cmac_def SGX_SUCCESS_def launch_key_request_def)

lemma sign_einittoken_no_key:
  assumes "fill_keyid 8 (pl_rdrand w) 0 = (keyid, True)" "\<And>kr. fst (pl_egetkey w kr) \<noteq> 0"
  shows "\<exists>t'. sign_einittoken w t = (SGX_SUCCESS, t') \<and> et_payload t' = et_payload t \<and> et_mac t' = et_mac t"
proof -
  have eq: "pl_egetkey w kr = (fst (pl_egetkey w kr), snd (pl_egetkey w kr))" for kr by simp
  show ?thesis
    unfolding sign_einittoken_def Let_def SGX_SUCCESS_def
    by (subst eq) (use assms in \<open>simp only: prod.case fst_conv snd_conv\<close>; simp)
qed

lemma zero_token_simps [simp]:
  "et_mac zero_token = replicate 16 0" "et_payload zero_token = zero_payload"
  "et_mac (zero_token\<lparr>et_payload := p, et_cpusvnle := a, et_isvsvnle := b, et_isvprodidle := c,
     et_maskedattributesle := d, et_maskedxfrmle := e, et_maskedmiscselectle := f\<rparr>) = replicate 16 0"
  "et_payload (zero_token\<lparr>et_payload := p, et_cpusvnle := a, et_isvsvnle := b, et_isvprodidle := c,
     et_maskedattributesle := d, et_maskedxfrmle := e, et_maskedmiscselectle := f\<rparr>) = p"
  by (simp_all add: zero_token_def)

section \<open>Properties\<close>

text \<open>What the signer makes of an acceptable request.\<close>

lemma create_einittoken_authentic:
  assumes "attributes AND SGX_ATTR_RESERVED_MASK = 0" "pl_ereport w = (0, report)"
    "fill_keyid 8 (pl_rdrand w) 0 = (keyid, True)" "\<And>kr. pl_egetkey w kr = (0, launch_key kr)"
    "\<And>k x. length (pl_aes w k x) = 16" "length mrenclave = 32" "length mrsigner = 32"
  shows "\<exists>t kr K1 K2. create_einittoken w mrenclave mrsigner attributes xfrm zero_token = (SGX_SUCCESS, t)
    \<and> et_payload t = \<lparr>tp_valid = 1, tp_attributes = attributes, tp_xfrm = xfrm, tp_mrenclave = mrenclave,
         tp_mrsigner = mrsigner\<rparr>
    \<and> length (payload_bytes (et_payload t)) = 192
    \<and> kr_keyid kr = keyid \<and> et_keyid t = keyid \<and> kr_isvsvn kr = et_isvsvnle t \<and> kr_cpusvn kr = et_cpusvnle t
    \<and> et_mac t = rfc4493_tag (pl_aes w (launch_key kr)) K1 K2 (payload_bytes (et_payload t))
    \<and> length K1 = 16 \<and> length K2 = 16
    \<and> be_value K1 = rfc_double (be_value (pl_aes w (launch_key kr) (replicate 16 0)))
    \<and> be_value K2 = rfc_double (be_value K1)"
proof -
  define kr where "kr = launch_key_request (sr_isvsvn report) (sr_cpusvn report) keyid"
  define K where "K = cmac_generate_subkeys (pl_aes w (launch_key kr))"
  have "(fst K, snd K) = cmac_generate_subkeys (pl_aes w (launch_key kr))" by (simp add: K_def)
  note mac = cmac_is_rfc4493 [OF assms(5) this]
  have K: "length (fst K) = 16" "length (snd K) = 16"
    "be_value (fst K) = rfc_double (be_value (pl_aes w (launch_key kr) (replicate 16 0)))"
    "be_value (snd K) = rfc_double (be_value (fst K))"
    using multiply_by_u_value assms(5)
    by (simp_all add: K_def cmac_generate_subkeys_def MBEDTLS_AES_BLOCK_SIZE_def Let_def)
  have kr: "kr_keyid kr = keyid" "kr_isvsvn kr = sr_isvsvn report" "kr_cpusvn kr = sr_cpusvn report"
    by (simp_all add: kr_def launch_key_request_def)
  define p where "p = \<lparr>tp_valid = 1, tp_attributes = attributes, tp_xfrm = xfrm, tp_mrenclave = mrenclave,
    tp_mrsigner = mrsigner\<rparr>"
  define t where "t = zero_token\<lparr>et_payload := p, et_cpusvnle := sr_cpusvn report, et_isvsvnle := sr_isvsvn report,
    et_isvprodidle := sr_isvprodid report, et_maskedattributesle := sr_attributes report,
    et_maskedxfrmle := sr_xfrm report, et_maskedmiscselectle := sr_miscselect report\<rparr>"
  have "create_einittoken w mrenclave mrsigner attributes xfrm zero_token = sign_einittoken w t"
    using assms(1,2,6,7) by (simp add: create_einittoken_def t_def p_def)
  moreover have t: "et_payload t = p" "et_isvsvnle t = sr_isvsvn report" "et_cpusvnle t = sr_cpusvn report"
    by (simp_all add: t_def)
  obtain t' where t': "sign_einittoken w t = (SGX_SUCCESS, t')" "et_payload t' = p" "et_keyid t' = keyid"
    "et_isvsvnle t' = sr_isvsvn report" "et_cpusvnle t' = sr_cpusvn report"
    "et_mac t' = rfc4493_tag (pl_aes w (launch_key kr)) (fst K) (snd K) (payload_bytes p)"
    using sign_einittoken_ok [OF assms(3,4), of t] mac [of "payload_bytes p"]
    unfolding t kr_def [symmetric] Let_def by metis
  moreover have "length (payload_bytes p) = 192" using assms(6,7) by (simp add: payload_sz p_def)
  ultimately show ?thesis
    using K kr t' unfolding p_def by (intro exI [of _ t'] exI [of _ kr] exI [of _ "fst K"] exI [of _ "snd K"] conjI) (simp_all only: t')
qed

text \<open>
  A token the launch enclave reports as signed carries the RFC 4493 tag of its own 192 payload
  bytes under the launch key, K1 being the double of AES(0) and K2 that of K1; the payload is valid and
  repeats the measurement, the signer, the attributes and the XFRM of the request, and the MAC is under
  the launch key EGETKEY derived for the key id in the token. It holds whenever EREPORT and EGETKEY
  succeed and no RDRAND loop runs out of tries, for every request with no reserved attribute.
\<close>

theorem launch_token_is_authentic:
  assumes "attributes AND SGX_ATTR_RESERVED_MASK = 0" "pl_ereport w = (0, report)"
    "fill_keyid 8 (pl_rdrand w) 0 = (keyid, True)" "\<And>kr. pl_egetkey w kr = (0, launch_key kr)"
    "\<And>k x. length (pl_aes w k x) = 16" "length mrenclave = 32" "length mrsigner = 32"
  shows "\<exists>t kr K1 K2. create_einittoken w mrenclave mrsigner attributes xfrm zero_token = (SGX_SUCCESS, t)
    \<and> et_payload t = \<lparr>tp_valid = 1, tp_attributes = attributes, tp_xfrm = xfrm, tp_mrenclave = mrenclave,
         tp_mrsigner = mrsigner\<rparr>
    \<and> length (payload_bytes (et_payload t)) = 192
    \<and> kr_keyid kr = keyid \<and> et_keyid t = keyid \<and> kr_isvsvn kr = et_isvsvnle t \<and> kr_cpusvn kr = et_cpusvnle t
    \<and> et_mac t = rfc4493_tag (pl_aes w (launch_key kr)) K1 K2 (payload_bytes (et_payload t))
    \<and> length K1 = 16 \<and> length K2 = 16
    \<and> be_value K1 = rfc_double (be_value (pl_aes w (launch_key kr) (replicate 16 0)))
    \<and> be_value K2 = rfc_double (be_value K1)"
  using assms by (rule create_einittoken_authentic)

definition demo_ple :: ple_env where
  "demo_ple = \<lparr>pl_rdrand = (\<lambda>k. if k < 5 then None else Some (of_nat k)),
     pl_ereport = (0, \<lparr>sr_cpusvn = replicate 16 7, sr_miscselect = 1, sr_attributes = 7, sr_xfrm = 3,
       sr_isvprodid = 1, sr_isvsvn = 2\<rparr>),
     pl_egetkey = (\<lambda>kr. (0, take 16 (kr_keyid kr))), pl_aes = (\<lambda>k x. map (\<lambda>i. (x @ k) ! i + of_nat i) [0..<16]),
     pl_enclave_base = 0x10000, pl_enclave_size = 0x8000, pl_reread = (\<lambda>r. r)\<rparr>"

lemma demo_ple_keyid:
  "fill_keyid 8 (pl_rdrand demo_ple) 0 = (concat (map (\<lambda>k. le32 (of_nat k)) [5..<13]), True)"
  by (simp add: demo_ple_def rdrand_uint32_def RAND_NR_TRIES_def eval_nat_numeral upt_conv_Cons)

theorem launch_token_is_authentic_witness:
  "\<exists>t. create_einittoken demo_ple (replicate 32 1) (replicate 32 2) 4 3 zero_token = (SGX_SUCCESS, t)
     \<and> et_payload t = \<lparr>tp_valid = 1, tp_attributes = 4, tp_xfrm = 3, tp_mrenclave = replicate 32 1,
          tp_mrsigner = replicate 32 2\<rparr>"
  using launch_token_is_authentic [of 4 demo_ple "snd (pl_ereport demo_ple)" _ "\<lambda>kr. take 16 (kr_keyid kr)"
      "replicate 32 1" "replicate 32 2" 3, OF _ _ demo_ple_keyid]
  by (auto simp: SGX_ATTR_RESERVED_MASK_def demo_ple_def)

text \<open>
  C34. Whatever the host writes into \<open>output.result\<close> while the enclave runs, a request with a reserved
  attribute, or with the provisioning-key attribute and a signer that is not one of the three service
  enclave signers, never leaves the enclave with a fresh MAC: the MAC in the request afterwards is the
  one the host had put there or all zeros. No read leaves an object.
\<close>

theorem refused_request_gets_no_mac:
  assumes "length (lr_mrsigner req) = 32"
    "lr_attributes req AND SGX_ATTR_RESERVED_MASK \<noteq> 0
     \<or> (lr_attributes req AND SGX_FLAGS_PROVISION_KEY \<noteq> 0 \<and> lr_mrsigner req \<notin> set G_SERVICE_ENCLAVE_MRSIGNER)"
  shows "\<exists>req'. encl_body w addr req = Some req'
    \<and> et_mac (lr_token req') \<in> {et_mac (lr_token req), replicate 16 0}"
proof -
  have wl: "is_service_enclave G_SERVICE_ENCLAVE_MRSIGNER (take 32 (lr_mrsigner req))
      = Some (lr_mrsigner req \<in> set G_SERVICE_ENCLAVE_MRSIGNER)"
    using is_service_enclave_iff [OF _ whitelist_lengths, of "lr_mrsigner req"] assms(1) by simp
  define b where "b = (lr_mrsigner req \<in> set G_SERVICE_ENCLAVE_MRSIGNER)"
  show ?thesis
  proof (cases "lr_attributes req AND SGX_ATTR_RESERVED_MASK = 0")
    case False
    then have "create_einittoken w (take 32 (lr_mrenclave req)) (take 32 (lr_mrsigner req)) (lr_attributes req)
        (lr_xfrm req) zero_token = (SGX_INVALID_ATTRIBUTE, zero_token)"
      by (simp add: create_einittoken_def)
    then show ?thesis
      unfolding encl_body_def Let_def wl b_def [symmetric]
      by (cases b) (simp_all add: zero_token_def)
  next
    case True
    with assms(2) have "lr_attributes req AND SGX_FLAGS_PROVISION_KEY \<noteq> 0" "\<not> b" by (auto simp: b_def)
    then show ?thesis unfolding encl_body_def Let_def wl b_def [symmetric] by simp
  qed
qed

definition demo_request :: sgx_launch_request where
  "demo_request = \<lparr>lr_mrenclave = replicate 32 1, lr_mrsigner = replicate 32 2, lr_attributes = 0x14, lr_xfrm = 3,
     lr_token = zero_token\<lparr>et_mac := replicate 16 9\<rparr>, lr_result = 0\<rparr>"

theorem refused_request_gets_no_mac_witness:
  "\<exists>req'. encl_body demo_ple 0x40000 demo_request = Some req'
     \<and> et_mac (lr_token req') \<in> {replicate 16 9, replicate 16 0}"
proof -
  have "lr_mrsigner demo_request \<notin> set G_SERVICE_ENCLAVE_MRSIGNER" by code_simp
  then show ?thesis
    using refused_request_gets_no_mac [of demo_request demo_ple "0x40000"]
    by (simp add: demo_request_def SGX_FLAGS_PROVISION_KEY_def)
qed

text \<open>
  When EGETKEY fails the launch enclave still reports success: the request gets the code
  \<open>SGX_SUCCESS\<close> and a token marked valid whose MAC is all zeros, because \<open>sign_einittoken\<close> returns
  \<open>false\<close>, which is the success code, on that path.
\<close>

theorem egetkey_failure_reports_success:
  assumes "addr \<noteq> 0" "is_outside_enclave (pl_enclave_base w) (pl_enclave_size w) addr sizeof_sgx_launch_request"
    "lr_attributes req AND SGX_ATTR_RESERVED_MASK = 0" "lr_attributes req AND SGX_FLAGS_PROVISION_KEY = 0"
    "pl_ereport w = (0, report)" "snd (fill_keyid 8 (pl_rdrand w) 0)" "\<And>kr. fst (pl_egetkey w kr) \<noteq> 0"
    "\<And>r. pl_reread w r = r"
  shows "\<exists>req'. encl_body w addr req = Some req' \<and> lr_result req' = SGX_SUCCESS
    \<and> tp_valid (et_payload (lr_token req')) = 1 \<and> et_mac (lr_token req') = replicate 16 0"
proof -
  obtain keyid where k: "fill_keyid 8 (pl_rdrand w) 0 = (keyid, True)" using assms(6) by (metis prod.collapse)
  obtain t where t: "create_einittoken w (take 32 (lr_mrenclave req)) (take 32 (lr_mrsigner req)) (lr_attributes req)
      (lr_xfrm req) zero_token = (SGX_SUCCESS, t)" "tp_valid (et_payload t) = 1" "et_mac t = replicate 16 0"
    using assms(3,5) sign_einittoken_no_key [OF k assms(7)]
    by (simp add: create_einittoken_def)
      (metis zero_token_simps(3,4) sgx_einittoken_payload.select_convs(1))
  then show ?thesis
    using assms(1,2,4,8) unfolding encl_body_def Let_def t(1) by simp
qed

theorem egetkey_failure_reports_success_witness:
  "\<exists>req'. encl_body (demo_ple\<lparr>pl_egetkey := \<lambda>kr. (8, [])\<rparr>) 0x40000 (demo_request\<lparr>lr_attributes := 4\<rparr>) = Some req'
     \<and> lr_result req' = SGX_SUCCESS \<and> et_mac (lr_token req') = replicate 16 0"
proof -
  have "snd (fill_keyid 8 (pl_rdrand (demo_ple\<lparr>pl_egetkey := \<lambda>kr. (8, [])\<rparr>)) 0)"
    using demo_ple_keyid by (simp add: demo_ple_def)
  from egetkey_failure_reports_success [OF _ _ _ _ _ this, of "0x40000" "demo_request\<lparr>lr_attributes := 4\<rparr>"
      "snd (pl_ereport demo_ple)"] show ?thesis
    by (auto simp: demo_ple_def demo_request_def SGX_ATTR_RESERVED_MASK_def SGX_FLAGS_PROVISION_KEY_def
        is_outside_enclave_def Let_def)
qed

text \<open>
  C35. For a non-empty object and a non-empty enclave the address check of the launch enclave answers
  true exactly when neither range wraps around the address space and the two do not meet.
\<close>

theorem outside_enclave_exact:
  assumes "0 < len" "0 < sz"
  shows "is_outside_enclave base sz addr len \<longleftrightarrow>
    unat base + unat sz \<le> 2 ^ 64 \<and> unat addr + unat len \<le> 2 ^ 64
    \<and> (unat base + unat sz \<le> unat addr \<or> unat addr + unat len \<le> unat base)"
proof -
  have e: "(a \<le> a + n - 1 \<longleftrightarrow> unat a + unat n \<le> 2 ^ 64)
      \<and> (a \<le> a + n - 1 \<longrightarrow> unat (a + n - 1) = unat a + unat n - 1)" if "0 < n" for a n :: u64
  proof -
    have n: "0 < unat n" using that by (simp add: unat_gt_0 word_neq_0_conv)
    have b: "unat a < 2 ^ 64" "unat n < 2 ^ 64" using unsigned_less [of a] unsigned_less [of n] by simp_all
    have "unat (a + n - 1) = (unat a + unat n - 1) mod 2 ^ 64"
    proof -
      have "a + n - 1 = word_of_nat (unat a + unat n - 1)" using n by (simp add: of_nat_diff)
      then show ?thesis by (simp add: unat_of_nat)
    qed
    also have "\<dots> = (if unat a + unat n \<le> 2 ^ 64 then unat a + unat n - 1 else unat a + unat n - 1 - 2 ^ 64)"
    proof (cases "unat a + unat n \<le> 2 ^ 64")
      case True
      then have "unat a + unat n - 1 < 2 ^ 64" using n by linarith
      then show ?thesis using True by (simp only: mod_less if_True)
    next
      case False
      then have "unat a + unat n - 1 - 2 ^ 64 < 2 ^ 64" "2 ^ 64 \<le> unat a + unat n - 1" using b by linarith+
      then show ?thesis using False by (simp only: le_mod_geq mod_less if_False)
    qed
    finally have eq: "unat (a + n - 1)
      = (if unat a + unat n \<le> 2 ^ 64 then unat a + unat n - 1 else unat a + unat n - 1 - 2 ^ 64)" .
    show ?thesis
    proof (cases "unat a + unat n \<le> 2 ^ 64")
      case True
      with eq n have "unat (a + n - 1) = unat a + unat n - 1" "unat a \<le> unat (a + n - 1)" by simp_all
      with True show ?thesis by (simp add: word_le_nat_alt)
    next
      case False
      with eq have "unat (a + n - 1) = unat a + unat n - 1 - 2 ^ 64" by simp
      with b False have "unat (a + n - 1) < unat a" by linarith
      with False show ?thesis by (simp add: word_le_nat_alt)
    qed
  qed
  show ?thesis
    using e [OF assms(1), of addr] e [OF assms(2), of base] assms
    by (auto simp: is_outside_enclave_def Let_def not_less word_less_nat_alt not_le)
qed

theorem outside_enclave_exact_witness:
  "is_outside_enclave 0x10000 0x8000 0x18000 392 \<and> \<not> is_outside_enclave 0x10000 0x8000 0xFFFFFFFFFFFFFFF0 392
   \<and> (is_outside_enclave 0x10000 0x8000 0xFFFFFFFFFFFFFFF0 392 \<longleftrightarrow>
        unat (0x10000 :: u64) + unat (0x8000 :: u64) \<le> 2 ^ 64
        \<and> unat (0xFFFFFFFFFFFFFFF0 :: u64) + unat (392 :: u64) \<le> 2 ^ 64
        \<and> (unat (0x10000 :: u64) + unat (0x8000 :: u64) \<le> unat (0xFFFFFFFFFFFFFFF0 :: u64)
           \<or> unat (0xFFFFFFFFFFFFFFF0 :: u64) + unat (392 :: u64) \<le> unat (0x10000 :: u64)))"
  using outside_enclave_exact [of 392 "0x8000" "0x10000" "0xFFFFFFFFFFFFFFF0"]
  by (simp add: is_outside_enclave_def Let_def)

end
