(* ===== verification/Flc_Msr.thy ===== *)
theory Flc_Msr
  imports Prelude
begin

text \<open>
  The Windows launch-control driver (driver/win/FLCMSR): it switches the launch-enclave key hash in the
  MSRs of every processor between Intel's and the one found at power-up, on the PLE opt-in of the
  registry, and answers IOCTL_SGX_GETLAUNCHSUPPORT.

  The kernel is a parameter: \<open>flc_env\<close> holds what its calls return during one callback. A callback that
  would write outside an allocation is \<open>None\<close>.
\<close>

section \<open>Constants and data\<close>

definition MSR_IA32_FEATURE_CONTROL :: nat where "MSR_IA32_FEATURE_CONTROL = 0x3A"
definition MSR_IA32_SGX_LE_PUBKEYHASH_0 :: nat where "MSR_IA32_SGX_LE_PUBKEYHASH_0 = 0x8C"
definition MSR_IA32_SGX_LE_PUBKEYHASH_1 :: nat where "MSR_IA32_SGX_LE_PUBKEYHASH_1 = 0x8D"
definition MSR_IA32_SGX_LE_PUBKEYHASH_2 :: nat where "MSR_IA32_SGX_LE_PUBKEYHASH_2 = 0x8E"
definition MSR_IA32_SGX_LE_PUBKEYHASH_3 :: nat where "MSR_IA32_SGX_LE_PUBKEYHASH_3 = 0x8F"

lemmas msr_defs = MSR_IA32_FEATURE_CONTROL_def MSR_IA32_SGX_LE_PUBKEYHASH_0_def MSR_IA32_SGX_LE_PUBKEYHASH_1_def
  MSR_IA32_SGX_LE_PUBKEYHASH_2_def MSR_IA32_SGX_LE_PUBKEYHASH_3_def

definition SGX_PLE_REGISTRY_OPT_IN :: u32 where "SGX_PLE_REGISTRY_OPT_IN = 0x1"
definition SGX_LCP_PLATFORM_SUPPORT :: u32 where "SGX_LCP_PLATFORM_SUPPORT = 0x2"
definition SGX_LCP_OS_PERMISSION :: u32 where "SGX_LCP_OS_PERMISSION = 0x4"

lemmas flc_flag_defs = SGX_PLE_REGISTRY_OPT_IN_def SGX_LCP_PLATFORM_SUPPORT_def SGX_LCP_OS_PERMISSION_def

record SGX_PUBKEYHASH =
  pubKeyHash_Value_0 :: u64
  pubKeyHash_Value_1 :: u64
  pubKeyHash_Value_2 :: u64
  pubKeyHash_Value_3 :: u64

definition PLE_PUBKEYHASH :: SGX_PUBKEYHASH where
  "PLE_PUBKEYHASH = \<lparr>pubKeyHash_Value_0 = 0x93f3e9222f858cc2, pubKeyHash_Value_1 = 0xadd6ecfb29990345,
     pubKeyHash_Value_2 = 0xacc9da9fa82a9ca6, pubKeyHash_Value_3 = 0x7461236bcdba6a2f\<rparr>"

definition zero_pubkeyhash :: SGX_PUBKEYHASH where
  "zero_pubkeyhash = \<lparr>pubKeyHash_Value_0 = 0, pubKeyHash_Value_1 = 0, pubKeyHash_Value_2 = 0, pubKeyHash_Value_3 = 0\<rparr>"

text \<open>A processor: its MSRs, and those whose access raises an exception.\<close>

record processor =
  cp_msr :: "nat \<Rightarrow> u64"
  cp_faults :: "nat \<Rightarrow> bool"

record flc_state =
  configurationFlags :: u32
  pubKeyHash :: SGX_PUBKEYHASH
  legacypubKeyHash :: SGX_PUBKEYHASH
  PROCESSOR_MSR_FLAG :: "nat list option"
  pkdpc :: "nat option"                              \<comment> \<open>number of DPC objects allocated\<close>
  gFLCNotifyRegistryChangeThreadStatus :: bool
  gFLCNotifyRegistryChangeThreadObject :: bool
  gRegKeyHandle :: bool
  processors :: "processor list"

record flc_env =
  fe_cpuid_7_ecx :: u32
  fe_set_system_information :: u32
  fe_open_key :: u32
  fe_query_optin :: "u32 \<times> u32"                      \<comment> \<open>status and value\<close>
  fe_alloc_flag :: bool
  fe_alloc_kdpc :: bool
  fe_reader :: nat                                   \<comment> \<open>the processor the callback runs on\<close>
  fe_notify_change_key :: u32
  fe_create_thread :: u32
  fe_reference_thread :: u32

definition NT_SUCCESS :: "u32 \<Rightarrow> bool" where
  "NT_SUCCESS status = (0 \<le> sint status)"

definition STATUS_SUCCESS :: u32 where "STATUS_SUCCESS = 0"
definition STATUS_ACCESS_DENIED :: u32 where "STATUS_ACCESS_DENIED = 0xC0000022"
definition STATUS_INVALID_PARAMETER :: u32 where "STATUS_INVALID_PARAMETER = 0xC000000D"

section \<open>Utility.c\<close>

definition is_HW_support_FLC :: "flc_env \<Rightarrow> bool" where
  "is_HW_support_FLC w = (fe_cpuid_7_ecx w AND push_bit 30 1 \<noteq> 0)"

definition is_OS_support_FLC :: "flc_env \<Rightarrow> bool" where
  "is_OS_support_FLC w = (fe_set_system_information w \<noteq> STATUS_ACCESS_DENIED)"

section \<open>Power.c: one processor\<close>

definition hash_writes :: "SGX_PUBKEYHASH \<Rightarrow> (nat \<times> u64) list" where
  "hash_writes h = [(MSR_IA32_SGX_LE_PUBKEYHASH_0, pubKeyHash_Value_0 h),
     (MSR_IA32_SGX_LE_PUBKEYHASH_1, pubKeyHash_Value_1 h), (MSR_IA32_SGX_LE_PUBKEYHASH_2, pubKeyHash_Value_2 h),
     (MSR_IA32_SGX_LE_PUBKEYHASH_3, pubKeyHash_Value_3 h)]"

text \<open>The writes up to the first one that raises an exception, and whether none does.\<close>

fun write_msrs :: "(nat \<times> u64) list \<Rightarrow> processor \<Rightarrow> bool \<times> processor" where
  "write_msrs [] c = (True, c)"
| "write_msrs ((r, v) # ws) c =
     (if cp_faults c r then (False, c) else write_msrs ws (c\<lparr>cp_msr := (cp_msr c)(r := v)\<rparr>))"

definition lc_enabled :: "processor \<Rightarrow> bool" where
  "lc_enabled c = (cp_msr c MSR_IA32_FEATURE_CONTROL AND push_bit 17 1 \<noteq> 0)"

definition WriteMsrRoutine :: "SGX_PUBKEYHASH \<Rightarrow> bool \<Rightarrow> processor \<Rightarrow> nat \<times> processor" where
  "WriteMsrRoutine legacy UsePLEOptIn c =
     (if cp_faults c MSR_IA32_FEATURE_CONTROL then (3, c)
      else if lc_enabled c
      then (case write_msrs (hash_writes (if UsePLEOptIn then PLE_PUBKEYHASH else legacy)) c of
              (ok, c') \<Rightarrow> (if ok then 1 else 3, c'))
      else (2, c))"

text \<open>The reads up to the first exception, stored one by one.\<close>

definition ReadMsr :: "nat \<Rightarrow> flc_state \<Rightarrow> flc_state" where
  "ReadMsr i s =
     (let c = processors s ! i; h = legacypubKeyHash s; ok = (\<lambda>rs. \<not> list_ex (cp_faults c) rs) in
      if cp_faults c MSR_IA32_FEATURE_CONTROL \<or> \<not> lc_enabled c then s
      else s\<lparr>legacypubKeyHash :=
        \<lparr>pubKeyHash_Value_0 = (if ok [MSR_IA32_SGX_LE_PUBKEYHASH_0] then cp_msr c MSR_IA32_SGX_LE_PUBKEYHASH_0
            else pubKeyHash_Value_0 h),
         pubKeyHash_Value_1 = (if ok [MSR_IA32_SGX_LE_PUBKEYHASH_0, MSR_IA32_SGX_LE_PUBKEYHASH_1]
            then cp_msr c MSR_IA32_SGX_LE_PUBKEYHASH_1 else pubKeyHash_Value_1 h),
         pubKeyHash_Value_2 = (if ok [MSR_IA32_SGX_LE_PUBKEYHASH_0, MSR_IA32_SGX_LE_PUBKEYHASH_1,
            MSR_IA32_SGX_LE_PUBKEYHASH_2] then cp_msr c MSR_IA32_SGX_LE_PUBKEYHASH_2 else pubKeyHash_Value_2 h),
         pubKeyHash_Value_3 = (if ok [MSR_IA32_SGX_LE_PUBKEYHASH_0, MSR_IA32_SGX_LE_PUBKEYHASH_1,
            MSR_IA32_SGX_LE_PUBKEYHASH_2, MSR_IA32_SGX_LE_PUBKEYHASH_3]
            then cp_msr c MSR_IA32_SGX_LE_PUBKEYHASH_3 else pubKeyHash_Value_3 h)\<rparr>\<rparr>)"

definition is_PLE_OPT_IN :: "flc_env \<Rightarrow> bool" where
  "is_PLE_OPT_IN w =
     (let ulPLEOptIn = (if NT_SUCCESS (fe_open_key w) \<and> NT_SUCCESS (fst (fe_query_optin w))
                        then snd (fe_query_optin w) else 0) in
      ulPLEOptIn = 1)"

section \<open>Power.c: all processors\<close>

text \<open>
  The loop that queues one DPC per processor, the DPCs and the loop that waits for all flags run
  concurrently: a step is one round of the first loop or one DPC. \<open>dp_queued\<close> holds the processors whose
  DPC has not run yet.
\<close>

record dpc_state =
  dp_inserted :: nat
  dp_queued :: "nat list"
  dp_flag :: "nat list"
  dp_cpus :: "processor list"

inductive dpc_step :: "SGX_PUBKEYHASH \<Rightarrow> bool \<Rightarrow> nat \<Rightarrow> dpc_state \<Rightarrow> dpc_state \<Rightarrow> bool"
  for legacy :: SGX_PUBKEYHASH and opt :: bool and n :: nat where
  insert_dpc: "dp_inserted s = i \<Longrightarrow> i < n
    \<Longrightarrow> dpc_step legacy opt n s
          (s\<lparr>dp_inserted := Suc i, dp_queued := dp_queued s @ [i], dp_flag := (dp_flag s)[i := 0]\<rparr>)"
| run_dpc: "i \<in> set (dp_queued s) \<Longrightarrow> WriteMsrRoutine legacy opt (dp_cpus s ! i) = (ret, c)
    \<Longrightarrow> dpc_step legacy opt n s
          (s\<lparr>dp_queued := remove1 i (dp_queued s), dp_flag := (dp_flag s)[i := ret], dp_cpus := (dp_cpus s)[i := c]\<rparr>)"

text \<open>The state in which the waiting loop leaves.\<close>

definition dpc_done :: "nat \<Rightarrow> dpc_state \<Rightarrow> bool" where
  "dpc_done n s \<longleftrightarrow> dp_inserted s = n \<and> list_all (\<lambda>f. f \<noteq> 0) (take n (dp_flag s))"

text \<open>What the callbacks below use: the result of every schedule.\<close>

definition FLCWriteMSRs :: "flc_env \<Rightarrow> bool \<Rightarrow> flc_state \<Rightarrow> (bool \<times> flc_state) option" where
  "FLCWriteMSRs w UsePLEOptIn s =
     (let maximumProcessor = length (processors s);
          flag = (case PROCESSOR_MSR_FLAG s of Some f \<Rightarrow> Some f
                  | None \<Rightarrow> if fe_alloc_flag w then Some (replicate maximumProcessor 0) else None);
          s1 = s\<lparr>PROCESSOR_MSR_FLAG := flag\<rparr> in
      case flag of None \<Rightarrow> Some (False, s1)
      | Some f \<Rightarrow>
          let dpcs = (case pkdpc s of Some k \<Rightarrow> Some k
                      | None \<Rightarrow> if fe_alloc_kdpc w then Some maximumProcessor else None);
              s2 = s1\<lparr>pkdpc := dpcs\<rparr> in
          (case dpcs of None \<Rightarrow> Some (False, s2)
           | Some k \<Rightarrow>
               if maximumProcessor > length f \<or> maximumProcessor > k then None
               else
                 let rs = map (WriteMsrRoutine (legacypubKeyHash s) UsePLEOptIn) (processors s);
                     f' = map fst rs @ drop maximumProcessor f in
                 Some (list_all (\<lambda>r. r \<noteq> 3) (take maximumProcessor f'),
                       s2\<lparr>PROCESSOR_MSR_FLAG := Some f', processors := map snd rs\<rparr>)))"

section \<open>Power.c: the callbacks\<close>

definition opt_in_msrs :: "flc_env \<Rightarrow> flc_state \<Rightarrow> flc_state option" where
  "opt_in_msrs w s =
     (case FLCWriteMSRs w True s of None \<Rightarrow> None
      | Some (ret, s') \<Rightarrow>
          Some (if ret then s'\<lparr>configurationFlags := configurationFlags s' OR SGX_LCP_PLATFORM_SUPPORT,
                               pubKeyHash := PLE_PUBKEYHASH\<rparr>
                else s'))"

definition watch_registry :: "flc_env \<Rightarrow> flc_state \<Rightarrow> flc_state option" where
  "watch_registry w s =
     (if \<not> NT_SUCCESS (fe_notify_change_key w) then Some s
      else if is_PLE_OPT_IN w
      then opt_in_msrs w (s\<lparr>configurationFlags := configurationFlags s OR SGX_PLE_REGISTRY_OPT_IN\<rparr>)
      else (let s1 = s\<lparr>configurationFlags := configurationFlags s AND NOT SGX_PLE_REGISTRY_OPT_IN\<rparr> in
            case FLCWriteMSRs w False s1 of None \<Rightarrow> None
            | Some (ret, s') \<Rightarrow>
                Some (if ret then s'\<lparr>configurationFlags := configurationFlags s' AND NOT SGX_LCP_PLATFORM_SUPPORT,
                                     pubKeyHash := legacypubKeyHash s'\<rparr>
                      else s')))"

text \<open>The new thread opens the key before its first call of \<open>watch_registry\<close>.\<close>

definition FLCMSRNotifyRegistryChange :: "flc_env \<Rightarrow> flc_state \<Rightarrow> bool \<times> flc_state" where
  "FLCMSRNotifyRegistryChange w s =
     (if \<not> NT_SUCCESS (fe_create_thread w) then (False, s\<lparr>gFLCNotifyRegistryChangeThreadStatus := False\<rparr>)
      else if \<not> NT_SUCCESS (fe_reference_thread w) then (False, s\<lparr>gFLCNotifyRegistryChangeThreadStatus := False\<rparr>)
      else (True, s\<lparr>gFLCNotifyRegistryChangeThreadStatus := True, gFLCNotifyRegistryChangeThreadObject := True,
                    gRegKeyHandle := NT_SUCCESS (fe_open_key w) \<or> gRegKeyHandle s\<rparr>))"

definition FLCMSREvtDeviceD0Entry :: "flc_env \<Rightarrow> flc_state \<Rightarrow> flc_state option" where
  "FLCMSREvtDeviceD0Entry w s =
     (if \<not> is_OS_support_FLC w then Some s
      else
        let s1 = s\<lparr>configurationFlags := SGX_LCP_OS_PERMISSION AND NOT SGX_LCP_PLATFORM_SUPPORT\<rparr>;
            s2 = (if is_HW_support_FLC w then ReadMsr (fe_reader w) s1 else s1) in
        case (if is_PLE_OPT_IN w
              then (let s3 = s2\<lparr>configurationFlags := configurationFlags s2 OR SGX_PLE_REGISTRY_OPT_IN\<rparr> in
                    if is_HW_support_FLC w then opt_in_msrs w s3 else Some s3)
              else Some s2) of
          None \<Rightarrow> None
        | Some s4 \<Rightarrow> Some (if is_HW_support_FLC w then snd (FLCMSRNotifyRegistryChange w s4) else s4))"

text \<open>The wait for the thread is over when its last call of \<open>watch_registry\<close>, if it was in one, is.\<close>

definition FLCMSREvtDeviceD0Exit :: "flc_env \<Rightarrow> flc_env option \<Rightarrow> flc_state \<Rightarrow> flc_state option" where
  "FLCMSREvtDeviceD0Exit w watching s =
     (case (if gFLCNotifyRegistryChangeThreadStatus s
            then (let s1 = s\<lparr>gFLCNotifyRegistryChangeThreadStatus := False, gRegKeyHandle := False\<rparr> in
                  case (case watching of None \<Rightarrow> Some s1 | Some w' \<Rightarrow> watch_registry w' s1) of
                    None \<Rightarrow> None
                  | Some s2 \<Rightarrow> Some (s2\<lparr>gFLCNotifyRegistryChangeThreadObject := False\<rparr>))
            else Some s) of
        None \<Rightarrow> None
      | Some s3 \<Rightarrow>
          (case (if is_HW_support_FLC w then FLCWriteMSRs w False s3 else Some (True, s3)) of
             None \<Rightarrow> None
           | Some (_, s4) \<Rightarrow> Some (s4\<lparr>PROCESSOR_MSR_FLAG := None, pkdpc := None\<rparr>)))"

section \<open>Queue.c, Device.c, Driver.c\<close>

text \<open>CTL_CODE of the device type 90001, function 0x801, buffered, any access.\<close>

definition IOCTL_SGX_GETLAUNCHSUPPORT :: u32 where
  "IOCTL_SGX_GETLAUNCHSUPPORT = push_bit 16 90001 OR push_bit 2 0x801"

definition launch_support_bytes :: "flc_state \<Rightarrow> byte list" where
  "launch_support_bytes s = le32 (configurationFlags s) @ le64 (pubKeyHash_Value_0 (pubKeyHash s))
     @ le64 (pubKeyHash_Value_1 (pubKeyHash s)) @ le64 (pubKeyHash_Value_2 (pubKeyHash s))
     @ le64 (pubKeyHash_Value_3 (pubKeyHash s))"

abbreviation "sizeof_launch_support_input \<equiv> (4 :: nat)"
abbreviation "sizeof_launch_support_output \<equiv> (36 :: nat)"

text \<open>
  The input memory is the status of its retrieval with its size and the version in it, the output memory
  with its size; \<open>None\<close> is a NULL buffer. The result is the completion status, the information and the
  bytes copied to the output.
\<close>

definition FLCMSREvtIoDeviceControl ::
  "u32 \<Rightarrow> u32 \<times> (nat \<times> u32) option \<Rightarrow> u32 \<times> nat option \<Rightarrow> flc_state \<Rightarrow> u32 \<times> nat \<times> byte list option" where
  "FLCMSREvtIoDeviceControl IoControlCode input output s =
     (if IoControlCode \<noteq> IOCTL_SGX_GETLAUNCHSUPPORT then (STATUS_INVALID_PARAMETER, 0, None)
      else if fst input \<noteq> STATUS_SUCCESS then (fst input, 0, None)
      else case snd input of
          None \<Rightarrow> (STATUS_SUCCESS, 0, None)
        | Some (in_size, version) \<Rightarrow>
            if in_size < sizeof_launch_support_input \<or> version \<noteq> 0 then (STATUS_SUCCESS, 0, None)
            else if fst output \<noteq> STATUS_SUCCESS then (fst output, in_size, None)
            else case snd output of
                None \<Rightarrow> (STATUS_SUCCESS, 0, None)
              | Some out_size \<Rightarrow>
                  if out_size < sizeof_launch_support_output then (STATUS_SUCCESS, 0, None)
                  else (STATUS_SUCCESS, sizeof_launch_support_output, Some (launch_support_bytes s)))"

definition FLCMSRQueueInitialize :: "u32 \<Rightarrow> u32" where
  "FLCMSRQueueInitialize create_status = create_status"

definition FLCMSRCreateDevice :: "u32 \<Rightarrow> u32 \<Rightarrow> u32 \<Rightarrow> u32" where
  "FLCMSRCreateDevice device_status interface_status queue_status =
     (if \<not> NT_SUCCESS device_status then device_status
      else if \<not> NT_SUCCESS interface_status then interface_status
      else FLCMSRQueueInitialize queue_status)"

definition FLCMSREvtDeviceAdd :: "u32 \<Rightarrow> u32 \<Rightarrow> u32 \<Rightarrow> u32" where
  "FLCMSREvtDeviceAdd device_status interface_status queue_status =
     FLCMSRCreateDevice device_status interface_status queue_status"

text \<open>The flag says whether WPP tracing is running.\<close>

definition DriverEntry :: "u32 \<Rightarrow> bool \<Rightarrow> u32 \<times> bool" where
  "DriverEntry driver_status tracing =
     (if \<not> NT_SUCCESS driver_status then (driver_status, False) else (driver_status, True))"

definition FLCMSREvtDriverContextCleanup :: "bool \<Rightarrow> bool" where
  "FLCMSREvtDriverContextCleanup tracing = False"

text \<open>
  A request with another version, or with an output buffer that is too small, completes with success and
  no data: the status of the retrieval is still in the variable.
\<close>

lemma wrong_version_completes_with_success:
  "version \<noteq> 0 \<Longrightarrow> FLCMSREvtIoDeviceControl IOCTL_SGX_GETLAUNCHSUPPORT (STATUS_SUCCESS, Some (4, version)) output s
     = (STATUS_SUCCESS, 0, None)"
  by (simp add: FLCMSREvtIoDeviceControl_def)

lemma ioctl_reports_state:
  "FLCMSREvtIoDeviceControl code input output s = (status, n, Some bs)
   \<Longrightarrow> status = STATUS_SUCCESS \<and> n = length bs \<and> bs = launch_support_bytes s \<and> snd input \<noteq> None"
  by (auto simp: FLCMSREvtIoDeviceControl_def launch_support_bytes_def split: if_splits option.splits)

section \<open>Every schedule of the DPCs\<close>

inductive_cases dpc_stepE: "dpc_step legacy opt n s s'"

lemma routine_nonzero: "fst (WriteMsrRoutine legacy opt c) \<noteq> 0"
  by (auto simp: WriteMsrRoutine_def split: prod.splits)

text \<open>
  The invariant: a processor is untouched with a cleared flag while its DPC is queued, and has the
  result of the routine and its code as the flag after it ran.
\<close>

definition dpc_inv :: "SGX_PUBKEYHASH \<Rightarrow> bool \<Rightarrow> nat \<Rightarrow> processor list \<Rightarrow> dpc_state \<Rightarrow> bool" where
  "dpc_inv legacy opt n cs s \<longleftrightarrow>
     dp_inserted s \<le> n \<and> distinct (dp_queued s) \<and> set (dp_queued s) \<subseteq> {..<dp_inserted s}
     \<and> length (dp_cpus s) = n \<and> n \<le> length (dp_flag s)
     \<and> (\<forall>i<n. (i \<in> set (dp_queued s) \<longrightarrow> dp_flag s ! i = 0)
           \<and> dp_cpus s ! i = (if i < dp_inserted s \<and> i \<notin> set (dp_queued s)
                              then snd (WriteMsrRoutine legacy opt (cs ! i)) else cs ! i)
           \<and> (i < dp_inserted s \<and> i \<notin> set (dp_queued s)
              \<longrightarrow> dp_flag s ! i = fst (WriteMsrRoutine legacy opt (cs ! i))))"

lemma dpc_inv_step:
  assumes "dpc_step legacy opt n s s'" "dpc_inv legacy opt n cs s"
  shows "dpc_inv legacy opt n cs s'"
  using assms
proof (induction rule: dpc_step.induct)
  case (insert_dpc s i)
  then have d: "i \<notin> set (dp_queued s)" by (auto simp: dpc_inv_def)
  show ?case
    using insert_dpc d unfolding dpc_inv_def by (auto simp: nth_list_update less_Suc_eq)
next
  case (run_dpc i s ret c)
  then have i: "i < dp_inserted s" "i < n" "dp_cpus s ! i = cs ! i" by (auto simp: dpc_inv_def)
  with run_dpc have r: "ret = fst (WriteMsrRoutine legacy opt (cs ! i))" "c = snd (WriteMsrRoutine legacy opt (cs ! i))"
    by simp_all
  show ?case
    using run_dpc i r unfolding dpc_inv_def by (auto simp: nth_list_update dest: notin_set_remove1)
qed

definition dpc_start :: "nat list \<Rightarrow> processor list \<Rightarrow> dpc_state" where
  "dpc_start f cs = \<lparr>dp_inserted = 0, dp_queued = [], dp_flag = f, dp_cpus = cs\<rparr>"

lemma dpc_inv_reachable:
  assumes "(dpc_step legacy opt n)\<^sup>*\<^sup>* (dpc_start f cs) s" "length cs = n" "n \<le> length f"
  shows "dpc_inv legacy opt n cs s"
  using assms(1)
proof (induction rule: rtranclp_induct)
  case base
  show ?case using assms(2,3) by (simp add: dpc_inv_def dpc_start_def)
next
  case (step y z)
  then show ?case using dpc_inv_step by blast
qed

text \<open>The rounds and the DPCs still to come.\<close>

definition dpc_todo :: "nat \<Rightarrow> dpc_state \<Rightarrow> nat" where
  "dpc_todo n s = 2 * (n - dp_inserted s) + length (dp_queued s)"

lemma dpc_step_todo: "dpc_step legacy opt n s s' \<Longrightarrow> dpc_todo n s' < dpc_todo n s"
  by (erule dpc_stepE) (auto simp: dpc_todo_def length_remove1 dest: length_pos_if_in_set)

lemma dpc_progress:
  assumes "dpc_inv legacy opt n cs s"
  shows "dpc_done n s \<or> (\<exists>s'. dpc_step legacy opt n s s')"
proof (cases "dp_inserted s < n")
  case True
  then show ?thesis using insert_dpc by blast
next
  case False
  then have ins: "dp_inserted s = n" using assms by (simp add: dpc_inv_def)
  show ?thesis
  proof (cases "dp_queued s")
    case Nil
    then have "\<forall>i<n. dp_flag s ! i \<noteq> 0" using assms ins routine_nonzero by (simp add: dpc_inv_def)
    then show ?thesis using ins assms by (simp add: dpc_done_def dpc_inv_def list_all_length)
  next
    case (Cons i q)
    moreover obtain ret c where "WriteMsrRoutine legacy opt (dp_cpus s ! i) = (ret, c)" by fastforce
    ultimately show ?thesis using run_dpc [of i s legacy opt ret c n] by auto
  qed
qed

lemma dpc_done_result:
  assumes "dpc_inv legacy opt n cs s" "dpc_done n s" "length cs = n"
  shows "dp_cpus s = map (snd \<circ> WriteMsrRoutine legacy opt) cs
    \<and> take n (dp_flag s) = map (fst \<circ> WriteMsrRoutine legacy opt) cs"
proof -
  have "i \<notin> set (dp_queued s)" if "i < n" for i
    using assms(1,2) that by (auto simp: dpc_inv_def dpc_done_def list_all_length)
  with assms show ?thesis
    by (auto simp: dpc_inv_def dpc_done_def intro!: nth_equalityI)
qed

section \<open>The power cycle\<close>

text \<open>
  The callbacks between power-up and power-down: the framework alternates the two, and the registry
  thread runs \<open>watch_registry\<close> in between while its status is set. The flag says whether the device is in
  D0; CPUID is the same throughout, the OS grants the launch control at every power-up and the handle of
  a created thread can be referenced.
\<close>

inductive flc_run :: "bool \<Rightarrow> flc_state \<Rightarrow> bool \<Rightarrow> flc_state \<Rightarrow> bool" for hw :: bool and s0 :: flc_state where
  run_start: "flc_run hw s0 False s0"
| run_entry: "flc_run hw s0 False s \<Longrightarrow> is_HW_support_FLC w = hw \<Longrightarrow> is_OS_support_FLC w
    \<Longrightarrow> NT_SUCCESS (fe_reference_thread w) \<Longrightarrow> fe_reader w < length (processors s)
    \<Longrightarrow> FLCMSREvtDeviceD0Entry w s = Some s' \<Longrightarrow> flc_run hw s0 True s'"
| run_watch: "flc_run hw s0 True s \<Longrightarrow> gFLCNotifyRegistryChangeThreadStatus s
    \<Longrightarrow> watch_registry w s = Some s' \<Longrightarrow> flc_run hw s0 True s'"
| run_exit: "flc_run hw s0 True s \<Longrightarrow> is_HW_support_FLC w = hw
    \<Longrightarrow> FLCMSREvtDeviceD0Exit w watching s = Some s' \<Longrightarrow> flc_run hw s0 False s'"

definition hash_of :: "processor \<Rightarrow> SGX_PUBKEYHASH" where
  "hash_of c = \<lparr>pubKeyHash_Value_0 = cp_msr c MSR_IA32_SGX_LE_PUBKEYHASH_0,
     pubKeyHash_Value_1 = cp_msr c MSR_IA32_SGX_LE_PUBKEYHASH_1,
     pubKeyHash_Value_2 = cp_msr c MSR_IA32_SGX_LE_PUBKEYHASH_2,
     pubKeyHash_Value_3 = cp_msr c MSR_IA32_SGX_LE_PUBKEYHASH_3\<rparr>"

definition platform_support :: "flc_state \<Rightarrow> bool" where
  "platform_support s = (configurationFlags s AND SGX_LCP_PLATFORM_SUPPORT \<noteq> 0)"

text \<open>Processors without faults, with launch control enabled or not, and with the key hash \<open>h\<close>.\<close>

definition uniform :: "bool \<Rightarrow> SGX_PUBKEYHASH \<Rightarrow> processor list \<Rightarrow> bool" where
  "uniform en h cs \<longleftrightarrow> (\<forall>c\<in>set cs. cp_faults c = (\<lambda>_. False) \<and> lc_enabled c = en \<and> hash_of c = h)"

lemma flag_masks:
  fixes x :: u32
  shows "(x OR SGX_LCP_PLATFORM_SUPPORT) AND SGX_LCP_PLATFORM_SUPPORT \<noteq> 0"
    "(x AND NOT SGX_LCP_PLATFORM_SUPPORT) AND SGX_LCP_PLATFORM_SUPPORT = 0"
    "(x OR SGX_PLE_REGISTRY_OPT_IN) AND SGX_LCP_PLATFORM_SUPPORT = x AND SGX_LCP_PLATFORM_SUPPORT"
    "(x AND NOT SGX_PLE_REGISTRY_OPT_IN) AND SGX_LCP_PLATFORM_SUPPORT = x AND SGX_LCP_PLATFORM_SUPPORT"
    "SGX_LCP_OS_PERMISSION AND SGX_LCP_PLATFORM_SUPPORT = 0"
proof -
  have "(x OR SGX_LCP_PLATFORM_SUPPORT) AND SGX_LCP_PLATFORM_SUPPORT = SGX_LCP_PLATFORM_SUPPORT"
    by (rule bit_word_eqI) (auto simp: bit_simps)
  then show "(x OR SGX_LCP_PLATFORM_SUPPORT) AND SGX_LCP_PLATFORM_SUPPORT \<noteq> 0" by (simp add: flc_flag_defs)
  show "(x AND NOT SGX_LCP_PLATFORM_SUPPORT) AND SGX_LCP_PLATFORM_SUPPORT = 0"
    by (rule bit_word_eqI) (auto simp: bit_simps)
  have one: "SGX_PLE_REGISTRY_OPT_IN AND SGX_LCP_PLATFORM_SUPPORT = 0" by (simp add: flc_flag_defs)
  then show "(x OR SGX_PLE_REGISTRY_OPT_IN) AND SGX_LCP_PLATFORM_SUPPORT = x AND SGX_LCP_PLATFORM_SUPPORT"
    by (simp add: bit.conj_disj_distrib2)
  have "NOT SGX_PLE_REGISTRY_OPT_IN AND SGX_LCP_PLATFORM_SUPPORT = SGX_LCP_PLATFORM_SUPPORT"
    by (simp add: flc_flag_defs)
  then show "(x AND NOT SGX_PLE_REGISTRY_OPT_IN) AND SGX_LCP_PLATFORM_SUPPORT = x AND SGX_LCP_PLATFORM_SUPPORT"
    by (simp add: and.assoc)
  show "SGX_LCP_OS_PERMISSION AND SGX_LCP_PLATFORM_SUPPORT = 0" by (simp add: flc_flag_defs)
qed

lemma routine_no_fault:
  assumes "cp_faults c = (\<lambda>_. False)"
  obtains c' where "WriteMsrRoutine legacy opt c = (if lc_enabled c then 1 else 2, c')"
    "cp_faults c' = (\<lambda>_. False)" "lc_enabled c' = lc_enabled c"
    "hash_of c' = (if lc_enabled c then (if opt then PLE_PUBKEYHASH else legacy) else hash_of c)"
proof (cases "lc_enabled c")
  case True
  let ?c = "snd (write_msrs (hash_writes (if opt then PLE_PUBKEYHASH else legacy)) c)"
  have w: "write_msrs (hash_writes h) c = (True, snd (write_msrs (hash_writes h) c))" for h
    using assms by (simp add: hash_writes_def)
  show ?thesis
  proof (rule that [of ?c])
    show "WriteMsrRoutine legacy opt c = (if lc_enabled c then 1 else 2, ?c)"
      using True assms w [of "if opt then PLE_PUBKEYHASH else legacy"]
      by (simp add: WriteMsrRoutine_def case_prod_beta) (metis fst_conv)
  qed (use True assms in \<open>simp_all add: hash_writes_def hash_of_def lc_enabled_def msr_defs\<close>)
next
  case False
  with assms that [of c] show ?thesis by (simp add: WriteMsrRoutine_def)
qed

lemma routine_keeps_enabled:
  assumes "cp_faults c = (\<lambda>_. False)"
  shows "lc_enabled (snd (WriteMsrRoutine legacy opt c)) = lc_enabled c"
  by (rule routine_no_fault [OF assms, of legacy opt]) simp

lemma uniform_write:
  assumes "uniform en h cs"
  shows "uniform en (if en then (if opt then PLE_PUBKEYHASH else legacy) else h)
      (map (snd \<circ> WriteMsrRoutine legacy opt) cs)"
    "list_all (\<lambda>r. r \<noteq> 3) (map (fst \<circ> WriteMsrRoutine legacy opt) cs)"
proof -
  have "cp_faults (snd (WriteMsrRoutine legacy opt c)) = (\<lambda>_. False) \<and> lc_enabled (snd (WriteMsrRoutine legacy opt c)) = en
      \<and> hash_of (snd (WriteMsrRoutine legacy opt c)) = (if en then (if opt then PLE_PUBKEYHASH else legacy) else h)
      \<and> fst (WriteMsrRoutine legacy opt c) \<noteq> 3" if "c \<in> set cs" for c
  proof -
    from assms that have c: "cp_faults c = (\<lambda>_. False)" "lc_enabled c = en" "hash_of c = h" by (auto simp: uniform_def)
    obtain c' where "WriteMsrRoutine legacy opt c = (if lc_enabled c then 1 else 2, c')"
      "cp_faults c' = (\<lambda>_. False)" "lc_enabled c' = lc_enabled c"
      "hash_of c' = (if lc_enabled c then (if opt then PLE_PUBKEYHASH else legacy) else hash_of c)"
      by (rule routine_no_fault [OF c(1), of legacy opt])
    with c show ?thesis by simp
  qed
  then show "uniform en (if en then (if opt then PLE_PUBKEYHASH else legacy) else h)
      (map (snd \<circ> WriteMsrRoutine legacy opt) cs)"
    "list_all (\<lambda>r. r \<noteq> 3) (map (fst \<circ> WriteMsrRoutine legacy opt) cs)"
    by (auto simp: uniform_def list_all_iff)
qed

text \<open>The buffers, when they are allocated, have an entry for each processor.\<close>

definition buffers_fit :: "flc_state \<Rightarrow> bool" where
  "buffers_fit s \<longleftrightarrow> (\<forall>f. PROCESSOR_MSR_FLAG s = Some f \<longrightarrow> length f = length (processors s))
     \<and> (\<forall>k. pkdpc s = Some k \<longrightarrow> k = length (processors s))"

lemma FLCWriteMSRs_cases:
  assumes "buffers_fit s" "uniform en h (processors s)"
  obtains (ok) s' where "FLCWriteMSRs w opt s = Some (True, s')"
      "uniform en (if en then (if opt then PLE_PUBKEYHASH else legacypubKeyHash s) else h) (processors s')"
      "buffers_fit s'" "PROCESSOR_MSR_FLAG s' \<noteq> None" "pkdpc s' \<noteq> None"
      "configurationFlags s' = configurationFlags s" "legacypubKeyHash s' = legacypubKeyHash s"
      "gFLCNotifyRegistryChangeThreadStatus s' = gFLCNotifyRegistryChangeThreadStatus s"
      "length (processors s') = length (processors s)" "pubKeyHash s' = pubKeyHash s"
  | (fail) f where "FLCWriteMSRs w opt s = Some (False, s\<lparr>PROCESSOR_MSR_FLAG := f\<rparr>)"
      "pkdpc s = None \<or> PROCESSOR_MSR_FLAG s = None" "buffers_fit (s\<lparr>PROCESSOR_MSR_FLAG := f\<rparr>)"
proof -
  define n where "n = length (processors s)"
  define rs where "rs = map (WriteMsrRoutine (legacypubKeyHash s) opt) (processors s)"
  define flag where "flag = (case PROCESSOR_MSR_FLAG s of Some f \<Rightarrow> Some f
      | None \<Rightarrow> if fe_alloc_flag w then Some (replicate n 0) else None)"
  define dpcs where "dpcs = (case pkdpc s of Some k \<Rightarrow> Some k | None \<Rightarrow> if fe_alloc_kdpc w then Some n else None)"
  have fl: "flag = Some f \<Longrightarrow> length f = n" for f
    using assms(1) by (auto simp: flag_def buffers_fit_def n_def split: option.splits if_splits)
  have dl: "dpcs = Some k \<Longrightarrow> k = n" for k
    using assms(1) by (auto simp: dpcs_def buffers_fit_def n_def split: option.splits if_splits)
  note unf = FLCWriteMSRs_def Let_def n_def [symmetric] flag_def [symmetric] dpcs_def [symmetric] rs_def [symmetric]
  show thesis
  proof (cases flag)
    case None
    then have "FLCWriteMSRs w opt s = Some (False, s\<lparr>PROCESSOR_MSR_FLAG := None\<rparr>)" "PROCESSOR_MSR_FLAG s = None"
      unfolding unf by (simp_all add: flag_def split: option.splits)
    with fail [of None] assms(1) show thesis by (auto simp: buffers_fit_def)
  next
    case (Some f)
    note f = this fl [OF this]
    show thesis
    proof (cases dpcs)
      case None
      then have p: "pkdpc s = None" by (simp add: dpcs_def split: option.splits)
      then have "FLCWriteMSRs w opt s = Some (False, s\<lparr>PROCESSOR_MSR_FLAG := Some f\<rparr>)"
        unfolding unf using f None by simp
      with fail [of "Some f"] p f show thesis by (auto simp: buffers_fit_def n_def)
    next
      case (Some k)
      with dl have k: "dpcs = Some n" by simp
      let ?s = "s\<lparr>PROCESSOR_MSR_FLAG := Some (map fst rs), pkdpc := Some n, processors := map snd rs\<rparr>"
      have len: "length rs = n" by (simp add: rs_def n_def)
      have "list_all (\<lambda>r. r \<noteq> 3) (map fst rs)" using uniform_write(2) [OF assms(2)] by (simp add: rs_def)
      then have "FLCWriteMSRs w opt s = Some (True, ?s)"
        unfolding unf using f k len by simp
      moreover have "uniform en (if en then (if opt then PLE_PUBKEYHASH else legacypubKeyHash s) else h) (map snd rs)"
        using uniform_write(1) [OF assms(2)] by (simp add: rs_def)
      ultimately show thesis using ok [of ?s] len by (simp add: buffers_fit_def n_def)
    qed
  qed
qed

lemma platform_bit: "SGX_LCP_PLATFORM_SUPPORT \<noteq> 0"
  by (simp add: flc_flag_defs)

lemma flc_update_simps [simp]:
  "platform_support (s\<lparr>gFLCNotifyRegistryChangeThreadStatus := b\<rparr>) = platform_support s"
  "platform_support (s\<lparr>gFLCNotifyRegistryChangeThreadObject := b\<rparr>) = platform_support s"
  "platform_support (s\<lparr>gRegKeyHandle := b\<rparr>) = platform_support s"
  "buffers_fit (s\<lparr>gFLCNotifyRegistryChangeThreadStatus := b\<rparr>) = buffers_fit s"
  "buffers_fit (s\<lparr>gFLCNotifyRegistryChangeThreadObject := b\<rparr>) = buffers_fit s"
  "buffers_fit (s\<lparr>gRegKeyHandle := b\<rparr>) = buffers_fit s"
  "buffers_fit (s\<lparr>configurationFlags := x\<rparr>) = buffers_fit s"
  by (simp_all add: platform_support_def buffers_fit_def)

lemma FLCWriteMSRs_thread:
  "FLCWriteMSRs w opt s = Some (r, s')
   \<Longrightarrow> gFLCNotifyRegistryChangeThreadStatus s' = gFLCNotifyRegistryChangeThreadStatus s"
  by (auto simp: FLCWriteMSRs_def Let_def split: option.splits if_splits)

lemma watch_registry_thread:
  "watch_registry w s = Some s' \<Longrightarrow> gFLCNotifyRegistryChangeThreadStatus s' = gFLCNotifyRegistryChangeThreadStatus s"
  by (auto simp: watch_registry_def opt_in_msrs_def Let_def dest!: FLCWriteMSRs_thread
      split: option.splits if_splits prod.splits)

definition flc_inv :: "bool \<Rightarrow> bool \<Rightarrow> SGX_PUBKEYHASH \<Rightarrow> bool \<Rightarrow> flc_state \<Rightarrow> bool" where
  "flc_inv en hw h0 on s \<longleftrightarrow>
     uniform en (if on \<and> platform_support s \<and> en then PLE_PUBKEYHASH else h0) (processors s)
     \<and> buffers_fit s \<and> (on \<and> hw \<and> en \<longrightarrow> legacypubKeyHash s = h0)
     \<and> (on \<and> platform_support s \<longrightarrow> pubKeyHash s = PLE_PUBKEYHASH \<and> hw
          \<and> PROCESSOR_MSR_FLAG s \<noteq> None \<and> pkdpc s \<noteq> None)
     \<and> (gFLCNotifyRegistryChangeThreadStatus s \<longrightarrow> on \<and> hw)
     \<and> (\<not> on \<longrightarrow> PROCESSOR_MSR_FLAG s = None \<and> pkdpc s = None)"

lemma opt_in_msrs_inv:
  assumes "flc_inv en hw h0 True s" "hw" "opt_in_msrs w (s\<lparr>configurationFlags := configurationFlags s OR SGX_PLE_REGISTRY_OPT_IN\<rparr>) = Some s'"
  shows "flc_inv en hw h0 True s'"
proof -
  let ?s = "s\<lparr>configurationFlags := configurationFlags s OR SGX_PLE_REGISTRY_OPT_IN\<rparr>"
  let ?h = "if platform_support s \<and> en then PLE_PUBKEYHASH else h0"
  have u: "buffers_fit ?s" "uniform en ?h (processors ?s)" using assms(1) by (auto simp: flc_inv_def buffers_fit_def)
  show ?thesis
  proof (cases rule: FLCWriteMSRs_cases [OF u, of w True, case_names ok fail])
    case (ok s1)
    then have "s' = s1\<lparr>configurationFlags := configurationFlags s1 OR SGX_LCP_PLATFORM_SUPPORT, pubKeyHash := PLE_PUBKEYHASH\<rparr>"
      using assms(3) by (simp add: opt_in_msrs_def)
    with ok assms(1,2) show ?thesis
      by (cases en) (simp_all add: flc_inv_def platform_support_def platform_bit flag_masks buffers_fit_def)
  next
    case (fail f)
    then have s': "s' = ?s\<lparr>PROCESSOR_MSR_FLAG := f\<rparr>" using assms(3) by (simp add: opt_in_msrs_def)
    have "\<not> platform_support s" using fail(2) assms(1) by (auto simp: flc_inv_def)
    with s' fail(3) assms(1,2) show ?thesis by (simp add: flc_inv_def platform_support_def flag_masks)
  qed
qed

lemma watch_registry_inv:
  assumes "flc_inv en hw h0 True s" "hw" "watch_registry w s = Some s'"
  shows "flc_inv en hw h0 True s'"
proof (cases "NT_SUCCESS (fe_notify_change_key w)")
  case False
  with assms show ?thesis by (simp add: watch_registry_def)
next
  case notified: True
  show ?thesis
  proof (cases "is_PLE_OPT_IN w")
    case True
    with assms notified opt_in_msrs_inv [OF assms(1,2), of w] show ?thesis by (simp add: watch_registry_def)
  next
    case False
    let ?s = "s\<lparr>configurationFlags := configurationFlags s AND NOT SGX_PLE_REGISTRY_OPT_IN\<rparr>"
    let ?h = "if platform_support s \<and> en then PLE_PUBKEYHASH else h0"
    have u: "buffers_fit ?s" "uniform en ?h (processors ?s)" using assms(1) by (auto simp: flc_inv_def buffers_fit_def)
    show ?thesis
    proof (cases rule: FLCWriteMSRs_cases [OF u, of w False, case_names ok fail])
      case (ok s1)
      then have "s' = s1\<lparr>configurationFlags := configurationFlags s1 AND NOT SGX_LCP_PLATFORM_SUPPORT,
          pubKeyHash := legacypubKeyHash s1\<rparr>"
        using assms(3) notified False by (simp add: watch_registry_def Let_def)
      with ok assms(1,2) show ?thesis
        by (cases en) (simp_all add: flc_inv_def platform_support_def platform_bit flag_masks buffers_fit_def)
    next
      case (fail f)
      then have s': "s' = ?s\<lparr>PROCESSOR_MSR_FLAG := f\<rparr>" using assms(3) notified False by (simp add: watch_registry_def Let_def)
      have "\<not> platform_support s" using fail(2) assms(1) by (auto simp: flc_inv_def)
      with s' fail(3) assms(1,2) show ?thesis by (simp add: flc_inv_def platform_support_def flag_masks)
    qed
  qed
qed

lemma ReadMsr_uniform:
  assumes "uniform en h (processors s)" "i < length (processors s)"
  shows "ReadMsr i s = (if en then s\<lparr>legacypubKeyHash := h\<rparr> else s)"
proof -
  have "cp_faults (processors s ! i) = (\<lambda>_. False)" "lc_enabled (processors s ! i) = en" "hash_of (processors s ! i) = h"
    using assms by (simp_all add: uniform_def)
  then show ?thesis by (auto simp: ReadMsr_def hash_of_def Let_def)
qed

lemma notify_inv:
  "flc_inv en hw h0 True s \<Longrightarrow> hw \<Longrightarrow> flc_inv en hw h0 True (snd (FLCMSRNotifyRegistryChange w s))"
  by (cases en; cases "platform_support s") (simp_all add: FLCMSRNotifyRegistryChange_def flc_inv_def)

lemma entry_inv:
  assumes "flc_inv en (is_HW_support_FLC w) h0 False s" "is_OS_support_FLC w" "fe_reader w < length (processors s)"
    "FLCMSREvtDeviceD0Entry w s = Some s'"
  shows "flc_inv en (is_HW_support_FLC w) h0 True s'"
proof -
  let ?hw = "is_HW_support_FLC w"
  let ?s1 = "s\<lparr>configurationFlags := SGX_LCP_OS_PERMISSION AND NOT SGX_LCP_PLATFORM_SUPPORT\<rparr>"
  define s2 where "s2 = (if ?hw then ReadMsr (fe_reader w) ?s1 else ?s1)"
  have u: "uniform en h0 (processors ?s1)" using assms(1) by (simp add: flc_inv_def)
  have "configurationFlags ?s1 AND SGX_LCP_PLATFORM_SUPPORT = 0" by (simp add: flag_masks)
  then have p: "\<not> platform_support s2"
    using ReadMsr_uniform [OF u] assms(3) by (simp add: s2_def platform_support_def)
  have i2: "flc_inv en ?hw h0 True s2"
    using assms(1,3) p ReadMsr_uniform [OF u] by (auto simp: flc_inv_def s2_def buffers_fit_def)
  define s3 where "s3 = s2\<lparr>configurationFlags := configurationFlags s2 OR SGX_PLE_REGISTRY_OPT_IN\<rparr>"
  have s': "(case (if is_PLE_OPT_IN w then if ?hw then opt_in_msrs w s3 else Some s3 else Some s2) of
        None \<Rightarrow> None | Some s4 \<Rightarrow> Some (if ?hw then snd (FLCMSRNotifyRegistryChange w s4) else s4)) = Some s'"
    using assms(2,4) unfolding FLCMSREvtDeviceD0Entry_def Let_def s2_def s3_def by simp
  then obtain s4 where s4: "(if is_PLE_OPT_IN w then if ?hw then opt_in_msrs w s3 else Some s3 else Some s2) = Some s4"
    and s'4: "s' = (if ?hw then snd (FLCMSRNotifyRegistryChange w s4) else s4)" by (auto split: option.splits)
  have "flc_inv en ?hw h0 True s3" using i2 by (simp add: s3_def flc_inv_def platform_support_def flag_masks buffers_fit_def)
  then have "flc_inv en ?hw h0 True s4"
    using s4 i2 opt_in_msrs_inv [OF i2, of w s4] by (auto simp: s3_def split: if_splits)
  then show ?thesis using notify_inv [of en ?hw h0 s4 w] s'4 by (cases ?hw) simp_all
qed

lemma exit_thread_inv:
  assumes "flc_inv en hw h0 True s" "hw"
    "(case watching of None \<Rightarrow> Some (s\<lparr>gFLCNotifyRegistryChangeThreadStatus := False, gRegKeyHandle := False\<rparr>)
      | Some w' \<Rightarrow> watch_registry w' (s\<lparr>gFLCNotifyRegistryChangeThreadStatus := False, gRegKeyHandle := False\<rparr>)) = Some s2"
  shows "flc_inv en hw h0 True (s2\<lparr>gFLCNotifyRegistryChangeThreadObject := False\<rparr>)
    \<and> \<not> gFLCNotifyRegistryChangeThreadStatus s2"
proof -
  let ?s1 = "s\<lparr>gFLCNotifyRegistryChangeThreadStatus := False, gRegKeyHandle := False\<rparr>"
  have i1: "flc_inv en hw h0 True ?s1" using assms(1) by (simp add: flc_inv_def)
  have "flc_inv en hw h0 True s2 \<and> \<not> gFLCNotifyRegistryChangeThreadStatus s2"
  proof (cases watching)
    case None
    with assms(3) i1 show ?thesis by auto
  next
    case (Some w')
    with assms(3) watch_registry_inv [OF i1 assms(2), of w'] watch_registry_thread [of w' ?s1] show ?thesis by simp
  qed
  then show ?thesis by (simp add: flc_inv_def)
qed

lemma exit_inv:
  assumes "flc_inv en (is_HW_support_FLC w) h0 True s" "FLCMSREvtDeviceD0Exit w watching s = Some s'"
  shows "flc_inv en (is_HW_support_FLC w) h0 False s'"
proof -
  let ?hw = "is_HW_support_FLC w"
  obtain s3 where s3: "flc_inv en ?hw h0 True s3" "\<not> gFLCNotifyRegistryChangeThreadStatus s3"
    "(case (if ?hw then FLCWriteMSRs w False s3 else Some (True, s3)) of None \<Rightarrow> None
      | Some (_, s4) \<Rightarrow> Some (s4\<lparr>PROCESSOR_MSR_FLAG := None, pkdpc := None\<rparr>)) = Some s'"
  proof (cases "gFLCNotifyRegistryChangeThreadStatus s")
    case False
    with that [of s] assms show thesis by (simp add: FLCMSREvtDeviceD0Exit_def)
  next
    case True
    have hw: ?hw using True assms(1) by (simp add: flc_inv_def)
    let ?s1 = "s\<lparr>gFLCNotifyRegistryChangeThreadStatus := False, gRegKeyHandle := False\<rparr>"
    obtain s2 where s2: "(case watching of None \<Rightarrow> Some ?s1 | Some w' \<Rightarrow> watch_registry w' ?s1) = Some s2"
      using True assms(2) unfolding FLCMSREvtDeviceD0Exit_def Let_def
      by (cases "case watching of None \<Rightarrow> Some ?s1 | Some w' \<Rightarrow> watch_registry w' ?s1") simp_all
    note i2 = exit_thread_inv [OF assms(1) hw s2]
    show thesis
    proof (rule that [of "s2\<lparr>gFLCNotifyRegistryChangeThreadObject := False\<rparr>"])
      show "(case (if ?hw then FLCWriteMSRs w False (s2\<lparr>gFLCNotifyRegistryChangeThreadObject := False\<rparr>)
            else Some (True, s2\<lparr>gFLCNotifyRegistryChangeThreadObject := False\<rparr>)) of None \<Rightarrow> None
          | Some (_, s4) \<Rightarrow> Some (s4\<lparr>PROCESSOR_MSR_FLAG := None, pkdpc := None\<rparr>)) = Some s'"
        using True assms(2) s2 unfolding FLCMSREvtDeviceD0Exit_def Let_def by simp
    qed (use i2 in simp_all)
  qed
  show ?thesis
  proof (cases ?hw)
    case False
    with s3 show ?thesis by (auto simp: flc_inv_def buffers_fit_def)
  next
    case True
    let ?h = "if platform_support s3 \<and> en then PLE_PUBKEYHASH else h0"
    have u: "buffers_fit s3" "uniform en ?h (processors s3)" using s3(1) by (auto simp: flc_inv_def)
    show ?thesis
    proof (cases rule: FLCWriteMSRs_cases [OF u, of w False, case_names ok fail])
      case (ok s4)
      then have "s' = s4\<lparr>PROCESSOR_MSR_FLAG := None, pkdpc := None\<rparr>" using s3(3) True by simp
      with ok s3(1,2) True show ?thesis by (cases en) (simp_all add: flc_inv_def buffers_fit_def)
    next
      case (fail f)
      then have "s' = s3\<lparr>PROCESSOR_MSR_FLAG := None, pkdpc := None\<rparr>" using s3(3) True by simp
      moreover have "\<not> platform_support s3" using fail(2) s3(1) by (auto simp: flc_inv_def)
      ultimately show ?thesis using s3(1,2) True by (simp add: flc_inv_def buffers_fit_def)
    qed
  qed
qed

text \<open>The state of a driver that was just loaded, on processors with the same launch-control setting.\<close>

definition flc_loaded :: "bool \<Rightarrow> SGX_PUBKEYHASH \<Rightarrow> flc_state \<Rightarrow> bool" where
  "flc_loaded en h0 s \<longleftrightarrow> uniform en h0 (processors s) \<and> PROCESSOR_MSR_FLAG s = None \<and> pkdpc s = None
     \<and> \<not> gFLCNotifyRegistryChangeThreadStatus s"

lemma flc_run_inv:
  assumes "flc_run hw s0 on s" "flc_loaded en h0 s0"
  shows "flc_inv en hw h0 on s"
  using assms(1)
proof (induction rule: flc_run.induct)
  case run_start
  then show ?case using assms(2) by (simp add: flc_inv_def flc_loaded_def buffers_fit_def)
next
  case (run_entry s w s')
  then show ?case using entry_inv [of en w h0 s s'] by simp
next
  case (run_watch s w s')
  then have hw by (simp add: flc_inv_def)
  with run_watch show ?case using watch_registry_inv [of en hw h0 s w s'] by simp
next
  case (run_exit s w watching s')
  then show ?case using exit_inv [of en w h0 s watching s'] by simp
qed

text \<open>No callback writes outside its buffers.\<close>

lemma watch_registry_fits:
  assumes "flc_inv en hw h0 True s"
  shows "watch_registry w s \<noteq> None"
proof -
  have u: "buffers_fit s" "uniform en (if platform_support s \<and> en then PLE_PUBKEYHASH else h0) (processors s)"
    using assms by (auto simp: flc_inv_def)
  have e: "\<exists>r s'. FLCWriteMSRs w opt (s\<lparr>configurationFlags := x\<rparr>) = Some (r, s')" for opt x
    by (rule FLCWriteMSRs_cases [of "s\<lparr>configurationFlags := x\<rparr>" _ _ w opt]) (use u in auto)
  obtain r1 s1 where "FLCWriteMSRs w True (s\<lparr>configurationFlags := configurationFlags s OR SGX_PLE_REGISTRY_OPT_IN\<rparr>)
      = Some (r1, s1)" using e by blast
  moreover obtain r2 s2 where "FLCWriteMSRs w False (s\<lparr>configurationFlags := configurationFlags s AND NOT SGX_PLE_REGISTRY_OPT_IN\<rparr>)
      = Some (r2, s2)" using e by blast
  ultimately show ?thesis by (simp add: watch_registry_def opt_in_msrs_def Let_def)
qed

section \<open>Properties\<close>

text \<open>
  C40. Writing the MSRs ends and is deterministic: in whatever order the per-processor DPCs run between
  the rounds of the loop that queues them, no schedule takes more than two steps per processor, no
  reachable state is stuck before the waiting loop can leave, and when it leaves every processor has run
  the routine exactly once, on its own state, with its code in its flag, stale flags included.
\<close>

theorem every_dpc_schedule_agrees:
  assumes "length cs = n" "n \<le> length f" "(dpc_step legacy opt n ^^ k) (dpc_start f cs) s"
  shows "k \<le> 2 * n
    \<and> (dpc_done n s \<or> (\<exists>s'. dpc_step legacy opt n s s'))
    \<and> (dpc_done n s \<longrightarrow> dp_cpus s = map (snd \<circ> WriteMsrRoutine legacy opt) cs
       \<and> take n (dp_flag s) = map (fst \<circ> WriteMsrRoutine legacy opt) cs)"
proof -
  have "(dpc_step legacy opt n)\<^sup>*\<^sup>* (dpc_start f cs) s" using assms(3) by (auto simp: rtranclp_power)
  note inv = dpc_inv_reachable [OF this assms(1,2)]
  have "k + dpc_todo n s \<le> dpc_todo n (dpc_start f cs)"
    using assms(3)
  proof (induction k arbitrary: s)
    case (Suc k)
    then obtain t where "(dpc_step legacy opt n ^^ k) (dpc_start f cs) t" "dpc_step legacy opt n t s" by auto
    with Suc.IH [of t] dpc_step_todo [of legacy opt n t s] show ?case by simp
  qed simp
  then have "k \<le> 2 * n" by (simp add: dpc_todo_def dpc_start_def)
  with dpc_progress [OF inv] dpc_done_result [OF inv _ assms(1)] show ?thesis by blast
qed

definition demo_processor :: "u64 \<Rightarrow> u64 \<Rightarrow> processor" where
  "demo_processor fc v = \<lparr>cp_msr = (\<lambda>r. if r = MSR_IA32_FEATURE_CONTROL then fc else v), cp_faults = (\<lambda>_. False)\<rparr>"

theorem every_dpc_schedule_agrees_witness:
  "\<exists>s. (dpc_step zero_pubkeyhash True 1 ^^ 2) (dpc_start [7] [demo_processor 0x20000 9]) s
     \<and> dpc_done 1 s \<and> dp_cpus s = [snd (WriteMsrRoutine zero_pubkeyhash True (demo_processor 0x20000 9))]
     \<and> take 1 (dp_flag s) = [1]"
proof -
  let ?c = "demo_processor 0x20000 9"
  let ?r = "WriteMsrRoutine zero_pubkeyhash True ?c"
  let ?s1 = "\<lparr>dp_inserted = 1, dp_queued = [0], dp_flag = [0], dp_cpus = [?c]\<rparr>"
  let ?s2 = "\<lparr>dp_inserted = 1, dp_queued = [], dp_flag = [fst ?r], dp_cpus = [snd ?r]\<rparr>"
  have r: "fst ?r = 1"
    by (simp add: WriteMsrRoutine_def demo_processor_def lc_enabled_def hash_writes_def msr_defs)
  have "dpc_step zero_pubkeyhash True 1 (dpc_start [7] [?c]) ?s1"
    using insert_dpc [of "dpc_start [7] [?c]" 0 1] by (simp add: dpc_start_def)
  moreover have "dpc_step zero_pubkeyhash True 1 ?s1 ?s2"
    using run_dpc [of 0 ?s1 zero_pubkeyhash True "fst ?r" "snd ?r" 1] by simp
  ultimately have "(dpc_step zero_pubkeyhash True 1 ^^ 2) (dpc_start [7] [?c]) ?s2"
    by (auto simp: numeral_2_eq_2)
  from every_dpc_schedule_agrees [OF _ _ this] this r show ?thesis
    by (intro exI [of _ ?s2]) (simp add: dpc_done_def)
qed

text \<open>
  Over any number of power cycles, registry changes and opt-ins, with processors that agree on the
  launch-control setting and the hash \<open>h0\<close> when the driver is loaded, and an OS that grants launch
  control: outside D0 every processor has its own hash \<open>h0\<close> back; in D0, when the state that
  IOCTL_SGX_GETLAUNCHSUPPORT reports claims platform support, the reported hash is that of the PLE and
  every processor with launch control enabled has it, and when it does not, every processor has \<open>h0\<close>.
  Failing allocations and thread creations are included, and no callback writes outside its buffers.
\<close>

theorem power_cycle_restores_hash:
  assumes "flc_run hw s0 on s" "flc_loaded en h0 s0" "c \<in> set (processors s)"
  shows "(\<not> on \<longrightarrow> hash_of c = h0)
    \<and> (on \<and> platform_support s \<longrightarrow> pubKeyHash s = PLE_PUBKEYHASH \<and> (lc_enabled c \<longrightarrow> hash_of c = PLE_PUBKEYHASH))
    \<and> (on \<and> \<not> platform_support s \<longrightarrow> hash_of c = h0)
    \<and> (on \<longrightarrow> watch_registry w s \<noteq> None)"
proof -
  have inv: "flc_inv en hw h0 on s" using flc_run_inv [OF assms(1,2)] .
  then have "hash_of c = (if on \<and> platform_support s \<and> en then PLE_PUBKEYHASH else h0)" "lc_enabled c = en"
    "on \<and> platform_support s \<longrightarrow> pubKeyHash s = PLE_PUBKEYHASH"
    using assms(3) by (auto simp: flc_inv_def uniform_def)
  moreover have "on \<longrightarrow> watch_registry w s \<noteq> None" using watch_registry_fits [of en hw h0 s w] inv by (cases on) simp_all
  ultimately show ?thesis by simp
qed

definition demo_flc :: flc_state where
  "demo_flc = \<lparr>configurationFlags = 0, pubKeyHash = zero_pubkeyhash, legacypubKeyHash = zero_pubkeyhash,
     PROCESSOR_MSR_FLAG = None, pkdpc = None, gFLCNotifyRegistryChangeThreadStatus = False,
     gFLCNotifyRegistryChangeThreadObject = False, gRegKeyHandle = False,
     processors = [demo_processor 0x20000 9, demo_processor 0x20000 9]\<rparr>"

definition demo_flc_env :: flc_env where
  "demo_flc_env = \<lparr>fe_cpuid_7_ecx = 0x40000000, fe_set_system_information = 0, fe_open_key = 0,
     fe_query_optin = (0, 1), fe_alloc_flag = True, fe_alloc_kdpc = True, fe_reader = 1,
     fe_notify_change_key = 0, fe_create_thread = 0, fe_reference_thread = 0\<rparr>"

lemma demo_hash: "hash_of (demo_processor 0x20000 9)
    = \<lparr>pubKeyHash_Value_0 = 9, pubKeyHash_Value_1 = 9, pubKeyHash_Value_2 = 9, pubKeyHash_Value_3 = 9\<rparr>"
  "lc_enabled (demo_processor 0x20000 9)" "cp_faults (demo_processor 0x20000 9) = (\<lambda>_. False)"
  by (simp_all add: hash_of_def demo_processor_def lc_enabled_def msr_defs)

lemma demo_entry:
  "\<exists>s. FLCMSREvtDeviceD0Entry demo_flc_env demo_flc = Some s \<and> platform_support s
     \<and> processors s = [snd (WriteMsrRoutine \<lparr>pubKeyHash_Value_0 = 9, pubKeyHash_Value_1 = 9, pubKeyHash_Value_2 = 9,
         pubKeyHash_Value_3 = 9\<rparr> True (demo_processor 0x20000 9)),
         snd (WriteMsrRoutine \<lparr>pubKeyHash_Value_0 = 9, pubKeyHash_Value_1 = 9, pubKeyHash_Value_2 = 9,
         pubKeyHash_Value_3 = 9\<rparr> True (demo_processor 0x20000 9))]"
proof -
  have "uniform True \<lparr>pubKeyHash_Value_0 = 9, pubKeyHash_Value_1 = 9, pubKeyHash_Value_2 = 9, pubKeyHash_Value_3 = 9\<rparr>
      (processors demo_flc)"
    by (simp add: uniform_def demo_flc_def demo_hash)
  moreover have "fst (WriteMsrRoutine h True (demo_processor 0x20000 9)) = 1" for h
    by (simp add: WriteMsrRoutine_def demo_processor_def lc_enabled_def hash_writes_def msr_defs)
  moreover have "fe_reader demo_flc_env < length (processors demo_flc)" by (simp add: demo_flc_env_def demo_flc_def)
  ultimately show ?thesis
    by (simp add: FLCMSREvtDeviceD0Entry_def is_OS_support_FLC_def is_HW_support_FLC_def is_PLE_OPT_IN_def NT_SUCCESS_def
        opt_in_msrs_def FLCWriteMSRs_def FLCMSRNotifyRegistryChange_def platform_support_def flag_masks
        demo_flc_env_def demo_flc_def ReadMsr_uniform STATUS_ACCESS_DENIED_def platform_bit Let_def)
qed

theorem power_cycle_restores_hash_witness:
  "\<exists>s c. flc_run True demo_flc True s \<and> c \<in> set (processors s) \<and> hash_of c = PLE_PUBKEYHASH
     \<and> pubKeyHash s = PLE_PUBKEYHASH \<and> watch_registry demo_flc_env s \<noteq> None"
proof -
  obtain s where s: "FLCMSREvtDeviceD0Entry demo_flc_env demo_flc = Some s" "platform_support s"
    "snd (WriteMsrRoutine \<lparr>pubKeyHash_Value_0 = 9, pubKeyHash_Value_1 = 9, pubKeyHash_Value_2 = 9,
         pubKeyHash_Value_3 = 9\<rparr> True (demo_processor 0x20000 9)) \<in> set (processors s)" (is "?c \<in> _")
    using demo_entry by auto
  have "flc_run True demo_flc True s"
    by (rule run_entry [OF run_start _ _ _ _ s(1)])
      (simp_all add: demo_flc_env_def is_HW_support_FLC_def is_OS_support_FLC_def NT_SUCCESS_def STATUS_ACCESS_DENIED_def
        demo_flc_def)
  moreover have "flc_loaded True (hash_of (demo_processor 0x20000 9)) demo_flc"
    by (simp add: flc_loaded_def uniform_def demo_flc_def demo_hash)
  moreover have "lc_enabled ?c" using demo_hash(2,3) by (simp add: routine_keeps_enabled)
  ultimately show ?thesis
    using power_cycle_restores_hash [of True demo_flc True s True "hash_of (demo_processor 0x20000 9)" ?c demo_flc_env] s(2,3)
    by auto
qed

text \<open>
  Where the OS keeps launch control to itself, powering down overwrites the key hash with zeros: a
  driver that was loaded and powered up without the permission has changed nothing and read nothing, but
  its power-down callback writes the hash it never read to every processor with launch control enabled,
  as soon as the buffers can be allocated.
\<close>

theorem denied_driver_clears_hash:
  assumes "flc_loaded True h0 s" "legacypubKeyHash s = zero_pubkeyhash" "\<not> is_OS_support_FLC w"
    "is_HW_support_FLC w'" "fe_alloc_flag w'" "fe_alloc_kdpc w'"
  shows "FLCMSREvtDeviceD0Entry w s = Some s
    \<and> (\<exists>s'. FLCMSREvtDeviceD0Exit w' None s = Some s' \<and> uniform True zero_pubkeyhash (processors s'))"
proof -
  have u: "buffers_fit s" "uniform True h0 (processors s)" using assms(1) by (auto simp: flc_loaded_def buffers_fit_def)
  have "FLCWriteMSRs w' False s \<noteq> Some (False, s\<lparr>PROCESSOR_MSR_FLAG := f\<rparr>)" for f
    using assms(1,5,6) uniform_write(2) [OF u(2), of "legacypubKeyHash s" False]
    by (simp add: FLCWriteMSRs_def flc_loaded_def Let_def)
  then obtain s' where "FLCWriteMSRs w' False s = Some (True, s')" "uniform True zero_pubkeyhash (processors s')"
    using FLCWriteMSRs_cases [OF u, of w' False] assms(2) by (metis (full_types))
  then show ?thesis
    using assms(1,3,4) by (simp add: FLCMSREvtDeviceD0Entry_def FLCMSREvtDeviceD0Exit_def flc_loaded_def)
qed

theorem denied_driver_clears_hash_witness:
  "\<exists>s'. FLCMSREvtDeviceD0Exit demo_flc_env None demo_flc = Some s' \<and> uniform True zero_pubkeyhash (processors s')"
proof -
  have "flc_loaded True (hash_of (demo_processor 0x20000 9)) demo_flc" "legacypubKeyHash demo_flc = zero_pubkeyhash"
    by (simp_all add: flc_loaded_def uniform_def demo_flc_def demo_hash)
  from denied_driver_clears_hash [OF this, of "demo_flc_env\<lparr>fe_set_system_information := STATUS_ACCESS_DENIED\<rparr>" demo_flc_env]
  show ?thesis by (simp add: demo_flc_env_def is_OS_support_FLC_def is_HW_support_FLC_def)
qed

end
