(* ===== verification/Le_Proxy.thy ===== *)
theory Le_Proxy
  imports Launch_Enclave Flc_Msr
begin

text \<open>
  The user-mode driver that loads the launch enclave (driver/win/WinLeProxyUMDF: Queue.c, Power.c, Device.c,
  Driver.c, FLC_Enclave/WinLeProxy.c): it starts the enclave on demand, turns a launch token request into an
  entry of the enclave, and passes requests for the launch control state down to the FLCMSR driver.

  Parameters: the framework, the enclave calls of Windows and BCrypt (\<open>umdf_env\<close>, \<open>bcrypt_env\<close>), the entry
  into the enclave (sgx_get_token, assembly), and the enclave's image and SIGSTRUCT (\<open>le_image\<close>; generated bytes).
\<close>

section \<open>FLC_Enclave/WinLeProxy.c\<close>

definition sgx_le_blob_length :: nat where "sgx_le_blob_length = 36864"
definition sgx_le_ss_length :: nat where "sgx_le_ss_length = 1808"

record le_image =
  sgx_le_blob :: "byte list"
  sgx_le_ss :: "byte list"

record sgx_secs =
  secs_size :: nat
  secs_ssaframesize :: u32
  secs_attributes :: u64
  secs_xfrm :: u64

definition SGX_ATTR_EINITTOKENKEY :: u64 where "SGX_ATTR_EINITTOKENKEY = 0x20"

definition PAGE_READWRITE :: u32 where "PAGE_READWRITE = 0x04"
definition PAGE_EXECUTE_READWRITE :: u32 where "PAGE_EXECUTE_READWRITE = 0x40"
definition PAGE_ENCLAVE_THREAD_CONTROL :: u32 where "PAGE_ENCLAVE_THREAD_CONTROL = 0x80000000"

text \<open>A page that LoadEnclaveData added: offset, contents, protection. A mapped enclave: address and pages.\<close>

type_synonym enclave_page = "nat \<times> byte list \<times> u32"
type_synonym enclave = "u64 \<times> enclave_page list"

record bcrypt_env =
  bc_open :: u32
  bc_object_length :: "u32 \<times> u32"
  bc_heap_alloc :: bool
  bc_hash_length :: "u32 \<times> u32"
  bc_create_hash :: u32
  bc_hash_data :: u32
  bc_finish_hash :: u32
  bc_sha256 :: "byte list \<Rightarrow> byte list"

record umdf_env =
  ue_create_enclave :: "sgx_secs \<Rightarrow> u64"                    \<comment> \<open>0 is NULL\<close>
  ue_load_data :: "enclave_page \<Rightarrow> bool"
  ue_initialize :: "byte list \<Rightarrow> bool"
  ue_file_name :: "string option option"                   \<comment> \<open>of the file object, if any\<close>
  ue_input :: "u32 \<times> byte list option"                     \<comment> \<open>status of the retrieval, buffer\<close>
  ue_output :: "u32 \<times> byte list option"
  ue_bcrypt :: bcrypt_env
  ue_get_token :: "u64 \<Rightarrow> sgx_launch_request \<Rightarrow> sgx_launch_request option"  \<comment> \<open>\<open>None\<close> is an exception\<close>
  ue_target_create :: u32
  ue_target_open :: u32
  ue_lower_driver :: "u32 \<Rightarrow> u32 \<times> (nat \<times> u32) option \<Rightarrow> u32 \<times> nat option \<Rightarrow> u32 \<times> nat \<times> byte list option"

text \<open>The loop that doubles the size; the sizes stay far below 2^64, the blob's length being an int.\<close>

function double_size :: "nat \<Rightarrow> nat \<Rightarrow> nat" where
  "double_size len sz = (if 0 < sz \<and> sz < len then double_size len (2 * sz) else sz)"
  by auto
termination double_size
  by (relation "measure (\<lambda>(len, sz). len - sz)") auto

declare double_size.simps [simp del]

text \<open>The loop over the pages; the first argument is the number left.\<close>

fun load_pages :: "nat \<Rightarrow> umdf_env \<Rightarrow> byte list \<Rightarrow> nat \<Rightarrow> bool \<times> enclave_page list" where
  "load_pages 0 w blob offset = (True, [])"
| "load_pages (Suc n) w blob offset =
     (let flProtect = (if offset = 0 then PAGE_ENCLAVE_THREAD_CONTROL OR PAGE_READWRITE else PAGE_EXECUTE_READWRITE);
          page = (offset, take 0x1000 (drop offset blob), flProtect) in
      if \<not> ue_load_data w page then (False, [])
      else (case load_pages n w blob (offset + 0x1000) of (ok, ps) \<Rightarrow> (ok, page # ps)))"

definition launch_secs :: sgx_secs where
  "launch_secs = \<lparr>secs_size = double_size sgx_le_blob_length 0x1000, secs_ssaframesize = 1,
     secs_attributes = word_of_int SGX_ATTR_MODE64BIT OR SGX_ATTR_EINITTOKENKEY, secs_xfrm = 3\<rparr>"

text \<open>The address, and the enclaves mapped afterwards; on failure the new one is freed.\<close>

definition start_launch_enclave :: "umdf_env \<Rightarrow> le_image \<Rightarrow> enclave list \<Rightarrow> u64 \<times> enclave list" where
  "start_launch_enclave w le mapped =
     (let lpBase = ue_create_enclave w launch_secs in
      if lpBase = 0 then (0, mapped)
      else
        let (ok, ps) = load_pages ((sgx_le_blob_length + 0xFFF) div 0x1000) w (sgx_le_blob le) 0 in
        if \<not> ok then (0, mapped)
        else if \<not> ue_initialize w (take sgx_le_ss_length (sgx_le_ss le)) then (0, mapped)
        else (lpBase, (lpBase, ps) # mapped))"

section \<open>Power.c\<close>

record le_proxy =
  entry :: u64
  mapped :: "enclave list"

definition LEProxyEvtDeviceD0Entry :: "le_proxy \<Rightarrow> le_proxy" where
  "LEProxyEvtDeviceD0Entry s = s\<lparr>entry := 0\<rparr>"

definition LEProxyEvtDeviceD0Exit :: "le_proxy \<Rightarrow> le_proxy" where
  "LEProxyEvtDeviceD0Exit s =
     (if entry s \<noteq> 0 then s\<lparr>mapped := filter (\<lambda>e. fst e \<noteq> entry s) (mapped s), entry := 0\<rparr> else s)"

section \<open>Queue.c: the signer\<close>

definition SE_KEY_SIZE :: nat where "SE_KEY_SIZE = 384"
definition SGX_SHA256_HASH_SIZE :: u32 where "SGX_SHA256_HASH_SIZE = 32"

datatype bcrypt_handle = hAlg | hHash | pbHashObject

text \<open>The handles that are not NULL, in the order Cleanup releases them.\<close>

definition cleanup_handles :: "bcrypt_handle list \<Rightarrow> bcrypt_handle list" where
  "cleanup_handles opened = filter (\<lambda>h. h \<in> set opened) [hAlg, hHash, pbHashObject]"

text \<open>The answer, the value, the handles opened and the handles released.\<close>

definition calMRSigner ::
  "bcrypt_env \<Rightarrow> byte list option \<Rightarrow> byte list \<Rightarrow> bool \<times> byte list \<times> bcrypt_handle list \<times> bcrypt_handle list" where
  "calMRSigner b modulus value =
     (let fail = (\<lambda>opened. (False, value, opened, cleanup_handles opened)) in
      case modulus of None \<Rightarrow> (False, value, [], [])
      | Some m \<Rightarrow>
          if \<not> NT_SUCCESS (bc_open b) then fail []
          else if \<not> NT_SUCCESS (fst (bc_object_length b)) then fail [hAlg]
          else if \<not> bc_heap_alloc b then fail [hAlg]
          else if \<not> NT_SUCCESS (fst (bc_hash_length b)) then fail [hAlg, pbHashObject]
          else if snd (bc_hash_length b) \<noteq> SGX_SHA256_HASH_SIZE then fail [hAlg, pbHashObject]
          else if \<not> NT_SUCCESS (bc_create_hash b) then fail [hAlg, pbHashObject]
          else
            let opened = [hAlg, pbHashObject, hHash] in
            if \<not> NT_SUCCESS (bc_hash_data b) then fail opened
            else if \<not> NT_SUCCESS (bc_finish_hash b) then fail opened
            else (True, bc_sha256 b (take SE_KEY_SIZE m), opened, cleanup_handles opened))"

section \<open>Queue.c: requests\<close>

definition IOCTL_SGX_GETTOKEN :: u32 where
  "IOCTL_SGX_GETTOKEN = push_bit 16 90001 OR push_bit 2 0x800"

definition SGX_LAUNCH_TOKEN_INTERFACE_NAME :: string where
  "SGX_LAUNCH_TOKEN_INTERFACE_NAME = ''SGX Launch Token Interface''"

definition STATUS_INSUFFICIENT_RESOURCES :: u32 where "STATUS_INSUFFICIENT_RESOURCES = 0xC000009A"
definition STATUS_INVALID_DEVICE_REQUEST :: u32 where "STATUS_INVALID_DEVICE_REQUEST = 0xC0000010"

text \<open>sgx_launch_token_request_t: version, SIGSTRUCT, attributes; packed.\<close>

definition sizeof_launch_token_request :: nat where "sizeof_launch_token_request = 4 + 1808 + 16"
definition sizeof_le_output :: nat where "sizeof_le_output = 308"

definition request_modulus :: "byte list \<Rightarrow> byte list" where
  "request_modulus buf = take SE_KEY_SIZE (drop (4 + 128) buf)"

definition request_enclave_hash :: "byte list \<Rightarrow> byte list" where
  "request_enclave_hash buf = take 32 (drop (4 + 960) buf)"

definition launch_request_of :: "byte list \<Rightarrow> byte list \<Rightarrow> sgx_launch_request" where
  "launch_request_of buf mrsigner = \<lparr>lr_mrenclave = request_enclave_hash buf, lr_mrsigner = mrsigner,
     lr_attributes = get64 (4 + 1808) buf, lr_xfrm = get64 (4 + 1808 + 8) buf, lr_token = zero_token, lr_result = 0\<rparr>"

definition token_bytes :: "sgx_einittoken \<Rightarrow> byte list" where
  "token_bytes t = payload_bytes (et_payload t) @ et_cpusvnle t @ le16 (et_isvprodidle t) @ le16 (et_isvsvnle t)
     @ replicate 24 0 @ le32 (et_maskedmiscselectle t) @ le64 (et_maskedattributesle t) @ le64 (et_maskedxfrmle t)
     @ et_keyid t @ et_mac t"

definition le_output_bytes :: "sgx_launch_request \<Rightarrow> byte list" where
  "le_output_bytes req = token_bytes (lr_token req) @ le32 (word_of_int (lr_result req))"

text \<open>RtlEqualUnicodeString without regard to case, after the leading backslash is skipped.\<close>

definition upcase :: "char \<Rightarrow> char" where
  "upcase c = (let n = of_char c :: nat in if 97 \<le> n \<and> n \<le> 122 then char_of (n - 32) else c)"

definition own_interface :: "string option option \<Rightarrow> bool" where
  "own_interface file_name =
     (case file_name of
        Some (Some name) \<Rightarrow>
          if 2 * length name < 2 then False
          else map upcase (takeWhile (\<lambda>c. c \<noteq> CHR 0x00) (tl name)) = map upcase SGX_LAUNCH_TOKEN_INTERFACE_NAME
      | _ \<Rightarrow> False)"

text \<open>A completed request: status, information, and the output buffer afterwards.\<close>

datatype reply = Completed u32 nat "byte list option" | Forwarded

definition GetLaunchSupport :: "umdf_env \<Rightarrow> bool \<Rightarrow> u32 \<Rightarrow> byte list \<Rightarrow> u32 \<times> byte list" where
  "GetLaunchSupport w Device version buffer_out =
     (if \<not> Device then (STATUS_INVALID_PARAMETER, buffer_out)
      else if \<not> NT_SUCCESS (ue_target_create w) then (ue_target_create w, buffer_out)
      else if \<not> NT_SUCCESS (ue_target_open w) then (ue_target_open w, buffer_out)
      else
        (case ue_lower_driver w IOCTL_SGX_GETLAUNCHSUPPORT (STATUS_SUCCESS, Some (4, version))
                (STATUS_SUCCESS, Some (length buffer_out)) of
           (status, _, written) \<Rightarrow>
             (status, case written of None \<Rightarrow> buffer_out | Some bs \<Rightarrow> bs @ drop (length bs) buffer_out)))"

definition get_token :: "umdf_env \<Rightarrow> le_image \<Rightarrow> le_proxy \<Rightarrow> reply \<times> le_proxy" where
  "get_token w le s =
     (let s1 = (if entry s = 0
                then (case start_launch_enclave w le (mapped s) of (e, m) \<Rightarrow> s\<lparr>entry := e, mapped := m\<rparr>) else s);
          out = snd (ue_output w) in
      if entry s1 = 0 then (Completed STATUS_INSUFFICIENT_RESOURCES 0 out, s1)
      else if fst (ue_input w) \<noteq> STATUS_SUCCESS then (Completed (fst (ue_input w)) 0 out, s1)
      else
        (case snd (ue_input w) of
           None \<Rightarrow> (Completed STATUS_SUCCESS 0 out, s1)
         | Some buffer_in \<Rightarrow>
             if length buffer_in < sizeof_launch_token_request \<or> get32 0 buffer_in \<noteq> 0
             then (Completed STATUS_SUCCESS 0 out, s1)
             else if fst (ue_output w) \<noteq> STATUS_SUCCESS then (Completed (fst (ue_output w)) 0 out, s1)
             else
               (case out of
                  None \<Rightarrow> (Completed STATUS_SUCCESS 0 out, s1)
                | Some buffer_out \<Rightarrow>
                    if length buffer_out < sizeof_le_output then (Completed STATUS_SUCCESS 0 out, s1)
                    else
                      (case calMRSigner (ue_bcrypt w) (Some (request_modulus buffer_in)) (replicate 32 0) of
                         (False, _) \<Rightarrow> (Completed STATUS_SUCCESS 0 out, s1)
                       | (True, value, _) \<Rightarrow>
                           (case ue_get_token w (entry s1) (launch_request_of buffer_in value) of
                              None \<Rightarrow> (Completed STATUS_SUCCESS (length buffer_out) out, s1)
                            | Some req \<Rightarrow>
                                (Completed STATUS_SUCCESS (length buffer_out)
                                   (Some (le_output_bytes req @ drop sizeof_le_output buffer_out)), s1))))))"

definition get_launch_support :: "umdf_env \<Rightarrow> le_proxy \<Rightarrow> reply \<times> le_proxy" where
  "get_launch_support w s =
     (let out = snd (ue_output w) in
      if fst (ue_input w) \<noteq> STATUS_SUCCESS then (Completed (fst (ue_input w)) 0 out, s)
      else
        (case snd (ue_input w) of
           None \<Rightarrow> (Completed STATUS_SUCCESS 0 out, s)
         | Some buffer_in \<Rightarrow>
             if length buffer_in < sizeof_launch_support_input \<or> get32 0 buffer_in \<noteq> 0
             then (Completed STATUS_SUCCESS 0 out, s)
             else if fst (ue_output w) \<noteq> STATUS_SUCCESS then (Completed (fst (ue_output w)) 0 out, s)
             else
               (case out of
                  None \<Rightarrow> (Completed STATUS_SUCCESS 0 out, s)
                | Some buffer_out \<Rightarrow>
                    if length buffer_out < sizeof_launch_support_output then (Completed STATUS_SUCCESS 0 out, s)
                    else
                      (case GetLaunchSupport w True (get32 0 buffer_in) (replicate sizeof_launch_support_output 0) of
                         (status, bs) \<Rightarrow>
                           if status \<noteq> STATUS_SUCCESS then (Completed status 0 out, s)
                           else (Completed STATUS_SUCCESS sizeof_launch_support_output
                                  (Some (bs @ drop sizeof_launch_support_output buffer_out)), s)))))"

definition WinLeProxyUMDFEvtIoDeviceControl :: "umdf_env \<Rightarrow> le_image \<Rightarrow> u32 \<Rightarrow> le_proxy \<Rightarrow> reply \<times> le_proxy" where
  "WinLeProxyUMDFEvtIoDeviceControl w le IoControlCode s =
     (if own_interface (ue_file_name w)
      then (if IoControlCode = IOCTL_SGX_GETTOKEN then get_token w le s
            else if IoControlCode = IOCTL_SGX_GETLAUNCHSUPPORT then get_launch_support w s
            else (Completed STATUS_INVALID_DEVICE_REQUEST 0 (snd (ue_output w)), s))
      else (Forwarded, s))"

section \<open>Device.c, Driver.c, queue initialization\<close>

definition WinLeProxyUMDFQueueInitialize :: "u32 \<Rightarrow> u32" where
  "WinLeProxyUMDFQueueInitialize create_status = create_status"

definition WinLeProxyUMDFCreateDevice :: "u32 \<Rightarrow> u32 \<Rightarrow> u32 \<Rightarrow> u32" where
  "WinLeProxyUMDFCreateDevice device_status interface_status queue_status =
     (if NT_SUCCESS device_status
      then (if NT_SUCCESS interface_status then WinLeProxyUMDFQueueInitialize queue_status else interface_status)
      else device_status)"

definition WinLeProxyUMDFEvtDeviceAdd :: "u32 \<Rightarrow> u32 \<Rightarrow> u32 \<Rightarrow> u32" where
  "WinLeProxyUMDFEvtDeviceAdd device_status interface_status queue_status =
     WinLeProxyUMDFCreateDevice device_status interface_status queue_status"

end
