(* ===== verification/Le_Proxy_Correct.thy ===== *)
theory Le_Proxy_Correct
  imports Le_Proxy "HOL-Library.Multiset"
begin

text \<open>
  What the user-mode driver promises: the life of the launch enclave over the power states of the device (a step
  relation), the composition of a token request with the launch enclave, of a launch support request with the
  FLCMSR driver, and what a failure reports.
\<close>

section \<open>Loading\<close>

text \<open>A power of two times the first page, at least the length, and less than twice the length unless it is one page.\<close>

lemma double_size_power:
  "0 < sz \<Longrightarrow> \<exists>k. double_size len sz = sz * 2 ^ k \<and> len \<le> double_size len sz \<and> (k = 0 \<or> double_size len sz < 2 * len)"
proof (induction len sz rule: double_size.induct)
  case (1 len sz)
  show ?case
  proof (cases "sz < len")
    case True
    with 1 have "\<exists>k. double_size len (2 * sz) = 2 * sz * 2 ^ k \<and> len \<le> double_size len (2 * sz)
        \<and> (k = 0 \<or> double_size len (2 * sz) < 2 * len)" by simp
    then obtain k where k: "double_size len (2 * sz) = 2 * sz * 2 ^ k" "len \<le> double_size len (2 * sz)"
      "k = 0 \<or> double_size len (2 * sz) < 2 * len" by blast
    moreover have "double_size len sz = double_size len (2 * sz)" using 1 True by (simp add: double_size.simps [of len sz])
    ultimately show ?thesis using True by (intro exI [of _ "Suc k"]) auto
  next
    case False
    then show ?thesis by (intro exI [of _ 0]) (simp add: double_size.simps [of len sz])
  qed
qed

definition page_protection :: "nat \<Rightarrow> u32" where
  "page_protection offset =
     (if offset = 0 then PAGE_ENCLAVE_THREAD_CONTROL OR PAGE_READWRITE else PAGE_EXECUTE_READWRITE)"

lemma load_pages_ok:
  "load_pages n w blob offset = (True, ps) \<Longrightarrow>
     ps = map (\<lambda>i. (offset + 0x1000 * i, take 0x1000 (drop (offset + 0x1000 * i) blob), page_protection (offset + 0x1000 * i))) [0..<n]"
proof (induction n arbitrary: offset ps)
  case (Suc n)
  then obtain qs where qs: "load_pages n w blob (offset + 0x1000) = (True, qs)"
      "ps = (offset, take 0x1000 (drop offset blob), page_protection offset) # qs"
    by (auto simp: Let_def page_protection_def split: if_splits prod.splits)
  have "map f [0..<Suc n] = f 0 # map (\<lambda>i. f (Suc i)) [0..<n]" for f :: "nat \<Rightarrow> enclave_page"
    by (simp add: upt_conv_Cons map_Suc_upt [symmetric] del: upt_Suc)
  with Suc.IH [OF qs(1)] qs(2) show ?case by (simp add: algebra_simps del: upt_Suc)
qed simp

text \<open>The pages of the whole image, the first one a thread control structure.\<close>

definition whole_enclave :: "le_image \<Rightarrow> enclave_page list \<Rightarrow> bool" where
  "whole_enclave le ps \<longleftrightarrow> length ps = 9 \<and> concat (map (fst \<circ> snd) ps) = sgx_le_blob le
     \<and> (\<forall>i < 9. fst (ps ! i) = 0x1000 * i \<and> snd (snd (ps ! i)) = page_protection (0x1000 * i))"

lemma concat_slices: "concat (map (\<lambda>i. take m (drop (m * i) xs)) [0..<n]) = take (m * n) xs"
proof (induction n)
  case (Suc n)
  have "m * Suc n = m * n + m" by simp
  with Suc show ?case by (simp only: take_add upt_Suc map_append concat_append) simp
qed simp

lemma start_launch_enclave_ok:
  assumes "start_launch_enclave w le ms = (a, ms')" "length (sgx_le_blob le) = sgx_le_blob_length"
  shows "if a = 0 then ms' = ms else \<exists>ps. ms' = (a, ps) # ms \<and> whole_enclave le ps"
proof -
  have "whole_enclave le ps" if "load_pages 9 w (sgx_le_blob le) 0 = (True, ps)" for ps
    using load_pages_ok [OF that] concat_slices [of 4096 "sgx_le_blob le" 9] assms(2)
    by (simp add: whole_enclave_def sgx_le_blob_length_def comp_def del: upt_Suc)
  then show ?thesis
    using assms(1) by (auto simp: start_launch_enclave_def Let_def sgx_le_blob_length_def split: if_splits prod.splits)
qed

section \<open>The life of the enclave\<close>

text \<open>
  The device and whether it is in D0. With \<open>managed\<close> requests arrive in D0 only; the default queue of a filter
  driver is not power-managed.
\<close>

inductive le_step :: "bool \<Rightarrow> le_image \<Rightarrow> bool \<times> le_proxy \<Rightarrow> bool \<times> le_proxy \<Rightarrow> bool" for managed le where
  power_up: "le_step managed le (False, s) (True, LEProxyEvtDeviceD0Entry s)"
| power_down: "le_step managed le (True, s) (False, LEProxyEvtDeviceD0Exit s)"
| request: "d0 \<or> \<not> managed \<Longrightarrow> WinLeProxyUMDFEvtIoDeviceControl w le code s = (r, s') \<Longrightarrow> le_step managed le (d0, s) (d0, s')"

inductive_cases le_stepE: "le_step managed le x y"

definition le_start :: "bool \<times> le_proxy" where
  "le_start = (False, \<lparr>entry = 0, mapped = []\<rparr>)"

definition le_reachable :: "bool \<Rightarrow> le_image \<Rightarrow> bool \<times> le_proxy \<Rightarrow> bool" where
  "le_reachable managed le x = (le_step managed le)\<^sup>*\<^sup>* le_start x"

definition proxy_inv :: "le_image \<Rightarrow> bool \<times> le_proxy \<Rightarrow> bool" where
  "proxy_inv le x \<longleftrightarrow> (case x of (d0, s) \<Rightarrow>
     (if entry s = 0 then mapped s = [] else d0 \<and> (\<exists>ps. mapped s = [(entry s, ps)] \<and> whole_enclave le ps)))"

lemma get_token_state:
  "snd (get_token w le s) = (if entry s = 0
     then (case start_launch_enclave w le (mapped s) of (e, m) \<Rightarrow> s\<lparr>entry := e, mapped := m\<rparr>) else s)"
  unfolding get_token_def Let_def by (simp split: prod.split option.split if_split bool.split)

lemma get_launch_support_state: "snd (get_launch_support w s) = s"
  unfolding get_launch_support_def Let_def by (simp split: prod.split option.split if_split)

lemma request_state:
  assumes "WinLeProxyUMDFEvtIoDeviceControl w le code s = (r, s')"
  shows "s' = s \<or> (entry s = 0 \<and> (case start_launch_enclave w le (mapped s) of (e, m) \<Rightarrow> s' = s\<lparr>entry := e, mapped := m\<rparr>))"
  using assms get_token_state [of w le s] get_launch_support_state [of w s]
  by (auto simp: WinLeProxyUMDFEvtIoDeviceControl_def split: if_splits prod.splits)

lemma proxy_inv_step:
  assumes "le_step True le x y" "proxy_inv le x" "length (sgx_le_blob le) = sgx_le_blob_length"
  shows "proxy_inv le y"
  using assms(1,2)
proof (cases rule: le_step.cases)
  case (request d0 w code s r s')
  from request_state [OF request(4)] show ?thesis
  proof
    assume "entry s = 0 \<and> (case start_launch_enclave w le (mapped s) of (e, m) \<Rightarrow> s' = s\<lparr>entry := e, mapped := m\<rparr>)"
    then obtain e m where "start_launch_enclave w le (mapped s) = (e, m)" "s' = s\<lparr>entry := e, mapped := m\<rparr>" "entry s = 0"
      by (auto split: prod.splits)
    with start_launch_enclave_ok [OF this(1) assms(3)] assms(2) request show ?thesis
      by (auto simp: proxy_inv_def split: if_splits)
  qed (use assms(2) request in simp)
qed (auto simp: proxy_inv_def LEProxyEvtDeviceD0Entry_def LEProxyEvtDeviceD0Exit_def split: if_splits)

lemma proxy_inv_reachable:
  assumes "le_reachable True le x" "length (sgx_le_blob le) = sgx_le_blob_length"
  shows "proxy_inv le x"
  using assms(1) unfolding le_reachable_def
proof (induction rule: rtranclp_induct)
  case base
  show ?case by (simp add: proxy_inv_def le_start_def)
next
  case (step y z)
  show ?case by (rule proxy_inv_step [OF step.hyps(2) step.IH assms(2)])
qed

section \<open>The signer\<close>

definition bcrypt_works :: "bcrypt_env \<Rightarrow> bool" where
  "bcrypt_works b \<longleftrightarrow> NT_SUCCESS (bc_open b) \<and> NT_SUCCESS (fst (bc_object_length b)) \<and> bc_heap_alloc b
     \<and> NT_SUCCESS (fst (bc_hash_length b)) \<and> snd (bc_hash_length b) = 32 \<and> NT_SUCCESS (bc_create_hash b)
     \<and> NT_SUCCESS (bc_hash_data b) \<and> NT_SUCCESS (bc_finish_hash b)"

lemma calMRSigner_cases:
  "(case calMRSigner b (Some m) value of (ok, v, opened, released) \<Rightarrow>
      (ok \<longleftrightarrow> bcrypt_works b) \<and> v = (if ok then bc_sha256 b (take 384 m) else value) \<and> mset opened = mset released)"
  unfolding calMRSigner_def bcrypt_works_def Let_def SGX_SHA256_HASH_SIZE_def SE_KEY_SIZE_def cleanup_handles_def
  by simp

section \<open>Properties\<close>

text \<open>C33. If requests arrive in D0 only, at most one launch enclave is mapped in every reachable state: exactly the one
  whose address the driver keeps, only while the device is in D0, and its pages are the whole image, the first one
  a thread control structure.\<close>

theorem one_launch_enclave:
  assumes "le_reachable True le (d0, s)" "length (sgx_le_blob le) = sgx_le_blob_length"
  shows "if entry s = 0 then mapped s = [] else d0 \<and> (\<exists>ps. mapped s = [(entry s, ps)] \<and> whole_enclave le ps)"
  using proxy_inv_reachable [OF assms] by (simp add: proxy_inv_def)

text \<open>The default queue of a filter driver is not power-managed. A token request that arrives before the device has
  entered D0 starts an enclave, and the entry into D0 forgets its address: the enclave stays mapped with nothing
  left that could free it.\<close>

theorem request_before_d0_leaks_enclave:
  assumes "own_interface (ue_file_name w)" "start_launch_enclave w le [] = (a, ms)" "a \<noteq> 0"
  shows "\<exists>s. le_reachable False le (True, s) \<and> entry s = 0 \<and> mapped s = ms \<and> ms \<noteq> []"
proof -
  define s0 where "s0 = \<lparr>entry = (0 :: u64), mapped = []\<rparr>"
  obtain r s1 where q: "WinLeProxyUMDFEvtIoDeviceControl w le IOCTL_SGX_GETTOKEN s0 = (r, s1)" by fastforce
  then have "s1 = snd (get_token w le s0)" using assms(1) by (simp add: WinLeProxyUMDFEvtIoDeviceControl_def)
  then have s1: "s1 = \<lparr>entry = a, mapped = ms\<rparr>" by (simp add: get_token_state s0_def assms(2))
  have "le_step False le (False, s0) (False, s1)" by (rule le_step.request [OF _ q]) simp
  moreover have "le_step False le (False, s1) (True, LEProxyEvtDeviceD0Entry s1)" by (rule le_step.power_up)
  ultimately have "le_reachable False le (True, LEProxyEvtDeviceD0Entry s1)"
    unfolding le_reachable_def le_start_def s0_def [symmetric] by (metis rtranclp.simps)
  moreover have "ms \<noteq> []"
    using assms(2,3) by (auto simp: start_launch_enclave_def Let_def split: if_splits prod.splits)
  ultimately show ?thesis by (intro exI [of _ "LEProxyEvtDeviceD0Entry s1"]) (simp add: LEProxyEvtDeviceD0Entry_def s1)
qed

text \<open>The conditions a token request meets before the enclave is entered.\<close>

definition token_request :: "umdf_env \<Rightarrow> le_proxy \<Rightarrow> byte list \<Rightarrow> byte list \<Rightarrow> bool" where
  "token_request w s buf out \<longleftrightarrow> own_interface (ue_file_name w) \<and> entry s \<noteq> 0 \<and> ue_input w = (STATUS_SUCCESS, Some buf)
     \<and> ue_output w = (STATUS_SUCCESS, Some out) \<and> sizeof_le_output \<le> length out"

lemma token_request_reply:
  assumes "token_request w s buf out"
  shows "WinLeProxyUMDFEvtIoDeviceControl w le IOCTL_SGX_GETTOKEN s =
    (if length buf < sizeof_launch_token_request \<or> get32 0 buf \<noteq> 0 \<or> \<not> bcrypt_works (ue_bcrypt w)
     then Completed STATUS_SUCCESS 0 (Some out)
     else (case ue_get_token w (entry s) (launch_request_of buf (bc_sha256 (ue_bcrypt w) (request_modulus buf))) of
             None \<Rightarrow> Completed STATUS_SUCCESS (length out) (Some out)
           | Some req \<Rightarrow> Completed STATUS_SUCCESS (length out) (Some (le_output_bytes req @ drop sizeof_le_output out))), s)"
proof -
  have "take 384 (request_modulus buf) = request_modulus buf" by (simp add: request_modulus_def SE_KEY_SIZE_def)
  then show ?thesis
    using assms calMRSigner_cases [of "ue_bcrypt w" "request_modulus buf" "replicate 32 0"]
    by (auto simp: WinLeProxyUMDFEvtIoDeviceControl_def get_token_def Let_def token_request_def
        split: prod.splits bool.splits option.splits)
qed




text \<open>A token request that fails in the driver still completes with STATUS_SUCCESS: without data if the request is
  malformed or the signer cannot be hashed, and with the whole output buffer as it was, untouched, if the enclave
  crashes.\<close>

theorem failed_token_request_reports_success:
  assumes "token_request w s buf out"
    "length buf < sizeof_launch_token_request \<or> get32 0 buf \<noteq> 0 \<or> \<not> bcrypt_works (ue_bcrypt w) \<or> crashed"
    "crashed \<longleftrightarrow> (\<forall>req. ue_get_token w (entry s) req = None)"
  shows "WinLeProxyUMDFEvtIoDeviceControl w le IOCTL_SGX_GETTOKEN s =
    (Completed STATUS_SUCCESS
       (if length buf < sizeof_launch_token_request \<or> get32 0 buf \<noteq> 0 \<or> \<not> bcrypt_works (ue_bcrypt w) then 0 else length out)
       (Some out), s)"
  using assms(2,3) by (auto simp: token_request_reply [OF assms(1)])

lemma length_launch_support_bytes: "length (launch_support_bytes s) = 36"
  by (simp add: launch_support_bytes_def)

text \<open>A launch support request sent to the token interface is answered by the FLCMSR driver below: the client gets the
  configuration flags and the public key hash of its state, in 36 bytes.\<close>

theorem launch_support_from_driver_below:
  assumes "own_interface (ue_file_name w)" "ue_input w = (STATUS_SUCCESS, Some buf)" "4 \<le> length buf" "get32 0 buf = 0"
    "ue_output w = (STATUS_SUCCESS, Some out)" "36 \<le> length out" "NT_SUCCESS (ue_target_create w)"
    "NT_SUCCESS (ue_target_open w)" "ue_lower_driver w = (\<lambda>code i o'. FLCMSREvtIoDeviceControl code i o' flc)"
  shows "WinLeProxyUMDFEvtIoDeviceControl w le IOCTL_SGX_GETLAUNCHSUPPORT s =
    (Completed STATUS_SUCCESS 36 (Some (launch_support_bytes flc @ drop 36 out)), s)"
proof -
  have "IOCTL_SGX_GETLAUNCHSUPPORT \<noteq> IOCTL_SGX_GETTOKEN"
    by (simp add: IOCTL_SGX_GETLAUNCHSUPPORT_def IOCTL_SGX_GETTOKEN_def)
  moreover have "GetLaunchSupport w True 0 (replicate 36 0) = (STATUS_SUCCESS, launch_support_bytes flc)"
    using assms(7-) by (simp add: GetLaunchSupport_def FLCMSREvtIoDeviceControl_def STATUS_SUCCESS_def length_launch_support_bytes)
  ultimately show ?thesis
    using assms(1-6) by (simp add: WinLeProxyUMDFEvtIoDeviceControl_def get_launch_support_def Let_def)
qed

section \<open>A loaded enclave\<close>

definition demo_le :: le_image where
  "demo_le = \<lparr>sgx_le_blob = replicate 36864 0, sgx_le_ss = replicate 1808 0\<rparr>"

definition demo_bcrypt :: bcrypt_env where
  "demo_bcrypt = \<lparr>bc_open = 0, bc_object_length = (0, 64), bc_heap_alloc = True, bc_hash_length = (0, 32), bc_create_hash = 0,
     bc_hash_data = 0, bc_finish_hash = 0, bc_sha256 = (\<lambda>m. replicate 32 1)\<rparr>"

definition demo_umdf :: umdf_env where
  "demo_umdf = \<lparr>ue_create_enclave = (\<lambda>secs. 0x10000), ue_load_data = (\<lambda>p. True), ue_initialize = (\<lambda>ss. True),
     ue_file_name = Some (Some (CHR 0x5C # SGX_LAUNCH_TOKEN_INTERFACE_NAME)), ue_input = (0, Some (replicate 1828 0)),
     ue_output = (0, Some (replicate 400 7)), ue_bcrypt = demo_bcrypt, ue_get_token = (\<lambda>e. encl_body demo_ple 0x40000),
     ue_target_create = 0, ue_target_open = 0,
     ue_lower_driver = (\<lambda>code i o'. FLCMSREvtIoDeviceControl code i o' demo_flc)\<rparr>"

lemma demo_own_interface: "own_interface (ue_file_name demo_umdf)"
  by (simp add: own_interface_def demo_umdf_def SGX_LAUNCH_TOKEN_INTERFACE_NAME_def)

lemma demo_start: "\<exists>ps. start_launch_enclave demo_umdf demo_le [] = (0x10000, [(0x10000, ps)])"
proof -
  have l: "\<exists>ps. load_pages n w blob offset = (True, ps)" if "\<And>p. ue_load_data w p" for n w blob offset
    using that by (induction n arbitrary: offset) (simp_all add: Let_def split_beta, metis fst_conv)
  have d: "ue_load_data demo_umdf p" for p by (simp add: demo_umdf_def)
  obtain ps where "load_pages 9 demo_umdf (sgx_le_blob demo_le) 0 = (True, ps)" using l [OF d] by blast
  then show ?thesis by (simp add: start_launch_enclave_def Let_def sgx_le_blob_length_def demo_umdf_def)
qed

theorem one_launch_enclave_witness:
  "\<exists>s ps. le_reachable True demo_le (True, s) \<and> entry s = 0x10000 \<and> mapped s = [(0x10000, ps)] \<and> whole_enclave demo_le ps"
proof -
  define s0 where "s0 = \<lparr>entry = (0 :: u64), mapped = []\<rparr>"
  obtain ps where ps: "start_launch_enclave demo_umdf demo_le [] = (0x10000, [(0x10000, ps)])" using demo_start by blast
  obtain r s1 where q: "WinLeProxyUMDFEvtIoDeviceControl demo_umdf demo_le IOCTL_SGX_GETTOKEN s0 = (r, s1)" by fastforce
  then have "s1 = snd (get_token demo_umdf demo_le s0)"
    using demo_own_interface by (simp add: WinLeProxyUMDFEvtIoDeviceControl_def)
  then have s1: "s1 = \<lparr>entry = 0x10000, mapped = [(0x10000, ps)]\<rparr>" by (simp add: get_token_state s0_def ps)
  have "le_step True demo_le (False, s0) (True, LEProxyEvtDeviceD0Entry s0)" by (rule le_step.power_up)
  moreover have "LEProxyEvtDeviceD0Entry s0 = s0" by (simp add: LEProxyEvtDeviceD0Entry_def s0_def)
  moreover have "le_step True demo_le (True, s0) (True, s1)" by (rule le_step.request [OF _ q]) simp
  ultimately have "le_reachable True demo_le (True, s1)"
    unfolding le_reachable_def le_start_def s0_def [symmetric] by (metis rtranclp.simps)
  moreover have "length (sgx_le_blob demo_le) = sgx_le_blob_length" by (simp add: demo_le_def sgx_le_blob_length_def)
  ultimately show ?thesis using one_launch_enclave [of demo_le True s1] by (auto simp: s1)
qed

theorem request_before_d0_leaks_enclave_witness:
  "\<exists>s. le_reachable False demo_le (True, s) \<and> entry s = 0 \<and> mapped s \<noteq> []"
proof -
  obtain ps where ps: "start_launch_enclave demo_umdf demo_le [] = (0x10000, [(0x10000, ps)])" using demo_start by blast
  show ?thesis using request_before_d0_leaks_enclave [OF demo_own_interface ps] by auto
qed

definition demo_loaded :: le_proxy where
  "demo_loaded = \<lparr>entry = 0x10000, mapped = [(0x10000, [])]\<rparr>"

lemma demo_token_request: "token_request demo_umdf demo_loaded (replicate 1828 0) (replicate 400 7)"
  using demo_own_interface
  by (simp add: token_request_def demo_loaded_def sizeof_le_output_def) (simp add: demo_umdf_def STATUS_SUCCESS_def)

lemma demo_bcrypt_works: "bcrypt_works (ue_bcrypt demo_umdf)"
  by (simp add: bcrypt_works_def demo_umdf_def demo_bcrypt_def NT_SUCCESS_def)

lemma get_zeros: "get64 i (replicate n 0) = 0" "get32 i (replicate n 0) = 0"
  using le_decode_zeros by (simp_all add: get64_def get32_def)


theorem failed_token_request_reports_success_witness:
  "WinLeProxyUMDFEvtIoDeviceControl (demo_umdf\<lparr>ue_get_token := (\<lambda>e r. None)\<rparr>) demo_le IOCTL_SGX_GETTOKEN demo_loaded =
     (Completed STATUS_SUCCESS 400 (Some (replicate 400 7)), demo_loaded)"
proof -
  have "token_request (demo_umdf\<lparr>ue_get_token := (\<lambda>e r. None)\<rparr>) demo_loaded (replicate 1828 0) (replicate 400 7)"
    "bcrypt_works (ue_bcrypt (demo_umdf\<lparr>ue_get_token := (\<lambda>e r. None)\<rparr>))"
    using demo_token_request demo_bcrypt_works by (simp_all add: token_request_def)
  from failed_token_request_reports_success [OF this(1), of True] this(2) show ?thesis
    by (simp add: get_zeros sizeof_launch_token_request_def)
qed

theorem launch_support_from_driver_below_witness:
  "WinLeProxyUMDFEvtIoDeviceControl (demo_umdf\<lparr>ue_input := (0, Some [0, 0, 0, 0])\<rparr>) demo_le IOCTL_SGX_GETLAUNCHSUPPORT demo_loaded
     = (Completed STATUS_SUCCESS 36 (Some (launch_support_bytes demo_flc @ replicate 364 7)), demo_loaded)"
proof -
  have "own_interface (ue_file_name (demo_umdf\<lparr>ue_input := (0, Some [0, 0, 0, 0])\<rparr>))" using demo_own_interface by simp
  from launch_support_from_driver_below [OF this, of "[0, 0, 0, 0]" "replicate 400 7" demo_flc] show ?thesis
    by (simp add: get32_def) (simp add: demo_umdf_def STATUS_SUCCESS_def NT_SUCCESS_def)
qed

end
