(* ===== verification/Sgxsign.thy ===== *)
theory Sgxsign
  imports Cmac
begin

text \<open>
  The signing tool of the launch enclave (driver/win/PLE/sgxsign.c, include/asm/sgx_arch.h) and bin2c.c, which
  turns the signed enclave into the C arrays of the user-mode driver.

  Parameters (\<open>sign_env\<close>): the files, the PEM reader, RSA and SHA-256 of OpenSSL, and which of its calls fail.
  exit_usage and the exit on crypto errors end the program with code 1, as a failed command does; the
  commands return false for them.
\<close>

section \<open>sgx_arch.h\<close>

definition SGX_MODULUS_SIZE :: nat where "SGX_MODULUS_SIZE = 384"
definition SGX_SECINFO_R :: u64 where "SGX_SECINFO_R = 0x01"
definition SGX_SECINFO_W :: u64 where "SGX_SECINFO_W = 0x02"
definition SGX_SECINFO_X :: u64 where "SGX_SECINFO_X = 0x04"
definition SGX_SECINFO_TCS :: u64 where "SGX_SECINFO_TCS = push_bit 8 0x01"
definition SGX_SECINFO_REG :: u64 where "SGX_SECINFO_REG = push_bit 8 0x02"

text \<open>The reserved fields, swdefined, the product ids and miscselect stay zero.\<close>

record sgx_sigstruct_header =
  sh_header1 :: "u64 \<times> u64"
  sh_vendor :: u32
  sh_date :: u32
  sh_header2 :: "u64 \<times> u64"

record sgx_sigstruct_body =
  sb_miscmask :: u32
  sb_attributes :: u64
  sb_xfrm :: u64
  sb_attributesmask :: u64
  sb_xfrmmask :: u64
  sb_mrenclave :: "byte list"
  sb_isvsvn :: u16

record sgx_sigstruct =
  ss_header :: sgx_sigstruct_header
  ss_modulus :: "byte list"
  ss_exponent :: u32
  ss_signature :: "byte list"
  ss_body :: sgx_sigstruct_body
  ss_q1 :: "byte list"
  ss_q2 :: "byte list"

definition sigstruct_header_bytes :: "sgx_sigstruct_header \<Rightarrow> byte list" where
  "sigstruct_header_bytes h = le64 (fst (sh_header1 h)) @ le64 (snd (sh_header1 h)) @ le32 (sh_vendor h) @ le32 (sh_date h)
     @ le64 (fst (sh_header2 h)) @ le64 (snd (sh_header2 h)) @ replicate 4 0 @ replicate 84 0"

definition sigstruct_body_bytes :: "sgx_sigstruct_body \<Rightarrow> byte list" where
  "sigstruct_body_bytes b = replicate 4 0 @ le32 (sb_miscmask b) @ replicate 4 0 @ replicate 16 0 @ le64 (sb_attributes b)
     @ le64 (sb_xfrm b) @ le64 (sb_attributesmask b) @ le64 (sb_xfrmmask b) @ sb_mrenclave b @ replicate 16 0
     @ replicate 16 0 @ replicate 2 0 @ le16 (sb_isvsvn b)"

definition sigstruct_bytes :: "sgx_sigstruct \<Rightarrow> byte list" where
  "sigstruct_bytes ss = sigstruct_header_bytes (ss_header ss) @ ss_modulus ss @ le32 (ss_exponent ss) @ ss_signature ss
     @ sigstruct_body_bytes (ss_body ss) @ replicate 12 0 @ ss_q1 ss @ ss_q2 ss"

section \<open>Keys\<close>

text \<open>BN_bn2bin: big-endian, without leading zeros; BN_num_bytes is its length.\<close>

fun bn2bin :: "nat \<Rightarrow> byte list" where
  "bn2bin v = (if v = 0 then [] else bn2bin (v div 256) @ [word_of_nat (v mod 256)])"

declare bn2bin.simps [simp del]

record sign_env =
  sn_stat :: "string \<Rightarrow> nat option"                     \<comment> \<open>st_size\<close>
  sn_date :: "string \<Rightarrow> u32 option"                     \<comment> \<open>of st_mtime, digits as in 0xYYYYMMDD\<close>
  sn_read :: "string \<Rightarrow> byte list option"
  sn_writable :: "string \<Rightarrow> bool"
  sn_private_key :: "byte list \<Rightarrow> nat option"           \<comment> \<open>the modulus\<close>
  sn_public_key :: "byte list \<Rightarrow> nat option"
  sn_sha256 :: "byte list \<Rightarrow> byte list"
  sn_rsa_sign :: "nat \<Rightarrow> byte list \<Rightarrow> byte list option"
  sn_md_create :: bool
  sn_md_init :: bool
  sn_md_update :: "byte list \<Rightarrow> bool"                   \<comment> \<open>by the message so far\<close>
  sn_md_final :: bool
  sn_bn :: "nat \<Rightarrow> bool"                                \<comment> \<open>allocation and operations of calc_q1q2\<close>
  sn_crypto_errors :: bool

text \<open>
  The password callback: the length and the buffer; \<open>None\<close> is the read past the buffer by strlen, when strncpy has
  left no terminator.
\<close>

definition pem_passwd_cb :: "byte list option \<Rightarrow> nat \<Rightarrow> (int \<times> byte list) option" where
  "pem_passwd_cb sign_key_pass sz =
     (case sign_key_pass of None \<Rightarrow> Some (- 1, [])
      | Some pass \<Rightarrow>
          let buf = take sz (pass @ replicate sz 0); len = length (takeWhile (\<lambda>b. b \<noteq> 0) buf) in
          if len = length buf then None else Some (if len \<ge> sz then int sz - 1 else int len, buf))"

definition load_sign_key :: "sign_env \<Rightarrow> string \<Rightarrow> nat option" where
  "load_sign_key w path =
     (case sn_read w path of None \<Rightarrow> None
      | Some f \<Rightarrow>
          (case sn_private_key w f of None \<Rightarrow> None
           | Some n \<Rightarrow> if length (bn2bin n) \<noteq> SGX_MODULUS_SIZE then None else Some n))"

definition load_public_key :: "sign_env \<Rightarrow> string \<Rightarrow> nat option" where
  "load_public_key w path =
     (case sn_read w path of None \<Rightarrow> None
      | Some f \<Rightarrow>
          (case sn_public_key w f of None \<Rightarrow> None
           | Some n \<Rightarrow> if length (bn2bin n) \<noteq> SGX_MODULUS_SIZE then None else Some n))"

text \<open>The loop of reverse_bytes.\<close>

function reverse_from :: "nat \<Rightarrow> nat \<Rightarrow> 'a list \<Rightarrow> 'a list" where
  "reverse_from i j xs = (if i < j then reverse_from (i + 1) (j - 1) (xs[i := xs ! j, j := xs ! i]) else xs)"
  by auto
termination reverse_from
  by (relation "measure (\<lambda>(i, j, xs). j - i)") auto

declare reverse_from.simps [simp del]

definition reverse_bytes :: "byte list \<Rightarrow> nat \<Rightarrow> byte list" where
  "reverse_bytes data len = reverse_from 0 (len - 1) data"

section \<open>Measurement\<close>

definition MRECREATE :: u64 where "MRECREATE = 0x0045544145524345"
definition MREADD :: u64 where "MREADD = 0x0000000044444145"
definition MREEXTEND :: u64 where "MREEXTEND = 0x00444E4554584545"

text \<open>The digest context is the message so far.\<close>

definition mrenclave_update :: "sign_env \<Rightarrow> byte list \<Rightarrow> byte list \<Rightarrow> byte list option" where
  "mrenclave_update w ctx data = (if sn_md_update w (ctx @ take 64 data) then Some (ctx @ take 64 data) else None)"

definition mrenclave_commit :: "sign_env \<Rightarrow> byte list \<Rightarrow> byte list option" where
  "mrenclave_commit w ctx =
     (if \<not> sn_md_final w then None
      else if length (sn_sha256 w ctx) \<noteq> 32 then None else Some (sn_sha256 w ctx))"

function encl_size_loop :: "nat \<Rightarrow> nat \<Rightarrow> nat" where
  "encl_size_loop blob_size encl_size =
     (if 0 < encl_size \<and> encl_size < blob_size then encl_size_loop blob_size (2 * encl_size) else encl_size)"
  by auto
termination encl_size_loop
  by (relation "measure (\<lambda>(b, e). b - e)") auto

declare encl_size_loop.simps [simp del]

definition mrecreate_bytes :: "u32 \<Rightarrow> u64 \<Rightarrow> byte list" where
  "mrecreate_bytes ssaframesize sz = le64 MRECREATE @ le32 ssaframesize @ le64 sz @ replicate 44 0"

definition mrenclave_ecreate :: "sign_env \<Rightarrow> nat \<Rightarrow> byte list option" where
  "mrenclave_ecreate w blob_size =
     (if \<not> sn_md_init w then None
      else mrenclave_update w [] (mrecreate_bytes 1 (word_of_nat (encl_size_loop blob_size 0x1000))))"

definition mreadd_bytes :: "u64 \<Rightarrow> u64 \<Rightarrow> byte list" where
  "mreadd_bytes offset flags = le64 MREADD @ le64 offset @ le64 flags @ replicate 40 0"

definition mrenclave_eadd :: "sign_env \<Rightarrow> byte list \<Rightarrow> u64 \<Rightarrow> u64 \<Rightarrow> byte list option" where
  "mrenclave_eadd w ctx offset flags = mrenclave_update w ctx (mreadd_bytes offset flags)"

definition mreextend_bytes :: "u64 \<Rightarrow> byte list" where
  "mreextend_bytes offset = le64 MREEXTEND @ le64 offset @ replicate 48 0"

text \<open>The updates with the 64-byte pieces in turn.\<close>

fun mrenclave_updates :: "sign_env \<Rightarrow> byte list \<Rightarrow> byte list list \<Rightarrow> byte list option" where
  "mrenclave_updates w ctx [] = Some ctx"
| "mrenclave_updates w ctx (d # ds) =
     (case mrenclave_update w ctx d of None \<Rightarrow> None | Some ctx1 \<Rightarrow> mrenclave_updates w ctx1 ds)"

fun eextend_loop :: "nat \<Rightarrow> sign_env \<Rightarrow> byte list \<Rightarrow> u64 \<Rightarrow> nat \<Rightarrow> byte list \<Rightarrow> byte list option" where
  "eextend_loop 0 w ctx offset i data = Some ctx"
| "eextend_loop (Suc n) w ctx offset i data =
     (case mrenclave_updates w ctx [mreextend_bytes (offset + word_of_nat i), drop i data, drop (i + 0x40) data,
             drop (i + 0x80) data, drop (i + 0xC0) data] of
        None \<Rightarrow> None
      | Some ctx1 \<Rightarrow> eextend_loop n w ctx1 offset (i + 0x100) data)"

definition mrenclave_eextend :: "sign_env \<Rightarrow> byte list \<Rightarrow> u64 \<Rightarrow> byte list \<Rightarrow> byte list option" where
  "mrenclave_eextend w ctx offset data = eextend_loop (0x1000 div 0x100) w ctx offset 0 data"

text \<open>The loop over the pages, the first argument of them left; \<open>rest\<close> is what fread has not delivered yet.\<close>

fun measure_pages :: "nat \<Rightarrow> sign_env \<Rightarrow> byte list \<Rightarrow> u64 \<Rightarrow> byte list \<Rightarrow> byte list option" where
  "measure_pages 0 w ctx offset rest = Some ctx"
| "measure_pages (Suc n) w ctx offset rest =
     (let flags = (if offset = 0 then SGX_SECINFO_TCS
                   else SGX_SECINFO_REG OR SGX_SECINFO_R OR SGX_SECINFO_W OR SGX_SECINFO_X) in
      case mrenclave_eadd w ctx offset flags of None \<Rightarrow> None
      | Some ctx1 \<Rightarrow>
          let data = take 0x1000 rest in
          if length data = 0 then Some ctx1
          else if length data < 0x1000 then None
          else (case mrenclave_eextend w ctx1 offset data of None \<Rightarrow> None
                | Some ctx2 \<Rightarrow> measure_pages n w ctx2 (offset + 0x1000) (drop 0x1000 rest)))"

definition measure_encl :: "sign_env \<Rightarrow> string \<Rightarrow> (byte list \<times> u32) option" where
  "measure_encl w path =
     (if \<not> sn_md_create w then None
      else case sn_read w path of None \<Rightarrow> None
      | Some file \<Rightarrow>
          (case sn_stat w path of None \<Rightarrow> None
           | Some st_size \<Rightarrow>
               if st_size = 0 \<or> st_size mod 0x1000 \<noteq> 0 then None
               else (case sn_date w path of None \<Rightarrow> None
                     | Some date \<Rightarrow>
                         (case mrenclave_ecreate w st_size of None \<Rightarrow> None
                          | Some ctx \<Rightarrow>
                              (case measure_pages (st_size div 0x1000) w ctx 0 file of None \<Rightarrow> None
                               | Some ctx1 \<Rightarrow>
                                   (case mrenclave_commit w ctx1 of None \<Rightarrow> None
                                    | Some mrenclave \<Rightarrow> Some (mrenclave, date)))))))"

section \<open>Signature\<close>

definition sigstruct_payload :: "sgx_sigstruct \<Rightarrow> byte list" where
  "sigstruct_payload ss = sigstruct_header_bytes (ss_header ss) @ sigstruct_body_bytes (ss_body ss)"

definition sign_encl :: "sign_env \<Rightarrow> sgx_sigstruct \<Rightarrow> nat \<Rightarrow> byte list option" where
  "sign_encl w ss key = sn_rsa_sign w key (sn_sha256 w (sigstruct_payload ss))"

definition calc_q1q2 ::
  "sign_env \<Rightarrow> byte list \<Rightarrow> byte list \<Rightarrow> byte list \<Rightarrow> byte list \<Rightarrow> (byte list \<times> byte list) option" where
  "calc_q1q2 w s m q1 q2 =
     (let bs = be_value (take SGX_MODULUS_SIZE s); bm = be_value (take SGX_MODULUS_SIZE m) in
      if \<not> sn_bn w 0 then None
      else if \<not> sn_bn w 1 then None
      else if bm = 0 \<or> \<not> sn_bn w 2 then None
      else
        let bq1 = (bs * bs) div bm; bqr = (bs * bs) mod bm in
        if \<not> sn_bn w 3 then None
        else if \<not> sn_bn w 4 then None
        else
          let bq2 = (bs * bqr) div bm; q1_len = length (bn2bin bq1); q2_len = length (bn2bin bq2) in
          if q1_len > SGX_MODULUS_SIZE then None
          else if q2_len > SGX_MODULUS_SIZE then None
          else Some (take (SGX_MODULUS_SIZE - q1_len) q1 @ bn2bin bq1, take (SGX_MODULUS_SIZE - q2_len) q2 @ bn2bin bq2))"

text \<open>The file written, if it can be opened.\<close>

definition save_output :: "sign_env \<Rightarrow> byte list \<Rightarrow> string \<Rightarrow> bool \<times> (string \<times> byte list) option" where
  "save_output w data path = (if sn_writable w path then (True, Some (path, data)) else (False, None))"

definition init_sigstruct :: "bool \<Rightarrow> sgx_sigstruct" where
  "init_sigstruct intel_signed =
     \<lparr>ss_header = \<lparr>sh_header1 = (0x000000E100000006, 0x0000000000010000), sh_vendor = (if intel_signed then 0x8086 else 0),
        sh_date = 0, sh_header2 = (0x0000006000000101, 0x0000000100000060)\<rparr>,
      ss_modulus = replicate 384 0, ss_exponent = 3, ss_signature = replicate 384 0,
      ss_body = \<lparr>sb_miscmask = 0xFFFFFFFF, sb_attributes = 0x004 OR 0x020, sb_xfrm = 3,
        sb_attributesmask = 0xFFFFFFFFFFFFFFFF, sb_xfrmmask = 0xFFFFFFFFFFFFFFFF, sb_mrenclave = replicate 32 0,
        sb_isvsvn = 2\<rparr>,
      ss_q1 = replicate 384 0, ss_q2 = replicate 384 0\<rparr>"

definition load_sig :: "sign_env \<Rightarrow> string \<Rightarrow> byte list option" where
  "load_sig w path =
     (case sn_stat w path of None \<Rightarrow> None
      | Some st_size \<Rightarrow>
          if st_size \<noteq> SGX_MODULUS_SIZE then None
          else (case sn_read w path of None \<Rightarrow> None
                | Some f \<Rightarrow> if length (take SGX_MODULUS_SIZE f) \<noteq> SGX_MODULUS_SIZE then None else Some (take SGX_MODULUS_SIZE f)))"

text \<open>The end of sign and usesig: Q1 and Q2, the change to little endian, the output.\<close>

definition finish_sigstruct :: "sign_env \<Rightarrow> sgx_sigstruct \<Rightarrow> string \<Rightarrow> bool \<times> (string \<times> byte list) option" where
  "finish_sigstruct w ss path =
     (case calc_q1q2 w (ss_signature ss) (ss_modulus ss) (ss_q1 ss) (ss_q2 ss) of None \<Rightarrow> (False, None)
      | Some (q1, q2) \<Rightarrow>
          save_output w (sigstruct_bytes (ss\<lparr>ss_signature := reverse_bytes (ss_signature ss) SGX_MODULUS_SIZE,
            ss_modulus := reverse_bytes (ss_modulus ss) SGX_MODULUS_SIZE, ss_q1 := reverse_bytes q1 SGX_MODULUS_SIZE,
            ss_q2 := reverse_bytes q2 SGX_MODULUS_SIZE\<rparr>)) path)"

definition with_measurement :: "sgx_sigstruct \<Rightarrow> byte list \<times> u32 \<Rightarrow> sgx_sigstruct" where
  "with_measurement ss m = ss\<lparr>ss_body := (ss_body ss)\<lparr>sb_mrenclave := fst m\<rparr>, ss_header := (ss_header ss)\<lparr>sh_date := snd m\<rparr>\<rparr>"

section \<open>Commands\<close>

text \<open>The arguments start with the command; the result is that of the C function and the file written.\<close>

definition sign :: "sign_env \<Rightarrow> string list \<Rightarrow> bool \<times> (string \<times> byte list) option" where
  "sign w argv =
     (if length argv < 4 then (False, None)
      else if sn_crypto_errors w then (False, None)
      else case load_sign_key w (argv ! 1) of None \<Rightarrow> (False, None)
      | Some sign_key \<Rightarrow>
          let ss = (init_sigstruct (length argv > 4 \<and> argv ! 4 = ''intel_signed''))\<lparr>ss_modulus := bn2bin sign_key\<rparr> in
          (case measure_encl w (argv ! 2) of None \<Rightarrow> (False, None)
           | Some m \<Rightarrow>
               let ss1 = with_measurement ss m in
               (case sign_encl w ss1 sign_key of None \<Rightarrow> (False, None)
                | Some signature \<Rightarrow> finish_sigstruct w (ss1\<lparr>ss_signature := signature\<rparr>) (argv ! 3))))"

definition gendata :: "sign_env \<Rightarrow> string list \<Rightarrow> bool \<times> (string \<times> byte list) option" where
  "gendata w argv =
     (if length argv < 3 then (False, None)
      else case measure_encl w (argv ! 1) of None \<Rightarrow> (False, None)
      | Some m \<Rightarrow>
          save_output w (sigstruct_payload
              (with_measurement (init_sigstruct (length argv > 3 \<and> argv ! 3 = ''intel_signed'')) m)) (argv ! 2))"

definition usesig :: "sign_env \<Rightarrow> string list \<Rightarrow> bool \<times> (string \<times> byte list) option" where
  "usesig w argv =
     (if length argv < 5 then (False, None)
      else if sn_crypto_errors w then (False, None)
      else case load_public_key w (argv ! 1) of None \<Rightarrow> (False, None)
      | Some pub_key \<Rightarrow>
          let ss = (init_sigstruct (length argv > 5 \<and> argv ! 5 = ''intel_signed''))\<lparr>ss_modulus := bn2bin pub_key\<rparr> in
          (case measure_encl w (argv ! 2) of None \<Rightarrow> (False, None)
           | Some m \<Rightarrow>
               (case load_sig w (argv ! 3) of None \<Rightarrow> (False, None)
                | Some signature \<Rightarrow>
                    finish_sigstruct w ((with_measurement ss m)\<lparr>ss_signature := signature\<rparr>) (argv ! 4))))"

text \<open>After getopt; \<open>None\<close> is strcmp on the NULL that ends an empty argument list.\<close>

definition sgxsign_main :: "sign_env \<Rightarrow> string list \<Rightarrow> (nat \<times> (string \<times> byte list) option) option" where
  "sgxsign_main w argv =
     (case argv of [] \<Rightarrow> None
      | command # _ \<Rightarrow>
          let (res, out) = (if command = ''sign'' then sign w argv
                            else if command = ''gendata'' then gendata w argv
                            else if command = ''usesig'' then usesig w argv
                            else (False, None)) in
          Some (if \<not> res then 1 else 0, out))"

end
