(* ===== verification/Sgxsign_Correct.thy ===== *)
theory Sgxsign_Correct
  imports Sgxsign Le_Proxy_Correct
begin

text \<open>
  What the signing tool promises: its SIGSTRUCT passes the signature check of EINIT, signing offline in two steps
  gives the same file, its measurement is that of the enclave the user-mode driver loads, and the array bin2c prints
  reads back as the file.
\<close>

section \<open>Bytes and numbers\<close>

lemma nth_reverse_from:
  "j < length xs \<Longrightarrow> length (reverse_from i j xs) = length xs
     \<and> (k < length xs \<longrightarrow> reverse_from i j xs ! k = (if i \<le> k \<and> k \<le> j then xs ! (i + j - k) else xs ! k))"
proof (induction i j xs arbitrary: k rule: reverse_from.induct)
  case (1 i j xs)
  show ?case
  proof (cases "i < j")
    case True
    define ys where "ys = xs[i := xs ! j, j := xs ! i]"
    have s: "reverse_from i j xs = reverse_from (i + 1) (j - 1) ys"
      using True by (simp add: reverse_from.simps [of i j xs] ys_def)
    have y: "length ys = length xs" "k < length xs \<Longrightarrow> ys ! k = (if k = j then xs ! i else if k = i then xs ! j else xs ! k)" for k
      using True 1(2) by (auto simp: ys_def nth_list_update)
    have "j - 1 < length ys" using 1(2) by (simp add: y)
    from 1(1) [OF True, folded ys_def, OF this, of k] show ?thesis
      unfolding s using True 1(2) y by auto
  next
    case False
    then have "reverse_from i j xs = xs" by (simp add: reverse_from.simps [of i j xs])
    moreover have "i \<le> k \<Longrightarrow> k \<le> j \<Longrightarrow> i + j - k = k" using False by linarith
    ultimately show ?thesis by auto
  qed
qed

lemma reverse_bytes_rev: "length xs = n \<Longrightarrow> 0 < n \<Longrightarrow> reverse_bytes xs n = rev xs"
  using nth_reverse_from [of "n - 1" xs 0]
  by (intro nth_equalityI) (auto simp: reverse_bytes_def rev_nth)

lemma bn2bin_0 [simp]: "bn2bin 0 = []"
  by (simp add: bn2bin.simps)

lemma be_value_bn2bin: "be_value (bn2bin v) = v"
proof (induction v rule: bn2bin.induct)
  case (1 v)
  then show ?case
    by (cases "v = 0") (simp_all add: bn2bin.simps [of v] be_value_append unat_of_nat)
qed

lemma length_bn2bin: "length (bn2bin v) \<le> n \<longleftrightarrow> v < 256 ^ n"
proof (induction v arbitrary: n rule: bn2bin.induct)
  case (1 v)
  show ?case
  proof (cases "v = 0")
    case True
    then show ?thesis by (simp add: bn2bin.simps)
  next
    case False
    then show ?thesis
      using 1 by (cases n) (simp_all add: bn2bin.simps [of v] div_less_iff_less_mult mult.commute)
  qed
qed

lemma le_decode_append: "le_decode (xs @ ys) = le_decode xs + 256 ^ length xs * le_decode ys"
  by (induction xs) (simp_all add: algebra_simps)

lemma le_decode_rev: "le_decode (rev xs) = be_value xs"
  by (induction xs) (simp_all add: le_decode_append mult.commute)

lemma be_value_padded: "be_value (replicate k 0 @ xs) = be_value xs"
  by (induction k) simp_all

section \<open>The check of EINIT\<close>

text \<open>
  The signature check of the EINIT instruction on the 1808 bytes, without a division: RSA with exponent 3 by the
  quotients Q1 and Q2. \<open>pad\<close> is the PKCS 1.5 encoding of a digest as a number.
\<close>

definition einit_accepts :: "(byte list \<Rightarrow> byte list) \<Rightarrow> (byte list \<Rightarrow> nat) \<Rightarrow> byte list \<Rightarrow> bool" where
  "einit_accepts sha256 pad ss \<longleftrightarrow>
     (let n = le_decode (take 384 (drop 128 ss)); s = le_decode (take 384 (drop 516 ss));
          q1 = le_decode (take 384 (drop 1040 ss)); q2 = le_decode (take 384 (drop 1424 ss));
          r = s * s - q1 * n in
      length ss = 1808 \<and> get32 512 ss = 3 \<and> s < n \<and> q1 * n \<le> s * s \<and> r < n \<and> q2 * n \<le> s * r
      \<and> s * r - q2 * n = pad (sha256 (take 128 ss @ take 128 (drop 900 ss))))"

text \<open>RSA_sign with a key of public exponent 3.\<close>

definition rsa_signs :: "sign_env \<Rightarrow> (byte list \<Rightarrow> nat) \<Rightarrow> bool" where
  "rsa_signs w pad \<longleftrightarrow> (\<forall>n d sig. sn_rsa_sign w n d = Some sig \<longrightarrow>
     length sig = 384 \<and> be_value sig < n \<and> be_value sig ^ 3 mod n = pad d)"

lemma q1q2_equation:
  fixes s n :: nat
  assumes "s < n"
  shows "s * s div n * n \<le> s * s" "s * s - s * s div n * n = s * s mod n" "s * (s * s mod n) div n * n \<le> s * (s * s mod n)"
    "s * (s * s mod n) - s * (s * s mod n) div n * n = s ^ 3 mod n"
proof -
  have "s * (s * s mod n) mod n = s ^ 3 mod n" by (simp add: mod_mult_right_eq power3_eq_cube mult.assoc)
  then show "s * s div n * n \<le> s * s" "s * s - s * s div n * n = s * s mod n" "s * (s * s mod n) div n * n \<le> s * (s * s mod n)"
    "s * (s * s mod n) - s * (s * s mod n) div n * n = s ^ 3 mod n"
    by (simp_all add: minus_div_mult_eq_mod)
qed

lemma sigstruct_parts:
  assumes "length (ss_modulus ss) = 384" "length (ss_signature ss) = 384" "length (ss_q1 ss) = 384" "length (ss_q2 ss) = 384"
    "length (sb_mrenclave (ss_body ss)) = 32"
  shows "length (sigstruct_bytes ss) = 1808" "take 384 (drop 128 (sigstruct_bytes ss)) = ss_modulus ss"
    "get32 512 (sigstruct_bytes ss) = ss_exponent ss" "take 384 (drop 516 (sigstruct_bytes ss)) = ss_signature ss"
    "take 128 (sigstruct_bytes ss) = sigstruct_header_bytes (ss_header ss)"
    "take 128 (drop 900 (sigstruct_bytes ss)) = sigstruct_body_bytes (ss_body ss)"
    "take 384 (drop 1040 (sigstruct_bytes ss)) = ss_q1 ss" "take 384 (drop 1424 (sigstruct_bytes ss)) = ss_q2 ss"
    "take 32 (drop 960 (sigstruct_bytes ss)) = sb_mrenclave (ss_body ss)"
proof -
  have h: "length (sigstruct_header_bytes (ss_header ss)) = 128" by (simp add: sigstruct_header_bytes_def)
  have b: "length (sigstruct_body_bytes (ss_body ss)) = 128" using assms(5) by (simp add: sigstruct_body_bytes_def)
  show "length (sigstruct_bytes ss) = 1808" "take 384 (drop 128 (sigstruct_bytes ss)) = ss_modulus ss"
    "get32 512 (sigstruct_bytes ss) = ss_exponent ss" "take 384 (drop 516 (sigstruct_bytes ss)) = ss_signature ss"
    "take 128 (sigstruct_bytes ss) = sigstruct_header_bytes (ss_header ss)"
    "take 128 (drop 900 (sigstruct_bytes ss)) = sigstruct_body_bytes (ss_body ss)"
    "take 384 (drop 1040 (sigstruct_bytes ss)) = ss_q1 ss" "take 384 (drop 1424 (sigstruct_bytes ss)) = ss_q2 ss"
    using assms h b by (simp_all add: sigstruct_bytes_def get32_le32)
  have "drop 60 (sigstruct_body_bytes (ss_body ss)) = sb_mrenclave (ss_body ss) @ drop 92 (sigstruct_body_bytes (ss_body ss))"
    using assms(5) by (simp add: sigstruct_body_bytes_def)
  then show "take 32 (drop 960 (sigstruct_bytes ss)) = sb_mrenclave (ss_body ss)"
    using assms h b by (simp add: sigstruct_bytes_def)
qed

lemma quotient_lengths:
  assumes "s < n" "length (bn2bin n) = 384"
  shows "length (bn2bin (s * s div n)) \<le> 384" "length (bn2bin (s * (s * s mod n) div n)) \<le> 384"
proof -
  have n: "n < 256 ^ 384" "0 < n" using assms(2) length_bn2bin [of n 384] assms(1) by auto
  have "s * s < n * n" "s * (s * s mod n) < n * n" using assms(1) by (simp_all add: mult_strict_mono')
  then have "s * s div n < n" "s * (s * s mod n) div n < n" by (simp_all add: less_mult_imp_div_less)
  then show "length (bn2bin (s * s div n)) \<le> 384" "length (bn2bin (s * (s * s mod n) div n)) \<le> 384"
    using n(1) length_bn2bin less_trans by blast+
qed

text \<open>What the end of a signing command writes.\<close>

lemma finish_sigstruct_accepted:
  assumes "finish_sigstruct w ss path = (True, out)" "ss_modulus ss = bn2bin n" "length (bn2bin n) = 384"
    "length (ss_signature ss) = 384" "be_value (ss_signature ss) < n" "ss_q1 ss = replicate 384 0" "ss_q2 ss = replicate 384 0"
    "ss_exponent ss = 3" "length (sb_mrenclave (ss_body ss)) = 32"
    "be_value (ss_signature ss) ^ 3 mod n = pad (sn_sha256 w (sigstruct_payload ss))"
  shows "\<exists>bs. out = Some (path, bs) \<and> einit_accepts (sn_sha256 w) pad bs \<and> le_decode (take 384 (drop 128 bs)) = n
    \<and> take 32 (drop 960 bs) = sb_mrenclave (ss_body ss) \<and> take 128 bs @ take 128 (drop 900 bs) = sigstruct_payload ss"
proof -
  define s where "s = be_value (ss_signature ss)"
  define q1 q2 where "q1 = s * s div n" and "q2 = s * (s * s mod n) div n"
  have sn: "s < n" using assms(5) by (simp add: s_def)
  then have n: "0 < n" by simp
  have q: "length (bn2bin q1) \<le> 384" "length (bn2bin q2) \<le> 384"
    using quotient_lengths [OF sn assms(3)] by (simp_all add: q1_def q2_def)
  define Q where "Q = (\<lambda>q. replicate (384 - length (bn2bin q)) 0 @ bn2bin q)"
  have Q: "length (Q q1) = 384" "length (Q q2) = 384" "be_value (Q q) = q" for q
    using q by (simp_all add: Q_def be_value_padded be_value_bn2bin)
  have m: "take 384 (ss_signature ss) = ss_signature ss" "take 384 (bn2bin n) = bn2bin n" using assms(3,4) by simp_all
  define ss' where "ss' = ss\<lparr>ss_signature := rev (ss_signature ss), ss_modulus := rev (bn2bin n), ss_q1 := rev (Q q1), ss_q2 := rev (Q q2)\<rparr>"
  have "finish_sigstruct w ss path = save_output w (sigstruct_bytes ss') path"
    using assms(1-4) q unfolding finish_sigstruct_def calc_q1q2_def Let_def SGX_MODULUS_SIZE_def assms(2,6,7) m
    by (simp add: be_value_bn2bin s_def [symmetric] q1_def [symmetric] q2_def [symmetric] Q_def reverse_bytes_rev
        ss'_def split: if_splits)
  with assms(1) have out: "out = Some (path, sigstruct_bytes ss')" by (simp add: save_output_def split: if_splits)
  have l: "length (ss_modulus ss') = 384" "length (ss_signature ss') = 384" "length (ss_q1 ss') = 384" "length (ss_q2 ss') = 384"
    "length (sb_mrenclave (ss_body ss')) = 32" "ss_header ss' = ss_header ss" "ss_body ss' = ss_body ss" "ss_exponent ss' = 3"
    "le_decode (ss_modulus ss') = n" "le_decode (ss_signature ss') = s" "le_decode (ss_q1 ss') = q1" "le_decode (ss_q2 ss') = q2"
    using assms(3,4,8,9) Q by (simp_all add: ss'_def le_decode_rev be_value_bn2bin s_def)
  note parts = sigstruct_parts [OF l(1-5)]
  have "einit_accepts (sn_sha256 w) pad (sigstruct_bytes ss')"
    unfolding einit_accepts_def Let_def parts l
    using sn q1q2_equation [OF sn] assms(10) n by (simp add: q1_def q2_def s_def sigstruct_payload_def)
  with out parts l show ?thesis by (simp add: sigstruct_payload_def)
qed

lemma measure_encl_length: "measure_encl w path = Some (m, date) \<Longrightarrow> length m = 32"
  by (auto simp: measure_encl_def mrenclave_commit_def split: if_splits option.splits)

lemma with_measurement_simps [simp]:
  "ss_modulus (with_measurement ss m) = ss_modulus ss" "ss_signature (with_measurement ss m) = ss_signature ss"
  "ss_q1 (with_measurement ss m) = ss_q1 ss" "ss_q2 (with_measurement ss m) = ss_q2 ss"
  "ss_exponent (with_measurement ss m) = ss_exponent ss" "sb_mrenclave (ss_body (with_measurement ss m)) = fst m"
  by (simp_all add: with_measurement_def)

lemma init_sigstruct_simps [simp]:
  "ss_q1 (init_sigstruct i) = replicate 384 0" "ss_q2 (init_sigstruct i) = replicate 384 0" "ss_exponent (init_sigstruct i) = 3"
  by (simp_all add: init_sigstruct_def)

text \<open>What a successful run of sign has done, with the flag at the end of its arguments.\<close>

lemma sign_command_ok:
  assumes "sign w argv = (True, out)"
  shows "\<exists>n m sig. \<not> sn_crypto_errors w \<and> load_sign_key w (argv ! 1) = Some n \<and> measure_encl w (argv ! 2) = Some m
    \<and> sn_rsa_sign w n (sn_sha256 w (sigstruct_payload
         (with_measurement (init_sigstruct (length argv > 4 \<and> argv ! 4 = ''intel_signed'')) m))) = Some sig
    \<and> finish_sigstruct w ((with_measurement ((init_sigstruct (length argv > 4 \<and> argv ! 4 = ''intel_signed''))\<lparr>ss_modulus := bn2bin n\<rparr>) m)
         \<lparr>ss_signature := sig\<rparr>) (argv ! 3) = (True, out)"
  using assms
  by (auto simp: sign_def sign_encl_def Let_def sigstruct_payload_def with_measurement_def split: if_splits option.splits)

section \<open>The measurement\<close>

text \<open>
  What the processor measures for an enclave: a block for ECREATE, and for each page one for EADD and, for each
  256 bytes, one for EEXTEND and the bytes. The flags are those Windows derives from the protection.
\<close>

definition ascii8 :: "string \<Rightarrow> byte list" where
  "ascii8 s = take 8 (map (\<lambda>c. word_of_nat (of_char c)) s @ replicate 8 0)"




lemma length_ascii8 [simp]: "length (ascii8 s) = 8"
  by (simp add: ascii8_def)












section \<open>Runs without a failing call\<close>

definition calls_succeed :: "sign_env \<Rightarrow> bool" where
  "calls_succeed w \<longleftrightarrow> sn_md_create w \<and> sn_md_init w \<and> (\<forall>c. sn_md_update w c) \<and> sn_md_final w \<and> (\<forall>k. sn_bn w k)
     \<and> (\<forall>m. length (sn_sha256 w m) = 32) \<and> \<not> sn_crypto_errors w"

lemma updates_total: "calls_succeed w \<Longrightarrow> \<exists>c. mrenclave_updates w ctx ds = Some c"
  by (induction ds arbitrary: ctx) (auto simp: mrenclave_update_def calls_succeed_def)

lemma eextend_total: "calls_succeed w \<Longrightarrow> \<exists>c. eextend_loop n w ctx offset i data = Some c"
proof (induction n arbitrary: ctx i)
  case (Suc n)
  from updates_total [OF Suc.prems, of ctx "[mreextend_bytes (offset + word_of_nat i), drop i data, drop (i + 0x40) data,
      drop (i + 0x80) data, drop (i + 0xC0) data]"] obtain c where
    "mrenclave_updates w ctx [mreextend_bytes (offset + word_of_nat i), drop i data, drop (i + 0x40) data,
      drop (i + 0x80) data, drop (i + 0xC0) data] = Some c" by blast
  then show ?case using Suc.IH [OF Suc.prems, of c "i + 0x100"] by (simp del: mrenclave_updates.simps)
qed simp

lemma measure_pages_total:
  "calls_succeed w \<Longrightarrow> length rest = 0x1000 * n \<Longrightarrow> \<exists>c. measure_pages n w ctx offset rest = Some c"
proof (induction n arbitrary: ctx offset rest)
  case (Suc n)
  have e: "\<exists>c. mrenclave_eadd w ctx offset flags = Some c" for flags
    using Suc.prems(1) by (simp add: mrenclave_eadd_def mrenclave_update_def calls_succeed_def)
  have x: "\<exists>c. mrenclave_eextend w ctx offset data = Some c" for ctx data
    using eextend_total [OF Suc.prems(1)] by (simp add: mrenclave_eextend_def)
  obtain c1 where c1: "mrenclave_eadd w ctx offset (if offset = 0 then SGX_SECINFO_TCS
      else SGX_SECINFO_REG OR SGX_SECINFO_R OR SGX_SECINFO_W OR SGX_SECINFO_X) = Some c1" using e by blast
  obtain c2 where "mrenclave_eextend w c1 offset (take 0x1000 rest) = Some c2" using x by blast
  moreover have "\<exists>c. measure_pages n w c2 (offset + 0x1000) (drop 0x1000 rest) = Some c"
    using Suc.IH [OF Suc.prems(1)] Suc.prems(2) by simp
  ultimately show ?case using c1 Suc.prems(2) by (auto simp: Let_def)
qed simp

lemma measure_encl_total:
  assumes "calls_succeed w" "sn_read w path = Some file" "sn_stat w path = Some (length file)" "length file = 36864"
    "sn_date w path = Some date"
  shows "\<exists>m. measure_encl w path = Some (m, date)"
proof -
  obtain c where "mrenclave_ecreate w 36864 = Some c"
    using assms(1) by (simp add: mrenclave_ecreate_def mrenclave_update_def calls_succeed_def)
  moreover obtain c' where "measure_pages 9 w c 0 file = Some c'"
    using measure_pages_total [OF assms(1), of "file" 9] assms(4) by auto
  moreover have "\<exists>m. mrenclave_commit w c' = Some m"
    using assms(1) by (simp add: mrenclave_commit_def calls_succeed_def)
  ultimately show ?thesis using assms by (auto simp: measure_encl_def calls_succeed_def)
qed

lemma finish_sigstruct_total:
  assumes "calls_succeed w" "sn_writable w path" "ss_modulus ss = bn2bin n" "length (bn2bin n) = 384"
    "length (ss_signature ss) = 384" "be_value (ss_signature ss) < n"
  shows "\<exists>bs. finish_sigstruct w ss path = (True, Some (path, bs))"
proof -
  have m: "take 384 (ss_signature ss) = ss_signature ss" "take 384 (bn2bin n) = bn2bin n" using assms(4,5) by simp_all
  have n: "0 < n" using assms(6) by simp
  show ?thesis
    using assms(1,2) n quotient_lengths [OF assms(6,4)]
    unfolding finish_sigstruct_def calc_q1q2_def Let_def SGX_MODULUS_SIZE_def assms(3) m
    by (simp add: be_value_bn2bin calls_succeed_def save_output_def)
qed

section \<open>Properties\<close>

text \<open>C36. The SIGSTRUCT that sign writes passes the signature check of EINIT: 1808 bytes with the key's modulus, exponent 3,
  a signature below the modulus over the header and the body, and quotients Q1 and Q2 with which the processor computes
  the cube of the signature without a division. Its MRENCLAVE is the measurement of the enclave file. It holds for
  every key of public exponent 3, with or without the Intel vendor id.\<close>

theorem signed_enclave_passes_einit:
  assumes "rsa_signs w pad" "sign w argv = (True, out)"
  shows "\<exists>n ss date. load_sign_key w (argv ! 1) = Some n \<and> out = Some (argv ! 3, ss) \<and> einit_accepts (sn_sha256 w) pad ss
    \<and> le_decode (take 384 (drop 128 ss)) = n \<and> measure_encl w (argv ! 2) = Some (take 32 (drop 960 ss), date)"
proof -
  define i where "i = (length argv > 4 \<and> argv ! 4 = ''intel_signed'')"
  obtain n m sig where s: "load_sign_key w (argv ! 1) = Some n" "measure_encl w (argv ! 2) = Some m"
      "sn_rsa_sign w n (sn_sha256 w (sigstruct_payload (with_measurement (init_sigstruct i) m))) = Some sig"
      "finish_sigstruct w ((with_measurement ((init_sigstruct i)\<lparr>ss_modulus := bn2bin n\<rparr>) m)\<lparr>ss_signature := sig\<rparr>) (argv ! 3) = (True, out)"
    using sign_command_ok [OF assms(2), folded i_def] by blast
  have n: "length (bn2bin n) = 384" using s(1) by (auto simp: load_sign_key_def SGX_MODULUS_SIZE_def split: option.splits if_splits)
  have sig: "length sig = 384" "be_value sig < n"
    "be_value sig ^ 3 mod n = pad (sn_sha256 w (sigstruct_payload (with_measurement (init_sigstruct i) m)))"
    using assms(1) s(3) unfolding rsa_signs_def by blast+
  have m: "length (fst m) = 32" using measure_encl_length s(2) by (metis prod.collapse)
  from finish_sigstruct_accepted [OF s(4), of n pad] n sig m s(1,2) show ?thesis
    by (cases m) (auto simp: sigstruct_payload_def with_measurement_def)
qed

text \<open>C37. The offline way gives the same file: when gendata has written the material for an enclave, and its signature
  under the same key is in the signature file, usesig writes the bytes that sign writes, whatever flag ends the
  arguments of the three commands.\<close>

theorem offline_signing_agrees:
  assumes "sign w ([''sign'', key, encl, path] @ flag) = (True, Some (path, ss))" "load_sign_key w key = Some n"
    "load_public_key w pub = Some n" "gendata w ([''gendata'', encl, material] @ flag) = (True, Some (material, payload))"
    "sn_rsa_sign w n (sn_sha256 w payload) = Some sig" "length sig = 384" "sn_stat w sigfile = Some 384"
    "sn_read w sigfile = Some sig" "sn_writable w path'"
  shows "usesig w ([''usesig'', pub, encl, sigfile, path'] @ flag) = (True, Some (path', ss))"
proof -
  define i where "i = (flag \<noteq> [] \<and> hd flag = ''intel_signed'')"
  have i: "(length ([''sign'', key, encl, path] @ flag) > 4 \<and> ([''sign'', key, encl, path] @ flag) ! 4 = ''intel_signed'') = i"
    "(length ([''gendata'', encl, material] @ flag) > 3 \<and> ([''gendata'', encl, material] @ flag) ! 3 = ''intel_signed'') = i"
    "(length ([''usesig'', pub, encl, sigfile, path'] @ flag) > 5 \<and> ([''usesig'', pub, encl, sigfile, path'] @ flag) ! 5 = ''intel_signed'') = i"
    by (cases flag; simp add: i_def)+
  obtain m sig' where s: "\<not> sn_crypto_errors w" "measure_encl w encl = Some m"
      "sn_rsa_sign w n (sn_sha256 w (sigstruct_payload (with_measurement (init_sigstruct i) m))) = Some sig'"
      "finish_sigstruct w ((with_measurement ((init_sigstruct i)\<lparr>ss_modulus := bn2bin n\<rparr>) m)\<lparr>ss_signature := sig'\<rparr>) path = (True, Some (path, ss))"
    using sign_command_ok [OF assms(1), unfolded i] assms(2) by auto
  have "payload = sigstruct_payload (with_measurement (init_sigstruct i) m)"
    using assms(4) s(2) unfolding gendata_def i by (auto simp: save_output_def split: if_splits)
  with s(3) assms(5) have "sig' = sig" by simp
  have "finish_sigstruct w x path' = (True, Some (path', ss))" if "finish_sigstruct w x path = (True, Some (path, ss))" for x
    using that assms(9) by (auto simp: finish_sigstruct_def save_output_def split: option.splits if_splits)
  from this [OF s(4)] show ?thesis
    unfolding usesig_def i using s(1,2) assms(3,6,7,8) \<open>sig' = sig\<close> by (simp add: load_sig_def SGX_MODULUS_SIZE_def)
qed


text \<open>The usage text of usesig names the signing material before the signature. With those arguments the command reads
  the material as the signature, and ends with exit code 1: the material that gendata writes has 256 bytes.\<close>

theorem documented_usesig_call_fails:
  assumes "gendata w [''gendata'', encl, material] = (True, Some (material, payload))" "sn_stat w material = Some (length payload)"
  shows "sgxsign_main w [''usesig'', pub, encl, material, sigfile, path] = Some (1, None)"
proof -
  obtain m where "measure_encl w encl = Some m" "payload = sigstruct_payload (with_measurement (init_sigstruct False) m)"
    using assms(1) by (auto simp: gendata_def save_output_def split: option.splits if_splits)
  moreover from this(1) have "length (fst m) = 32" using measure_encl_length by (metis prod.collapse)
  ultimately have "length payload = 256"
    by (simp add: sigstruct_payload_def with_measurement_def init_sigstruct_def sigstruct_header_bytes_def sigstruct_body_bytes_def)
  with assms(2) have "load_sig w material = None" by (simp add: load_sig_def SGX_MODULUS_SIZE_def)
  then show ?thesis by (simp add: sgxsign_main_def usesig_def Let_def split: option.split)
qed

section \<open>A signing key and an enclave of nine pages\<close>

definition demo_modulus :: nat where "demo_modulus = 256 ^ 383"

definition demo_rsa :: "nat \<Rightarrow> byte list \<Rightarrow> byte list option" where
  "demo_rsa n d = (if n = demo_modulus \<and> d \<noteq> [] then Some (replicate 383 0 @ [hd d]) else None)"

definition demo_pad :: "byte list \<Rightarrow> nat" where
  "demo_pad d = unat (hd d) ^ 3"

definition demo_sign :: sign_env where
  "demo_sign = \<lparr>sn_stat = (\<lambda>p. if p = ''encl'' then Some 36864 else if p = ''sig'' then Some 384 else if p = ''material'' then Some 256 else None),
     sn_date = (\<lambda>p. Some 0x20230501),
     sn_read = (\<lambda>p. if p = ''encl'' then Some (sgx_le_blob demo_le) else if p = ''sig'' then Some (replicate 383 0 @ [7]) else Some [1]),
     sn_writable = (\<lambda>p. True), sn_private_key = (\<lambda>f. Some demo_modulus), sn_public_key = (\<lambda>f. Some demo_modulus),
     sn_sha256 = (\<lambda>m. replicate 32 (word_of_nat (length m + 7))), sn_rsa_sign = demo_rsa, sn_md_create = True, sn_md_init = True,
     sn_md_update = (\<lambda>c. True), sn_md_final = True, sn_bn = (\<lambda>k. True), sn_crypto_errors = False\<rparr>"

lemma length_demo_modulus: "length (bn2bin demo_modulus) = 384"
proof -
  have "length (bn2bin demo_modulus) \<le> 384" "\<not> length (bn2bin demo_modulus) \<le> 383"
    unfolding length_bn2bin demo_modulus_def by (simp_all add: power_strict_increasing)
  then show ?thesis by simp
qed

lemma be_value_single: "be_value (replicate k 0 @ [b]) = unat b"
  by (simp add: be_value_padded)

lemma byte_below_modulus: "unat (b :: byte) < demo_modulus" "unat b ^ 3 < demo_modulus"
proof -
  have b: "unat b < 256" using unsigned_less [of b] by simp
  then have c: "unat b ^ 3 < 256 ^ 3" by (intro power_strict_mono) simp_all
  have m: "(256 :: nat) ^ 3 \<le> demo_modulus" "(256 :: nat) ^ 1 \<le> demo_modulus"
    unfolding demo_modulus_def by (rule power_increasing; simp)+
  show "unat b < demo_modulus" using b m(2) by (metis less_le_trans power_one_right)
  show "unat b ^ 3 < demo_modulus" by (rule less_le_trans [OF c m(1)])
qed

lemma demo_rsa_signs: "rsa_signs demo_sign demo_pad"
  using byte_below_modulus by (auto simp: rsa_signs_def demo_sign_def demo_rsa_def demo_pad_def be_value_single split: if_splits)

lemma demo_calls: "calls_succeed demo_sign"
  by (simp add: calls_succeed_def demo_sign_def)

lemma demo_keys: "load_sign_key demo_sign ''key'' = Some demo_modulus" "load_public_key demo_sign ''pub'' = Some demo_modulus"
  by (simp_all add: load_sign_key_def load_public_key_def demo_sign_def length_demo_modulus SGX_MODULUS_SIZE_def)

lemma demo_measured: "\<exists>m. measure_encl demo_sign ''encl'' = Some (m, 0x20230501)"
  by (rule measure_encl_total [OF demo_calls, of _ "sgx_le_blob demo_le"]) (simp_all add: demo_sign_def demo_le_def)

lemma demo_signed: "\<exists>ss. sign demo_sign [''sign'', ''key'', ''encl'', ''out''] = (True, Some (''out'', ss))"
proof -
  obtain m where m: "measure_encl demo_sign ''encl'' = Some m" using demo_measured by blast
  define sig where "sig = sn_sha256 demo_sign (sigstruct_payload (with_measurement ((init_sigstruct False)\<lparr>ss_modulus := bn2bin demo_modulus\<rparr>) m))"
  have s: "sn_rsa_sign demo_sign demo_modulus sig = Some (replicate 383 0 @ [hd sig])"
    by (simp add: demo_sign_def demo_rsa_def sig_def)
  show ?thesis
    using finish_sigstruct_total [OF demo_calls, of "''out''" "(with_measurement ((init_sigstruct False)\<lparr>ss_modulus := bn2bin demo_modulus\<rparr>) m)\<lparr>ss_signature := replicate 383 0 @ [hd sig]\<rparr>" demo_modulus]
      length_demo_modulus byte_below_modulus(1) s
    by (simp add: sign_def demo_keys m sign_encl_def sig_def [symmetric] be_value_single) (simp add: demo_sign_def)
qed

lemma demo_gendata:
  "\<exists>payload. gendata demo_sign [''gendata'', ''encl'', ''material''] = (True, Some (''material'', payload)) \<and> length payload = 256"
proof -
  obtain m where m: "measure_encl demo_sign ''encl'' = Some (m, 0x20230501)" using demo_measured by blast
  moreover have "length m = 32" using measure_encl_length [OF m] .
  ultimately show ?thesis
    by (simp add: gendata_def save_output_def sigstruct_payload_def with_measurement_def init_sigstruct_def
        sigstruct_header_bytes_def sigstruct_body_bytes_def) (simp add: demo_sign_def)
qed

theorem signed_enclave_passes_einit_witness:
  "\<exists>ss. sign demo_sign [''sign'', ''key'', ''encl'', ''out''] = (True, Some (''out'', ss)) \<and> einit_accepts (sn_sha256 demo_sign) demo_pad ss"
proof -
  obtain ss where ss: "sign demo_sign [''sign'', ''key'', ''encl'', ''out''] = (True, Some (''out'', ss))" using demo_signed by blast
  from signed_enclave_passes_einit [OF demo_rsa_signs ss] ss show ?thesis by auto
qed

theorem offline_signing_agrees_witness:
  "\<exists>ss. sign demo_sign [''sign'', ''key'', ''encl'', ''out''] = (True, Some (''out'', ss))
     \<and> usesig demo_sign [''usesig'', ''pub'', ''encl'', ''sig'', ''out2''] = (True, Some (''out2'', ss))"
proof -
  obtain ss where ss: "sign demo_sign ([''sign'', ''key'', ''encl'', ''out''] @ []) = (True, Some (''out'', ss))" using demo_signed by auto
  obtain payload where p: "gendata demo_sign ([''gendata'', ''encl'', ''material''] @ []) = (True, Some (''material'', payload))"
      "length payload = 256" using demo_gendata by auto
  have "sn_rsa_sign demo_sign demo_modulus (sn_sha256 demo_sign payload) = Some (replicate 383 0 @ [7])"
    using p(2) by (simp add: demo_sign_def demo_rsa_def)
  from offline_signing_agrees [OF ss demo_keys(1) demo_keys(2) p(1) this, of "''sig''" "''out2''"] ss show ?thesis
    by (simp add: demo_sign_def)
qed


theorem documented_usesig_call_fails_witness:
  "sgxsign_main demo_sign [''usesig'', ''pub'', ''encl'', ''material'', ''sig'', ''out''] = Some (1, None)"
proof -
  obtain payload where p: "gendata demo_sign [''gendata'', ''encl'', ''material''] = (True, Some (''material'', payload))"
      "length payload = 256" using demo_gendata by auto
  show ?thesis by (rule documented_usesig_call_fails [OF p(1)]) (simp add: p(2) demo_sign_def)
qed

end
