(* ===== verification/Bin2c.thy ===== *)
theory Bin2c
  imports Prelude
begin

text \<open>
  bin2c.c (driver/win/PLE): the tool that prints a file as a C array, with which the launch enclave and its
  SIGSTRUCT become headers of the user-mode driver; and that its array reads back as the file.
\<close>

section \<open>The code\<close>

record bin2c_env =
  bc_writable :: "string \<Rightarrow> bool"
  bc_read :: "string \<Rightarrow> byte list option"
  bc_stat :: "string \<Rightarrow> nat option"                     \<comment> \<open>st_size\<close>
  bc_licence :: string                                  \<comment> \<open>the text of print_lic\<close>

definition c_toupper :: "char \<Rightarrow> char" where
  "c_toupper c = (let n = of_char c :: nat in if 97 \<le> n \<and> n \<le> 122 then char_of (n - 32) else c)"

definition hex_digit :: "nat \<Rightarrow> char" where
  "hex_digit d = char_of (if d < 10 then 48 + d else 87 + d)"

fun decimal :: "nat \<Rightarrow> string" where
  "decimal n = (if n < 10 then [char_of (48 + n)] else decimal (n div 10) @ [char_of (48 + n mod 10)])"

declare decimal.simps [simp del]

text \<open>The format "0x%.2x,".\<close>

definition print_byte :: "byte \<Rightarrow> string" where
  "print_byte b = ''0x'' @ [hex_digit (unat b div 16), hex_digit (unat b mod 16)] @ '',''"

definition newline :: string where "newline = [CHR 0x0A]"
definition tab :: string where "tab = [CHR 0x09]"

text \<open>The loop over the bytes of a block.\<close>

fun print_block :: "nat \<Rightarrow> byte list \<Rightarrow> string" where
  "print_block i [] = []"
| "print_block i (b # bs) = (if i mod 16 = 0 then newline @ tab else []) @ print_byte b @ print_block (Suc i) bs"

text \<open>The loop over the blocks, the first argument of them left: the text and the bytes read.\<close>

fun print_blocks :: "nat \<Rightarrow> byte list \<Rightarrow> string \<times> nat" where
  "print_blocks 0 rest = ([], 0)"
| "print_blocks (Suc n) rest =
     (let data = take 0x1000 rest in
      if length data = 0 then ([], 0)
      else (case print_blocks n (drop 0x1000 rest) of (text, bytes_read) \<Rightarrow>
              (print_block 0 data @ text, length data + bytes_read)))"

definition print_header :: "string \<Rightarrow> string \<Rightarrow> string \<Rightarrow> nat \<Rightarrow> string" where
  "print_header licence upper_name name st_size =
     licence @ ''#pragma once'' @ newline @ newline
     @ ''#define '' @ upper_name @ ''_LEN '' @ decimal st_size @ newline
     @ ''const int '' @ name @ ''_length = '' @ upper_name @ ''_LEN;'' @ newline @ newline
     @ ''const unsigned char '' @ name @ ''['' @ upper_name @ ''_LEN] = '' @ newline"

text \<open>
  After getopt. The exit code and the output file; \<open>None\<close> is a name that does not fit upper_name. A file that
  cannot be opened leaves \<open>res\<close> at 0.
\<close>

definition bin2c_main :: "bin2c_env \<Rightarrow> string list \<Rightarrow> (int \<times> (string \<times> string) option) option" where
  "bin2c_main w argv =
     (if length argv < 3 then Some (1, None)
      else if \<not> bc_writable w (argv ! 1) then Some (0, None)
      else case bc_read w (argv ! 0) of None \<Rightarrow> Some (0, Some (argv ! 1, []))
      | Some input \<Rightarrow>
          (case bc_stat w (argv ! 0) of None \<Rightarrow> Some (255, Some (argv ! 1, []))
           | Some st_size \<Rightarrow>
               if length (argv ! 2) \<ge> 256 then None
               else
                 (case print_blocks ((st_size + 0xFFF) div 0x1000) input of (text, bytes_read) \<Rightarrow>
                    Some (if bytes_read < st_size then 1 else 0,
                      Some (argv ! 1, print_header (bc_licence w) (map c_toupper (argv ! 2)) (argv ! 2) st_size @ ''{'' @ text
                        @ newline @ ''};'' @ newline)))))"

section \<open>Reading an array back\<close>

definition hex_value :: "char \<Rightarrow> nat option" where
  "hex_value c = (let n = of_char c :: nat in
     if 48 \<le> n \<and> n \<le> 57 then Some (n - 48) else if 97 \<le> n \<and> n \<le> 102 then Some (n - 87)
     else if 65 \<le> n \<and> n \<le> 70 then Some (n - 55) else None)"

text \<open>The elements of an initializer up to its closing brace.\<close>

fun read_array :: "string \<Rightarrow> byte list option" where
  "read_array (c # s) =
     (if c = CHR 0x0A \<or> c = CHR 0x09 \<or> c = CHR '' '' then read_array s
      else if c = CHR ''}'' then Some []
      else (case s of
              x # h # l # comma # rest \<Rightarrow>
                if c = CHR ''0'' \<and> x = CHR ''x'' \<and> comma = CHR '',''
                then (case (hex_value h, hex_value l, read_array rest) of
                        (Some a, Some b, Some bs) \<Rightarrow> Some (word_of_nat (16 * a + b) # bs) | _ \<Rightarrow> None)
                else None
            | _ \<Rightarrow> None))"
| "read_array [] = None"

definition array_text :: "string \<Rightarrow> string" where
  "array_text text = tl (dropWhile (\<lambda>c. c \<noteq> CHR ''{'') text)"

lemma hex_value_digit: "d < 16 \<Longrightarrow> hex_value (hex_digit d) = Some d"
  by (auto simp: hex_value_def hex_digit_def of_char_of Let_def)

lemma read_print_byte: "read_array (print_byte b @ s) = map_option (Cons b) (read_array s)"
proof -
  have "unat b < 256" using unsigned_less [of b] by simp
  then have "hex_value (hex_digit (unat b div 16)) = Some (unat b div 16)" "hex_value (hex_digit (unat b mod 16)) = Some (unat b mod 16)"
    by (auto intro!: hex_value_digit simp: div_less_iff_less_mult)
  moreover have "word_of_nat (16 * (unat b div 16) + unat b mod 16) = b" by simp
  ultimately show ?thesis by (simp add: print_byte_def split: option.splits)
qed

lemma read_newline: "read_array (newline @ s) = read_array s" "read_array (tab @ s) = read_array s"
  by (simp_all add: newline_def tab_def)

lemma map_option_append: "map_option ((@) []) r = r" "map_option (Cons a) (map_option ((@) bs) r) = map_option ((@) (a # bs)) r"
  "map_option (\<lambda>a. a) r = r"
  by (cases r; simp)+

lemma read_print_block: "read_array (print_block i bs @ s) = map_option ((@) bs) (read_array s)"
  by (induction bs arbitrary: i)
    (simp_all add: read_print_byte read_newline map_option_append del: read_array.simps)

lemma print_blocks_all:
  assumes "length bs \<le> 0x1000 * n"
  shows "snd (print_blocks n bs) = length bs"
    "read_array (fst (print_blocks n bs) @ s) = map_option ((@) bs) (read_array s)"
proof -
  have "snd (print_blocks n bs) = length bs
      \<and> read_array (fst (print_blocks n bs) @ s) = map_option ((@) bs) (read_array s)"
    using assms
  proof (induction n arbitrary: bs)
    case (Suc n)
    have "length (drop 0x1000 bs) \<le> 0x1000 * n" using Suc.prems by simp
    note IH = Suc.IH [OF this]
    show ?case
    proof (cases "bs = []")
      case False
      have "map_option (\<lambda>xs. take 0x1000 bs @ (drop 0x1000 bs @ xs)) r = map_option ((@) bs) r" for r
        by (simp flip: append_assoc)
      then show ?thesis
        using IH False by (simp add: Let_def split_beta read_print_block option.map_comp comp_def del: read_array.simps)
    qed (simp add: map_option_append del: read_array.simps)
  qed (simp add: map_option_append del: read_array.simps)
  then show "snd (print_blocks n bs) = length bs" "read_array (fst (print_blocks n bs) @ s) = map_option ((@) bs) (read_array s)"
    by auto
qed

lemma decimal_no_brace: "CHR ''{'' \<notin> set (decimal n)"
proof (induction n rule: decimal.induct)
  case (1 n)
  have "CHR ''{'' \<noteq> char_of (48 + k)" if "k < 10" for k :: nat
  proof
    assume "CHR ''{'' = char_of (48 + k)"
    from arg_cong [OF this, of "of_char :: char \<Rightarrow> nat"] that show False by (simp add: of_char_of)
  qed
  with 1 show ?case by (simp add: decimal.simps [of n])
qed

lemma toupper_no_brace: "CHR ''{'' \<notin> set s \<Longrightarrow> CHR ''{'' \<notin> set (map c_toupper s)"
proof -
  have "c = CHR ''{''" if "c_toupper c = CHR ''{''" for c
  proof (rule ccontr)
    assume "c \<noteq> CHR ''{''"
    with that have "char_of (of_char c - 32 :: nat) = CHR ''{''" "97 \<le> (of_char c :: nat)" "of_char c \<le> (122 :: nat)"
      by (auto simp: c_toupper_def Let_def split: if_splits)
    from arg_cong [OF this(1), of "of_char :: char \<Rightarrow> nat"] this(2,3) show False by (simp add: of_char_of)
  qed
  then show "CHR ''{'' \<notin> set s \<Longrightarrow> CHR ''{'' \<notin> set (map c_toupper s)" by (auto dest: sym)
qed

text \<open>C39. The array bin2c prints for a file reads back as the bytes of the file, for every length, and the exit code is 0.\<close>

theorem array_reads_back:
  assumes "bc_writable w out" "bc_read w path = Some bs" "bc_stat w path = Some (length bs)" "length name < 256"
    "CHR ''{'' \<notin> set (bc_licence w)" "CHR ''{'' \<notin> set name"
  shows "\<exists>text. bin2c_main w [path, out, name] = Some (0, Some (out, text)) \<and> read_array (array_text text) = Some bs"
proof -
  define n where "n = (length bs + 0xFFF) div 0x1000"
  have n: "length bs \<le> 0x1000 * n" unfolding n_def by linarith
  define pre where "pre = print_header (bc_licence w) (map c_toupper name) name (length bs)"
  have "CHR ''{'' \<notin> set pre"
    using assms(5,6) toupper_no_brace [OF assms(6)] decimal_no_brace
    by (simp add: pre_def print_header_def newline_def del: set_map)
  then have "array_text (pre @ ''{'' @ s) = s" for s
    unfolding array_text_def by (subst dropWhile_append2) auto
  moreover have "read_array (newline @ ''};'' @ newline) = Some []" by (simp add: newline_def)
  ultimately show ?thesis
    using assms(1-4) print_blocks_all [OF n]
    by (simp add: bin2c_main_def n_def [symmetric] pre_def [symmetric] split_beta del: read_array.simps)
qed

definition demo_bin2c :: bin2c_env where
  "demo_bin2c = \<lparr>bc_writable = (\<lambda>p. True), bc_read = (\<lambda>p. Some (replicate 5000 0xA7)), bc_stat = (\<lambda>p. Some 5000), bc_licence = ''''\<rparr>"

theorem array_reads_back_witness:
  "\<exists>text. bin2c_main demo_bin2c [''ple.bin'', ''ple.h'', ''ple''] = Some (0, Some (''ple.h'', text))
     \<and> read_array (array_text text) = Some (replicate 5000 0xA7)"
  by (rule array_reads_back) (simp_all add: demo_bin2c_def)

end
