(* ===== verification/Tdqe_Blob.thy ===== *)
theory Tdqe_Blob
  imports Tdqe_Mldsa
begin

text \<open>
  The attestation key blob of the TD quoting enclave (ae/tdqe/quoting_enclave_tdqe.cpp and .h, ecdsa_quote.h): its
  layout for the four key types, key generation, verification with resealing, certification, and the PPID
  encryption key. The build for hardware is modelled, without SE_SIM.

  The SGX SDK is the parameter \<open>tdqe_sdk\<close>; an argument of type \<open>byte list option\<close> is a pointer, \<open>None\<close> is NULL.
  A buffer that a command writes is an argument and a result.
\<close>

section \<open>Error codes and constants\<close>

definition TDQE_ERROR_INVALID_HASH :: int where "TDQE_ERROR_INVALID_HASH = 0x0001000A"
definition TDQE_ERROR_INVALID_PLATFORM :: int where "TDQE_ERROR_INVALID_PLATFORM = 0x0001000B"

definition TDQE_MLDSA_44_PRIVATE_KEY_SIZE :: nat where "TDQE_MLDSA_44_PRIVATE_KEY_SIZE = 2560"
definition TDQE_MLDSA_65_PRIVATE_KEY_SIZE :: nat where "TDQE_MLDSA_65_PRIVATE_KEY_SIZE = 4032"
definition TDQE_MLDSA_87_PRIVATE_KEY_SIZE :: nat where "TDQE_MLDSA_87_PRIVATE_KEY_SIZE = 4896"

definition SGX_QL_SEAL_ECDSA_KEY_BLOB :: byte where "SGX_QL_SEAL_ECDSA_KEY_BLOB = 0"
definition SGX_QL_SEAL_MLDSA_65_KEY_BLOB :: byte where "SGX_QL_SEAL_MLDSA_65_KEY_BLOB = 1"
definition SGX_QL_SEAL_MLDSA_87_KEY_BLOB :: byte where "SGX_QL_SEAL_MLDSA_87_KEY_BLOB = 2"
definition SGX_QL_SEAL_MLDSA_44_KEY_BLOB :: byte where "SGX_QL_SEAL_MLDSA_44_KEY_BLOB = 3"
definition KEY_BLOB_VERSION_0 :: byte where "KEY_BLOB_VERSION_0 = 0"

definition REF_ECDSDA_AUTHENTICATION_DATA_SIZE :: nat where "REF_ECDSDA_AUTHENTICATION_DATA_SIZE = 32"
definition REF_RSA_OAEP_3072_MOD_SIZE :: nat where "REF_RSA_OAEP_3072_MOD_SIZE = 384"
definition REF_RSA_OAEP_3072_EXP_SIZE :: nat where "REF_RSA_OAEP_3072_EXP_SIZE = 4"
definition PCE_ALG_RSA_OAEP_3072 :: byte where "PCE_ALG_RSA_OAEP_3072 = 1"
definition SGX_FLAGS_DEBUG :: u64 where "SGX_FLAGS_DEBUG = 0x02"
definition SGX_FLAGS_PROVISION_KEY_BIT :: u64 where "SGX_FLAGS_PROVISION_KEY_BIT = 0x10"

text \<open>Structures of the SDK, and the fields of a report (\<open>struct sgx_report\<close> of PLE/include/asm/sgx_arch.h).\<close>

abbreviation (input) "sizeof_target_info \<equiv> (512 :: nat)"
abbreviation (input) "sizeof_report \<equiv> (432 :: nat)"

definition report_cpu_svn :: "byte list \<Rightarrow> byte list" where "report_cpu_svn r = take 16 r"
definition report_isv_svn :: "byte list \<Rightarrow> byte list" where "report_isv_svn r = take 2 (drop 258 r)"
definition report_report_data :: "byte list \<Rightarrow> byte list" where "report_report_data r = take 64 (drop 320 r)"
definition report_body :: "byte list \<Rightarrow> byte list" where "report_body r = take 384 r"
definition target_flags :: "byte list \<Rightarrow> u64" where "target_flags t = get64 32 t"

section \<open>The blob\<close>

text \<open>The four plaintext structures differ in the size of the public key only, the ciphertexts in that of the private key.\<close>

record key_plaintext =
  kp_seal_blob_type :: byte
  kp_key_version :: byte
  kp_cert_cpu_svn :: "byte list"
  kp_cert_qe_isv_svn :: "byte list"
  kp_cert_pce_info :: "byte list"
  kp_certification_key_type :: "byte list"
  kp_raw_cpu_svn :: "byte list"
  kp_raw_pce_info :: "byte list"
  kp_signature_scheme :: byte
  kp_pce_target_info :: "byte list"
  kp_qe_report :: "byte list"
  kp_qe_report_cert_key_sig :: "byte list"
  kp_att_public_key :: "byte list"
  kp_key_id :: "byte list"
  kp_seal_cpu_svn :: "byte list"
  kp_seal_qe_isv_svn :: "byte list"
  kp_authentication_data_size :: u32
  kp_authentication_data :: "byte list"
  kp_qe_id :: "byte list"

text \<open>The union is read as the encrypted PPID only.\<close>

record key_ciphertext =
  kc_private_key :: "byte list"
  kc_is_clear_ppid :: byte
  kc_crypto_suite :: byte
  kc_encrypted_ppid_buf_size :: u32
  kc_encrypted_ppid :: "byte list"

definition pub_key_size :: "nat \<Rightarrow> nat" where
  "pub_key_size algorithm_id =
     (if algorithm_id = SGX_QL_ALG_MLDSA_44 then SGX_QL_MLDSA_44_PUB_KEY_SIZE
      else if algorithm_id = SGX_QL_ALG_MLDSA_87 then SGX_QL_MLDSA_87_PUB_KEY_SIZE
      else if algorithm_id = SGX_QL_ALG_MLDSA_65 then SGX_QL_MLDSA_65_PUB_KEY_SIZE
      else 64)"

definition private_key_size :: "nat \<Rightarrow> nat" where
  "private_key_size algorithm_id =
     (if algorithm_id = SGX_QL_ALG_MLDSA_44 then TDQE_MLDSA_44_PRIVATE_KEY_SIZE
      else if algorithm_id = SGX_QL_ALG_MLDSA_87 then TDQE_MLDSA_87_PRIVATE_KEY_SIZE
      else if algorithm_id = SGX_QL_ALG_MLDSA_65 then TDQE_MLDSA_65_PRIVATE_KEY_SIZE
      else 32)"

definition seal_blob_type :: "nat \<Rightarrow> byte" where
  "seal_blob_type algorithm_id =
     (if algorithm_id = SGX_QL_ALG_MLDSA_44 then SGX_QL_SEAL_MLDSA_44_KEY_BLOB
      else if algorithm_id = SGX_QL_ALG_MLDSA_87 then SGX_QL_SEAL_MLDSA_87_KEY_BLOB
      else if algorithm_id = SGX_QL_ALG_MLDSA_65 then SGX_QL_SEAL_MLDSA_65_KEY_BLOB
      else SGX_QL_SEAL_ECDSA_KEY_BLOB)"

definition plaintext_fields :: "nat \<Rightarrow> nat list" where
  "plaintext_fields algorithm_id =
     [1, 1, 16, 2, 4, 4, 16, 4, 1, sizeof_target_info, sizeof_report, 64, pub_key_size algorithm_id, 32, 16, 2, 4,
      REF_ECDSDA_AUTHENTICATION_DATA_SIZE, 16]"

definition ciphertext_fields :: "nat \<Rightarrow> nat list" where
  "ciphertext_fields algorithm_id = [private_key_size algorithm_id, 1, 1, 4, REF_RSA_OAEP_3072_MOD_SIZE]"

definition plaintext_size :: "nat \<Rightarrow> nat" where "plaintext_size algorithm_id = sum_list (plaintext_fields algorithm_id)"
definition ciphertext_size :: "nat \<Rightarrow> nat" where "ciphertext_size algorithm_id = sum_list (ciphertext_fields algorithm_id)"

text \<open>A packed structure cut into its fields.\<close>

fun cut_fields :: "nat list \<Rightarrow> 'a list \<Rightarrow> 'a list list" where
  "cut_fields [] xs = []"
| "cut_fields (n # ns) xs = take n xs # cut_fields ns (drop n xs)"

definition plaintext_parts :: "key_plaintext \<Rightarrow> byte list list" where
  "plaintext_parts p =
     [[kp_seal_blob_type p], [kp_key_version p], kp_cert_cpu_svn p, kp_cert_qe_isv_svn p, kp_cert_pce_info p,
      kp_certification_key_type p, kp_raw_cpu_svn p, kp_raw_pce_info p, [kp_signature_scheme p], kp_pce_target_info p,
      kp_qe_report p, kp_qe_report_cert_key_sig p, kp_att_public_key p, kp_key_id p, kp_seal_cpu_svn p,
      kp_seal_qe_isv_svn p, le32 (kp_authentication_data_size p), kp_authentication_data p, kp_qe_id p]"

definition plaintext_bytes :: "key_plaintext \<Rightarrow> byte list" where "plaintext_bytes p = concat (plaintext_parts p)"

definition plaintext_of :: "nat \<Rightarrow> byte list \<Rightarrow> key_plaintext" where
  "plaintext_of algorithm_id bs =
     (let f = cut_fields (plaintext_fields algorithm_id) bs in
      \<lparr>kp_seal_blob_type = hd (f ! 0), kp_key_version = hd (f ! 1), kp_cert_cpu_svn = f ! 2, kp_cert_qe_isv_svn = f ! 3,
       kp_cert_pce_info = f ! 4, kp_certification_key_type = f ! 5, kp_raw_cpu_svn = f ! 6, kp_raw_pce_info = f ! 7,
       kp_signature_scheme = hd (f ! 8), kp_pce_target_info = f ! 9, kp_qe_report = f ! 10,
       kp_qe_report_cert_key_sig = f ! 11, kp_att_public_key = f ! 12, kp_key_id = f ! 13, kp_seal_cpu_svn = f ! 14,
       kp_seal_qe_isv_svn = f ! 15, kp_authentication_data_size = get32 0 (f ! 16), kp_authentication_data = f ! 17,
       kp_qe_id = f ! 18\<rparr>)"

definition ciphertext_parts :: "key_ciphertext \<Rightarrow> byte list list" where
  "ciphertext_parts c =
     [kc_private_key c, [kc_is_clear_ppid c], [kc_crypto_suite c], le32 (kc_encrypted_ppid_buf_size c), kc_encrypted_ppid c]"

definition ciphertext_bytes :: "key_ciphertext \<Rightarrow> byte list" where "ciphertext_bytes c = concat (ciphertext_parts c)"

definition ciphertext_of :: "nat \<Rightarrow> byte list \<Rightarrow> key_ciphertext" where
  "ciphertext_of algorithm_id bs =
     (let f = cut_fields (ciphertext_fields algorithm_id) bs in
      \<lparr>kc_private_key = f ! 0, kc_is_clear_ppid = hd (f ! 1), kc_crypto_suite = hd (f ! 2),
       kc_encrypted_ppid_buf_size = get32 0 (f ! 3), kc_encrypted_ppid = f ! 4\<rparr>)"

text \<open>The structures after memset, and after bytes were written to their front.\<close>

definition zero_plaintext :: "nat \<Rightarrow> key_plaintext" where
  "zero_plaintext algorithm_id = plaintext_of algorithm_id (replicate (plaintext_size algorithm_id) 0)"

definition zero_ciphertext :: "nat \<Rightarrow> key_ciphertext" where
  "zero_ciphertext algorithm_id = ciphertext_of algorithm_id (replicate (ciphertext_size algorithm_id) 0)"

definition written :: "nat \<Rightarrow> byte list \<Rightarrow> byte list" where "written n bs = take n (bs @ replicate n 0)"

section \<open>The SDK\<close>

text \<open>REPORTMACSTRUCT, with the fields the code reads; the rest is \<open>rm_other\<close>.\<close>

record report2_mac_struct =
  rm_type :: byte
  rm_subtype :: byte
  rm_version :: byte
  rm_tee_tcb_info_hash :: "byte list"
  rm_tee_info_hash :: "byte list"
  rm_report_data :: "byte list"
  rm_other :: "byte list"

datatype tdqe_buffer = Buf_blob | Buf_target | Buf_report | Buf_auth | Buf_key_id | Buf_body | Buf_public_key | Buf_ppid
  | Buf_plaintext | Buf_quote | Buf_td_report | Buf_cert | Buf_nonce | Buf_qe_report | Buf_app_target

text \<open>
  What the SDK does in one command. Reports are counted: the first argument of \<open>ts_create_report\<close> is the number of
  the call. \<open>ts_sha256\<close> stands for the sequence of hash calls, whose failures all end the same way. The fields of
  the key request, the sizes and the lengths are those of sgx_sealed_data_t.
\<close>

record tdqe_sdk = tdqe_env +
  ts_verify_report2 :: "report2_mac_struct \<Rightarrow> int"
  ts_error_feature_not_supported :: int
  ts_error_invalid_parameter :: int
  ts_within_enclave :: "tdqe_buffer \<Rightarrow> bool"
  ts_create_report :: "nat \<Rightarrow> byte list option \<Rightarrow> byte list \<Rightarrow> int \<times> byte list"
  ts_sha256 :: "byte list \<Rightarrow> int \<times> byte list"
  ts_sha384 :: "byte list \<Rightarrow> int \<times> byte list"
  ts_seal :: "byte list \<Rightarrow> byte list \<Rightarrow> nat \<Rightarrow> int \<times> byte list"
  ts_unseal :: "byte list \<Rightarrow> int \<times> byte list \<times> byte list"
  ts_add_mac_len :: "byte list \<Rightarrow> nat"
  ts_encrypt_len :: "byte list \<Rightarrow> nat"
  ts_key_request_cpu_svn :: "byte list \<Rightarrow> byte list"
  ts_key_request_isv_svn :: "byte list \<Rightarrow> byte list"
  ts_sizeof_sealed_data :: nat
  ts_calculate_priv_key :: "byte list \<Rightarrow> byte list \<Rightarrow> int \<times> byte list"
  ts_calculate_pub_key :: "byte list \<Rightarrow> int \<times> byte list \<times> byte list"
  ts_ecc256_open :: int
  ts_ecdsa_sign :: "byte list \<Rightarrow> byte list \<Rightarrow> int \<times> byte list"
  ts_ecdsa_verify :: "byte list \<Rightarrow> byte list \<Rightarrow> byte list \<Rightarrow> int \<times> int"
  ts_ec_valid :: int
  ts_read_rand :: "nat \<Rightarrow> int \<times> byte list"

definition sdk_error :: "tdqe_sdk \<Rightarrow> int \<Rightarrow> int" where
  "sdk_error w sgx_status =
     (if sgx_status = te_error_out_of_memory w then TDQE_ERROR_OUT_OF_MEMORY else TDQE_ERROR_UNEXPECTED)"

definition dummy_report_mac_struct :: report2_mac_struct where
  "dummy_report_mac_struct = \<lparr>rm_type = 0x81, rm_subtype = 0, rm_version = 0, rm_tee_tcb_info_hash = replicate 48 0,
     rm_tee_info_hash = replicate 48 0, rm_report_data = replicate 64 0, rm_other = []\<rparr>"

definition is_verify_report2_available :: "tdqe_sdk \<Rightarrow> bool" where
  "is_verify_report2_available w \<longleftrightarrow> ts_verify_report2 w dummy_report_mac_struct \<noteq> ts_error_feature_not_supported w"

definition get_tdqe_blob_size_for_algorithm :: "tdqe_sdk \<Rightarrow> nat \<Rightarrow> nat" where
  "get_tdqe_blob_size_for_algorithm w algorithm_id =
     ts_sizeof_sealed_data w + ciphertext_size algorithm_id + plaintext_size algorithm_id"

section \<open>The ECDSA key\<close>

text \<open>The macros of user_types.h: the bytes of a 32-bit word, and the words of a 32-byte field.\<close>

definition SWAP_ENDIAN_DW :: "u32 \<Rightarrow> u32" where
  "SWAP_ENDIAN_DW dw = push_bit 24 (dw AND 0x000000ff) OR push_bit 8 (dw AND 0x0000ff00) OR drop_bit 8 (dw AND 0x00ff0000)
     OR drop_bit 24 (dw AND 0xff000000)"

definition SWAP_ENDIAN_32B :: "byte list \<Rightarrow> byte list" where
  "SWAP_ENDIAN_32B p = concat (map (\<lambda>i. le32 (SWAP_ENDIAN_DW (get32 (4 * (7 - i)) p))) [0..<8])"

text \<open>The loop that exchanges bytes with exclusive or, \<open>n\<close> rounds from \<open>i\<close> on.\<close>

fun xor_swap :: "nat \<Rightarrow> nat \<Rightarrow> byte list \<Rightarrow> byte list" where
  "xor_swap 0 i h = h"
| "xor_swap (Suc n) i h =
     (let j = length h - 1 - i; h1 = h[i := h ! i XOR h ! j]; h2 = h1[j := h1 ! j XOR h1 ! i];
          h3 = h2[i := h2 ! i XOR h2 ! j] in xor_swap n (i + 1) h3)"

definition g_sgx_nistp256_r_m1 :: "u32 list" where
  "g_sgx_nistp256_r_m1 = [0xFC632550, 0xF3B9CAC2, 0xA7179E84, 0xBCE6FAAD, 0xFFFFFFFF, 0xFFFFFFFF, 0x00000000, 0xFFFFFFFF]"

text \<open>Status, private key (little endian), public key (both coordinates big endian). The seed is derived as for ML-DSA.\<close>

definition get_att_key_based_from_seal_key :: "tdqe_sdk \<Rightarrow> byte list \<Rightarrow> int \<times> byte list \<times> byte list" where
  "get_att_key_based_from_seal_key w p_req_key_id =
     (let failed = (\<lambda>ret. (ret, replicate 32 0, replicate 64 0)) in
      case seal_seed (tdqe_env.truncate w) p_req_key_id of Inl ret \<Rightarrow> failed ret
      | Inr hash_drg_output \<Rightarrow>
          (case ts_calculate_priv_key w (xor_swap (HASH_DRBG_OUT_LEN div 2) 0 hash_drg_output)
              (concat (map le32 g_sgx_nistp256_r_m1)) of (status, priv) \<Rightarrow>
             if status \<noteq> 0 then failed TDQE_ERROR_CRYPTO
             else (case ts_calculate_pub_key w priv of (status, gx, gy) \<Rightarrow>
                     if status \<noteq> 0 then failed TDQE_ERROR_CRYPTO
                     else (TDQE_SUCCESS, priv, SWAP_ENDIAN_32B gx @ SWAP_ENDIAN_32B gy))))"

section \<open>gen_att_key\<close>

text \<open>
  The three branches per parameter set, which differ in their structures only. The result: status, blob, report, and
  what the local buffer of the private key holds at the return; the last one is wiped after sgx_seal_data only.
\<close>

definition gen_att_key_mldsa_impl ::
  "tdqe_sdk \<Rightarrow> byte list \<Rightarrow> nat \<Rightarrow> nat \<Rightarrow> byte list \<Rightarrow> byte list \<Rightarrow> byte list option \<Rightarrow> nat
     \<Rightarrow> int \<times> byte list \<times> byte list \<times> byte list" where
  "gen_att_key_mldsa_impl w p_blob blob_size algorithm_id p_pce_target_info p_tdqe_report p_authentication_data
     authentication_data_size =
     (let plaintext_data = (zero_plaintext algorithm_id)\<lparr>kp_authentication_data_size := word_of_nat authentication_data_size\<rparr>;
          plaintext_data1 = (case p_authentication_data of None \<Rightarrow> plaintext_data
            | Some d \<Rightarrow> plaintext_data\<lparr>kp_authentication_data := written REF_ECDSDA_AUTHENTICATION_DATA_SIZE d\<rparr>) in
      case get_att_key_based_from_seal_key_mldsa (tdqe_env.truncate w) algorithm_id
          (Some (kp_att_public_key plaintext_data1)) (Some (kc_private_key (zero_ciphertext algorithm_id)))
          (Some (replicate 32 0)) of (ret, pk, sk) \<Rightarrow>
        if ret \<noteq> TDQE_SUCCESS then (ret, p_blob, p_tdqe_report, obj sk)
        else (case ts_sha256 w (obj pk @ kp_authentication_data plaintext_data1) of (sgx_status, mldsa_id) \<Rightarrow>
          if sgx_status \<noteq> 0 then (TDQE_ERROR_UNEXPECTED, p_blob, p_tdqe_report, obj sk)
          else (case ts_create_report w 0 (Some p_pce_target_info) (mldsa_id @ replicate 32 0) of (sgx_status, report) \<Rightarrow>
            if sgx_status \<noteq> 0 then (sdk_error w sgx_status, p_blob, report, obj sk)
            else (case ts_seal w
                (plaintext_bytes (plaintext_data1\<lparr>kp_att_public_key := obj pk, kp_key_id := mldsa_id,
                   kp_seal_blob_type := seal_blob_type algorithm_id, kp_key_version := KEY_BLOB_VERSION_0\<rparr>))
                (ciphertext_bytes ((zero_ciphertext algorithm_id)\<lparr>kc_private_key := obj sk\<rparr>)) blob_size of
                (sgx_status, blob) \<Rightarrow>
              (if sgx_status \<noteq> 0 then TDQE_ERROR_UNEXPECTED else TDQE_SUCCESS, blob, report,
               replicate (private_key_size algorithm_id) 0)))))"

definition gen_att_key_ecdsa_impl ::
  "tdqe_sdk \<Rightarrow> byte list \<Rightarrow> nat \<Rightarrow> byte list \<Rightarrow> byte list \<Rightarrow> byte list option \<Rightarrow> nat \<Rightarrow> int \<times> byte list \<times> byte list" where
  "gen_att_key_ecdsa_impl w p_blob blob_size p_pce_target_info p_tdqe_report p_authentication_data
     authentication_data_size =
     (let alg = SGX_QL_ALG_ECDSA_P256;
          plaintext_data = (zero_plaintext alg)
            \<lparr>kp_authentication_data_size := ucast (word_of_nat authentication_data_size :: u16)\<rparr>;
          plaintext_data1 = (case p_authentication_data of None \<Rightarrow> plaintext_data
            | Some d \<Rightarrow> plaintext_data\<lparr>kp_authentication_data := written REF_ECDSDA_AUTHENTICATION_DATA_SIZE d\<rparr>) in
      case get_att_key_based_from_seal_key w (replicate 32 0) of (ret, priv, pub) \<Rightarrow>
        if ret \<noteq> TDQE_SUCCESS
        then (if ret = TDQE_ERROR_CRYPTO then TDQE_ERROR_ATT_KEY_GEN else ret, p_blob, p_tdqe_report)
        else (case ts_sha256 w (pub @ kp_authentication_data plaintext_data1) of (sgx_status, ecdsa_id) \<Rightarrow>
          if sgx_status \<noteq> 0 then (TDQE_ERROR_UNEXPECTED, p_blob, p_tdqe_report)
          else (case ts_create_report w 0 (Some p_pce_target_info) (ecdsa_id @ replicate 32 0) of (sgx_status, report) \<Rightarrow>
            if sgx_status \<noteq> 0 then (sdk_error w sgx_status, p_blob, report)
            else (case ts_seal w
                (plaintext_bytes (plaintext_data1\<lparr>kp_att_public_key := pub, kp_key_id := ecdsa_id,
                   kp_seal_blob_type := SGX_QL_SEAL_ECDSA_KEY_BLOB, kp_key_version := KEY_BLOB_VERSION_0\<rparr>))
                (ciphertext_bytes ((zero_ciphertext alg)\<lparr>kc_private_key := priv\<rparr>)) blob_size of (sgx_status, blob) \<Rightarrow>
              (if sgx_status \<noteq> 0 then TDQE_ERROR_UNEXPECTED else TDQE_SUCCESS, blob, report)))))"

text \<open>The PCE has the provisioning key and is not a debug enclave.\<close>

definition pce_target_accepted :: "byte list \<Rightarrow> bool" where
  "pce_target_accepted t \<longleftrightarrow>
     target_flags t AND SGX_FLAGS_PROVISION_KEY_BIT = SGX_FLAGS_PROVISION_KEY_BIT \<and> target_flags t AND SGX_FLAGS_DEBUG = 0"

definition gen_att_key ::
  "tdqe_sdk \<Rightarrow> byte list option \<Rightarrow> nat \<Rightarrow> nat \<Rightarrow> byte list option \<Rightarrow> byte list option \<Rightarrow> byte list option \<Rightarrow> nat
     \<Rightarrow> int \<times> byte list \<times> byte list" where
  "gen_att_key w p_blob blob_size algorithm_id p_pce_target_info p_tdqe_report p_authentication_data
     authentication_data_size =
     (let refused = (\<lambda>ret. (ret, obj p_blob, obj p_tdqe_report)) in
      if \<not> is_verify_report2_available w then refused TDQE_ERROR_INVALID_PLATFORM
      else case (p_blob, p_pce_target_info, p_tdqe_report) of
        (Some blob, Some target, Some report) \<Rightarrow>
          if \<not> is_supported_att_key_algorithm algorithm_id then refused TDQE_ERROR_UNSUPPORTED_ATT_KEY_ID
          else if get_tdqe_blob_size_for_algorithm w algorithm_id \<noteq> blob_size then refused TDQE_ERROR_INVALID_PARAMETER
          else if \<not> ts_within_enclave w Buf_blob \<or> \<not> ts_within_enclave w Buf_target \<or> \<not> ts_within_enclave w Buf_report
          then refused TDQE_ERROR_INVALID_PARAMETER
          else if \<not> pce_target_accepted target then refused TDQE_ERROR_INVALID_PARAMETER
          else if (authentication_data_size \<noteq> 0) \<noteq> (p_authentication_data \<noteq> None) then refused TDQE_ERROR_INVALID_PARAMETER
          else if p_authentication_data \<noteq> None \<and> (\<not> ts_within_enclave w Buf_auth
            \<or> authentication_data_size \<noteq> REF_ECDSDA_AUTHENTICATION_DATA_SIZE) then refused TDQE_ERROR_INVALID_PARAMETER
          else if authentication_data_size > 0xFFFF then refused TDQE_ERROR_INVALID_PARAMETER
          else if algorithm_id = SGX_QL_ALG_ECDSA_P256
          then gen_att_key_ecdsa_impl w blob blob_size target report p_authentication_data authentication_data_size
          else (case gen_att_key_mldsa_impl w blob blob_size algorithm_id target report p_authentication_data
                  authentication_data_size of (ret, blob', report', _) \<Rightarrow> (ret, blob', report'))
      | _ \<Rightarrow> refused TDQE_ERROR_INVALID_PARAMETER)"

section \<open>verify_blob\<close>

text \<open>
  The key id, if the unsealed plaintext has the type, version and sizes of the algorithm. The branches come in the
  order ECDSA, ML-DSA-65, 44, 87; a plaintext is in the branch of its first byte.
\<close>

definition blob_branch :: "tdqe_sdk \<Rightarrow> nat \<Rightarrow> nat \<Rightarrow> byte list \<Rightarrow> nat \<Rightarrow> byte list option" where
  "blob_branch w algorithm_id blob_size plaintext decryptedtext_length =
     (if blob_size \<noteq> get_tdqe_blob_size_for_algorithm w algorithm_id
        \<or> decryptedtext_length \<noteq> ciphertext_size algorithm_id \<or> length plaintext \<noteq> plaintext_size algorithm_id
        \<or> kp_key_version (plaintext_of algorithm_id plaintext) \<noteq> KEY_BLOB_VERSION_0 then None
      else Some (kp_key_id (plaintext_of algorithm_id plaintext)))"

definition in_branch :: "nat \<Rightarrow> byte list \<Rightarrow> bool" where
  "in_branch algorithm_id plaintext \<longleftrightarrow>
     length plaintext \<ge> plaintext_size algorithm_id \<and> hd plaintext = seal_blob_type algorithm_id"

definition checked_key_id :: "tdqe_sdk \<Rightarrow> nat \<Rightarrow> byte list \<Rightarrow> nat \<Rightarrow> byte list option" where
  "checked_key_id w blob_size plaintext decryptedtext_length =
     (let branch = (\<lambda>a. blob_branch w a blob_size plaintext decryptedtext_length) in
      if in_branch SGX_QL_ALG_ECDSA_P256 plaintext then branch SGX_QL_ALG_ECDSA_P256
      else if in_branch SGX_QL_ALG_MLDSA_65 plaintext then branch SGX_QL_ALG_MLDSA_65
      else if in_branch SGX_QL_ALG_MLDSA_44 plaintext then branch SGX_QL_ALG_MLDSA_44
      else if in_branch SGX_QL_ALG_MLDSA_87 plaintext then branch SGX_QL_ALG_MLDSA_87
      else None)"

definition is_blob_size :: "tdqe_sdk \<Rightarrow> nat \<Rightarrow> bool" where
  "is_blob_size w blob_size \<longleftrightarrow>
     blob_size = get_tdqe_blob_size_for_algorithm w SGX_QL_ALG_ECDSA_P256
     \<or> blob_size = get_tdqe_blob_size_for_algorithm w SGX_QL_ALG_MLDSA_44
     \<or> blob_size = get_tdqe_blob_size_for_algorithm w SGX_QL_ALG_MLDSA_65
     \<or> blob_size = get_tdqe_blob_size_for_algorithm w SGX_QL_ALG_MLDSA_87"

text \<open>The platform's TCB is not the one the blob was sealed under.\<close>

definition tcb_changed :: "tdqe_sdk \<Rightarrow> byte list \<Rightarrow> byte list \<Rightarrow> bool" where
  "tcb_changed w report blob \<longleftrightarrow>
     report_cpu_svn report \<noteq> ts_key_request_cpu_svn w blob \<or> report_isv_svn report \<noteq> ts_key_request_isv_svn w blob"

text \<open>What a verification writes: the blob, the flag, the report body and the key id (\<open>None\<close> when it leaves them).\<close>

record blob_check =
  bk_ret :: int
  bk_blob :: "byte list"
  bk_is_resealed :: "bool option"
  bk_report_body :: "byte list option"
  bk_key_id :: "byte list option"

definition verify_blob_any_internal ::
  "tdqe_sdk \<Rightarrow> byte list option \<Rightarrow> nat \<Rightarrow> bool \<Rightarrow> bool \<Rightarrow> bool \<Rightarrow> nat \<Rightarrow> blob_check" where
  "verify_blob_any_internal w p_blob blob_size has_is_resealed has_report_body has_pub_key_id pub_key_id_size =
     (let refused = (\<lambda>ret. \<lparr>bk_ret = ret, bk_blob = obj p_blob, bk_is_resealed = None, bk_report_body = None,
            bk_key_id = None\<rparr>) in
      if p_blob = None \<or> \<not> has_is_resealed then refused TDQE_ERROR_INVALID_PARAMETER
      else if \<not> is_blob_size w blob_size then refused TDQE_ECDSABLOB_ERROR
      else if has_pub_key_id \<and> pub_key_id_size < 32 then refused TDQE_ERROR_INVALID_PARAMETER
      else
        let blob = obj p_blob in
        if ts_add_mac_len w blob > plaintext_size SGX_QL_ALG_MLDSA_87
          \<or> ts_encrypt_len w blob > ciphertext_size SGX_QL_ALG_MLDSA_87 then refused TDQE_ECDSABLOB_ERROR
        else (case ts_unseal w blob of (sgx_status, plaintext, ciphertext) \<Rightarrow>
          if sgx_status \<noteq> 0 then refused TDQE_ECDSABLOB_ERROR
          else (case checked_key_id w blob_size plaintext (length ciphertext) of None \<Rightarrow> refused TDQE_ECDSABLOB_ERROR
          | Some key_id \<Rightarrow>
              let with_id = (\<lambda>ret. (refused ret)\<lparr>bk_key_id := (if has_pub_key_id then Some key_id else None)\<rparr>) in
              (case ts_create_report w 0 None (replicate 64 0) of (sgx_status, report) \<Rightarrow>
                 if sgx_status \<noteq> 0 then with_id (sdk_error w sgx_status)
                 else
                   let with_body = (\<lambda>ret. (with_id ret)\<lparr>bk_report_body :=
                         (if has_report_body then Some (report_body report) else None)\<rparr>) in
                   if tcb_changed w report blob
                   then (case ts_seal w plaintext ciphertext blob_size of (sgx_status, local_blob) \<Rightarrow>
                           if sgx_status \<noteq> 0 then with_body (sdk_error w sgx_status)
                           else (with_body TDQE_SUCCESS)\<lparr>bk_blob := take blob_size local_blob, bk_is_resealed := Some True\<rparr>)
                   else (with_body TDQE_SUCCESS)\<lparr>bk_is_resealed := Some False\<rparr>))))"

definition verify_blob ::
  "tdqe_sdk \<Rightarrow> byte list option \<Rightarrow> nat \<Rightarrow> bool \<Rightarrow> bool \<Rightarrow> nat \<Rightarrow> bool \<Rightarrow> blob_check" where
  "verify_blob w p_blob blob_size has_is_resealed has_report_body pub_key_id_size has_pub_key_id =
     (let refused = (\<lambda>ret. \<lparr>bk_ret = ret, bk_blob = obj p_blob, bk_is_resealed = None, bk_report_body = None,
            bk_key_id = None\<rparr>) in
      if \<not> is_verify_report2_available w then refused TDQE_ERROR_INVALID_PLATFORM
      else if p_blob = None \<or> \<not> has_is_resealed then refused TDQE_ERROR_INVALID_PARAMETER
      else if \<not> is_blob_size w blob_size then refused TDQE_ERROR_INVALID_PARAMETER
      else if \<not> ts_within_enclave w Buf_blob then refused TDQE_ERROR_INVALID_PARAMETER
      else if (pub_key_id_size \<noteq> 0 \<and> \<not> has_pub_key_id) \<or> (pub_key_id_size = 0 \<and> has_pub_key_id)
      then refused TDQE_ERROR_INVALID_PARAMETER
      else if has_pub_key_id \<and> (pub_key_id_size < 32 \<or> \<not> ts_within_enclave w Buf_key_id)
      then refused TDQE_ERROR_INVALID_PARAMETER
      else if has_report_body \<and> \<not> ts_within_enclave w Buf_body then refused TDQE_ERROR_INVALID_PARAMETER
      else verify_blob_any_internal w p_blob blob_size has_is_resealed has_report_body has_pub_key_id pub_key_id_size)"

section \<open>store_cert_data\<close>

text \<open>
  The check before certification and quoting: status, blob, whether it was resealed, and the contents. The branches
  of the code differ in their structures only; \<open>None\<close> is a failure, after which nobody reads the buffers.
\<close>

definition verify_blob_data_any_internal ::
  "tdqe_sdk \<Rightarrow> byte list option \<Rightarrow> nat \<Rightarrow> nat
     \<Rightarrow> int \<times> byte list \<times> bool option \<times> (key_plaintext \<times> key_ciphertext) option" where
  "verify_blob_data_any_internal w p_blob blob_size algorithm_id =
     (let blob = obj p_blob; refused = (\<lambda>ret. (ret, blob, None, None)) in
      if p_blob = None \<or> \<not> is_supported_att_key_algorithm algorithm_id then refused TDQE_ERROR_INVALID_PARAMETER
      else if blob_size \<noteq> get_tdqe_blob_size_for_algorithm w algorithm_id then refused TDQE_ECDSABLOB_ERROR
      else if ts_add_mac_len w blob \<noteq> plaintext_size algorithm_id \<or> ts_encrypt_len w blob \<noteq> ciphertext_size algorithm_id
      then refused TDQE_ECDSABLOB_ERROR
      else (case ts_unseal w blob of (sgx_status, pt, ct) \<Rightarrow>
        if sgx_status \<noteq> 0 then refused TDQE_ECDSABLOB_ERROR
        else
          let plaintext = plaintext_of algorithm_id (written (plaintext_size algorithm_id) pt);
              secret = ciphertext_of algorithm_id (written (ciphertext_size algorithm_id) ct) in
          if kp_seal_blob_type plaintext \<noteq> seal_blob_type algorithm_id \<or> kp_key_version plaintext \<noteq> KEY_BLOB_VERSION_0
          then refused TDQE_ECDSABLOB_ERROR
          else (case ts_create_report w 0 None (replicate 64 0) of (sgx_status, report) \<Rightarrow>
            if sgx_status \<noteq> 0 then refused (sdk_error w sgx_status)
            else if tcb_changed w report blob
            then (case ts_seal w (plaintext_bytes plaintext) (ciphertext_bytes secret) blob_size of (sgx_status, local_blob) \<Rightarrow>
                    if sgx_status \<noteq> 0 then refused (sdk_error w sgx_status)
                    else (TDQE_SUCCESS, take blob_size local_blob, Some True, Some (plaintext, secret)))
            else (TDQE_SUCCESS, blob, Some False, Some (plaintext, secret)))))"

text \<open>The copies into the unsealed structures.\<close>

definition certified :: "byte list \<Rightarrow> key_plaintext \<Rightarrow> key_plaintext \<Rightarrow> key_plaintext" where
  "certified report input p = p\<lparr>kp_seal_cpu_svn := report_cpu_svn report, kp_seal_qe_isv_svn := report_isv_svn report,
     kp_cert_qe_isv_svn := report_isv_svn report, kp_cert_cpu_svn := kp_cert_cpu_svn input,
     kp_cert_pce_info := kp_cert_pce_info input, kp_signature_scheme := kp_signature_scheme input,
     kp_qe_report := kp_qe_report input, kp_qe_report_cert_key_sig := kp_qe_report_cert_key_sig input,
     kp_certification_key_type := kp_certification_key_type input, kp_pce_target_info := kp_pce_target_info input,
     kp_raw_cpu_svn := kp_raw_cpu_svn input, kp_raw_pce_info := kp_raw_pce_info input, kp_qe_id := kp_qe_id input\<rparr>"

definition with_ppid :: "byte list option \<Rightarrow> nat \<Rightarrow> key_ciphertext \<Rightarrow> key_ciphertext" where
  "with_ppid p_encrypted_ppid encrypted_ppid_size c =
     (case p_encrypted_ppid of None \<Rightarrow> c
      | Some ppid \<Rightarrow> c\<lparr>kc_is_clear_ppid := 0, kc_crypto_suite := PCE_ALG_RSA_OAEP_3072,
          kc_encrypted_ppid_buf_size := word_of_nat encrypted_ppid_size,
          kc_encrypted_ppid := written encrypted_ppid_size ppid @ drop encrypted_ppid_size (kc_encrypted_ppid c)\<rparr>)"

definition algorithm_of_blob_size :: "tdqe_sdk \<Rightarrow> nat \<Rightarrow> nat" where
  "algorithm_of_blob_size w blob_size =
     (if blob_size = get_tdqe_blob_size_for_algorithm w SGX_QL_ALG_ECDSA_P256 then SGX_QL_ALG_ECDSA_P256
      else if blob_size = get_tdqe_blob_size_for_algorithm w SGX_QL_ALG_MLDSA_44 then SGX_QL_ALG_MLDSA_44
      else if blob_size = get_tdqe_blob_size_for_algorithm w SGX_QL_ALG_MLDSA_65 then SGX_QL_ALG_MLDSA_65
      else SGX_QL_ALG_MLDSA_87)"

definition store_cert_data ::
  "tdqe_sdk \<Rightarrow> byte list option \<Rightarrow> nat \<Rightarrow> nat \<Rightarrow> byte list option \<Rightarrow> nat \<Rightarrow> byte list option \<Rightarrow> nat \<Rightarrow> int \<times> byte list" where
  "store_cert_data w p_plaintext_data plaintext_data_size cert_key_type p_encrypted_ppid encrypted_ppid_size p_blob
     blob_size =
     (let refused = (\<lambda>ret. (ret, obj p_blob)); algorithm_id = algorithm_of_blob_size w blob_size in
      if \<not> is_verify_report2_available w then refused TDQE_ERROR_INVALID_PLATFORM
      else if p_blob = None \<or> p_plaintext_data = None then refused TDQE_ERROR_INVALID_PARAMETER
      else if \<not> is_blob_size w blob_size \<or> \<not> ts_within_enclave w Buf_blob then refused TDQE_ERROR_INVALID_PARAMETER
      else if p_encrypted_ppid \<noteq> None \<and>
        (\<not> ts_within_enclave w Buf_ppid \<or> encrypted_ppid_size \<noteq> REF_RSA_OAEP_3072_MOD_SIZE)
      then refused TDQE_ERROR_INVALID_PARAMETER
      else if \<not> ts_within_enclave w Buf_plaintext then refused TDQE_ERROR_INVALID_PARAMETER
      else if cert_key_type \<noteq> PPID_RSA3072_ENCRYPTED then refused TDQE_ERROR_INVALID_PARAMETER
      else if plaintext_data_size \<noteq> plaintext_size algorithm_id then refused TDQE_ERROR_INVALID_PARAMETER
      else
        let input = plaintext_of algorithm_id (written (plaintext_size algorithm_id) (obj p_plaintext_data)) in
        (case verify_blob_data_any_internal w p_blob blob_size algorithm_id of
           (ret, blob, is_resealed, Some (plaintext, secret)) \<Rightarrow>
             if kp_key_id plaintext \<noteq> take 32 (report_report_data (kp_qe_report input))
             then (TDQE_ERROR_INVALID_PARAMETER, blob)
             else (case ts_create_report w 1 None (replicate 64 0) of (sgx_status, report) \<Rightarrow>
               if sgx_status \<noteq> 0 then (sdk_error w sgx_status, blob)
               else (case ts_seal w (plaintext_bytes (certified report input plaintext))
                       (ciphertext_bytes (with_ppid p_encrypted_ppid encrypted_ppid_size secret)) blob_size of
                       (sgx_status, sealed) \<Rightarrow> (if sgx_status \<noteq> 0 then TDQE_ERROR_UNEXPECTED else TDQE_SUCCESS, sealed)))
         | (ret, blob, is_resealed, None) \<Rightarrow> (ret, blob)))"

section \<open>get_pce_encrypt_key\<close>

definition g_ref_pubkey_e_be :: "byte list" where "g_ref_pubkey_e_be = [0x00, 0x01, 0x00, 0x01]"

definition g_ref_pubkey_n_be :: "byte list" where
  "g_ref_pubkey_n_be =
     [0xd3, 0x96, 0xf9, 0x43, 0x43, 0x11, 0x00, 0x1c, 0x69, 0x44, 0x9c, 0x3b, 0xfd, 0xee, 0x8f, 0x38, 0xcd, 0x95, 0xcd, 0xad,
      0x74, 0x09, 0x7c, 0x87, 0xf1, 0xa7, 0x65, 0x02, 0x4c, 0x87, 0xc1, 0x57, 0x30, 0xa5, 0xc9, 0xa6, 0xa4, 0xcc, 0xf9, 0x1d,
      0x62, 0x18, 0x1e, 0x00, 0xa6, 0x74, 0x27, 0x58, 0x59, 0xca, 0x1b, 0x1d, 0xf5, 0x31, 0x0e, 0xf2, 0xd5, 0xe1, 0x79, 0x37,
      0x39, 0x94, 0x3d, 0x3d, 0xe2, 0x50, 0x93, 0x12, 0xd6, 0x03, 0xe5, 0x19, 0x3a, 0x48, 0xf0, 0xae, 0x0c, 0x37, 0xee, 0xe0,
      0x57, 0x27, 0xbd, 0xec, 0x17, 0x1b, 0x0f, 0x39, 0x86, 0x06, 0x54, 0x20, 0x74, 0x84, 0x34, 0xbe, 0x34, 0xfa, 0x71, 0x6f,
      0xa1, 0xf5, 0x4c, 0x9a, 0x52, 0x0f, 0xc4, 0xbc, 0x2d, 0x7a, 0x2e, 0x17, 0xe3, 0x5d, 0xa2, 0x0e, 0xca, 0x39, 0x07, 0x98,
      0xa9, 0x05, 0x1a, 0x34, 0xfb, 0x8f, 0x60, 0x9c, 0x3a, 0x1e, 0x26, 0x30, 0x0b, 0xf3, 0xf3, 0x49, 0x40, 0xd9, 0xf7, 0x5d,
      0xcb, 0xd1, 0xbf, 0x57, 0x8d, 0xe5, 0x2d, 0xce, 0x98, 0x57, 0x35, 0xf1, 0x93, 0xc3, 0x19, 0x2e, 0x80, 0x55, 0x37, 0xab,
      0x8d, 0x64, 0x08, 0xda, 0xe6, 0xdd, 0x64, 0xb4, 0x62, 0x83, 0x8d, 0x43, 0xaa, 0xd2, 0x7b, 0xc2, 0x63, 0xaa, 0x97, 0xde,
      0xed, 0x09, 0x92, 0xd6, 0x88, 0x56, 0x86, 0xcd, 0x08, 0x23, 0x03, 0x27, 0x9a, 0x78, 0x7c, 0xf4, 0x36, 0x12, 0xf5, 0xb1,
      0xe6, 0x1d, 0x54, 0xab, 0x88, 0x69, 0xff, 0x18, 0x4f, 0xdc, 0x87, 0xee, 0x34, 0xa6, 0x68, 0xb1, 0x81, 0x67, 0xb6, 0xce,
      0x0a, 0x70, 0x14, 0xbc, 0xb3, 0xe1, 0x8d, 0x76, 0x1c, 0x73, 0xde, 0x00, 0xab, 0x41, 0xca, 0x40, 0x51, 0x53, 0x63, 0x04,
      0xc3, 0x63, 0x0b, 0xca, 0x62, 0xda, 0xaa, 0x9c, 0xe5, 0x01, 0xb7, 0xc0, 0x0f, 0x7e, 0x0b, 0xb0, 0xbe, 0xe9, 0xf8, 0x0d,
      0xb3, 0xb6, 0x64, 0xfd, 0xcd, 0x95, 0x17, 0x9c, 0x57, 0x8e, 0xec, 0xc4, 0xac, 0x8b, 0x36, 0x01, 0x5e, 0x4c, 0x6d, 0x1e,
      0x21, 0x49, 0xa0, 0x1d, 0xde, 0x04, 0x39, 0x6b, 0x34, 0x68, 0x44, 0xea, 0x06, 0x76, 0xe0, 0x8d, 0x1f, 0xa2, 0xc0, 0x26,
      0x05, 0xcc, 0x91, 0xbe, 0xa3, 0x17, 0xc8, 0x75, 0x46, 0x85, 0x10, 0x39, 0x16, 0x50, 0x8e, 0x02, 0x43, 0x98, 0x31, 0x70,
      0x69, 0xd8, 0x34, 0x71, 0x82, 0xe7, 0x48, 0x26, 0xcd, 0xc1, 0x82, 0xd3, 0xeb, 0x6f, 0xe9, 0x58, 0xe7, 0x06, 0x77, 0x10,
      0x1f, 0xdf, 0x49, 0x76, 0x30, 0xa7, 0x68, 0x42, 0xb0, 0x16, 0xd7, 0xda, 0x92, 0x75, 0xd5, 0x7f, 0x2e, 0x75, 0x43, 0xac,
      0x83, 0xb0, 0x1f, 0xc3, 0x90, 0x19, 0xce, 0xaa, 0x94, 0xd0, 0x2e, 0x5a, 0x6c, 0x13, 0x72, 0xe7, 0xa6, 0xb5, 0xc0, 0x45,
      0x81, 0xe3, 0x53, 0x27]"

text \<open>Status, report, public key.\<close>

definition get_pce_encrypt_key ::
  "tdqe_sdk \<Rightarrow> byte list option \<Rightarrow> byte list option \<Rightarrow> byte \<Rightarrow> nat \<Rightarrow> nat \<Rightarrow> byte list option
     \<Rightarrow> int \<times> byte list \<times> byte list" where
  "get_pce_encrypt_key w p_pce_target_info p_tdqe_report crypto_suite cert_key_type key_size p_public_key =
     (let refused = (TDQE_ERROR_INVALID_PARAMETER, obj p_tdqe_report, obj p_public_key) in
      if \<not> is_verify_report2_available w then (TDQE_ERROR_INVALID_PLATFORM, obj p_tdqe_report, obj p_public_key)
      else if p_pce_target_info = None \<or> \<not> ts_within_enclave w Buf_target then refused
      else if p_public_key = None \<or> \<not> ts_within_enclave w Buf_public_key then refused
      else if p_tdqe_report = None \<or> \<not> ts_within_enclave w Buf_report then refused
      else if crypto_suite \<noteq> PCE_ALG_RSA_OAEP_3072 then refused
      else if key_size \<noteq> REF_RSA_OAEP_3072_MOD_SIZE + REF_RSA_OAEP_3072_EXP_SIZE then refused
      else if cert_key_type \<noteq> PPID_RSA3072_ENCRYPTED then refused
      else if \<not> pce_target_accepted (obj p_pce_target_info) then refused
      else
        let key = g_ref_pubkey_n_be @ g_ref_pubkey_e_be; cleared = replicate sizeof_report 0 in
        (case ts_sha256 w ([crypto_suite] @ g_ref_pubkey_n_be @ g_ref_pubkey_e_be) of (sgx_status, hash) \<Rightarrow>
           if sgx_status \<noteq> 0 then (TDQE_ERROR_UNEXPECTED, cleared, key)
           else (case ts_create_report w 0 p_pce_target_info (hash @ replicate 32 0) of (sgx_status, report) \<Rightarrow>
             if sgx_status \<noteq> 0 then (sdk_error w sgx_status, cleared, key) else (TDQE_SUCCESS, report, key))))"

end
