(* ===== verification/Tdqe_Quote.thy ===== *)
theory Tdqe_Quote
  imports Tdqe_Blob
begin

text \<open>
  The quotes of the TD quoting enclave (quoting_enclave_tdqe.cpp): the choice of the quote version, the quote body, and
  gen_quote. The structures are those of sgx_quote_4.h, sgx_quote_5.h and sgx_quote_3.h.
\<close>

section \<open>The TD report\<close>

record sgx_report2 =
  r2_mac :: report2_mac_struct
  r2_tee_tcb_info :: "byte list"                        \<comment> \<open>239 bytes\<close>
  r2_tee_info :: "byte list"                            \<comment> \<open>512 bytes\<close>

definition field_at :: "nat \<Rightarrow> nat \<Rightarrow> byte list \<Rightarrow> byte list" where "field_at off n bs = take n (drop off bs)"

definition TD_INFO_RESERVED_BYTES_V1 :: nat where "TD_INFO_RESERVED_BYTES_V1 = 112"
definition TD_INFO_RESERVED_BYTES_V1_5 :: nat where "TD_INFO_RESERVED_BYTES_V1_5 = 64"
definition TD_INFO_RESERVED_BYTES_V1_5_EX :: nat where "TD_INFO_RESERVED_BYTES_V1_5_EX = 24"

text \<open>tee_tcb_info_v1_5_t\<close>

definition tcb_valid :: "sgx_report2 \<Rightarrow> byte list" where "tcb_valid r = field_at 0 8 (r2_tee_tcb_info r)"
definition tcb_tee_tcb_svn :: "sgx_report2 \<Rightarrow> byte list" where "tcb_tee_tcb_svn r = field_at 8 16 (r2_tee_tcb_info r)"
definition tcb_mr_seam :: "sgx_report2 \<Rightarrow> byte list" where "tcb_mr_seam r = field_at 24 48 (r2_tee_tcb_info r)"
definition tcb_tee_tcb_svn2 :: "sgx_report2 \<Rightarrow> byte list" where "tcb_tee_tcb_svn2 r = field_at 128 16 (r2_tee_tcb_info r)"

text \<open>tee_info_t, tee_info_v1_5_t and tee_info_v1_5_ex_t\<close>

definition ti_attributes :: "sgx_report2 \<Rightarrow> byte list" where "ti_attributes r = field_at 0 8 (r2_tee_info r)"
definition ti_xfam :: "sgx_report2 \<Rightarrow> byte list" where "ti_xfam r = field_at 8 8 (r2_tee_info r)"
definition ti_mr_td :: "sgx_report2 \<Rightarrow> byte list" where "ti_mr_td r = field_at 16 48 (r2_tee_info r)"
definition ti_mr_config_id :: "sgx_report2 \<Rightarrow> byte list" where "ti_mr_config_id r = field_at 64 48 (r2_tee_info r)"
definition ti_mr_owner :: "sgx_report2 \<Rightarrow> byte list" where "ti_mr_owner r = field_at 112 48 (r2_tee_info r)"
definition ti_mr_owner_config :: "sgx_report2 \<Rightarrow> byte list" where "ti_mr_owner_config r = field_at 160 48 (r2_tee_info r)"
definition ti_rt_mr :: "sgx_report2 \<Rightarrow> byte list" where "ti_rt_mr r = field_at 208 192 (r2_tee_info r)"
definition ti_reserved_v1 :: "sgx_report2 \<Rightarrow> byte list" where
  "ti_reserved_v1 r = field_at 400 TD_INFO_RESERVED_BYTES_V1 (r2_tee_info r)"
definition ti_mr_servicetd :: "sgx_report2 \<Rightarrow> byte list" where "ti_mr_servicetd r = field_at 400 48 (r2_tee_info r)"
definition ti_reserved_v1_5 :: "sgx_report2 \<Rightarrow> byte list" where
  "ti_reserved_v1_5 r = field_at 448 TD_INFO_RESERVED_BYTES_V1_5 (r2_tee_info r)"
definition ti_td_id :: "sgx_report2 \<Rightarrow> byte list" where "ti_td_id r = field_at 448 32 (r2_tee_info r)"
definition ti_reserved_v1_5_ex :: "sgx_report2 \<Rightarrow> byte list" where
  "ti_reserved_v1_5_ex r = field_at 480 TD_INFO_RESERVED_BYTES_V1_5_EX (r2_tee_info r)"
definition ti_vmid :: "sgx_report2 \<Rightarrow> byte list" where "ti_vmid r = field_at 504 1 (r2_tee_info r)"
definition ti_valid :: "sgx_report2 \<Rightarrow> u32" where "ti_valid r = get32 508 (r2_tee_info r)"

definition critical_reserved :: u32 where "critical_reserved = 0x000000FF AND NOT 0x00000001"
definition td_id_bit :: u32 where "td_id_bit = 0x00000100"
definition vm_id_bit :: u32 where "vm_id_bit = 0x00000200"

section \<open>The quote version\<close>

record quote_version =
  gen_v5_quote :: bool
  mr_servicetd_valid :: bool
  tee_tcb_svn2_valid :: bool
  tdid_present :: bool
  vmid_present :: bool

definition all_zero :: "byte list \<Rightarrow> bool" where "all_zero bs = list_all (\<lambda>b. b = 0) bs"

text \<open>A failure leaves the flags meaningless; it is the left value.\<close>

definition determine_quote_version :: "sgx_report2 \<Rightarrow> int + quote_version" where
  "determine_quote_version r =
     (let valid = tcb_valid r; version = rm_version (r2_mac r); unsupported = Inl TDQE_REPORT_FORMAT_NOT_SUPPORTED;
          v4 = \<lparr>gen_v5_quote = False, mr_servicetd_valid = False, tee_tcb_svn2_valid = False, tdid_present = False,
                vmid_present = False\<rparr>;
          v5 = v4\<lparr>gen_v5_quote := True, mr_servicetd_valid := True\<rparr> in
      if version = 0 then
        (if \<not> all_zero (ti_reserved_v1 r) then unsupported
         else if valid ! 0 \<noteq> 0xFF \<or> valid ! 1 \<noteq> 1 then unsupported
         else if valid ! 2 = 3 then
           (if \<not> all_zero (drop 3 valid) then unsupported
            else if tcb_tee_tcb_svn r \<noteq> tcb_tee_tcb_svn2 r
            then Inr (v4\<lparr>gen_v5_quote := True, tee_tcb_svn2_valid := True\<rparr>) else Inr v4)
         else if \<not> all_zero (drop 2 valid) then unsupported else Inr v4)
      else if version = 1 then
        (if \<not> all_zero (ti_reserved_v1_5 r) then unsupported
         else if valid ! 0 \<noteq> 0xFF \<or> valid ! 1 \<noteq> 1 then unsupported
         else if \<not> all_zero (drop 3 valid) then unsupported
         else if valid ! 2 = 3 then Inr (v5\<lparr>tee_tcb_svn2_valid := True\<rparr>)
         else if valid ! 2 = 0 then Inr v5 else unsupported)
      else if version = 3 then
        (if \<not> all_zero (ti_reserved_v1_5_ex r) then unsupported
         else if valid ! 0 \<noteq> 0xFF \<or> valid ! 1 \<noteq> 1 then unsupported
         else if \<not> all_zero (drop 3 valid) then unsupported
         else if valid ! 2 \<noteq> 3 \<and> valid ! 2 \<noteq> 0 then unsupported
         else if ti_valid r AND critical_reserved \<noteq> 0 then unsupported
         else if ti_valid r AND td_id_bit = 0 \<and> ti_valid r AND vm_id_bit = 0 then unsupported
         else Inr (v5\<lparr>tee_tcb_svn2_valid := (valid ! 2 = 3), tdid_present := (ti_valid r AND td_id_bit \<noteq> 0),
                vmid_present := (ti_valid r AND vm_id_bit \<noteq> 0)\<rparr>))
      else unsupported)"

section \<open>The quote\<close>

definition g_vendor_id :: "byte list" where
  "g_vendor_id = [0x93,0x9A,0x72,0x33,0xF7,0x9C,0x4C,0xA9,0x94,0x0A,0x0D,0xB3,0x95,0x7F,0x06,0x07]"

definition QE_QUOTE_VERSION :: u16 where "QE_QUOTE_VERSION = 4"
definition QE_QUOTE_VERSION_V5 :: u16 where "QE_QUOTE_VERSION_V5 = 5"
definition ECDSA_SIG_AUX_DATA :: u16 where "ECDSA_SIG_AUX_DATA = 6"
definition MAX_CERT_DATA_SIZE :: nat where "MAX_CERT_DATA_SIZE = 4098 * 3"
definition PPID_CLEARTEXT :: nat where "PPID_CLEARTEXT = 1"
definition QL_CERT_KEY_TYPE_MAX :: nat where "QL_CERT_KEY_TYPE_MAX = 16"

abbreviation (input) "sizeof_quote4_t \<equiv> (636 :: nat)"
abbreviation (input) "sizeof_quote5_t \<equiv> (54 :: nat)"
abbreviation (input) "sizeof_body_v1_5 \<equiv> (648 :: nat)"
abbreviation (input) "sizeof_body_v1_5_ex \<equiv> (885 :: nat)"
abbreviation (input) "sizeof_ql_auth_data \<equiv> (2 :: nat)"
abbreviation (input) "sizeof_ql_certification_data \<equiv> (6 :: nat)"
abbreviation (input) "sizeof_qe_report_certification \<equiv> (448 :: nat)"
abbreviation (input) "sizeof_encrypted_cert_info \<equiv> (404 :: nat)"

text \<open>The three report bodies, less the fields that stay zero.\<close>

record td_body =
  tb_tee_tcb_svn :: "byte list"
  tb_mr_seam :: "byte list"
  tb_td_attributes :: "byte list"
  tb_xfam :: "byte list"
  tb_mr_td :: "byte list"
  tb_mr_config_id :: "byte list"
  tb_mr_owner :: "byte list"
  tb_mr_owner_config :: "byte list"
  tb_rt_mr :: "byte list"
  tb_report_data :: "byte list"
  tb_tee_tcb_svn2 :: "byte list"
  tb_mr_servicetd :: "byte list"
  tb_vmid :: "byte list"
  tb_td_id :: "byte list"

definition report2_body_bytes :: "td_body \<Rightarrow> byte list" where
  "report2_body_bytes b = tb_tee_tcb_svn b @ tb_mr_seam b @ replicate 48 0 @ replicate 8 0 @ tb_td_attributes b @ tb_xfam b
     @ tb_mr_td b @ tb_mr_config_id b @ tb_mr_owner b @ tb_mr_owner_config b @ tb_rt_mr b @ tb_report_data b"

definition report2_body_v1_5_bytes :: "td_body \<Rightarrow> byte list" where
  "report2_body_v1_5_bytes b = report2_body_bytes b @ tb_tee_tcb_svn2 b @ tb_mr_servicetd b"

definition report2_body_v1_5_ex_bytes :: "td_body \<Rightarrow> byte list" where
  "report2_body_v1_5_ex_bytes b = report2_body_v1_5_bytes b @ tb_vmid b @ tb_td_id b @ replicate 48 0 @ replicate 48 0
     @ replicate 8 0 @ replicate 16 0 @ replicate 16 0 @ replicate 12 0 @ replicate 48 0 @ replicate 8 0"

text \<open>The copies that all three bodies get.\<close>

definition common_body :: "sgx_report2 \<Rightarrow> td_body" where
  "common_body r = \<lparr>tb_tee_tcb_svn = tcb_tee_tcb_svn r, tb_mr_seam = tcb_mr_seam r, tb_td_attributes = ti_attributes r,
     tb_xfam = ti_xfam r, tb_mr_td = ti_mr_td r, tb_mr_config_id = ti_mr_config_id r, tb_mr_owner = ti_mr_owner r,
     tb_mr_owner_config = ti_mr_owner_config r, tb_rt_mr = ti_rt_mr r, tb_report_data = replicate 64 0,
     tb_tee_tcb_svn2 = replicate 16 0, tb_mr_servicetd = replicate 48 0, tb_vmid = replicate 1 0, tb_td_id = replicate 32 0\<rparr>"

definition with_svn2 :: "quote_version \<Rightarrow> sgx_report2 \<Rightarrow> td_body \<Rightarrow> td_body" where
  "with_svn2 v r b =
     (let b1 = (if tee_tcb_svn2_valid v then b\<lparr>tb_tee_tcb_svn2 := tcb_tee_tcb_svn2 r\<rparr>
                else b\<lparr>tb_tee_tcb_svn := tcb_tee_tcb_svn2 r\<rparr>) in
      if mr_servicetd_valid v then b1\<lparr>tb_mr_servicetd := ti_mr_servicetd r\<rparr> else b1)"

definition quote_header :: "u16 \<Rightarrow> nat \<Rightarrow> byte list \<Rightarrow> byte list" where
  "quote_header version algorithm_id qe_id =
     le16 version @ le16 (word_of_nat algorithm_id) @ le32 0x81 @ replicate 4 0 @ g_vendor_id @ qe_id @ replicate 4 0"

text \<open>Everything before the signature length, which is what gets signed.\<close>

definition quote_front :: "quote_version \<Rightarrow> nat \<Rightarrow> sgx_report2 \<Rightarrow> byte list \<Rightarrow> byte list" where
  "quote_front v algorithm_id r qe_id =
     (if gen_v5_quote v then
        (if tdid_present v \<or> vmid_present v then
           let b = with_svn2 v r (common_body r);
               b1 = (if tdid_present v then b\<lparr>tb_td_id := ti_td_id r\<rparr> else b);
               b2 = (if vmid_present v then b1\<lparr>tb_vmid := ti_vmid r\<rparr> else b1) in
           quote_header QE_QUOTE_VERSION_V5 algorithm_id qe_id @ le16 4 @ le32 (word_of_nat sizeof_body_v1_5_ex)
             @ report2_body_v1_5_ex_bytes b2
         else
           quote_header QE_QUOTE_VERSION_V5 algorithm_id qe_id @ le16 3 @ le32 (word_of_nat sizeof_body_v1_5)
             @ report2_body_v1_5_bytes (with_svn2 v r ((common_body r)\<lparr>tb_report_data := rm_report_data (r2_mac r)\<rparr>)))
      else
        quote_header QE_QUOTE_VERSION algorithm_id qe_id
          @ report2_body_bytes ((common_body r)\<lparr>tb_report_data := rm_report_data (r2_mac r)\<rparr>))"

record quote_fields =
  qf_front :: "byte list"
  qf_sig_len :: u32
  qf_sig :: "byte list"
  qf_pub_key :: "byte list"
  qf_cert_key_type :: u16
  qf_cert_size :: u32
  qf_qe_report :: "byte list"
  qf_qe_report_sig :: "byte list"
  qf_auth_size :: u16
  qf_auth_data :: "byte list"
  qf_inner_type :: u16
  qf_inner_size :: u32
  qf_inner_data :: "byte list"

definition quote_bytes :: "quote_fields \<Rightarrow> byte list" where
  "quote_bytes q = qf_front q @ le32 (qf_sig_len q) @ qf_sig q @ qf_pub_key q @ le16 (qf_cert_key_type q) @ le32 (qf_cert_size q)
     @ qf_qe_report q @ qf_qe_report_sig q @ le16 (qf_auth_size q) @ qf_auth_data q @ le16 (qf_inner_type q)
     @ le32 (qf_inner_size q) @ qf_inner_data q"

text \<open>The quote in its buffer, of which the first \<open>required\<close> bytes were cleared.\<close>

definition in_buffer :: "nat \<Rightarrow> byte list \<Rightarrow> quote_fields \<Rightarrow> byte list" where
  "in_buffer required buf q = quote_bytes q @ replicate (required - length (quote_bytes q)) 0 @ drop required buf"

section \<open>The signature\<close>

text \<open>The exchange of the bytes of one coordinate, \<open>n\<close> rounds from \<open>i\<close> on.\<close>

fun swap_coordinate :: "nat \<Rightarrow> nat \<Rightarrow> nat \<Rightarrow> nat \<Rightarrow> byte list \<Rightarrow> byte list" where
  "swap_coordinate 0 i a b sig = sig"
| "swap_coordinate (Suc n) i a b sig = swap_coordinate n (i + 1) a b (sig[a + i := sig ! (b - 1 - i), b - 1 - i := sig ! (a + i)])"

definition sign_quote_ecdsa ::
  "tdqe_sdk \<Rightarrow> quote_fields \<Rightarrow> byte list \<Rightarrow> byte list \<Rightarrow> byte list \<Rightarrow> int \<times> quote_fields" where
  "sign_quote_ecdsa w q message private_key public_key =
     (if ts_ecc256_open w \<noteq> 0 then (sdk_error w (ts_ecc256_open w), q)
      else case ts_ecdsa_sign w message private_key of (sgx_status, sig) \<Rightarrow>
        if sgx_status \<noteq> 0 then (sdk_error w sgx_status, q\<lparr>qf_sig := sig\<rparr>)
        else (case ts_ecdsa_verify w message (SWAP_ENDIAN_32B (take 32 public_key) @ SWAP_ENDIAN_32B (drop 32 public_key)) sig of
          (sgx_status, verify_result) \<Rightarrow>
            if sgx_status \<noteq> 0 \<or> verify_result \<noteq> ts_ec_valid w
            then (TDQE_ERROR_UNEXPECTED, q\<lparr>qf_sig := (case ts_read_rand w 64 of (status, rand) \<Rightarrow>
                    if status \<noteq> 0 then replicate 64 0 else rand)\<rparr>)
            else (TDQE_SUCCESS, q\<lparr>qf_sig := swap_coordinate 16 0 32 64 (swap_coordinate 16 0 0 32 sig),
                    qf_pub_key := public_key\<rparr>)))"

definition sign_quote ::
  "tdqe_sdk \<Rightarrow> nat \<Rightarrow> quote_fields \<Rightarrow> nat \<Rightarrow> byte list \<Rightarrow> byte list \<Rightarrow> int \<times> quote_fields" where
  "sign_quote w algorithm_id q sign_buf_size private_key public_key =
     (if algorithm_id = SGX_QL_ALG_ECDSA_P256
      then sign_quote_ecdsa w q (take sign_buf_size (quote_bytes q)) private_key public_key
      else case sign_quote_mldsa (te_native w) algorithm_id (qf_sig q) (qf_pub_key q) (quote_bytes q) sign_buf_size
          private_key public_key (pub_key_size algorithm_id) of (ret, sig, pub) \<Rightarrow> (ret, q\<lparr>qf_sig := sig, qf_pub_key := pub\<rparr>))"

section \<open>gen_quote\<close>

text \<open>The input certification data: type, size and contents.\<close>

definition cert_type :: "byte list \<Rightarrow> u16" where "cert_type c = get16 0 c"
definition cert_size :: "byte list \<Rightarrow> u32" where "cert_size c = get32 2 c"
definition cert_contents :: "byte list \<Rightarrow> byte list" where "cert_contents c = take (unat (cert_size c)) (drop 6 c)"

definition cert_data_accepted :: "byte list option \<Rightarrow> nat \<Rightarrow> bool" where
  "cert_data_accepted p_certification_data cert_data_size =
     (case p_certification_data of None \<Rightarrow> cert_data_size = 0
      | Some c \<Rightarrow> PPID_CLEARTEXT \<le> unat (cert_type c) \<and> unat (cert_type c) \<le> QL_CERT_KEY_TYPE_MAX
          \<and> unat (cert_size c) \<le> MAX_CERT_DATA_SIZE
          \<and> sizeof_ql_certification_data + unat (cert_size c) = cert_data_size)"

text \<open>The MAC and the two hashes of the report; 0 is success.\<close>

definition check_td_report :: "tdqe_sdk \<Rightarrow> sgx_report2 \<Rightarrow> int" where
  "check_td_report w r =
     (if ts_verify_report2 w (r2_mac r) \<noteq> 0
      then (if ts_verify_report2 w (r2_mac r) = ts_error_invalid_parameter w then TDQE_REPORT_FORMAT_NOT_SUPPORTED
            else TDQE_ERROR_INVALID_REPORT)
      else case ts_sha384 w (r2_tee_tcb_info r) of (sgx_status, h) \<Rightarrow>
        if sgx_status \<noteq> 0 then TDQE_ERROR_UNEXPECTED
        else if h \<noteq> rm_tee_tcb_info_hash (r2_mac r) then TDQE_ERROR_INVALID_HASH
        else (case ts_sha384 w (r2_tee_info r) of (sgx_status, h) \<Rightarrow>
          if sgx_status \<noteq> 0 then TDQE_ERROR_UNEXPECTED
          else if h \<noteq> rm_tee_info_hash (r2_mac r) then TDQE_ERROR_INVALID_HASH else TDQE_SUCCESS))"

text \<open>The size of the signature data, \<open>None\<close> when it is refused.\<close>

definition signature_data_size :: "nat \<Rightarrow> key_plaintext \<Rightarrow> key_ciphertext \<Rightarrow> byte list option \<Rightarrow> nat option" where
  "signature_data_size algorithm_id p c p_certification_data =
     (let base = get_quote_sig_data_struct_size algorithm_id + sizeof_ql_auth_data + sizeof_ql_certification_data
            + sizeof_qe_report_certification + sizeof_ql_certification_data;
          free = (\<lambda>n. 0xFFFFFFFF - n - sizeof_quote5_t - sizeof_body_v1_5_ex);
          auth = unat (kp_authentication_data_size p) in
      if kc_is_clear_ppid c = 1 then None
      else
        (case (case p_certification_data of None \<Rightarrow> Some (base + sizeof_encrypted_cert_info)
               | Some d \<Rightarrow> if free base > unat (cert_size d) then Some (base + unat (cert_size d)) else None) of
           None \<Rightarrow> None
         | Some sign_size \<Rightarrow> if free sign_size < auth then None else Some (sign_size + auth)))"

text \<open>
  The quote with its header, its body and the sizes known so far. The size in a sealed blob is 0 or 32, so that it
  fits the 16-bit field and the authentication data of the blob.
\<close>

definition quote_frame ::
  "quote_version \<Rightarrow> nat \<Rightarrow> sgx_report2 \<Rightarrow> key_plaintext \<Rightarrow> nat \<Rightarrow> nat \<Rightarrow> quote_fields" where
  "quote_frame v algorithm_id r p sign_size inner_size =
     (let auth_size = ucast (kp_authentication_data_size p) :: u16 in
      \<lparr>qf_front = quote_front v algorithm_id r (kp_qe_id p), qf_sig_len = word_of_nat sign_size,
       qf_sig = replicate (get_quote_signature_size algorithm_id) 0, qf_pub_key = replicate (pub_key_size algorithm_id) 0,
       qf_cert_key_type = ECDSA_SIG_AUX_DATA,
       qf_cert_size = word_of_nat (sizeof_qe_report_certification + sizeof_ql_auth_data + unat auth_size
         + sizeof_ql_certification_data),
       qf_qe_report = replicate 384 0, qf_qe_report_sig = replicate 64 0, qf_auth_size = auth_size,
       qf_auth_data = replicate (unat auth_size) 0, qf_inner_type = 0, qf_inner_size = 0,
       qf_inner_data = replicate inner_size 0\<rparr>)"

text \<open>The certification data behind the signature.\<close>

definition with_certification :: "key_plaintext \<Rightarrow> key_ciphertext \<Rightarrow> byte list option \<Rightarrow> quote_fields \<Rightarrow> quote_fields" where
  "with_certification p c p_certification_data q =
     (let q1 = q\<lparr>qf_qe_report := report_body (kp_qe_report p), qf_qe_report_sig := kp_qe_report_cert_key_sig p,
                 qf_auth_data := written (unat (qf_auth_size q)) (kp_authentication_data p)\<rparr> in
      case p_certification_data of
        None \<Rightarrow> q1\<lparr>qf_inner_type := word_of_nat PPID_RSA3072_ENCRYPTED, qf_inner_size := word_of_nat sizeof_encrypted_cert_info,
            qf_inner_data := kc_encrypted_ppid c @ kp_cert_cpu_svn p @ kp_cert_pce_info p,
            qf_cert_size := qf_cert_size q + word_of_nat sizeof_encrypted_cert_info\<rparr>
      | Some d \<Rightarrow> q1\<lparr>qf_inner_type := cert_type d, qf_inner_size := cert_size d, qf_inner_data := cert_contents d,
            qf_cert_size := qf_cert_size q + cert_size d\<rparr>)"

text \<open>Status, blob, quote buffer and QE report.\<close>

record quote_result =
  qr_ret :: int
  qr_blob :: "byte list"
  qr_quote :: "byte list"
  qr_qe_report :: "byte list option"

text \<open>The part of gen_quote behind the verification of the blob.\<close>

definition build_quote ::
  "tdqe_sdk \<Rightarrow> nat \<Rightarrow> quote_version \<Rightarrow> sgx_report2 \<Rightarrow> key_plaintext \<Rightarrow> key_ciphertext
     \<Rightarrow> (byte list \<times> byte list) option \<Rightarrow> byte list option \<Rightarrow> byte list \<Rightarrow> nat \<Rightarrow> byte list option
     \<Rightarrow> int \<times> byte list \<times> byte list option" where
  "build_quote w algorithm_id v r p c p_nonce p_qe_report_out buf quote_size p_certification_data =
     (case signature_data_size algorithm_id p c p_certification_data of
        None \<Rightarrow> (TDQE_ERROR_INVALID_PARAMETER, buf, p_qe_report_out)
      | Some sign_size \<Rightarrow>
          let required = sizeof_quote5_t + sizeof_body_v1_5_ex + 4 + sign_size;
              real = (if gen_v5_quote v
                      then (if tdid_present v \<or> vmid_present v then required
                            else required - sizeof_body_v1_5_ex + sizeof_body_v1_5)
                      else sizeof_quote4_t + sign_size);
              inner = (case p_certification_data of None \<Rightarrow> sizeof_encrypted_cert_info | Some d \<Rightarrow> unat (cert_size d));
              sign_buf_size = (if gen_v5_quote v
                      then sizeof_quote5_t + (if tdid_present v \<or> vmid_present v then sizeof_body_v1_5_ex else sizeof_body_v1_5)
                      else sizeof_quote4_t - 4) in
          if quote_size < required then (TDQE_ERROR_INVALID_PARAMETER, buf, p_qe_report_out)
          else
            let q = quote_frame v algorithm_id r p sign_size inner; put = in_buffer required buf in
            (case ts_create_report w 1 None (replicate 64 0) of (sgx_status, _) \<Rightarrow>
               if sgx_status \<noteq> 0 then (sdk_error w sgx_status, put q, p_qe_report_out)
               else (case sign_quote w algorithm_id q sign_buf_size (kc_private_key c) (kp_att_public_key p) of (ret, q1) \<Rightarrow>
                 if ret \<noteq> TDQE_SUCCESS then (ret, put q1, p_qe_report_out)
                 else
                   let quote = put (with_certification p c p_certification_data q1) in
                   (case p_nonce of None \<Rightarrow> (TDQE_SUCCESS, quote, p_qe_report_out)
                    | Some (nonce, target) \<Rightarrow>
                        (case ts_sha256 w (nonce @ take real quote) of (sgx_status, hash) \<Rightarrow>
                           if sgx_status \<noteq> 0 then (TDQE_ERROR_UNEXPECTED, quote, p_qe_report_out)
                           else (case ts_create_report w 2 (Some target) (hash @ replicate 32 0) of (sgx_status, report) \<Rightarrow>
                             if sgx_status \<noteq> 0
                             then (if sgx_status = te_error_out_of_memory w then TDQE_ERROR_OUT_OF_MEMORY
                                   else TDQE_UNABLE_TO_GENERATE_QE_REPORT, quote, p_qe_report_out)
                             else (TDQE_SUCCESS, quote, Some report)))))))"

definition gen_quote ::
  "tdqe_sdk \<Rightarrow> byte list option \<Rightarrow> nat \<Rightarrow> nat \<Rightarrow> sgx_report2 option \<Rightarrow> byte list option \<Rightarrow> byte list option
     \<Rightarrow> byte list option \<Rightarrow> byte list option \<Rightarrow> nat \<Rightarrow> byte list option \<Rightarrow> nat \<Rightarrow> quote_result" where
  "gen_quote w p_blob blob_size algorithm_id p_td_report p_nonce p_app_enclave_target_info p_qe_report_out p_quote_buf
     quote_size p_certification_data cert_data_size =
     (let refused = (\<lambda>ret. \<lparr>qr_ret = ret, qr_blob = obj p_blob, qr_quote = obj p_quote_buf, qr_qe_report = p_qe_report_out\<rparr>);
          invalid = refused TDQE_ERROR_INVALID_PARAMETER in
      if \<not> is_verify_report2_available w then refused TDQE_ERROR_INVALID_PLATFORM
      else case p_td_report of None \<Rightarrow> invalid | Some r \<Rightarrow>
        if p_blob = None \<or> p_quote_buf = None \<or> quote_size = 0 then invalid
        else if \<not> is_supported_att_key_algorithm algorithm_id then refused TDQE_ERROR_UNSUPPORTED_ATT_KEY_ID
        else if blob_size \<noteq> get_tdqe_blob_size_for_algorithm w algorithm_id then invalid
        else if \<not> (p_nonce = None \<and> p_app_enclave_target_info = None \<and> p_qe_report_out = None)
          \<and> \<not> (p_nonce \<noteq> None \<and> p_app_enclave_target_info \<noteq> None \<and> p_qe_report_out \<noteq> None) then invalid
        else if \<not> cert_data_accepted p_certification_data cert_data_size then invalid
        else if \<not> ts_within_enclave w Buf_quote \<or> \<not> ts_within_enclave w Buf_blob \<or> \<not> ts_within_enclave w Buf_td_report
        then invalid
        else if p_certification_data \<noteq> None \<and> \<not> ts_within_enclave w Buf_cert then invalid
        else if p_nonce \<noteq> None \<and> (\<not> ts_within_enclave w Buf_nonce \<or> \<not> ts_within_enclave w Buf_qe_report
          \<or> \<not> ts_within_enclave w Buf_app_target) then invalid
        else (case determine_quote_version r of Inl ret \<Rightarrow> refused ret
        | Inr v \<Rightarrow>
            if check_td_report w r \<noteq> TDQE_SUCCESS then refused (check_td_report w r)
            else (case verify_blob_data_any_internal w p_blob blob_size algorithm_id of
                    (ret, blob, _, Some (p, c)) \<Rightarrow>
                      (case build_quote w algorithm_id v r p c
                          (case p_nonce of None \<Rightarrow> None | Some n \<Rightarrow> Some (n, obj p_app_enclave_target_info))
                          p_qe_report_out (obj p_quote_buf) quote_size p_certification_data of (ret', quote, report) \<Rightarrow>
                         \<lparr>qr_ret = ret', qr_blob = blob, qr_quote = quote, qr_qe_report = report\<rparr>)
                  | (ret, blob, _, None) \<Rightarrow> (refused ret)\<lparr>qr_blob := blob\<rparr>)))"

end
