(* ===== verification/Tdqe_Endian.thy ===== *)
theory Tdqe_Endian
  imports Tdqe_Quote
begin

text \<open>
  Packed structures cut into fields, and the byte order changes of the quoting enclave: the macros of user_types.h,
  the exclusive-or loop over the key seed and the exchange loops over the signature all reverse bytes.
\<close>

lemma cut_fields_concat: "cut_fields (map length xss) (concat xss) = xss"
  by (induction xss) auto

lemma concat_cut_fields: "length bs = sum_list ns \<Longrightarrow> concat (cut_fields ns bs) = bs"
  by (induction ns arbitrary: bs) auto

lemma map_length_cut_fields: "length bs = sum_list ns \<Longrightarrow> map length (cut_fields ns bs) = ns"
  by (induction ns arbitrary: bs) auto

lemma le32_get32: "length bs = 4 \<Longrightarrow> le32 (get32 0 bs) = bs"
  using le_encode_decode [of bs 4] le_decode_bound [of bs]
  by (simp add: le32_def get32_def)

lemma get32_le32_0 [simp]: "get32 0 (le32 n) = n"
  by (rule get32_le32) simp

lemma le32_bytes: "le32 w = [ucast w, ucast (drop_bit 8 w), ucast (drop_bit 16 w), ucast (drop_bit 24 w)]"
proof -
  have b: "(ucast (drop_bit n w) :: byte) = word_of_nat (unat w div 2 ^ n mod 256)" for n
    by (rule word_unat_eq_iff [THEN iffD2]) (simp add: unat_of_nat unat_ucast_32_8 unat_drop_bit_32)
  have "4 = Suc (Suc (Suc (Suc 0)))" by simp
  then have "le32 w = [word_of_nat (unat w mod 256), word_of_nat (unat w div 2 ^ 8 mod 256),
      word_of_nat (unat w div 2 ^ 16 mod 256), word_of_nat (unat w div 2 ^ 24 mod 256)]"
    by (simp only: le32_def le_encode.simps div_mult2_eq [symmetric]) simp
  with b [of 0] b [of 8] b [of 16] b [of 24] show ?thesis by simp
qed

lemma dw_masks:
  "(0xFF :: u32) = mask 8" "(0xFF00 :: u32) = push_bit 8 (mask 8)" "(0xFF0000 :: u32) = push_bit 16 (mask 8)"
  "(0xFF000000 :: u32) = push_bit 24 (mask 8)"
  by (simp_all add: mask_eq_exp_minus_1)

lemma swap_dw_bytes: "le32 (SWAP_ENDIAN_DW w) = rev (le32 w)"
  unfolding le32_bytes SWAP_ENDIAN_DW_def dw_masks
  by (simp, intro conjI; rule bit_word_eqI; auto simp: bit_simps)

lemma swap_32b_rev:
  assumes "length p = 32" shows "SWAP_ENDIAN_32B p = rev p"
proof -
  have w: "le32 (SWAP_ENDIAN_DW (get32 o' p)) = rev (take 4 (drop o' p))" if "o' + 4 \<le> 32" for o'
    using le32_get32 [of "take 4 (drop o' p)"] that assms by (simp add: swap_dw_bytes get32_def)
  have "p = concat (cut_fields [4, 4, 4, 4, 4, 4, 4, 4] p)" using concat_cut_fields [of p "[4, 4, 4, 4, 4, 4, 4, 4]"] assms by simp
  then have "rev p = concat (rev (map rev (cut_fields [4, 4, 4, 4, 4, 4, 4, 4] p)))" by (metis rev_concat rev_map)
  also have "\<dots> = SWAP_ENDIAN_32B p"
    using w [of 0] w [of 4] w [of 8] w [of 12] w [of 16] w [of 20] w [of 24] w [of 28]
    by (simp add: SWAP_ENDIAN_32B_def upt_rec)
  finally show ?thesis by simp
qed

lemma nth_xor_swap:
  assumes "2 * (i + n) \<le> length h" "k < length h"
  shows "xor_swap n i h ! k = (if i \<le> k \<and> k < i + n \<or> length h - (i + n) \<le> k \<and> k < length h - i then h ! (length h - 1 - k) else h ! k)"
  using assms
proof (induction n arbitrary: i h)
  case 0
  then show ?case by auto
next
  case (Suc n)
  let ?j = "length h - 1 - i"
  have ij: "i < ?j" "?j < length h" using Suc.prems by auto
  let ?h = "h[i := h ! ?j, ?j := h ! i]"
  have x: "(x XOR y) XOR x = y" "x XOR y XOR x = y" "x XOR (x XOR y) = y" "y XOR x XOR y = x" for x y :: byte
    by (simp_all add: xor.assoc xor.commute xor.left_commute)
  have "xor_swap (Suc n) i h = xor_swap n (i + 1) ?h"
    using ij by (simp add: Let_def nth_list_update x list_update_swap)
  then have eq: "xor_swap (Suc n) i h ! k
      = (if i + 1 \<le> k \<and> k < i + 1 + n \<or> length h - (i + 1 + n) \<le> k \<and> k < length h - (i + 1)
         then ?h ! (length h - 1 - k) else ?h ! k)"
    using Suc.IH [of "i + 1" ?h] Suc.prems by (simp del: nth_list_update)
  consider "k = i" | "k = ?j" | "k \<noteq> i" "k \<noteq> ?j" by blast
  then show ?case
  proof cases
    case 1
    have "\<not> (length h - (i + 1 + n) \<le> i)" using Suc.prems(1) by simp
    with 1 eq ij show ?thesis by simp
  next
    case 2
    have "\<not> (?j < i + 1 + n)" "\<not> ?j < length h - (i + 1)" "length h - (i + Suc n) \<le> ?j" "?j < length h - i"
      "length h - 1 - ?j = i" using Suc.prems(1) ij by simp_all
    with 2 eq ij show ?thesis by (simp only: nth_list_update length_list_update) simp
  next
    case 3
    have "length h - 1 - k \<noteq> i" "length h - 1 - k \<noteq> ?j" using 3 Suc.prems ij by simp_all
    then have "?h ! k = h ! k" "?h ! (length h - 1 - k) = h ! (length h - 1 - k)" using 3 by simp_all
    moreover have "(i + 1 \<le> k \<and> k < i + 1 + n \<or> length h - (i + 1 + n) \<le> k \<and> k < length h - (i + 1))
        = (i \<le> k \<and> k < i + Suc n \<or> length h - (i + Suc n) \<le> k \<and> k < length h - i)"
      using 3 Suc.prems ij by auto
    ultimately show ?thesis using eq by simp
  qed
qed

lemma length_xor_swap [simp]: "length (xor_swap n i h) = length h"
  by (induction n arbitrary: i h) (simp_all add: Let_def)

lemma xor_swap_rev: "xor_swap (length h div 2) 0 h = rev h"
proof (rule nth_equalityI)
  fix k assume "k < length (xor_swap (length h div 2) 0 h)"
  then have "k < length h" by simp
  moreover have "length h - 1 - k = k" if "\<not> k < length h div 2" "\<not> length h - length h div 2 \<le> k" using that \<open>k < length h\<close> by linarith
  ultimately show "xor_swap (length h div 2) 0 h ! k = rev h ! k"
    using nth_xor_swap [of 0 "length h div 2" h k] by (auto simp: rev_nth)
qed simp

text \<open>The constant is the order of P-256 less one.\<close>

lemma nistp256_order:
  "le_decode (concat (map le32 g_sgx_nistp256_r_m1)) + 1
     = 0xFFFFFFFF00000000FFFFFFFFFFFFFFFFBCE6FAADA7179E84F3B9CAC2FC632551"
  by (simp add: g_sgx_nistp256_r_m1_def le32_bytes)

lemma length_swap_coordinate [simp]: "length (swap_coordinate n i a b sig) = length sig"
  by (induction n arbitrary: i sig) simp_all

lemma nth_swap_coordinate:
  assumes "a + 2 * (i + n) \<le> b" "b \<le> length sig" "k < length sig"
  shows "swap_coordinate n i a b sig ! k
    = (if a + i \<le> k \<and> k < a + i + n \<or> b - (i + n) \<le> k \<and> k < b - i then sig ! (a + b - 1 - k) else sig ! k)"
  using assms
proof (induction n arbitrary: i sig)
  case 0
  then show ?case by auto
next
  case (Suc n)
  let ?j = "b - 1 - i"
  let ?h = "sig[a + i := sig ! ?j, ?j := sig ! (a + i)]"
  have ij: "a + i < ?j" "?j < length sig" using Suc.prems by auto
  have eq: "swap_coordinate (Suc n) i a b sig ! k
      = (if a + (i + 1) \<le> k \<and> k < a + (i + 1) + n \<or> b - (i + 1 + n) \<le> k \<and> k < b - (i + 1)
         then ?h ! (a + b - 1 - k) else ?h ! k)"
    using Suc.IH [of "i + 1" ?h] Suc.prems by (simp del: nth_list_update)
  consider "k = a + i" | "k = ?j" | "k \<noteq> a + i" "k \<noteq> ?j" by blast
  then show ?case
  proof cases
    case 1
    have "\<not> (b - (i + 1 + n) \<le> a + i)" "a + b - 1 - (a + i) = ?j" using Suc.prems(1) by simp_all
    with 1 eq ij show ?thesis by simp
  next
    case 2
    have "\<not> (?j < a + (i + 1) + n)" "\<not> ?j < b - (i + 1)" "b - (i + Suc n) \<le> ?j" "?j < b - i"
      "a + b - 1 - ?j = a + i" using Suc.prems(1) ij by simp_all
    with 2 eq ij show ?thesis by (simp only: nth_list_update length_list_update) simp
  next
    case 3
    have "a + b - 1 - k \<noteq> a + i \<or> k \<ge> a + b" "a + b - 1 - k \<noteq> ?j \<or> k \<ge> a + b" using 3 Suc.prems ij by auto
    then have "?h ! k = sig ! k" "k < a + b \<Longrightarrow> ?h ! (a + b - 1 - k) = sig ! (a + b - 1 - k)" using 3 by auto
    moreover have "(a + (i + 1) \<le> k \<and> k < a + (i + 1) + n \<or> b - (i + 1 + n) \<le> k \<and> k < b - (i + 1))
        = (a + i \<le> k \<and> k < a + i + Suc n \<or> b - (i + Suc n) \<le> k \<and> k < b - i)"
      using 3 Suc.prems ij by auto
    moreover have "a + i \<le> k \<and> k < a + i + Suc n \<or> b - (i + Suc n) \<le> k \<and> k < b - i \<Longrightarrow> k < a + b"
      using Suc.prems(1) by auto
    ultimately show ?thesis using eq by simp
  qed
qed

text \<open>Both coordinates of a signature change their byte order.\<close>

lemma swap_coordinates_rev:
  assumes "length sig = 64"
  shows "swap_coordinate 16 0 32 64 (swap_coordinate 16 0 0 32 sig) = rev (take 32 sig) @ rev (drop 32 sig)"
proof (rule nth_equalityI)
  fix k assume "k < length (swap_coordinate 16 0 32 64 (swap_coordinate 16 0 0 32 sig))"
  then have k: "k < 64" using assms by simp
  have s1: "swap_coordinate 16 0 0 32 sig ! j = (if j < 32 then sig ! (31 - j) else sig ! j)" if "j < 64" for j
    using nth_swap_coordinate [of 0 0 16 32 sig j] that assms by auto
  have "swap_coordinate 16 0 32 64 (swap_coordinate 16 0 0 32 sig) ! k
      = (if 32 \<le> k then swap_coordinate 16 0 0 32 sig ! (95 - k) else swap_coordinate 16 0 0 32 sig ! k)"
    using nth_swap_coordinate [of 32 0 16 64 "swap_coordinate 16 0 0 32 sig" k] k assms by auto
  also have "\<dots> = (if 32 \<le> k then sig ! (95 - k) else sig ! (31 - k))" using s1 k by auto
  also have "\<dots> = (rev (take 32 sig) @ rev (drop 32 sig)) ! k" using k assms by (auto simp: nth_append rev_nth)
  finally show "swap_coordinate 16 0 32 64 (swap_coordinate 16 0 0 32 sig) ! k = (rev (take 32 sig) @ rev (drop 32 sig)) ! k" .
qed (use assms in simp)

end
