(* ===== verification/Tdqe_Key.thy ===== *)
theory Tdqe_Key
  imports Tdqe_Endian
begin

text \<open>
  The attestation key in the blob: the layout of the blob, the documented behaviour of the SDK (\<open>sdk_documented\<close>),
  the contract of the commands that take a blob (locales \<open>blob_command\<close> and \<open>safe_blob_command\<close>, interpreted on
  verify_blob, store_cert_data and gen_quote), and the properties of the key.
\<close>

section \<open>Layout\<close>

definition plaintext_wf :: "nat \<Rightarrow> key_plaintext \<Rightarrow> bool" where
  "plaintext_wf algorithm_id p \<longleftrightarrow> map length (plaintext_parts p) = plaintext_fields algorithm_id"

definition ciphertext_wf :: "nat \<Rightarrow> key_ciphertext \<Rightarrow> bool" where
  "ciphertext_wf algorithm_id c \<longleftrightarrow> map length (ciphertext_parts c) = ciphertext_fields algorithm_id"

lemma plaintext_of_bytes:
  assumes "plaintext_wf a p" shows "plaintext_of a (plaintext_bytes p) = p"
proof -
  have "cut_fields (plaintext_fields a) (plaintext_bytes p) = plaintext_parts p"
    using assms cut_fields_concat [of "plaintext_parts p"] by (simp only: plaintext_wf_def plaintext_bytes_def)
  then show ?thesis
    unfolding plaintext_of_def by (simp only: Let_def) (simp add: plaintext_parts_def)
qed

lemma ciphertext_of_bytes:
  assumes "ciphertext_wf a c" shows "ciphertext_of a (ciphertext_bytes c) = c"
proof -
  have "cut_fields (ciphertext_fields a) (ciphertext_bytes c) = ciphertext_parts c"
    using assms cut_fields_concat [of "ciphertext_parts c"] by (simp only: ciphertext_wf_def ciphertext_bytes_def)
  then show ?thesis
    unfolding ciphertext_of_def by (simp only: Let_def) (simp add: ciphertext_parts_def)
qed

lemma length_plaintext_bytes: "plaintext_wf a p \<Longrightarrow> length (plaintext_bytes p) = plaintext_size a"
  by (simp add: plaintext_wf_def plaintext_bytes_def plaintext_size_def length_concat)

lemma length_ciphertext_bytes: "ciphertext_wf a c \<Longrightarrow> length (ciphertext_bytes c) = ciphertext_size a"
  by (simp add: ciphertext_wf_def ciphertext_bytes_def ciphertext_size_def length_concat)

lemma singleton_hd: "length xs = 1 \<Longrightarrow> [hd xs] = xs"
  by (cases xs) auto

lemma plaintext_parts_of:
  assumes "length bs = plaintext_size a"
  shows "plaintext_parts (plaintext_of a bs) = cut_fields (plaintext_fields a) bs"
proof -
  define f where "f = cut_fields (plaintext_fields a) bs"
  have l: "map length f = plaintext_fields a" using map_length_cut_fields assms by (simp add: plaintext_size_def f_def)
  have len: "length f = 19" using arg_cong [OF l, of length] by (simp add: plaintext_fields_def)
  have n: "length (f ! i) = plaintext_fields a ! i" if "i < 19" for i
    using that len nth_map [of i f length] by (simp add: l)
  have "f = map ((!) f) [0..<19]" using len map_nth [of f] by simp
  also have "[0..<19] = [0, 1, 2, 3, 4, 5, 6, 7, 8, 9, 10, 11, 12, 13, 14, 15, 16, 17, 18]" by (simp add: upt_rec)
  finally have f: "f = [f ! 0, f ! 1, f ! 2, f ! 3, f ! 4, f ! 5, f ! 6, f ! 7, f ! 8, f ! 9, f ! 10, f ! 11, f ! 12, f ! 13,
      f ! 14, f ! 15, f ! 16, f ! 17, f ! 18]" by (simp only: list.map)
  have "length (f ! 0) = 1" "length (f ! 1) = 1" "length (f ! 8) = 1" "length (f ! 16) = 4"
    using n [of 0] n [of 1] n [of 8] n [of 16] by (simp_all add: plaintext_fields_def)
  then have "plaintext_parts (plaintext_of a bs) = [f ! 0, f ! 1, f ! 2, f ! 3, f ! 4, f ! 5, f ! 6, f ! 7, f ! 8, f ! 9,
      f ! 10, f ! 11, f ! 12, f ! 13, f ! 14, f ! 15, f ! 16, f ! 17, f ! 18]"
    unfolding plaintext_of_def f_def [symmetric]
    by (simp only: Let_def plaintext_parts_def key_plaintext.select_convs singleton_hd le32_get32)
  with f show ?thesis by (simp only: f_def)
qed

lemma ciphertext_parts_of:
  assumes "length bs = ciphertext_size a"
  shows "ciphertext_parts (ciphertext_of a bs) = cut_fields (ciphertext_fields a) bs"
proof -
  define f where "f = cut_fields (ciphertext_fields a) bs"
  have l: "map length f = ciphertext_fields a" using map_length_cut_fields assms by (simp add: ciphertext_size_def f_def)
  have len: "length f = 5" using arg_cong [OF l, of length] by (simp add: ciphertext_fields_def)
  have n: "length (f ! i) = ciphertext_fields a ! i" if "i < 5" for i
    using that len nth_map [of i f length] by (simp add: l)
  have "f = map ((!) f) [0..<5]" using len map_nth [of f] by simp
  also have "[0..<5] = [0, 1, 2, 3, 4]" by (simp add: upt_rec)
  finally have f: "f = [f ! 0, f ! 1, f ! 2, f ! 3, f ! 4]" by (simp only: list.map)
  have "length (f ! 1) = 1" "length (f ! 2) = 1" "length (f ! 3) = 4"
    using n [of 1] n [of 2] n [of 3] by (simp_all add: ciphertext_fields_def)
  then have "ciphertext_parts (ciphertext_of a bs) = [f ! 0, f ! 1, f ! 2, f ! 3, f ! 4]"
    unfolding ciphertext_of_def f_def [symmetric]
    by (simp only: Let_def ciphertext_parts_def key_ciphertext.select_convs singleton_hd le32_get32)
  with f show ?thesis by (simp only: f_def)
qed

lemma plaintext_of_wf:
  assumes "length bs = plaintext_size a"
  shows "plaintext_wf a (plaintext_of a bs)" "plaintext_bytes (plaintext_of a bs) = bs"
  using assms map_length_cut_fields concat_cut_fields
  by (simp_all add: plaintext_wf_def plaintext_bytes_def plaintext_parts_of plaintext_size_def)

lemma ciphertext_of_wf:
  assumes "length bs = ciphertext_size a"
  shows "ciphertext_wf a (ciphertext_of a bs)" "ciphertext_bytes (ciphertext_of a bs) = bs"
  using assms map_length_cut_fields concat_cut_fields
  by (simp_all add: ciphertext_wf_def ciphertext_bytes_def ciphertext_parts_of ciphertext_size_def)

lemma length_written [simp]: "length (written n bs) = n"
  by (simp add: written_def)

lemma written_exact [simp]: "length bs = n \<Longrightarrow> written n bs = bs"
  by (simp add: written_def)

section \<open>The SDK as documented\<close>

text \<open>
  What a sealed blob holds is \<open>contents\<close>: sealing makes a blob of the size asked for that holds the two texts,
  and unsealing returns only what the blob holds, with the lengths its header states.
\<close>

definition sdk_documented :: "(byte list \<Rightarrow> (byte list \<times> byte list) option) \<Rightarrow> tdqe_sdk \<Rightarrow> bool" where
  "sdk_documented contents w \<longleftrightarrow>
     (\<forall>pt ct n b. ts_seal w pt ct n = (0, b) \<longrightarrow> length b = n \<and> contents b = Some (pt, ct))
     \<and> (\<forall>b pt ct. ts_unseal w b = (0, pt, ct)
          \<longrightarrow> contents b = Some (pt, ct) \<and> length pt = ts_add_mac_len w b \<and> length ct = ts_encrypt_len w b)"

text \<open>Reports have their size and state the TCB the enclave runs at, under which blobs are sealed.\<close>

definition runs_at :: "byte list \<Rightarrow> byte list \<Rightarrow> tdqe_sdk \<Rightarrow> bool" where
  "runs_at cpu_svn isv_svn w \<longleftrightarrow>
     (\<forall>n t d r. ts_create_report w n t d = (0, r) \<longrightarrow> length r = sizeof_report \<and> report_cpu_svn r = cpu_svn
        \<and> report_isv_svn r = isv_svn \<and> (length d = 64 \<longrightarrow> report_report_data r = d))
     \<and> (\<forall>pt ct n b. ts_seal w pt ct n = (0, b)
          \<longrightarrow> ts_key_request_cpu_svn w b = cpu_svn \<and> ts_key_request_isv_svn w b = isv_svn)"

section \<open>The key in a blob\<close>

record att_key =
  ak_private :: "byte list"
  ak_public :: "byte list"
  ak_id :: "byte list"
  ak_auth_size :: u32
  ak_auth_data :: "byte list"

definition key_of :: "key_plaintext \<Rightarrow> key_ciphertext \<Rightarrow> att_key" where
  "key_of p c = \<lparr>ak_private = kc_private_key c, ak_public = kp_att_public_key p, ak_id = kp_key_id p,
     ak_auth_size = kp_authentication_data_size p, ak_auth_data = kp_authentication_data p\<rparr>"

definition blob_key :: "(byte list \<Rightarrow> (byte list \<times> byte list) option) \<Rightarrow> nat \<Rightarrow> byte list \<Rightarrow> att_key option" where
  "blob_key contents a b =
     (case contents b of None \<Rightarrow> None
      | Some (pt, ct) \<Rightarrow>
          if length pt = plaintext_size a \<and> length ct = ciphertext_size a
            \<and> kp_seal_blob_type (plaintext_of a pt) = seal_blob_type a \<and> kp_key_version (plaintext_of a pt) = KEY_BLOB_VERSION_0
          then Some (key_of (plaintext_of a pt) (ciphertext_of a ct)) else None)"

definition supported :: "nat set" where
  "supported = {SGX_QL_ALG_ECDSA_P256, SGX_QL_ALG_MLDSA_44, SGX_QL_ALG_MLDSA_65, SGX_QL_ALG_MLDSA_87}"

lemmas structure_sizes = plaintext_size_def plaintext_fields_def ciphertext_size_def ciphertext_fields_def pub_key_size_def
  private_key_size_def sig_size_defs SGX_QL_MLDSA_44_PUB_KEY_SIZE_def SGX_QL_MLDSA_65_PUB_KEY_SIZE_def
  SGX_QL_MLDSA_87_PUB_KEY_SIZE_def TDQE_MLDSA_44_PRIVATE_KEY_SIZE_def TDQE_MLDSA_65_PRIVATE_KEY_SIZE_def
  TDQE_MLDSA_87_PRIVATE_KEY_SIZE_def REF_ECDSDA_AUTHENTICATION_DATA_SIZE_def REF_RSA_OAEP_3072_MOD_SIZE_def

lemma supported_iff: "is_supported_att_key_algorithm a \<longleftrightarrow> a \<in> supported"
  by (simp add: is_supported_att_key_algorithm_def supported_def)

lemma plaintext_size_inj: "a \<in> supported \<Longrightarrow> a' \<in> supported \<Longrightarrow> plaintext_size a = plaintext_size a' \<Longrightarrow> a = a'"
  by (auto simp: supported_def structure_sizes alg_defs)

lemma blob_size_inj:
  "a \<in> supported \<Longrightarrow> a' \<in> supported
   \<Longrightarrow> get_tdqe_blob_size_for_algorithm w a = get_tdqe_blob_size_for_algorithm w a' \<Longrightarrow> a = a'"
  by (auto simp: supported_def get_tdqe_blob_size_for_algorithm_def structure_sizes alg_defs)

lemma sealed_key:
  assumes "sdk_documented contents w" "ts_seal w (plaintext_bytes p) (ciphertext_bytes c) n = (0, b)" "plaintext_wf a p"
    "ciphertext_wf a c" "kp_seal_blob_type p = seal_blob_type a" "kp_key_version p = KEY_BLOB_VERSION_0"
  shows "blob_key contents a b = Some (key_of p c)" "length b = n" "contents b = Some (plaintext_bytes p, ciphertext_bytes c)"
  using assms plaintext_of_bytes [OF assms(3)] ciphertext_of_bytes [OF assms(4)] length_plaintext_bytes [OF assms(3)]
    length_ciphertext_bytes [OF assms(4)]
  by (auto simp: sdk_documented_def blob_key_def)

lemma verify_data_outcome:
  assumes "sdk_documented contents w" "verify_blob_data_any_internal w (Some b) n a = (ret, b', rs, res)"
  shows "contents b' = contents b \<or> b' = b"
    and "ret = TDQE_SUCCESS \<longleftrightarrow> res \<noteq> None"
    and "res = Some (p, c) \<Longrightarrow> a \<in> supported \<and> n = get_tdqe_blob_size_for_algorithm w a \<and> plaintext_wf a p \<and> ciphertext_wf a c
      \<and> kp_seal_blob_type p = seal_blob_type a \<and> kp_key_version p = KEY_BLOB_VERSION_0
      \<and> contents b = Some (plaintext_bytes p, ciphertext_bytes c) \<and> blob_key contents a b = Some (key_of p c)
      \<and> contents b' = contents b \<and> (rs = Some False \<longrightarrow> b' = b) \<and> (rs = Some True \<longrightarrow> length b' = n)"
proof -
  have err: "sdk_error w s \<noteq> TDQE_SUCCESS" for s by (simp add: sdk_error_def tdqe_status_defs)
  have codes: "TDQE_ECDSABLOB_ERROR \<noteq> TDQE_SUCCESS" "TDQE_ERROR_INVALID_PARAMETER \<noteq> TDQE_SUCCESS"
    by (simp_all add: TDQE_ECDSABLOB_ERROR_def tdqe_status_defs)
  obtain s pt ct where u: "ts_unseal w b = (s, pt, ct)" by (metis prod_cases3)
  define p' where "p' = plaintext_of a (written (plaintext_size a) pt)"
  define c' where "c' = ciphertext_of a (written (ciphertext_size a) ct)"
  obtain s1 r where r: "ts_create_report w 0 None (replicate 64 0) = (s1, r)" by (metis prod.collapse)
  obtain s2 lb where l: "ts_seal w (plaintext_bytes p') (ciphertext_bytes c') n = (s2, lb)" by (metis prod.collapse)
  note eval = assms(2) [unfolded verify_blob_data_any_internal_def Let_def obj_simps u prod.case p'_def [symmetric]
      c'_def [symmetric] r l]
  have sl: "s2 = 0 \<Longrightarrow> length lb = n \<and> contents lb = Some (plaintext_bytes p', ciphertext_bytes c')"
    using assms(1) l unfolding sdk_documented_def by blast
  have us: "s = 0 \<Longrightarrow> contents b = Some (pt, ct) \<and> length pt = ts_add_mac_len w b \<and> length ct = ts_encrypt_len w b"
    using assms(1) u unfolding sdk_documented_def by blast
  have bytes: "plaintext_bytes p' = pt \<and> ciphertext_bytes c' = ct \<and> p' = plaintext_of a pt \<and> c' = ciphertext_of a ct"
    if "length pt = plaintext_size a" "length ct = ciphertext_size a"
    using that plaintext_of_wf(2) ciphertext_of_wf(2) by (simp add: p'_def c'_def)
  show "ret = TDQE_SUCCESS \<longleftrightarrow> res \<noteq> None" using eval err codes by (auto split: if_splits)
  show "contents b' = contents b \<or> b' = b"
    using eval sl us bytes by (auto split: if_splits)
  assume "res = Some (p, c)"
  then have *: "a \<in> supported" "n = get_tdqe_blob_size_for_algorithm w a" "s = 0" "ts_add_mac_len w b = plaintext_size a"
    "ts_encrypt_len w b = ciphertext_size a" "p = p'" "c = c'" "kp_seal_blob_type p' = seal_blob_type a"
    "kp_key_version p' = KEY_BLOB_VERSION_0" "(rs = Some False \<and> b' = b) \<or> (rs = Some True \<and> s2 = 0 \<and> b' = take n lb)"
    using eval by (auto simp: supported_iff split: if_splits)
  note us' = us [OF *(3), unfolded *(4,5)]
  have bt: "plaintext_bytes p' = pt" "ciphertext_bytes c' = ct" "p' = plaintext_of a pt" "c' = ciphertext_of a ct" using bytes us' by blast+
  have "plaintext_wf a p" "ciphertext_wf a c"
    unfolding *(6,7) bt(3,4) using us' plaintext_of_wf(1) ciphertext_of_wf(1) by blast+
  moreover have "contents b' = contents b \<and> (rs = Some False \<longrightarrow> b' = b) \<and> (rs = Some True \<longrightarrow> length b' = n)"
    using *(10) sl us' bt by auto
  ultimately show "a \<in> supported \<and> n = get_tdqe_blob_size_for_algorithm w a \<and> plaintext_wf a p \<and> ciphertext_wf a c
      \<and> kp_seal_blob_type p = seal_blob_type a \<and> kp_key_version p = KEY_BLOB_VERSION_0
      \<and> contents b = Some (plaintext_bytes p, ciphertext_bytes c) \<and> blob_key contents a b = Some (key_of p c)
      \<and> contents b' = contents b \<and> (rs = Some False \<longrightarrow> b' = b) \<and> (rs = Some True \<longrightarrow> length b' = n)"
    using * us' bt by (simp add: blob_key_def)
qed

section \<open>The commands on a blob\<close>

text \<open>
  A command of the enclave takes a blob and may replace it. The contract: on success the blob holds the key it held
  before; a safe command keeps the key when it fails as well.
\<close>

locale blob_command =
  fixes cmd :: "tdqe_sdk \<Rightarrow> byte list \<Rightarrow> int \<times> byte list"
  assumes keeps_key: "sdk_documented contents w \<Longrightarrow> runs_at cpu isv w \<Longrightarrow> a \<in> supported
    \<Longrightarrow> blob_key contents a b = Some k \<Longrightarrow> cmd w b = (TDQE_SUCCESS, b') \<Longrightarrow> blob_key contents a b' = Some k"

locale safe_blob_command = blob_command +
  assumes keeps_on_failure: "sdk_documented contents w \<Longrightarrow> cmd w b = (ret, b') \<Longrightarrow> ret \<noteq> TDQE_SUCCESS
    \<Longrightarrow> contents b' = contents b"
begin

lemma always_keeps_key:
  assumes "sdk_documented contents w" "runs_at cpu isv w" "a \<in> supported" "blob_key contents a b = Some k" "cmd w b = (ret, b')"
  shows "blob_key contents a b' = Some k"
proof (cases "ret = TDQE_SUCCESS")
  case True
  with assms show ?thesis by (metis keeps_key)
next
  case False
  with keeps_on_failure [OF assms(1,5)] assms(4) show ?thesis by (simp add: blob_key_def)
qed

end

definition verify_command :: "bool \<Rightarrow> nat \<Rightarrow> bool \<Rightarrow> tdqe_sdk \<Rightarrow> byte list \<Rightarrow> int \<times> byte list" where
  "verify_command has_report_body pub_key_id_size has_pub_key_id w b =
     (let r = verify_blob w (Some b) (length b) True has_report_body pub_key_id_size has_pub_key_id in (bk_ret r, bk_blob r))"

definition store_command ::
  "byte list \<Rightarrow> nat \<Rightarrow> nat \<Rightarrow> byte list option \<Rightarrow> nat \<Rightarrow> tdqe_sdk \<Rightarrow> byte list \<Rightarrow> int \<times> byte list" where
  "store_command input isize key_type ppid ppid_size w b =
     store_cert_data w (Some input) isize key_type ppid ppid_size (Some b) (length b)"

definition quote_command ::
  "nat \<Rightarrow> sgx_report2 \<Rightarrow> byte list option \<Rightarrow> byte list option \<Rightarrow> byte list option \<Rightarrow> byte list \<Rightarrow> byte list option \<Rightarrow> nat
     \<Rightarrow> tdqe_sdk \<Rightarrow> byte list \<Rightarrow> int \<times> byte list" where
  "quote_command alg r nonce target report buf cert cert_size' w b =
     (let q = gen_quote w (Some b) (length b) alg (Some r) nonce target report (Some buf) (length buf) cert cert_size' in
      (qr_ret q, qr_blob q))"

lemma tdqe_codes_nonzero [simp]:
  "sdk_error w s \<noteq> TDQE_SUCCESS" "TDQE_ECDSABLOB_ERROR \<noteq> TDQE_SUCCESS" "TDQE_ERROR_INVALID_PARAMETER \<noteq> TDQE_SUCCESS"
  "TDQE_ERROR_INVALID_PLATFORM \<noteq> TDQE_SUCCESS" "TDQE_ERROR_UNEXPECTED \<noteq> TDQE_SUCCESS"
  "TDQE_ERROR_OUT_OF_MEMORY \<noteq> TDQE_SUCCESS" "TDQE_ERROR_UNSUPPORTED_ATT_KEY_ID \<noteq> TDQE_SUCCESS"
  "TDQE_ERROR_CRYPTO \<noteq> TDQE_SUCCESS" "TDQE_ERROR_ATT_KEY_GEN \<noteq> TDQE_SUCCESS"
  "TDQE_UNABLE_TO_GENERATE_QE_REPORT \<noteq> TDQE_SUCCESS" "TDQE_REPORT_FORMAT_NOT_SUPPORTED \<noteq> TDQE_SUCCESS"
  "TDQE_ERROR_INVALID_REPORT \<noteq> TDQE_SUCCESS" "TDQE_ERROR_INVALID_HASH \<noteq> TDQE_SUCCESS"
  by (simp_all add: sdk_error_def tdqe_status_defs TDQE_ECDSABLOB_ERROR_def TDQE_ERROR_INVALID_PLATFORM_def
      TDQE_ERROR_UNSUPPORTED_ATT_KEY_ID_def TDQE_UNABLE_TO_GENERATE_QE_REPORT_def TDQE_REPORT_FORMAT_NOT_SUPPORTED_def
      TDQE_ERROR_INVALID_REPORT_def TDQE_ERROR_INVALID_HASH_def)

lemma blob_key_cong: "contents b' = contents b \<Longrightarrow> blob_key contents a b' = blob_key contents a b"
  by (simp add: blob_key_def)

lemma verify_any_contents:
  assumes "sdk_documented contents w"
  shows "contents (bk_blob (verify_blob_any_internal w (Some b) n f1 f2 f3 m)) = contents b"
proof -
  obtain s pt ct where u: "ts_unseal w b = (s, pt, ct)" by (metis prod_cases3)
  obtain s1 r where r: "ts_create_report w 0 None (replicate 64 0) = (s1, r)" by (metis prod.collapse)
  obtain s2 lb where l: "ts_seal w pt ct n = (s2, lb)" by (metis prod.collapse)
  have "s2 = 0 \<Longrightarrow> length lb = n \<and> contents lb = Some (pt, ct)" using assms l unfolding sdk_documented_def by blast
  moreover have "s = 0 \<Longrightarrow> contents b = Some (pt, ct)" using assms u unfolding sdk_documented_def by blast
  ultimately show ?thesis
    by (simp add: verify_blob_any_internal_def Let_def u r l split: option.split)
qed

lemma verify_command_contents:
  assumes "sdk_documented contents w" "verify_command f1 m f2 w b = (ret, b')"
  shows "contents b' = contents b"
  using assms(2) verify_any_contents [OF assms(1)]
  by (auto simp: verify_command_def verify_blob_def Let_def split: if_splits)

interpretation vb: safe_blob_command "verify_command f1 m f2" for f1 m f2
proof
  fix contents w cpu isv a b k b'
  assume *: "sdk_documented contents w" "verify_command f1 m f2 w b = (TDQE_SUCCESS, b')" "blob_key contents a b = Some k"
  from blob_key_cong [OF verify_command_contents [OF *(1,2)]] *(3) show "blob_key contents a b' = Some k" by simp
next
  fix contents w b ret b'
  assume "sdk_documented contents w" "verify_command f1 m f2 w b = (ret, b')"
  then show "contents b' = contents b" by (rule verify_command_contents)
qed

lemma quote_command_contents:
  assumes "sdk_documented contents w" "quote_command alg r nonce target report buf cert csize w b = (ret, b')"
  shows "contents b' = contents b"
proof -
  have "contents b1 = contents b" if "verify_blob_data_any_internal w (Some b) n alg = (ret1, b1, rs, res)" for n ret1 b1 rs res
    using verify_data_outcome(1) [OF assms(1) that] by auto
  then show ?thesis
    using assms(2)
    by (auto simp: quote_command_def gen_quote_def Let_def split: if_splits option.splits sum.splits prod.splits)
qed

interpretation gq: safe_blob_command "quote_command alg r nonce target report buf cert csize"
  for alg r nonce target report buf cert csize
proof
  fix contents w cpu isv a b k b'
  assume *: "sdk_documented contents w" "quote_command alg r nonce target report buf cert csize w b = (TDQE_SUCCESS, b')" "blob_key contents a b = Some k"
  from blob_key_cong [OF quote_command_contents [OF *(1,2)]] *(3) show "blob_key contents a b' = Some k" by simp
next
  fix contents w b ret b'
  assume "sdk_documented contents w" "quote_command alg r nonce target report buf cert csize w b = (ret, b')"
  then show "contents b' = contents b" by (rule quote_command_contents)
qed

lemma certified_key [simp]: "key_of (certified r i p) (with_ppid ppid n c) = key_of p c"
  by (simp add: key_of_def certified_def with_ppid_def split: option.split)

lemma certified_wf:
  assumes "plaintext_wf a p" "plaintext_wf a i" "length r = sizeof_report"
  shows "plaintext_wf a (certified r i p)" "kp_seal_blob_type (certified r i p) = kp_seal_blob_type p"
    "kp_key_version (certified r i p) = kp_key_version p"
  using assms by (simp_all add: plaintext_wf_def plaintext_parts_def plaintext_fields_def certified_def report_cpu_svn_def
      report_isv_svn_def)

lemma with_ppid_wf:
  "ciphertext_wf a c \<Longrightarrow> n = REF_RSA_OAEP_3072_MOD_SIZE \<Longrightarrow> ciphertext_wf a (with_ppid ppid n c)"
  by (simp add: ciphertext_wf_def ciphertext_parts_def ciphertext_fields_def with_ppid_def split: option.split)

text \<open>What a successful certification did.\<close>

lemma store_cert_ok:
  assumes "sdk_documented contents w" "runs_at cpu isv w"
    "store_cert_data w (Some input) isize key_type ppid ppid_size (Some b) n = (TDQE_SUCCESS, b')"
  shows "\<exists>a p c r. a \<in> supported \<and> n = get_tdqe_blob_size_for_algorithm w a \<and> isize = plaintext_size a
    \<and> (let i = plaintext_of a (written (plaintext_size a) input) in
         blob_key contents a b = Some (key_of p c) \<and> contents b = Some (plaintext_bytes p, ciphertext_bytes c)
         \<and> plaintext_wf a p \<and> ciphertext_wf a c
         \<and> kp_key_id p = take 32 (report_report_data (kp_qe_report i))
         \<and> contents b' = Some (plaintext_bytes (certified r i p), ciphertext_bytes (with_ppid ppid ppid_size c))
         \<and> report_cpu_svn r = cpu \<and> report_isv_svn r = isv \<and> length r = sizeof_report
         \<and> plaintext_wf a (certified r i p) \<and> ciphertext_wf a (with_ppid ppid ppid_size c)
         \<and> blob_key contents a b' = Some (key_of p c) \<and> length b' = n)"
proof -
  define a where "a = algorithm_of_blob_size w n"
  define i where "i = plaintext_of a (written (plaintext_size a) input)"
  obtain ret b1 rs res where v: "verify_blob_data_any_internal w (Some b) n a = (ret, b1, rs, res)" by (metis prod_cases4)
  obtain s r where r: "ts_create_report w 1 None (replicate 64 0) = (s, r)" by (metis prod.collapse)
  note eval = assms(3) [unfolded store_cert_data_def Let_def a_def [symmetric] i_def [symmetric] obj_simps v prod.case r]
  have ret: "ret = TDQE_SUCCESS \<longleftrightarrow> res \<noteq> None" by (rule verify_data_outcome(2) [OF assms(1) v])
  then obtain p c where res: "res = Some (p, c)"
    using eval by (cases res) (auto split: if_splits)
  note vd = verify_data_outcome(3) [OF assms(1) v res]
  obtain s2 sb where l: "ts_seal w (plaintext_bytes (certified r i p)) (ciphertext_bytes (with_ppid ppid ppid_size c)) n = (s2, sb)"
    by (metis prod.collapse)
  from eval res l have *: "kp_key_id p = take 32 (report_report_data (kp_qe_report i))" "s = 0" "s2 = 0" "b' = sb"
    "isize = plaintext_size a" "ppid \<noteq> None \<Longrightarrow> ppid_size = REF_RSA_OAEP_3072_MOD_SIZE"
    by (auto split: if_splits)
  have rr: "length r = sizeof_report" "report_cpu_svn r = cpu" "report_isv_svn r = isv"
    using assms(2) r *(2) unfolding runs_at_def by blast+
  have iw: "plaintext_wf a i" unfolding i_def by (rule plaintext_of_wf) simp
  have cw: "ciphertext_wf a (with_ppid ppid ppid_size c)"
  proof (cases ppid)
    case None with vd show ?thesis by (simp add: with_ppid_def)
  next
    case (Some x) with vd *(6) show ?thesis by (intro with_ppid_wf) auto
  qed
  have pw: "plaintext_wf a (certified r i p)" using certified_wf(1) vd iw rr(1) by blast
  have l': "ts_seal w (plaintext_bytes (certified r i p)) (ciphertext_bytes (with_ppid ppid ppid_size c)) n = (0, b')"
    using l * by simp
  have sealed: "blob_key contents a b' = Some (key_of p c)" "length b' = n"
    "contents b' = Some (plaintext_bytes (certified r i p), ciphertext_bytes (with_ppid ppid ppid_size c))"
    using sealed_key [OF assms(1) l' pw cw] vd certified_wf(2,3) [of a p i r] iw rr(1) by auto
  show ?thesis
    unfolding Let_def using vd * rr iw cw pw sealed unfolding i_def by blast
qed

lemma blob_key_unique:
  "a \<in> supported \<Longrightarrow> a' \<in> supported \<Longrightarrow> blob_key contents a b = Some k \<Longrightarrow> blob_key contents a' b = Some k' \<Longrightarrow> a = a'"
  using plaintext_size_inj by (auto simp: blob_key_def split: option.splits if_splits)

interpretation sc: blob_command "store_command input isize key_type ppid ppid_size" for input isize key_type ppid ppid_size
proof
  fix contents w cpu isv a b k b'
  assume *: "sdk_documented contents w" "runs_at cpu isv w" "a \<in> supported" "blob_key contents a b = Some k"
    "store_command input isize key_type ppid ppid_size w b = (TDQE_SUCCESS, b')"
  obtain a' p c where "a' \<in> supported" "blob_key contents a' b = Some (key_of p c)" "blob_key contents a' b' = Some (key_of p c)"
    using store_cert_ok [OF *(1,2) *(5) [unfolded store_command_def]] unfolding Let_def by blast
  with * blob_key_unique show "blob_key contents a b' = Some k" by (metis option.inject)
qed

section \<open>Key generation\<close>

lemma cut_fields_zeros: "cut_fields ns (replicate (sum_list ns) x) = map (\<lambda>n. replicate n x) ns"
  by (induction ns) auto

lemma zero_plaintext_simps:
  "plaintext_wf a (zero_plaintext a)" "kp_att_public_key (zero_plaintext a) = replicate (pub_key_size a) 0"
  "kp_authentication_data (zero_plaintext a) = replicate 32 0"
proof -
  show "plaintext_wf a (zero_plaintext a)" unfolding zero_plaintext_def by (rule plaintext_of_wf) simp
  show "kp_att_public_key (zero_plaintext a) = replicate (pub_key_size a) 0"
    "kp_authentication_data (zero_plaintext a) = replicate 32 0"
    unfolding zero_plaintext_def plaintext_of_def plaintext_size_def cut_fields_zeros Let_def
    by (simp_all add: plaintext_fields_def REF_ECDSDA_AUTHENTICATION_DATA_SIZE_def)
qed

lemma zero_ciphertext_simps:
  "ciphertext_wf a (zero_ciphertext a)" "kc_private_key (zero_ciphertext a) = replicate (private_key_size a) 0"
  "kc_is_clear_ppid (zero_ciphertext a) = 0"
proof -
  show "ciphertext_wf a (zero_ciphertext a)" unfolding zero_ciphertext_def by (rule ciphertext_of_wf) simp
  show "kc_private_key (zero_ciphertext a) = replicate (private_key_size a) 0" "kc_is_clear_ppid (zero_ciphertext a) = 0"
    unfolding zero_ciphertext_def ciphertext_of_def ciphertext_size_def cut_fields_zeros Let_def
    by (simp_all add: ciphertext_fields_def)
qed

text \<open>Keys, digests and structures have their documented sizes; mldsa-native writes its buffers in place.\<close>

definition sizes_documented :: "tdqe_sdk \<Rightarrow> bool" where
  "sizes_documented w \<longleftrightarrow>
     (\<forall>m h. ts_sha256 w m = (0, h) \<longrightarrow> length h = 32)
     \<and> (\<forall>seed n p. ts_calculate_priv_key w seed n = (0, p) \<longrightarrow> length p = 32)
     \<and> (\<forall>p gx gy. ts_calculate_pub_key w p = (0, gx, gy) \<longrightarrow> length gx = 32 \<and> length gy = 32)
     \<and> (\<forall>f \<in> {mldsa44 (te_native w), mldsa65 (te_native w), mldsa87 (te_native w)}. \<forall>pk sk s r pk' sk'.
          fn_keygen f pk sk s = (r, pk', sk') \<longrightarrow> length pk' = length pk \<and> length sk' = length sk)
     \<and> (\<forall>m k s. ts_ecdsa_sign w m k = (0, s) \<longrightarrow> length s = 64)
     \<and> (\<forall>f \<in> {mldsa44 (te_native w), mldsa65 (te_native w), mldsa87 (te_native w)}. \<forall>sig m pre rnd sk r sig' n.
          fn_sign f sig m pre rnd sk 0 = (r, sig', n) \<longrightarrow> length sig' = length sig)"

lemma documented_lengths:
  "sizes_documented w \<Longrightarrow> ts_sha256 w m = (0, h) \<Longrightarrow> length h = 32"
  "sizes_documented w \<Longrightarrow> ts_ecdsa_sign w m k = (0, s) \<Longrightarrow> length s = 64"
  by (simp_all add: sizes_documented_def)

text \<open>The key pair that the enclave derives from its seal key.\<close>

definition derived_key :: "tdqe_sdk \<Rightarrow> nat \<Rightarrow> byte list \<Rightarrow> byte list \<Rightarrow> bool" where
  "derived_key w a priv pub \<longleftrightarrow>
     (if a = SGX_QL_ALG_ECDSA_P256 then get_att_key_based_from_seal_key w (replicate 32 0) = (TDQE_SUCCESS, priv, pub)
      else get_att_key_based_from_seal_key_mldsa (tdqe_env.truncate w) a (Some (replicate (pub_key_size a) 0))
             (Some (replicate (private_key_size a) 0)) (Some (replicate 32 0)) = (TDQE_SUCCESS, Some pub, Some priv))"

lemma length_SWAP_ENDIAN_32B [simp]: "length (SWAP_ENDIAN_32B p) = 32"
  by (simp add: SWAP_ENDIAN_32B_def length_concat comp_def upt_rec)

lemma te_native_truncate [simp]: "te_native (tdqe_env.truncate w) = te_native w"
  by (simp add: tdqe_env.defs)

lemma seal_seed_error: "seal_seed w k \<noteq> Inl TDQE_SUCCESS"
  by (auto simp: seal_seed_def seed_blocks_def seed_block_def split: sum.splits prod.splits if_splits)

lemma derived_key_sizes:
  assumes "derived_key w a priv pub" "sizes_documented w" "a \<in> supported"
  shows "length priv = private_key_size a" "length pub = pub_key_size a"
proof -
  have "length priv = private_key_size a \<and> length pub = pub_key_size a"
  proof (cases "a = SGX_QL_ALG_ECDSA_P256")
    case True
    with assms(1) obtain s gx gy where "ts_calculate_priv_key w (xor_swap (HASH_DRBG_OUT_LEN div 2) 0 s)
          (concat (map le32 g_sgx_nistp256_r_m1)) = (0, priv)" "ts_calculate_pub_key w priv = (0, gx, gy)"
        "pub = SWAP_ENDIAN_32B gx @ SWAP_ENDIAN_32B gy"
      by (auto simp: derived_key_def get_att_key_based_from_seal_key_def Let_def seal_seed_error
          split: sum.splits prod.splits if_splits)
    with True assms(2) show ?thesis
      unfolding sizes_documented_def by (auto simp: private_key_size_def pub_key_size_def alg_defs)
  next
    case False
    with assms(1) have "get_att_key_based_from_seal_key_mldsa (tdqe_env.truncate w) a (Some (replicate (pub_key_size a) 0))
        (Some (replicate (private_key_size a) 0)) (Some (replicate 32 0)) = (TDQE_SUCCESS, Some pub, Some priv)"
      by (simp add: derived_key_def)
    then obtain s f r where "fn_keygen f (replicate (pub_key_size a) 0) (replicate (private_key_size a) 0) s = (r, pub, priv)"
        "f \<in> {mldsa44 (te_native w), mldsa65 (te_native w), mldsa87 (te_native w)}"
      by (auto simp: get_att_key_based_from_seal_key_mldsa_def Let_def adapter_defs tdqe_mldsa_keygen_def
          get_mldsa_backend_def split: prod.splits if_splits option.splits)
    with assms(2) show ?thesis unfolding sizes_documented_def by (metis length_replicate)
  qed
  then show "length priv = private_key_size a" "length pub = pub_key_size a" by simp_all
qed

text \<open>The authentication data the key is bound to.\<close>

definition auth_data_of :: "byte list option \<Rightarrow> byte list" where
  "auth_data_of p_authentication_data = (case p_authentication_data of None \<Rightarrow> replicate 32 0 | Some d \<Rightarrow> written 32 d)"

lemma mldsa_derivation_total:
  "\<exists>ret pk sk. get_att_key_based_from_seal_key_mldsa w a (Some pk0) (Some sk0) k = (ret, Some pk, Some sk)"
  by (auto simp: get_att_key_based_from_seal_key_mldsa_def Let_def adapter_defs tdqe_mldsa_keygen_def
      split: prod.splits option.splits)

text \<open>The structures both key types seal.\<close>

definition new_plaintext :: "nat \<Rightarrow> byte list option \<Rightarrow> nat \<Rightarrow> byte list \<Rightarrow> byte list \<Rightarrow> key_plaintext" where
  "new_plaintext a auth asz pub h = (zero_plaintext a)\<lparr>kp_authentication_data_size := word_of_nat asz,
     kp_authentication_data := auth_data_of auth, kp_att_public_key := pub, kp_key_id := h,
     kp_seal_blob_type := seal_blob_type a, kp_key_version := KEY_BLOB_VERSION_0\<rparr>"

definition new_ciphertext :: "nat \<Rightarrow> byte list \<Rightarrow> key_ciphertext" where
  "new_ciphertext a priv = (zero_ciphertext a)\<lparr>kc_private_key := priv\<rparr>"

lemma length_auth_data_of [simp]: "length (auth_data_of auth) = 32"
  by (simp add: auth_data_of_def split: option.split)

lemma new_structures:
  assumes "length pub = pub_key_size a" "length h = 32" "length priv = private_key_size a"
  shows "plaintext_wf a (new_plaintext a auth asz pub h)" "ciphertext_wf a (new_ciphertext a priv)"
    "kp_seal_blob_type (new_plaintext a auth asz pub h) = seal_blob_type a"
    "kp_key_version (new_plaintext a auth asz pub h) = KEY_BLOB_VERSION_0"
    "key_of (new_plaintext a auth asz pub h) (new_ciphertext a priv)
       = \<lparr>ak_private = priv, ak_public = pub, ak_id = h, ak_auth_size = word_of_nat asz, ak_auth_data = auth_data_of auth\<rparr>"
  using assms zero_plaintext_simps(1) [of a] zero_ciphertext_simps(1) [of a]
  by (simp_all add: new_plaintext_def new_ciphertext_def plaintext_wf_def plaintext_parts_def plaintext_fields_def
      ciphertext_wf_def ciphertext_parts_def ciphertext_fields_def key_of_def REF_ECDSDA_AUTHENTICATION_DATA_SIZE_def)

lemma auth_update:
  assumes "kp_authentication_data p = replicate 32 0"
  shows "(case auth of None \<Rightarrow> p | Some d \<Rightarrow> p\<lparr>kp_authentication_data := written REF_ECDSDA_AUTHENTICATION_DATA_SIZE d\<rparr>)
     = p\<lparr>kp_authentication_data := auth_data_of auth\<rparr>"
  using assms by (simp add: auth_data_of_def REF_ECDSDA_AUTHENTICATION_DATA_SIZE_def split: option.split)

text \<open>The sequence of calls both key types make when they succeed.\<close>

lemma gen_att_key_calls:
  assumes "gen_att_key w (Some b0) n a (Some t) (Some r0) auth asz = (TDQE_SUCCESS, b, r)"
  shows "a \<in> supported" "n = get_tdqe_blob_size_for_algorithm w a" "pce_target_accepted t"
    "asz = (case auth of None \<Rightarrow> 0 | Some _ \<Rightarrow> 32)"
    "\<exists>priv pub h. derived_key w a priv pub \<and> ts_sha256 w (pub @ auth_data_of auth) = (0, h)
        \<and> ts_create_report w 0 (Some t) (h @ replicate 32 0) = (0, r)
        \<and> ts_seal w (plaintext_bytes (new_plaintext a auth asz pub h)) (ciphertext_bytes (new_ciphertext a priv)) n = (0, b)"
proof -
  note checks = assms [unfolded gen_att_key_def Let_def]
  show *: "a \<in> supported" "n = get_tdqe_blob_size_for_algorithm w a" "pce_target_accepted t"
      "asz = (case auth of None \<Rightarrow> 0 | Some _ \<Rightarrow> 32)"
    using checks by (auto simp: supported_iff REF_ECDSDA_AUTHENTICATION_DATA_SIZE_def split: if_splits option.splits)
  have asz: "ucast (word_of_nat asz :: u16) = (word_of_nat asz :: u32)" using *(4) by (auto split: option.splits)
  show "\<exists>priv pub h. derived_key w a priv pub \<and> ts_sha256 w (pub @ auth_data_of auth) = (0, h)
        \<and> ts_create_report w 0 (Some t) (h @ replicate 32 0) = (0, r)
        \<and> ts_seal w (plaintext_bytes (new_plaintext a auth asz pub h)) (ciphertext_bytes (new_ciphertext a priv)) n = (0, b)"
  proof (cases "a = SGX_QL_ALG_ECDSA_P256")
    case True
    then have "gen_att_key_ecdsa_impl w b0 n t r0 auth asz = (TDQE_SUCCESS, b, r)"
      using checks by (simp split: if_splits)
    then show ?thesis
      using True asz
      by (auto simp: gen_att_key_ecdsa_impl_def Let_def derived_key_def auth_update new_plaintext_def
          new_ciphertext_def zero_plaintext_simps seal_blob_type_def alg_defs split: prod.splits if_splits)
  next
    case False
    then obtain x where i: "gen_att_key_mldsa_impl w b0 n a t r0 auth asz = (TDQE_SUCCESS, b, r, x)"
      using checks by (auto split: if_splits prod.splits)
    obtain ret pk sk where k: "get_att_key_based_from_seal_key_mldsa (tdqe_env.truncate w) a (Some (replicate (pub_key_size a) 0))
        (Some (replicate (private_key_size a) 0)) (Some (replicate 32 0)) = (ret, Some pk, Some sk)"
      using mldsa_derivation_total by blast
    from i k False show ?thesis
      by (auto simp: gen_att_key_mldsa_impl_def Let_def derived_key_def auth_update new_plaintext_def
          new_ciphertext_def zero_plaintext_simps zero_ciphertext_simps split: prod.splits if_splits)
  qed
qed

lemma gen_att_key_ok:
  assumes "sdk_documented contents w" "runs_at cpu isv w" "sizes_documented w"
    "gen_att_key w (Some b0) n a (Some t) (Some r0) auth asz = (TDQE_SUCCESS, b, r)"
  shows "\<exists>priv pub h. derived_key w a priv pub \<and> ts_sha256 w (pub @ auth_data_of auth) = (0, h)
      \<and> report_report_data r = h @ replicate 32 0 \<and> ts_create_report w 0 (Some t) (h @ replicate 32 0) = (0, r)
      \<and> blob_key contents a b = Some \<lparr>ak_private = priv, ak_public = pub, ak_id = h, ak_auth_size = word_of_nat asz,
           ak_auth_data = auth_data_of auth\<rparr> \<and> length b = n"
proof -
  note calls = gen_att_key_calls [OF assms(4)]
  then obtain priv pub h where *: "derived_key w a priv pub" "ts_sha256 w (pub @ auth_data_of auth) = (0, h)"
      "ts_create_report w 0 (Some t) (h @ replicate 32 0) = (0, r)"
      "ts_seal w (plaintext_bytes (new_plaintext a auth asz pub h)) (ciphertext_bytes (new_ciphertext a priv)) n = (0, b)"
    by blast
  have h: "length h = 32" by (rule documented_lengths(1) [OF assms(3) *(2)])
  note s = new_structures [OF derived_key_sizes(2) [OF *(1) assms(3) calls(1)] h derived_key_sizes(1) [OF *(1) assms(3) calls(1)]]
  have "report_report_data r = h @ replicate 32 0"
    using assms(2) *(3) h unfolding runs_at_def by (metis length_append length_replicate numeral_Bit0)
  with * sealed_key(1,2) [OF assms(1) *(4) s(1-4)] s(5) [of auth asz] show ?thesis by auto
qed

end
