(* ===== verification/Tdqe_Attest.thy ===== *)
theory Tdqe_Attest
  imports Tdqe_Key
begin

text \<open>
  What gen_quote does when it succeeds: the checks it passed, the signature, and the quote it returns, written down as
  \<open>signed_quote\<close> with the lengths its parts have.
\<close>

section \<open>The quote\<close>

definition report_wf :: "sgx_report2 \<Rightarrow> bool" where
  "report_wf r \<longleftrightarrow> length (r2_tee_tcb_info r) = 239 \<and> length (r2_tee_info r) = 512 \<and> length (rm_report_data (r2_mac r)) = 64"

definition front_size :: "quote_version \<Rightarrow> nat" where
  "front_size v = (if gen_v5_quote v
     then sizeof_quote5_t + (if tdid_present v \<or> vmid_present v then sizeof_body_v1_5_ex else sizeof_body_v1_5)
     else sizeof_quote4_t - 4)"

lemma length_field_at [simp]: "off + n \<le> length bs \<Longrightarrow> length (field_at off n bs) = n"
  by (simp add: field_at_def)

lemmas report_fields = tcb_valid_def tcb_tee_tcb_svn_def tcb_mr_seam_def tcb_tee_tcb_svn2_def ti_attributes_def ti_xfam_def
  ti_mr_td_def ti_mr_config_id_def ti_mr_owner_def ti_mr_owner_config_def ti_rt_mr_def ti_mr_servicetd_def ti_td_id_def
  ti_vmid_def

lemma length_quote_header [simp]: "length qe_id = 16 \<Longrightarrow> length (quote_header v a qe_id) = 48"
  by (simp add: quote_header_def g_vendor_id_def)

lemma length_quote_front [simp]:
  assumes "report_wf r" "length qe_id = 16"
  shows "length (quote_front v a r qe_id) = front_size v"
  using assms
  by (simp add: quote_front_def front_size_def Let_def report_wf_def report2_body_bytes_def report2_body_v1_5_bytes_def
      report2_body_v1_5_ex_bytes_def with_svn2_def common_body_def report_fields)

lemma plaintext_wf_lengths:
  assumes "plaintext_wf a p"
  shows "length (kp_qe_id p) = 16" "length (kp_qe_report p) = 432" "length (kp_qe_report_cert_key_sig p) = 64"
    "length (kp_att_public_key p) = pub_key_size a" "length (kp_cert_cpu_svn p) = 16" "length (kp_cert_pce_info p) = 4"
    "length (kp_authentication_data p) = 32" "length (kp_key_id p) = 32"
  using assms by (simp_all add: plaintext_wf_def plaintext_parts_def plaintext_fields_def REF_ECDSDA_AUTHENTICATION_DATA_SIZE_def)

lemma ciphertext_wf_lengths:
  assumes "ciphertext_wf a c"
  shows "length (kc_private_key c) = private_key_size a" "length (kc_encrypted_ppid c) = 384"
  using assms by (simp_all add: ciphertext_wf_def ciphertext_parts_def ciphertext_fields_def REF_RSA_OAEP_3072_MOD_SIZE_def)

text \<open>
  A signature the enclave made with the private key over the message, and accepted under the public key. The quote has
  the coordinates of an ECDSA signature in big endian.
\<close>

definition signature_checked :: "tdqe_sdk \<Rightarrow> nat \<Rightarrow> byte list \<Rightarrow> byte list \<Rightarrow> byte list \<Rightarrow> byte list \<Rightarrow> bool" where
  "signature_checked w a priv pub msg sig \<longleftrightarrow>
     (if a = SGX_QL_ALG_ECDSA_P256
      then \<exists>raw. ts_ecdsa_sign w msg priv = (0, raw)
        \<and> ts_ecdsa_verify w msg (rev (take 32 pub) @ rev (drop 32 pub)) raw = (0, ts_ec_valid w)
        \<and> sig = rev (take 32 raw) @ rev (drop 32 raw)
      else tdqe_mldsa_sign (te_native w) a (Some (replicate (get_quote_signature_size a) 0)) (Some msg) (length msg) (Some priv)
          = (0, Some sig)
        \<and> tdqe_mldsa_verify (te_native w) a (Some sig) (Some msg) (length msg) (Some pub) = 0)"

lemma mldsa_message:
  "tdqe_mldsa_sign mn a sig (Some (m @ m')) (length m) sk = tdqe_mldsa_sign mn a sig (Some m) (length m) sk"
  "tdqe_mldsa_verify mn a sig' (Some (m @ m')) (length m) pk = tdqe_mldsa_verify mn a sig' (Some m) (length m) pk"
  by (simp_all add: tdqe_mldsa_sign_def tdqe_mldsa_verify_def case_prod_beta split: option.split)

lemma mldsa_signature_length:
  assumes "sizes_documented w" "tdqe_mldsa_sign (te_native w) a (Some sig) m n sk = (0, Some s)"
  shows "length s = length sig"
proof -
  from assms(2) obtain be m' pre sk' k where be: "get_mldsa_backend (te_native w) a = Some be"
      "fn_sign be sig m' pre (zero_rnd (te_native w)) sk' 0 = (0, s, k)"
    by (auto simp: tdqe_mldsa_sign_def Let_def split: option.splits prod.splits if_splits)
  from be(1) have "\<exists>f \<in> {mldsa44 (te_native w), mldsa65 (te_native w), mldsa87 (te_native w)}. fn_sign be = fn_sign f"
    by (auto simp: get_mldsa_backend_def split: if_splits)
  with be(2) assms(1) show ?thesis unfolding sizes_documented_def by metis
qed

lemma sign_quote_ok:
  assumes "sign_quote w a q (length (qf_front q)) priv pub = (TDQE_SUCCESS, q1)" "a \<in> supported" "length pub = pub_key_size a"
    "qf_sig q = replicate (get_quote_signature_size a) 0" "qf_pub_key q = replicate (pub_key_size a) 0" "sizes_documented w"
  shows "\<exists>sig. q1 = q\<lparr>qf_sig := sig, qf_pub_key := pub\<rparr> \<and> signature_checked w a priv pub (qf_front q) sig
    \<and> length sig = get_quote_signature_size a"
proof (cases "a = SGX_QL_ALG_ECDSA_P256")
  case True
  with assms(3) have "length pub = 64" by (simp add: pub_key_size_def alg_defs)
  then have pub: "SWAP_ENDIAN_32B (take 32 pub) @ SWAP_ENDIAN_32B (drop 32 pub) = rev (take 32 pub) @ rev (drop 32 pub)"
    by (simp add: swap_32b_rev)
  have m: "take (length (qf_front q)) (quote_bytes q) = qf_front q" by (simp add: quote_bytes_def)
  from assms(1) True obtain raw where raw: "ts_ecdsa_sign w (qf_front q) priv = (0, raw)"
      "ts_ecdsa_verify w (qf_front q) (rev (take 32 pub) @ rev (drop 32 pub)) raw = (0, ts_ec_valid w)"
      "q1 = q\<lparr>qf_sig := swap_coordinate 16 0 32 64 (swap_coordinate 16 0 0 32 raw), qf_pub_key := pub\<rparr>"
    unfolding sign_quote_def sign_quote_ecdsa_def m pub by (auto split: prod.splits if_splits)
  moreover from raw(1) assms(6) have l: "length raw = 64" by (rule documented_lengths(2) [rotated])
  moreover have "get_quote_signature_size a = 64" using True by (simp add: get_quote_signature_size_def alg_defs)
  ultimately show ?thesis
    by (intro exI [of _ "rev (take 32 raw) @ rev (drop 32 raw)"]) (simp add: True signature_checked_def swap_coordinates_rev)
next
  case False
  then have a: "quote_alg a = a" using assms(2) by (auto simp: supported_def quote_alg_def)
  obtain rest where qb: "quote_bytes q = qf_front q @ rest" by (simp add: quote_bytes_def)
  from assms(1) False obtain s where s: "tdqe_mldsa_sign (te_native w) a (Some (qf_sig q)) (Some (quote_bytes q)) (length (qf_front q))
        (Some priv) = (0, s)" "tdqe_mldsa_verify (te_native w) a s (Some (quote_bytes q)) (length (qf_front q)) (Some pub) = 0"
      "q1 = q\<lparr>qf_sig := obj s, qf_pub_key := take (pub_key_size a) pub @ drop (pub_key_size a) (qf_pub_key q)\<rparr>"
    by (auto simp: sign_quote_def sign_quote_alg a split: prod.splits if_splits)
  from s(1) obtain sig where sig: "s = Some sig" by (auto simp: sign_ok)
  have signed: "tdqe_mldsa_sign (te_native w) a (Some (replicate (get_quote_signature_size a) 0)) (Some (qf_front q))
      (length (qf_front q)) (Some priv) = (0, Some sig)"
    "tdqe_mldsa_verify (te_native w) a (Some sig) (Some (qf_front q)) (length (qf_front q)) (Some pub) = 0"
    by (rule s(1,2) [unfolded qb sig assms(4) mldsa_message])+
  moreover have "length sig = get_quote_signature_size a"
    using mldsa_signature_length [OF assms(6) signed(1)] by simp
  ultimately show ?thesis
    using s(3) assms(3,5) False sig by (auto simp: signature_checked_def)
qed


text \<open>
  The quote written down with the lengths its parts have: the certification data the caller gave, or the encrypted
  PPID and the TCB the key was certified at; the certification of the key by the PCE; the signature data.
\<close>

definition inner_certification :: "key_plaintext \<Rightarrow> key_ciphertext \<Rightarrow> byte list option \<Rightarrow> byte list" where
  "inner_certification p c cert =
     (case cert of None \<Rightarrow> le16 3 @ le32 404 @ kc_encrypted_ppid c @ kp_cert_cpu_svn p @ kp_cert_pce_info p | Some d \<Rightarrow> d)"

definition key_certification :: "key_plaintext \<Rightarrow> key_ciphertext \<Rightarrow> byte list option \<Rightarrow> byte list" where
  "key_certification p c cert = report_body (kp_qe_report p) @ kp_qe_report_cert_key_sig p
     @ le16 (ucast (kp_authentication_data_size p)) @ take (unat (kp_authentication_data_size p)) (kp_authentication_data p)
     @ inner_certification p c cert"

definition framed :: "byte list \<Rightarrow> byte list" where "framed bs = le32 (word_of_nat (length bs)) @ bs"

definition signed_quote :: "byte list \<Rightarrow> byte list \<Rightarrow> key_plaintext \<Rightarrow> key_ciphertext \<Rightarrow> byte list option \<Rightarrow> byte list" where
  "signed_quote front sig p c cert =
     front @ framed (sig @ kp_att_public_key p @ le16 6 @ framed (key_certification p c cert))"

lemma le_of_field:
  "off + 2 \<le> length bs \<Longrightarrow> le16 (get16 off bs) = take 2 (drop off bs)"
  "off + 4 \<le> length bs \<Longrightarrow> le32 (get32 off bs) = take 4 (drop off bs)"
  using le_encode_decode [of "take 2 (drop off bs)" 2] le_decode_bound [of "take 2 (drop off bs)"]
    le_encode_decode [of "take 4 (drop off bs)" 4] le_decode_bound [of "take 4 (drop off bs)"]
  by (simp_all add: le16_def get16_def le32_def get32_def unsigned_of_nat take_bit_nat_eq_self)

lemma cert_data_whole:
  assumes "cert_data_accepted (Some d) (length d)"
  shows "le16 (cert_type d) @ le32 (cert_size d) @ cert_contents d = d"
proof -
  have l: "length d = 6 + unat (cert_size d)" using assms by (simp add: cert_data_accepted_def)
  have "le16 (cert_type d) = take 2 d" using l by (simp add: cert_type_def le_of_field)
  moreover have "le32 (cert_size d) = take 4 (drop 2 d)" using l by (simp add: cert_size_def le_of_field)
  moreover have "cert_contents d = drop 6 d" using l by (simp add: cert_contents_def)
  ultimately show ?thesis
    using append_take_drop_id [of 2 d] append_take_drop_id [of 4 "drop 2 d"] by simp
qed

lemma quote_bytes_signed:
  assumes "a \<in> supported" "plaintext_wf a p" "ciphertext_wf a c" "unat (kp_authentication_data_size p) \<le> 32"
    "cert_data_accepted cert csize" "cert = None \<or> length (obj cert) = csize"
    "signature_data_size a p c cert = Some sign_size" "length sig = get_quote_signature_size a"
    "q = with_certification p c cert ((quote_frame v a r p sign_size n)\<lparr>qf_sig := sig, qf_pub_key := kp_att_public_key p\<rparr>)"
  shows "quote_bytes q = signed_quote (quote_front v a r (kp_qe_id p)) sig p c cert"
    "length (quote_bytes q) = length (quote_front v a r (kp_qe_id p)) + 4 + sign_size"
proof -
  note l = plaintext_wf_lengths [OF assms(2)] ciphertext_wf_lengths [OF assms(3)]
  have auth: "unat (ucast (kp_authentication_data_size p) :: u16) = unat (kp_authentication_data_size p)"
    using assms(4) by (simp add: unsigned_ucast_eq take_bit_nat_eq_self)
  then have auth': "ucast (ucast (kp_authentication_data_size p) :: u16) = kp_authentication_data_size p"
    by (simp add: word_unat_eq_iff unsigned_ucast_eq unsigned_take_bit_eq)
  have sizes: "get_quote_sig_data_struct_size a = get_quote_signature_size a + pub_key_size a"
    using assms(1) by (auto simp: supported_def get_quote_sig_data_struct_size_def get_quote_signature_size_def pub_key_size_def alg_defs)
  have "quote_bytes q = signed_quote (quote_front v a r (kp_qe_id p)) sig p c cert
    \<and> length (quote_bytes q) = length (quote_front v a r (kp_qe_id p)) + 4 + sign_size"
  proof (cases cert)
    case None
    then have n: "sign_size = length sig + pub_key_size a + 866 + unat (kp_authentication_data_size p)"
      using assms(7,8) sizes by (auto simp: signature_data_size_def Let_def split: if_splits)
    show ?thesis
      using None l assms(4,8) auth auth'
      by (simp add: assms(9) n with_certification_def quote_frame_def quote_bytes_def signed_quote_def framed_def
          key_certification_def inner_certification_def Let_def ECDSA_SIG_AUX_DATA_def PPID_RSA3072_ENCRYPTED_def report_body_def
          written_def add_ac)
  next
    case (Some d)
    then have n: "sign_size = length sig + pub_key_size a + 462 + unat (kp_authentication_data_size p) + unat (cert_size d)"
      using assms(7,8) sizes by (auto simp: signature_data_size_def Let_def split: if_splits)
    from Some assms(5,6) have d: "cert_data_accepted (Some d) (length d)" by simp
    then have "length d = 6 + unat (cert_size d)" by (simp add: cert_data_accepted_def)
    then show ?thesis
      using Some l assms(4,8) auth auth' cert_data_whole [OF d]
      by (simp add: assms(9) n with_certification_def quote_frame_def quote_bytes_def signed_quote_def framed_def
          key_certification_def inner_certification_def Let_def ECDSA_SIG_AUX_DATA_def report_body_def
          written_def add_ac)
  qed
  then show "quote_bytes q = signed_quote (quote_front v a r (kp_qe_id p)) sig p c cert"
    "length (quote_bytes q) = length (quote_front v a r (kp_qe_id p)) + 4 + sign_size" by blast+
qed


lemma signed_quote_in_buffer:
  assumes "quote_bytes q = sq" "length sq = n" "n \<le> required"
  shows "take n (in_buffer required buf q) = sq"
  using assms by (simp add: in_buffer_def)

lemma build_quote_ok:
  assumes "build_quote w a v r p c nt rep buf qsize cert = (TDQE_SUCCESS, quote, rep')" "a \<in> supported" "plaintext_wf a p"
    "ciphertext_wf a c" "report_wf r" "sizes_documented w" "unat (kp_authentication_data_size p) \<le> 32"
    "cert_data_accepted cert csize" "cert = None \<or> length (obj cert) = csize"
  shows "\<exists>sig. let sq = signed_quote (quote_front v a r (kp_qe_id p)) sig p c cert in
    signature_checked w a (kc_private_key c) (kp_att_public_key p) (quote_front v a r (kp_qe_id p)) sig
    \<and> take (length sq) quote = sq \<and> length sq \<le> qsize \<and> (length buf = qsize \<longrightarrow> length quote = qsize)
    \<and> (case nt of None \<Rightarrow> rep' = rep
       | Some (nonce, target) \<Rightarrow> \<exists>hash report. ts_sha256 w (nonce @ sq) = (0, hash)
           \<and> ts_create_report w 2 (Some target) (hash @ replicate 32 0) = (0, report) \<and> rep' = Some report)"
proof -
  define front where "front = quote_front v a r (kp_qe_id p)"
  define frame where "frame = quote_frame v a r p"
  define inner where "inner = (case cert of None \<Rightarrow> sizeof_encrypted_cert_info | Some d \<Rightarrow> unat (cert_size d))"
  have lf: "length front = front_size v" unfolding front_def by (rule length_quote_front [OF assms(5) plaintext_wf_lengths(1) [OF assms(3)]])
  obtain n where n: "signature_data_size a p c cert = Some n"
    using assms(1) by (cases "signature_data_size a p c cert") (simp_all add: build_quote_def)
  define q0 where "q0 = frame n inner"
  obtain ret q1 where s: "sign_quote w a q0 (length (qf_front q0)) (kc_private_key c) (kp_att_public_key p) = (ret, q1)"
    by (metis prod.collapse)
  have f0: "qf_front q0 = front" "qf_sig q0 = replicate (get_quote_signature_size a) 0"
    "qf_pub_key q0 = replicate (pub_key_size a) 0"
    by (simp_all add: q0_def frame_def quote_frame_def front_def Let_def)
  have sb: "(if gen_v5_quote v
       then sizeof_quote5_t + (if tdid_present v \<or> vmid_present v then sizeof_body_v1_5_ex else sizeof_body_v1_5)
       else sizeof_quote4_t - 4) = length (qf_front q0)" by (simp add: f0 lf front_size_def)
  note eval = assms(1) [unfolded build_quote_def n option.case Let_def sb inner_def [symmetric] frame_def [symmetric]
      q0_def [symmetric] s prod.case]
  from eval have ret: "ret = TDQE_SUCCESS" by (auto split: prod.splits if_splits)
  obtain sig where sig: "q1 = q0\<lparr>qf_sig := sig, qf_pub_key := kp_att_public_key p\<rparr>"
      "signature_checked w a (kc_private_key c) (kp_att_public_key p) front sig" "length sig = get_quote_signature_size a"
    using sign_quote_ok [OF s [unfolded ret] assms(2) plaintext_wf_lengths(4) [OF assms(3)] f0(2,3) assms(6)] f0(1) by auto
  define sq where "sq = signed_quote front sig p c cert"
  have sq: "quote_bytes (with_certification p c cert q1) = sq" "length sq = front_size v + 4 + n"
    using quote_bytes_signed [OF assms(2-4,7-9) n sig(3)] sig(1) lf
    by (simp_all add: sq_def q0_def frame_def front_def)
  have real: "(if gen_v5_quote v
       then (if tdid_present v \<or> vmid_present v then sizeof_quote5_t + sizeof_body_v1_5_ex + 4 + n
             else sizeof_quote5_t + sizeof_body_v1_5_ex + 4 + n - sizeof_body_v1_5_ex + sizeof_body_v1_5)
       else sizeof_quote4_t + n) = length sq" by (simp add: sq(2) front_size_def)
  have fits: "length sq \<le> sizeof_quote5_t + sizeof_body_v1_5_ex + 4 + n" by (simp add: sq(2) front_size_def)
  have taken: "take (length sq) (in_buffer (sizeof_quote5_t + sizeof_body_v1_5_ex + 4 + n) buf (with_certification p c cert q1)) = sq"
    by (rule signed_quote_in_buffer [OF sq(1) refl fits])
  have lq: "length (in_buffer (sizeof_quote5_t + sizeof_body_v1_5_ex + 4 + n) buf (with_certification p c cert q1)) = length buf"
    if "sizeof_quote5_t + sizeof_body_v1_5_ex + 4 + n \<le> length buf" using that sq(1) fits by (simp add: in_buffer_def)
  have "take (length sq) quote = sq \<and> length sq \<le> qsize \<and> (length buf = qsize \<longrightarrow> length quote = qsize)
    \<and> (case nt of None \<Rightarrow> rep' = rep
       | Some (nonce, target) \<Rightarrow> \<exists>hash report. ts_sha256 w (nonce @ sq) = (0, hash)
           \<and> ts_create_report w 2 (Some target) (hash @ replicate 32 0) = (0, report) \<and> rep' = Some report)"
    using eval [unfolded real] fits taken lq
    by (cases nt) (auto simp: taken split: prod.splits if_splits)
  with sig(2) show ?thesis unfolding front_def sq_def Let_def by blast
qed


lemma check_td_report_ok:
  "check_td_report w r = TDQE_SUCCESS \<Longrightarrow> ts_verify_report2 w (r2_mac r) = 0
     \<and> ts_sha384 w (r2_tee_tcb_info r) = (0, rm_tee_tcb_info_hash (r2_mac r))
     \<and> ts_sha384 w (r2_tee_info r) = (0, rm_tee_info_hash (r2_mac r))"
  by (auto simp: check_td_report_def split: prod.splits if_splits)

lemma determine_error: "determine_quote_version r \<noteq> Inl TDQE_SUCCESS"
  by (simp add: determine_quote_version_def Let_def)

text \<open>The checks of gen_quote, and the part behind them.\<close>

lemma gen_quote_calls:
  assumes "gen_quote w (Some b) n a (Some r) nonce target rep (Some buf) qsize cert csize = res" "qr_ret res = TDQE_SUCCESS"
  shows "\<exists>v blob rs p c. determine_quote_version r = Inr v \<and> check_td_report w r = TDQE_SUCCESS
    \<and> cert_data_accepted cert csize \<and> (target = None \<longleftrightarrow> nonce = None)
    \<and> verify_blob_data_any_internal w (Some b) n a = (TDQE_SUCCESS, blob, rs, Some (p, c)) \<and> qr_blob res = blob
    \<and> build_quote w a v r p c (case nonce of None \<Rightarrow> None | Some nn \<Rightarrow> Some (nn, obj target)) rep buf qsize cert
        = (TDQE_SUCCESS, qr_quote res, qr_qe_report res)"
proof -
  obtain ret blob rs d where v: "verify_blob_data_any_internal w (Some b) n a = (ret, blob, rs, d)" by (metis prod_cases4)
  have ok: "ret = TDQE_SUCCESS" if "d \<noteq> None"
    using v that by (auto simp: verify_blob_data_any_internal_def Let_def split: prod.splits if_splits)
  have failed: "ret \<noteq> TDQE_SUCCESS" if "d = None"
    using v that by (auto simp: verify_blob_data_any_internal_def Let_def split: prod.splits if_splits)
  define nt where "nt = (case nonce of None \<Rightarrow> None | Some nn \<Rightarrow> Some (nn, obj target))"
  note eval = assms(1) [unfolded gen_quote_def Let_def v obj_simps option.case prod.case nt_def [symmetric], symmetric]
  obtain vs where vs: "determine_quote_version r = Inr vs"
    using eval assms(2) determine_error by (cases "determine_quote_version r") (simp_all split: if_splits)
  have "d \<noteq> None" using eval assms(2) failed by (cases d) (simp_all add: vs split: if_splits)
  then obtain p c where d: "d = Some (p, c)" by auto
  obtain ret' quote report where b: "build_quote w a vs r p c nt rep buf qsize cert = (ret', quote, report)"
    by (metis prod_cases3)
  have "check_td_report w r = TDQE_SUCCESS \<and> cert_data_accepted cert csize \<and> (target = None \<longleftrightarrow> nonce = None)
      \<and> res = \<lparr>qr_ret = TDQE_SUCCESS, qr_blob = blob, qr_quote = quote, qr_qe_report = report\<rparr> \<and> ret' = TDQE_SUCCESS"
    using eval [unfolded vs d sum.case option.case prod.case b] assms(2) by (auto split: if_splits)
  then show ?thesis using vs v d b ok nt_def by auto
qed

end
