(* ===== verification/Tdqe_Fields.thy ===== *)
theory Tdqe_Fields
  imports Tdqe_Attest
begin

text \<open>
  The quote version against the table in the comment of determine_quote_version (\<open>documented_version\<close>), and where the
  fields of the TD report stand in the quote.
\<close>

section \<open>The version of the quote\<close>

text \<open>The table of the comment above determine_quote_version, with the validity field as a number.\<close>

definition documented_version :: "sgx_report2 \<Rightarrow> int + quote_version" where
  "documented_version r =
     (let version = rm_version (r2_mac r); preserving = (le_decode (tcb_valid r) = 0x301FF);
          moved = (tcb_tee_tcb_svn r \<noteq> tcb_tee_tcb_svn2 r) in
      if \<not> preserving \<and> le_decode (tcb_valid r) \<noteq> 0x1FF then Inl TDQE_REPORT_FORMAT_NOT_SUPPORTED
      else if version = 0 \<and> all_zero (ti_reserved_v1 r)
      then Inr \<lparr>gen_v5_quote = (preserving \<and> moved), mr_servicetd_valid = False, tee_tcb_svn2_valid = (preserving \<and> moved),
             tdid_present = False, vmid_present = False\<rparr>
      else if version = 1 \<and> all_zero (ti_reserved_v1_5 r)
      then Inr \<lparr>gen_v5_quote = True, mr_servicetd_valid = True, tee_tcb_svn2_valid = preserving, tdid_present = False,
             vmid_present = False\<rparr>
      else if version = 3 \<and> all_zero (ti_reserved_v1_5_ex r) \<and> ti_valid r AND 0xFE = 0 \<and> (bit (ti_valid r) 8 \<or> bit (ti_valid r) 9)
      then Inr \<lparr>gen_v5_quote = True, mr_servicetd_valid = True, tee_tcb_svn2_valid = preserving,
             tdid_present = bit (ti_valid r) 8, vmid_present = bit (ti_valid r) 9\<rparr>
      else Inl TDQE_REPORT_FORMAT_NOT_SUPPORTED)"

lemma eight_bytes:
  assumes "length v = 8"
  shows "\<exists>b0 b1 b2 b3 b4 b5 b6 b7. v = [b0, b1, b2, b3, b4, b5, b6, b7]"
  using assms by (auto simp: numeral_eq_Suc length_Suc_conv)

lemma le_decode_eq: "length v = 8 \<Longrightarrow> n < 2 ^ 64 \<Longrightarrow> le_decode v = n \<longleftrightarrow> v = le_encode 8 n"
  using le_encode_decode [of v 8] le_decode_encode [of 8 n] by auto

lemma valid_as_number:
  assumes "length v = 8"
  shows "le_decode v = 0x1FF \<longleftrightarrow> v ! 0 = 0xFF \<and> v ! 1 = 1 \<and> v ! 2 = 0 \<and> all_zero (drop 3 v)"
    "le_decode v = 0x301FF \<longleftrightarrow> v ! 0 = 0xFF \<and> v ! 1 = 1 \<and> v ! 2 = 3 \<and> all_zero (drop 3 v)"
    "all_zero (drop 2 v) \<longleftrightarrow> v ! 2 = 0 \<and> all_zero (drop 3 v)"
proof -
  obtain b0 b1 b2 b3 b4 b5 b6 b7 where v: "v = [b0, b1, b2, b3, b4, b5, b6, b7]" using eight_bytes [OF assms] by blast
  have eight: "(8 :: nat) = Suc (Suc (Suc (Suc (Suc (Suc (Suc (Suc 0)))))))" by simp
  have e: "le_encode 8 0x1FF = [0xFF, 1, 0, 0, 0, 0, 0, 0]" "le_encode 8 0x301FF = [0xFF, 1, 3, 0, 0, 0, 0, 0]"
    by (simp_all only: eight) simp_all
  show "le_decode v = 0x1FF \<longleftrightarrow> v ! 0 = 0xFF \<and> v ! 1 = 1 \<and> v ! 2 = 0 \<and> all_zero (drop 3 v)"
    "le_decode v = 0x301FF \<longleftrightarrow> v ! 0 = 0xFF \<and> v ! 1 = 1 \<and> v ! 2 = 3 \<and> all_zero (drop 3 v)"
    "all_zero (drop 2 v) \<longleftrightarrow> v ! 2 = 0 \<and> all_zero (drop 3 v)"
    using le_decode_eq [OF assms] by (auto simp: e v all_zero_def)
qed

lemma id_bits:
  "w AND td_id_bit = 0 \<longleftrightarrow> \<not> bit w 8" "w AND vm_id_bit = 0 \<longleftrightarrow> \<not> bit w 9"
proof -
  have "w AND 2 ^ 8 = 0 \<longleftrightarrow> \<not> bit w 8" "w AND 2 ^ 9 = 0 \<longleftrightarrow> \<not> bit w 9" by (simp_all only: and_exp_eq_0_iff_not_bit)
  then show "w AND td_id_bit = 0 \<longleftrightarrow> \<not> bit w 8" "w AND vm_id_bit = 0 \<longleftrightarrow> \<not> bit w 9"
    by (simp_all add: td_id_bit_def vm_id_bit_def)
qed

lemma quote_version_documented:
  assumes "report_wf r" shows "determine_quote_version r = documented_version r"
proof -
  have "length (tcb_valid r) = 8" using assms by (simp add: report_wf_def tcb_valid_def)
  note v = valid_as_number [OF this]
  have "critical_reserved = 0xFE" by (simp add: critical_reserved_def)
  then show ?thesis
    by (simp add: determine_quote_version_def documented_version_def Let_def v id_bits)
qed


section \<open>The fields of the quote\<close>

lemma version_flags:
  assumes "determine_quote_version r = Inr v"
  shows "tdid_present v \<or> vmid_present v \<Longrightarrow> gen_v5_quote v"
    "rm_version (r2_mac r) = 3 \<longleftrightarrow> tdid_present v \<or> vmid_present v"
  using assms by (auto simp: determine_quote_version_def Let_def split: if_splits)

definition quote_body :: "quote_version \<Rightarrow> byte list \<Rightarrow> byte list" where
  "quote_body v front = drop (if gen_v5_quote v then sizeof_quote5_t else 48) front"

text \<open>The body as one structure, of which the older forms have a beginning only.\<close>

definition body_of :: "quote_version \<Rightarrow> sgx_report2 \<Rightarrow> td_body" where
  "body_of v r = (let ex = tdid_present v \<or> vmid_present v;
       b = (common_body r)\<lparr>tb_report_data := (if ex then replicate 64 0 else rm_report_data (r2_mac r))\<rparr>;
       b1 = (if gen_v5_quote v then with_svn2 v r b else b) in
     b1\<lparr>tb_td_id := (if tdid_present v then ti_td_id r else replicate 32 0),
        tb_vmid := (if vmid_present v then ti_vmid r else [0])\<rparr>)"

lemma quote_body_front:
  assumes "length qe_id = 16" "tdid_present v \<or> vmid_present v \<longrightarrow> gen_v5_quote v"
  shows "quote_body v (quote_front v a r qe_id) =
    (if gen_v5_quote v then
       if tdid_present v \<or> vmid_present v then report2_body_v1_5_ex_bytes (body_of v r) else report2_body_v1_5_bytes (body_of v r)
     else report2_body_bytes (body_of v r))"
  using assms
  by (cases "gen_v5_quote v"; cases "tdid_present v"; cases "vmid_present v")
    (simp_all add: quote_body_def quote_front_def Let_def body_of_def with_svn2_def common_body_def report2_body_bytes_def
      report2_body_v1_5_bytes_def report2_body_v1_5_ex_bytes_def)

definition body_wf :: "td_body \<Rightarrow> bool" where
  "body_wf b \<longleftrightarrow> length (tb_tee_tcb_svn b) = 16 \<and> length (tb_mr_seam b) = 48 \<and> length (tb_td_attributes b) = 8
     \<and> length (tb_xfam b) = 8 \<and> length (tb_mr_td b) = 48 \<and> length (tb_mr_config_id b) = 48 \<and> length (tb_mr_owner b) = 48
     \<and> length (tb_mr_owner_config b) = 48 \<and> length (tb_rt_mr b) = 192 \<and> length (tb_report_data b) = 64
     \<and> length (tb_tee_tcb_svn2 b) = 16 \<and> length (tb_mr_servicetd b) = 48 \<and> length (tb_vmid b) = 1 \<and> length (tb_td_id b) = 32"

lemma body_of_wf: "report_wf r \<Longrightarrow> body_wf (body_of v r)"
  by (simp add: body_wf_def body_of_def with_svn2_def common_body_def Let_def report_wf_def report_fields)

lemma field_at_skip: "length xs \<le> off \<Longrightarrow> field_at off n (xs @ ys) = field_at (off - length xs) n ys"
  by (simp add: field_at_def)

lemma field_at_here: "length xs = n \<Longrightarrow> field_at 0 n (xs @ ys) = xs" "length xs = n \<Longrightarrow> field_at 0 n xs = xs"
  by (simp_all add: field_at_def)

lemma body_fields:
  assumes "body_wf b"
  shows "field_at 0 16 (report2_body_bytes b @ rest) = tb_tee_tcb_svn b" "field_at 16 48 (report2_body_bytes b @ rest) = tb_mr_seam b"
    "field_at 120 8 (report2_body_bytes b @ rest) = tb_td_attributes b" "field_at 128 8 (report2_body_bytes b @ rest) = tb_xfam b"
    "field_at 136 48 (report2_body_bytes b @ rest) = tb_mr_td b" "field_at 184 48 (report2_body_bytes b @ rest) = tb_mr_config_id b"
    "field_at 232 48 (report2_body_bytes b @ rest) = tb_mr_owner b"
    "field_at 280 48 (report2_body_bytes b @ rest) = tb_mr_owner_config b" "field_at 328 192 (report2_body_bytes b @ rest) = tb_rt_mr b"
    "field_at 520 64 (report2_body_bytes b @ rest) = tb_report_data b" "field_at (584 + n) k (report2_body_bytes b @ rest) = field_at n k rest"
  using assms by (simp_all add: body_wf_def report2_body_bytes_def field_at_skip field_at_here del: replicate_append_same)

lemma quote_body_parts:
  assumes "length qe_id = 16" "tdid_present v \<or> vmid_present v \<longrightarrow> gen_v5_quote v"
  shows "\<exists>tail. quote_body v (quote_front v a r qe_id) = report2_body_bytes (body_of v r)
    @ (if gen_v5_quote v then tb_tee_tcb_svn2 (body_of v r) @ tb_mr_servicetd (body_of v r)
         @ (if tdid_present v \<or> vmid_present v then tb_vmid (body_of v r) @ tb_td_id (body_of v r) @ tail else []) else [])"
  unfolding quote_body_front [OF assms] by (auto simp: report2_body_v1_5_ex_bytes_def report2_body_v1_5_bytes_def)

lemma body_of_fields:
  "tb_mr_seam (body_of v r) = tcb_mr_seam r" "tb_td_attributes (body_of v r) = ti_attributes r" "tb_xfam (body_of v r) = ti_xfam r"
  "tb_mr_td (body_of v r) = ti_mr_td r" "tb_mr_config_id (body_of v r) = ti_mr_config_id r" "tb_mr_owner (body_of v r) = ti_mr_owner r"
  "tb_mr_owner_config (body_of v r) = ti_mr_owner_config r" "tb_rt_mr (body_of v r) = ti_rt_mr r"
  "tb_report_data (body_of v r) = (if tdid_present v \<or> vmid_present v then replicate 64 0 else rm_report_data (r2_mac r))"
  "tb_tee_tcb_svn (body_of v r) = (if gen_v5_quote v \<and> \<not> tee_tcb_svn2_valid v then tcb_tee_tcb_svn2 r else tcb_tee_tcb_svn r)"
  "tb_tee_tcb_svn2 (body_of v r) = (if gen_v5_quote v \<and> tee_tcb_svn2_valid v then tcb_tee_tcb_svn2 r else replicate 16 0)"
  "tb_mr_servicetd (body_of v r) = (if gen_v5_quote v \<and> mr_servicetd_valid v then ti_mr_servicetd r else replicate 48 0)"
  "tb_vmid (body_of v r) = (if vmid_present v then ti_vmid r else [0])"
  "tb_td_id (body_of v r) = (if tdid_present v then ti_td_id r else replicate 32 0)"
  by (simp_all add: body_of_def with_svn2_def common_body_def Let_def)

lemma documented_flags:
  assumes "documented_version r = Inr v"
  shows "rm_version (r2_mac r) = 0 \<longrightarrow> \<not> tdid_present v \<and> \<not> vmid_present v \<and> \<not> mr_servicetd_valid v
       \<and> tee_tcb_svn2_valid v = gen_v5_quote v \<and> (gen_v5_quote v \<longrightarrow> le_decode (tcb_valid r) = 0x301FF)"
    "rm_version (r2_mac r) \<noteq> 0 \<longrightarrow> gen_v5_quote v \<and> mr_servicetd_valid v
       \<and> tee_tcb_svn2_valid v = (le_decode (tcb_valid r) = 0x301FF)"
    "rm_version (r2_mac r) = 3 \<longleftrightarrow> tdid_present v \<or> vmid_present v"
    "rm_version (r2_mac r) = 3 \<longrightarrow> tdid_present v = bit (ti_valid r) 8 \<and> vmid_present v = bit (ti_valid r) 9"
  using assms by (auto simp: documented_version_def Let_def split: if_splits)

end
