(* ===== verification/Tdqe_Live.thy ===== *)
theory Tdqe_Live
  imports Tdqe_Fields
begin

text \<open>
  The other direction: with an SDK whose calls succeed (\<open>sdk_works\<close>) every command of the enclave succeeds. At the
  end an SDK of this kind, which the witnesses use.
\<close>

section \<open>An SDK whose calls succeed\<close>

definition sdk_works :: "(byte list \<Rightarrow> (byte list \<times> byte list) option) \<Rightarrow> nat \<Rightarrow> tdqe_sdk \<Rightarrow> bool" where
  "sdk_works contents a w \<longleftrightarrow>
     is_verify_report2_available w \<and> (\<forall>x. ts_within_enclave w x)
     \<and> (\<forall>n t d. fst (ts_create_report w n t d) = 0) \<and> (\<forall>m. fst (ts_sha256 w m) = 0)
     \<and> (\<forall>p c. plaintext_wf a p \<longrightarrow> ciphertext_wf a c \<longrightarrow> kp_seal_blob_type p = seal_blob_type a
          \<longrightarrow> fst (ts_seal w (plaintext_bytes p) (ciphertext_bytes c) (get_tdqe_blob_size_for_algorithm w a)) = 0)
     \<and> (\<forall>b pt ct. contents b = Some (pt, ct)
          \<longrightarrow> ts_unseal w b = (0, pt, ct) \<and> ts_add_mac_len w b = length pt \<and> ts_encrypt_len w b = length ct)"

text \<open>Every message gets a signature that verifies.\<close>

definition signs :: "tdqe_sdk \<Rightarrow> nat \<Rightarrow> byte list \<Rightarrow> byte list \<Rightarrow> bool" where
  "signs w a priv pub \<longleftrightarrow> ts_ecc256_open w = 0 \<and> (\<forall>m. \<exists>sig. signature_checked w a priv pub m sig)"

lemma call_ok: "fst x = (0 :: int) \<Longrightarrow> \<exists>y. x = (0, y)"
  by (cases x) simp

lemma sdk_calls:
  assumes "sdk_works contents a w"
  shows "\<exists>r. ts_create_report w n t d = (0, r)" "\<exists>h. ts_sha256 w m = (0, h)"
    "plaintext_wf a p \<Longrightarrow> ciphertext_wf a c \<Longrightarrow> kp_seal_blob_type p = seal_blob_type a
     \<Longrightarrow> \<exists>b. ts_seal w (plaintext_bytes p) (ciphertext_bytes c) (get_tdqe_blob_size_for_algorithm w a) = (0, b)"
    "contents b = Some (pt, ct) \<Longrightarrow> ts_unseal w b = (0, pt, ct) \<and> ts_add_mac_len w b = length pt \<and> ts_encrypt_len w b = length ct"
    "is_verify_report2_available w" "ts_within_enclave w x"
  using assms call_ok unfolding sdk_works_def by blast+

section \<open>The commands\<close>

lemma gen_att_key_works:
  assumes "sdk_works contents a w" "sizes_documented w" "a \<in> supported" "derived_key w a priv pub" "pce_target_accepted t"
    "asz = (case auth of None \<Rightarrow> 0 | Some _ \<Rightarrow> 32)"
  shows "\<exists>b r. gen_att_key w (Some b0) (get_tdqe_blob_size_for_algorithm w a) a (Some t) (Some r0) auth asz = (TDQE_SUCCESS, b, r)"
proof -
  obtain h where h: "ts_sha256 w (pub @ auth_data_of auth) = (0, h)" using sdk_calls(2) [OF assms(1)] by blast
  obtain r where r: "ts_create_report w 0 (Some t) (h @ replicate 32 0) = (0, r)" using sdk_calls(1) [OF assms(1)] by blast
  note wf = new_structures [OF derived_key_sizes(2) [OF assms(4,2,3)] documented_lengths(1) [OF assms(2) h]
      derived_key_sizes(1) [OF assms(4,2,3)]]
  obtain b where b: "ts_seal w (plaintext_bytes (new_plaintext a auth asz pub h)) (ciphertext_bytes (new_ciphertext a priv))
      (get_tdqe_blob_size_for_algorithm w a) = (0, b)"
    using sdk_calls(3) [OF assms(1) wf(1,2,3)] by blast
  have asz: "ucast (word_of_nat asz :: u16) = (word_of_nat asz :: u32)" "asz \<le> 0xFFFF" "(asz \<noteq> 0) = (auth \<noteq> None)"
    "auth = None \<or> asz = REF_ECDSDA_AUTHENTICATION_DATA_SIZE"
    using assms(6) by (auto simp: REF_ECDSDA_AUTHENTICATION_DATA_SIZE_def split: option.splits)
  show ?thesis
  proof (cases "a = SGX_QL_ALG_ECDSA_P256")
    case True
    then have "gen_att_key_ecdsa_impl w b0 (get_tdqe_blob_size_for_algorithm w a) t r0 auth asz = (TDQE_SUCCESS, b, r)"
      using assms(4) h r b asz(1)
      by (simp add: gen_att_key_ecdsa_impl_def Let_def derived_key_def auth_update new_plaintext_def
          new_ciphertext_def zero_plaintext_simps seal_blob_type_def alg_defs)
    with True asz sdk_calls(5,6) [OF assms(1)] assms(3,5) show ?thesis
      by (simp add: gen_att_key_def Let_def supported_iff)
  next
    case False
    then have "gen_att_key_mldsa_impl w b0 (get_tdqe_blob_size_for_algorithm w a) a t r0 auth asz
        = (TDQE_SUCCESS, b, r, replicate (private_key_size a) 0)"
      using assms(4) h r b
      by (simp add: gen_att_key_mldsa_impl_def Let_def derived_key_def auth_update new_plaintext_def
          new_ciphertext_def zero_plaintext_simps zero_ciphertext_simps)
    with False asz sdk_calls(5,6) [OF assms(1)] assms(3,5) show ?thesis
      by (simp add: gen_att_key_def Let_def supported_iff)
  qed
qed

lemma verify_data_works:
  assumes "sdk_documented contents w" "sdk_works contents a w" "a \<in> supported" "plaintext_wf a p" "ciphertext_wf a c"
    "kp_seal_blob_type p = seal_blob_type a" "kp_key_version p = KEY_BLOB_VERSION_0"
    "contents b = Some (plaintext_bytes p, ciphertext_bytes c)"
  shows "\<exists>b' rs. verify_blob_data_any_internal w (Some b) (get_tdqe_blob_size_for_algorithm w a) a
    = (TDQE_SUCCESS, b', rs, Some (p, c))"
proof -
  note u = sdk_calls(4) [OF assms(2,8), unfolded length_plaintext_bytes [OF assms(4)] length_ciphertext_bytes [OF assms(5)]]
  note s = plaintext_of_bytes [OF assms(4)] ciphertext_of_bytes [OF assms(5)] length_plaintext_bytes [OF assms(4)]
    length_ciphertext_bytes [OF assms(5)]
  obtain r where r: "ts_create_report w 0 None (replicate 64 0) = (0, r)" using sdk_calls(1) [OF assms(2)] by blast
  obtain lb where lb: "ts_seal w (plaintext_bytes p) (ciphertext_bytes c) (get_tdqe_blob_size_for_algorithm w a) = (0, lb)"
    using sdk_calls(3) [OF assms(2,4,5,6)] by blast
  show ?thesis
    using assms(3,6,7) u r lb by (simp add: verify_blob_data_any_internal_def Let_def supported_iff s)
qed

lemma verify_any_ok:
  assumes "verify_blob_any_internal w (Some b) n f1 f2 f3 m = r1" "bk_ret r1 = TDQE_SUCCESS"
  obtains pt ct key_id report where "ts_unseal w b = (0, pt, ct)" "checked_key_id w n pt (length ct) = Some key_id"
    "ts_create_report w 0 None (replicate 64 0) = (0, report)" "f1" "is_blob_size w n" "f3 \<longrightarrow> \<not> m < 32"
    "ts_add_mac_len w b \<le> plaintext_size SGX_QL_ALG_MLDSA_87" "ts_encrypt_len w b \<le> ciphertext_size SGX_QL_ALG_MLDSA_87"
    "r1 = \<lparr>bk_ret = TDQE_SUCCESS, bk_blob = (if tcb_changed w report b then take n (snd (ts_seal w pt ct n)) else b),
       bk_is_resealed = Some (tcb_changed w report b), bk_report_body = (if f2 then Some (report_body report) else None),
       bk_key_id = (if f3 then Some key_id else None)\<rparr>"
    "tcb_changed w report b \<longrightarrow> fst (ts_seal w pt ct n) = 0"
proof -
  obtain s pt ct where u: "ts_unseal w b = (s, pt, ct)" by (metis prod_cases3)
  obtain s1 report where r: "ts_create_report w 0 None (replicate 64 0) = (s1, report)" by (metis prod.collapse)
  obtain s2 lb where l: "ts_seal w pt ct n = (s2, lb)" by (metis prod.collapse)
  note eval = assms(1) [unfolded verify_blob_any_internal_def Let_def obj_simps u prod.case r l, symmetric]
  have g: "f1" "is_blob_size w n" "f3 \<longrightarrow> \<not> m < 32" "ts_add_mac_len w b \<le> plaintext_size SGX_QL_ALG_MLDSA_87"
    "ts_encrypt_len w b \<le> ciphertext_size SGX_QL_ALG_MLDSA_87" "s = 0"
    using eval assms(2) by (auto split: if_splits)
  then obtain key_id where k: "checked_key_id w n pt (length ct) = Some key_id"
    using eval assms(2) by (cases "checked_key_id w n pt (length ct)") (simp_all split: if_splits)
  have "s1 = 0" "tcb_changed w report b \<longrightarrow> s2 = 0" using eval assms(2) g k by (auto split: if_splits)
  with eval g k have "r1 = \<lparr>bk_ret = TDQE_SUCCESS, bk_blob = (if tcb_changed w report b then take n lb else b),
       bk_is_resealed = Some (tcb_changed w report b), bk_report_body = (if f2 then Some (report_body report) else None),
       bk_key_id = (if f3 then Some key_id else None)\<rparr>"
    by (auto split: if_splits)
  with that [of pt ct key_id report] u k r g l \<open>s1 = 0\<close> \<open>tcb_changed w report b \<longrightarrow> s2 = 0\<close> show ?thesis by auto
qed

lemma algorithm_of_blob_size_inverse:
  "a \<in> supported \<Longrightarrow> algorithm_of_blob_size w (get_tdqe_blob_size_for_algorithm w a) = a"
  "a \<in> supported \<Longrightarrow> is_blob_size w (get_tdqe_blob_size_for_algorithm w a)"
proof -
  have all: "SGX_QL_ALG_ECDSA_P256 \<in> supported" "SGX_QL_ALG_MLDSA_44 \<in> supported" "SGX_QL_ALG_MLDSA_65 \<in> supported"
    "SGX_QL_ALG_MLDSA_87 \<in> supported" by (simp_all add: supported_def)
  assume a: "a \<in> supported"
  have inj: "get_tdqe_blob_size_for_algorithm w a = get_tdqe_blob_size_for_algorithm w a' \<longleftrightarrow> a = a'" if "a' \<in> supported" for a'
    using blob_size_inj [OF a that] by blast
  from a show "algorithm_of_blob_size w (get_tdqe_blob_size_for_algorithm w a) = a"
    "is_blob_size w (get_tdqe_blob_size_for_algorithm w a)"
    by (auto simp: algorithm_of_blob_size_def is_blob_size_def all inj supported_def)
qed

lemma store_cert_works:
  assumes "sdk_documented contents w" "runs_at cpu isv w" "sdk_works contents a w" "a \<in> supported" "plaintext_wf a p"
    "ciphertext_wf a c" "kp_seal_blob_type p = seal_blob_type a" "kp_key_version p = KEY_BLOB_VERSION_0"
    "contents b = Some (plaintext_bytes p, ciphertext_bytes c)" "plaintext_wf a i"
    "kp_key_id p = take 32 (report_report_data (kp_qe_report i))" "length ppid = 384"
  shows "\<exists>b'. store_cert_data w (Some (plaintext_bytes i)) (plaintext_size a) 3 (Some ppid) 384 (Some b)
    (get_tdqe_blob_size_for_algorithm w a) = (TDQE_SUCCESS, b')"
proof -
  obtain b1 rs where v: "verify_blob_data_any_internal w (Some b) (get_tdqe_blob_size_for_algorithm w a) a
    = (TDQE_SUCCESS, b1, rs, Some (p, c))" using verify_data_works [OF assms(1,3-9)] by blast
  obtain r where r: "ts_create_report w 1 None (replicate 64 0) = (0, r)" using sdk_calls(1) [OF assms(3)] by blast
  then have "length r = sizeof_report" using assms(2) unfolding runs_at_def by blast
  note c = certified_wf [OF assms(5,10) this]
  have ct: "ciphertext_wf a (with_ppid (Some ppid) 384 c)"
    using with_ppid_wf [OF assms(6)] by (simp add: REF_RSA_OAEP_3072_MOD_SIZE_def)
  obtain b' where b': "ts_seal w (plaintext_bytes (certified r i p)) (ciphertext_bytes (with_ppid (Some ppid) 384 c))
      (get_tdqe_blob_size_for_algorithm w a) = (0, b')"
    using sdk_calls(3) [OF assms(3) c(1) ct] c(2) assms(7) by auto
  have i: "plaintext_of a (written (plaintext_size a) (plaintext_bytes i)) = i"
    using plaintext_of_bytes [OF assms(10)] length_plaintext_bytes [OF assms(10)] by simp
  show ?thesis
    using sdk_calls(5,6) [OF assms(3)] algorithm_of_blob_size_inverse [OF assms(4)] v r b' assms(11,12)
    by (simp add: store_cert_data_def Let_def i REF_RSA_OAEP_3072_MOD_SIZE_def PPID_RSA3072_ENCRYPTED_def)
qed

lemma sign_quote_works:
  assumes "signs w a priv pub" "a \<in> supported" "length pub = pub_key_size a" "qf_sig q = replicate (get_quote_signature_size a) 0"
  shows "\<exists>q1. sign_quote w a q (length (qf_front q)) priv pub = (TDQE_SUCCESS, q1)"
proof -
  obtain rest where qb: "quote_bytes q = qf_front q @ rest" by (simp add: quote_bytes_def)
  obtain sig where sig: "signature_checked w a priv pub (qf_front q) sig" using assms(1) unfolding signs_def by blast
  show ?thesis
  proof (cases "a = SGX_QL_ALG_ECDSA_P256")
    case True
    with assms(3) have "length pub = 64" by (simp add: pub_key_size_def alg_defs)
    then have "SWAP_ENDIAN_32B (take 32 pub) @ SWAP_ENDIAN_32B (drop 32 pub) = rev (take 32 pub) @ rev (drop 32 pub)"
      by (simp add: swap_32b_rev)
    with True sig assms(1) show ?thesis
      by (auto simp: signature_checked_def signs_def sign_quote_def sign_quote_ecdsa_def qb)
  next
    case False
    then have a: "quote_alg a = a" using assms(2) by (auto simp: supported_def quote_alg_def)
    from False sig assms(4) show ?thesis
      by (simp add: signature_checked_def sign_quote_def sign_quote_alg a qb mldsa_message)
  qed
qed

definition largest_quote :: "nat \<Rightarrow> nat" where
  "largest_quote a = sizeof_quote5_t + sizeof_body_v1_5_ex + 4 + get_quote_sig_data_struct_size a + 898"

lemma build_quote_works:
  assumes "sdk_works contents a w" "signs w a (kc_private_key c) (kp_att_public_key p)" "a \<in> supported" "plaintext_wf a p"
    "report_wf r" "kc_is_clear_ppid c \<noteq> 1" "unat (kp_authentication_data_size p) \<le> 32" "largest_quote a \<le> qsize"
  shows "\<exists>quote report. build_quote w a v r p c nt rep buf qsize None = (TDQE_SUCCESS, quote, report)"
proof -
  define front where "front = quote_front v a r (kp_qe_id p)"
  have lf: "length front = front_size v" unfolding front_def by (rule length_quote_front [OF assms(5) plaintext_wf_lengths(1) [OF assms(4)]])
  have small: "get_quote_sig_data_struct_size a \<le> 8000"
    using assms(3) by (auto simp: supported_def get_quote_sig_data_struct_size_def alg_defs structure_sizes)
  then have "\<not> 4294965490 - get_quote_sig_data_struct_size a < unat (kp_authentication_data_size p)" using assms(7) by linarith
  then have "signature_data_size a p c None = Some (462 + get_quote_sig_data_struct_size a + 404 + unat (kp_authentication_data_size p))"
    using assms(6) by (simp add: signature_data_size_def Let_def)
  then obtain n where n: "signature_data_size a p c None = Some n" "n \<le> get_quote_sig_data_struct_size a + 898"
    using assms(7) by auto
  define q0 where "q0 = quote_frame v a r p n sizeof_encrypted_cert_info"
  have q0: "qf_front q0 = front" "qf_sig q0 = replicate (get_quote_signature_size a) 0"
    by (simp_all add: q0_def quote_frame_def front_def Let_def)
  obtain q1 where q1: "sign_quote w a q0 (length (qf_front q0)) (kc_private_key c) (kp_att_public_key p) = (TDQE_SUCCESS, q1)"
    using sign_quote_works [OF assms(2,3) plaintext_wf_lengths(4) [OF assms(4)] q0(2)] by blast
  have sb: "(if gen_v5_quote v
       then sizeof_quote5_t + (if tdid_present v \<or> vmid_present v then sizeof_body_v1_5_ex else sizeof_body_v1_5)
       else sizeof_quote4_t - 4) = length (qf_front q0)" by (simp add: q0 lf front_size_def)
  obtain r1 where r1: "ts_create_report w 1 None (replicate 64 0) = (0, r1)" using sdk_calls(1) [OF assms(1)] by blast
  have size: "sizeof_quote5_t + sizeof_body_v1_5_ex + 4 + n \<le> qsize" using n(2) assms(8) by (simp add: largest_quote_def)
  have ok: "\<exists>h. ts_sha256 w m = (0, h)" "\<exists>r. ts_create_report w k t d = (0, r)" for m k t d
    using sdk_calls(1,2) [OF assms(1)] by blast+
  show ?thesis
  proof (cases nt)
    case None
    with q1 r1 size show ?thesis
      by (simp add: build_quote_def n(1) Let_def sb q0_def [symmetric] del: length_quote_front)
  next
    case (Some x)
    obtain nonce target where x: "x = (nonce, target)" by (cases x)
    define quote where "quote = in_buffer (sizeof_quote5_t + sizeof_body_v1_5_ex + 4 + n) buf (with_certification p c None q1)"
    define real where "real = (if gen_v5_quote v
       then (if tdid_present v \<or> vmid_present v then sizeof_quote5_t + sizeof_body_v1_5_ex + 4 + n
             else sizeof_quote5_t + sizeof_body_v1_5_ex + 4 + n - sizeof_body_v1_5_ex + sizeof_body_v1_5)
       else sizeof_quote4_t + n)"
    obtain h where h: "ts_sha256 w (nonce @ take real quote) = (0, h)" using ok by blast
    obtain r2 where r2: "ts_create_report w 2 (Some target) (h @ replicate 32 0) = (0, r2)" using ok by blast
    have "build_quote w a v r p c nt rep buf qsize None = (TDQE_SUCCESS, quote, Some r2)"
      unfolding build_quote_def n(1) option.case Let_def sb q0_def [symmetric] q1 r1 prod.case Some x quote_def [symmetric]
        real_def [symmetric] h r2
      using size by simp
    then show ?thesis by blast
  qed
qed

lemma gen_quote_works:
  assumes "sdk_documented contents w" "sdk_works contents a w" "a \<in> supported" "plaintext_wf a p" "ciphertext_wf a c"
    "kp_seal_blob_type p = seal_blob_type a" "kp_key_version p = KEY_BLOB_VERSION_0"
    "contents b = Some (plaintext_bytes p, ciphertext_bytes c)" "signs w a (kc_private_key c) (kp_att_public_key p)"
    "report_wf r" "determine_quote_version r = Inr v" "check_td_report w r = TDQE_SUCCESS" "kc_is_clear_ppid c \<noteq> 1"
    "unat (kp_authentication_data_size p) \<le> 32" "largest_quote a \<le> qsize"
  shows "qr_ret (gen_quote w (Some b) (get_tdqe_blob_size_for_algorithm w a) a (Some r) None None None (Some buf) qsize None 0)
    = TDQE_SUCCESS"
proof -
  obtain b1 rs where v: "verify_blob_data_any_internal w (Some b) (get_tdqe_blob_size_for_algorithm w a) a
    = (TDQE_SUCCESS, b1, rs, Some (p, c))" using verify_data_works [OF assms(1-8)] by blast
  obtain quote report where q: "build_quote w a v r p c None None buf qsize None = (TDQE_SUCCESS, quote, report)"
    using build_quote_works [OF assms(2,9,3,4,10,13-15)] by blast
  have "qsize \<noteq> 0" using assms(15) by (simp add: largest_quote_def)
  then show ?thesis
    using sdk_calls(5,6) [OF assms(2)] assms(3,11,12) v q
    by (simp add: gen_quote_def Let_def supported_iff cert_data_accepted_def)
qed

text \<open>A blob that gen_quote can use: well formed, with a key that signs, and an encrypted PPID or none.\<close>

definition usable_blob :: "(byte list \<Rightarrow> (byte list \<times> byte list) option) \<Rightarrow> tdqe_sdk \<Rightarrow> nat \<Rightarrow> byte list
    \<Rightarrow> key_plaintext \<Rightarrow> key_ciphertext \<Rightarrow> bool" where
  "usable_blob contents w a b p c \<longleftrightarrow> plaintext_wf a p \<and> ciphertext_wf a c \<and> kp_seal_blob_type p = seal_blob_type a
     \<and> kp_key_version p = KEY_BLOB_VERSION_0 \<and> contents b = Some (plaintext_bytes p, ciphertext_bytes c)
     \<and> signs w a (kc_private_key c) (kp_att_public_key p) \<and> kc_is_clear_ppid c \<noteq> 1
     \<and> unat (kp_authentication_data_size p) \<le> 32"

lemma gen_att_key_usable:
  assumes "sdk_documented contents w" "sizes_documented w" "\<And>priv pub. derived_key w a priv pub \<Longrightarrow> signs w a priv pub"
    "gen_att_key w (Some b0) n a (Some t) (Some r0) auth asz = (TDQE_SUCCESS, b, r)"
  shows "\<exists>p c. usable_blob contents w a b p c \<and> r = snd (ts_create_report w 0 (Some t) (kp_key_id p @ replicate 32 0))"
proof -
  note calls = gen_att_key_calls [OF assms(4)]
  obtain priv pub h where *: "derived_key w a priv pub" "ts_sha256 w (pub @ auth_data_of auth) = (0, h)"
      "ts_create_report w 0 (Some t) (h @ replicate 32 0) = (0, r)"
      "ts_seal w (plaintext_bytes (new_plaintext a auth asz pub h)) (ciphertext_bytes (new_ciphertext a priv)) n = (0, b)"
    using calls(5) by blast
  note s = new_structures [OF derived_key_sizes(2) [OF *(1) assms(2) calls(1)] documented_lengths(1) [OF assms(2) *(2)]
      derived_key_sizes(1) [OF *(1) assms(2) calls(1)]]
  note c = sealed_key(3) [OF assms(1) *(4) s(1-4)]
  have "asz \<le> 32" using calls(4) by (auto split: option.splits)
  then have "usable_blob contents w a b (new_plaintext a auth asz pub h) (new_ciphertext a priv)"
    using s c assms(3) [OF *(1)] zero_ciphertext_simps(3) [of a]
    by (simp add: usable_blob_def new_plaintext_def new_ciphertext_def unsigned_of_nat take_bit_nat_eq_self)
  then show ?thesis using *(3) by (intro exI [of _ "new_plaintext a auth asz pub h"] exI [of _ "new_ciphertext a priv"])
      (simp add: new_plaintext_def)
qed

lemma store_cert_usable:
  assumes "sdk_documented contents w" "runs_at cpu isv w" "a \<in> supported" "usable_blob contents w a b p c"
    "store_cert_data w (Some input) isize key_type ppid ppid_size (Some b) n = (TDQE_SUCCESS, b')"
    "n = get_tdqe_blob_size_for_algorithm w a"
  shows "\<exists>p' c'. usable_blob contents w a b' p' c'"
proof -
  obtain a' p1 c1 r where *: "a' \<in> supported" "n = get_tdqe_blob_size_for_algorithm w a'"
    "contents b = Some (plaintext_bytes p1, ciphertext_bytes c1)" "plaintext_wf a' p1" "ciphertext_wf a' c1"
    "plaintext_wf a' (certified r (plaintext_of a' (written (plaintext_size a') input)) p1)"
    "ciphertext_wf a' (with_ppid ppid ppid_size c1)"
    "contents b' = Some (plaintext_bytes (certified r (plaintext_of a' (written (plaintext_size a') input)) p1),
       ciphertext_bytes (with_ppid ppid ppid_size c1))"
    using store_cert_ok [OF assms(1,2,5)] unfolding Let_def by blast
  have a: "a' = a" by (rule blob_size_inj [OF *(1) assms(3), of w]) (use *(2) assms(6) in simp)
  note u = assms(4) [unfolded usable_blob_def]
  have "plaintext_bytes p1 = plaintext_bytes p" "ciphertext_bytes c1 = ciphertext_bytes c" using u *(3) by auto
  then have "p1 = p" "c1 = c"
    using plaintext_of_bytes [OF *(4)] plaintext_of_bytes [of a p] ciphertext_of_bytes [OF *(5)] ciphertext_of_bytes [of a c] u a
    by metis+
  then have "usable_blob contents w a b' (certified r (plaintext_of a' (written (plaintext_size a') input)) p1)
      (with_ppid ppid ppid_size c1)"
    using u *(6-8) a by (auto simp: usable_blob_def certified_def with_ppid_def split: option.split)
  then show ?thesis by blast
qed

text \<open>Key generation, certification and a quote.\<close>

lemma commands_work:
  assumes "sdk_documented contents w" "runs_at cpu isv w" "sizes_documented w" "sdk_works contents a w" "a \<in> supported"
    "derived_key w a priv pub" "\<And>priv pub. derived_key w a priv pub \<Longrightarrow> signs w a priv pub" "pce_target_accepted t"
    "asz = (case auth of None \<Rightarrow> 0 | Some _ \<Rightarrow> 32)" "report_wf rep" "determine_quote_version rep = Inr v"
    "check_td_report w rep = TDQE_SUCCESS" "largest_quote a \<le> qsize"
  shows "\<exists>b r. gen_att_key w (Some b0) (get_tdqe_blob_size_for_algorithm w a) a (Some t) (Some r0) auth asz = (TDQE_SUCCESS, b, r)
    \<and> (\<forall>i ppid. plaintext_wf a i \<longrightarrow> kp_qe_report i = r \<longrightarrow> length ppid = 384 \<longrightarrow>
        (\<exists>b'. store_cert_data w (Some (plaintext_bytes i)) (plaintext_size a) 3 (Some ppid) 384 (Some b)
             (get_tdqe_blob_size_for_algorithm w a) = (TDQE_SUCCESS, b')
           \<and> qr_ret (gen_quote w (Some b') (get_tdqe_blob_size_for_algorithm w a) a (Some rep) None None None (Some buf) qsize
               None 0) = TDQE_SUCCESS))"
proof -
  obtain b r where g: "gen_att_key w (Some b0) (get_tdqe_blob_size_for_algorithm w a) a (Some t) (Some r0) auth asz
      = (TDQE_SUCCESS, b, r)" using gen_att_key_works [OF assms(4,3,5,6,8,9)] by blast
  obtain p c where u: "usable_blob contents w a b p c"
      "r = snd (ts_create_report w 0 (Some t) (kp_key_id p @ replicate 32 0))"
    using gen_att_key_usable [OF assms(1,3,7) g] by blast
  note u' = u(1) [unfolded usable_blob_def]
  obtain r' where "ts_create_report w 0 (Some t) (kp_key_id p @ replicate 32 0) = (0, r')" using sdk_calls(1) [OF assms(4)] by blast
  moreover have "length (kp_key_id p) = 32" using plaintext_wf_lengths(8) u' by blast
  ultimately have id: "kp_key_id p = take 32 (report_report_data r)"
    using u(2) assms(2) unfolding runs_at_def by auto
  have "\<exists>b'. store_cert_data w (Some (plaintext_bytes i)) (plaintext_size a) 3 (Some ppid) 384 (Some b)
             (get_tdqe_blob_size_for_algorithm w a) = (TDQE_SUCCESS, b')
           \<and> qr_ret (gen_quote w (Some b') (get_tdqe_blob_size_for_algorithm w a) a (Some rep) None None None (Some buf) qsize
               None 0) = TDQE_SUCCESS"
    if i: "plaintext_wf a i" "kp_qe_report i = r" "length ppid = 384" for i ppid
  proof -
    obtain b' where s: "store_cert_data w (Some (plaintext_bytes i)) (plaintext_size a) 3 (Some ppid) 384 (Some b)
             (get_tdqe_blob_size_for_algorithm w a) = (TDQE_SUCCESS, b')"
      using store_cert_works [OF assms(1,2,4,5)] u' i id by blast
    obtain p' c' where "usable_blob contents w a b' p' c'"
      using store_cert_usable [OF assms(1,2,5) u(1) s refl] by blast
    then have "qr_ret (gen_quote w (Some b') (get_tdqe_blob_size_for_algorithm w a) a (Some rep) None None None (Some buf)
        qsize None 0) = TDQE_SUCCESS"
      using gen_quote_works [OF assms(1,4,5)] assms(10-13) unfolding usable_blob_def by blast
    with s show ?thesis by blast
  qed
  with g show ?thesis by blast
qed

text \<open>The key id of a well formed plaintext.\<close>

lemma seal_blob_type_inj:
  "a \<in> supported \<Longrightarrow> a' \<in> supported \<Longrightarrow> seal_blob_type a = seal_blob_type a' \<longleftrightarrow> a = a'"
  by (auto simp: supported_def seal_blob_type_def alg_defs SGX_QL_SEAL_ECDSA_KEY_BLOB_def SGX_QL_SEAL_MLDSA_44_KEY_BLOB_def
      SGX_QL_SEAL_MLDSA_65_KEY_BLOB_def SGX_QL_SEAL_MLDSA_87_KEY_BLOB_def)

lemma checked_key_id_works:
  assumes "a \<in> supported" "plaintext_wf a p" "kp_seal_blob_type p = seal_blob_type a" "kp_key_version p = KEY_BLOB_VERSION_0"
  shows "checked_key_id w (get_tdqe_blob_size_for_algorithm w a) (plaintext_bytes p) (ciphertext_size a) = Some (kp_key_id p)"
proof -
  have "hd (plaintext_bytes p) = seal_blob_type a"
    using assms(3) by (simp add: plaintext_bytes_def plaintext_parts_def)
  then have branch: "in_branch a' (plaintext_bytes p) \<longleftrightarrow> a = a'" if "a' \<in> supported" for a'
    using seal_blob_type_inj [OF that assms(1)] length_plaintext_bytes [OF assms(2)] by (auto simp: in_branch_def)
  have all: "SGX_QL_ALG_ECDSA_P256 \<in> supported" "SGX_QL_ALG_MLDSA_44 \<in> supported" "SGX_QL_ALG_MLDSA_65 \<in> supported"
    "SGX_QL_ALG_MLDSA_87 \<in> supported" by (simp_all add: supported_def)
  have "blob_branch w a (get_tdqe_blob_size_for_algorithm w a) (plaintext_bytes p) (ciphertext_size a) = Some (kp_key_id p)"
    using assms(4) plaintext_of_bytes [OF assms(2)] length_plaintext_bytes [OF assms(2)] by (simp add: blob_branch_def)
  moreover have "checked_key_id w n (plaintext_bytes p) m = blob_branch w a n (plaintext_bytes p) m" for n m
    using assms(1) unfolding checked_key_id_def Let_def all [THEN branch] by (auto simp only: supported_def insert_iff empty_iff if_True if_False split: if_split)
  ultimately show ?thesis by simp
qed

lemma verify_works:
  assumes "sdk_works contents a w" "a \<in> supported" "plaintext_wf a p" "ciphertext_wf a c" "kp_seal_blob_type p = seal_blob_type a"
    "kp_key_version p = KEY_BLOB_VERSION_0" "contents b = Some (plaintext_bytes p, ciphertext_bytes c)"
    "ts_create_report w 0 None (replicate 64 0) = (0, r)"
  shows "bk_ret (verify_blob w (Some b) (get_tdqe_blob_size_for_algorithm w a) True f1 (if f2 then 32 else 0) f2) = TDQE_SUCCESS
    \<and> bk_is_resealed (verify_blob w (Some b) (get_tdqe_blob_size_for_algorithm w a) True f1 (if f2 then 32 else 0) f2)
        = Some (tcb_changed w r b)
    \<and> (\<not> tcb_changed w r b
        \<longrightarrow> bk_blob (verify_blob w (Some b) (get_tdqe_blob_size_for_algorithm w a) True f1 (if f2 then 32 else 0) f2) = b)"
proof -
  have large: "plaintext_size a \<le> plaintext_size SGX_QL_ALG_MLDSA_87" "ciphertext_size a \<le> ciphertext_size SGX_QL_ALG_MLDSA_87"
    using assms(2) by (auto simp: supported_def structure_sizes alg_defs)
  note u = sdk_calls(4) [OF assms(1,7), unfolded length_plaintext_bytes [OF assms(3)] length_ciphertext_bytes [OF assms(4)]]
  obtain lb where lb: "ts_seal w (plaintext_bytes p) (ciphertext_bytes c) (get_tdqe_blob_size_for_algorithm w a) = (0, lb)"
    using sdk_calls(3) [OF assms(1,3,4,5)] by blast
  show ?thesis
    using u large lb assms(8) checked_key_id_works [OF assms(2,3,5,6)] sdk_calls(5,6) [OF assms(1)]
      algorithm_of_blob_size_inverse(2) [OF assms(2)] length_ciphertext_bytes [OF assms(4)]
    by (simp add: verify_blob_def verify_blob_any_internal_def Let_def)
qed

section \<open>An SDK of this kind\<close>

text \<open>
  A sealed blob is 560 bytes, the secret and the plaintext; digests, keys and signatures are constants of the documented sizes;
  the platform's CPU SVN is sixteen times \<open>cpu\<close>.
\<close>

definition demo_contents :: "nat \<Rightarrow> byte list \<Rightarrow> (byte list \<times> byte list) option" where
  "demo_contents a b =
     (if length b = 560 + ciphertext_size a + plaintext_size a
      then Some (drop (560 + ciphertext_size a) b, take (ciphertext_size a) (drop 560 b)) else None)"

definition demo_functions :: "nat \<Rightarrow> mldsa_functions" where
  "demo_functions n = \<lparr>fn_keygen = (\<lambda>pk sk s. (0, written (length pk) s, written (length sk) s)),
     fn_sign = (\<lambda>sig m pre rnd sk mu. (0, replicate (length sig) 7, n)), fn_verify = (\<lambda>sig m pre pk mu. 0),
     fn_prepare_prefix = (\<lambda>buf ph ctx alg. ([0, 0] @ drop 2 buf, 2)), fn_rndbytes = 32\<rparr>"

definition demo_report :: "byte \<Rightarrow> byte list \<Rightarrow> byte list" where
  "demo_report cpu d = replicate 16 cpu @ replicate 242 0 @ [1, 0] @ replicate 60 0 @ written 64 d @ replicate 48 0"

definition tdqe_demo :: "nat \<Rightarrow> byte \<Rightarrow> tdqe_sdk" where
  "tdqe_demo a cpu = \<lparr>te_native = \<lparr>mldsa44 = demo_functions 2420, mldsa65 = demo_functions 3309, mldsa87 = demo_functions 4627,
       mld_domain_separation_max_bytes = 4, mld_prehash_none = 0\<rparr>,
     te_create_report = (0, replicate 16 cpu, [1, 0]), te_get_key = (\<lambda>kr. (0, replicate 16 5)),
     te_cmac = (\<lambda>k m. (0, map (\<lambda>b. b XOR hd m) k)), te_keyselect_seal = 4, te_keypolicy_mrsigner = 2,
     te_flags_mode64bit = 4, te_error_out_of_memory = 3,
     ts_verify_report2 = (\<lambda>m. 0), ts_error_feature_not_supported = 8, ts_error_invalid_parameter = 2,
     ts_within_enclave = (\<lambda>x. True), ts_create_report = (\<lambda>n t d. (0, demo_report cpu d)),
     ts_sha256 = (\<lambda>m. (0, replicate 32 6)), ts_sha384 = (\<lambda>m. (0, replicate 48 7)),
     ts_seal = (\<lambda>pt ct n. let b = replicate 560 0 @ ct @ pt in
       if length b = n \<and> demo_contents a b = Some (pt, ct) then (0, b) else (1, [])),
     ts_unseal = (\<lambda>b. case demo_contents a b of None \<Rightarrow> (1, [], []) | Some (pt, ct) \<Rightarrow> (0, pt, ct)),
     ts_add_mac_len = (\<lambda>b. length (fst (the (demo_contents a b)))), ts_encrypt_len = (\<lambda>b. length (snd (the (demo_contents a b)))),
     ts_key_request_cpu_svn = (\<lambda>b. replicate 16 cpu), ts_key_request_isv_svn = (\<lambda>b. [1, 0]), ts_sizeof_sealed_data = 560,
     ts_calculate_priv_key = (\<lambda>seed n. (0, replicate 32 11)),
     ts_calculate_pub_key = (\<lambda>p. (0, replicate 32 12, replicate 32 13)), ts_ecc256_open = 0,
     ts_ecdsa_sign = (\<lambda>m k. (0, replicate 64 14)), ts_ecdsa_verify = (\<lambda>m k s. (0, 0)), ts_ec_valid = 0,
     ts_read_rand = (\<lambda>n. (0, replicate n 9))\<rparr>"

lemma demo_documented: "sdk_documented (demo_contents a) (tdqe_demo a cpu)"
  by (auto simp: sdk_documented_def tdqe_demo_def Let_def split: if_splits option.splits)

lemma demo_runs: "runs_at (replicate 16 cpu) [1, 0] (tdqe_demo a cpu)"
  by (simp add: runs_at_def tdqe_demo_def demo_report_def report_cpu_svn_def report_isv_svn_def report_report_data_def)

lemma demo_sizes: "sizes_documented (tdqe_demo a cpu)"
  by (auto simp: sizes_documented_def tdqe_demo_def demo_functions_def)

lemma demo_works: "sdk_works (demo_contents a) a (tdqe_demo a cpu)"
  by (auto simp: sdk_works_def tdqe_demo_def is_verify_report2_available_def Let_def demo_contents_def
      get_tdqe_blob_size_for_algorithm_def length_plaintext_bytes length_ciphertext_bytes split: if_splits)

lemma demo_signs: "a \<in> supported \<Longrightarrow> signs (tdqe_demo a cpu) a priv pub"
  by (auto simp: signs_def signature_checked_def tdqe_demo_def demo_functions_def supported_def tdqe_mldsa_sign_def
      tdqe_mldsa_verify_def get_mldsa_backend_def with_size_def mldsa_functions.defs tdqe_mldsa_backend_t.defs
      alg_defs sig_size_defs get_quote_signature_size_def split: if_splits)

lemma demo_seed: "\<exists>s. seal_seed (tdqe_env.truncate (tdqe_demo a cpu)) (replicate 32 0) = Inr s"
  by (simp add: seal_seed_def seed_blocks_def seed_block_def tdqe_demo_def tdqe_env.defs HASH_DRBG_OUT_LEN_def)

lemma demo_key:
  assumes "a \<in> supported" shows "\<exists>priv pub. derived_key (tdqe_demo a cpu) a priv pub"
proof -
  obtain s where s: "seal_seed (tdqe_env.truncate (tdqe_demo a cpu)) (replicate 32 0) = Inr s" using demo_seed by blast
  show ?thesis
  proof (cases "a = SGX_QL_ALG_ECDSA_P256")
    case True
    with s show ?thesis
      by (simp add: derived_key_def get_att_key_based_from_seal_key_def Let_def) (simp add: tdqe_demo_def)
  next
    case False
    then have m: "a = SGX_QL_ALG_MLDSA_44 \<or> a = SGX_QL_ALG_MLDSA_65 \<or> a = SGX_QL_ALG_MLDSA_87"
      using assms by (auto simp: supported_def)
    obtain pk sk where "tdqe_mldsa_keygen (te_native (tdqe_demo a cpu)) a (Some (replicate (pub_key_size a) 0))
        (Some (replicate (private_key_size a) 0)) (Some (take 32 s)) = (0, Some pk, Some sk)"
      using m by (auto simp: tdqe_mldsa_keygen_def get_mldsa_backend_def tdqe_demo_def demo_functions_def with_size_def
          mldsa_functions.defs tdqe_mldsa_backend_t.defs alg_defs)
    then have "get_att_key_based_from_seal_key_mldsa (tdqe_env.truncate (tdqe_demo a cpu)) a
        (Some (replicate (pub_key_size a) 0)) (Some (replicate (private_key_size a) 0)) (Some (replicate 32 0))
      = (TDQE_SUCCESS, Some pk, Some sk)"
      using s m
      by (auto simp: get_att_key_based_from_seal_key_mldsa_def get_att_key_seed_from_seal_key_def Let_def adapter_defs
          TDQE_MLDSA_65_SEED_SIZE_def HASH_DRBG_OUT_LEN_def alg_defs)
    with False show ?thesis by (auto simp: derived_key_def)
  qed
qed

text \<open>A TD report of version 0, a target with the provisioning key, and certification data around a QE report.\<close>

definition demo_td_report :: sgx_report2 where
  "demo_td_report = \<lparr>r2_mac = \<lparr>rm_type = 0x81, rm_subtype = 0, rm_version = 0, rm_tee_tcb_info_hash = replicate 48 7,
       rm_tee_info_hash = replicate 48 7, rm_report_data = replicate 64 5, rm_other = []\<rparr>,
     r2_tee_tcb_info = [0xFF, 1] @ replicate 237 0, r2_tee_info = replicate 512 0\<rparr>"

definition demo_target :: "byte list" where
  "demo_target = replicate 32 0 @ [0x10, 0, 0, 0, 0, 0, 0, 0] @ replicate 472 0"

definition demo_certification :: "nat \<Rightarrow> byte list \<Rightarrow> key_plaintext" where
  "demo_certification a r = (zero_plaintext a)\<lparr>kp_qe_report := r\<rparr>"

lemma demo_td_report_facts:
  "report_wf demo_td_report" "check_td_report (tdqe_demo a cpu) demo_td_report = TDQE_SUCCESS"
  "determine_quote_version demo_td_report = Inr \<lparr>gen_v5_quote = False, mr_servicetd_valid = False, tee_tcb_svn2_valid = False,
     tdid_present = False, vmid_present = False\<rparr>"
  by (simp_all add: report_wf_def demo_td_report_def check_td_report_def tdqe_demo_def determine_quote_version_def Let_def
      report_fields ti_reserved_v1_def field_at_def all_zero_def TD_INFO_RESERVED_BYTES_V1_def list_all_length)

lemma demo_target_accepted: "pce_target_accepted demo_target"
  by (simp add: pce_target_accepted_def target_flags_def demo_target_def get64_def SGX_FLAGS_PROVISION_KEY_BIT_def
      SGX_FLAGS_DEBUG_def)

lemma demo_certification_facts:
  assumes "length r = sizeof_report"
  shows "plaintext_wf a (demo_certification a r)" "kp_qe_report (demo_certification a r) = r"
  using assms zero_plaintext_simps(1) [of a]
  by (simp_all add: demo_certification_def plaintext_wf_def plaintext_parts_def plaintext_fields_def)

lemma demo_session:
  assumes "a \<in> supported"
  shows "\<exists>b r b'. gen_att_key (tdqe_demo a cpu) (Some []) (get_tdqe_blob_size_for_algorithm (tdqe_demo a cpu) a) a (Some demo_target)
      (Some []) (Some (replicate 32 4)) 32 = (TDQE_SUCCESS, b, r)
    \<and> length b = get_tdqe_blob_size_for_algorithm (tdqe_demo a cpu) a
    \<and> store_cert_data (tdqe_demo a cpu) (Some (plaintext_bytes (demo_certification a r))) (plaintext_size a) 3
        (Some (replicate 384 8)) 384 (Some b) (get_tdqe_blob_size_for_algorithm (tdqe_demo a cpu) a) = (TDQE_SUCCESS, b')
    \<and> qr_ret (gen_quote (tdqe_demo a cpu) (Some b') (get_tdqe_blob_size_for_algorithm (tdqe_demo a cpu) a) a (Some demo_td_report)
        None None None (Some (replicate 20000 0)) 20000 None 0) = TDQE_SUCCESS"
proof -
  obtain priv pub where k: "derived_key (tdqe_demo a cpu) a priv pub" using demo_key [OF assms] by blast
  have "largest_quote a \<le> 20000"
    using assms by (auto simp: largest_quote_def supported_def get_quote_sig_data_struct_size_def alg_defs structure_sizes)
  from commands_work [where ?b0.0 = "[]" and ?r0.0 = "[]" and buf = "replicate 20000 0" and auth = "Some (replicate 32 4)" and asz = 32,
      OF demo_documented demo_runs demo_sizes demo_works assms k demo_signs [OF assms] demo_target_accepted
      _ demo_td_report_facts(1,3,2) this]
  obtain b r where *: "gen_att_key (tdqe_demo a cpu) (Some []) (get_tdqe_blob_size_for_algorithm (tdqe_demo a cpu) a) a
      (Some demo_target) (Some []) (Some (replicate 32 4)) 32 = (TDQE_SUCCESS, b, r)"
    "\<And>i ppid. plaintext_wf a i \<Longrightarrow> kp_qe_report i = r \<Longrightarrow> length ppid = 384 \<Longrightarrow>
        \<exists>b'. store_cert_data (tdqe_demo a cpu) (Some (plaintext_bytes i)) (plaintext_size a) 3 (Some ppid) 384 (Some b)
             (get_tdqe_blob_size_for_algorithm (tdqe_demo a cpu) a) = (TDQE_SUCCESS, b')
           \<and> qr_ret (gen_quote (tdqe_demo a cpu) (Some b') (get_tdqe_blob_size_for_algorithm (tdqe_demo a cpu) a) a
               (Some demo_td_report) None None None (Some (replicate 20000 0)) 20000 None 0) = TDQE_SUCCESS" by auto
  from gen_att_key_calls(5) [OF *(1)] gen_att_key_ok [OF demo_documented demo_runs demo_sizes *(1)] demo_runs [of cpu a]
  have "length r = sizeof_report" "length b = get_tdqe_blob_size_for_algorithm (tdqe_demo a cpu) a"
    unfolding runs_at_def by blast+
  with * demo_certification_facts [of r a] *(2) [of "demo_certification a r" "replicate 384 8"] show ?thesis by auto
qed

text \<open>The same SDK, with blobs that begin with 1 sealed at another TCB level.\<close>

definition older_demo :: "nat \<Rightarrow> byte \<Rightarrow> tdqe_sdk" where
  "older_demo a cpu = (tdqe_demo a cpu)\<lparr>ts_key_request_cpu_svn :=
     (\<lambda>b. if hd b = 1 then replicate 16 (cpu - 1) else replicate 16 cpu)\<rparr>"

lemma older_demo_facts:
  "sdk_documented (demo_contents a) (older_demo a cpu)" "runs_at (replicate 16 cpu) [1, 0] (older_demo a cpu)"
  "sdk_works (demo_contents a) a (older_demo a cpu)" "sizes_documented (older_demo a cpu)"
  "get_tdqe_blob_size_for_algorithm (older_demo a cpu) a' = get_tdqe_blob_size_for_algorithm (tdqe_demo a cpu) a'"
proof -
  show "sdk_documented (demo_contents a) (older_demo a cpu)"
    using demo_documented [of a cpu] by (simp add: sdk_documented_def older_demo_def)
  show "sdk_works (demo_contents a) a (older_demo a cpu)"
    using demo_works [of a cpu]
    by (simp add: sdk_works_def older_demo_def is_verify_report2_available_def get_tdqe_blob_size_for_algorithm_def)
  show "sizes_documented (older_demo a cpu)"
    using demo_sizes [of a cpu] by (simp add: sizes_documented_def older_demo_def)
  show "get_tdqe_blob_size_for_algorithm (older_demo a cpu) a' = get_tdqe_blob_size_for_algorithm (tdqe_demo a cpu) a'"
    by (simp add: get_tdqe_blob_size_for_algorithm_def older_demo_def)
  show "runs_at (replicate 16 cpu) [1, 0] (older_demo a cpu)"
    using demo_runs [of cpu a] by (auto simp: runs_at_def older_demo_def tdqe_demo_def Let_def split: if_splits)
qed

end
