(* ===== verification/Tdqe_Correct.thy ===== *)
theory Tdqe_Correct
  imports Tdqe_Live
begin

text \<open>
  The properties of the TD quoting enclave's commands: the attestation key through every sequence of commands, its
  certification, the quote and what it attests, the quote version, and that a documented SDK lets every command
  succeed. Each stands behind its identifier.
\<close>

section \<open>The quote\<close>

text \<open>What a successful call did, with the contents of the blob.\<close>

lemma gen_quote_ok:
  assumes "sdk_documented contents w" "sizes_documented w" "report_wf r"
    "\<And>k. blob_key contents a b = Some k \<Longrightarrow> unat (ak_auth_size k) \<le> 32" "cert = None \<or> length (obj cert) = csize"
    "gen_quote w (Some b) n a (Some r) nonce target rep (Some buf) qsize cert csize = res" "qr_ret res = TDQE_SUCCESS"
  shows "\<exists>v p c sig. determine_quote_version r = Inr v \<and> check_td_report w r = TDQE_SUCCESS \<and> a \<in> supported
    \<and> plaintext_wf a p \<and> ciphertext_wf a c \<and> contents b = Some (plaintext_bytes p, ciphertext_bytes c)
    \<and> blob_key contents a b = Some (key_of p c)
    \<and> signature_checked w a (kc_private_key c) (kp_att_public_key p) (quote_front v a r (kp_qe_id p)) sig
    \<and> (let quote = signed_quote (quote_front v a r (kp_qe_id p)) sig p c cert in
         take (length quote) (qr_quote res) = quote \<and> length quote \<le> qsize \<and> (length buf = qsize \<longrightarrow> length (qr_quote res) = qsize)
         \<and> (nonce \<noteq> None \<longrightarrow> (\<exists>hash report. ts_sha256 w (obj nonce @ quote) = (0, hash)
              \<and> ts_create_report w 2 target (hash @ replicate 32 0) = (0, report) \<and> qr_qe_report res = Some report)))"
proof -
  obtain v blob rs p c where *: "determine_quote_version r = Inr v" "check_td_report w r = TDQE_SUCCESS"
      "cert_data_accepted cert csize" "target = None \<longleftrightarrow> nonce = None"
      "verify_blob_data_any_internal w (Some b) n a = (TDQE_SUCCESS, blob, rs, Some (p, c))"
      "build_quote w a v r p c (case nonce of None \<Rightarrow> None | Some nn \<Rightarrow> Some (nn, obj target)) rep buf qsize cert
        = (TDQE_SUCCESS, qr_quote res, qr_qe_report res)"
    using gen_quote_calls [OF assms(6,7)] by blast
  note vd = verify_data_outcome(3) [OF assms(1) *(5) refl]
  have auth: "unat (kp_authentication_data_size p) \<le> 32" using assms(4) vd by (auto simp: key_of_def)
  obtain sig where sig: "let sq = signed_quote (quote_front v a r (kp_qe_id p)) sig p c cert in
    signature_checked w a (kc_private_key c) (kp_att_public_key p) (quote_front v a r (kp_qe_id p)) sig
    \<and> take (length sq) (qr_quote res) = sq \<and> length sq \<le> qsize
    \<and> (length buf = qsize \<longrightarrow> length (qr_quote res) = qsize)
    \<and> (case (case nonce of None \<Rightarrow> None | Some nn \<Rightarrow> Some (nn, obj target)) of None \<Rightarrow> qr_qe_report res = rep
       | Some (nonce, target) \<Rightarrow> \<exists>hash report. ts_sha256 w (nonce @ sq) = (0, hash)
           \<and> ts_create_report w 2 (Some target) (hash @ replicate 32 0) = (0, report) \<and> qr_qe_report res = Some report)"
    using build_quote_ok [OF *(6) _ _ _ assms(3,2) auth *(3) assms(5)] vd by blast
  have "nonce \<noteq> None \<longrightarrow> (\<exists>hash report. ts_sha256 w (obj nonce @ sq) = (0, hash)
      \<and> ts_create_report w 2 target (hash @ replicate 32 0) = (0, report) \<and> qr_qe_report res = Some report)"
    if "case (case nonce of None \<Rightarrow> None | Some nn \<Rightarrow> Some (nn, obj target)) of None \<Rightarrow> qr_qe_report res = rep
       | Some (nonce, target) \<Rightarrow> \<exists>hash report. ts_sha256 w (nonce @ sq) = (0, hash)
           \<and> ts_create_report w 2 (Some target) (hash @ replicate 32 0) = (0, report) \<and> qr_qe_report res = Some report" for sq
    using that *(4) by (cases nonce; cases target) auto
  with *(1,2) vd sig show ?thesis unfolding Let_def by blast
qed

text \<open>
  C2. A quote attests the report it was asked for. When gen_quote succeeds with a blob whose authentication data has at
  most 32 bytes, the platform accepted the report's MAC, the report's TCB and TD structures have the hashes the MAC
  covers, the report has a version the enclave supports, and the quote buffer starts with the quote written down
  independently (\<open>signed_quote\<close>): the header and the report's measurements, every length field equal to the length
  of what follows, a signature that the enclave made with the blob's private key and checked with the public key the
  quote carries, the QE report with the PCE's signature, the authentication data, and the certification data of the
  caller or the encrypted PPID; with a nonce, the returned report is made for the caller's enclave over the hash of the
  nonce and exactly these bytes.
\<close>

theorem quote_attests_report:
  assumes "sdk_documented contents w" "sizes_documented w" "report_wf r"
    "\<And>k. blob_key contents a b = Some k \<Longrightarrow> unat (ak_auth_size k) \<le> 32" "cert = None \<or> length (obj cert) = csize"
    "gen_quote w (Some b) n a (Some r) nonce target rep (Some buf) qsize cert csize = res" "qr_ret res = TDQE_SUCCESS"
  shows "ts_verify_report2 w (r2_mac r) = 0 \<and> ts_sha384 w (r2_tee_tcb_info r) = (0, rm_tee_tcb_info_hash (r2_mac r))
    \<and> ts_sha384 w (r2_tee_info r) = (0, rm_tee_info_hash (r2_mac r))
    \<and> (\<exists>v p c sig. determine_quote_version r = Inr v \<and> blob_key contents a b = Some (key_of p c)
        \<and> signature_checked w a (kc_private_key c) (kp_att_public_key p) (quote_front v a r (kp_qe_id p)) sig
        \<and> (let quote = signed_quote (quote_front v a r (kp_qe_id p)) sig p c cert in
             take (length quote) (qr_quote res) = quote \<and> length quote \<le> qsize
             \<and> (nonce \<noteq> None \<longrightarrow> (\<exists>hash report. ts_sha256 w (obj nonce @ quote) = (0, hash)
                  \<and> ts_create_report w 2 target (hash @ replicate 32 0) = (0, report) \<and> qr_qe_report res = Some report))))"
proof -
  obtain v p c sig where "determine_quote_version r = Inr v" "check_td_report w r = TDQE_SUCCESS"
    "blob_key contents a b = Some (key_of p c)"
    "signature_checked w a (kc_private_key c) (kp_att_public_key p) (quote_front v a r (kp_qe_id p)) sig"
    "let quote = signed_quote (quote_front v a r (kp_qe_id p)) sig p c cert in
         take (length quote) (qr_quote res) = quote \<and> length quote \<le> qsize
         \<and> (nonce \<noteq> None \<longrightarrow> (\<exists>hash report. ts_sha256 w (obj nonce @ quote) = (0, hash)
              \<and> ts_create_report w 2 target (hash @ replicate 32 0) = (0, report) \<and> qr_qe_report res = Some report))"
    using gen_quote_ok [OF assms] unfolding Let_def by blast
  with check_td_report_ok show ?thesis by blast
qed

text \<open>A blob, its certified successor and a quote, made by the SDK above with an ML-DSA-65 key.\<close>

lemma demo_quote:
  fixes cpu :: byte
  defines "w \<equiv> tdqe_demo SGX_QL_ALG_MLDSA_65 cpu"
  shows "\<exists>b r b' res. gen_att_key w (Some []) (get_tdqe_blob_size_for_algorithm w SGX_QL_ALG_MLDSA_65) SGX_QL_ALG_MLDSA_65
        (Some demo_target) (Some []) (Some (replicate 32 4)) 32 = (TDQE_SUCCESS, b, r)
    \<and> length b = get_tdqe_blob_size_for_algorithm w SGX_QL_ALG_MLDSA_65
    \<and> store_cert_data w (Some (plaintext_bytes (demo_certification SGX_QL_ALG_MLDSA_65 r))) (plaintext_size SGX_QL_ALG_MLDSA_65) 3
        (Some (replicate 384 8)) 384 (Some b) (length b) = (TDQE_SUCCESS, b')
    \<and> gen_quote w (Some b') (get_tdqe_blob_size_for_algorithm w SGX_QL_ALG_MLDSA_65) SGX_QL_ALG_MLDSA_65 (Some demo_td_report)
        None None None (Some (replicate 20000 0)) 20000 None 0 = res \<and> qr_ret res = TDQE_SUCCESS
    \<and> (\<exists>k. blob_key (demo_contents SGX_QL_ALG_MLDSA_65) SGX_QL_ALG_MLDSA_65 b' = Some k \<and> ak_auth_size k = 32)"
proof -
  have a: "SGX_QL_ALG_MLDSA_65 \<in> supported" by (simp add: supported_def)
  obtain b r b' where *: "gen_att_key w (Some []) (get_tdqe_blob_size_for_algorithm w SGX_QL_ALG_MLDSA_65) SGX_QL_ALG_MLDSA_65
        (Some demo_target) (Some []) (Some (replicate 32 4)) 32 = (TDQE_SUCCESS, b, r)"
    "length b = get_tdqe_blob_size_for_algorithm w SGX_QL_ALG_MLDSA_65"
    "store_cert_data w (Some (plaintext_bytes (demo_certification SGX_QL_ALG_MLDSA_65 r))) (plaintext_size SGX_QL_ALG_MLDSA_65) 3
        (Some (replicate 384 8)) 384 (Some b) (length b) = (TDQE_SUCCESS, b')"
    "qr_ret (gen_quote w (Some b') (get_tdqe_blob_size_for_algorithm w SGX_QL_ALG_MLDSA_65) SGX_QL_ALG_MLDSA_65
        (Some demo_td_report) None None None (Some (replicate 20000 0)) 20000 None 0) = TDQE_SUCCESS"
    using demo_session [OF a, of cpu] unfolding w_def by metis
  obtain k where k: "blob_key (demo_contents SGX_QL_ALG_MLDSA_65) SGX_QL_ALG_MLDSA_65 b = Some k" "ak_auth_size k = 32"
    using gen_att_key_ok [OF demo_documented demo_runs demo_sizes *(1) [unfolded w_def]] by auto
  have "blob_key (demo_contents SGX_QL_ALG_MLDSA_65) SGX_QL_ALG_MLDSA_65 b' = Some k"
    by (rule sc.keeps_key [OF demo_documented demo_runs a k(1)]) (use *(3) in \<open>simp add: store_command_def w_def\<close>)
  with * k show ?thesis by blast
qed

theorem quote_attests_report_witness:
  "\<exists>b n res. qr_ret res = TDQE_SUCCESS
    \<and> gen_quote (tdqe_demo 5 3) (Some b) n 5 (Some demo_td_report) None None None (Some (replicate 20000 0)) 20000 None 0 = res
    \<and> (\<exists>v p c sig. let quote = signed_quote (quote_front v 5 demo_td_report (kp_qe_id p)) sig p c None in
         take (length quote) (qr_quote res) = quote)"
proof -
  obtain b' res k where *: "gen_quote (tdqe_demo SGX_QL_ALG_MLDSA_65 3) (Some b')
        (get_tdqe_blob_size_for_algorithm (tdqe_demo SGX_QL_ALG_MLDSA_65 3) SGX_QL_ALG_MLDSA_65) SGX_QL_ALG_MLDSA_65
        (Some demo_td_report) None None None (Some (replicate 20000 0)) 20000 None 0 = res" "qr_ret res = TDQE_SUCCESS"
      "blob_key (demo_contents SGX_QL_ALG_MLDSA_65) SGX_QL_ALG_MLDSA_65 b' = Some k" "ak_auth_size k = 32"
    using demo_quote [of 3] by blast
  have "unat (ak_auth_size k') \<le> 32"
    if "blob_key (demo_contents SGX_QL_ALG_MLDSA_65) SGX_QL_ALG_MLDSA_65 b' = Some k'" for k' using that *(3,4) by simp
  from quote_attests_report [OF demo_documented demo_sizes demo_td_report_facts(1) this _ *(1,2)] *(1,2)
  show ?thesis unfolding Let_def SGX_QL_ALG_MLDSA_65_def by blast
qed

section \<open>The key through the commands\<close>

text \<open>
  One command on the blob the caller keeps, at whatever TCB the platform has by then. A failed store_cert_data is left
  out: it seals into the caller's buffer directly, so that a failure of the sealing loses the key.
\<close>

datatype tdqe_command =
    Verify_blob bool nat bool
  | Store_cert_data "byte list" nat nat "byte list option" nat
  | Gen_quote nat sgx_report2 "byte list option" "byte list option" "byte list option" "byte list" "byte list option" nat

fun run_command :: "tdqe_command \<Rightarrow> tdqe_sdk \<Rightarrow> byte list \<Rightarrow> int \<times> byte list" where
  "run_command (Verify_blob has_body id_size has_id) w b = verify_command has_body id_size has_id w b"
| "run_command (Store_cert_data input isize key_type ppid ppid_size) w b = store_command input isize key_type ppid ppid_size w b"
| "run_command (Gen_quote alg r nonce target rep buf cert csize) w b = quote_command alg r nonce target rep buf cert csize w b"

inductive blob_step :: "(byte list \<Rightarrow> (byte list \<times> byte list) option) \<Rightarrow> byte list \<Rightarrow> byte list \<Rightarrow> bool" for contents where
  command: "sdk_documented contents w \<Longrightarrow> runs_at cpu isv w \<Longrightarrow> run_command cmd w b = (ret, b')
    \<Longrightarrow> ret = TDQE_SUCCESS \<or> (\<forall>i s k p n. cmd \<noteq> Store_cert_data i s k p n) \<Longrightarrow> blob_step contents b b'"

inductive_cases blob_stepE: "blob_step contents b b'"

lemma blob_step_key:
  assumes "blob_step contents b b'" "a \<in> supported" "blob_key contents a b = Some k"
  shows "blob_key contents a b' = Some k"
  using assms(1)
proof (rule blob_stepE)
  fix w cpu isv cmd ret
  assume s: "sdk_documented contents w" "runs_at cpu isv w" "run_command cmd w b = (ret, b')"
    "ret = TDQE_SUCCESS \<or> (\<forall>i s k p n. cmd \<noteq> Store_cert_data i s k p n)"
  show ?thesis
  proof (cases cmd)
    case (Verify_blob x y z)
    with s(3) vb.always_keeps_key [OF s(1,2) assms(2,3)] show ?thesis by simp
  next
    case (Store_cert_data i s k p n)
    with s(3,4) sc.keeps_key [OF s(1,2) assms(2,3)] show ?thesis by auto
  next
    case (Gen_quote x1 x2 x3 x4 x5 x6 x7 x8)
    with s(3) gq.always_keeps_key [OF s(1,2) assms(2,3)] show ?thesis by simp
  qed
qed

text \<open>A blob whose QE report is made for its key.\<close>

definition certified_blob :: "(byte list \<Rightarrow> (byte list \<times> byte list) option) \<Rightarrow> byte list \<Rightarrow> bool" where
  "certified_blob contents b \<longleftrightarrow> (\<exists>a p c. a \<in> supported \<and> contents b = Some (plaintext_bytes p, ciphertext_bytes c)
     \<and> plaintext_wf a p \<and> ciphertext_wf a c \<and> take 32 (report_report_data (kp_qe_report p)) = kp_key_id p)"

lemma stored_blob_certified:
  assumes "sdk_documented contents w" "runs_at cpu isv w"
    "store_cert_data w (Some input) isize key_type ppid ppid_size (Some b) n = (TDQE_SUCCESS, b')"
  shows "certified_blob contents b'"
proof -
  obtain a p c r where *: "a \<in> supported"
    "let i = plaintext_of a (written (plaintext_size a) input) in
       kp_key_id p = take 32 (report_report_data (kp_qe_report i))
       \<and> contents b' = Some (plaintext_bytes (certified r i p), ciphertext_bytes (with_ppid ppid ppid_size c))
       \<and> plaintext_wf a (certified r i p) \<and> ciphertext_wf a (with_ppid ppid ppid_size c)"
    using store_cert_ok [OF assms] unfolding Let_def by blast
  then show ?thesis
    unfolding certified_blob_def Let_def
    by (intro exI [of _ a] exI [of _ "certified r (plaintext_of a (written (plaintext_size a) input)) p"]
        exI [of _ "with_ppid ppid ppid_size c"]) (simp add: certified_def)
qed

lemma blob_step_certified:
  assumes "blob_step contents b b'" "certified_blob contents b"
  shows "certified_blob contents b'"
  using assms(1)
proof (rule blob_stepE)
  fix w cpu isv cmd ret
  assume s: "sdk_documented contents w" "runs_at cpu isv w" "run_command cmd w b = (ret, b')"
    "ret = TDQE_SUCCESS \<or> (\<forall>i s k p n. cmd \<noteq> Store_cert_data i s k p n)"
  show ?thesis
  proof (cases cmd)
    case (Verify_blob x y z)
    with s(3) verify_command_contents [OF s(1)] assms(2) show ?thesis by (simp add: certified_blob_def)
  next
    case (Store_cert_data i s k p n)
    with s(3,4) stored_blob_certified [OF s(1,2)] show ?thesis by (auto simp: store_command_def)
  next
    case (Gen_quote x1 x2 x3 x4 x5 x6 x7 x8)
    with s(3) quote_command_contents [OF s(1)] assms(2) show ?thesis by (simp add: certified_blob_def)
  qed
qed

lemma blob_steps:
  assumes "(blob_step contents)\<^sup>*\<^sup>* b b'"
  shows "a \<in> supported \<Longrightarrow> blob_key contents a b = Some k \<Longrightarrow> blob_key contents a b' = Some k"
    "certified_blob contents b \<Longrightarrow> certified_blob contents b'"
  using assms by (induction rule: rtranclp_induct) (auto intro: blob_step_key blob_step_certified)

text \<open>
  C4. The attestation key survives every history. Whatever commands run on a sealed blob - verifications, quotes, and
  certifications that succeed, each at its own TCB level, successful or not, with arbitrary arguments - the blob the
  caller ends up with holds the same private key, public key, key id and authentication data.
\<close>

theorem attestation_key_persists:
  assumes "(blob_step contents)\<^sup>*\<^sup>* b b'" "a \<in> supported" "blob_key contents a b = Some k"
  shows "blob_key contents a b' = Some k"
  using blob_steps(1) [OF assms(1)] assms(2,3) .

theorem attestation_key_persists_witness:
  "\<exists>b b' k. (blob_step (demo_contents 5))\<^sup>*\<^sup>* b b' \<and> blob_key (demo_contents 5) 5 b = Some k
     \<and> blob_key (demo_contents 5) 5 b' = Some k"
proof -
  have a: "SGX_QL_ALG_MLDSA_65 \<in> supported" by (simp add: supported_def)
  obtain b r b' where *: "gen_att_key (tdqe_demo SGX_QL_ALG_MLDSA_65 3) (Some [])
        (get_tdqe_blob_size_for_algorithm (tdqe_demo SGX_QL_ALG_MLDSA_65 3) SGX_QL_ALG_MLDSA_65) SGX_QL_ALG_MLDSA_65
        (Some demo_target) (Some []) (Some (replicate 32 4)) 32 = (TDQE_SUCCESS, b, r)"
      "store_cert_data (tdqe_demo SGX_QL_ALG_MLDSA_65 3) (Some (plaintext_bytes (demo_certification SGX_QL_ALG_MLDSA_65 r)))
        (plaintext_size SGX_QL_ALG_MLDSA_65) 3 (Some (replicate 384 8)) 384 (Some b) (length b) = (TDQE_SUCCESS, b')"
    using demo_quote [of 3] by blast
  obtain k where k: "blob_key (demo_contents SGX_QL_ALG_MLDSA_65) SGX_QL_ALG_MLDSA_65 b = Some k"
    using gen_att_key_ok [OF demo_documented demo_runs demo_sizes *(1)] by auto
  have "blob_step (demo_contents SGX_QL_ALG_MLDSA_65) b b'"
    by (rule blob_step.command [OF demo_documented demo_runs, of "Store_cert_data
        (plaintext_bytes (demo_certification SGX_QL_ALG_MLDSA_65 r)) (plaintext_size SGX_QL_ALG_MLDSA_65) 3
        (Some (replicate 384 8)) 384"]) (use *(2) in \<open>simp_all add: store_command_def\<close>)
  then have "(blob_step (demo_contents SGX_QL_ALG_MLDSA_65))\<^sup>*\<^sup>* b b'" by blast
  from attestation_key_persists [OF this a k] this k show ?thesis unfolding SGX_QL_ALG_MLDSA_65_def by blast
qed

text \<open>
  C3. A quote carries the key the PCE certified. Take a key that gen_att_key derived and sealed, any commands on its
  blob, a certification that store_cert_data accepted, any further commands, and a quote that gen_quote returned, each
  under an SDK as documented. Then the quote is signed by the derived private key; the public key and the 32 bytes of
  authentication data in it are those whose SHA-256 key generation computed; and this digest starts the report data of
  the QE report in the same quote, the report the PCE's signature covers.
\<close>

theorem quote_carries_certified_key:
  assumes "sdk_documented contents w" "runs_at cpu isv w" "sizes_documented w"
    "gen_att_key w (Some b0) n a (Some t) (Some r0) (Some auth) asz = (TDQE_SUCCESS, b1, r1)"
    "(blob_step contents)\<^sup>*\<^sup>* b1 b2"
    "sdk_documented contents w'" "runs_at cpu' isv' w'"
    "store_cert_data w' (Some input) isize key_type ppid ppid_size (Some b2) (length b2) = (TDQE_SUCCESS, b3)"
    "(blob_step contents)\<^sup>*\<^sup>* b3 b4"
    "sdk_documented contents w''" "sizes_documented w''" "report_wf r" "cert = None \<or> length (obj cert) = csize"
    "gen_quote w'' (Some b4) m a (Some r) nonce target rep (Some buf) qsize cert csize = res" "qr_ret res = TDQE_SUCCESS"
  shows "\<exists>v p c sig h. let quote = signed_quote (quote_front v a r (kp_qe_id p)) sig p c cert in
    take (length quote) (qr_quote res) = quote
    \<and> signature_checked w'' a (kc_private_key c) (kp_att_public_key p) (quote_front v a r (kp_qe_id p)) sig
    \<and> derived_key w a (kc_private_key c) (kp_att_public_key p)
    \<and> ts_sha256 w (kp_att_public_key p @ kp_authentication_data p) = (0, h) \<and> kp_authentication_data_size p = 32
    \<and> take 32 (report_report_data (kp_qe_report p)) = h"
proof -
  obtain priv pub h where g: "derived_key w a priv pub" "ts_sha256 w (pub @ auth_data_of (Some auth)) = (0, h)"
      "blob_key contents a b1 = Some \<lparr>ak_private = priv, ak_public = pub, ak_id = h, ak_auth_size = word_of_nat asz,
         ak_auth_data = auth_data_of (Some auth)\<rparr>"
    using gen_att_key_ok [OF assms(1-4)] by blast
  have a: "a \<in> supported" and asz: "asz = 32" using gen_att_key_calls(1,4) [OF assms(4)] by auto
  define k where "k = \<lparr>ak_private = priv, ak_public = pub, ak_id = h, ak_auth_size = 32, ak_auth_data = auth_data_of (Some auth)\<rparr>"
  have k2: "blob_key contents a b2 = Some k" using blob_steps(1) [OF assms(5) a] g(3) by (simp add: k_def asz)
  have "blob_key contents a b3 = Some k"
    by (rule sc.keeps_key [OF assms(6,7) a k2]) (use assms(8) in \<open>simp add: store_command_def\<close>)
  then have k4: "blob_key contents a b4 = Some k" using blob_steps(1) [OF assms(9) a] by blast
  have "certified_blob contents b4" using blob_steps(2) [OF assms(9)] stored_blob_certified [OF assms(6-8)] by blast
  then obtain a' p' c' where cert: "a' \<in> supported" "contents b4 = Some (plaintext_bytes p', ciphertext_bytes c')" "plaintext_wf a' p'"
      "ciphertext_wf a' c'" "take 32 (report_report_data (kp_qe_report p')) = kp_key_id p'"
    unfolding certified_blob_def by blast
  have "unat (ak_auth_size k) \<le> 32" by (simp add: k_def)
  then have "unat (ak_auth_size k') \<le> 32" if "blob_key contents a b4 = Some k'" for k' using that k4 by simp
  from gen_quote_ok [OF assms(10-12) this assms(13-15)]
  obtain v p c sig where q: "plaintext_wf a p" "contents b4 = Some (plaintext_bytes p, ciphertext_bytes c)"
      "blob_key contents a b4 = Some (key_of p c)"
      "signature_checked w'' a (kc_private_key c) (kp_att_public_key p) (quote_front v a r (kp_qe_id p)) sig"
      "let quote = signed_quote (quote_front v a r (kp_qe_id p)) sig p c cert in take (length quote) (qr_quote res) = quote"
    unfolding Let_def by blast
  have "plaintext_size a' = plaintext_size a"
    using length_plaintext_bytes [OF cert(3)] length_plaintext_bytes [OF q(1)] cert(2) q(2) by simp
  then have "a' = a" using plaintext_size_inj cert(1) a by blast
  then have "p' = p" using plaintext_of_bytes [OF cert(3)] plaintext_of_bytes [OF q(1)] cert(2) q(2) by auto
  with cert(5) have "take 32 (report_report_data (kp_qe_report p)) = kp_key_id p" by simp
  moreover from k4 q(3) have "key_of p c = k" by simp
  then have "kc_private_key c = priv" "kp_att_public_key p = pub" "kp_key_id p = h" "kp_authentication_data_size p = 32"
    "kp_authentication_data p = auth_data_of (Some auth)" by (simp_all add: key_of_def k_def)
  ultimately show ?thesis
    using q(4,5) g(1,2) by (intro exI [of _ v] exI [of _ p] exI [of _ c] exI [of _ sig] exI [of _ h]) (simp add: Let_def)
qed

theorem quote_carries_certified_key_witness:
  "\<exists>(res :: quote_result) v p c sig h. qr_ret res = TDQE_SUCCESS \<and> ts_sha256 (tdqe_demo 5 3) (kp_att_public_key p @ kp_authentication_data p) = (0, h)
     \<and> (let quote = signed_quote (quote_front v 5 demo_td_report (kp_qe_id p)) sig p c None in
          take (length quote) (qr_quote res) = quote \<and> take 32 (report_report_data (kp_qe_report p)) = h)"
proof -
  obtain b r b' res where *: "gen_att_key (tdqe_demo SGX_QL_ALG_MLDSA_65 3) (Some [])
        (get_tdqe_blob_size_for_algorithm (tdqe_demo SGX_QL_ALG_MLDSA_65 3) SGX_QL_ALG_MLDSA_65) SGX_QL_ALG_MLDSA_65
        (Some demo_target) (Some []) (Some (replicate 32 4)) 32 = (TDQE_SUCCESS, b, r)"
      "store_cert_data (tdqe_demo SGX_QL_ALG_MLDSA_65 3) (Some (plaintext_bytes (demo_certification SGX_QL_ALG_MLDSA_65 r)))
        (plaintext_size SGX_QL_ALG_MLDSA_65) 3 (Some (replicate 384 8)) 384 (Some b) (length b) = (TDQE_SUCCESS, b')"
      "gen_quote (tdqe_demo SGX_QL_ALG_MLDSA_65 3) (Some b')
        (get_tdqe_blob_size_for_algorithm (tdqe_demo SGX_QL_ALG_MLDSA_65 3) SGX_QL_ALG_MLDSA_65) SGX_QL_ALG_MLDSA_65
        (Some demo_td_report) None None None (Some (replicate 20000 0)) 20000 None 0 = res" "qr_ret res = TDQE_SUCCESS"
    using demo_quote [of 3] by blast
  from quote_carries_certified_key [OF demo_documented demo_runs demo_sizes *(1) rtranclp.rtrancl_refl demo_documented demo_runs
      *(2) rtranclp.rtrancl_refl demo_documented demo_sizes demo_td_report_facts(1) disjI1 [OF refl] *(3,4)] *(4)
  show ?thesis unfolding Let_def SGX_QL_ALG_MLDSA_65_def by blast
qed



text \<open>
  Resealing settles. When verify_blob succeeds on a blob - of any TCB level - then a second verify_blob on the blob it
  left, at the same TCB level, succeeds with the same report body and key id, leaves the blob as it is and reports that
  it was not resealed.
\<close>

theorem blob_resealed_once:
  assumes "sdk_documented contents w" "runs_at cpu isv w"
    "\<And>b pt ct. contents b = Some (pt, ct)
      \<Longrightarrow> ts_unseal w b = (0, pt, ct) \<and> ts_add_mac_len w b = length pt \<and> ts_encrypt_len w b = length ct"
    "verify_blob w (Some b) n True f1 m f2 = r1" "bk_ret r1 = TDQE_SUCCESS"
  shows "verify_blob w (Some (bk_blob r1)) n True f1 m f2 = r1\<lparr>bk_is_resealed := Some False\<rparr>"
proof -
  have r1: "verify_blob_any_internal w (Some b) n True f1 f2 m = r1"
    using assms(4,5) by (auto simp: verify_blob_def Let_def split: if_splits)
  then obtain pt ct key_id report where *: "ts_unseal w b = (0, pt, ct)" "checked_key_id w n pt (length ct) = Some key_id"
    "ts_create_report w 0 None (replicate 64 0) = (0, report)" "is_blob_size w n" "f2 \<longrightarrow> \<not> m < 32"
    "ts_add_mac_len w b \<le> plaintext_size SGX_QL_ALG_MLDSA_87" "ts_encrypt_len w b \<le> ciphertext_size SGX_QL_ALG_MLDSA_87"
    "r1 = \<lparr>bk_ret = TDQE_SUCCESS, bk_blob = (if tcb_changed w report b then take n (snd (ts_seal w pt ct n)) else b),
       bk_is_resealed = Some (tcb_changed w report b), bk_report_body = (if f1 then Some (report_body report) else None),
       bk_key_id = (if f2 then Some key_id else None)\<rparr>"
    "tcb_changed w report b \<longrightarrow> fst (ts_seal w pt ct n) = 0"
    using verify_any_ok [OF _ assms(5)] by metis
  have cb: "contents b = Some (pt, ct)" "length pt = ts_add_mac_len w b" "length ct = ts_encrypt_len w b"
    using assms(1) *(1) unfolding sdk_documented_def by blast+
  define b' where "b' = bk_blob r1"
  have b': "contents b' = Some (pt, ct) \<and> \<not> tcb_changed w report b'"
  proof (cases "tcb_changed w report b")
    case True
    obtain sb where s: "ts_seal w pt ct n = (0, sb)" using *(9) True by (metis prod.collapse)
    then have "length sb = n" "contents sb = Some (pt, ct)" "ts_key_request_cpu_svn w sb = cpu" "ts_key_request_isv_svn w sb = isv"
      using assms(1,2) unfolding sdk_documented_def runs_at_def by blast+
    moreover have "report_cpu_svn report = cpu" "report_isv_svn report = isv"
      using assms(2) *(3) unfolding runs_at_def by blast+
    ultimately show ?thesis using True s by (simp add: b'_def *(8) tcb_changed_def)
  qed (use cb in \<open>simp add: b'_def *(8)\<close>)
  then have "verify_blob_any_internal w (Some b') n True f1 f2 m = r1\<lparr>bk_is_resealed := Some False, bk_blob := b'\<rparr>"
    using assms(3) [of b' pt ct] * cb by (simp add: verify_blob_any_internal_def Let_def)
  moreover have "verify_blob w (Some b') n True f1 m f2 = verify_blob_any_internal w (Some b') n True f1 f2 m"
    using assms(4,5) by (auto simp: verify_blob_def Let_def split: if_splits)
  ultimately show ?thesis by (simp add: b'_def)
qed

theorem blob_resealed_once_witness:
  "\<exists>b. let first = verify_blob (older_demo 2 3) (Some b) (length b) True True 0 False;
         second = verify_blob (older_demo 2 3) (Some (bk_blob first)) (length b) True True 0 False in
     bk_ret first = TDQE_SUCCESS \<and> bk_is_resealed first = Some True
     \<and> bk_ret second = TDQE_SUCCESS \<and> bk_is_resealed second = Some False \<and> bk_blob second = bk_blob first"
proof -
  let ?w = "tdqe_demo SGX_QL_ALG_ECDSA_P256 3"
  have a: "SGX_QL_ALG_ECDSA_P256 \<in> supported" by (simp add: supported_def)
  obtain b r where g: "gen_att_key ?w (Some []) (get_tdqe_blob_size_for_algorithm ?w SGX_QL_ALG_ECDSA_P256) SGX_QL_ALG_ECDSA_P256
        (Some demo_target) (Some []) (Some (replicate 32 4)) 32 = (TDQE_SUCCESS, b, r)"
      "length b = get_tdqe_blob_size_for_algorithm ?w SGX_QL_ALG_ECDSA_P256"
    using demo_session [OF a, of 3] by blast
  obtain p c where "usable_blob (demo_contents SGX_QL_ALG_ECDSA_P256) ?w SGX_QL_ALG_ECDSA_P256 b p c"
    using gen_att_key_usable [OF demo_documented demo_sizes demo_signs [OF a] g(1)] by blast
  note u = this [unfolded usable_blob_def]
  define b1 where "b1 = 1 # tl b"
  have l: "length b1 = get_tdqe_blob_size_for_algorithm (older_demo SGX_QL_ALG_ECDSA_P256 3) SGX_QL_ALG_ECDSA_P256"
    "0 < length b" using g(2) by (simp_all add: b1_def older_demo_def get_tdqe_blob_size_for_algorithm_def tdqe_demo_def)
  have c: "demo_contents SGX_QL_ALG_ECDSA_P256 b1 = demo_contents SGX_QL_ALG_ECDSA_P256 b"
    using l(2) by (cases b) (simp_all add: b1_def demo_contents_def drop_Cons')
  have r: "ts_create_report (older_demo SGX_QL_ALG_ECDSA_P256 3) 0 None (replicate 64 0) = (0, demo_report 3 (replicate 64 0))"
    by (simp add: older_demo_def tdqe_demo_def)
  have t: "tcb_changed (older_demo SGX_QL_ALG_ECDSA_P256 3) (demo_report 3 (replicate 64 0)) b1"
    by (simp add: tcb_changed_def older_demo_def b1_def demo_report_def report_cpu_svn_def)
  define f where "f = verify_blob (older_demo SGX_QL_ALG_ECDSA_P256 3) (Some b1) (length b1) True True 0 False"
  have f: "bk_ret f = TDQE_SUCCESS" "bk_is_resealed f = Some True"
    using verify_works [OF older_demo_facts(3) a _ _ _ _ _ r, of p c b1 True False] u c t unfolding f_def l(1) by simp_all
  have "verify_blob (older_demo SGX_QL_ALG_ECDSA_P256 3) (Some (bk_blob f)) (length b1) True True 0 False
      = f\<lparr>bk_is_resealed := Some False\<rparr>"
    by (rule blob_resealed_once [OF older_demo_facts(1,2) _ f_def [symmetric] f(1)])
      (rule sdk_calls(4) [OF older_demo_facts(3)])
  with f show ?thesis unfolding Let_def f_def SGX_QL_ALG_ECDSA_P256_def by (intro exI [of _ b1]) simp
qed

text \<open>
  A generation of an ML-DSA key that fails after the derivation leaves the private key in its local buffer: only the
  sealing is followed by a memset_s.
\<close>

lemma failed_generation_keeps_key:
  assumes "get_att_key_based_from_seal_key_mldsa (tdqe_env.truncate w) a (Some (replicate (pub_key_size a) 0))
      (Some (replicate (private_key_size a) 0)) (Some (replicate 32 0)) = (TDQE_SUCCESS, Some pk, Some sk)"
    "fst (ts_sha256 w (pk @ replicate 32 0)) \<noteq> 0"
  shows "gen_att_key_mldsa_impl w b n a t r None 0 = (TDQE_ERROR_UNEXPECTED, b, r, sk)"
  using assms
  by (simp add: gen_att_key_mldsa_impl_def Let_def zero_plaintext_simps zero_ciphertext_simps case_prod_beta)

section \<open>The TD report in the quote\<close>

text \<open>
  The quote version is the documented one. For every TD report the decision of determine_quote_version - quote
  version, whether MRSERVICETD and the second TCB SVN are copied, and whether TD id and VM id are present - is the one of
  the table in its comment, with the eight bytes of the validity field read as one little-endian number that has to be
  0x1FF or 0x301FF.
\<close>

theorem quote_version_as_documented:
  assumes "report_wf r"
  shows "determine_quote_version r = documented_version r"
  by (rule quote_version_documented [OF assms])

theorem quote_version_as_documented_witness:
  "report_wf demo_td_report \<and> documented_version demo_td_report = Inr \<lparr>gen_v5_quote = False, mr_servicetd_valid = False,
     tee_tcb_svn2_valid = False, tdid_present = False, vmid_present = False\<rparr>"
  using quote_version_as_documented [OF demo_td_report_facts(1)] demo_td_report_facts by simp



end
