(* ===== verification/Tdqe_Service.thy ===== *)
theory Tdqe_Service
  imports Tdqe_Correct Qgs_Service
begin

text \<open>
  The TD quoting enclave and the quote generation service together: the service's walk through the certification data
  of a quote that gen_quote returned.
\<close>

section \<open>The service reads the quote\<close>

lemma get16_here: "off = length xs \<Longrightarrow> get16 off (xs @ le16 w @ ys) = w"
  by (rule get16_le16) simp

lemma get32_here: "off = length xs \<Longrightarrow> get32 off (xs @ le32 w @ ys) = w"
  by (rule get32_le32) simp

lemma sig_struct_size:
  "a \<in> {SGX_QL_ALG_MLDSA_44, SGX_QL_ALG_MLDSA_65, SGX_QL_ALG_MLDSA_87}
   \<Longrightarrow> get_mldsa_sig_data_struct_size_for_algorithm a = get_quote_signature_size a + pub_key_size a"
  by (auto simp: get_mldsa_sig_data_struct_size_for_algorithm_def get_quote_signature_size_def pub_key_size_def alg_defs)

text \<open>A quote of version 4 as the walk sees it.\<close>

lemma field_of_part:
  assumes "off + 6 \<le> length xs + length ys" "length xs \<le> off"
  shows "get16 off (xs @ ys @ zs) = get16 (off - length xs) ys" "get32 (off + 2) (xs @ ys @ zs) = get32 (off - length xs + 2) ys"
proof -
  obtain k where k: "off = length xs + k" using assms(2) le_Suc_ex by blast
  with assms(1) have "k + 6 \<le> length ys" by simp
  then have "take 2 (drop off (xs @ ys @ zs)) = take 2 (drop k ys)"
    "take 4 (drop (off + 2) (xs @ ys @ zs)) = take 4 (drop (k + 2) ys)" by (simp_all add: k)
  moreover have "off - length xs = k" using k by simp
  ultimately show "get16 off (xs @ ys @ zs) = get16 (off - length xs) ys"
    "get32 (off + 2) (xs @ ys @ zs) = get32 (off - length xs + 2) ys" unfolding get16_def get32_def by (simp_all only:)
qed

lemma walk_version_4:
  assumes "q = pre @ le16 6 @ le32 (word_of_nat (450 + n + length inner)) @ qe @ le16 (word_of_nat n) @ auth @ inner @ rest"
    "length pre = outer_offset alg" "length qe = 448" "length auth = n" "length inner = 6 + unat (get32 2 inner)"
    "get16 0 q = 4" "unat (get16 2 q) = alg" "length q < 2 ^ 32" "n < 2 ^ 16"
  shows "get_mldsa_quote_inner_cert_key_type q (len32 q) alg = Good (Some (get16 0 inner))"
proof -
  define outer where "outer = outer_offset alg"
  define k where "k = 450 + n + length inner"
  note len = assms(2) [folded outer_def]
  have l: "length q = outer + 6 + k + length rest" using assms(1-4) by (simp add: outer_def k_def)
  have un: "unat (word_of_nat n :: u16) = n" "unat (word_of_nat k :: u32) = k"
    using assms(8,9) l by (simp_all add: unsigned_of_nat take_bit_nat_eq_self)
  have g: "get16 outer q = 6" "get32 (outer + 2) q = word_of_nat k" "get16 (outer + 454) q = word_of_nat n"
    "get16 (outer + 456 + n) q = get16 0 inner" "get32 (outer + 456 + n + 2) q = get32 2 inner"
    using get16_here [of outer pre 6] get32_here [of "outer + 2" "pre @ le16 6" "word_of_nat k"]
      get16_here [of "outer + 454" "pre @ le16 6 @ le32 (word_of_nat k) @ qe" "word_of_nat n"]
      field_of_part [of "outer + 456 + n" "pre @ le16 6 @ le32 (word_of_nat k) @ qe @ le16 (word_of_nat n) @ auth" inner rest]
      len assms(3,4,5)
    by (simp_all add: assms(1) k_def numeral_2_eq_2 [symmetric])
  have s: "unat (size32 outer + (size32 6 + word_of_nat k)) = outer + 6 + k"
    using outer_sum [of alg "word_of_nat k"] l assms(8) by (simp add: outer_def un)
  have i: "unat (size32 6 + get32 2 inner) = length inner"
  proof -
    have "size32 6 + get32 2 inner = size32 (6 + unat (get32 2 inner))" by (simp add: size32_def)
    moreover have "length inner < 2 ^ 32" using l assms(8) by (simp add: k_def)
    ultimately have "unat (size32 6 + get32 2 inner) = take_bit 32 (length inner)"
      unfolding size32_def by (simp only: unsigned_of_nat assms(5) word_size) simp
    with \<open>length inner < 2 ^ 32\<close> show ?thesis by (simp add: take_bit_nat_eq_self)
  qed
  have n: "unat (len32 q) = length q" using assms(8) by simp
  show ?thesis
    unfolding get_mldsa_quote_inner_cert_key_type_def Let_def outer_def [symmetric]
    using g s i n un l assms(5-7)
    by (simp add: rd16_def rd32_def word_less_nat_alt kQeReportCertificationDataType_def k_def add_ac numeral_2_eq_2 [symmetric])
qed

lemma take_prefix: "take (length xs) ys = xs \<Longrightarrow> \<exists>zs. ys = xs @ zs"
  by (metis append_take_drop_id)

lemma header_fields:
  "get16 0 (quote_front v a r qe_id @ rest) = (if gen_v5_quote v then 5 else 4)"
  "get16 2 (quote_front v a r qe_id @ rest) = word_of_nat a"
proof -
  have "\<exists>tail. quote_front v a r qe_id = le16 (if gen_v5_quote v then 5 else 4) @ le16 (word_of_nat a) @ tail"
    by (cases "gen_v5_quote v"; cases "tdid_present v \<or> vmid_present v")
      (simp_all add: quote_front_def quote_header_def Let_def QE_QUOTE_VERSION_def QE_QUOTE_VERSION_V5_def)
  then obtain tail where f: "quote_front v a r qe_id = le16 (if gen_v5_quote v then 5 else 4) @ le16 (word_of_nat a) @ tail" ..
  show "get16 0 (quote_front v a r qe_id @ rest) = (if gen_v5_quote v then 5 else 4)"
    using get16_here [of 0 "[]" "if gen_v5_quote v then 5 else 4"] by (simp add: f)
  show "get16 2 (quote_front v a r qe_id @ rest) = word_of_nat a"
    using get16_here [of 2 "le16 (if gen_v5_quote v then 5 else 4)"] by (simp add: f)
qed

text \<open>
  C23. The service reads the quotes its enclave makes, except the new ones. For a quote that gen_quote returned with an
  ML-DSA key, in a buffer of the size it was told, the quote generation service's walk to the inner certification data
  finds exactly the type of the certification data the caller gave (or the encrypted PPID) when the quote has version 4.
  A quote of version 5 - every TD report of version 1 or 3, and one of version 0 after a TD-preserving update - gives no
  type at all, so that the service's full-DCAP policy, which asks for a PCK certificate chain, refuses it.
\<close>

theorem service_reads_certification:
  assumes "sdk_documented contents w" "sizes_documented w" "report_wf r"
    "\<And>k. blob_key contents a b = Some k \<Longrightarrow> unat (ak_auth_size k) \<le> 32" "cert = None \<or> length (obj cert) = csize"
    "gen_quote w (Some b) n a (Some r) nonce target rep (Some buf) qsize cert csize = res" "qr_ret res = TDQE_SUCCESS"
    "a \<in> {SGX_QL_ALG_MLDSA_44, SGX_QL_ALG_MLDSA_65, SGX_QL_ALG_MLDSA_87}" "length buf = qsize" "qsize < 2 ^ 32"
  shows "\<exists>v. determine_quote_version r = Inr v
    \<and> get_mldsa_quote_inner_cert_key_type (qr_quote res) (len32 (qr_quote res)) a
      = Good (if gen_v5_quote v then None else Some (case cert of None \<Rightarrow> 3 | Some d \<Rightarrow> cert_type d))"
proof -
  obtain v p c sig where q: "determine_quote_version r = Inr v" "plaintext_wf a p" "ciphertext_wf a c"
      "blob_key contents a b = Some (key_of p c)"
      "signature_checked w a (kc_private_key c) (kp_att_public_key p) (quote_front v a r (kp_qe_id p)) sig"
      "let quote = signed_quote (quote_front v a r (kp_qe_id p)) sig p c cert in take (length quote) (qr_quote res) = quote"
      "length (qr_quote res) = qsize"
    using gen_quote_ok [OF assms(1-7)] assms(9) unfolding Let_def by blast
  have short: "length (qr_quote res) < 2 ^ 32" using q(7) assms(10) by simp
  define front where "front = quote_front v a r (kp_qe_id p)"
  define inner where "inner = inner_certification p c cert"
  obtain rest where rest: "qr_quote res = signed_quote front sig p c cert @ rest"
    using q(6) take_prefix unfolding Let_def front_def by blast
  have ecdsa: "a \<noteq> SGX_QL_ALG_ECDSA_P256" "a < 2 ^ 16" using assms(8) by (auto simp: alg_defs)
  have sig: "length sig = get_quote_signature_size a"
    using mldsa_signature_length [OF assms(2)] q(5) ecdsa(1) by (fastforce simp: signature_checked_def)
  note l = plaintext_wf_lengths [OF q(2)] ciphertext_wf_lengths [OF q(3)]
  have auth: "unat (kp_authentication_data_size p) \<le> 32" using assms(4) q(4) by (auto simp: key_of_def)
  have hd: "get16 0 (qr_quote res) = (if gen_v5_quote v then 5 else 4)" "unat (get16 2 (qr_quote res)) = a"
    using header_fields [of v a r "kp_qe_id p"] ecdsa(2)
    by (simp_all add: rest signed_quote_def front_def unsigned_of_nat take_bit_nat_eq_self)
  show ?thesis
  proof (cases "gen_v5_quote v")
    case True
    then have "get_mldsa_quote_inner_cert_key_type (qr_quote res) (len32 (qr_quote res)) a = Good None"
      using short hd by (simp add: get_mldsa_quote_inner_cert_key_type_def Let_def rd16_def)
    with True q(1) show ?thesis by simp
  next
    case False
    have cert: "cert_data_accepted cert csize" using gen_quote_calls [OF assms(6,7)] by blast
    have inner: "length inner = 6 + unat (get32 2 inner) \<and> get16 0 inner = (case cert of None \<Rightarrow> 3 | Some d \<Rightarrow> cert_type d)"
    proof (cases cert)
      case None
      then show ?thesis
        using l get16_here [of 0 "[]" 3] get32_here [of 2 "le16 3" 404] by (simp add: inner_def inner_certification_def)
    next
      case (Some d)
      then show ?thesis
        using cert assms(5) by (simp add: inner_def inner_certification_def cert_data_accepted_def cert_size_def cert_type_def)
    qed
    define m where "m = unat (kp_authentication_data_size p)"
    have "ucast (kp_authentication_data_size p) = (word_of_nat m :: u16)" by (simp add: m_def)
    then have split: "qr_quote res = (front @ le32 (word_of_nat (length (sig @ kp_att_public_key p @ le16 6
          @ framed (key_certification p c cert)))) @ sig @ kp_att_public_key p)
        @ le16 6 @ le32 (word_of_nat (450 + m + length inner)) @ (report_body (kp_qe_report p) @ kp_qe_report_cert_key_sig p)
        @ le16 (word_of_nat m) @ take m (kp_authentication_data p) @ inner @ rest"
      using l auth
      by (simp add: rest signed_quote_def framed_def key_certification_def inner_def m_def report_body_def add_ac)
    have "get_mldsa_quote_inner_cert_key_type (qr_quote res) (len32 (qr_quote res)) a = Good (Some (get16 0 inner))"
      by (rule walk_version_4 [OF split])
        (use l auth sig inner hd False short sig_struct_size [OF assms(8)] length_quote_front [OF assms(3) l(1)] in
          \<open>simp_all add: m_def report_body_def front_def front_size_def\<close>)
    with False inner q(1) show ?thesis by simp
  qed
qed

theorem service_reads_certification_witness:
  "\<exists>res :: quote_result. qr_ret res = TDQE_SUCCESS \<and> length (qr_quote res) = 20000
     \<and> get_mldsa_quote_inner_cert_key_type (qr_quote res) (len32 (qr_quote res)) 5 = Good (Some 3)"
proof -
  obtain b' res k where *: "gen_quote (tdqe_demo SGX_QL_ALG_MLDSA_65 3) (Some b')
        (get_tdqe_blob_size_for_algorithm (tdqe_demo SGX_QL_ALG_MLDSA_65 3) SGX_QL_ALG_MLDSA_65) SGX_QL_ALG_MLDSA_65
        (Some demo_td_report) None None None (Some (replicate 20000 0)) 20000 None 0 = res" "qr_ret res = TDQE_SUCCESS"
      "blob_key (demo_contents SGX_QL_ALG_MLDSA_65) SGX_QL_ALG_MLDSA_65 b' = Some k" "ak_auth_size k = 32"
    using demo_quote [of 3] by blast
  have k: "unat (ak_auth_size k') \<le> 32"
    if "blob_key (demo_contents SGX_QL_ALG_MLDSA_65) SGX_QL_ALG_MLDSA_65 b' = Some k'" for k' using that *(3,4) by simp
  have "length (qr_quote res) = 20000"
    using gen_quote_ok [OF demo_documented demo_sizes demo_td_report_facts(1) k disjI1 [OF refl] *(1,2)]
    unfolding Let_def by auto
  moreover have "get_mldsa_quote_inner_cert_key_type (qr_quote res) (len32 (qr_quote res)) SGX_QL_ALG_MLDSA_65 = Good (Some 3)"
    using service_reads_certification [OF demo_documented demo_sizes demo_td_report_facts(1) k disjI1 [OF refl] *(1,2)]
      demo_td_report_facts(3) by auto
  ultimately show ?thesis using *(2) unfolding SGX_QL_ALG_MLDSA_65_def by blast
qed

end
