(* ===== verification/Effect.thy ===== *)
theory Effect
  imports Prelude
begin

text \<open>
  Commands on a state that return a value, fail with an error code (the changes up to there remain, as after a goto to
  the cleanup of a C++ method) or access memory outside an object. Triples over them: a precondition, one
  postcondition for the value and one for the error code; a command that has a triple does not fault.
\<close>

section \<open>Commands\<close>

type_synonym ('s, 'a) command = "'s \<Rightarrow> (int, 'a) outcome \<times> 's"

definition give :: "'a \<Rightarrow> ('s, 'a) command" where "give x = (\<lambda>s. (Good x, s))"

definition stop :: "int \<Rightarrow> ('s, 'a) command" where "stop e = (\<lambda>s. (Bad e, s))"

definition crash :: "('s, 'a) command" where "crash = (\<lambda>s. (Fault, s))"

definition look :: "('s \<Rightarrow> 'a) \<Rightarrow> ('s, 'a) command" where "look f = (\<lambda>s. (Good (f s), s))"

definition change :: "('s \<Rightarrow> 's) \<Rightarrow> ('s, unit) command" where "change f = (\<lambda>s. (Good (), f s))"

definition andthen :: "('s, 'a) command \<Rightarrow> ('a \<Rightarrow> ('s, 'b) command) \<Rightarrow> ('s, 'b) command" where
  "andthen m f = (\<lambda>s. case m s of (Good x, s') \<Rightarrow> f x s' | (Bad e, s') \<Rightarrow> (Bad e, s') | (Fault, s') \<Rightarrow> (Fault, s'))"

text \<open>A check of an input, and a failure that the caller looks at.\<close>

definition require :: "bool \<Rightarrow> int \<Rightarrow> ('s, unit) command" where
  "require b e = (if b then give () else stop e)"

definition attempt :: "('s, 'a) command \<Rightarrow> ('s, int + 'a) command" where
  "attempt m = (\<lambda>s. case m s of (Good x, s') \<Rightarrow> (Good (Inr x), s') | (Bad e, s') \<Rightarrow> (Good (Inl e), s')
     | (Fault, s') \<Rightarrow> (Fault, s'))"

text \<open>A failing unlock at the end replaces the result.\<close>

definition unlocking :: "bool \<Rightarrow> int \<Rightarrow> ('s, 'a) command \<Rightarrow> ('s, 'a) command" where
  "unlocking unlocked e m = (\<lambda>s. case m s of (Fault, s') \<Rightarrow> (Fault, s') | (r, s') \<Rightarrow> (if unlocked then r else Bad e, s'))"

named_theorems run_simps "how commands run"

lemma run_basic [run_simps]:
  "give x s = (Good x, s)" "stop e s = (Bad e, s)" "crash s = (Fault, s)" "look f s = (Good (f s), s)" "change g s = (Good (), g s)"
  "require b e s = (if b then Good () else Bad e, s)"
  by (simp_all add: give_def stop_def crash_def look_def change_def require_def)

lemma run_andthen [run_simps]:
  "m s = (Good x, s') \<Longrightarrow> andthen m f s = f x s'" "m s = (Bad e, s') \<Longrightarrow> andthen m f s = (Bad e, s')"
  "m s = (Fault, s') \<Longrightarrow> andthen m f s = (Fault, s')"
  by (simp_all add: andthen_def)

lemma run_attempt [run_simps]:
  "m s = (Good x, s') \<Longrightarrow> attempt m s = (Good (Inr x), s')" "m s = (Bad e, s') \<Longrightarrow> attempt m s = (Good (Inl e), s')"
  by (simp_all add: attempt_def)

lemma andthen_basic [simp]:
  "andthen (give x) f = f x" "andthen (stop e) f = stop e" "andthen crash f = crash"
  "andthen (andthen m f) g = andthen m (\<lambda>x. andthen (f x) g)"
  by (auto simp: fun_eq_iff andthen_def give_def stop_def crash_def split: prod.split outcome.split)

lemma andthen_good:
  "andthen m f s = (Good y, s'') \<longleftrightarrow> (\<exists>x s'. m s = (Good x, s') \<and> f x s' = (Good y, s''))"
  by (auto simp: andthen_def split: prod.split outcome.split)

lemma unlocking_good: "unlocking u e m s = (Good x, s') \<longleftrightarrow> u \<and> m s = (Good x, s')"
  by (auto simp: unlocking_def split: prod.split outcome.split)

section \<open>Triples\<close>

text \<open>The weakest precondition for a postcondition on the value, one on the error code, and no access outside an object.\<close>

definition wp :: "('s, 'a) command \<Rightarrow> ('a \<Rightarrow> 's \<Rightarrow> bool) \<Rightarrow> (int \<Rightarrow> 's \<Rightarrow> bool) \<Rightarrow> 's \<Rightarrow> bool" where
  "wp m Q E s = (case m s of (Good x, s') \<Rightarrow> Q x s' | (Bad e, s') \<Rightarrow> E e s' | (Fault, _) \<Rightarrow> False)"

definition triple :: "('s \<Rightarrow> bool) \<Rightarrow> ('s, 'a) command \<Rightarrow> ('a \<Rightarrow> 's \<Rightarrow> bool) \<Rightarrow> (int \<Rightarrow> 's \<Rightarrow> bool) \<Rightarrow> bool" where
  "triple P m Q E \<longleftrightarrow> (\<forall>s. P s \<longrightarrow> wp m Q E s)"

named_theorems wp_simps "weakest preconditions of the commands"

lemma wp_basic [wp_simps]:
  "wp (give x) Q1 E = Q1 x" "wp (stop e) Q2 E = E e" "wp crash Q3 E = (\<lambda>_. False)" "wp (look f) Q4 E = (\<lambda>s. Q4 (f s) s)"
  "wp (change g) Q E = (\<lambda>s. Q () (g s))" "wp (require b e) Q E = (if b then Q () else E e)"
  by (simp_all add: fun_eq_iff wp_def run_simps)

lemma wp_andthen [wp_simps]: "wp (andthen m f) Q E = wp m (\<lambda>x. wp (f x) Q E) E"
  by (auto simp: fun_eq_iff wp_def andthen_def split: prod.split outcome.split)

lemma wp_attempt [wp_simps]: "wp (attempt m) Q E = wp m (\<lambda>x. Q (Inr x)) (\<lambda>e. Q (Inl e))"
  by (auto simp: fun_eq_iff wp_def attempt_def split: prod.split outcome.split)

lemma wp_unlocking [wp_simps]:
  "wp (unlocking u e m) Q E = wp m (\<lambda>x s. if u then Q x s else E e s) (\<lambda>e' s. E (if u then e' else e) s)"
  by (auto simp: fun_eq_iff wp_def unlocking_def split: prod.split outcome.split)

lemma wp_if [wp_simps]: "wp (if b then m else m') Q E = (if b then wp m Q E else wp m' Q E)"
  by simp

lemma wp_mono:
  assumes "wp m Q E s" "\<And>x s. Q x s \<Longrightarrow> Q' x s" "\<And>e s. E e s \<Longrightarrow> E' e s"
  shows "wp m Q' E' s"
  using assms by (auto simp: wp_def split: prod.splits outcome.splits)

lemma tripleI: "(\<And>s. P s \<Longrightarrow> wp m Q E s) \<Longrightarrow> triple P m Q E"
  by (simp add: triple_def)

lemma wp_use:
  assumes "triple P m Q E" "P s" "\<And>x s. Q x s \<Longrightarrow> Q' x s" "\<And>e s. E e s \<Longrightarrow> E' e s"
  shows "wp m Q' E' s"
  using assms wp_mono unfolding triple_def by metis

lemma triple_good: "triple P m Q E \<Longrightarrow> P s \<Longrightarrow> m s = (Good x, s') \<Longrightarrow> Q x s'"
  by (fastforce simp: triple_def wp_def)

lemma triple_bad: "triple P m Q E \<Longrightarrow> P s \<Longrightarrow> m s = (Bad e, s') \<Longrightarrow> E e s'"
  by (fastforce simp: triple_def wp_def)

lemma triple_no_fault: "triple P m Q E \<Longrightarrow> P s \<Longrightarrow> m s \<noteq> (Fault, s')"
  by (fastforce simp: triple_def wp_def)

end
