(* ===== verification/Td_Host.thy ===== *)
theory Td_Host
  imports Effect Td_Wrapper Tdqe_Quote
begin

text \<open>
  The TD quote library's context (tdx_quote/td_ql_logic.h and td_ql_logic.cpp): its private members, and the methods
  under the quote commands: loading of the enclaves and of the provider library, the key blob in memory and in
  persistent storage, the platform's certification data and the encrypted PPID, certification of the key. The Linux
  build is modelled. Traces and the verbose debug output are left out, as are the releases of the provider's answers.

  A method is a command on the members (theory Effect). What the system, the enclaves and the libraries answer during
  the call of one method is the record \<open>td_world\<close>; the commands of the TD quoting enclave are those of Tdqe_Blob and
  Tdqe_Quote, run by the SDK the record holds for the call.
\<close>

section \<open>Codes\<close>

definition TEE_ATT_ERROR_INVALID_PCE_SIG_SCHEME :: int where "TEE_ATT_ERROR_INVALID_PCE_SIG_SCHEME = TEE_ATT_MK_ERROR 0x0009"
definition TEE_ATT_INTERFACE_UNAVAILABLE :: int where "TEE_ATT_INTERFACE_UNAVAILABLE = TEE_ATT_MK_ERROR 0x000d"
definition TEE_ATT_ATT_KEY_CERT_DATA_INVALID :: int where "TEE_ATT_ATT_KEY_CERT_DATA_INVALID = TEE_ATT_MK_ERROR 0x0010"
definition TEE_ATT_NO_PLATFORM_CERT_DATA :: int where "TEE_ATT_NO_PLATFORM_CERT_DATA = TEE_ATT_MK_ERROR 0x0011"
definition TEE_ATT_OUT_OF_EPC :: int where "TEE_ATT_OUT_OF_EPC = TEE_ATT_MK_ERROR 0x0012"
definition TEE_ATT_KEY_CERTIFCATION_ERROR :: int where "TEE_ATT_KEY_CERTIFCATION_ERROR = TEE_ATT_MK_ERROR 0x0018"
definition TEE_ATT_NETWORK_ERROR :: int where "TEE_ATT_NETWORK_ERROR = TEE_ATT_MK_ERROR 0x0019"
definition TEE_ATT_PLATFORM_UNKNOWN :: int where "TEE_ATT_PLATFORM_UNKNOWN = TEE_ATT_MK_ERROR 0x0047"

definition TEE_MK_ERROR :: "int \<Rightarrow> int" where "TEE_MK_ERROR x = 0x0000E000 OR x"
definition SGX_QL_PLATFORM_LIB_UNAVAILABLE :: int where "SGX_QL_PLATFORM_LIB_UNAVAILABLE = TEE_MK_ERROR 0x000e"
definition SGX_QL_NO_PLATFORM_CERT_DATA :: int where "SGX_QL_NO_PLATFORM_CERT_DATA = TEE_MK_ERROR 0x0011"
definition SGX_QL_NETWORK_ERROR :: int where "SGX_QL_NETWORK_ERROR = TEE_MK_ERROR 0x0019"
definition SGX_QL_PLATFORM_UNKNOWN :: int where "SGX_QL_PLATFORM_UNKNOWN = TEE_MK_ERROR 0x0047"

definition SGX_PCE_MK_ERROR :: "int \<Rightarrow> int" where "SGX_PCE_MK_ERROR x = 0x0000F000 OR x"
definition SGX_PCE_SUCCESS :: int where "SGX_PCE_SUCCESS = SGX_PCE_MK_ERROR 0x0000"
definition SGX_PCE_OUT_OF_EPC :: int where "SGX_PCE_OUT_OF_EPC = SGX_PCE_MK_ERROR 0x0003"
definition SGX_PCE_INTERFACE_UNAVAILABLE :: int where "SGX_PCE_INTERFACE_UNAVAILABLE = SGX_PCE_MK_ERROR 0x0004"
definition SGX_PCE_INVALID_PRIVILEGE :: int where "SGX_PCE_INVALID_PRIVILEGE = SGX_PCE_MK_ERROR 0x0007"
definition SGX_PCE_INVALID_TCB :: int where "SGX_PCE_INVALID_TCB = SGX_PCE_MK_ERROR 0x0008"
definition PCE_NIST_P256_ECDSA_SHA256 :: byte where "PCE_NIST_P256_ECDSA_SHA256 = 0"
definition SGX_QL_CONFIG_VERSION_1 :: nat where "SGX_QL_CONFIG_VERSION_1 = 1"
definition MIN_CERT_DATA_SIZE :: nat where "MIN_CERT_DATA_SIZE = 500"

definition translate_pce_errors :: "int \<Rightarrow> int" where
  "translate_pce_errors pce_error =
     (if pce_error = SGX_PCE_SUCCESS then TEE_ATT_SUCCESS
      else if pce_error = SGX_PCE_OUT_OF_EPC then TEE_ATT_OUT_OF_EPC
      else if pce_error = SGX_PCE_INTERFACE_UNAVAILABLE then TEE_ATT_INTERFACE_UNAVAILABLE
      else if pce_error = SGX_PCE_INVALID_TCB then TEE_ATT_KEY_CERTIFCATION_ERROR
      else if pce_error = SGX_PCE_INVALID_PRIVILEGE then TEE_ATT_ERROR_INVALID_PRIVILEGE
      else TEE_ATT_ERROR_UNEXPECTED)"

section \<open>The context\<close>

text \<open>
  The private members, and the buffers of the caller that the methods write: target information, key id, quote
  size, quote; \<open>None\<close> is a buffer not written yet. Of m_eid only whether it is 0 matters;
  m_pce_info is the pair of ISV SVN and id.
\<close>

record td_members =
  m_eid :: bool
  m_secs_attr :: "byte list"
  m_misc_select :: "byte list"
  m_ecdsa_blob :: "byte list"
  m_pencryptedppid :: "byte list option"
  m_pce_info :: "u16 \<times> u16"
  m_qe_id :: "byte list option"
  m_raw_pce_isvsvn :: u16
  m_qpl_handle :: bool
  m_tdqe_report_body :: "byte list option"
  out_target_info :: "byte list"
  out_pub_key_id :: "byte list option"
  out_quote_size :: "nat option"
  out_quote :: "byte list"

text \<open>The encrypted PPID stays NULL where the query leaves it out.\<close>

record sgx_ql_pck_cert_id_t =
  pc_qe3_id :: "byte list"
  pc_platform_cpu_svn :: "byte list"
  pc_platform_pce_isv_svn :: u16
  pc_encrypted_ppid :: "byte list option"
  pc_encrypted_ppid_size :: nat
  pc_crypto_suite :: byte
  pc_pce_id :: u16

record sgx_ql_config_t =
  qc_version :: nat
  qc_cert_cpu_svn :: "byte list"
  qc_cert_pce_isv_svn :: u16
  qc_cert_data_size :: nat
  qc_cert_data :: "byte list option"

datatype td_mutex_call = Lock_load | Unlock_load | Lock_ide | Unlock_ide | Lock_blob | Unlock_blob
datatype td_buffer = Ppid_mem | Qe_id_mem | Report_body_mem | Cert_data_mem
datatype tdqe_call = Call_verify_blob | Call_get_pce_encrypt_key | Call_gen_att_key | Call_store_cert_data | Call_verify_new
  | Call_gen_quote

text \<open>
  The answers. \<open>tw_ecall\<close>: the status of the call into the enclave, and the SDK under which the enclave runs it.
  \<open>tw_pce_get_info\<close>: status, encrypted PPID, its size, ISV SVN, id, signature scheme; \<open>tw_pce_sign_report\<close>: status,
  signature, its size. The provider library: whether a library of that name opens, what its initialization returns
  (\<open>None\<close> without one), and its functions, \<open>None\<close> when the library lacks them; the configuration is asked for at
  most twice in a method. \<open>tw_read_report2\<close> and \<open>tw_plain_text_offset\<close> are layouts of the SDK.
\<close>

record td_world =
  tw_mutex :: "td_mutex_call \<Rightarrow> bool"
  tw_malloc :: "td_buffer \<Rightarrow> bool"
  tw_fresh_memory :: "byte list"
  tw_env :: environment
  tw_own_file :: "string option"
  tw_exe_link :: "string option"
  tw_create_tdqe :: "string \<Rightarrow> int \<times> byte list \<times> byte list"
  tw_create_ide :: "string \<Rightarrow> int"
  tw_ide_get_id :: "int \<times> int \<times> byte list"
  tw_ecall :: "tdqe_call \<Rightarrow> int \<times> tdqe_sdk"
  tw_pce_get_target :: "int \<times> byte list \<times> u16"
  tw_pce_get_info :: "byte list \<Rightarrow> byte list \<Rightarrow> int \<times> byte list \<times> nat \<times> u16 \<times> u16 \<times> byte"
  tw_pce_sign_report :: "u16 \<Rightarrow> byte list \<Rightarrow> byte list \<Rightarrow> int \<times> byte list \<times> nat"
  tw_qpl_opens :: "string \<Rightarrow> bool"
  tw_qpl_global_init :: "int option"
  tw_qpl_get_quote_config :: "(nat \<Rightarrow> sgx_ql_pck_cert_id_t \<Rightarrow> int \<times> sgx_ql_config_t option) option"
  tw_qpl_write :: "(byte list \<Rightarrow> string \<Rightarrow> int) option"
  tw_qpl_read :: "(nat \<Rightarrow> string \<Rightarrow> int \<times> byte list \<times> nat) option"
  tw_error_out_of_epc :: int
  tw_sizeof_sealed_data :: nat
  tw_plain_text_offset :: "byte list \<Rightarrow> nat"
  tw_read_report2 :: "byte list \<Rightarrow> sgx_report2"

type_synonym 'a td = "(td_members, 'a) command"

definition get_blob_label_for_algorithm :: "nat \<Rightarrow> string" where
  "get_blob_label_for_algorithm algorithm_id =
     (if algorithm_id = SGX_QL_ALG_MLDSA_44 then ''tdqe_data_mldsa_44.blob''
      else if algorithm_id = SGX_QL_ALG_MLDSA_87 then ''tdqe_data_mldsa_87.blob''
      else if algorithm_id = SGX_QL_ALG_MLDSA_65 then ''tdqe_data_mldsa_65.blob''
      else ''tdqe_data.blob'')"

text \<open>get_tdqe_blob_size_for_algorithm on the side of the host.\<close>

definition td_blob_size :: "td_world \<Rightarrow> nat \<Rightarrow> nat" where
  "td_blob_size w algorithm_id = tw_sizeof_sealed_data w + ciphertext_size algorithm_id + plaintext_size algorithm_id"

definition env_is_one :: "td_world \<Rightarrow> string \<Rightarrow> bool" where
  "env_is_one w name = (case tw_env w name of None \<Rightarrow> False | Some value \<Rightarrow> cstr value = ''1'')"

definition should_fallback_to_local_cert_data :: "td_world \<Rightarrow> int \<Rightarrow> bool" where
  "should_fallback_to_local_cert_data w ret =
     (let allow_platform_unknown = env_is_one w ''TDX_MLDSA_LOCAL_PCCS_EMPTY_FALLBACK'' in
      ret = TEE_ATT_PLATFORM_LIB_UNAVAILABLE \<or> ret = TEE_ATT_NO_PLATFORM_CERT_DATA \<or> ret = TEE_ATT_NETWORK_ERROR
      \<or> (allow_platform_unknown \<and> ret = TEE_ATT_PLATFORM_UNKNOWN)
      \<or> ret = SGX_QL_PLATFORM_LIB_UNAVAILABLE \<or> ret = SGX_QL_NO_PLATFORM_CERT_DATA \<or> ret = SGX_QL_NETWORK_ERROR
      \<or> (allow_platform_unknown \<and> ret = SGX_QL_PLATFORM_UNKNOWN))"

definition mldsa_require_full_dcap_path :: "td_world \<Rightarrow> bool" where
  "mldsa_require_full_dcap_path w = env_is_one w ''TDX_MLDSA_REQUIRE_FULL_DCAP''"

section \<open>The plaintext of the blob\<close>

definition pce_isv_svn :: "byte list \<Rightarrow> u16" where "pce_isv_svn info = get16 0 info"
definition pce_id :: "byte list \<Rightarrow> u16" where "pce_id info = get16 2 info"

text \<open>
  The view points into the blob; the structure is chosen by its first byte. Its fields are read later, up to the last
  one of the structure.
\<close>

definition get_tdqe_blob_plaintext_view :: "td_world \<Rightarrow> nat \<Rightarrow> key_plaintext option td" where
  "get_tdqe_blob_plaintext_view w blob_size =
     (if \<not> (blob_size = td_blob_size w SGX_QL_ALG_ECDSA_P256 \<or> blob_size = td_blob_size w SGX_QL_ALG_MLDSA_44
         \<or> blob_size = td_blob_size w SGX_QL_ALG_MLDSA_65 \<or> blob_size = td_blob_size w SGX_QL_ALG_MLDSA_87)
      then give None
      else andthen (look m_ecdsa_blob) (\<lambda>blob.
        let off = tw_sizeof_sealed_data w + tw_plain_text_offset w blob;
            view = (\<lambda>a. case bread (plaintext_size a) off blob of None \<Rightarrow> crash | Some bs \<Rightarrow> give (Some (plaintext_of a bs))) in
        case bread 1 off blob of None \<Rightarrow> crash
        | Some t \<Rightarrow>
            if t = [SGX_QL_SEAL_ECDSA_KEY_BLOB] then view SGX_QL_ALG_ECDSA_P256
            else if t = [SGX_QL_SEAL_MLDSA_44_KEY_BLOB] then view SGX_QL_ALG_MLDSA_44
            else if t = [SGX_QL_SEAL_MLDSA_65_KEY_BLOB] then view SGX_QL_ALG_MLDSA_65
            else if t = [SGX_QL_SEAL_MLDSA_87_KEY_BLOB] then view SGX_QL_ALG_MLDSA_87
            else give None))"

definition mldsa_blob_uses_local_only_certification :: "key_plaintext \<Rightarrow> bool" where
  "mldsa_blob_uses_local_only_certification blob_view =
     (pce_id (kp_cert_pce_info blob_view) = 0 \<or> pce_id (kp_raw_pce_info blob_view) = 0
      \<or> pce_isv_svn (kp_cert_pce_info blob_view) = 0 \<or> pce_isv_svn (kp_raw_pce_info blob_view) = 0)"

definition get_effective_mldsa_blob_pce_id :: "key_plaintext \<Rightarrow> u16 \<Rightarrow> u16" where
  "get_effective_mldsa_blob_pce_id blob_view fallback_pce_id =
     (if pce_id (kp_cert_pce_info blob_view) \<noteq> 0 then pce_id (kp_cert_pce_info blob_view)
      else if pce_id (kp_raw_pce_info blob_view) \<noteq> 0 then pce_id (kp_raw_pce_info blob_view)
      else fallback_pce_id)"

definition get_effective_mldsa_blob_pce_isvsvn :: "key_plaintext \<Rightarrow> u16 \<Rightarrow> u16" where
  "get_effective_mldsa_blob_pce_isvsvn blob_view fallback_pce_isvsvn =
     (if pce_isv_svn (kp_raw_pce_info blob_view) \<noteq> 0 then pce_isv_svn (kp_raw_pce_info blob_view)
      else if pce_isv_svn (kp_cert_pce_info blob_view) \<noteq> 0 then pce_isv_svn (kp_cert_pce_info blob_view)
      else fallback_pce_isvsvn)"

record mldsa_platform_cert_query_t =
  mq_encrypted_ppid :: "byte list option"
  mq_encrypted_ppid_size :: nat
  mq_platform_pce_isvsvn :: u16
  mq_platform_pce_id :: u16
  mq_uses_cached_platform_identity :: bool

definition build_mldsa_platform_cert_query ::
  "key_plaintext \<Rightarrow> byte list option \<Rightarrow> u16 \<times> u16 \<Rightarrow> u16 \<Rightarrow> u16 \<Rightarrow> mldsa_platform_cert_query_t" where
  "build_mldsa_platform_cert_query blob_view cached_encrypted_ppid cached_pce_info fallback_pce_isvsvn fallback_pce_id =
     (if cached_encrypted_ppid \<noteq> None \<and> snd cached_pce_info \<noteq> 0 then
        \<lparr>mq_encrypted_ppid = cached_encrypted_ppid, mq_encrypted_ppid_size = REF_RSA_OAEP_3072_MOD_SIZE,
         mq_platform_pce_isvsvn = (if fst cached_pce_info \<noteq> 0 then fst cached_pce_info
           else get_effective_mldsa_blob_pce_isvsvn blob_view fallback_pce_isvsvn),
         mq_platform_pce_id = snd cached_pce_info, mq_uses_cached_platform_identity = True\<rparr>
      else
        \<lparr>mq_encrypted_ppid = None, mq_encrypted_ppid_size = 0,
         mq_platform_pce_isvsvn = get_effective_mldsa_blob_pce_isvsvn blob_view fallback_pce_isvsvn,
         mq_platform_pce_id = get_effective_mldsa_blob_pce_id blob_view fallback_pce_id,
         mq_uses_cached_platform_identity = False\<rparr>)"

text \<open>
  populate_mldsa_plaintext, and the same assignments written out for the ECDSA structure. The type of the key is an
  enumeration in four bytes.
\<close>

definition populate_plaintext ::
  "nat \<Rightarrow> byte list \<Rightarrow> u16 \<Rightarrow> u16 \<Rightarrow> byte list \<Rightarrow> u16 \<Rightarrow> u16 \<Rightarrow> byte list \<Rightarrow> byte list \<Rightarrow> byte \<Rightarrow> byte list \<Rightarrow> nat \<Rightarrow> key_plaintext" where
  "populate_plaintext algorithm_id cert_cpu_svn cert_pce_isv_svn cert_pce_id raw_cpu_svn raw_pce_isv_svn raw_pce_id qe_report
     qe_id signature_scheme pce_target_info certification_key_type =
     (zero_plaintext algorithm_id)\<lparr>kp_cert_cpu_svn := cert_cpu_svn, kp_cert_pce_info := le16 cert_pce_isv_svn @ le16 cert_pce_id,
       kp_raw_cpu_svn := raw_cpu_svn, kp_raw_pce_info := le16 raw_pce_isv_svn @ le16 raw_pce_id, kp_qe_report := qe_report,
       kp_qe_id := qe_id, kp_signature_scheme := signature_scheme, kp_pce_target_info := pce_target_info,
       kp_certification_key_type := le32 (word_of_nat certification_key_type)\<rparr>"

end
