(* ===== verification/Td_Calls.thy ===== *)
theory Td_Calls
  imports Td_Host
begin

text \<open>
  The methods of the TD quote library's context that the quote commands are made of: the provider library, the enclaves,
  persistent storage, and the certification of the key.
\<close>

section \<open>The provider library\<close>

definition TEE_ATT_QUOTE_CONFIG_LIB_FILE_NAME :: string where
  "TEE_ATT_QUOTE_CONFIG_LIB_FILE_NAME = ''libdcap_quoteprov.so.1''"

definition set_qpl_handle :: "bool \<Rightarrow> bool td" where
  "set_qpl_handle h = andthen (change (\<lambda>s. s\<lparr>m_qpl_handle := h\<rparr>)) (\<lambda>_. give h)"

definition get_qpl_handle :: "td_world \<Rightarrow> tee_att_config_t \<Rightarrow> bool td" where
  "get_qpl_handle w ctx = andthen (look m_qpl_handle) (\<lambda>h.
     if h then give True
     else if qpl_path ctx \<noteq> [] then set_qpl_handle (tw_qpl_opens w (qpl_path ctx))
     else if \<not> tw_qpl_opens w TEE_ATT_QUOTE_CONFIG_LIB_FILE_NAME then give False
     else case tw_qpl_global_init w of None \<Rightarrow> set_qpl_handle True
       | Some ql_ret \<Rightarrow> set_qpl_handle (ql_ret = SGX_QL_SUCCESS))"

text \<open>
  The TCB and the certification data, \<open>call\<close> the number of the call in the method; \<open>p_cert_data\<close> is the size of the
  buffer for the data, \<open>None\<close> when the caller only asks for the sizes.
\<close>

record platform_cert =
  pl_cpu_svn :: "byte list"
  pl_pce_isv_svn :: u16
  pl_size :: nat
  pl_data :: "byte list"

definition get_platform_quote_cert_data ::
  "td_world \<Rightarrow> tee_att_config_t \<Rightarrow> nat \<Rightarrow> sgx_ql_pck_cert_id_t \<Rightarrow> nat option \<Rightarrow> platform_cert td" where
  "get_platform_quote_cert_data w ctx call pck_cert_id p_cert_data =
     (if p_cert_data = Some 0 then stop TEE_ATT_ERROR_INVALID_PARAMETER
      else andthen (get_qpl_handle w ctx) (\<lambda>handle.
        if \<not> handle then stop TEE_ATT_PLATFORM_LIB_UNAVAILABLE
        else case tw_qpl_get_quote_config w of None \<Rightarrow> stop TEE_ATT_PLATFORM_LIB_UNAVAILABLE
        | Some get_quote_config \<Rightarrow>
            (case get_quote_config call pck_cert_id of (ql_ret, config) \<Rightarrow>
               if ql_ret \<noteq> SGX_QL_SUCCESS then stop ql_ret
               else case config of None \<Rightarrow> stop TEE_ATT_NO_PLATFORM_CERT_DATA
               | Some c \<Rightarrow>
                   if qc_version c \<noteq> SGX_QL_CONFIG_VERSION_1 then stop TEE_ATT_NO_PLATFORM_CERT_DATA
                   else
                     let answer = \<lparr>pl_cpu_svn = qc_cert_cpu_svn c, pl_pce_isv_svn = qc_cert_pce_isv_svn c,
                           pl_size = qc_cert_data_size c, pl_data = []\<rparr> in
                     case p_cert_data of None \<Rightarrow> give answer
                     | Some cert_data_size \<Rightarrow>
                         if cert_data_size < qc_cert_data_size c then stop TEE_ATT_ERROR_INVALID_PARAMETER
                         else case qc_cert_data c of None \<Rightarrow> stop TEE_ATT_NO_PLATFORM_CERT_DATA
                         | Some d \<Rightarrow>
                             if qc_cert_data_size c = 0 then stop TEE_ATT_ERROR_UNEXPECTED
                             else give (answer\<lparr>pl_data := take (qc_cert_data_size c) d\<rparr>))))"

section \<open>The enclaves\<close>

abbreviation (input) "kTdqePathBufferSize \<equiv> (261 :: nat)"

text \<open>A path up to its last slash, which stays.\<close>

definition directory_of :: "string \<Rightarrow> string" where
  "directory_of path = rev (dropWhile (\<lambda>c. c \<noteq> CHR ''/'') (rev path))"

definition get_qe_path :: "td_world \<Rightarrow> string \<Rightarrow> string \<Rightarrow> string option" where
  "get_qe_path w context_path file_name =
     (if context_path \<noteq> [] then
        (if length (take 260 context_path) > kTdqePathBufferSize - 1 then None else Some (take 260 context_path))
      else
        case (case tw_own_file w of
                Some f \<Rightarrow> if length f \<ge> kTdqePathBufferSize then None else Some f
              | None \<Rightarrow> (case tw_exe_link w of None \<Rightarrow> None | Some f \<Rightarrow> Some (take (kTdqePathBufferSize - 1) f))) of
          None \<Rightarrow> None
        | Some f \<Rightarrow>
            if length (directory_of f) + length file_name + 1 > kTdqePathBufferSize then None
            else Some (directory_of f @ file_name))"

definition load_error :: "td_world \<Rightarrow> int \<Rightarrow> int" where
  "load_error w sgx_status = (if sgx_status = tw_error_out_of_epc w then TEE_ATT_OUT_OF_EPC else sgx_status)"

text \<open>The value says whether the enclave was loaded by this call.\<close>

definition load_qe :: "td_world \<Rightarrow> tee_att_config_t \<Rightarrow> bool td" where
  "load_qe w ctx =
     (if \<not> tw_mutex w Lock_load then stop TEE_ATT_ENCLAVE_LOAD_ERROR
      else unlocking (tw_mutex w Unlock_load) TEE_ATT_ERROR_UNEXPECTED (andthen (look m_eid) (\<lambda>loaded.
        if loaded then give False
        else case get_qe_path w (tdqe_path ctx) ''libsgx_tdqe.signed.so.1'' of None \<Rightarrow> stop TEE_ATT_ENCLAVE_LOAD_ERROR
        | Some path \<Rightarrow>
            (case tw_create_tdqe w path of (sgx_status, attr, misc) \<Rightarrow>
               if sgx_status \<noteq> 0 then stop (load_error w sgx_status)
               else andthen (change (\<lambda>s. s\<lparr>m_eid := True, m_secs_attr := attr, m_misc_select := misc\<rparr>)) (\<lambda>_. give True)))))"

definition unload_qe :: "td_world \<Rightarrow> unit td" where
  "unload_qe w = (if \<not> tw_mutex w Lock_load then give () else change (\<lambda>s. s\<lparr>m_eid := False\<rparr>))"

definition load_id_enclave :: "td_world \<Rightarrow> tee_att_config_t \<Rightarrow> unit td" where
  "load_id_enclave w ctx =
     (if \<not> tw_mutex w Lock_ide then stop TEE_ATT_ENCLAVE_LOAD_ERROR
      else unlocking (tw_mutex w Unlock_ide) TEE_ATT_ERROR_UNEXPECTED
        (case get_qe_path w (ide_path ctx) ''libsgx_id_enclave.signed.so.1'' of None \<Rightarrow> stop TEE_ATT_ENCLAVE_LOAD_ERROR
         | Some path \<Rightarrow> if tw_create_ide w path \<noteq> 0 then stop (load_error w (tw_create_ide w path)) else give ()))"

text \<open>The id goes to \<open>m_qe_id\<close>; a call that returns copies the enclave's buffer out, whatever the enclave reports.\<close>

definition load_id_enclave_get_id :: "td_world \<Rightarrow> tee_att_config_t \<Rightarrow> unit td" where
  "load_id_enclave_get_id w ctx = andthen (load_id_enclave w ctx) (\<lambda>_.
     case tw_ide_get_id w of (sgx_status, ecall_ret, qe_id) \<Rightarrow>
       if sgx_status \<noteq> 0 then stop sgx_status
       else andthen (change (\<lambda>s. s\<lparr>m_qe_id := Some qe_id\<rparr>)) (\<lambda>_. require (ecall_ret = 0) ecall_ret))"

text \<open>The memory for the id is allocated before the id is known.\<close>

definition ensure_qe_id :: "td_world \<Rightarrow> tee_att_config_t \<Rightarrow> byte list td" where
  "ensure_qe_id w ctx = andthen (look m_qe_id) (\<lambda>id. case id of
       Some x \<Rightarrow> give x
     | None \<Rightarrow>
         if \<not> tw_malloc w Qe_id_mem then stop TEE_ATT_ERROR_OUT_OF_MEMORY
         else andthen (change (\<lambda>s. s\<lparr>m_qe_id := Some (tw_fresh_memory w)\<rparr>)) (\<lambda>_.
              andthen (load_id_enclave_get_id w ctx) (\<lambda>_. look (\<lambda>s. obj (m_qe_id s)))))"

text \<open>A command of the enclave on the blob: the buffer is copied in and out when the call returns.\<close>

definition in_tdqe :: "td_world \<Rightarrow> tdqe_call \<Rightarrow> (tdqe_sdk \<Rightarrow> 'a) \<Rightarrow> 'a td" where
  "in_tdqe w c f = (case tw_ecall w c of (sgx_status, sdk) \<Rightarrow> if sgx_status \<noteq> 0 then stop sgx_status else give (f sdk))"

definition tdqe_blob_call :: "td_world \<Rightarrow> tdqe_call \<Rightarrow> nat \<Rightarrow> (tdqe_sdk \<Rightarrow> byte list \<Rightarrow> 'a \<times> byte list) \<Rightarrow> 'a td" where
  "tdqe_blob_call w c n f = andthen (look m_ecdsa_blob) (\<lambda>buf.
     andthen (in_tdqe w c (\<lambda>sdk. f sdk (take n buf))) (\<lambda>r.
     andthen (change (\<lambda>s. s\<lparr>m_ecdsa_blob := written n (snd r) @ drop n buf\<rparr>)) (\<lambda>_. give (fst r))))"

definition call_verify_blob :: "td_world \<Rightarrow> tdqe_call \<Rightarrow> nat \<Rightarrow> bool \<Rightarrow> bool \<Rightarrow> blob_check td" where
  "call_verify_blob w c n has_report_body has_pub_key_id = tdqe_blob_call w c n (\<lambda>sdk b.
     let r = verify_blob sdk (Some b) n True has_report_body (if has_pub_key_id then 32 else 0) has_pub_key_id in (r, bk_blob r))"

definition call_gen_att_key ::
  "td_world \<Rightarrow> nat \<Rightarrow> nat \<Rightarrow> byte list \<Rightarrow> byte list \<Rightarrow> (int \<times> byte list) td" where
  "call_gen_att_key w n algorithm_id pce_target_info authentication_data = tdqe_blob_call w Call_gen_att_key n (\<lambda>sdk b.
     case Tdqe_Blob.gen_att_key sdk (Some b) n algorithm_id (Some pce_target_info) (Some (replicate 432 0))
       (Some authentication_data) (length authentication_data) of (ret, blob, report) \<Rightarrow> ((ret, report), blob))"

definition call_store_cert_data ::
  "td_world \<Rightarrow> byte list \<Rightarrow> nat \<Rightarrow> nat \<Rightarrow> byte list option \<Rightarrow> nat \<Rightarrow> nat \<Rightarrow> int td" where
  "call_store_cert_data w plaintext plaintext_data_size cert_key_type p_encrypted_ppid encrypted_ppid_size n =
     tdqe_blob_call w Call_store_cert_data n (\<lambda>sdk b.
       store_cert_data sdk (Some plaintext) plaintext_data_size cert_key_type p_encrypted_ppid encrypted_ppid_size (Some b) n)"

section \<open>The encrypted PPID\<close>

definition getencryptedppid :: "td_world \<Rightarrow> byte list \<Rightarrow> byte list td" where
  "getencryptedppid w pce_target_info = andthen (look m_pencryptedppid) (\<lambda>cached. case cached of
       Some ppid \<Rightarrow> give ppid
     | None \<Rightarrow>
         andthen (in_tdqe w Call_get_pce_encrypt_key (\<lambda>sdk.
           get_pce_encrypt_key sdk (Some pce_target_info) (Some (replicate 432 0)) PCE_ALG_RSA_OAEP_3072 PPID_RSA3072_ENCRYPTED
             (REF_RSA_OAEP_3072_MOD_SIZE + REF_RSA_OAEP_3072_EXP_SIZE) (Some (replicate 388 0)))) (\<lambda>(tdqe_error, report, key).
         andthen (require (tdqe_error = TDQE_SUCCESS) tdqe_error) (\<lambda>_.
         case tw_pce_get_info w report key of (pce_error, ppid, ret_size, isv_svn, pid, signature_scheme) \<Rightarrow>
           if pce_error \<noteq> SGX_PCE_SUCCESS then stop (translate_pce_errors pce_error)
           else if signature_scheme \<noteq> PCE_NIST_P256_ECDSA_SHA256 then stop TEE_ATT_ERROR_INVALID_PCE_SIG_SCHEME
           else if ret_size \<noteq> REF_RSA_OAEP_3072_MOD_SIZE then stop TEE_ATT_ERROR_UNEXPECTED
           else if \<not> tw_malloc w Ppid_mem then stop TEE_ATT_ERROR_OUT_OF_MEMORY
           else andthen (change (\<lambda>s. s\<lparr>m_pencryptedppid := Some (written REF_RSA_OAEP_3072_MOD_SIZE ppid),
                  m_pce_info := (isv_svn, pid)\<rparr>)) (\<lambda>_. give (written REF_RSA_OAEP_3072_MOD_SIZE ppid)))))"

section \<open>Persistent storage\<close>

definition write_persistent_data :: "td_world \<Rightarrow> tee_att_config_t \<Rightarrow> byte list \<Rightarrow> string \<Rightarrow> unit td" where
  "write_persistent_data w ctx buf label = andthen (get_qpl_handle w ctx) (\<lambda>handle.
     if \<not> handle then stop TEE_ATT_PLATFORM_LIB_UNAVAILABLE
     else case tw_qpl_write w of None \<Rightarrow> stop TEE_ATT_PLATFORM_LIB_UNAVAILABLE
     | Some write \<Rightarrow> require (write buf label = TEE_ATT_SUCCESS) (write buf label))"

text \<open>Reads into the blob; the provider writes at most the size it is told. The value is the size it reports.\<close>

definition read_persistent_data :: "td_world \<Rightarrow> tee_att_config_t \<Rightarrow> nat \<Rightarrow> string \<Rightarrow> nat td" where
  "read_persistent_data w ctx buf_size label = andthen (get_qpl_handle w ctx) (\<lambda>handle.
     if \<not> handle then stop TEE_ATT_PLATFORM_LIB_UNAVAILABLE
     else case tw_qpl_read w of None \<Rightarrow> stop TEE_ATT_PLATFORM_LIB_UNAVAILABLE
     | Some read \<Rightarrow>
         (case read buf_size label of (ret_val, bs, read_size) \<Rightarrow>
            let bs = take buf_size bs in
            andthen (change (\<lambda>s. s\<lparr>m_ecdsa_blob := bs @ drop (length bs) (m_ecdsa_blob s)\<rparr>)) (\<lambda>_.
            if ret_val \<noteq> TEE_ATT_SUCCESS then stop ret_val else give read_size)))"

text \<open>The blob is written under its label; a failure is only logged.\<close>

definition save_blob :: "td_world \<Rightarrow> tee_att_config_t \<Rightarrow> unit td" where
  "save_blob w ctx = andthen (look m_ecdsa_blob) (\<lambda>buf.
     andthen (attempt (write_persistent_data w ctx (take (td_blob_size w (m_att_key_algorithm_id ctx)) buf)
       (get_blob_label_for_algorithm (m_att_key_algorithm_id ctx)))) (\<lambda>_. give ()))"

section \<open>Certification by the PCE\<close>

definition uses_legacy_pce_bootstrap :: "tee_att_config_t \<Rightarrow> bool" where
  "uses_legacy_pce_bootstrap ctx \<longleftrightarrow> m_bootstrap_mode ctx = TEE_ATT_BOOTSTRAP_LEGACY_PCE"

definition validate_legacy_certification_key_type :: "tee_att_config_t \<Rightarrow> nat \<Rightarrow> unit td" where
  "validate_legacy_certification_key_type ctx certification_key_type =
     (if \<not> uses_legacy_pce_bootstrap ctx then stop TEE_ATT_ERROR_UNEXPECTED
      else require (certification_key_type = PPID_RSA3072_ENCRYPTED) TEE_ATT_ERROR_INVALID_PARAMETER)"

definition legacy_get_pce_target_info :: "td_world \<Rightarrow> tee_att_config_t \<Rightarrow> (byte list \<times> u16) td" where
  "legacy_get_pce_target_info w ctx =
     (if \<not> uses_legacy_pce_bootstrap ctx then stop TEE_ATT_ERROR_INVALID_PARAMETER
      else case tw_pce_get_target w of (pce_error, target, isv_svn) \<Rightarrow>
        if pce_error \<noteq> SGX_PCE_SUCCESS then stop (translate_pce_errors pce_error) else give (target, isv_svn))"

definition legacy_pce_sign_report ::
  "td_world \<Rightarrow> tee_att_config_t \<Rightarrow> u16 \<Rightarrow> byte list \<Rightarrow> byte list \<Rightarrow> byte list td" where
  "legacy_pce_sign_report w ctx cert_pce_isv_svn cert_cpu_svn qe_report =
     (if \<not> uses_legacy_pce_bootstrap ctx then stop TEE_ATT_ERROR_INVALID_PARAMETER
      else case tw_pce_sign_report w cert_pce_isv_svn cert_cpu_svn qe_report of (pce_error, sig, sig_out_size) \<Rightarrow>
        if pce_error \<noteq> SGX_PCE_SUCCESS then stop (translate_pce_errors pce_error)
        else if sig_out_size \<noteq> 64 then stop TEE_ATT_ERROR_UNEXPECTED else give (written 64 sig))"

definition legacy_get_platform_quote_cert_data ::
  "td_world \<Rightarrow> tee_att_config_t \<Rightarrow> sgx_ql_pck_cert_id_t \<Rightarrow> platform_cert td" where
  "legacy_get_platform_quote_cert_data w ctx pck_cert_id =
     (if \<not> uses_legacy_pce_bootstrap ctx then stop TEE_ATT_ERROR_UNEXPECTED
      else get_platform_quote_cert_data w ctx 0 pck_cert_id None)"

text \<open>The structure of the plaintext, by its size.\<close>

definition algorithm_of_plaintext_size :: "nat \<Rightarrow> nat option" where
  "algorithm_of_plaintext_size n =
     (if n = plaintext_size SGX_QL_ALG_ECDSA_P256 then Some SGX_QL_ALG_ECDSA_P256
      else if n = plaintext_size SGX_QL_ALG_MLDSA_44 then Some SGX_QL_ALG_MLDSA_44
      else if n = plaintext_size SGX_QL_ALG_MLDSA_65 then Some SGX_QL_ALG_MLDSA_65
      else if n = plaintext_size SGX_QL_ALG_MLDSA_87 then Some SGX_QL_ALG_MLDSA_87
      else None)"

definition certify_key ::
  "td_world \<Rightarrow> tee_att_config_t \<Rightarrow> byte list \<Rightarrow> byte list option \<Rightarrow> nat \<Rightarrow> nat \<Rightarrow> unit td" where
  "certify_key w ctx plaintext_data p_encrypted_ppid encrypted_ppid_size certification_key_type =
     andthen (look m_eid) (\<lambda>loaded.
       if plaintext_data = [] \<or> \<not> loaded then stop TEE_ATT_ERROR_INVALID_PARAMETER
       else if p_encrypted_ppid \<noteq> None \<and> encrypted_ppid_size \<noteq> REF_RSA_OAEP_3072_MOD_SIZE
       then stop TEE_ATT_ERROR_INVALID_PARAMETER
       else
         andthen (validate_legacy_certification_key_type ctx certification_key_type) (\<lambda>_.
         case algorithm_of_plaintext_size (length plaintext_data) of None \<Rightarrow> stop TEE_ATT_ERROR_INVALID_PARAMETER
         | Some a \<Rightarrow>
             let p = plaintext_of a plaintext_data in
             andthen (legacy_pce_sign_report w ctx (pce_isv_svn (kp_cert_pce_info p)) (kp_cert_cpu_svn p) (kp_qe_report p)) (\<lambda>sig.
             andthen (call_store_cert_data w (plaintext_bytes (p\<lparr>kp_qe_report_cert_key_sig := sig\<rparr>)) (length plaintext_data)
               certification_key_type p_encrypted_ppid encrypted_ppid_size (td_blob_size w (m_att_key_algorithm_id ctx))) (\<lambda>ret.
             andthen (require (ret = TDQE_SUCCESS) ret) (\<lambda>_. save_blob w ctx)))))"

end
