(* ===== verification/Td_Logic.thy ===== *)
theory Td_Logic
  imports Td_Calls
begin

text \<open>
  The initialization of the attestation key in the TD quote library (td_ql_logic.cpp): the key in the blob is kept,
  certified again, or replaced, with the PCE's certification or in the mode without it.
\<close>

section \<open>Parts of init_quote\<close>

text \<open>
  \<open>sgx_target_info_t\<close> with the measurement, attributes and misc select; and the members of the report that go there
  or are compared.
\<close>

definition target_info :: "byte list \<Rightarrow> byte list \<Rightarrow> byte list \<Rightarrow> byte list" where
  "target_info mr_enclave attributes misc_select =
     mr_enclave @ attributes @ replicate 4 0 @ misc_select @ replicate 456 0"

definition put_target_info :: "byte list \<Rightarrow> unit td" where
  "put_target_info mr_enclave =
     change (\<lambda>s. s\<lparr>out_target_info := target_info mr_enclave (m_secs_attr s) (m_misc_select s)\<rparr>)"

definition report_mr_enclave :: "byte list \<Rightarrow> byte list" where "report_mr_enclave r = take 32 (drop 64 r)"

text \<open>The report body is remembered; \<open>again\<close>: also when there is one already.\<close>

definition keep_report_body :: "td_world \<Rightarrow> bool \<Rightarrow> byte list \<Rightarrow> unit td" where
  "keep_report_body w again body = andthen (look m_tdqe_report_body) (\<lambda>old.
     if old = None \<and> \<not> tw_malloc w Report_body_mem then stop TEE_ATT_ERROR_OUT_OF_MEMORY
     else if old = None \<or> again then change (\<lambda>s. s\<lparr>m_tdqe_report_body := Some body\<rparr>) else give ())"

definition read_blob :: "td_world \<Rightarrow> tee_att_config_t \<Rightarrow> (int + nat) td" where
  "read_blob w ctx = attempt (read_persistent_data w ctx (td_blob_size w (m_att_key_algorithm_id ctx))
     (get_blob_label_for_algorithm (m_att_key_algorithm_id ctx)))"

definition authentication_data :: "byte list" where "authentication_data = map word_of_nat [0..<32]"

text \<open>
  The key in the blob cannot be used as it is: another certification type, a newer QE or another CPU SVN, another PCE,
  or certification data that the full DCAP path does not accept.
\<close>

definition key_outdated ::
  "td_world \<Rightarrow> tee_att_config_t \<Rightarrow> nat \<Rightarrow> u16 \<Rightarrow> byte list \<Rightarrow> byte list \<Rightarrow> key_plaintext \<Rightarrow> bool" where
  "key_outdated w ctx certification_key_type raw_pce_isvsvn pce_target_info body p \<longleftrightarrow>
     get32 0 (kp_certification_key_type p) \<noteq> word_of_nat certification_key_type
     \<or> get16 0 (report_isv_svn body) > get16 0 (kp_cert_qe_isv_svn p) \<or> kp_raw_cpu_svn p \<noteq> report_cpu_svn body
     \<or> raw_pce_isvsvn \<noteq> pce_isv_svn (kp_raw_pce_info p)
     \<or> kp_pce_target_info p \<noteq> pce_target_info
     \<or> (mldsa_require_full_dcap_path w \<and> m_att_key_algorithm_id ctx \<noteq> SGX_QL_ALG_ECDSA_P256
        \<and> mldsa_blob_uses_local_only_certification p)"

text \<open>The TDQE's report body, the key id and the plaintext of a blob whose key stays; \<open>None\<close> asks for a new key.\<close>

definition check_stored_key ::
  "td_world \<Rightarrow> tee_att_config_t \<Rightarrow> nat \<Rightarrow> bool \<Rightarrow> byte list \<Rightarrow> (byte list \<times> byte list \<times> key_plaintext) option td" where
  "check_stored_key w ctx certification_key_type refresh_att_key pce_target_info =
     (let n = td_blob_size w (m_att_key_algorithm_id ctx) in
      if refresh_att_key then give None
      else andthen (read_blob w ctx) (\<lambda>blob_size_read.
        if (case blob_size_read of Inl _ \<Rightarrow> False | Inr k \<Rightarrow> k \<noteq> n) then give None
        else andthen (call_verify_blob w Call_verify_blob n True True) (\<lambda>r.
          if bk_ret r \<noteq> TDQE_SUCCESS then give None
          else
            let body = obj (bk_report_body r) in
            andthen (put_target_info (report_mr_enclave body)) (\<lambda>_.
            andthen (keep_report_body w False body) (\<lambda>_.
            if bk_is_resealed r = Some True then andthen (save_blob w ctx) (\<lambda>_. give None)
            else andthen (get_tdqe_blob_plaintext_view w n) (\<lambda>view. case view of None \<Rightarrow> give None
              | Some p \<Rightarrow> andthen (look m_raw_pce_isvsvn) (\<lambda>raw.
                  give (if key_outdated w ctx certification_key_type raw pce_target_info body p then None
                        else Some (body, obj (bk_key_id r), p)))))))))"

definition effective_platform_pce_isvsvn :: "tee_att_config_t \<Rightarrow> u16 \<Rightarrow> u16 \<times> u16 \<Rightarrow> u16" where
  "effective_platform_pce_isvsvn ctx pce_isv pce_info =
     (if m_att_key_algorithm_id ctx = SGX_QL_ALG_ECDSA_P256 \<or> fst pce_info = 0 then pce_isv else fst pce_info)"

definition pck_cert_id_of :: "byte list \<Rightarrow> byte list \<Rightarrow> u16 \<Rightarrow> byte list option \<Rightarrow> nat \<Rightarrow> u16 \<Rightarrow> sgx_ql_pck_cert_id_t" where
  "pck_cert_id_of qe_id cpu_svn isv_svn ppid ppid_size pid =
     \<lparr>pc_qe3_id = qe_id, pc_platform_cpu_svn = cpu_svn, pc_platform_pce_isv_svn = isv_svn, pc_encrypted_ppid = ppid,
      pc_encrypted_ppid_size = ppid_size, pc_crypto_suite = PCE_ALG_RSA_OAEP_3072, pc_pce_id = pid\<rparr>"

section \<open>init_quote with the PCE\<close>

text \<open>
  Certification again with the TCB \<open>tcb\<close>, with the report and the signature scheme of the blob. Without an encrypted
  PPID the blob keeps its own.
\<close>

definition recertify ::
  "td_world \<Rightarrow> tee_att_config_t \<Rightarrow> nat \<Rightarrow> byte list \<Rightarrow> u16 \<Rightarrow> byte list \<Rightarrow> key_plaintext \<Rightarrow> byte list \<Rightarrow> byte list \<times> u16
     \<Rightarrow> unit td" where
  "recertify w ctx certification_key_type pce_target_info pce_isv body p qe_id tcb = andthen (look m_pce_info) (\<lambda>pce_info.
     let pid = (if m_att_key_algorithm_id ctx = SGX_QL_ALG_ECDSA_P256 then pce_id (kp_cert_pce_info p)
                else get_effective_mldsa_blob_pce_id p (snd pce_info)) in
     certify_key w ctx
       (plaintext_bytes (populate_plaintext (m_att_key_algorithm_id ctx) (fst tcb) (snd tcb) pid (report_cpu_svn body)
          pce_isv pid (kp_qe_report p) qe_id (kp_signature_scheme p) pce_target_info certification_key_type))
       None 0 certification_key_type)"

definition use_stored_key ::
  "td_world \<Rightarrow> tee_att_config_t \<Rightarrow> nat \<Rightarrow> byte list \<Rightarrow> u16 \<Rightarrow> bool \<Rightarrow> byte list \<times> byte list \<times> key_plaintext \<Rightarrow> unit td" where
  "use_stored_key w ctx certification_key_type pce_target_info pce_isv has_pub_key_id = (\<lambda>(body, key_id, p).
     andthen (if has_pub_key_id then change (\<lambda>s. s\<lparr>out_pub_key_id := Some key_id\<rparr>) else stop TEE_ATT_ERROR_UNEXPECTED) (\<lambda>_.
     andthen (getencryptedppid w pce_target_info) (\<lambda>encrypted_ppid.
     andthen (ensure_qe_id w ctx) (\<lambda>qe_id.
     andthen (look m_pce_info) (\<lambda>pce_info.
     andthen (attempt (legacy_get_platform_quote_cert_data w ctx
       (pck_cert_id_of qe_id (report_cpu_svn body) (effective_platform_pce_isvsvn ctx pce_isv pce_info)
         (Some encrypted_ppid) REF_RSA_OAEP_3072_MOD_SIZE
         (if m_att_key_algorithm_id ctx = SGX_QL_ALG_ECDSA_P256 then pce_id (kp_cert_pce_info p)
          else get_effective_mldsa_blob_pce_id p (snd pce_info))))) (\<lambda>answer.
     case answer of
       Inl e \<Rightarrow>
         if e \<noteq> TEE_ATT_PLATFORM_LIB_UNAVAILABLE then stop e
         else if pce_isv > pce_isv_svn (kp_cert_pce_info p)
         then recertify w ctx certification_key_type pce_target_info pce_isv body p qe_id (report_cpu_svn body, pce_isv)
         else give ()
     | Inr c \<Rightarrow>
         if pl_pce_isv_svn c \<noteq> pce_isv_svn (kp_cert_pce_info p) \<or> pl_cpu_svn c \<noteq> kp_cert_cpu_svn p
         then recertify w ctx certification_key_type pce_target_info pce_isv body p qe_id (pl_cpu_svn c, pl_pce_isv_svn c)
         else give ()))))))"

text \<open>The plaintext is looked at for its type only. The ECDSA structure gets the PCE id 0 in its certified TCB.\<close>

definition make_new_key ::
  "td_world \<Rightarrow> tee_att_config_t \<Rightarrow> nat \<Rightarrow> byte list \<Rightarrow> u16 \<Rightarrow> bool \<Rightarrow> unit td" where
  "make_new_key w ctx certification_key_type pce_target_info pce_isv has_pub_key_id =
     (let a = m_att_key_algorithm_id ctx; n = td_blob_size w a in
      if certification_key_type \<noteq> PPID_RSA3072_ENCRYPTED then stop TEE_ATT_ERROR_INVALID_PARAMETER
      else
        andthen (getencryptedppid w pce_target_info) (\<lambda>encrypted_ppid.
        andthen (call_gen_att_key w n a pce_target_info authentication_data) (\<lambda>(ret, report).
        andthen (require (ret = TDQE_SUCCESS) ret) (\<lambda>_.
        andthen (put_target_info (report_mr_enclave report)) (\<lambda>_.
        andthen (keep_report_body w False (report_body report)) (\<lambda>_.
        andthen (ensure_qe_id w ctx) (\<lambda>qe_id.
        andthen (get_tdqe_blob_plaintext_view w n) (\<lambda>view.
        andthen (require (view \<noteq> None) TEE_ATT_ATT_KEY_NOT_INITIALIZED) (\<lambda>_.
        andthen (look m_pce_info) (\<lambda>pce_info.
        andthen (attempt (legacy_get_platform_quote_cert_data w ctx
          (pck_cert_id_of qe_id (report_cpu_svn report) (effective_platform_pce_isvsvn ctx pce_isv pce_info)
            (Some encrypted_ppid) REF_RSA_OAEP_3072_MOD_SIZE (snd pce_info)))) (\<lambda>answer.
        andthen (case answer of
            Inr c \<Rightarrow> give (pl_cpu_svn c, pl_pce_isv_svn c)
          | Inl e \<Rightarrow> if e \<noteq> TEE_ATT_PLATFORM_LIB_UNAVAILABLE then stop e else give (report_cpu_svn report, pce_isv)) (\<lambda>tcb.
        andthen (certify_key w ctx
          (plaintext_bytes (populate_plaintext a (fst tcb) (snd tcb)
             (if a = SGX_QL_ALG_ECDSA_P256 then 0 else snd pce_info) (report_cpu_svn report) (fst pce_info) (snd pce_info)
             report qe_id PCE_NIST_P256_ECDSA_SHA256 pce_target_info certification_key_type))
          (Some encrypted_ppid) REF_RSA_OAEP_3072_MOD_SIZE certification_key_type) (\<lambda>_.
        if has_pub_key_id then change (\<lambda>s. s\<lparr>out_pub_key_id := Some (take 32 (report_report_data report))\<rparr>)
        else stop TEE_ATT_ERROR_UNEXPECTED)))))))))))))"

text \<open>When the lock of the blob fails, the method returns the status of the steps before, which is success.\<close>

definition ecdsa_init_quote :: "td_world \<Rightarrow> tee_att_config_t \<Rightarrow> nat \<Rightarrow> bool \<Rightarrow> bool \<Rightarrow> bool \<Rightarrow> unit td" where
  "ecdsa_init_quote w ctx certification_key_type has_target_info refresh_att_key has_pub_key_id =
     andthen (validate_legacy_certification_key_type ctx certification_key_type) (\<lambda>_.
     if \<not> has_target_info then stop TEE_ATT_ERROR_INVALID_PARAMETER
     else
       andthen (legacy_get_pce_target_info w ctx) (\<lambda>(pce_target_info, pce_isv).
       andthen (load_qe w ctx) (\<lambda>is_fresh_loaded.
       andthen (change (\<lambda>s. if is_fresh_loaded then s\<lparr>m_raw_pce_isvsvn := pce_isv\<rparr> else s)) (\<lambda>_.
       andthen (put_target_info (replicate 32 0)) (\<lambda>_.
       if \<not> tw_mutex w Lock_blob then give ()
       else unlocking (tw_mutex w Unlock_blob) TEE_ATT_ERROR_UNEXPECTED
         (andthen (check_stored_key w ctx certification_key_type refresh_att_key pce_target_info) (\<lambda>stored.
            case stored of
              Some k \<Rightarrow> use_stored_key w ctx certification_key_type pce_target_info pce_isv has_pub_key_id k
            | None \<Rightarrow> make_new_key w ctx certification_key_type pce_target_info pce_isv has_pub_key_id)))))))"

definition mldsa_init_quote :: "td_world \<Rightarrow> tee_att_config_t \<Rightarrow> nat \<Rightarrow> bool \<Rightarrow> bool \<Rightarrow> bool \<Rightarrow> unit td" where
  "mldsa_init_quote = ecdsa_init_quote"

abbreviation (input) "is_mldsa \<equiv>
  (\<lambda>a. a = SGX_QL_ALG_MLDSA_44 \<or> a = SGX_QL_ALG_MLDSA_87 \<or> a = SGX_QL_ALG_MLDSA_65)"

definition legacy_init_quote :: "td_world \<Rightarrow> tee_att_config_t \<Rightarrow> nat \<Rightarrow> bool \<Rightarrow> bool \<Rightarrow> bool \<Rightarrow> unit td" where
  "legacy_init_quote w ctx certification_key_type has_target_info refresh_att_key has_pub_key_id =
     (if m_att_key_algorithm_id ctx = SGX_QL_ALG_ECDSA_P256
      then ecdsa_init_quote w ctx certification_key_type has_target_info refresh_att_key has_pub_key_id
      else if is_mldsa (m_att_key_algorithm_id ctx)
      then mldsa_init_quote w ctx certification_key_type has_target_info refresh_att_key has_pub_key_id
      else stop TEE_ATT_UNSUPPORTED_ATT_KEY_ID)"

section \<open>init_quote without the PCE\<close>

text \<open>The target of the report that certifies the key: the TDQE's own attributes, with the provisioning key, without debug.\<close>

definition local_target_info :: "td_members \<Rightarrow> byte list" where
  "local_target_info s = target_info (replicate 32 0)
     (le64 ((get64 0 (m_secs_attr s) OR SGX_FLAGS_PROVISION_KEY_BIT) AND NOT SGX_FLAGS_DEBUG) @ drop 8 (m_secs_attr s))
     (m_misc_select s)"

text \<open>The blob in storage is used when it verifies: the value says whether.\<close>

definition trusted_stored_key :: "td_world \<Rightarrow> tee_att_config_t \<Rightarrow> bool \<Rightarrow> bool td" where
  "trusted_stored_key w ctx refresh_att_key =
     (let n = td_blob_size w (m_att_key_algorithm_id ctx) in
      if refresh_att_key then give False
      else andthen (read_blob w ctx) (\<lambda>blob_size_read.
        if blob_size_read \<noteq> Inr n then give False
        else andthen (call_verify_blob w Call_verify_blob n True True) (\<lambda>r.
          if bk_ret r \<noteq> TDQE_SUCCESS then give False
          else
            let body = obj (bk_report_body r) in
            andthen (put_target_info (report_mr_enclave body)) (\<lambda>_.
            andthen (change (\<lambda>s. s\<lparr>out_pub_key_id := Some (obj (bk_key_id r))\<rparr>)) (\<lambda>_.
            andthen (keep_report_body w True body) (\<lambda>_.
            andthen (ensure_qe_id w ctx) (\<lambda>_.
            andthen (if bk_is_resealed r = Some True then save_blob w ctx else give ()) (\<lambda>_. give True)))))))) "

definition trusted_new_key :: "td_world \<Rightarrow> tee_att_config_t \<Rightarrow> nat \<Rightarrow> byte list \<Rightarrow> unit td" where
  "trusted_new_key w ctx certification_key_type local_target =
     (let a = m_att_key_algorithm_id ctx; n = td_blob_size w a in
      andthen (call_gen_att_key w n a local_target authentication_data) (\<lambda>(ret, report).
      andthen (require (ret = TDQE_SUCCESS) ret) (\<lambda>_.
      andthen (put_target_info (report_mr_enclave report)) (\<lambda>_.
      andthen (keep_report_body w True (report_body report)) (\<lambda>_.
      andthen (ensure_qe_id w ctx) (\<lambda>qe_id.
      andthen (look (\<lambda>s. (m_raw_pce_isvsvn s, snd (m_pce_info s)))) (\<lambda>(isv, pid).
      andthen (call_store_cert_data w
        (plaintext_bytes (populate_plaintext a (report_cpu_svn report) isv pid (report_cpu_svn report) isv pid report qe_id
           PCE_NIST_P256_ECDSA_SHA256 local_target certification_key_type))
        (plaintext_size a) certification_key_type None 0 n) (\<lambda>ret.
      andthen (require (ret = TDQE_SUCCESS) ret) (\<lambda>_.
      andthen (call_verify_blob w Call_verify_new n True True) (\<lambda>r.
      andthen (require (bk_ret r = TDQE_SUCCESS) (bk_ret r)) (\<lambda>_.
      andthen (change (\<lambda>s. s\<lparr>out_pub_key_id := Some (obj (bk_key_id r))\<rparr>)) (\<lambda>_. save_blob w ctx))))))))))))"

definition trusted_tdx_only_init_quote :: "td_world \<Rightarrow> tee_att_config_t \<Rightarrow> nat \<Rightarrow> bool \<Rightarrow> bool \<Rightarrow> bool \<Rightarrow> unit td" where
  "trusted_tdx_only_init_quote w ctx certification_key_type has_target_info refresh_att_key has_pub_key_id =
     (if \<not> is_mldsa (m_att_key_algorithm_id ctx) then stop TEE_ATT_UNSUPPORTED_ATT_KEY_ID
      else if \<not> has_target_info \<or> \<not> has_pub_key_id then stop TEE_ATT_ERROR_INVALID_PARAMETER
      else if certification_key_type \<noteq> PPID_RSA3072_ENCRYPTED then stop TEE_ATT_ERROR_INVALID_PARAMETER
      else
        andthen (load_qe w ctx) (\<lambda>is_fresh_loaded.
        andthen (change (\<lambda>s. if is_fresh_loaded \<and> m_raw_pce_isvsvn s = 0xFFFF then s\<lparr>m_raw_pce_isvsvn := 0\<rparr> else s)) (\<lambda>_.
        andthen (put_target_info (replicate 32 0)) (\<lambda>_.
        andthen (look local_target_info) (\<lambda>local_target.
        if \<not> tw_mutex w Lock_blob then stop TEE_ATT_ERROR_UNEXPECTED
        else unlocking (tw_mutex w Unlock_blob) TEE_ATT_ERROR_UNEXPECTED
          (andthen (trusted_stored_key w ctx refresh_att_key) (\<lambda>stored.
             if stored then give () else trusted_new_key w ctx certification_key_type local_target)))))))"

definition init_quote :: "td_world \<Rightarrow> tee_att_config_t \<Rightarrow> nat \<Rightarrow> bool \<Rightarrow> bool \<Rightarrow> bool \<Rightarrow> unit td" where
  "init_quote w ctx = (case m_bootstrap_mode ctx of
     TEE_ATT_BOOTSTRAP_LEGACY_PCE \<Rightarrow> legacy_init_quote w ctx
   | TEE_ATT_BOOTSTRAP_TRUSTED_TDX_ONLY \<Rightarrow> trusted_tdx_only_init_quote w ctx)"

end
