(* ===== verification/Td_Quotes.thy ===== *)
theory Td_Quotes
  imports Td_Logic
begin

text \<open>
  The size of a quote, the quote and the platform information in the TD quote library (td_ql_logic.cpp), and the
  life of a context (td_ql_logic.h).
\<close>

section \<open>Parts of the quote commands\<close>

definition td_sig_data_struct_size :: "nat \<Rightarrow> nat" where
  "td_sig_data_struct_size algorithm_id =
     (if algorithm_id = SGX_QL_ALG_MLDSA_44 then SGX_QL_MLDSA_44_SIG_SIZE + SGX_QL_MLDSA_44_PUB_KEY_SIZE
      else if algorithm_id = SGX_QL_ALG_MLDSA_87 then SGX_QL_MLDSA_87_SIG_SIZE + SGX_QL_MLDSA_87_PUB_KEY_SIZE
      else SGX_QL_MLDSA_65_SIG_SIZE + SGX_QL_MLDSA_65_PUB_KEY_SIZE)"

abbreviation (input) "sizeof_ecdsa_sig_data_v4_t \<equiv> (128 :: nat)"

text \<open>The sum that the methods write out at each place: the largest quote with signature data and certification data.\<close>

definition quote_size_with :: "nat \<Rightarrow> nat \<Rightarrow> nat" where
  "quote_size_with sig_data cert_data =
     sizeof_quote5_t + sizeof_body_v1_5_ex + 4 + sig_data + sizeof_ql_certification_data + sizeof_qe_report_certification
     + sizeof_ql_auth_data + REF_ECDSDA_AUTHENTICATION_DATA_SIZE + sizeof_ql_certification_data + cert_data"

definition put_quote_size :: "nat \<Rightarrow> unit td" where
  "put_quote_size n = change (\<lambda>s. s\<lparr>out_quote_size := Some n\<rparr>)"

definition cert_data_size_reasonable :: "nat \<Rightarrow> bool" where
  "cert_data_size_reasonable n \<longleftrightarrow> \<not> (n > MAX_CERT_DATA_SIZE \<or> n < MIN_CERT_DATA_SIZE)"

definition same_tcb :: "platform_cert \<Rightarrow> key_plaintext \<Rightarrow> bool" where
  "same_tcb c p \<longleftrightarrow> kp_cert_cpu_svn p = pl_cpu_svn c \<and> pce_isv_svn (kp_cert_pce_info p) = pl_pce_isv_svn c"

text \<open>The blob is read; one of another size ends the method, while a failure of storage leaves the blob in memory.\<close>

definition blob_for_quote :: "td_world \<Rightarrow> tee_att_config_t \<Rightarrow> unit td" where
  "blob_for_quote w ctx = andthen (read_blob w ctx) (\<lambda>blob_size_read.
     require (case blob_size_read of Inl _ \<Rightarrow> True | Inr k \<Rightarrow> k = td_blob_size w (m_att_key_algorithm_id ctx))
       TEE_ATT_ATT_KEY_NOT_INITIALIZED)"

text \<open>The view of the blob, whose PCE is still the platform's.\<close>

definition view_for_quote :: "td_world \<Rightarrow> tee_att_config_t \<Rightarrow> key_plaintext td" where
  "view_for_quote w ctx =
     andthen (get_tdqe_blob_plaintext_view w (td_blob_size w (m_att_key_algorithm_id ctx))) (\<lambda>view. case view of
       None \<Rightarrow> stop TEE_ATT_ATT_KEY_NOT_INITIALIZED
     | Some p \<Rightarrow> andthen (look m_raw_pce_isvsvn) (\<lambda>raw.
         if raw \<noteq> pce_isv_svn (kp_raw_pce_info p) then stop TEE_ATT_ATT_KEY_NOT_INITIALIZED else give p))"

text \<open>The platform's certification data is asked for with the identity in the blob (ECDSA), or the cached one (ML-DSA).\<close>

definition ecdsa_query :: "key_plaintext \<Rightarrow> sgx_ql_pck_cert_id_t td" where
  "ecdsa_query p = look (\<lambda>s. pck_cert_id_of (kp_qe_id p) (kp_raw_cpu_svn p)
     (get_effective_mldsa_blob_pce_isvsvn p (fst (m_pce_info s))) None 0
     (get_effective_mldsa_blob_pce_id p (snd (m_pce_info s))))"

definition mldsa_query :: "td_world \<Rightarrow> tee_att_config_t \<Rightarrow> key_plaintext \<Rightarrow> sgx_ql_pck_cert_id_t td" where
  "mldsa_query w ctx p =
     andthen (if uses_legacy_pce_bootstrap ctx
        then andthen (legacy_get_pce_target_info w ctx) (\<lambda>(pce_target_info, _).
             andthen (getencryptedppid w pce_target_info) (\<lambda>encrypted_ppid. give (Some encrypted_ppid)))
        else look m_pencryptedppid) (\<lambda>ppid.
     andthen (look m_pce_info) (\<lambda>pce_info.
     let q = build_mldsa_platform_cert_query p ppid pce_info
           (if uses_legacy_pce_bootstrap ctx then fst pce_info
            else get_effective_mldsa_blob_pce_isvsvn p (fst pce_info)) (snd pce_info) in
     give (pck_cert_id_of (kp_qe_id p) (kp_raw_cpu_svn p) (mq_platform_pce_isvsvn q) (mq_encrypted_ppid q)
       (mq_encrypted_ppid_size q) (mq_platform_pce_id q))))"

section \<open>get_quote_size\<close>

definition ecdsa_get_quote_size :: "td_world \<Rightarrow> tee_att_config_t \<Rightarrow> nat \<Rightarrow> bool \<Rightarrow> unit td" where
  "ecdsa_get_quote_size w ctx certification_key_type has_quote_size =
     (let n = td_blob_size w (m_att_key_algorithm_id ctx) in
      andthen (validate_legacy_certification_key_type ctx certification_key_type) (\<lambda>_.
      if \<not> has_quote_size then stop TEE_ATT_ERROR_INVALID_PARAMETER
      else
        andthen (load_qe w ctx) (\<lambda>_.
        if \<not> tw_mutex w Lock_blob then give ()
        else unlocking (tw_mutex w Unlock_blob) TEE_ATT_ERROR_UNEXPECTED
          (andthen (blob_for_quote w ctx) (\<lambda>_.
           andthen (call_verify_blob w Call_verify_blob n False False) (\<lambda>r.
           if bk_ret r \<noteq> TDQE_SUCCESS then stop TEE_ATT_ATT_KEY_NOT_INITIALIZED
           else if bk_is_resealed r = Some True
           then andthen (save_blob w ctx) (\<lambda>_. stop TEE_ATT_ATT_KEY_NOT_INITIALIZED)
           else
             andthen (view_for_quote w ctx) (\<lambda>p.
             if mldsa_require_full_dcap_path w \<and> mldsa_blob_uses_local_only_certification p
             then stop TEE_ATT_ATT_KEY_NOT_INITIALIZED
             else
               andthen (ecdsa_query p) (\<lambda>pck_cert_id.
               andthen (attempt (get_platform_quote_cert_data w ctx 0 pck_cert_id None)) (\<lambda>answer.
               case answer of
                 Inl e \<Rightarrow>
                   if e \<noteq> TEE_ATT_PLATFORM_LIB_UNAVAILABLE then stop e
                   else put_quote_size (quote_size_with sizeof_ecdsa_sig_data_v4_t sizeof_encrypted_cert_info)
               | Inr c \<Rightarrow>
                   if \<not> cert_data_size_reasonable (pl_size c) then stop TEE_ATT_ATT_KEY_CERT_DATA_INVALID
                   else if \<not> same_tcb c p then stop TEE_ATT_ATT_KEY_NOT_INITIALIZED
                   else put_quote_size (quote_size_with sizeof_ecdsa_sig_data_v4_t (pl_size c)))))))))))"

text \<open>
  The sizes for ML-DSA, from the platform's answer. Without the platform's data, or with data that does not fit, the
  blob's own data is used, unless the full DCAP path is demanded.
\<close>

definition mldsa_size_for_answer ::
  "td_world \<Rightarrow> tee_att_config_t \<Rightarrow> key_plaintext \<Rightarrow> int + platform_cert \<Rightarrow> unit td" where
  "mldsa_size_for_answer w ctx p answer =
     (let sig_data = td_sig_data_struct_size (m_att_key_algorithm_id ctx);
          own_data = put_quote_size (quote_size_with sig_data sizeof_encrypted_cert_info) in
      case answer of
        Inl e \<Rightarrow>
          if mldsa_require_full_dcap_path w
          then stop (if should_fallback_to_local_cert_data w e \<and> mldsa_blob_uses_local_only_certification p
                     then TEE_ATT_ATT_KEY_NOT_INITIALIZED else e)
          else if \<not> should_fallback_to_local_cert_data w e then stop e
          else own_data
      | Inr c \<Rightarrow>
          if \<not> cert_data_size_reasonable (pl_size c)
          then (if mldsa_require_full_dcap_path w then stop TEE_ATT_ATT_KEY_CERT_DATA_INVALID else own_data)
          else if \<not> same_tcb c p
          then (if mldsa_require_full_dcap_path w then stop TEE_ATT_ATT_KEY_NOT_INITIALIZED else own_data)
          else put_quote_size (quote_size_with sig_data (pl_size c)))"

definition mldsa_get_quote_size :: "td_world \<Rightarrow> tee_att_config_t \<Rightarrow> nat \<Rightarrow> bool \<Rightarrow> unit td" where
  "mldsa_get_quote_size w ctx certification_key_type has_quote_size =
     (if certification_key_type \<noteq> PPID_RSA3072_ENCRYPTED then stop TEE_ATT_ERROR_INVALID_PARAMETER
      else if \<not> has_quote_size then stop TEE_ATT_ERROR_INVALID_PARAMETER
      else
        andthen (load_qe w ctx) (\<lambda>_.
        if \<not> tw_mutex w Lock_blob then stop TEE_ATT_ERROR_UNEXPECTED
        else unlocking (tw_mutex w Unlock_blob) TEE_ATT_ERROR_UNEXPECTED
          (andthen (blob_for_quote w ctx) (\<lambda>_.
           andthen (view_for_quote w ctx) (\<lambda>p.
           andthen (mldsa_query w ctx p) (\<lambda>pck_cert_id.
           andthen (attempt (get_platform_quote_cert_data w ctx 0 pck_cert_id None)) (mldsa_size_for_answer w ctx p)))))))"

definition get_quote_size :: "td_world \<Rightarrow> tee_att_config_t \<Rightarrow> nat \<Rightarrow> bool \<Rightarrow> unit td" where
  "get_quote_size w ctx certification_key_type has_quote_size =
     (if m_att_key_algorithm_id ctx = SGX_QL_ALG_ECDSA_P256
      then ecdsa_get_quote_size w ctx certification_key_type has_quote_size
      else if is_mldsa (m_att_key_algorithm_id ctx) then mldsa_get_quote_size w ctx certification_key_type has_quote_size
      else stop TEE_ATT_UNSUPPORTED_ATT_KEY_ID)"

section \<open>get_quote\<close>

text \<open>
  The certification data that goes into the quote, with its header: the contents of the platform library, asked for
  a second time with a buffer of the size it told before. For ECDSA the size of the quote is checked against the
  structure of version 4.
\<close>

definition cert_data_bytes :: "platform_cert \<Rightarrow> byte list" where
  "cert_data_bytes c = le16 PCK_CERT_CHAIN @ le32 (word_of_nat (pl_size c)) @ pl_data c"

definition ecdsa_cert_data ::
  "td_world \<Rightarrow> tee_att_config_t \<Rightarrow> key_plaintext \<Rightarrow> nat \<Rightarrow> byte list option td" where
  "ecdsa_cert_data w ctx p quote_size =
     andthen (ecdsa_query p) (\<lambda>pck_cert_id.
     andthen (attempt (get_platform_quote_cert_data w ctx 0 pck_cert_id None)) (\<lambda>answer. case answer of
       Inl e \<Rightarrow> if e \<noteq> TEE_ATT_PLATFORM_LIB_UNAVAILABLE then stop e else give None
     | Inr c0 \<Rightarrow>
         if \<not> cert_data_size_reasonable (pl_size c0) then stop TEE_ATT_ATT_KEY_CERT_DATA_INVALID
         else if \<not> tw_malloc w Cert_data_mem then stop TEE_ATT_ERROR_OUT_OF_MEMORY
         else andthen (attempt (get_platform_quote_cert_data w ctx 1 pck_cert_id (Some (pl_size c0)))) (\<lambda>again. case again of
           Inl _ \<Rightarrow> stop TEE_ATT_ERROR_UNEXPECTED
         | Inr c \<Rightarrow>
             if \<not> same_tcb c p then stop TEE_ATT_ATT_KEY_NOT_INITIALIZED
             else if quote_size < sizeof_quote4_t + sizeof_ecdsa_sig_data_v4_t + sizeof_ql_auth_data
               + REF_ECDSDA_AUTHENTICATION_DATA_SIZE + sizeof_ql_certification_data + sizeof_ql_certification_data
               + sizeof_qe_report_certification + pl_size c
             then stop TEE_ATT_ERROR_INVALID_PARAMETER
             else give (Some (cert_data_bytes c)))))"

definition mldsa_cert_data ::
  "td_world \<Rightarrow> tee_att_config_t \<Rightarrow> key_plaintext \<Rightarrow> nat \<Rightarrow> byte list option td" where
  "mldsa_cert_data w ctx p quote_size =
     andthen (mldsa_query w ctx p) (\<lambda>pck_cert_id.
     andthen (attempt (get_platform_quote_cert_data w ctx 0 pck_cert_id None)) (\<lambda>answer. case answer of
       Inl e \<Rightarrow>
         if mldsa_require_full_dcap_path w
         then stop (if should_fallback_to_local_cert_data w e \<and> mldsa_blob_uses_local_only_certification p
                    then TEE_ATT_ATT_KEY_NOT_INITIALIZED else e)
         else if \<not> should_fallback_to_local_cert_data w e then stop e
         else give None
     | Inr c0 \<Rightarrow>
         if \<not> cert_data_size_reasonable (pl_size c0)
         then (if mldsa_require_full_dcap_path w then stop TEE_ATT_ATT_KEY_CERT_DATA_INVALID else give None)
         else if \<not> tw_malloc w Cert_data_mem then stop TEE_ATT_ERROR_OUT_OF_MEMORY
         else andthen (attempt (get_platform_quote_cert_data w ctx 1 pck_cert_id (Some (pl_size c0)))) (\<lambda>again. case again of
           Inl _ \<Rightarrow> stop TEE_ATT_ERROR_UNEXPECTED
         | Inr c \<Rightarrow>
             if \<not> same_tcb c p
             then (if mldsa_require_full_dcap_path w then stop TEE_ATT_ATT_KEY_NOT_INITIALIZED else give None)
             else if quote_size < quote_size_with (td_sig_data_struct_size (m_att_key_algorithm_id ctx))
               (pl_size c)
             then stop TEE_ATT_ERROR_INVALID_PARAMETER
             else give (Some (cert_data_bytes c)))))"

text \<open>The call of gen_quote; blob and quote are copied out when the call returns, whatever the enclave reports.\<close>

definition call_gen_quote ::
  "td_world \<Rightarrow> tee_att_config_t \<Rightarrow> byte list \<Rightarrow> nat \<Rightarrow> byte list option \<Rightarrow> unit td" where
  "call_gen_quote w ctx p_app_report quote_size p_certification_data =
     (let a = m_att_key_algorithm_id ctx; n = td_blob_size w a in
      andthen (look out_quote) (\<lambda>buf.
      andthen (tdqe_blob_call w Call_gen_quote n (\<lambda>sdk b.
        let r = gen_quote sdk (Some b) n a (Some (tw_read_report2 w p_app_report)) None None None (Some (take quote_size buf))
              quote_size p_certification_data (length (obj p_certification_data)) in (r, qr_blob r))) (\<lambda>r.
      andthen (change (\<lambda>s. s\<lparr>out_quote := written quote_size (qr_quote r) @ drop quote_size buf\<rparr>)) (\<lambda>_.
      require (qr_ret r = TDQE_SUCCESS) (qr_ret r)))))"

definition ecdsa_get_quote :: "td_world \<Rightarrow> tee_att_config_t \<Rightarrow> byte list option \<Rightarrow> bool \<Rightarrow> nat \<Rightarrow> unit td" where
  "ecdsa_get_quote w ctx p_app_report has_quote quote_size =
     (let n = td_blob_size w (m_att_key_algorithm_id ctx) in
      if p_app_report = None \<or> \<not> has_quote then stop TEE_ATT_ERROR_INVALID_PARAMETER
      else
        andthen (load_qe w ctx) (\<lambda>_.
        if \<not> tw_mutex w Lock_blob then give ()
        else unlocking (tw_mutex w Unlock_blob) TEE_ATT_ERROR_UNEXPECTED
          (andthen (blob_for_quote w ctx) (\<lambda>_.
           andthen (call_verify_blob w Call_verify_blob n False True) (\<lambda>r.
           if bk_ret r \<noteq> TDQE_SUCCESS then stop TEE_ATT_ATT_KEY_NOT_INITIALIZED
           else if bk_is_resealed r = Some True
           then andthen (save_blob w ctx) (\<lambda>_. stop TEE_ATT_ATT_KEY_NOT_INITIALIZED)
           else
             andthen (view_for_quote w ctx) (\<lambda>p.
             andthen (ecdsa_cert_data w ctx p quote_size) (\<lambda>cert. call_gen_quote w ctx (obj p_app_report) quote_size cert)))))))"

text \<open>
  The type of the certification data inside the quote, found with the layout of version 4. The pointers stay in the
  quote as long as the comparisons hold.
\<close>

definition td_inner_cert_key_type :: "byte list \<Rightarrow> nat \<Rightarrow> nat \<Rightarrow> u16 option" where
  "td_inner_cert_key_type p_quote quote_size algorithm_id =
     (let outer = sizeof_quote4_t + td_sig_data_struct_size algorithm_id;
          auth = outer + sizeof_ql_certification_data + sizeof_qe_report_certification in
      if quote_size < auth + sizeof_ql_auth_data + sizeof_ql_certification_data then None
      else
        let inner = auth + sizeof_ql_auth_data + unat (get16 auth p_quote) in
        if inner + sizeof_ql_certification_data > quote_size then None else Some (get16 inner p_quote))"

definition mldsa_get_quote :: "td_world \<Rightarrow> tee_att_config_t \<Rightarrow> byte list option \<Rightarrow> bool \<Rightarrow> nat \<Rightarrow> unit td" where
  "mldsa_get_quote w ctx p_app_report has_quote quote_size =
     (let n = td_blob_size w (m_att_key_algorithm_id ctx) in
      if p_app_report = None \<or> \<not> has_quote then stop TEE_ATT_ERROR_INVALID_PARAMETER
      else
        andthen (load_qe w ctx) (\<lambda>_.
        if \<not> tw_mutex w Lock_blob then stop TEE_ATT_ERROR_UNEXPECTED
        else unlocking (tw_mutex w Unlock_blob) TEE_ATT_ERROR_UNEXPECTED
          (andthen (blob_for_quote w ctx) (\<lambda>_.
           andthen (call_verify_blob w Call_verify_blob n False False) (\<lambda>r.
           if bk_ret r \<noteq> TDQE_SUCCESS then stop TEE_ATT_ATT_KEY_NOT_INITIALIZED
           else
             andthen (if bk_is_resealed r = Some True then save_blob w ctx else give ()) (\<lambda>_.
             andthen (view_for_quote w ctx) (\<lambda>p.
             andthen (mldsa_cert_data w ctx p quote_size) (\<lambda>cert.
             andthen (call_gen_quote w ctx (obj p_app_report) quote_size cert) (\<lambda>_.
             if \<not> mldsa_require_full_dcap_path w then give ()
             else andthen (look out_quote) (\<lambda>quote.
               case td_inner_cert_key_type quote quote_size (m_att_key_algorithm_id ctx) of
                 None \<Rightarrow> stop TEE_ATT_ERROR_UNEXPECTED
               | Some t \<Rightarrow> require (t = PCK_CERT_CHAIN) TEE_ATT_ATT_KEY_NOT_INITIALIZED))))))))))"

definition td_get_quote :: "td_world \<Rightarrow> tee_att_config_t \<Rightarrow> byte list option \<Rightarrow> bool \<Rightarrow> nat \<Rightarrow> unit td" where
  "td_get_quote w ctx p_app_report has_quote quote_size =
     (if m_att_key_algorithm_id ctx = SGX_QL_ALG_ECDSA_P256 then ecdsa_get_quote w ctx p_app_report has_quote quote_size
      else if is_mldsa (m_att_key_algorithm_id ctx) then mldsa_get_quote w ctx p_app_report has_quote quote_size
      else stop TEE_ATT_UNSUPPORTED_ATT_KEY_ID)"

section \<open>get_platform_info\<close>

definition platform_info_parts :: "td_world \<Rightarrow> tee_att_config_t \<Rightarrow> tee_platform_info_t td" where
  "platform_info_parts w ctx =
     andthen (ensure_qe_id w ctx) (\<lambda>platform_id.
     andthen (look m_raw_pce_isvsvn) (\<lambda>raw.
     andthen (if raw = 0xFFFF
        then (case tw_pce_get_target w of (pce_error, _, isv_svn) \<Rightarrow>
                if pce_error \<noteq> SGX_PCE_SUCCESS then stop (translate_pce_errors pce_error) else give isv_svn)
        else give raw) (\<lambda>pce_isv.
     andthen (look m_tdqe_report_body) (\<lambda>body. case body of
       None \<Rightarrow> stop TEE_ATT_ERROR_UNEXPECTED
     | Some b \<Rightarrow> give \<lparr>pi_platform_id = platform_id, pi_cpu_svn = report_cpu_svn b, pi_tdqe_isv_svn = get16 0 (report_isv_svn b),
         pi_pce_isv_svn = pce_isv\<rparr>))))"

text \<open>
  All four results are asked for, as the API does. The target information and the key id of the initialization are local
  here.
\<close>

definition get_platform_info :: "td_world \<Rightarrow> tee_att_config_t \<Rightarrow> tee_platform_info_t td" where
  "get_platform_info w ctx = andthen (look id) (\<lambda>s0.
     andthen (if m_tdqe_report_body s0 \<noteq> None then give ()
        else andthen (attempt (init_quote w ctx PPID_RSA3072_ENCRYPTED True False True)) (\<lambda>r.
             andthen (look m_tdqe_report_body) (\<lambda>body. case r of
               Inr _ \<Rightarrow> give ()
             | Inl e \<Rightarrow> require (body \<noteq> None) e))) (\<lambda>_.
     andthen (change (\<lambda>s. s\<lparr>out_target_info := out_target_info s0, out_pub_key_id := out_pub_key_id s0\<rparr>)) (\<lambda>_.
     platform_info_parts w ctx)))"

section \<open>A context\<close>

text \<open>The constructor; the destructor unloads the enclave and frees what the pointers point to.\<close>

definition td_new :: "td_world \<Rightarrow> td_members" where
  "td_new w = \<lparr>m_eid = False, m_secs_attr = replicate 16 0, m_misc_select = replicate 4 0,
     m_ecdsa_blob = replicate (td_blob_size w SGX_QL_ALG_MLDSA_87) 0, m_pencryptedppid = None, m_pce_info = (0, 0),
     m_qe_id = None, m_raw_pce_isvsvn = 0xFFFF, m_qpl_handle = False, m_tdqe_report_body = None,
     out_target_info = replicate 512 0, out_pub_key_id = None, out_quote_size = None, out_quote = []\<rparr>"

definition td_delete :: "td_world \<Rightarrow> unit td" where
  "td_delete w = andthen (unload_qe w) (\<lambda>_.
     change (\<lambda>s. s\<lparr>m_pencryptedppid := None, m_qe_id := None, m_qpl_handle := False, m_tdqe_report_body := None\<rparr>))"

end
