(* ===== verification/Td_Safe.thy ===== *)
theory Td_Safe
  imports Td_Quotes Tdqe_Correct
begin

text \<open>
  The TD quote library over a documented enclave (\<open>world_wf\<close>): the sizes of the members stay as declared, nothing is
  read outside an object, and what the commands know of the blob in memory.
\<close>

section \<open>A documented platform\<close>

text \<open>
  The SDK the enclave runs under is documented, the structures have their sizes, and a sealed blob carries its
  plaintext in the clear where its header says; the header decides, whatever follows the blob in the buffer.
\<close>

definition world_wf :: "(byte list \<Rightarrow> (byte list \<times> byte list) option) \<Rightarrow> td_world \<Rightarrow> bool" where
  "world_wf contents w \<longleftrightarrow>
     (\<forall>c. sdk_documented contents (snd (tw_ecall w c)) \<and> sizes_documented (snd (tw_ecall w c))
        \<and> (\<exists>cpu isv. runs_at cpu isv (snd (tw_ecall w c)))
        \<and> ts_sizeof_sealed_data (snd (tw_ecall w c)) = tw_sizeof_sealed_data w)
     \<and> (\<forall>b n pt ct. n \<le> length b \<longrightarrow> contents (take n b) = Some (pt, ct)
          \<longrightarrow> bread (length pt) (tw_sizeof_sealed_data w + tw_plain_text_offset w b) b = Some pt)
     \<and> (\<forall>path. length (fst (snd (tw_create_tdqe w path))) = 16 \<and> length (snd (snd (tw_create_tdqe w path))) = 4)
     \<and> length (fst (snd (tw_pce_get_target w))) = 512
     \<and> (\<forall>f call q c. tw_qpl_get_quote_config w = Some f \<longrightarrow> snd (f call q) = Some c \<longrightarrow> length (qc_cert_cpu_svn c) = 16)
     \<and> length (tw_fresh_memory w) = 16 \<and> length (snd (snd (tw_ide_get_id w))) = 16"

definition members_wf :: "td_world \<Rightarrow> td_members \<Rightarrow> bool" where
  "members_wf w s \<longleftrightarrow>
     length (m_ecdsa_blob s) = td_blob_size w SGX_QL_ALG_MLDSA_87 \<and> length (m_secs_attr s) = 16 \<and> length (m_misc_select s) = 4
     \<and> (\<forall>x. m_pencryptedppid s = Some x \<longrightarrow> length x = 384) \<and> (\<forall>x. m_qe_id s = Some x \<longrightarrow> length x = 16)
     \<and> (\<forall>x. m_tdqe_report_body s = Some x \<longrightarrow> length x = 384) \<and> length (out_target_info s) = 512
     \<and> (\<forall>x. out_pub_key_id s = Some x \<longrightarrow> length x = 32)"

text \<open>What most commands leave alone: the blob in memory, the key id returned, and the raw PCE SVN.\<close>

definition at :: "td_world \<Rightarrow> byte list \<Rightarrow> byte list option \<Rightarrow> u16 \<Rightarrow> td_members \<Rightarrow> bool" where
  "at w b i r s \<longleftrightarrow> members_wf w s \<and> m_ecdsa_blob s = b \<and> out_pub_key_id s = i \<and> m_raw_pce_isvsvn s = r"

lemma at_wf: "members_wf w s \<longleftrightarrow> at w (m_ecdsa_blob s) (out_pub_key_id s) (m_raw_pce_isvsvn s) s"
  by (simp add: at_def)

named_theorems keeps "commands that keep the blob, the key id and the raw PCE SVN"

abbreviation (input) "keeping w b i r m Q \<equiv> triple (at w b i r) m (\<lambda>x s. at w b i r s \<and> Q x) (\<lambda>_. at w b i r)"

section \<open>Commands that keep the blob\<close>

lemma get_qpl_handle_keeps [keeps]: "keeping w b i r (get_qpl_handle w' ctx) (\<lambda>_. True)"
  by (rule tripleI) (auto simp: get_qpl_handle_def set_qpl_handle_def wp_simps at_def members_wf_def split: option.split)

lemma config_keeps [keeps]:
  assumes "world_wf contents w"
  shows "keeping w b i r (get_platform_quote_cert_data w ctx k q n) (\<lambda>c. length (pl_cpu_svn c) = 16)"
proof (rule tripleI)
  fix s assume "at w b i r s"
  moreover have "length (qc_cert_cpu_svn c) = 16" if "tw_qpl_get_quote_config w = Some f" "f k q = (e, Some c)" for f e c
    using assms that unfolding world_wf_def by (metis snd_conv)
  ultimately show "wp (get_platform_quote_cert_data w ctx k q n) (\<lambda>c s. at w b i r s \<and> length (pl_cpu_svn c) = 16) (\<lambda>_. at w b i r) s"
    unfolding get_platform_quote_cert_data_def
    by (auto simp: wp_simps Let_def split: option.split prod.split intro!: wp_use [OF get_qpl_handle_keeps])
qed

lemma legacy_config_keeps [keeps]:
  "world_wf contents w \<Longrightarrow> keeping w b i r (legacy_get_platform_quote_cert_data w ctx q) (\<lambda>c. length (pl_cpu_svn c) = 16)"
  unfolding legacy_get_platform_quote_cert_data_def
  by (rule tripleI) (auto simp: wp_simps intro: wp_use [OF config_keeps])

lemma write_keeps [keeps]: "keeping w b i r (write_persistent_data w' ctx buf label) (\<lambda>_. True)"
  unfolding write_persistent_data_def
  by (rule tripleI) (auto simp: wp_simps split: option.split intro!: wp_use [OF get_qpl_handle_keeps])

lemma save_keeps [keeps]: "keeping w b i r (save_blob w' ctx) (\<lambda>_. True)"
  unfolding save_blob_def
  by (rule tripleI) (auto simp: wp_simps intro!: wp_use [OF write_keeps])

lemma ensure_qe_id_keeps [keeps]:
  assumes "world_wf contents w"
  shows "keeping w b i r (ensure_qe_id w ctx) (\<lambda>x. length x = 16)"
proof (rule tripleI)
  fix s assume "at w b i r s"
  then show "wp (ensure_qe_id w ctx) (\<lambda>x s. at w b i r s \<and> length x = 16) (\<lambda>_. at w b i r) s"
    using assms unfolding world_wf_def
    by (auto simp: ensure_qe_id_def load_id_enclave_get_id_def load_id_enclave_def wp_simps at_def members_wf_def
        split: option.split prod.split)
qed

lemma ppid_keeps [keeps]: "keeping w b i r (getencryptedppid w' target) (\<lambda>x. length x = 384)"
  by (rule tripleI)
    (auto simp: getencryptedppid_def in_tdqe_def wp_simps at_def members_wf_def REF_RSA_OAEP_3072_MOD_SIZE_def
      split: option.split prod.split)

lemma pce_target_keeps [keeps]:
  assumes "world_wf contents w"
  shows "keeping w b i r (legacy_get_pce_target_info w ctx) (\<lambda>x. length (fst x) = 512)"
  by (rule tripleI) (use assms in \<open>auto simp: legacy_get_pce_target_info_def wp_simps world_wf_def split: prod.split\<close>)

lemma sign_report_keeps [keeps]: "keeping w b i r (legacy_pce_sign_report w' ctx isv cpu rep) (\<lambda>x. length x = 64)"
  by (rule tripleI) (auto simp: legacy_pce_sign_report_def wp_simps split: prod.split)

lemma validate_keeps [keeps]:
  "keeping w b i r (validate_legacy_certification_key_type ctx t) (\<lambda>_. t = PPID_RSA3072_ENCRYPTED \<and> uses_legacy_pce_bootstrap ctx)"
  by (rule tripleI) (auto simp: validate_legacy_certification_key_type_def wp_simps)

lemma put_target_keeps [keeps]:
  "length m = 32 \<Longrightarrow> keeping w b i r (put_target_info m) (\<lambda>_. True)"
  by (rule tripleI) (auto simp: put_target_info_def target_info_def wp_simps at_def members_wf_def)

lemma keep_body_keeps [keeps]: "length x = 384 \<Longrightarrow> keeping w b i r (keep_report_body w' again x) (\<lambda>_. True)"
  by (rule tripleI) (auto simp: keep_report_body_def wp_simps at_def members_wf_def)

lemma load_qe_keeps [keeps]:
  assumes "world_wf contents w"
  shows "keeping w b i r (load_qe w ctx) (\<lambda>_. True)"
proof (rule tripleI)
  fix s assume "at w b i r s"
  moreover have "length attr = 16" "length misc = 4" if "tw_create_tdqe w path = (e, attr, misc)" for path e attr misc
    using assms that unfolding world_wf_def by (metis fst_conv snd_conv)+
  ultimately show "wp (load_qe w ctx) (\<lambda>x s. at w b i r s \<and> True) (\<lambda>_. at w b i r) s"
    by (auto simp: load_qe_def wp_simps at_def members_wf_def split: option.split prod.split)
qed

end
