(* ===== verification/Td_Blob.thy ===== *)
theory Td_Blob
  imports Td_Safe
begin

text \<open>
  The commands of the TD quoting enclave as the library calls them, over a documented SDK: what each leaves in the blob,
  what the library knows of the blob and the caller's buffers in between (\<open>holding\<close>), and that the other methods keep it.
\<close>

section \<open>The commands of the enclave\<close>

definition blob_holds ::
  "(byte list \<Rightarrow> (byte list \<times> byte list) option) \<Rightarrow> nat \<Rightarrow> byte list \<Rightarrow> key_plaintext \<Rightarrow> key_ciphertext \<Rightarrow> bool" where
  "blob_holds contents a b p c \<longleftrightarrow> plaintext_wf a p \<and> ciphertext_wf a c \<and> kp_seal_blob_type p = seal_blob_type a
     \<and> kp_key_version p = KEY_BLOB_VERSION_0 \<and> contents b = Some (plaintext_bytes p, ciphertext_bytes c)"

definition sdk_ok :: "(byte list \<Rightarrow> (byte list \<times> byte list) option) \<Rightarrow> td_world \<Rightarrow> tdqe_sdk \<Rightarrow> bool" where
  "sdk_ok contents w sdk \<longleftrightarrow> sdk_documented contents sdk \<and> sizes_documented sdk \<and> (\<exists>cpu isv. runs_at cpu isv sdk)
     \<and> ts_sizeof_sealed_data sdk = tw_sizeof_sealed_data w"

lemma world_sdk: "world_wf contents w \<Longrightarrow> tw_ecall w c = (st, sdk) \<Longrightarrow> sdk_ok contents w sdk"
  unfolding world_wf_def sdk_ok_def by (metis snd_conv)

lemma sdk_size: "sdk_ok contents w sdk \<Longrightarrow> get_tdqe_blob_size_for_algorithm sdk a = td_blob_size w a"
  by (simp add: sdk_ok_def get_tdqe_blob_size_for_algorithm_def td_blob_size_def)

lemma size_le: "a \<in> supported \<Longrightarrow> td_blob_size w a \<le> td_blob_size w SGX_QL_ALG_MLDSA_87"
  by (auto simp: supported_def td_blob_size_def structure_sizes alg_defs)

lemma branch_holds:
  assumes "checked_key_id sdk (get_tdqe_blob_size_for_algorithm sdk a) pt n = Some i" "a \<in> supported"
  shows "length pt = plaintext_size a" "n = ciphertext_size a" "kp_seal_blob_type (plaintext_of a pt) = seal_blob_type a"
    "kp_key_version (plaintext_of a pt) = KEY_BLOB_VERSION_0" "i = kp_key_id (plaintext_of a pt)"
proof -
  obtain a' where a': "a' \<in> supported" "in_branch a' pt" "blob_branch sdk a' (get_tdqe_blob_size_for_algorithm sdk a) pt n = Some i"
    using assms(1) by (auto simp: checked_key_id_def Let_def supported_def split: if_splits)
  then have "a' = a" using blob_size_inj [OF assms(2), of a'] by (auto simp: blob_branch_def split: if_splits)
  with a' have b: "blob_branch sdk a (get_tdqe_blob_size_for_algorithm sdk a) pt n = Some i" "in_branch a pt" by simp_all
  then show "length pt = plaintext_size a" "n = ciphertext_size a"
    "kp_key_version (plaintext_of a pt) = KEY_BLOB_VERSION_0" "i = kp_key_id (plaintext_of a pt)"
    by (auto simp: blob_branch_def split: if_splits)
  show "kp_seal_blob_type (plaintext_of a pt) = seal_blob_type a"
    using b(2) by (cases pt) (simp_all add: in_branch_def plaintext_of_def plaintext_fields_def plaintext_size_def)
qed

lemma verify_holds:
  assumes "sdk_ok contents w sdk" "a \<in> supported" "length b = td_blob_size w a"
    "verify_blob sdk (Some b) (td_blob_size w a) True f1 m f2 = res" "bk_ret res = TDQE_SUCCESS"
  shows "\<exists>p c. blob_holds contents a b p c \<and> blob_holds contents a (bk_blob res) p c \<and> length (bk_blob res) = td_blob_size w a
    \<and> (f2 \<longrightarrow> bk_key_id res = Some (kp_key_id p)) \<and> (f1 \<longrightarrow> (\<exists>x. bk_report_body res = Some x \<and> length x = 384))"
proof -
  note d = assms(1) [unfolded sdk_ok_def]
  have "verify_blob_any_internal sdk (Some b) (td_blob_size w a) True f1 f2 m = res"
    using assms(4,5) by (auto simp: verify_blob_def Let_def split: if_splits)
  then obtain pt ct i rep where *: "ts_unseal sdk b = (0, pt, ct)" "checked_key_id sdk (td_blob_size w a) pt (length ct) = Some i"
    "ts_create_report sdk 0 None (replicate 64 0) = (0, rep)"
    "res = \<lparr>bk_ret = TDQE_SUCCESS, bk_blob = (if tcb_changed sdk rep b then take (td_blob_size w a) (snd (ts_seal sdk pt ct (td_blob_size w a))) else b),
       bk_is_resealed = Some (tcb_changed sdk rep b), bk_report_body = (if f1 then Some (report_body rep) else None),
       bk_key_id = (if f2 then Some i else None)\<rparr>"
    "tcb_changed sdk rep b \<longrightarrow> fst (ts_seal sdk pt ct (td_blob_size w a)) = 0"
    using verify_any_ok [OF _ assms(5)] by metis
  note br = branch_holds [OF *(2) [folded sdk_size [OF assms(1)]] assms(2)]
  have con: "contents b = Some (pt, ct)" using d *(1) unfolding sdk_documented_def by blast
  have h: "blob_holds contents a b' (plaintext_of a pt) (ciphertext_of a ct)" if "contents b' = Some (pt, ct)" for b'
    using that br plaintext_of_wf [OF br(1)] ciphertext_of_wf [of ct a] by (simp add: blob_holds_def)
  obtain sb s where s: "ts_seal sdk pt ct (td_blob_size w a) = (s, sb)" by (metis prod.collapse)
  have l: "length sb = td_blob_size w a" "contents sb = Some (pt, ct)" if "s = 0"
    using d s that unfolding sdk_documented_def by blast+
  have "contents (bk_blob res) = Some (pt, ct) \<and> length (bk_blob res) = td_blob_size w a"
    using *(4,5) s l con assms(3) by auto
  moreover have "length (report_body rep) = 384" using d *(3) unfolding runs_at_def report_body_def by fastforce
  ultimately show ?thesis
    using h con br(5) *(4) by (intro exI [of _ "plaintext_of a pt"] exI [of _ "ciphertext_of a ct"]) auto
qed

lemma gen_holds:
  assumes "sdk_ok contents w sdk" "Tdqe_Blob.gen_att_key sdk (Some b0) n a (Some t) (Some r0) (Some auth) asz = (TDQE_SUCCESS, b, rep)"
  shows "\<exists>p c. blob_holds contents a b p c \<and> length b = td_blob_size w a \<and> length rep = 432
    \<and> take 32 (report_report_data rep) = kp_key_id p"
proof -
  note d = assms(1) [unfolded sdk_ok_def]
  note calls = gen_att_key_calls [OF assms(2)]
  then obtain priv pub h where *: "derived_key sdk a priv pub" "ts_sha256 sdk (pub @ auth_data_of (Some auth)) = (0, h)"
      "ts_create_report sdk 0 (Some t) (h @ replicate 32 0) = (0, rep)"
      "ts_seal sdk (plaintext_bytes (new_plaintext a (Some auth) asz pub h)) (ciphertext_bytes (new_ciphertext a priv)) n = (0, b)"
    by blast
  have h: "length h = 32" using d *(2) documented_lengths(1) by blast
  note s = new_structures [OF derived_key_sizes(2) [OF *(1) _ calls(1)] h derived_key_sizes(1) [OF *(1) _ calls(1)]]
  have wf: "plaintext_wf a (new_plaintext a (Some auth) asz pub h)" "ciphertext_wf a (new_ciphertext a priv)" using s d by blast+
  have c: "contents b = Some (plaintext_bytes (new_plaintext a (Some auth) asz pub h), ciphertext_bytes (new_ciphertext a priv))"
    "length b = n" using d *(4) unfolding sdk_documented_def by blast+
  have r: "length rep = 432" "report_report_data rep = h @ replicate 32 0"
    using d *(3) h unfolding runs_at_def by fastforce+
  show ?thesis
    by (intro exI [of _ "new_plaintext a (Some auth) asz pub h"] exI [of _ "new_ciphertext a priv"])
      (use wf c r h calls(2) sdk_size [OF assms(1)] in \<open>simp add: blob_holds_def new_plaintext_def\<close>)
qed

lemma plaintext_bytes_inj:
  "plaintext_wf a p \<Longrightarrow> plaintext_wf a q \<Longrightarrow> plaintext_bytes p = plaintext_bytes q \<Longrightarrow> p = q"
  by (metis plaintext_of_bytes)

lemma ciphertext_bytes_inj:
  "ciphertext_wf a p \<Longrightarrow> ciphertext_wf a q \<Longrightarrow> ciphertext_bytes p = ciphertext_bytes q \<Longrightarrow> p = q"
  by (metis ciphertext_of_bytes)

text \<open>A certification changes what the caller certifies, keeps the key, and checks that the QE report is the key's.\<close>

lemma store_holds:
  assumes "sdk_ok contents w sdk" "a \<in> supported" "blob_holds contents a b p c" "plaintext_wf a i"
    "store_cert_data sdk (Some (plaintext_bytes i)) isize kt ppid psize (Some b) (td_blob_size w a) = (TDQE_SUCCESS, b')"
  shows "\<exists>rep. blob_holds contents a b' (certified rep i p) (with_ppid ppid psize c) \<and> length b' = td_blob_size w a
    \<and> kp_key_id p = take 32 (report_report_data (kp_qe_report i))"
proof -
  note d = assms(1) [unfolded sdk_ok_def]
  obtain cpu isv where run: "runs_at cpu isv sdk" using d by blast
  obtain a' p' c' rep where *: "a' \<in> supported" "td_blob_size w a = get_tdqe_blob_size_for_algorithm sdk a'"
    "let i' = plaintext_of a' (written (plaintext_size a') (plaintext_bytes i)) in
       contents b = Some (plaintext_bytes p', ciphertext_bytes c') \<and> plaintext_wf a' p' \<and> ciphertext_wf a' c'
       \<and> kp_key_id p' = take 32 (report_report_data (kp_qe_report i'))
       \<and> contents b' = Some (plaintext_bytes (certified rep i' p'), ciphertext_bytes (with_ppid ppid psize c'))
       \<and> length rep = sizeof_report \<and> plaintext_wf a' (certified rep i' p') \<and> ciphertext_wf a' (with_ppid ppid psize c')
       \<and> length b' = td_blob_size w a"
    using store_cert_ok [OF conjunct1 [OF d] run assms(5)] unfolding Let_def by blast
  have a: "a' = a" using *(1,2) blob_size_inj [OF *(1) assms(2), of sdk] sdk_size [OF assms(1)] by metis
  have i: "plaintext_of a (written (plaintext_size a) (plaintext_bytes i)) = i"
    using plaintext_of_bytes [OF assms(4)] length_plaintext_bytes [OF assms(4)] by simp
  note s = *(3) [unfolded a Let_def i]
  have "p' = p" "c' = c" using s assms(3) plaintext_bytes_inj ciphertext_bytes_inj unfolding blob_holds_def by (metis option.inject prod.inject)+
  with s assms(3) certified_wf(2,3) [OF _ assms(4), of p rep] show ?thesis
    by (intro exI [of _ rep]) (simp add: blob_holds_def certified_def)
qed

section \<open>The blob in memory\<close>

definition holding ::
  "(byte list \<Rightarrow> (byte list \<times> byte list) option) \<Rightarrow> td_world \<Rightarrow> nat \<Rightarrow> key_plaintext \<Rightarrow> key_ciphertext \<Rightarrow> byte list option
     \<Rightarrow> u16 \<Rightarrow> td_members \<Rightarrow> bool" where
  "holding contents w a p c i r s \<longleftrightarrow> at w (m_ecdsa_blob s) i r s \<and> blob_holds contents a (take (td_blob_size w a) (m_ecdsa_blob s)) p c"

lemma holding_wf: "holding contents w a p c i r s \<Longrightarrow> members_wf w s"
  by (simp add: holding_def at_def)

text \<open>Commands that keep the blob, used where the blob is known and where it is not.\<close>

lemma keep_holding:
  assumes "\<And>b i r. keeping w b i r m Q" "holding contents w a p c i r s"
    "\<And>x s. holding contents w a p c i r s \<Longrightarrow> Q x \<Longrightarrow> Q' x s" "\<And>e s. holding contents w a p c i r s \<Longrightarrow> E e s"
  shows "wp m Q' E s"
proof (rule wp_use [OF assms(1)])
  show "at w (m_ecdsa_blob s) i r s" using assms(2) by (simp add: holding_def)
  have h: "blob_holds contents a (take (td_blob_size w a) (m_ecdsa_blob s)) p c" using assms(2) by (simp add: holding_def)
  show "Q' x s'" if "at w (m_ecdsa_blob s) i r s' \<and> Q x" for x s'
    using that h by (intro assms(3)) (simp_all add: holding_def at_def)
  show "E e s'" if "at w (m_ecdsa_blob s) i r s'" for e s'
    using that h by (intro assms(4)) (simp add: holding_def at_def)
qed

lemma keep_wf:
  assumes "\<And>b i r. keeping w b i r m Q" "members_wf w s"
    "\<And>x s. members_wf w s \<Longrightarrow> Q x \<Longrightarrow> Q' x s" "\<And>e s. members_wf w s \<Longrightarrow> E e s"
  shows "wp m Q' E s"
  by (rule wp_use [OF assms(1)]) (use assms(2-4) in \<open>auto simp: at_def\<close>)

lemma wp_blob_call:
  "wp (tdqe_blob_call w c n f) Q E s = (case tw_ecall w c of (st, sdk) \<Rightarrow>
     if st \<noteq> 0 then E st s
     else let r = f sdk (take n (m_ecdsa_blob s)) in
       Q (fst r) (s\<lparr>m_ecdsa_blob := written n (snd r) @ drop n (m_ecdsa_blob s)\<rparr>))"
  by (simp add: tdqe_blob_call_def in_tdqe_def wp_simps Let_def split: prod.split)

lemma blob_buffer:
  assumes "members_wf w s" "a \<in> supported"
  shows "length (take (td_blob_size w a) (m_ecdsa_blob s)) = td_blob_size w a"
    "members_wf w (s\<lparr>m_ecdsa_blob := written (td_blob_size w a) x @ drop (td_blob_size w a) (m_ecdsa_blob s)\<rparr>)"
  using assms size_le [OF assms(2), of w] by (simp_all add: members_wf_def)

text \<open>What verification, generation and certification leave in memory.\<close>

lemma verify_triple:
  assumes "world_wf contents w" "a \<in> supported" "members_wf w s"
    "\<And>x s'. members_wf w s' \<Longrightarrow> bk_ret x \<noteq> TDQE_SUCCESS \<Longrightarrow> Q x s'"
    "\<And>x s' p c. bk_ret x = TDQE_SUCCESS \<Longrightarrow> holding contents w a p c (out_pub_key_id s') (m_raw_pce_isvsvn s') s'
       \<Longrightarrow> blob_holds contents a (take (td_blob_size w a) (m_ecdsa_blob s)) p c
       \<Longrightarrow> (f2 \<longrightarrow> bk_key_id x = Some (kp_key_id p)) \<Longrightarrow> (f1 \<longrightarrow> (\<exists>y. bk_report_body x = Some y \<and> length y = 384)) \<Longrightarrow> Q x s'"
    "\<And>e s. members_wf w s \<Longrightarrow> E e s"
  shows "wp (call_verify_blob w cl (td_blob_size w a) f1 f2) Q E s"
proof -
  obtain st sdk where c: "tw_ecall w cl = (st, sdk)" by fastforce
  let ?n = "td_blob_size w a"
  define b where "b = take ?n (m_ecdsa_blob s)"
  define x where "x = verify_blob sdk (Some b) ?n True f1 (if f2 then 32 else 0) f2"
  define s' where "s' = s\<lparr>m_ecdsa_blob := written ?n (bk_blob x) @ drop ?n (m_ecdsa_blob s)\<rparr>"
  have lb: "length b = ?n" unfolding b_def by (rule blob_buffer(1) [OF assms(3,2)])
  have wf: "members_wf w s'" unfolding s'_def by (rule blob_buffer(2) [OF assms(3,2)])
  have "Q x s'"
  proof (cases "bk_ret x = TDQE_SUCCESS")
    case True
    from verify_holds [OF world_sdk [OF assms(1) c] assms(2) lb x_def [symmetric] True]
    obtain p c where h: "blob_holds contents a (bk_blob x) p c" "length (bk_blob x) = ?n"
      "f2 \<longrightarrow> bk_key_id x = Some (kp_key_id p)" "f1 \<longrightarrow> (\<exists>y. bk_report_body x = Some y \<and> length y = 384)"
      "blob_holds contents a b p c" by blast
    then have "holding contents w a p c (out_pub_key_id s') (m_raw_pce_isvsvn s') s'"
      using wf by (simp add: holding_def at_def s'_def)
    from assms(5) [OF True this h(5) [unfolded b_def] h(3,4)] show ?thesis .
  qed (rule assms(4) [OF wf])
  then show ?thesis
    using assms(3,6) by (simp add: call_verify_blob_def wp_blob_call c Let_def b_def x_def s'_def)
qed

lemma gen_triple:
  assumes "world_wf contents w" "a \<in> supported" "members_wf w s"
    "\<And>ret rep s. members_wf w s \<Longrightarrow> (ret = TDQE_SUCCESS \<longrightarrow> (\<exists>p c. holding contents w a p c (out_pub_key_id s) (m_raw_pce_isvsvn s) s
        \<and> length rep = 432 \<and> take 32 (report_report_data rep) = kp_key_id p)) \<Longrightarrow> Q (ret, rep) s"
    "\<And>e s. members_wf w s \<Longrightarrow> E e s"
  shows "wp (call_gen_att_key w (td_blob_size w a) a target auth) Q E s"
proof -
  obtain st sdk where c: "tw_ecall w Call_gen_att_key = (st, sdk)" by fastforce
  let ?n = "td_blob_size w a"
  obtain ret b rep where g: "Tdqe_Blob.gen_att_key sdk (Some (take ?n (m_ecdsa_blob s))) ?n a (Some target)
      (Some (replicate 432 0)) (Some auth) (length auth) = (ret, b, rep)" by (metis prod_cases3)
  define s' where "s' = s\<lparr>m_ecdsa_blob := written ?n b @ drop ?n (m_ecdsa_blob s)\<rparr>"
  have wf: "members_wf w s'" unfolding s'_def by (rule blob_buffer(2) [OF assms(3,2)])
  have "Q (ret, rep) s'"
  proof (rule assms(4) [OF wf], rule impI)
    assume "ret = TDQE_SUCCESS"
    from gen_holds [OF world_sdk [OF assms(1) c] g [unfolded this]]
    obtain p c where "blob_holds contents a b p c" "length b = ?n" "length rep = 432"
      "take 32 (report_report_data rep) = kp_key_id p" by blast
    then show "\<exists>p c. holding contents w a p c (out_pub_key_id s') (m_raw_pce_isvsvn s') s'
        \<and> length rep = 432 \<and> take 32 (report_report_data rep) = kp_key_id p"
      using wf by (intro exI [of _ p] exI [of _ c]) (auto simp: holding_def at_def s'_def)
  qed
  then show ?thesis
    using assms(3,5) by (simp add: call_gen_att_key_def wp_blob_call c Let_def g s'_def)
qed

lemma store_triple:
  assumes "world_wf contents w" "a \<in> supported" "holding contents w a p c i r s" "plaintext_wf a inp"
    "\<And>ret s. members_wf w s \<Longrightarrow> (ret = TDQE_SUCCESS \<longrightarrow> (\<exists>rep. kp_key_id p = take 32 (report_report_data (kp_qe_report inp))
        \<and> holding contents w a (certified rep inp p) (with_ppid ppid psize c) i r s)) \<Longrightarrow> Q ret s"
    "\<And>e s. members_wf w s \<Longrightarrow> E e s"
  shows "wp (call_store_cert_data w (plaintext_bytes inp) isize kt ppid psize (td_blob_size w a)) Q E s"
proof -
  obtain st sdk where cl: "tw_ecall w Call_store_cert_data = (st, sdk)" by fastforce
  let ?n = "td_blob_size w a"
  define b where "b = take ?n (m_ecdsa_blob s)"
  obtain ret b' where g: "store_cert_data sdk (Some (plaintext_bytes inp)) isize kt ppid psize (Some b) ?n = (ret, b')" by fastforce
  define s' where "s' = s\<lparr>m_ecdsa_blob := written ?n b' @ drop ?n (m_ecdsa_blob s)\<rparr>"
  have h: "members_wf w s" "blob_holds contents a b p c" "out_pub_key_id s = i" "m_raw_pce_isvsvn s = r"
    using assms(3) by (simp_all add: holding_def at_def b_def)
  have wf: "members_wf w s'" unfolding s'_def by (rule blob_buffer(2) [OF h(1) assms(2)])
  have "Q ret s'"
  proof (rule assms(5) [OF wf], rule impI)
    assume "ret = TDQE_SUCCESS"
    from store_holds [OF world_sdk [OF assms(1) cl] assms(2) h(2) assms(4) g [unfolded this]]
    show "\<exists>rep. kp_key_id p = take 32 (report_report_data (kp_qe_report inp))
        \<and> holding contents w a (certified rep inp p) (with_ppid ppid psize c) i r s'"
      using wf h by (auto simp: holding_def at_def s'_def)
  qed
  then show ?thesis
    using h assms(6) by (simp add: call_store_cert_data_def wp_blob_call cl Let_def g [unfolded b_def] s'_def)
qed

lemma blob_holds_unique:
  "blob_holds contents a b p c \<Longrightarrow> blob_holds contents a b p' c' \<Longrightarrow> p' = p \<and> c' = c"
  using plaintext_bytes_inj ciphertext_bytes_inj unfolding blob_holds_def by (metis option.inject prod.inject)

text \<open>The view of a blob that the enclave has sealed is its plaintext.\<close>

lemma view_triple:
  assumes "world_wf contents w" "a \<in> supported" "holding contents w a p c i r s" "Q (Some p) s"
  shows "wp (get_tdqe_blob_plaintext_view w (td_blob_size w a)) Q E s"
proof -
  let ?b = "m_ecdsa_blob s"
  have h: "members_wf w s" "contents (take (td_blob_size w a) ?b) = Some (plaintext_bytes p, ciphertext_bytes c)"
    "plaintext_wf a p" "kp_seal_blob_type p = seal_blob_type a"
    using assms(3) by (simp_all add: holding_def at_def blob_holds_def)
  let ?off = "tw_sizeof_sealed_data w + tw_plain_text_offset w ?b"
  have "td_blob_size w a \<le> length ?b" using h(1) size_le [OF assms(2)] by (simp add: members_wf_def)
  then have b: "bread (plaintext_size a) ?off ?b = Some (plaintext_bytes p)"
    using assms(1) h(2) length_plaintext_bytes [OF h(3)] unfolding world_wf_def by metis
  have "1 \<le> plaintext_size a" by (simp add: plaintext_size_def plaintext_fields_def)
  with b have "bread 1 ?off ?b = Some (take 1 (plaintext_bytes p))" by (auto simp: bread_Some_iff)
  then have t: "bread 1 ?off ?b = Some [seal_blob_type a]"
    using h(4) by (simp add: plaintext_bytes_def plaintext_parts_def)
  have "td_blob_size w a = td_blob_size w SGX_QL_ALG_ECDSA_P256 \<or> td_blob_size w a = td_blob_size w SGX_QL_ALG_MLDSA_44
      \<or> td_blob_size w a = td_blob_size w SGX_QL_ALG_MLDSA_65 \<or> td_blob_size w a = td_blob_size w SGX_QL_ALG_MLDSA_87"
    using assms(2) by (auto simp: supported_def)
  then show ?thesis
    using b t assms(2,4) plaintext_of_bytes [OF h(3)]
    by (auto simp: get_tdqe_blob_plaintext_view_def wp_simps Let_def supported_def seal_blob_type_def alg_defs
        SGX_QL_SEAL_ECDSA_KEY_BLOB_def SGX_QL_SEAL_MLDSA_44_KEY_BLOB_def SGX_QL_SEAL_MLDSA_65_KEY_BLOB_def
        SGX_QL_SEAL_MLDSA_87_KEY_BLOB_def)
qed

end
