(* ===== verification/Td_Init.thy ===== *)
theory Td_Init
  imports Td_Blob
begin

text \<open>
  What init_quote leaves: whichever way it takes - the stored key kept, certified again or replaced, with the PCE or
  without it - the blob in memory holds a certified key whose id went to the caller (\<open>key_ready\<close>).
\<close>

section \<open>Certification\<close>

lemma ifI: "(b \<Longrightarrow> P s) \<Longrightarrow> (\<not> b \<Longrightarrow> P' s) \<Longrightarrow> (if b then P else P') s"
  by simp

lemma populate_wf:
  assumes "length cc = 16" "length rc = 16" "length rep = 432" "length qe = 16" "length t = 512"
  shows "plaintext_wf a (populate_plaintext a cc ci cid rc ri rid rep qe sch t kt)"
proof -
  have "map length (plaintext_parts (zero_plaintext a)) = plaintext_fields a"
    using zero_plaintext_simps(1) [of a] by (simp only: plaintext_wf_def)
  moreover have "plaintext_parts (populate_plaintext a cc ci cid rc ri rid rep qe sch t kt)
    = (plaintext_parts (zero_plaintext a)) [2 := cc, 4 := le16 ci @ le16 cid, 5 := le32 (word_of_nat kt), 6 := rc,
        7 := le16 ri @ le16 rid, 8 := [sch], 9 := t, 10 := rep, 18 := qe]"
    by (simp add: populate_plaintext_def plaintext_parts_def)
  ultimately show ?thesis
    using assms by (simp only: plaintext_wf_def map_update) (simp add: plaintext_fields_def)
qed

lemma algorithm_of_size: "a \<in> supported \<Longrightarrow> algorithm_of_plaintext_size (plaintext_size a) = Some a"
  by (auto simp: algorithm_of_plaintext_size_def supported_def structure_sizes alg_defs)

text \<open>What a certified blob holds: the key of before, under the certification asked for.\<close>

definition certified_as :: "key_plaintext \<Rightarrow> key_plaintext \<Rightarrow> key_plaintext \<Rightarrow> bool" where
  "certified_as inp p p' \<longleftrightarrow> kp_key_id p' = kp_key_id p \<and> kp_att_public_key p' = kp_att_public_key p
     \<and> kp_certification_key_type p' = kp_certification_key_type inp \<and> kp_pce_target_info p' = kp_pce_target_info inp
     \<and> kp_cert_pce_info p' = kp_cert_pce_info inp \<and> kp_raw_pce_info p' = kp_raw_pce_info inp
     \<and> kp_cert_cpu_svn p' = kp_cert_cpu_svn inp \<and> kp_qe_report p' = kp_qe_report inp
     \<and> take 32 (report_report_data (kp_qe_report p')) = kp_key_id p'"

lemma certify_triple:
  assumes "world_wf contents w" "a \<in> supported" "m_att_key_algorithm_id ctx = a" "holding contents w a p c i r s"
    "plaintext_wf a inp"
    "\<And>p' c' u s. holding contents w a p' c' i r s \<Longrightarrow> certified_as inp p p' \<Longrightarrow> Q u s"
    "\<And>e s. members_wf w s \<Longrightarrow> E e s"
  shows "wp (certify_key w ctx (plaintext_bytes inp) ppid psize kt) Q E s"
proof -
  have ps: "plaintext_size a \<noteq> 0" by (simp add: plaintext_size_def plaintext_fields_def)
  then have ne: "plaintext_bytes inp \<noteq> []" using length_plaintext_bytes [OF assms(5)] by auto
  note pl = length_plaintext_bytes [OF assms(5)] algorithm_of_size [OF assms(2)] plaintext_of_bytes [OF assms(5)]
  have inp: "plaintext_wf a (inp\<lparr>kp_qe_report_cert_key_sig := sig\<rparr>)" if "length sig = 64" for sig
    using assms(5) that by (simp add: plaintext_wf_def plaintext_parts_def plaintext_fields_def)
  have err: "E e s1" if "holding contents w a p c i r s1" for e s1 using holding_wf [OF that] by (rule assms(7))
  have save: "(if ret = TDQE_SUCCESS then wp (save_blob w ctx) Q E else E ret) s2"
    if "members_wf w s2" "ret = TDQE_SUCCESS \<longrightarrow> (\<exists>rep. kp_key_id p = take 32 (report_report_data (kp_qe_report
          (inp\<lparr>kp_qe_report_cert_key_sig := sig\<rparr>)))
        \<and> holding contents w a (certified rep (inp\<lparr>kp_qe_report_cert_key_sig := sig\<rparr>) p) (with_ppid ppid psize c) i r s2)"
    for ret sig s2
  proof (cases "ret = TDQE_SUCCESS")
    case True
    with that obtain rep where rep: "kp_key_id p = take 32 (report_report_data (kp_qe_report inp))"
      "holding contents w a (certified rep (inp\<lparr>kp_qe_report_cert_key_sig := sig\<rparr>) p) (with_ppid ppid psize c) i r s2" by auto
    have as: "certified_as inp p (certified rep (inp\<lparr>kp_qe_report_cert_key_sig := sig\<rparr>) p)"
      using rep(1) by (simp add: certified_as_def certified_def)
    have "wp (save_blob w ctx) Q E s2"
      by (rule keep_holding [OF save_keeps rep(2)]) (erule assms(6) [OF _ as], erule assms(7) [OF holding_wf])
    with True show ?thesis by simp
  qed (use that assms(7) in simp)
  have "wp (validate_legacy_certification_key_type ctx kt)
      (\<lambda>_. wp (legacy_pce_sign_report w ctx (pce_isv_svn (kp_cert_pce_info inp)) (kp_cert_cpu_svn inp) (kp_qe_report inp))
        (\<lambda>sig. wp (call_store_cert_data w (plaintext_bytes (inp\<lparr>kp_qe_report_cert_key_sig := sig\<rparr>)) (plaintext_size a) kt
            ppid psize (td_blob_size w a)) (\<lambda>ret. if ret = TDQE_SUCCESS then wp (save_blob w ctx) Q E else E ret) E) E) E s"
    by (rule keep_holding [OF validate_keeps assms(4)], rule keep_holding [OF sign_report_keeps], assumption,
        rule store_triple [OF assms(1,2)], assumption, erule inp, erule save, assumption, erule assms(7), erule err, erule err)
  then show ?thesis
    using holding_wf [OF assms(4)] assms(7) by (simp add: certify_key_def wp_simps ne pl Let_def assms(3) cong: if_cong)
qed

text \<open>The certification type and the PCE that the plaintext names.\<close>

definition bound_to :: "nat \<Rightarrow> byte list \<Rightarrow> key_plaintext \<Rightarrow> bool" where
  "bound_to kt target p \<longleftrightarrow> get32 0 (kp_certification_key_type p) = word_of_nat kt \<and> kp_pce_target_info p = target"

definition self_certified :: "key_plaintext \<Rightarrow> bool" where
  "self_certified p \<longleftrightarrow> take 32 (report_report_data (kp_qe_report p)) = kp_key_id p"

lemma certified_populated:
  assumes "certified_as (populate_plaintext a cc ci cid rc ri rid rep qe sch t kt) p p'"
  shows "kp_key_id p' = kp_key_id p" "bound_to kt t p'" "self_certified p'" "kp_cert_pce_info p' = le16 ci @ le16 cid"
  using assms by (auto simp: certified_as_def bound_to_def self_certified_def populate_plaintext_def)

lemma recertify_triple:
  assumes "world_wf contents w" "a \<in> supported" "m_att_key_algorithm_id ctx = a" "holding contents w a p c i r s"
    "length body = 384" "length target = 512" "length qe_id = 16" "length (fst tcb) = 16"
    "\<And>p' c' u s. holding contents w a p' c' i r s \<Longrightarrow> kp_key_id p' = kp_key_id p \<Longrightarrow> bound_to kt target p' \<Longrightarrow> Q u s"
    "\<And>e s. members_wf w s \<Longrightarrow> E e s"
  shows "wp (recertify w ctx kt target isv body p qe_id tcb) Q E s"
proof -
  have "length (kp_qe_report p) = 432"
    using assms(4) plaintext_wf_lengths by (auto simp: holding_def blob_holds_def)
  then have pop: "plaintext_wf a (populate_plaintext a (fst tcb) ci cid (report_cpu_svn body) ri rid (kp_qe_report p) qe_id sch target kt)"
    for ci cid ri rid sch using assms(5-8) by (intro populate_wf) (simp_all add: report_cpu_svn_def)
  show ?thesis
    unfolding recertify_def wp_simps Let_def assms(3)
    by (rule certify_triple [OF assms(1,2,3,4) pop]) (auto intro: assms(9,10) dest: certified_populated)
qed

lemma use_stored_triple:
  assumes "world_wf contents w" "a \<in> supported" "m_att_key_algorithm_id ctx = a" "holding contents w a p c i r s"
    "length body = 384" "length target = 512" "bound_to kt target p"
    "\<And>p' c' u s. holding contents w a p' c' (Some (kp_key_id p')) r s \<Longrightarrow> bound_to kt target p' \<Longrightarrow> Q u s"
    "\<And>e s. members_wf w s \<Longrightarrow> E e s"
  shows "wp (use_stored_key w ctx kt target isv has_id (body, kp_key_id p, p)) Q E s"
proof -
  have "length (kp_key_id p) = 32" using assms(4) plaintext_wf_lengths(8) by (auto simp: holding_def blob_holds_def)
  then have h: "holding contents w a p c (Some (kp_key_id p)) r (s\<lparr>out_pub_key_id := Some (kp_key_id p)\<rparr>)"
    using assms(4) by (simp add: holding_def at_def members_wf_def)
  have re: "wp (recertify w ctx kt target isv body p qe_id tcb) Q E s1"
    if "holding contents w a p c (Some (kp_key_id p)) r s1" "length qe_id = 16" "length (fst tcb) = 16" for s1 qe_id tcb
    by (rule recertify_triple [OF assms(1,2,3) that(1) assms(5,6) that(2,3)]) (erule assms(9) | rule assms(8), simp_all)+
  note keep = assms(8) [OF _ assms(7)] and err = holding_wf [THEN assms(9)]
  show ?thesis
    unfolding use_stored_key_def prod.case wp_simps sum.case
    by (rule ifI, rule keep_holding [OF ppid_keeps h], rule keep_holding [OF ensure_qe_id_keeps [OF assms(1)]], assumption,
        rule keep_holding [OF legacy_config_keeps [OF assms(1)]], assumption)
      (auto intro: keep err assms(4) intro!: re simp: assms(5) report_cpu_svn_def)
qed

lemma pce_id_of: "pce_id (le16 isv @ le16 i) = i" "pce_isv_svn (le16 isv @ le16 i) = isv"
  unfolding pce_id_def pce_isv_svn_def by (rule get16_le16, simp)+

lemma report_parts:
  assumes "length rep = 432"
  shows "length (report_mr_enclave rep) = 32" "length (report_body rep) = 384" "length (report_cpu_svn rep) = 16"
  using assms by (simp_all add: report_mr_enclave_def report_body_def report_cpu_svn_def)

lemma make_new_triple:
  assumes "world_wf contents w" "a \<in> supported" "m_att_key_algorithm_id ctx = a" "members_wf w s" "length target = 512"
    "\<And>p c u r s. holding contents w a p c (Some (kp_key_id p)) r s \<Longrightarrow> bound_to kt target p \<Longrightarrow> self_certified p
       \<Longrightarrow> (a = SGX_QL_ALG_ECDSA_P256 \<longrightarrow> pce_id (kp_cert_pce_info p) = 0) \<Longrightarrow> Q u s"
    "\<And>e s. members_wf w s \<Longrightarrow> E e s"
  shows "wp (make_new_key w ctx kt target isv has_id) Q E s"
proof -
  have cert: "wp (certify_key w ctx
      (plaintext_bytes (populate_plaintext a (fst tcb) (snd tcb) (if a = SGX_QL_ALG_ECDSA_P256 then 0 else pid) (report_cpu_svn rep)
         ri pid rep qe_id PCE_NIST_P256_ECDSA_SHA256 target kt)) ppid n kt)
      (\<lambda>_. if has_id then \<lambda>s. Q () (s\<lparr>out_pub_key_id := Some (take 32 (report_report_data rep))\<rparr>) else E TEE_ATT_ERROR_UNEXPECTED) E s1"
    if "holding contents w a p c i r s1" "length (fst tcb) = 16" "length rep = 432" "length qe_id = 16"
      "take 32 (report_report_data rep) = kp_key_id p" for tcb pid rep ri qe_id ppid n s1 p c i r
  proof (rule certify_triple [OF assms(1,2,3) that(1)])
    show "plaintext_wf a (populate_plaintext a (fst tcb) (snd tcb) (if a = SGX_QL_ALG_ECDSA_P256 then 0 else pid) (report_cpu_svn rep)
         ri pid rep qe_id PCE_NIST_P256_ECDSA_SHA256 target kt)"
      by (rule populate_wf) (use that assms(5) report_parts in auto)
    fix p' c' s2
    assume h: "holding contents w a p' c' i r s2"
      and as: "certified_as (populate_plaintext a (fst tcb) (snd tcb) (if a = SGX_QL_ALG_ECDSA_P256 then 0 else pid)
        (report_cpu_svn rep) ri pid rep qe_id PCE_NIST_P256_ECDSA_SHA256 target kt) p p'"
    note c = certified_populated [OF as]
    have "length (kp_key_id p') = 32" using h plaintext_wf_lengths(8) by (auto simp: holding_def blob_holds_def)
    then have "holding contents w a p' c' (Some (kp_key_id p')) r (s2\<lparr>out_pub_key_id := Some (kp_key_id p')\<rparr>)"
      using h by (simp add: holding_def at_def members_wf_def)
    moreover have "a = SGX_QL_ALG_ECDSA_P256 \<longrightarrow> pce_id (kp_cert_pce_info p') = 0" by (simp add: c(4) pce_id_of)
    ultimately have "Q () (s2\<lparr>out_pub_key_id := Some (kp_key_id p')\<rparr>)" using c(2,3) by (intro assms(6))
    then have "Q () (s2\<lparr>out_pub_key_id := Some (take 32 (report_report_data rep))\<rparr>)" by (simp only: c(1) that(5))
    then show "(if has_id then \<lambda>s. Q () (s\<lparr>out_pub_key_id := Some (take 32 (report_report_data rep))\<rparr>)
        else E TEE_ATT_ERROR_UNEXPECTED) s2"
      using assms(7) holding_wf [OF h] by simp
  qed (use assms(7) in simp)
  note err = holding_wf [THEN assms(7)]
  show ?thesis
    unfolding make_new_key_def Let_def prod.case wp_simps sum.case assms(3)
    apply (rule ifI, rule assms(7) [OF assms(4)], rule keep_wf [OF ppid_keeps assms(4)], rule gen_triple [OF assms(1,2)], assumption)
    apply (simp only: prod.case wp_simps sum.case)
    apply (rule ifI)
    apply (drule mp, assumption, elim exE conjE)
    apply (rule keep_holding [OF put_target_keeps], erule report_parts, assumption)
    apply (rule keep_holding [OF keep_body_keeps], erule report_parts, assumption)
    apply (rule keep_holding [OF ensure_qe_id_keeps [OF assms(1)]], assumption)
    apply (rule view_triple [OF assms(1,2)], assumption, rule ifI)
    apply (rule keep_holding [OF legacy_config_keeps [OF assms(1)]], assumption)
    apply (rule cert; (assumption | simp))
    apply (rule ifI, erule err, rule cert; (assumption | simp add: report_parts))
    apply (simp, (erule err | erule assms(7))+)
    done
qed

section \<open>init_quote\<close>

lemma read_blob_wf:
  assumes "a \<in> supported" "m_att_key_algorithm_id ctx = a" "members_wf w s" "\<And>x s. members_wf w s \<Longrightarrow> Q x s"
  shows "wp (read_blob w ctx) Q E s"
  unfolding read_blob_def read_persistent_data_def wp_simps assms(2)
  by (rule keep_wf [OF get_qpl_handle_keeps assms(3)])
    (use size_le [OF assms(1), of w] in \<open>auto simp: wp_simps Let_def members_wf_def split: option.split prod.split intro!: assms(4)\<close>)

lemma check_stored_triple:
  assumes "world_wf contents w" "a \<in> supported" "m_att_key_algorithm_id ctx = a" "members_wf w s"
    "\<And>s. members_wf w s \<Longrightarrow> Q None s"
    "\<And>p c i r s body. holding contents w a p c i r s \<Longrightarrow> bound_to kt target p \<Longrightarrow> length body = 384 \<Longrightarrow> \<not> refresh
       \<Longrightarrow> Q (Some (body, kp_key_id p, p)) s"
    "\<And>e s. members_wf w s \<Longrightarrow> E e s"
  shows "wp (check_stored_key w ctx kt refresh target) Q E s"
proof -
  note err = holding_wf [THEN assms(7)] and none = holding_wf [THEN assms(5)]
  show ?thesis
    unfolding check_stored_key_def Let_def wp_simps assms(3)
    apply (rule ifI, rule assms(5) [OF assms(4)], rule read_blob_wf [OF assms(2,3,4)], rule ifI, erule assms(5),
        rule verify_triple [OF assms(1,2)], assumption)
    apply (rule ifI, erule assms(5), erule notE, assumption)
    apply (rule ifI, erule notE, assumption)
    apply (simp only: simp_thms, elim exE conjE, simp only: obj_simps)
    apply (rule keep_holding [OF put_target_keeps], simp add: report_mr_enclave_def, assumption)
    apply (rule keep_holding [OF keep_body_keeps], assumption+)
    apply (rule ifI, rule keep_holding [OF save_keeps], assumption, erule none, erule err)
    apply (rule view_triple [OF assms(1,2)], assumption, simp add: wp_simps none)
    apply (auto intro!: assms(6) simp: key_outdated_def bound_to_def)
    apply (erule err assms(7))+
    done
qed

text \<open>A key whose id is returned: with the certification the caller asked for, and for a new key with its own report.\<close>

definition key_ready ::
  "(byte list \<Rightarrow> (byte list \<times> byte list) option) \<Rightarrow> td_world \<Rightarrow> tee_att_config_t \<Rightarrow> bool \<Rightarrow> td_members \<Rightarrow> bool" where
  "key_ready contents w ctx refresh s \<longleftrightarrow> members_wf w s
     \<and> (\<exists>p c. blob_holds contents (m_att_key_algorithm_id ctx) (take (td_blob_size w (m_att_key_algorithm_id ctx)) (m_ecdsa_blob s)) p c
        \<and> out_pub_key_id s = Some (kp_key_id p)
        \<and> (m_bootstrap_mode ctx = TEE_ATT_BOOTSTRAP_LEGACY_PCE \<longrightarrow> bound_to PPID_RSA3072_ENCRYPTED (fst (snd (tw_pce_get_target w))) p)
        \<and> (refresh \<longrightarrow> self_certified p \<and> get32 0 (kp_certification_key_type p) = word_of_nat PPID_RSA3072_ENCRYPTED
             \<and> (m_att_key_algorithm_id ctx = SGX_QL_ALG_ECDSA_P256 \<longrightarrow> pce_id (kp_cert_pce_info p) = 0)))"

lemma key_readyI:
  assumes "holding contents w a p c (Some (kp_key_id p)) r s" "m_att_key_algorithm_id ctx = a"
    "m_bootstrap_mode ctx = TEE_ATT_BOOTSTRAP_LEGACY_PCE \<Longrightarrow> bound_to PPID_RSA3072_ENCRYPTED (fst (snd (tw_pce_get_target w))) p"
    "refresh \<Longrightarrow> self_certified p \<and> get32 0 (kp_certification_key_type p) = word_of_nat PPID_RSA3072_ENCRYPTED
             \<and> (a = SGX_QL_ALG_ECDSA_P256 \<longrightarrow> pce_id (kp_cert_pce_info p) = 0)"
  shows "key_ready contents w ctx refresh s"
  using assms by (auto simp: key_ready_def holding_def at_def)

lemma pce_target_value:
  assumes "world_wf contents w" "members_wf w s"
    "\<And>s isv. members_wf w s \<Longrightarrow> uses_legacy_pce_bootstrap ctx \<Longrightarrow> Q (fst (snd (tw_pce_get_target w)), isv) s"
    "\<And>e s. members_wf w s \<Longrightarrow> E e s"
  shows "wp (legacy_get_pce_target_info w ctx) Q E s"
  using assms(2-4) by (auto simp: legacy_get_pce_target_info_def wp_simps split: prod.split)

lemma raw_pce_wf: "members_wf w s \<Longrightarrow> members_wf w (s\<lparr>m_raw_pce_isvsvn := x\<rparr>)"
  by (simp add: members_wf_def)

lemma ecdsa_init_triple:
  assumes "world_wf contents w" "a \<in> supported" "m_att_key_algorithm_id ctx = a" "members_wf w s"
    "\<And>s u. members_wf w s \<Longrightarrow> \<not> tw_mutex w Lock_blob \<Longrightarrow> Q u s"
    "\<And>s u. key_ready contents w ctx refresh s \<Longrightarrow> Q u s" "\<And>e s. members_wf w s \<Longrightarrow> E e s"
  shows "wp (ecdsa_init_quote w ctx kt has_target refresh has_id) Q E s"
proof -
  have t: "length (fst (snd (tw_pce_get_target w))) = 512" using assms(1) unfolding world_wf_def by blast
  show ?thesis
    unfolding ecdsa_init_quote_def wp_simps prod.case
    apply (rule keep_wf [OF validate_keeps assms(4)], elim conjE, hypsubst)
    apply (rule ifI, erule assms(7))
    apply (rule pce_target_value [OF assms(1)], assumption, simp only: prod.case wp_simps)
    apply (rule keep_wf [OF load_qe_keeps [OF assms(1)]], assumption)
    apply (rule keep_wf [where w = w, OF put_target_keeps], simp, simp add: raw_pce_wf)
    apply (rule ifI, erule assms(5), assumption)
    apply (rule check_stored_triple [OF assms(1,2,3), where target = "fst (snd (tw_pce_get_target w))"], assumption)
    apply (simp only: option.case)
    apply (rule make_new_triple [OF assms(1,2,3) _ t], assumption)
    apply (auto intro!: assms(6,7) key_readyI [OF _ assms(3)] simp: bound_to_def dest: holding_wf) [1]
    apply (simp add: assms(7))
    apply (simp only: option.case)
    apply (rule use_stored_triple [OF assms(1,2,3) _ _ t], assumption, assumption, assumption)
    apply (auto intro!: assms(6,7) key_readyI [OF _ assms(3)] dest: holding_wf) [1]
    apply (simp_all add: assms(7))
    done
qed

section \<open>init_quote without the PCE\<close>

lemma holding_id:
  assumes "holding contents w a p c i r s"
  shows "holding contents w a p c (Some (kp_key_id p)) r (s\<lparr>out_pub_key_id := Some (kp_key_id p)\<rparr>)"
proof -
  have "length (kp_key_id p) = 32" using assms plaintext_wf_lengths(8) by (auto simp: holding_def blob_holds_def)
  with assms show ?thesis by (simp add: holding_def at_def members_wf_def)
qed

lemma trusted_stored_triple:
  assumes "world_wf contents w" "a \<in> supported" "m_att_key_algorithm_id ctx = a" "members_wf w s"
    "m_bootstrap_mode ctx = TEE_ATT_BOOTSTRAP_TRUSTED_TDX_ONLY"
    "\<And>s. members_wf w s \<Longrightarrow> Q False s" "\<And>s. key_ready contents w ctx refresh s \<Longrightarrow> Q True s" "\<And>e s. members_wf w s \<Longrightarrow> E e s"
  shows "wp (trusted_stored_key w ctx refresh) Q E s"
proof -
  note id = holding_id
  have ready: "Q True s1" if "holding contents w a p c (Some (kp_key_id p)) r s1" "\<not> refresh" for p c r s1
    using assms(5) that by (intro assms(7) key_readyI [OF that(1) assms(3)]) simp_all
  note err = holding_wf [THEN assms(8)]
  show ?thesis
    unfolding trusted_stored_key_def Let_def wp_simps assms(3)
    apply (rule ifI, rule assms(6) [OF assms(4)], rule read_blob_wf [OF assms(2,3,4)], rule ifI, erule assms(6),
        rule verify_triple [OF assms(1,2)], assumption)
    apply (rule ifI, erule assms(6), erule notE, assumption)
    apply (rule ifI, erule notE, assumption)
    apply (simp only: simp_thms, elim exE conjE, simp only: obj_simps)
    apply (rule keep_holding [OF put_target_keeps], simp add: report_mr_enclave_def, assumption)
    apply (rule keep_holding [OF keep_body_keeps], assumption, erule id)
    apply (rule keep_holding [OF ensure_qe_id_keeps [OF assms(1)]], assumption)
    apply (rule ifI, rule keep_holding [OF save_keeps], assumption, erule ready, assumption, erule err, erule ready, assumption)
    apply (erule err assms(8))+
    done
qed

lemma local_target_length: "members_wf w s \<Longrightarrow> length (local_target_info s) = 512"
  by (simp add: local_target_info_def target_info_def members_wf_def)

lemma trusted_new_triple:
  assumes "world_wf contents w" "a \<in> supported" "m_att_key_algorithm_id ctx = a" "members_wf w s" "length target = 512"
    "m_bootstrap_mode ctx = TEE_ATT_BOOTSTRAP_TRUSTED_TDX_ONLY" "a \<noteq> SGX_QL_ALG_ECDSA_P256"
    "\<And>s u. key_ready contents w ctx refresh s \<Longrightarrow> Q u s" "\<And>e s. members_wf w s \<Longrightarrow> E e s"
  shows "wp (trusted_new_key w ctx PPID_RSA3072_ENCRYPTED target) Q E s"
proof -
  note err = holding_wf [THEN assms(9)]
  have save: "wp (save_blob w ctx) Q E (s2\<lparr>out_pub_key_id := Some (kp_key_id p2)\<rparr>)"
    if "holding contents w a (certified rep inp p) cx i r s1" "kp_key_id p = take 32 (report_report_data (kp_qe_report inp))"
      "kp_certification_key_type inp = le32 (word_of_nat PPID_RSA3072_ENCRYPTED)"
      "holding contents w a p2 c2 i' r' s2" "blob_holds contents a (take (td_blob_size w a) (m_ecdsa_blob s1)) p2 c2"
    for rep inp p cx i r s1 p2 c2 i' r' s2
  proof -
    have "p2 = certified rep inp p" using blob_holds_unique that(1,5) unfolding holding_def by blast
    then have "self_certified p2" "get32 0 (kp_certification_key_type p2) = word_of_nat PPID_RSA3072_ENCRYPTED"
      using that(2,3) by (simp_all add: self_certified_def certified_def)
    then have "Q u s3" if "holding contents w a p2 c2 (Some (kp_key_id p2)) r' s3" for u s3
      using assms(6,7) by (intro assms(8) key_readyI [OF that assms(3)]) simp_all
    then show ?thesis
      by (intro keep_holding [OF save_keeps holding_id [OF that(4)]]) (blast intro: err)+
  qed
  show ?thesis
    unfolding trusted_new_key_def Let_def prod.case wp_simps assms(3)
    apply (rule gen_triple [OF assms(1,2,4)])
     apply (simp only: prod.case wp_simps)
     apply (rule ifI, drule mp, assumption, elim exE conjE)
      apply (rule keep_holding [OF put_target_keeps], erule report_parts, assumption)
       apply (rule keep_holding [OF keep_body_keeps], erule report_parts, assumption)
        apply (rule keep_holding [OF ensure_qe_id_keeps [OF assms(1)]], assumption)
         apply (rule store_triple [OF assms(1,2)], assumption, rule populate_wf)
               apply (simp_all only: report_parts assms(5))
          apply (rule ifI, drule mp, assumption, elim exE conjE)
           apply (rule verify_triple [OF assms(1,2)], assumption)
             apply (rule ifI, erule notE, assumption, erule assms(9))
            apply (rule ifI)
             apply (simp only: simp_thms obj_simps, rule save, assumption, assumption, simp add: populate_plaintext_def, assumption, assumption)
            apply (erule notE, assumption)
           apply (erule err assms(9))+
    done
qed

lemma trusted_init_triple:
  assumes "world_wf contents w" "m_bootstrap_mode ctx = TEE_ATT_BOOTSTRAP_TRUSTED_TDX_ONLY" "members_wf w s"
    "\<And>s u. key_ready contents w ctx refresh s \<Longrightarrow> Q u s" "\<And>e s. members_wf w s \<Longrightarrow> E e s"
  shows "wp (trusted_tdx_only_init_quote w ctx kt has_target refresh has_id) Q E s"
proof (cases "is_mldsa (m_att_key_algorithm_id ctx)")
  case True
  then have a: "m_att_key_algorithm_id ctx \<in> supported" "m_att_key_algorithm_id ctx \<noteq> SGX_QL_ALG_ECDSA_P256"
    by (auto simp: supported_def alg_defs)
  have ready: "members_wf w s1" if "key_ready contents w ctx refresh s1" for s1 using that by (simp add: key_ready_def)
  show ?thesis
    unfolding trusted_tdx_only_init_quote_def wp_simps
    apply (rule ifI, rule assms(5) [OF assms(3)], rule ifI, rule assms(5) [OF assms(3)], rule ifI, rule assms(5) [OF assms(3)])
    apply (rule keep_wf [OF load_qe_keeps [OF assms(1)] assms(3)])
     apply (rule keep_wf [where w = w, OF put_target_keeps], simp, simp add: raw_pce_wf)
      apply (rule ifI, erule assms(5))
      apply (rule trusted_stored_triple [OF assms(1) a(1) refl _ assms(2)], assumption)
        apply (simp only: if_False not_not)
        apply (rule trusted_new_triple [where refresh = refresh, OF assms(1) a(1) refl _ local_target_length assms(2) a(2)],
          assumption, assumption)
        apply (simp_all add: assms(4,5) ready)
    done
qed (simp add: trusted_tdx_only_init_quote_def wp_simps assms(3,5))

text \<open>
  The whole command: the members keep their sizes, nothing is read outside them, and when the lock is taken a value
  means that the key in memory is ready.
\<close>

lemma init_triple:
  assumes "world_wf contents w"
  shows "triple (members_wf w) (init_quote w ctx kt has_target refresh has_id)
    (\<lambda>_ s. members_wf w s \<and> (tw_mutex w Lock_blob \<longrightarrow> key_ready contents w ctx refresh s)) (\<lambda>_. members_wf w)"
proof (rule tripleI)
  fix s assume wf: "members_wf w s"
  have ready: "members_wf w s1" if "key_ready contents w ctx refresh s1" for s1 using that by (simp add: key_ready_def)
  have e: "wp (ecdsa_init_quote w ctx kt has_target refresh has_id)
      (\<lambda>_ s. members_wf w s \<and> (tw_mutex w Lock_blob \<longrightarrow> key_ready contents w ctx refresh s)) (\<lambda>_. members_wf w) s"
    if "m_att_key_algorithm_id ctx \<in> supported"
    by (rule ecdsa_init_triple [OF assms that refl wf]) (simp_all add: ready)
  show "wp (init_quote w ctx kt has_target refresh has_id)
      (\<lambda>_ s. members_wf w s \<and> (tw_mutex w Lock_blob \<longrightarrow> key_ready contents w ctx refresh s)) (\<lambda>_. members_wf w) s"
  proof (cases "m_bootstrap_mode ctx")
    case TEE_ATT_BOOTSTRAP_LEGACY_PCE
    with e wf show ?thesis
      by (auto simp: init_quote_def legacy_init_quote_def mldsa_init_quote_def wp_simps supported_def)
  next
    case TEE_ATT_BOOTSTRAP_TRUSTED_TDX_ONLY
    show ?thesis
      unfolding init_quote_def TEE_ATT_BOOTSTRAP_TRUSTED_TDX_ONLY tee_att_bootstrap_mode_t.case
      by (rule trusted_init_triple [OF assms TEE_ATT_BOOTSTRAP_TRUSTED_TDX_ONLY wf]) (simp_all add: ready)
  qed
qed

end
