(* ===== verification/Td_Attest.thy ===== *)
theory Td_Attest
  imports Td_Init
begin

text \<open>
  Sizes, quotes and platform information of the TD quote library over a documented platform: what stays as it is, what
  the quote in the caller's buffer attests, and which certification data it carries.
\<close>

section \<open>Commands before the quote\<close>

lemma blob_for_quote_wf:
  assumes "m_att_key_algorithm_id ctx \<in> supported" "members_wf w s" "\<And>s. members_wf w s \<Longrightarrow> Q () s" "\<And>e s. members_wf w s \<Longrightarrow> E e s"
  shows "wp (blob_for_quote w ctx) Q E s"
  unfolding blob_for_quote_def wp_simps
  by (rule read_blob_wf [OF assms(1) refl assms(2)]) (use assms(3,4) in simp)

lemma view_for_quote_triple:
  assumes "world_wf contents w" "a \<in> supported" "m_att_key_algorithm_id ctx = a" "holding contents w a p c i r s"
    "Q p s" "\<And>e. E e s"
  shows "wp (view_for_quote w ctx) Q E s"
  unfolding view_for_quote_def wp_simps assms(3)
  by (rule view_triple [OF assms(1,2,4)]) (use assms(5,6) in \<open>simp add: wp_simps\<close>)

lemma ecdsa_query_keeps [keeps]: "keeping w b i r (ecdsa_query p) (\<lambda>_. True)"
  by (rule tripleI) (simp add: ecdsa_query_def wp_simps)

lemma mldsa_query_keeps [keeps]:
  assumes "world_wf contents w"
  shows "keeping w b i r (mldsa_query w ctx p) (\<lambda>_. True)"
proof (rule tripleI)
  fix s assume s: "at w b i r s"
  have ask: "wp (legacy_get_pce_target_info w ctx) (\<lambda>x. wp (getencryptedppid w (fst x)) Q E) E s"
    if "\<And>s y. at w b i r s \<Longrightarrow> length y = 384 \<Longrightarrow> Q y s" "\<And>e s. at w b i r s \<Longrightarrow> E e s" for Q E
    by (rule wp_use [OF pce_target_keeps [OF assms] s], elim conjE, rule wp_use [OF ppid_keeps], assumption)
      (use that in auto)
  have eta: "(\<lambda>(t, v). f t) = (\<lambda>x. f (fst x))" for f :: "byte list \<Rightarrow> 'z" by auto
  show "wp (mldsa_query w ctx p) (\<lambda>x s. at w b i r s \<and> True) (\<lambda>_. at w b i r) s"
  proof (cases "uses_legacy_pce_bootstrap ctx")
    case True
    then show ?thesis
      unfolding mldsa_query_def
      by (simp only: if_True wp_simps Let_def eta, intro ask) (simp_all add: wp_simps)
  next
    case False
    with s show ?thesis by (simp add: mldsa_query_def wp_simps Let_def)
  qed
qed

section \<open>The certification data of the quote\<close>

text \<open>What a quote carries: the chain of the provider for the TCB of the blob, or what the blob holds itself.\<close>

definition platform_chain :: "td_world \<Rightarrow> key_plaintext \<Rightarrow> byte list \<Rightarrow> bool" where
  "platform_chain w p d \<longleftrightarrow> (\<exists>f q cfg data. tw_qpl_get_quote_config w = Some f \<and> f 1 q = (SGX_QL_SUCCESS, Some cfg)
     \<and> qc_cert_data cfg = Some data \<and> qc_cert_cpu_svn cfg = kp_cert_cpu_svn p
     \<and> qc_cert_pce_isv_svn cfg = pce_isv_svn (kp_cert_pce_info p)
     \<and> d = le16 PCK_CERT_CHAIN @ le32 (word_of_nat (qc_cert_data_size cfg)) @ take (qc_cert_data_size cfg) data)"

lemma second_answer:
  "keeping w b i r (get_platform_quote_cert_data w ctx 1 q (Some n)) (\<lambda>c. same_tcb c p \<longrightarrow> platform_chain w p (cert_data_bytes c))"
proof (rule tripleI)
  fix s assume s: "at w b i r s"
  have "platform_chain w p (cert_data_bytes c)"
    if "same_tcb c p" "tw_qpl_get_quote_config w = Some f" "f 1 q = (SGX_QL_SUCCESS, Some cfg)" "qc_cert_data cfg = Some data"
      "c = \<lparr>pl_cpu_svn = qc_cert_cpu_svn cfg, pl_pce_isv_svn = qc_cert_pce_isv_svn cfg, pl_size = qc_cert_data_size cfg,
         pl_data = take (qc_cert_data_size cfg) data\<rparr>" for c f cfg data
    using that unfolding platform_chain_def same_tcb_def cert_data_bytes_def by fastforce
  with s show "wp (get_platform_quote_cert_data w ctx 1 q (Some n))
      (\<lambda>c s. at w b i r s \<and> (same_tcb c p \<longrightarrow> platform_chain w p (cert_data_bytes c))) (\<lambda>_. at w b i r) s"
    unfolding get_platform_quote_cert_data_def
    by (auto simp: wp_simps Let_def split: option.split prod.split intro!: wp_use [OF get_qpl_handle_keeps])
qed

lemma ecdsa_cert_data_triple:
  assumes "world_wf contents w" "holding contents w a p' c' i r s"
    "\<And>d s. holding contents w a p' c' i r s \<Longrightarrow> d = None \<or> platform_chain w p (obj d) \<Longrightarrow> Q d s"
    "\<And>e s. members_wf w s \<Longrightarrow> E e s"
  shows "wp (ecdsa_cert_data w ctx p qsize) Q E s"
proof -
  note err = holding_wf [THEN assms(4)] and none = assms(3) [OF _ disjI1 [OF refl]]
  show ?thesis
    unfolding ecdsa_cert_data_def wp_simps
    apply (rule keep_holding [OF ecdsa_query_keeps assms(2)])
     apply (rule keep_holding [OF config_keeps [OF assms(1)]], assumption)
      apply (simp only: sum.case wp_simps)
      apply (rule ifI, erule err, rule ifI, erule err)
      apply (rule keep_holding [OF second_answer [where p = p]], assumption)
       apply (rule ifI, erule err, rule ifI, erule err)
       apply (rule assms(3), assumption, simp)
      apply (erule err)
     apply (simp only: sum.case wp_simps, rule ifI, erule err, erule none)
    apply (erule err)
    done
qed

text \<open>For ML-DSA the full DCAP path leaves only the provider's chain.\<close>

lemma mldsa_cert_data_triple:
  assumes "world_wf contents w" "holding contents w a p' c' i r s"
    "\<And>d s. holding contents w a p' c' i r s \<Longrightarrow> d = None \<or> platform_chain w p (obj d)
       \<Longrightarrow> mldsa_require_full_dcap_path w \<longrightarrow> platform_chain w p (obj d) \<and> d \<noteq> None \<Longrightarrow> Q d s"
    "\<And>e s. members_wf w s \<Longrightarrow> E e s"
  shows "wp (mldsa_cert_data w ctx p qsize) Q E s"
proof -
  note err = holding_wf [THEN assms(4)]
  have none: "(if mldsa_require_full_dcap_path w then E e else Q None) s1" if "holding contents w a p' c' i r s1" for e s1
    using err [OF that] assms(3) [OF that disjI1 [OF refl]] by simp
  show ?thesis
    unfolding mldsa_cert_data_def wp_simps
    apply (rule keep_holding [OF mldsa_query_keeps [OF assms(1)] assms(2)])
     apply (rule keep_holding [OF config_keeps [OF assms(1)]], assumption)
      apply (simp only: sum.case wp_simps)
      apply (rule ifI, erule none, rule ifI, erule err)
      apply (rule keep_holding [OF second_answer [where p = p]], assumption)
       apply (rule ifI, erule none, rule ifI, erule err)
       apply (rule assms(3), assumption, simp, simp)
      apply (erule err)
     apply (simp only: sum.case wp_simps)
     apply (rule ifI, erule err, rule ifI, erule err, simp add: assms(3))
    apply (erule err)
    done
qed

section \<open>The quote\<close>

text \<open>
  The caller's buffer starts with a quote over the TD report, made and checked by the enclave with the key of the blob,
  and the platform accepted the report.
\<close>

definition attested ::
  "td_world \<Rightarrow> nat \<Rightarrow> key_plaintext \<Rightarrow> key_ciphertext \<Rightarrow> sgx_report2 \<Rightarrow> nat \<Rightarrow> byte list option \<Rightarrow> td_members \<Rightarrow> bool" where
  "attested w a p c report qsize cert s \<longleftrightarrow> (\<exists>sdk v sig. tw_ecall w Call_gen_quote = (0, sdk)
     \<and> ts_verify_report2 sdk (r2_mac report) = 0 \<and> determine_quote_version report = Inr v
     \<and> ts_sha384 sdk (r2_tee_tcb_info report) = (0, rm_tee_tcb_info_hash (r2_mac report))
     \<and> ts_sha384 sdk (r2_tee_info report) = (0, rm_tee_info_hash (r2_mac report))
     \<and> signature_checked sdk a (kc_private_key c) (kp_att_public_key p) (quote_front v a report (kp_qe_id p)) sig
     \<and> (let quote = signed_quote (quote_front v a report (kp_qe_id p)) sig p c cert in
          take (length quote) (out_quote s) = quote \<and> length quote \<le> qsize))"

lemma verify_data_length:
  assumes "sdk_documented contents sdk" "verify_blob_data_any_internal sdk (Some b) n a = (TDQE_SUCCESS, b', rs, Some d)"
  shows "contents b' = contents b \<and> (length b' = n \<or> b' = b)"
proof -
  obtain p c where d: "d = (p, c)" by fastforce
  have "rs \<noteq> None" using assms(2) by (auto simp: verify_blob_data_any_internal_def Let_def split: prod.splits if_splits)
  then show ?thesis using verify_data_outcome(3) [OF assms(1) assms(2) [unfolded d] refl] by (cases rs) auto
qed

lemma call_gen_quote_triple:
  assumes "world_wf contents w" "a \<in> supported" "m_att_key_algorithm_id ctx = a" "holding contents w a p c i r s"
    "report_wf (tw_read_report2 w rep)"
    "\<And>u s. holding contents w a p c i r s
       \<Longrightarrow> (unat (kp_authentication_data_size p) \<le> 32 \<longrightarrow> attested w a p c (tw_read_report2 w rep) qsize cert s) \<Longrightarrow> Q u s"
    "\<And>e s. members_wf w s \<Longrightarrow> E e s"
  shows "wp (call_gen_quote w ctx rep qsize cert) Q E s"
proof -
  obtain st sdk where c: "tw_ecall w Call_gen_quote = (st, sdk)" by fastforce
  note sdk = world_sdk [OF assms(1) c]
  note d = sdk [unfolded sdk_ok_def]
  let ?n = "td_blob_size w a" and ?buf = "out_quote s"
  have h: "members_wf w s" "blob_holds contents a (take ?n (m_ecdsa_blob s)) p c"
    using assms(4) by (simp_all add: holding_def at_def)
  have key: "blob_key contents a (take ?n (m_ecdsa_blob s)) = Some (key_of p c)"
    using h(2) length_plaintext_bytes [of a p] length_ciphertext_bytes [of a c] plaintext_of_bytes [of a p] ciphertext_of_bytes [of a c]
    by (simp add: blob_holds_def blob_key_def)
  define res where "res = gen_quote sdk (Some (take ?n (m_ecdsa_blob s))) ?n a (Some (tw_read_report2 w rep)) None None None
    (Some (take qsize ?buf)) qsize cert (length (obj cert))"
  define s' where "s' = s\<lparr>m_ecdsa_blob := written ?n (qr_blob res) @ drop ?n (m_ecdsa_blob s),
    out_quote := written qsize (qr_quote res) @ drop qsize ?buf\<rparr>"
  have wf: "members_wf w s'" using blob_buffer(2) [OF h(1) assms(2)] by (simp add: s'_def members_wf_def)
  have att: "attested w a p c (tw_read_report2 w rep) qsize cert s'"
    if ok: "qr_ret res = TDQE_SUCCESS" and auth: "unat (kp_authentication_data_size p) \<le> 32" and st: "st = 0"
  proof -
    have "unat (ak_auth_size k) \<le> 32" if "blob_key contents a (take ?n (m_ecdsa_blob s)) = Some k" for k
      using that key auth by (auto simp: key_of_def)
    from gen_quote_ok [OF conjunct1 [OF d] _ assms(5) this _ res_def [symmetric] ok] d
    obtain v p1 c1 sig where q: "determine_quote_version (tw_read_report2 w rep) = Inr v"
        "check_td_report sdk (tw_read_report2 w rep) = TDQE_SUCCESS" "plaintext_wf a p1" "ciphertext_wf a c1"
        "contents (take ?n (m_ecdsa_blob s)) = Some (plaintext_bytes p1, ciphertext_bytes c1)"
        "signature_checked sdk a (kc_private_key c1) (kp_att_public_key p1)
           (quote_front v a (tw_read_report2 w rep) (kp_qe_id p1)) sig"
        "let quote = signed_quote (quote_front v a (tw_read_report2 w rep) (kp_qe_id p1)) sig p1 c1 cert in
           take (length quote) (qr_quote res) = quote \<and> length quote \<le> qsize"
      unfolding Let_def by blast
    have "p1 = p" "c1 = c"
      using q(3-5) h(2) plaintext_bytes_inj ciphertext_bytes_inj by (fastforce simp: blob_holds_def)+
    moreover have "take (length q) (written qsize x @ y) = q" if "take (length q) x = q" "length q \<le> qsize" for q x y
    proof -
      have "length q \<le> length x" using that(1) by (metis length_take min.cobounded2 nat_le_linear take_all)
      with that show ?thesis by (simp add: written_def min_absorb1)
    qed
    ultimately show ?thesis
      using q(1,6,7) check_td_report_ok [OF q(2)] c st unfolding attested_def Let_def s'_def
      by (intro exI [of _ sdk] exI [of _ v] exI [of _ sig]) simp
  qed
  have "holding contents w a p c i r s'" if ok: "qr_ret res = TDQE_SUCCESS"
  proof -
    obtain blob rs d where v: "verify_blob_data_any_internal sdk (Some (take ?n (m_ecdsa_blob s))) ?n a = (TDQE_SUCCESS, blob, rs, Some d)"
      "qr_blob res = blob" using gen_quote_calls [OF res_def [symmetric] ok] by blast
    have "contents blob = contents (take ?n (m_ecdsa_blob s)) \<and> length blob = ?n"
      using verify_data_length [OF conjunct1 [OF d] v(1)] blob_buffer(1) [OF h(1) assms(2)] by blast
    then have "blob_holds contents a (take ?n (m_ecdsa_blob s')) p c"
      using h(2) v(2) by (simp add: s'_def blob_holds_def)
    then show ?thesis using wf assms(4) by (simp add: holding_def at_def s'_def)
  qed
  then show ?thesis
    using assms(6) [of s'] att assms(7) h(1) wf
    by (auto simp: call_gen_quote_def Let_def wp_simps wp_blob_call c assms(3) res_def s'_def)
qed


section \<open>get_quote\<close>

lemma bothI: "P \<Longrightarrow> P' \<Longrightarrow> if b then P else P'"
  by simp

text \<open>What get_quote leaves with success: the blob in memory, the certification data chosen, and the quote.\<close>

definition quote_made ::
  "(byte list \<Rightarrow> (byte list \<times> byte list) option) \<Rightarrow> td_world \<Rightarrow> tee_att_config_t \<Rightarrow> sgx_report2 \<Rightarrow> nat \<Rightarrow> td_members \<Rightarrow> bool" where
  "quote_made contents w ctx report qsize s \<longleftrightarrow> (\<exists>p c cert.
     blob_holds contents (m_att_key_algorithm_id ctx) (take (td_blob_size w (m_att_key_algorithm_id ctx)) (m_ecdsa_blob s)) p c
     \<and> (cert = None \<or> platform_chain w p (obj cert))
     \<and> (mldsa_require_full_dcap_path w \<and> m_att_key_algorithm_id ctx \<noteq> SGX_QL_ALG_ECDSA_P256 \<longrightarrow> cert \<noteq> None)
     \<and> (unat (kp_authentication_data_size p) \<le> 32 \<longrightarrow> attested w (m_att_key_algorithm_id ctx) p c report qsize cert s))"

lemma ecdsa_get_quote_triple:
  assumes "world_wf contents w" "a \<in> supported" "m_att_key_algorithm_id ctx = a" "members_wf w s"
    "report_wf (tw_read_report2 w (obj rep))" "a = SGX_QL_ALG_ECDSA_P256"
    "\<And>s u. members_wf w s \<Longrightarrow> \<not> tw_mutex w Lock_blob \<Longrightarrow> Q u s"
    "\<And>s u. members_wf w s \<Longrightarrow> quote_made contents w ctx (tw_read_report2 w (obj rep)) qsize s \<Longrightarrow> Q u s" "\<And>e s. members_wf w s \<Longrightarrow> E e s"
  shows "wp (ecdsa_get_quote w ctx rep has_quote qsize) Q E s"
proof -
  note err = holding_wf [THEN assms(9)]
  have made: "Q u s1" if "holding contents w a p c i r s1" "d = None \<or> platform_chain w p (obj d)"
    "unat (kp_authentication_data_size p) \<le> 32 \<longrightarrow> attested w a p c (tw_read_report2 w (obj rep)) qsize d s1" for u s1 p c i r d
    using that assms(6) by (intro assms(8) holding_wf [OF that(1)]) (auto simp: quote_made_def assms(3) holding_def)
  show ?thesis
    unfolding ecdsa_get_quote_def wp_simps Let_def assms(3)
    apply (rule ifI, rule assms(9) [OF assms(4)])
    apply (rule keep_wf [OF load_qe_keeps [OF assms(1)] assms(4)])
     apply (rule ifI, erule assms(7), assumption)
     apply (rule blob_for_quote_wf [OF _ ], simp only: assms(2,3), assumption)
      apply (rule verify_triple [OF assms(1,2)], assumption)
        apply (rule ifI, simp add: assms(9), erule notE, assumption)
       apply (rule ifI, erule notE, assumption)
       apply (rule ifI)
        apply (rule keep_holding [OF save_keeps], assumption, simp add: err assms(9), simp add: err)
       apply (rule view_for_quote_triple [OF assms(1,2,3)], assumption)
        apply (rule ecdsa_cert_data_triple [OF assms(1)], assumption)
         apply (rule call_gen_quote_triple [OF assms(1,2,3) _ assms(5)], assumption)
          apply (rule bothI, rule made, assumption, assumption, assumption)
          apply (erule err assms(9))+
    done
qed

lemma mldsa_get_quote_triple:
  assumes "world_wf contents w" "a \<in> supported" "m_att_key_algorithm_id ctx = a" "members_wf w s"
    "report_wf (tw_read_report2 w (obj rep))"
    "\<And>s u. members_wf w s \<Longrightarrow> quote_made contents w ctx (tw_read_report2 w (obj rep)) qsize s \<Longrightarrow> Q u s" "\<And>e s. members_wf w s \<Longrightarrow> E e s"
  shows "wp (mldsa_get_quote w ctx rep has_quote qsize) Q E s"
proof -
  note err = holding_wf [THEN assms(7)]
  have made: "Q u s1" if "holding contents w a p c i r s1" "d = None \<or> platform_chain w p (obj d)"
    "mldsa_require_full_dcap_path w \<longrightarrow> platform_chain w p (obj d) \<and> d \<noteq> None"
    "unat (kp_authentication_data_size p) \<le> 32 \<longrightarrow> attested w a p c (tw_read_report2 w (obj rep)) qsize d s1" for u s1 p c i r d
    using that by (intro assms(6) holding_wf [OF that(1)]) (auto simp: quote_made_def assms(3) holding_def)
  have go: "wp (view_for_quote w ctx) (\<lambda>p. wp (mldsa_cert_data w ctx p qsize) (\<lambda>cert. wp (call_gen_quote w ctx (obj rep) qsize cert)
      (\<lambda>u. if \<not> mldsa_require_full_dcap_path w then (\<lambda>s. if tw_mutex w Unlock_blob then Q () s else E TEE_ATT_ERROR_UNEXPECTED s)
        else (\<lambda>s. wp (case td_inner_cert_key_type (out_quote s) qsize a of None \<Rightarrow> stop TEE_ATT_ERROR_UNEXPECTED
           | Some t \<Rightarrow> require (t = PCK_CERT_CHAIN) TEE_ATT_ATT_KEY_NOT_INITIALIZED)
           (\<lambda>x s. if tw_mutex w Unlock_blob then Q x s else E TEE_ATT_ERROR_UNEXPECTED s)
           (\<lambda>e s. E (if tw_mutex w Unlock_blob then e else TEE_ATT_ERROR_UNEXPECTED) s) s))
      (\<lambda>e s. E (if tw_mutex w Unlock_blob then e else TEE_ATT_ERROR_UNEXPECTED) s))
      (\<lambda>e s. E (if tw_mutex w Unlock_blob then e else TEE_ATT_ERROR_UNEXPECTED) s))
      (\<lambda>e s. E (if tw_mutex w Unlock_blob then e else TEE_ATT_ERROR_UNEXPECTED) s) s1"
    if h: "holding contents w a p c i r s1" for p c i r s1
    apply (rule view_for_quote_triple [OF assms(1,2,3) h])
     apply (rule mldsa_cert_data_triple [OF assms(1) h])
      apply (rule call_gen_quote_triple [OF assms(1,2,3) _ assms(5)], assumption)
       apply (rule ifI)
        apply (rule bothI, rule made, assumption, assumption, assumption, assumption, erule err)
       apply (auto simp: wp_simps intro: made err split: option.split) [1]
      apply (erule err assms(7))+
    apply (rule err [OF h])
    done
  show ?thesis
    unfolding mldsa_get_quote_def wp_simps Let_def assms(3)
    apply (rule ifI, rule assms(7) [OF assms(4)])
    apply (rule keep_wf [OF load_qe_keeps [OF assms(1)] assms(4)])
     apply (rule ifI, erule assms(7))
     apply (rule blob_for_quote_wf [OF _ ], simp only: assms(2,3), assumption)
      apply (rule verify_triple [OF assms(1,2)], assumption)
        apply (rule ifI, simp add: assms(7), erule notE, assumption)
       apply (rule ifI, erule notE, assumption)
       apply (rule ifI)
        apply (rule keep_holding [OF save_keeps], assumption, erule go, erule err)
       apply (erule go)
      apply (erule err assms(7))+
    done
qed


lemma get_quote_triple:
  assumes "world_wf contents w" "report_wf (tw_read_report2 w (obj rep))"
  shows "triple (members_wf w) (td_get_quote w ctx rep has_quote qsize)
    (\<lambda>_ s. members_wf w s \<and> (tw_mutex w Lock_blob \<longrightarrow> quote_made contents w ctx (tw_read_report2 w (obj rep)) qsize s))
    (\<lambda>_. members_wf w)"
proof (rule tripleI)
  fix s assume s: "members_wf w s"
  let ?Q = "\<lambda>_ s. members_wf w s \<and> (tw_mutex w Lock_blob \<longrightarrow> quote_made contents w ctx (tw_read_report2 w (obj rep)) qsize s)"
  have "wp (ecdsa_get_quote w ctx rep has_quote qsize) ?Q (\<lambda>_. members_wf w) s" if "m_att_key_algorithm_id ctx = SGX_QL_ALG_ECDSA_P256"
    by (rule ecdsa_get_quote_triple [OF assms(1) _ that s assms(2) refl]) (simp_all add: supported_def)
  moreover have "wp (mldsa_get_quote w ctx rep has_quote qsize) ?Q (\<lambda>_. members_wf w) s" if "is_mldsa (m_att_key_algorithm_id ctx)"
    by (rule mldsa_get_quote_triple [OF assms(1) _ refl s assms(2)]) (use that in \<open>auto simp: supported_def\<close>)
  ultimately show "wp (td_get_quote w ctx rep has_quote qsize) ?Q (\<lambda>_. members_wf w) s"
    using s by (simp add: td_get_quote_def wp_simps)
qed

section \<open>get_quote_size\<close>

text \<open>
  A size that the methods tell: with the data of the blob, or with the chain of the platform for the TCB of the blob.
\<close>

definition size_told :: "td_world \<Rightarrow> nat \<Rightarrow> nat \<Rightarrow> bool" where
  "size_told w a n \<longleftrightarrow> (\<exists>m. n = quote_size_with (get_quote_sig_data_struct_size a) m
     \<and> (m = sizeof_encrypted_cert_info \<or> cert_data_size_reasonable m))"

lemma put_size_wf: "members_wf w (s\<lparr>out_quote_size := n\<rparr>) = members_wf w s"
  by (simp add: members_wf_def)

lemma ecdsa_size_triple:
  assumes "world_wf contents w" "m_att_key_algorithm_id ctx = SGX_QL_ALG_ECDSA_P256" "members_wf w s"
    "\<And>s u. members_wf w s \<Longrightarrow> \<not> tw_mutex w Lock_blob \<Longrightarrow> Q u s"
    "\<And>s u n. members_wf w s \<Longrightarrow> out_quote_size s = Some n \<Longrightarrow> size_told w SGX_QL_ALG_ECDSA_P256 n \<Longrightarrow> Q u s"
    "\<And>e s. members_wf w s \<Longrightarrow> E e s"
  shows "wp (ecdsa_get_quote_size w ctx kt has_size) Q E s"
proof -
  have a: "SGX_QL_ALG_ECDSA_P256 \<in> supported" by (simp add: supported_def)
  note err = holding_wf [THEN assms(6)]
  have told: "Q u (s1\<lparr>out_quote_size := Some (quote_size_with 128 m)\<rparr>)"
    if "holding contents w x p c i r s1" "m = sizeof_encrypted_cert_info \<or> cert_data_size_reasonable m" for u s1 x p c i r m
    using that holding_wf [OF that(1)]
    by (intro assms(5) [where n = "quote_size_with 128 m"])
      (auto simp: put_size_wf size_told_def get_quote_sig_data_struct_size_def alg_defs)
  show ?thesis
    unfolding ecdsa_get_quote_size_def wp_simps Let_def assms(2)
    apply (rule keep_wf [OF validate_keeps assms(3)])
     apply (rule ifI, erule assms(6))
     apply (rule keep_wf [OF load_qe_keeps [OF assms(1)]], assumption)
      apply (rule ifI, erule assms(4), assumption)
      apply (rule blob_for_quote_wf [OF _ ], simp only: a assms(2), assumption)
       apply (rule verify_triple [OF assms(1) a], assumption)
         apply (rule ifI, simp add: assms(6), erule notE, assumption)
        apply (rule ifI, erule notE, assumption)
        apply (rule ifI)
         apply (rule keep_holding [OF save_keeps], assumption, simp add: err assms(6), simp add: err)
        apply (rule view_for_quote_triple [OF assms(1) a assms(2)], assumption)
         apply (rule ifI, erule err)
         apply (rule keep_holding [OF ecdsa_query_keeps], assumption)
          apply (rule keep_holding [OF config_keeps [OF assms(1)]], assumption)
           apply (simp only: sum.case wp_simps)
           apply (rule ifI, erule err, rule ifI, erule err)
           apply (simp add: put_quote_size_def wp_simps told assms(6) put_size_wf holding_wf)
          apply (simp only: sum.case wp_simps)
          apply (rule ifI, erule err)
          apply (simp add: put_quote_size_def wp_simps told assms(6) put_size_wf holding_wf)
         apply (erule err assms(6))+
    done
qed


text \<open>
  The size of an ML-DSA quote is found without verifying the blob, so the view can leave it; the liberal precondition
  allows that.
\<close>

definition wlp :: "('s, 'a) command \<Rightarrow> ('a \<Rightarrow> 's \<Rightarrow> bool) \<Rightarrow> (int \<Rightarrow> 's \<Rightarrow> bool) \<Rightarrow> 's \<Rightarrow> bool" where
  "wlp m Q E s \<longleftrightarrow> (\<exists>s'. m s = (Fault, s')) \<or> wp m Q E s"

lemma wlp_wp: "wp m Q E s \<Longrightarrow> wlp m Q E s"
  by (simp add: wlp_def)

lemma wlp_after: "wp m (\<lambda>x. wlp (f x) Q E) E s \<Longrightarrow> wlp (andthen m f) Q E s"
  by (auto simp: wlp_def wp_def andthen_def split: prod.splits outcome.splits)

lemma wlp_before: "wlp m (\<lambda>x. wp (f x) Q E) E s \<Longrightarrow> wlp (andthen m f) Q E s"
  by (auto simp: wlp_def wp_def andthen_def split: prod.splits outcome.splits)

lemma wlp_unlocking:
  "wlp m (\<lambda>x s. if u then Q x s else E e s) (\<lambda>e' s. E (if u then e' else e) s) s \<Longrightarrow> wlp (unlocking u e m) Q E s"
  by (auto simp: wlp_def wp_def unlocking_def split: prod.splits outcome.splits)

lemma view_anywhere: "wlp (view_for_quote w ctx) (\<lambda>_ s'. s' = s) (\<lambda>_ s'. s' = s) s"
proof -
  have "snd (get_tdqe_blob_plaintext_view w n s) = s" for n
    by (simp add: get_tdqe_blob_plaintext_view_def andthen_def look_def give_def crash_def Let_def split: option.split)
  then obtain o' where v: "get_tdqe_blob_plaintext_view w (td_blob_size w (m_att_key_algorithm_id ctx)) s = (o', s)"
    by (metis prod.collapse)
  show ?thesis
    unfolding wlp_def wp_def view_for_quote_def andthen_def v
    by (auto simp: look_def stop_def give_def split: outcome.split option.split)
qed

lemma mldsa_answer_triple:
  assumes "is_mldsa (m_att_key_algorithm_id ctx)" "members_wf w s"
    "\<And>s u n. members_wf w s \<Longrightarrow> out_quote_size s = Some n \<Longrightarrow> size_told w (m_att_key_algorithm_id ctx) n \<Longrightarrow> Q u s"
    "\<And>e s. members_wf w s \<Longrightarrow> E e s"
  shows "wp (mldsa_size_for_answer w ctx p answer) Q E s"
proof -
  have eq: "td_sig_data_struct_size (m_att_key_algorithm_id ctx) = get_quote_sig_data_struct_size (m_att_key_algorithm_id ctx)"
    using assms(1) by (auto simp: td_sig_data_struct_size_def get_quote_sig_data_struct_size_def alg_defs)
  have "Q u (s\<lparr>out_quote_size := Some (quote_size_with (get_quote_sig_data_struct_size (m_att_key_algorithm_id ctx)) m)\<rparr>)"
    if "m = sizeof_encrypted_cert_info \<or> cert_data_size_reasonable m" for u m
    using that assms(2) by (intro assms(3)) (auto simp: put_size_wf size_told_def)
  then show ?thesis
    using assms(2,4) by (simp add: mldsa_size_for_answer_def Let_def eq put_quote_size_def wp_simps split: sum.split)
qed

lemma mldsa_size_triple:
  assumes "world_wf contents w" "is_mldsa (m_att_key_algorithm_id ctx)" "members_wf w s"
    "\<And>s u n. members_wf w s \<Longrightarrow> out_quote_size s = Some n \<Longrightarrow> size_told w (m_att_key_algorithm_id ctx) n \<Longrightarrow> Q u s"
    "\<And>e s. members_wf w s \<Longrightarrow> E e s"
  shows "wlp (mldsa_get_quote_size w ctx kt has_size) Q E s"
proof -
  have a: "m_att_key_algorithm_id ctx \<in> supported" using assms(2) by (auto simp: supported_def)
  define Q' where "Q' = (\<lambda>x s. if tw_mutex w Unlock_blob then Q x s else E TEE_ATT_ERROR_UNEXPECTED s)"
  define E' where "E' = (\<lambda>e s. E (if tw_mutex w Unlock_blob then e else TEE_ATT_ERROR_UNEXPECTED) s)"
  have E': "E' e s" if "members_wf w s" for e s using assms(5) [OF that] by (simp add: E'_def)
  have Q': "Q' u s" if "members_wf w s" "out_quote_size s = Some n" "size_told w (m_att_key_algorithm_id ctx) n" for u s n
    using assms(4) [OF that] assms(5) [OF that(1)] by (simp add: Q'_def)
  have after: "wp (mldsa_query w ctx p) (\<lambda>q. wp (attempt (get_platform_quote_cert_data w ctx 0 q None))
      (\<lambda>answer. wp (mldsa_size_for_answer w ctx p answer) Q' E') E') E' s" if "members_wf w s" for p s
    apply (rule keep_wf [OF mldsa_query_keeps [OF assms(1)] that])
     apply (simp only: wp_simps)
     apply (rule keep_wf [OF config_keeps [OF assms(1)]], assumption)
      apply (rule mldsa_answer_triple [OF assms(2)], assumption, erule Q', assumption, assumption, erule E')+
    apply (erule E')
    done
  have view: "wlp (view_for_quote w ctx) (\<lambda>p. wp (mldsa_query w ctx p) (\<lambda>q. wp (attempt (get_platform_quote_cert_data w ctx 0 q None))
      (\<lambda>answer. wp (mldsa_size_for_answer w ctx p answer) Q' E') E') E') E' s" if wf: "members_wf w s" for s
    using view_anywhere [of w ctx s] after [OF wf] E' [OF wf] unfolding wlp_def wp_def [of "view_for_quote w ctx"]
    by (auto split: prod.splits outcome.splits)
  have "wlp (andthen (blob_for_quote w ctx) (\<lambda>_. andthen (view_for_quote w ctx) (\<lambda>p. andthen (mldsa_query w ctx p) (\<lambda>q.
      andthen (attempt (get_platform_quote_cert_data w ctx 0 q None)) (mldsa_size_for_answer w ctx p))))) Q' E' s"
    if "members_wf w s" for s
    by (rule wlp_after, rule blob_for_quote_wf [OF a that], rule wlp_before, simp only: wp_andthen, erule view, erule E')
  then have body: "wlp (if \<not> tw_mutex w Lock_blob then stop TEE_ATT_ERROR_UNEXPECTED
      else unlocking (tw_mutex w Unlock_blob) TEE_ATT_ERROR_UNEXPECTED
        (andthen (blob_for_quote w ctx) (\<lambda>_. andthen (view_for_quote w ctx) (\<lambda>p. andthen (mldsa_query w ctx p) (\<lambda>q.
           andthen (attempt (get_platform_quote_cert_data w ctx 0 q None)) (mldsa_size_for_answer w ctx p)))))) Q E s"
    if "members_wf w s" for s
    using that assms(5) by (auto simp: wlp_wp wp_simps Q'_def E'_def intro!: wlp_unlocking)
  have load: "wlp (andthen (load_qe w ctx) (\<lambda>_. m)) Q E s" if "\<And>s. members_wf w s \<Longrightarrow> wlp m Q E s" for m
    by (rule wlp_after, rule keep_wf [OF load_qe_keeps [OF assms(1)] assms(3)], erule that, erule assms(5))
  show ?thesis
    using load [OF body] assms(5) [OF assms(3)] by (simp add: mldsa_get_quote_size_def wlp_wp wp_simps)
qed

end
