(* ===== verification/Td_Works.thy ===== *)
theory Td_Works
  imports Td_Attest
begin

text \<open>
  The quote library succeeds: on a platform whose parts answer as documented, without a provider library, a key is
  made, the size of a quote told and a quote of that size delivered.
\<close>

section \<open>A platform that works\<close>

definition platform_works ::
  "(byte list \<Rightarrow> (byte list \<times> byte list) option) \<Rightarrow> td_world \<Rightarrow> tdqe_sdk \<Rightarrow> tee_att_config_t \<Rightarrow> bool" where
  "platform_works contents w sdk ctx \<longleftrightarrow> (let a = m_att_key_algorithm_id ctx in
     world_wf contents w \<and> a \<in> supported \<and> (\<forall>c. tw_mutex w c) \<and> (\<forall>x. tw_malloc w x) \<and> (\<forall>path. \<not> tw_qpl_opens w path)
     \<and> (\<exists>path. get_qe_path w (tdqe_path ctx) ''libsgx_tdqe.signed.so.1'' = Some path \<and> fst (tw_create_tdqe w path) = 0)
     \<and> (\<exists>path. get_qe_path w (ide_path ctx) ''libsgx_id_enclave.signed.so.1'' = Some path \<and> tw_create_ide w path = 0)
     \<and> fst (tw_ide_get_id w) = 0 \<and> fst (snd (tw_ide_get_id w)) = 0
     \<and> (\<forall>c. tw_ecall w c = (0, sdk)) \<and> sdk_works contents a sdk
     \<and> (\<exists>priv pub. derived_key sdk a priv pub) \<and> (\<forall>priv pub. derived_key sdk a priv pub \<longrightarrow> signs sdk a priv pub)
     \<and> fst (tw_pce_get_target w) = SGX_PCE_SUCCESS \<and> pce_target_accepted (fst (snd (tw_pce_get_target w)))
     \<and> (\<forall>r k. \<exists>ppid pid. tw_pce_get_info w r k
          = (SGX_PCE_SUCCESS, ppid, 384, snd (snd (tw_pce_get_target w)), pid, PCE_NIST_P256_ECDSA_SHA256))
     \<and> (\<forall>isv cpu r. \<exists>sig. tw_pce_sign_report w isv cpu r = (SGX_PCE_SUCCESS, sig, 64)))"

lemma wp_run: "m s = (Good x, s') \<Longrightarrow> Q x s' \<Longrightarrow> wp m Q E s"
  by (simp add: wp_def)

lemma wp_stopped: "m s = (Bad e, s') \<Longrightarrow> E e s' \<Longrightarrow> wp m Q E s"
  by (simp add: wp_def)

section \<open>Without a provider library\<close>

lemma no_handle:
  assumes "\<forall>path. \<not> tw_qpl_opens w path" "\<not> m_qpl_handle s"
  shows "get_qpl_handle w ctx s = (Good False, s)"
  using assms by (cases s) (simp add: get_qpl_handle_def set_qpl_handle_def run_simps andthen_def)

lemma no_answers:
  assumes "\<forall>path. \<not> tw_qpl_opens w path" "\<not> m_qpl_handle s"
  shows "get_platform_quote_cert_data w ctx 0 q None s = (Bad TEE_ATT_PLATFORM_LIB_UNAVAILABLE, s)"
    "read_blob w ctx s = (Good (Inl TEE_ATT_PLATFORM_LIB_UNAVAILABLE), s)" "save_blob w ctx s = (Good (), s)"
  using no_handle [OF assms]
  by (simp_all add: get_platform_quote_cert_data_def read_blob_def read_persistent_data_def save_blob_def
      write_persistent_data_def run_simps andthen_def attempt_def)

section \<open>A usable key in memory\<close>

text \<open>The enclave is loaded, at the TCB of the platform's PCE.\<close>

definition loaded :: "td_world \<Rightarrow> td_members \<Rightarrow> bool" where
  "loaded w s \<longleftrightarrow> members_wf w s \<and> m_eid s \<and> \<not> m_qpl_handle s \<and> m_raw_pce_isvsvn s = snd (snd (tw_pce_get_target w))"

text \<open>The key in memory can be used by the enclave of this world, at the TCB and the PCE of this platform.\<close>

definition key_in_memory ::
  "(byte list \<Rightarrow> (byte list \<times> byte list) option) \<Rightarrow> td_world \<Rightarrow> tdqe_sdk \<Rightarrow> nat \<Rightarrow> td_members \<Rightarrow> bool" where
  "key_in_memory contents w sdk a s \<longleftrightarrow> loaded w s
     \<and> (\<exists>p c. usable_blob contents sdk a (take (td_blob_size w a) (m_ecdsa_blob s)) p c
          \<and> (\<forall>n t d r. ts_create_report sdk n t d = (0, r) \<longrightarrow> \<not> tcb_changed sdk r (take (td_blob_size w a) (m_ecdsa_blob s)))
          \<and> pce_isv_svn (kp_raw_pce_info p) = m_raw_pce_isvsvn s)"

lemma usable_holds: "usable_blob contents sdk a b p c \<Longrightarrow> blob_holds contents a b p c"
  by (simp add: usable_blob_def blob_holds_def)

lemma store_cert_seals:
  assumes "store_cert_data w (Some input) isize key_type ppid ppid_size (Some b) n = (TDQE_SUCCESS, b')"
  shows "\<exists>pt ct. ts_seal w pt ct n = (0, b')"
proof -
  define a where "a = algorithm_of_blob_size w n"
  obtain ret b1 rs res where v: "verify_blob_data_any_internal w (Some b) n a = (ret, b1, rs, res)" by (metis prod_cases4)
  obtain s r where r: "ts_create_report w 1 None (replicate 64 0) = (s, r)" by (metis prod.collapse)
  have "ret \<noteq> TDQE_SUCCESS" if "res = None"
    using v that by (auto simp: verify_blob_data_any_internal_def Let_def split: prod.splits if_splits)
  then show ?thesis
    using assms v r unfolding store_cert_data_def Let_def a_def [symmetric] obj_simps
    by (auto split: if_splits option.splits prod.splits)
qed

lemma sealed_is_current:
  assumes "runs_at cpu isv sdk" "ts_seal sdk pt ct n = (0, b)" "ts_create_report sdk k t d = (0, r)"
  shows "\<not> tcb_changed sdk r b"
  using assms unfolding runs_at_def tcb_changed_def by metis


lemma works_facts:
  assumes "platform_works contents w sdk ctx" "m_att_key_algorithm_id ctx = a"
  shows "world_wf contents w" "a \<in> supported" "sdk_ok contents w sdk" "sdk_documented contents sdk" "sizes_documented sdk"
    "\<exists>cpu isv. runs_at cpu isv sdk" "sdk_works contents a sdk" "\<And>c. tw_ecall w c = (0, sdk)"
    "\<And>priv pub. derived_key sdk a priv pub \<Longrightarrow> signs sdk a priv pub" "get_tdqe_blob_size_for_algorithm sdk a = td_blob_size w a"
proof -
  show w: "world_wf contents w" "a \<in> supported" "sdk_works contents a sdk" "\<And>c. tw_ecall w c = (0, sdk)"
    "\<And>priv pub. derived_key sdk a priv pub \<Longrightarrow> signs sdk a priv pub"
    using assms unfolding platform_works_def Let_def by blast+
  show "sdk_ok contents w sdk" using world_sdk [OF w(1) w(4)] .
  then show "sdk_documented contents sdk" "sizes_documented sdk" "\<exists>cpu isv. runs_at cpu isv sdk" by (simp_all add: sdk_ok_def)
  show "get_tdqe_blob_size_for_algorithm sdk a = td_blob_size w a" by (rule sdk_size [OF world_sdk [OF w(1) w(4)]])
qed

lemma certify_works:
  assumes "platform_works contents w sdk ctx" "m_att_key_algorithm_id ctx = a" "uses_legacy_pce_bootstrap ctx"
    "usable_blob contents sdk a (take (td_blob_size w a) (m_ecdsa_blob s)) p c" "loaded w s"
    "plaintext_wf a i" "kp_key_id p = take 32 (report_report_data (kp_qe_report i))" "length ppid = 384"
    "pce_isv_svn (kp_raw_pce_info i) = m_raw_pce_isvsvn s"
    "\<And>s'. key_in_memory contents w sdk a s' \<Longrightarrow> Q () s'"
  shows "wp (certify_key w ctx (plaintext_bytes i) (Some ppid) 384 PPID_RSA3072_ENCRYPTED) Q E s"
proof -
  note f = works_facts [OF assms(1,2)]
  let ?n = "td_blob_size w a" and ?b = "take (td_blob_size w a) (m_ecdsa_blob s)"
  obtain sig where sig: "tw_pce_sign_report w (pce_isv_svn (kp_cert_pce_info i)) (kp_cert_cpu_svn i) (kp_qe_report i) = (SGX_PCE_SUCCESS, sig, 64)"
    using assms(1) unfolding platform_works_def Let_def by blast
  define i' where "i' = i\<lparr>kp_qe_report_cert_key_sig := written 64 sig\<rparr>"
  have i': "plaintext_wf a i'" "kp_key_id p = take 32 (report_report_data (kp_qe_report i'))" "kp_raw_pce_info i' = kp_raw_pce_info i"
    using assms(6,7) by (simp_all add: i'_def plaintext_wf_def plaintext_parts_def plaintext_fields_def)
  note u = assms(4) [unfolded usable_blob_def]
  obtain cpu isv where run: "runs_at cpu isv sdk" using f(6) by blast
  obtain b' where st: "store_cert_data sdk (Some (plaintext_bytes i')) (plaintext_size a) 3 (Some ppid) 384 (Some ?b) ?n = (TDQE_SUCCESS, b')"
    using store_cert_works [OF f(4) run f(7,2) _ _ _ _ _ i'(1,2) assms(8)] u f(10) by metis
  obtain p' c' where u': "usable_blob contents sdk a b' p' c'"
    using store_cert_usable [OF f(4) run f(2) assms(4) st] f(10) by metis
  obtain rep where h: "blob_holds contents a b' (certified rep i' p) (with_ppid (Some ppid) 384 c)" "length b' = ?n"
    using store_holds [OF f(3,2) usable_holds [OF assms(4)] i'(1) st] by blast
  have "p' = certified rep i' p"
    using h(1) usable_holds [OF u'] plaintext_bytes_inj unfolding blob_holds_def by (metis option.inject prod.inject)
  then have raw: "pce_isv_svn (kp_raw_pce_info p') = m_raw_pce_isvsvn s" using assms(9) i'(3) by (simp add: certified_def)
  define s' where "s' = s\<lparr>m_ecdsa_blob := written ?n b' @ drop ?n (m_ecdsa_blob s)\<rparr>"
  have "members_wf w s'" unfolding s'_def by (rule blob_buffer(2) [OF _ f(2)]) (use assms(5) in \<open>simp add: loaded_def\<close>)
  then have key: "key_in_memory contents w sdk a s'"
    using u' raw assms(5,5) h(2) sealed_is_current [OF run] store_cert_seals [OF st]
    unfolding key_in_memory_def loaded_def s'_def by fastforce
  have "save_blob w ctx s' = (Good (), s')"
    using assms(1,5) by (intro no_answers(3)) (simp_all add: platform_works_def Let_def s'_def loaded_def)
  then have save: "wp (save_blob w ctx) Q E s'" by (rule wp_run) (rule assms(10) [OF key])
  have ps: "plaintext_size a \<noteq> 0" by (simp add: plaintext_size_def plaintext_fields_def)
  then have ne: "plaintext_bytes i \<noteq> []" using length_plaintext_bytes [OF assms(6)] by auto
  show ?thesis
    using save st [folded PPID_RSA3072_ENCRYPTED_def] sig assms(3,5) f(8)
    by (simp add: certify_key_def wp_simps ne Let_def loaded_def length_plaintext_bytes [OF assms(6)] algorithm_of_size [OF f(2)]
        plaintext_of_bytes [OF assms(6)] validate_legacy_certification_key_type_def legacy_pce_sign_report_def
        call_store_cert_data_def wp_blob_call assms(2) i'_def [symmetric] s'_def [symmetric] REF_RSA_OAEP_3072_MOD_SIZE_def)
qed


section \<open>init_quote\<close>

lemma ppid_works:
  assumes "platform_works contents w sdk ctx" "loaded w s" "m_pencryptedppid s = None"
    "\<And>ppid s'. loaded w s' \<Longrightarrow> fst (m_pce_info s') = m_raw_pce_isvsvn s' \<Longrightarrow> length ppid = 384
       \<Longrightarrow> m_ecdsa_blob s' = m_ecdsa_blob s \<Longrightarrow> Q ppid s'"
  shows "wp (getencryptedppid w (fst (snd (tw_pce_get_target w)))) Q E s"
proof -
  note f = works_facts [OF assms(1) refl]
  let ?t = "fst (snd (tw_pce_get_target w))"
  have t: "pce_target_accepted ?t" using assms(1) unfolding platform_works_def Let_def by blast
  obtain h where h: "ts_sha256 sdk ([PCE_ALG_RSA_OAEP_3072] @ g_ref_pubkey_n_be @ g_ref_pubkey_e_be) = (0, h)"
    using sdk_calls(2) [OF f(7)] by blast
  obtain r where r: "ts_create_report sdk 0 (Some ?t) (h @ replicate 32 0) = (0, r)" using sdk_calls(1) [OF f(7)] by blast
  obtain ppid pid where i: "tw_pce_get_info w r (g_ref_pubkey_n_be @ g_ref_pubkey_e_be)
      = (SGX_PCE_SUCCESS, ppid, 384, snd (snd (tw_pce_get_target w)), pid, PCE_NIST_P256_ECDSA_SHA256)"
    using assms(1) unfolding platform_works_def Let_def by metis
  have "get_pce_encrypt_key sdk (Some ?t) (Some (replicate 432 0)) PCE_ALG_RSA_OAEP_3072 PPID_RSA3072_ENCRYPTED
      (REF_RSA_OAEP_3072_MOD_SIZE + REF_RSA_OAEP_3072_EXP_SIZE) (Some (replicate 388 0)) = (TDQE_SUCCESS, r, g_ref_pubkey_n_be @ g_ref_pubkey_e_be)"
    using sdk_calls(5,6) [OF f(7)] t h r by (simp add: get_pce_encrypt_key_def Let_def)
  moreover have "tw_malloc w Ppid_mem" using assms(1) unfolding platform_works_def Let_def by blast
  moreover have "Q (written 384 ppid) (s\<lparr>m_pencryptedppid := Some (written 384 ppid), m_pce_info := (snd (snd (tw_pce_get_target w)), pid)\<rparr>)"
    using assms(2) by (intro assms(4)) (simp_all add: loaded_def members_wf_def)
  ultimately show ?thesis
    using i assms(3) f(8) by (simp add: getencryptedppid_def in_tdqe_def wp_simps REF_RSA_OAEP_3072_MOD_SIZE_def)
qed

lemma qe_id_works:
  assumes "platform_works contents w sdk ctx" "loaded w s"
    "\<And>x s'. loaded w s' \<Longrightarrow> m_pce_info s' = m_pce_info s \<Longrightarrow> m_ecdsa_blob s' = m_ecdsa_blob s \<Longrightarrow> length x = 16 \<Longrightarrow> Q x s'"
  shows "wp (ensure_qe_id w ctx) Q E s"
proof -
  note f = works_facts [OF assms(1) refl]
  obtain path id where "get_qe_path w (ide_path ctx) ''libsgx_id_enclave.signed.so.1'' = Some path" "tw_create_ide w path = 0"
    "tw_ide_get_id w = (0, 0, id)" "\<forall>c. tw_mutex w c" "\<forall>x. tw_malloc w x"
    using assms(1) unfolding platform_works_def Let_def by (metis prod.collapse)
  moreover have "length (snd (snd (tw_ide_get_id w))) = 16" using f(1) unfolding world_wf_def by blast
  moreover have "\<forall>x. m_qe_id s = Some x \<longrightarrow> length x = 16" using assms(2) unfolding loaded_def members_wf_def by blast
  ultimately show ?thesis
    using assms(2,3)
    by (auto simp: ensure_qe_id_def load_id_enclave_get_id_def load_id_enclave_def wp_simps loaded_def members_wf_def split: option.split)
qed


lemma gen_works:
  assumes "platform_works contents w sdk ctx" "m_att_key_algorithm_id ctx = a" "loaded w s"
    "\<And>r p c s'. loaded w s' \<Longrightarrow> m_pce_info s' = m_pce_info s \<Longrightarrow> length r = 432
       \<Longrightarrow> usable_blob contents sdk a (take (td_blob_size w a) (m_ecdsa_blob s')) p c
       \<Longrightarrow> kp_key_id p = take 32 (report_report_data r) \<Longrightarrow> Q (TDQE_SUCCESS, r) s'"
  shows "wp (call_gen_att_key w (td_blob_size w a) a (fst (snd (tw_pce_get_target w))) authentication_data) Q E s"
proof -
  note f = works_facts [OF assms(1,2)]
  let ?n = "td_blob_size w a" and ?t = "fst (snd (tw_pce_get_target w))"
  have t: "pce_target_accepted ?t" "\<exists>priv pub. derived_key sdk a priv pub"
    using assms(1,2) unfolding platform_works_def Let_def by blast+
  have auth: "length authentication_data = (case Some authentication_data of None \<Rightarrow> 0 | Some _ \<Rightarrow> 32)"
    by (simp add: authentication_data_def)
  obtain b r where g: "Tdqe_Blob.gen_att_key sdk (Some (take ?n (m_ecdsa_blob s))) ?n a (Some ?t) (Some (replicate 432 0))
      (Some authentication_data) (length authentication_data) = (TDQE_SUCCESS, b, r)"
    using gen_att_key_works [OF f(7,5,2) _ t(1) auth] t(2) f(10) by metis
  obtain p c where u: "usable_blob contents sdk a b p c" using gen_att_key_usable [OF f(4,5,9) g] by blast
  obtain p' c' where h: "blob_holds contents a b p' c'" "length b = ?n" "length r = 432" "take 32 (report_report_data r) = kp_key_id p'"
    using gen_holds [OF f(3) g] by blast
  have "p' = p" using h(1) usable_holds [OF u] plaintext_bytes_inj unfolding blob_holds_def by (metis option.inject prod.inject)
  moreover have "loaded w (s\<lparr>m_ecdsa_blob := written ?n b @ drop ?n (m_ecdsa_blob s)\<rparr>)"
    using assms(3) blob_buffer(2) [of w s, OF _ f(2)] by (simp add: loaded_def)
  ultimately have "Q (TDQE_SUCCESS, r) (s\<lparr>m_ecdsa_blob := written ?n b @ drop ?n (m_ecdsa_blob s)\<rparr>)"
    using u h by (intro assms(4) [where p = p and c = c]) simp_all
  then show ?thesis by (simp add: call_gen_att_key_def wp_blob_call Let_def g f(8))
qed

lemma make_new_works:
  assumes "platform_works contents w sdk ctx" "m_att_key_algorithm_id ctx = a" "uses_legacy_pce_bootstrap ctx"
    "loaded w s" "m_pencryptedppid s = None" "\<And>s'. key_in_memory contents w sdk a s' \<Longrightarrow> Q () s'"
  shows "wp (make_new_key w ctx PPID_RSA3072_ENCRYPTED (fst (snd (tw_pce_get_target w))) isv True) Q E s"
proof -
  note f = works_facts [OF assms(1,2)]
  have mem: "tw_malloc w x" "\<forall>path. \<not> tw_qpl_opens w path" for x using assms(1) unfolding platform_works_def Let_def by blast+
  have t: "length (fst (snd (tw_pce_get_target w))) = 512" using f(1) unfolding world_wf_def by blast
  have target: "wp (put_target_info (report_mr_enclave r)) Q' E s1"
    if "loaded w s1" "length r = 432" "\<And>s2. loaded w s2 \<Longrightarrow> m_pce_info s2 = m_pce_info s1 \<Longrightarrow> m_ecdsa_blob s2 = m_ecdsa_blob s1 \<Longrightarrow> Q' () s2"
    for r s1 Q'
    using that by (simp add: put_target_info_def wp_simps loaded_def members_wf_def target_info_def report_mr_enclave_def)
  have body: "wp (keep_report_body w False (report_body r)) Q' E s1"
    if "loaded w s1" "length r = 432" "\<And>s2. loaded w s2 \<Longrightarrow> m_pce_info s2 = m_pce_info s1 \<Longrightarrow> m_ecdsa_blob s2 = m_ecdsa_blob s1 \<Longrightarrow> Q' () s2"
    for r s1 Q'
    using that mem by (auto simp: keep_report_body_def wp_simps loaded_def members_wf_def report_body_def)
  have view: "wp (get_tdqe_blob_plaintext_view w (td_blob_size w a)) Q' E s1"
    if "loaded w s1" "usable_blob contents sdk a (take (td_blob_size w a) (m_ecdsa_blob s1)) p c" "Q' (Some p) s1" for p c s1 Q'
    by (rule view_triple [OF f(1,2), of p c "out_pub_key_id s1" "m_raw_pce_isvsvn s1"])
      (use that usable_holds in \<open>auto simp: holding_def at_def loaded_def\<close>)
  have answer: "wp (legacy_get_platform_quote_cert_data w ctx q) Q' E' s1 = E' TEE_ATT_PLATFORM_LIB_UNAVAILABLE s1"
    if "loaded w s1" for q Q' E' s1
    using no_answers(1) [OF mem(2), of s1] that assms(3)
    by (simp add: legacy_get_platform_quote_cert_data_def loaded_def wp_simps wp_def [of "get_platform_quote_cert_data w ctx 0 q None"])
  have cert: "wp (certify_key w ctx (plaintext_bytes (populate_plaintext a (report_cpu_svn r) isv x (report_cpu_svn r) v y r z
        PCE_NIST_P256_ECDSA_SHA256 (fst (snd (tw_pce_get_target w))) PPID_RSA3072_ENCRYPTED)) (Some ppid) REF_RSA_OAEP_3072_MOD_SIZE
        PPID_RSA3072_ENCRYPTED) (\<lambda>_ s2. Q () (s2\<lparr>out_pub_key_id := Some (take 32 (report_report_data r))\<rparr>)) E s1"
    if "loaded w s1" "usable_blob contents sdk a (take (td_blob_size w a) (m_ecdsa_blob s1)) p c" "length r = 432" "length z = 16"
      "length ppid = 384" "v = m_raw_pce_isvsvn s1" "kp_key_id p = take 32 (report_report_data r)" for s1 p c r v x y z ppid
  proof -
    have id: "length (take 32 (report_report_data r)) = 32"
      using that(2,7) plaintext_wf_lengths(8) unfolding usable_blob_def by metis
    show ?thesis
      unfolding REF_RSA_OAEP_3072_MOD_SIZE_def
    proof (rule certify_works [OF assms(1,2,3) that(2)])
      show "plaintext_wf a (populate_plaintext a (report_cpu_svn r) isv x (report_cpu_svn r) v y r z
          PCE_NIST_P256_ECDSA_SHA256 (fst (snd (tw_pce_get_target w))) PPID_RSA3072_ENCRYPTED)"
        by (rule populate_wf) (use that report_parts t in auto)
      fix s2 assume "key_in_memory contents w sdk a s2"
      then show "Q () (s2\<lparr>out_pub_key_id := Some (take 32 (report_report_data r))\<rparr>)"
        using id by (intro assms(6)) (auto simp: key_in_memory_def loaded_def members_wf_def)
    qed (use that in \<open>simp_all add: loaded_def populate_plaintext_def pce_id_of\<close>)
  qed
  show ?thesis
    unfolding make_new_key_def Let_def prod.case wp_simps sum.case assms(2)
    apply (rule ifI, simp)
    apply (rule ppid_works [OF assms(1,4,5)], rule gen_works [OF assms(1,2)], assumption)
    apply (simp only: prod.case wp_simps sum.case simp_thms if_True)
    apply (rule target, assumption, assumption, rule body, assumption, assumption)
    apply (rule qe_id_works [OF assms(1)], assumption, rule view, assumption, simp only:)
    apply (rule ifI)
     apply (subst answer, assumption, rule ifI, erule notE, rule refl)
     apply (simp only: fst_conv snd_conv)
     apply (rule cert, assumption, simp, assumption, assumption, assumption, simp add: loaded_def, assumption)
    apply (erule notE, simp)
    done
qed


lemma init_works:
  assumes "platform_works contents w sdk ctx" "m_att_key_algorithm_id ctx = a" "m_bootstrap_mode ctx = TEE_ATT_BOOTSTRAP_LEGACY_PCE"
    "\<And>s'. key_in_memory contents w sdk a s' \<Longrightarrow> Q () s'"
  shows "wp (init_quote w ctx PPID_RSA3072_ENCRYPTED True True True) Q E (td_new w)"
proof -
  note f = works_facts [OF assms(1,2)]
  have legacy: "uses_legacy_pce_bootstrap ctx" using assms(3) by (simp add: uses_legacy_pce_bootstrap_def)
  obtain path where path: "get_qe_path w (tdqe_path ctx) ''libsgx_tdqe.signed.so.1'' = Some path" "fst (tw_create_tdqe w path) = 0"
    using assms(1) unfolding platform_works_def Let_def by blast
  then obtain attr misc where tdqe: "tw_create_tdqe w path = (0, attr, misc)" by (metis prod.collapse)
  have sizes: "length attr = 16" "length misc = 4" using f(1) tdqe unfolding world_wf_def by (metis fst_conv snd_conv)+
  obtain t v where t: "tw_pce_get_target w = (SGX_PCE_SUCCESS, t, v)"
    using assms(1) unfolding platform_works_def Let_def by (metis prod.collapse)
  have lock: "tw_mutex w c" for c using assms(1) unfolding platform_works_def Let_def by blast
  define s where "s = (td_new w)\<lparr>m_eid := True, m_secs_attr := attr, m_misc_select := misc, m_raw_pce_isvsvn := v,
    out_target_info := target_info (replicate 32 0) attr misc\<rparr>"
  have "loaded w s" using sizes by (simp add: s_def loaded_def members_wf_def td_new_def target_info_def t)
  moreover have "m_pencryptedppid s = None" by (simp add: s_def td_new_def)
  ultimately have "wp (make_new_key w ctx PPID_RSA3072_ENCRYPTED (fst (snd (tw_pce_get_target w))) v True) Q E s"
    by (rule make_new_works [OF assms(1,2) legacy]) (rule assms(4))
  then have "wp (make_new_key w ctx PPID_RSA3072_ENCRYPTED t v True) Q E s" by (simp add: t)
  then have "wp (ecdsa_init_quote w ctx PPID_RSA3072_ENCRYPTED True True True) Q E (td_new w)"
    using path(1) tdqe t lock legacy
    by (simp add: ecdsa_init_quote_def wp_simps validate_legacy_certification_key_type_def legacy_get_pce_target_info_def
        load_qe_def put_target_info_def check_stored_key_def Let_def s_def td_new_def)
  moreover have "a = SGX_QL_ALG_ECDSA_P256 \<or> is_mldsa a" using f(2) by (auto simp: supported_def)
  ultimately show ?thesis
    using assms(2,3) by (auto simp: init_quote_def legacy_init_quote_def mldsa_init_quote_def)
qed

section \<open>get_quote_size and get_quote\<close>

lemma view_works:
  assumes "platform_works contents w sdk ctx" "m_att_key_algorithm_id ctx = a"
    "usable_blob contents sdk a (take (td_blob_size w a) (m_ecdsa_blob s)) p c" "members_wf w s"
    "pce_isv_svn (kp_raw_pce_info p) = m_raw_pce_isvsvn s" "Q p s"
  shows "wp (view_for_quote w ctx) Q E s"
proof -
  note f = works_facts [OF assms(1,2)]
  have "holding contents w a p c (out_pub_key_id s) (m_raw_pce_isvsvn s) s"
    using assms(3,4) usable_holds by (auto simp: holding_def at_def)
  then show ?thesis
    unfolding view_for_quote_def wp_simps assms(2)
    by (rule view_triple [OF f(1,2)]) (use assms(5,6) in \<open>simp add: wp_simps\<close>)
qed

lemma verified_works:
  assumes "platform_works contents w sdk ctx" "m_att_key_algorithm_id ctx = a" "key_in_memory contents w sdk a s"
    "\<And>r. bk_ret r = TDQE_SUCCESS \<Longrightarrow> bk_is_resealed r = Some False \<Longrightarrow> Q r s"
  shows "wp (call_verify_blob w cl (td_blob_size w a) f1 f2) Q E s"
proof -
  note f = works_facts [OF assms(1,2)]
  let ?n = "td_blob_size w a" and ?b = "take (td_blob_size w a) (m_ecdsa_blob s)"
  obtain p c where u: "usable_blob contents sdk a ?b p c" using assms(3) unfolding key_in_memory_def by blast
  obtain r where r: "ts_create_report sdk 0 None (replicate 64 0) = (0, r)" using sdk_calls(1) [OF f(7)] by blast
  have t: "\<not> tcb_changed sdk r ?b" using assms(3) r unfolding key_in_memory_def by blast
  define x where "x = verify_blob sdk (Some ?b) ?n True f1 (if f2 then 32 else 0) f2"
  have x: "bk_ret x = TDQE_SUCCESS" "bk_is_resealed x = Some False" "bk_blob x = ?b"
    using verify_works [OF f(7,2) _ _ _ _ _ r, of p c ?b f1 f2] u t unfolding usable_blob_def x_def f(10) by simp_all
  have "written ?n (bk_blob x) @ drop ?n (m_ecdsa_blob s) = m_ecdsa_blob s"
    using blob_buffer(1) [of w s, OF _ f(2)] assms(3) x(3) by (simp add: key_in_memory_def loaded_def)
  then show ?thesis
    using assms(4) [OF x(1,2)] by (simp add: call_verify_blob_def wp_blob_call f(8) Let_def x_def)
qed


lemma memory_only:
  "key_in_memory contents w sdk a s \<Longrightarrow> loaded w s' \<Longrightarrow> m_ecdsa_blob s' = m_ecdsa_blob s \<Longrightarrow> key_in_memory contents w sdk a s'"
  by (auto simp: key_in_memory_def loaded_def)

lemma mldsa_query_works:
  assumes "platform_works contents w sdk ctx" "m_bootstrap_mode ctx = TEE_ATT_BOOTSTRAP_LEGACY_PCE" "loaded w s"
    "\<And>q s'. loaded w s' \<Longrightarrow> m_ecdsa_blob s' = m_ecdsa_blob s \<Longrightarrow> Q q s'"
  shows "wp (mldsa_query w ctx p) Q E s"
proof -
  obtain t v where t: "tw_pce_get_target w = (SGX_PCE_SUCCESS, t, v)"
    using assms(1) unfolding platform_works_def Let_def by (metis prod.collapse)
  have "wp (getencryptedppid w t) (\<lambda>x s. Q' x s) E s"
    if "\<And>x s'. loaded w s' \<Longrightarrow> m_ecdsa_blob s' = m_ecdsa_blob s \<Longrightarrow> Q' x s'" for Q'
  proof (cases "m_pencryptedppid s")
    case None
    have "wp (getencryptedppid w (fst (snd (tw_pce_get_target w)))) Q' E s"
      by (rule ppid_works [OF assms(1,3) None]) (erule that)
    then show ?thesis by (simp add: t)
  next
    case (Some x)
    then show ?thesis using that [OF assms(3) refl] by (simp add: getencryptedppid_def wp_simps)
  qed
  then show ?thesis
    using assms(2,4) t
    by (simp add: mldsa_query_def uses_legacy_pce_bootstrap_def legacy_get_pce_target_info_def wp_simps Let_def)
qed

text \<open>The size told is the one of a quote with the data of the blob.\<close>

definition own_quote_size :: "nat \<Rightarrow> nat" where
  "own_quote_size a = quote_size_with (get_quote_sig_data_struct_size a) sizeof_encrypted_cert_info"

lemma key_steps:
  assumes "platform_works contents w sdk ctx" "loaded w s"
  shows "load_qe w ctx s = (Good False, s)" "blob_for_quote w ctx s = (Good (), s)" "tw_mutex w c"
    "get_platform_quote_cert_data w ctx 0 q None s = (Bad TEE_ATT_PLATFORM_LIB_UNAVAILABLE, s)"
    "m_bootstrap_mode ctx = TEE_ATT_BOOTSTRAP_LEGACY_PCE
       \<Longrightarrow> validate_legacy_certification_key_type ctx PPID_RSA3072_ENCRYPTED s = (Good (), s)"
proof -
  have w: "\<forall>c. tw_mutex w c" "\<forall>path. \<not> tw_qpl_opens w path"
    using assms(1) unfolding platform_works_def Let_def by blast+
  note none = no_answers [OF w(2), of s]
  show "tw_mutex w c" using w(1) by blast
  show "load_qe w ctx s = (Good False, s)" "blob_for_quote w ctx s = (Good (), s)"
    "get_platform_quote_cert_data w ctx 0 q None s = (Bad TEE_ATT_PLATFORM_LIB_UNAVAILABLE, s)"
    using w(1) none assms(2) by (simp_all add: loaded_def load_qe_def blob_for_quote_def run_simps andthen_def unlocking_def)
  show "validate_legacy_certification_key_type ctx PPID_RSA3072_ENCRYPTED s = (Good (), s)"
    if "m_bootstrap_mode ctx = TEE_ATT_BOOTSTRAP_LEGACY_PCE"
    using that by (simp add: validate_legacy_certification_key_type_def uses_legacy_pce_bootstrap_def run_simps)
qed

lemma size_works:
  assumes "platform_works contents w sdk ctx" "m_att_key_algorithm_id ctx = a" "m_bootstrap_mode ctx = TEE_ATT_BOOTSTRAP_LEGACY_PCE"
    "\<not> mldsa_require_full_dcap_path w" "key_in_memory contents w sdk a s"
    "\<And>s'. key_in_memory contents w sdk a s' \<Longrightarrow> out_quote_size s' = Some (own_quote_size a) \<Longrightarrow> Q () s'"
  shows "wp (get_quote_size w ctx PPID_RSA3072_ENCRYPTED True) Q E s"
proof -
  note f = works_facts [OF assms(1,2)]
  obtain p c where u: "usable_blob contents sdk a (take (td_blob_size w a) (m_ecdsa_blob s)) p c"
    "pce_isv_svn (kp_raw_pce_info p) = m_raw_pce_isvsvn s" using assms(5) unfolding key_in_memory_def by blast
  have s: "loaded w s" "members_wf w s" using assms(5) by (simp_all add: key_in_memory_def loaded_def)
  have told: "Q () (s'\<lparr>out_quote_size := Some (quote_size_with n sizeof_encrypted_cert_info)\<rparr>)"
    if "loaded w s'" "m_ecdsa_blob s' = m_ecdsa_blob s" "n = get_quote_sig_data_struct_size a" for s' n
    using memory_only [OF assms(5) that(1,2)] that(3)
    by (intro assms(6)) (auto simp: key_in_memory_def loaded_def own_quote_size_def put_size_wf)
  note step = key_steps [OF assms(1)]
  have ecdsa: "wp (ecdsa_get_quote_size w ctx PPID_RSA3072_ENCRYPTED True) Q E s" if "a = SGX_QL_ALG_ECDSA_P256"
    unfolding ecdsa_get_quote_size_def wp_simps Let_def assms(2)
    apply (rule wp_run, rule step(5) [OF s(1) assms(3)], rule ifI, simp)
    apply (rule wp_run, rule step(1) [OF s(1)], rule ifI, simp add: step(3) [OF s(1)])
    apply (rule wp_run, rule step(2) [OF s(1)], rule verified_works [OF assms(1,2,5)])
    apply (rule ifI, simp, rule ifI, simp)
    apply (rule view_works [OF assms(1,2) u(1) s(2) u(2)], rule ifI, simp add: assms(4))
    apply (rule wp_run, simp add: ecdsa_query_def run_simps, rule wp_stopped, rule step(4) [OF s(1)])
    apply (simp add: put_quote_size_def wp_simps step(3) [OF s(1)] told [OF s(1)] get_quote_sig_data_struct_size_def alg_defs that)
    done
  have fall: "should_fallback_to_local_cert_data w TEE_ATT_PLATFORM_LIB_UNAVAILABLE"
    by (simp add: should_fallback_to_local_cert_data_def Let_def)
  have mldsa: "wp (mldsa_get_quote_size w ctx PPID_RSA3072_ENCRYPTED True) Q E s" if "is_mldsa a"
  proof -
    have n: "td_sig_data_struct_size a = get_quote_sig_data_struct_size a"
      using that by (auto simp: td_sig_data_struct_size_def get_quote_sig_data_struct_size_def alg_defs)
    show ?thesis
      unfolding mldsa_get_quote_size_def wp_simps
      apply (rule ifI, simp, rule ifI, simp)
      apply (rule wp_run, rule step(1) [OF s(1)], rule ifI, simp add: step(3) [OF s(1)])
      apply (rule wp_run, rule step(2) [OF s(1)])
      apply (rule view_works [OF assms(1,2) u(1) s(2) u(2)], rule mldsa_query_works [OF assms(1,3) s(1)])
      apply (rule wp_stopped, erule step(4))
      apply (simp add: mldsa_size_for_answer_def put_quote_size_def wp_simps step(3) [OF s(1)] told fall assms(2,4) n)
      done
  qed
  show ?thesis using ecdsa mldsa f(2) assms(2) by (auto simp: get_quote_size_def supported_def)
qed

lemma own_size_enough: "own_quote_size a = largest_quote a"
  by (simp add: own_quote_size_def largest_quote_def quote_size_with_def REF_ECDSDA_AUTHENTICATION_DATA_SIZE_def)

lemma quote_works:
  assumes "platform_works contents w sdk ctx" "m_att_key_algorithm_id ctx = a" "m_bootstrap_mode ctx = TEE_ATT_BOOTSTRAP_LEGACY_PCE"
    "\<not> mldsa_require_full_dcap_path w" "key_in_memory contents w sdk a s" "largest_quote a \<le> qsize"
    "report_wf (tw_read_report2 w rep)" "determine_quote_version (tw_read_report2 w rep) = Inr v"
    "check_td_report sdk (tw_read_report2 w rep) = TDQE_SUCCESS"
  shows "wp (td_get_quote w ctx (Some rep) True qsize) (\<lambda>_ _. True) (\<lambda>_ _. False) s"
proof -
  note f = works_facts [OF assms(1,2)]
  obtain p c where u: "usable_blob contents sdk a (take (td_blob_size w a) (m_ecdsa_blob s)) p c"
    "pce_isv_svn (kp_raw_pce_info p) = m_raw_pce_isvsvn s" using assms(5) unfolding key_in_memory_def by blast
  have s: "loaded w s" "members_wf w s" using assms(5) by (simp_all add: key_in_memory_def loaded_def)
  note step = key_steps [OF assms(1)]
  have gen: "wp (call_gen_quote w ctx rep qsize None) Q E s'"
    if "m_ecdsa_blob s' = m_ecdsa_blob s" "\<And>s. Q () s" for Q E s'
    using gen_quote_works [OF f(4,7,2) _ _ _ _ _ _ assms(7-9) _ _ assms(6), of p c "take (td_blob_size w a) (m_ecdsa_blob s)"]
      u that f(8,10) assms(2)
    by (simp add: call_gen_quote_def wp_blob_call wp_simps Let_def usable_blob_def)
  have ecdsa: "wp (ecdsa_get_quote w ctx (Some rep) True qsize) (\<lambda>_ _. True) (\<lambda>_ _. False) s"
    unfolding ecdsa_get_quote_def wp_simps Let_def assms(2)
    apply (rule ifI, simp, rule wp_run, rule step(1) [OF s(1)], rule ifI, simp add: step(3) [OF s(1)])
    apply (rule wp_run, rule step(2) [OF s(1)], rule verified_works [OF assms(1,2,5)])
    apply (rule ifI, simp, rule ifI, simp)
    apply (rule view_works [OF assms(1,2) u(1) s(2) u(2)])
    apply (simp only: ecdsa_cert_data_def wp_simps)
    apply (rule wp_run, simp add: ecdsa_query_def run_simps, rule wp_stopped, rule step(4) [OF s(1)])
    apply (simp add: wp_simps gen step(3) [OF s(1)])
    done
  have fall: "should_fallback_to_local_cert_data w TEE_ATT_PLATFORM_LIB_UNAVAILABLE"
    by (simp add: should_fallback_to_local_cert_data_def Let_def)
  have mldsa: "wp (mldsa_get_quote w ctx (Some rep) True qsize) (\<lambda>_ _. True) (\<lambda>_ _. False) s"
    unfolding mldsa_get_quote_def wp_simps Let_def assms(2)
    apply (rule ifI, simp, rule wp_run, rule step(1) [OF s(1)], rule ifI, simp add: step(3) [OF s(1)])
    apply (rule wp_run, rule step(2) [OF s(1)], rule verified_works [OF assms(1,2,5)])
    apply (rule ifI, simp, rule ifI, simp)
    apply (rule view_works [OF assms(1,2) u(1) s(2) u(2)])
    apply (simp only: mldsa_cert_data_def wp_simps)
    apply (rule mldsa_query_works [OF assms(1,3) s(1)], rule wp_stopped, erule step(4))
    apply (simp add: wp_simps gen step(3) [OF s(1)] assms(4) fall)
    done
  show ?thesis using ecdsa mldsa f(2) assms(2) by (auto simp: td_get_quote_def supported_def)
qed


section \<open>A platform of this kind\<close>

definition demo_td :: "environment \<Rightarrow> nat \<Rightarrow> td_world" where
  "demo_td env a = \<lparr>tw_mutex = (\<lambda>_. True), tw_malloc = (\<lambda>_. True), tw_fresh_memory = replicate 16 0, tw_env = env,
     tw_own_file = None, tw_exe_link = None, tw_create_tdqe = (\<lambda>_. (0, replicate 16 4, replicate 4 0)), tw_create_ide = (\<lambda>_. 0),
     tw_ide_get_id = (0, 0, replicate 16 1), tw_ecall = (\<lambda>_. (0, tdqe_demo a 3)),
     tw_pce_get_target = (SGX_PCE_SUCCESS, demo_target, 5),
     tw_pce_get_info = (\<lambda>_ _. (SGX_PCE_SUCCESS, replicate 384 8, 384, 5, 0, PCE_NIST_P256_ECDSA_SHA256)),
     tw_pce_sign_report = (\<lambda>_ _ _. (SGX_PCE_SUCCESS, replicate 64 2, 64)), tw_qpl_opens = (\<lambda>_. False), tw_qpl_global_init = None,
     tw_qpl_get_quote_config = None, tw_qpl_write = None, tw_qpl_read = None, tw_error_out_of_epc = 7,
     tw_sizeof_sealed_data = 560, tw_plain_text_offset = (\<lambda>_. ciphertext_size a), tw_read_report2 = (\<lambda>_. demo_td_report)\<rparr>"

definition demo_td_context :: "nat \<Rightarrow> tee_att_config_t" where
  "demo_td_context a = \<lparr>m_att_key_algorithm_id = a, m_bootstrap_mode = TEE_ATT_BOOTSTRAP_LEGACY_PCE, tdqe_path = ''/t'', qpl_path = [],
     ide_path = ''/i''\<rparr>"

lemma demo_world: "world_wf (demo_contents a) (demo_td env a)"
proof -
  have "bread (length pt) (560 + ciphertext_size a) b = Some pt"
    if "n \<le> length b" "demo_contents a (take n b) = Some (pt, ct)" for b n pt ct
    using that by (auto simp: demo_contents_def bread_Some_iff drop_take split: if_splits)
  moreover have "\<exists>cpu isv. runs_at cpu isv (tdqe_demo a 3)" using demo_runs by blast
  moreover have "ts_sizeof_sealed_data (tdqe_demo a 3) = 560" by (simp add: tdqe_demo_def)
  ultimately show ?thesis
    by (simp add: world_wf_def demo_td_def demo_target_def demo_documented demo_sizes)
qed

lemma demo_platform: "a \<in> supported \<Longrightarrow> platform_works (demo_contents a) (demo_td env a) (tdqe_demo a 3) (demo_td_context a)"
  using demo_world [of a env] demo_key [of a 3] demo_signs [of a 3] demo_works [of a 3] demo_target_accepted
  by (auto simp: platform_works_def Let_def demo_td_def demo_td_context_def get_qe_path_def)

end
