(* ===== verification/Td_Api.thy ===== *)
theory Td_Api
  imports Td_Attest
begin

text \<open>
  The quote library as its callers see it: the methods of the logic behind the functions of the API, what every
  sequence of calls keeps, and the properties of the attestation key and the quote across the calls.
\<close>

section \<open>The methods behind the API\<close>

text \<open>
  The private members are the state of the API model, with a mark that says whether every access so far stayed in its
  object. The status of a method that left one is never looked at.
\<close>

definition run :: "'a td \<Rightarrow> td_members \<times> bool \<Rightarrow> int \<times> 'a option \<times> td_members \<times> bool" where
  "run m x = (case m (fst x) of (Good y, s') \<Rightarrow> (TEE_ATT_SUCCESS, Some y, s', snd x) | (Bad e, s') \<Rightarrow> (e, None, s', snd x)
     | (Fault, s') \<Rightarrow> (TEE_ATT_ERROR_UNEXPECTED, None, s', False))"

definition with_members :: "(td_members \<Rightarrow> td_members) \<Rightarrow> td_members \<times> bool \<Rightarrow> td_members \<times> bool" where
  "with_members f x = (f (fst x), snd x)"

definition quote_library :: "td_world \<Rightarrow> (td_members \<times> bool) config_methods" where
  "quote_library w =
     \<lparr>cm_new = (\<lambda>_. (td_new w, True)),
      cm_delete = (\<lambda>_ x. snd (snd (run (td_delete w) x))),
      cm_init_quote = (\<lambda>ctx key_type refresh x. case run (init_quote w ctx key_type True refresh True)
          (with_members (\<lambda>s. s\<lparr>out_target_info := replicate 512 0, out_pub_key_id := None\<rparr>) x) of
        (ret, _, x') \<Rightarrow> (ret, obj (out_pub_key_id (fst x')), x')),
      cm_get_quote_size = (\<lambda>ctx key_type x. case run (get_quote_size w ctx key_type True)
          (with_members (\<lambda>s. s\<lparr>out_quote_size := None\<rparr>) x) of
        (ret, _, x') \<Rightarrow> (ret, word_of_nat (case out_quote_size (fst x') of None \<Rightarrow> 0 | Some n \<Rightarrow> n), x')),
      cm_get_quote = (\<lambda>ctx report quote_size x. case run (td_get_quote w ctx (Some report) True (unat quote_size))
          (with_members (\<lambda>s. s\<lparr>out_quote := replicate (unat quote_size) 0\<rparr>) x) of
        (ret, _, x') \<Rightarrow> (ret, out_quote (fst x'), x')),
      cm_get_platform_info = (\<lambda>ctx x. case run (get_platform_info w ctx) x of
        (ret, i, x') \<Rightarrow> (ret, case i of None \<Rightarrow> \<lparr>pi_platform_id = replicate 16 0, pi_cpu_svn = replicate 16 0,
            pi_tdqe_isv_svn = 0, pi_pce_isv_svn = 0\<rparr> | Some j \<Rightarrow> j, x')),
      cm_get_qpl_handle = (\<lambda>ctx x. case run (get_qpl_handle w ctx) x of (_, h, x') \<Rightarrow> (h = Some True, x'))\<rparr>"

section \<open>Every method keeps the shape of the members\<close>

lemma platform_parts_wf:
  assumes "world_wf contents w" "members_wf w s" "\<And>x s. members_wf w s \<Longrightarrow> Q x s" "\<And>e s. members_wf w s \<Longrightarrow> E e s"
  shows "wp (platform_info_parts w ctx) Q E s"
  unfolding platform_info_parts_def wp_simps
  by (rule keep_wf [OF ensure_qe_id_keeps [OF assms(1)] assms(2)])
    (auto simp: wp_simps intro: assms(3,4) split: prod.split option.split)

lemma platform_info_triple:
  assumes "world_wf contents w"
  shows "triple (members_wf w) (get_platform_info w ctx) (\<lambda>_. members_wf w) (\<lambda>_. members_wf w)"
proof (rule tripleI)
  fix s assume s: "members_wf w s"
  let ?after = "\<lambda>s1. s1\<lparr>out_target_info := out_target_info s, out_pub_key_id := out_pub_key_id s\<rparr>"
  have "wp (platform_info_parts w ctx) (\<lambda>_. members_wf w) (\<lambda>_. members_wf w) (?after s1)" if "members_wf w s1" for s1
    by (rule platform_parts_wf [OF assms]) (use that s in \<open>simp_all add: members_wf_def\<close>)
  moreover have "wp (platform_info_parts w ctx) (\<lambda>_. members_wf w) (\<lambda>_. members_wf w) s"
    by (rule platform_parts_wf [OF assms s]) simp_all
  ultimately show "wp (get_platform_info w ctx) (\<lambda>_. members_wf w) (\<lambda>_. members_wf w) s"
    using s by (auto simp: get_platform_info_def wp_simps intro!: wp_use [OF init_triple [OF assms]])
qed

section \<open>Sequences of calls\<close>

definition same_enclave :: "(byte list \<Rightarrow> (byte list \<times> byte list) option) \<Rightarrow> nat \<Rightarrow> td_world \<Rightarrow> bool" where
  "same_enclave contents n w \<longleftrightarrow> world_wf contents w \<and> tw_sizeof_sealed_data w = n"

text \<open>
  One call of the API, in a documented world of its own. The size of an ML-DSA quote is told from a blob that was not
  verified; here the call stays in the blob.
\<close>

inductive api_step ::
  "(byte list \<Rightarrow> (byte list \<times> byte list) option) \<Rightarrow> nat \<Rightarrow> td_members \<times> bool \<Rightarrow> td_members \<times> bool \<Rightarrow> bool" for contents n where
  init: "same_enclave contents n w \<Longrightarrow> tee_att_init_quote (quote_library w) sdk ctx refresh k has_id x = (ret, k', key_id, x')
    \<Longrightarrow> api_step contents n x x'"
| size: "same_enclave contents n w \<Longrightarrow> tee_att_get_quote_size (quote_library w) sdk ctx has_size x = (ret, k, x')
    \<Longrightarrow> (\<And>c. ctx = Some c \<Longrightarrow> m_att_key_algorithm_id c \<noteq> SGX_QL_ALG_ECDSA_P256 \<Longrightarrow> snd x \<longrightarrow> snd x')
    \<Longrightarrow> api_step contents n x x'"
| quote: "same_enclave contents n w \<Longrightarrow> tee_att_get_quote (quote_library w) sdk ctx report report_size k x = (ret, quote, x')
    \<Longrightarrow> report_wf (tw_read_report2 w (obj report)) \<Longrightarrow> api_step contents n x x'"
| info: "same_enclave contents n w \<Longrightarrow> tee_att_get_platform_info (quote_library w) ctx has_info x = (ret, info, x')
    \<Longrightarrow> api_step contents n x x'"
| handle: "same_enclave contents n w \<Longrightarrow> tee_att_get_qpl_handle (quote_library w) ctx has_handle x = (ret, h, x')
    \<Longrightarrow> api_step contents n x x'"

lemma same_size: "tw_sizeof_sealed_data w = tw_sizeof_sealed_data w' \<Longrightarrow> members_wf w s = members_wf w' s"
  by (simp add: members_wf_def td_blob_size_def)

lemma run_keeps:
  assumes "triple (members_wf w) m (\<lambda>y s. members_wf w s \<and> Q y s) (\<lambda>_. members_wf w)" "members_wf w (fst x)" "run m x = (ret, y, x')"
  shows "members_wf w (fst x') \<and> snd x' = snd x"
proof -
  have "wp m (\<lambda>y s. members_wf w s \<and> Q y s) (\<lambda>_. members_wf w) (fst x)" using assms(1,2) by (simp add: triple_def)
  then show ?thesis using assms(3) by (auto simp: wp_def run_def split: prod.splits outcome.splits)
qed

lemma get_quote_size_wlp:
  assumes "world_wf contents w" "members_wf w s"
  shows "wlp (get_quote_size w ctx kt has_size)
      (\<lambda>_ s. members_wf w s \<and> (tw_mutex w Lock_blob \<longrightarrow> (\<exists>k. out_quote_size s = Some k \<and> size_told w (m_att_key_algorithm_id ctx) k)))
      (\<lambda>_. members_wf w) s"
    and "m_att_key_algorithm_id ctx = SGX_QL_ALG_ECDSA_P256 \<Longrightarrow> wp (get_quote_size w ctx kt has_size) (\<lambda>_. members_wf w) (\<lambda>_. members_wf w) s"
proof -
  let ?Q = "\<lambda>_ s. members_wf w s \<and> (tw_mutex w Lock_blob \<longrightarrow> (\<exists>k. out_quote_size s = Some k \<and> size_told w (m_att_key_algorithm_id ctx) k))"
  have e: "wp (ecdsa_get_quote_size w ctx kt has_size) ?Q (\<lambda>_. members_wf w) s" if a: "m_att_key_algorithm_id ctx = SGX_QL_ALG_ECDSA_P256"
    by (rule ecdsa_size_triple [OF assms(1) a assms(2)]) (simp_all add: a)
  have m: "wlp (mldsa_get_quote_size w ctx kt has_size) ?Q (\<lambda>_. members_wf w) s" if a: "is_mldsa (m_att_key_algorithm_id ctx)"
    by (rule mldsa_size_triple [OF assms(1) a assms(2)]) simp_all
  show "wlp (get_quote_size w ctx kt has_size) ?Q (\<lambda>_. members_wf w) s"
    using e m assms(2) by (auto simp: get_quote_size_def wp_simps intro!: wlp_wp)
  show "wp (get_quote_size w ctx kt has_size) (\<lambda>_. members_wf w) (\<lambda>_. members_wf w) s"
    if "m_att_key_algorithm_id ctx = SGX_QL_ALG_ECDSA_P256"
    using wp_mono [OF e [OF that]] that by (simp add: get_quote_size_def)
qed

lemma size_keeps:
  assumes "world_wf contents w" "members_wf w (fst x)" "run (get_quote_size w c kt True) x = (ret, y, x')"
    "m_att_key_algorithm_id c \<noteq> SGX_QL_ALG_ECDSA_P256 \<Longrightarrow> snd x \<longrightarrow> snd x'" "snd x"
  shows "members_wf w (fst x') \<and> snd x'"
proof (cases "m_att_key_algorithm_id c = SGX_QL_ALG_ECDSA_P256")
  case True
  then show ?thesis
    using get_quote_size_wlp(2) [OF assms(1,2) True, where kt = kt and has_size = True] assms(3,5)
    by (auto simp: wp_def run_def split: prod.splits outcome.splits)
next
  case False
  then show ?thesis
    using get_quote_size_wlp(1) [OF assms(1,2), where kt = kt and has_size = True and ctx = c] assms(3-5)
    by (auto simp: wlp_def wp_def run_def split: prod.splits outcome.splits)
qed

lemma caller_buffers:
  "length t = 512 \<Longrightarrow> members_wf w s \<Longrightarrow> members_wf w (s\<lparr>out_target_info := t, out_pub_key_id := None\<rparr>)"
  "members_wf w s \<Longrightarrow> members_wf w (s\<lparr>out_quote_size := q\<rparr>)" "members_wf w s \<Longrightarrow> members_wf w (s\<lparr>out_quote := b\<rparr>)"
  by (simp_all add: members_wf_def)

text \<open>The methods in the record, whatever the API does around them.\<close>

lemma library_keeps:
  assumes "world_wf contents w" "members_wf w (fst x)" "snd x"
  shows "cm_init_quote (quote_library w) c kt refresh x = (ret, key, x') \<Longrightarrow> members_wf w (fst x') \<and> snd x'"
    and "report_wf (tw_read_report2 w report) \<Longrightarrow> cm_get_quote (quote_library w) c report k x = (ret, q, x')
      \<Longrightarrow> members_wf w (fst x') \<and> snd x'"
    and "cm_get_platform_info (quote_library w) c x = (ret, i, x') \<Longrightarrow> members_wf w (fst x') \<and> snd x'"
    and "cm_get_qpl_handle (quote_library w) c x = (h, x') \<Longrightarrow> members_wf w (fst x') \<and> snd x'"
    and "cm_get_quote_size (quote_library w) c kt x = (ret, n, x')
      \<Longrightarrow> (m_att_key_algorithm_id c \<noteq> SGX_QL_ALG_ECDSA_P256 \<Longrightarrow> snd x \<longrightarrow> snd x') \<Longrightarrow> members_wf w (fst x') \<and> snd x'"
proof -
  note wf = assms(2) and ok = assms(3)
  show "cm_init_quote (quote_library w) c kt refresh x = (ret, key, x') \<Longrightarrow> members_wf w (fst x') \<and> snd x'"
    using run_keeps [OF init_triple [OF assms(1)], of "with_members (\<lambda>s. s\<lparr>out_target_info := replicate 512 0, out_pub_key_id := None\<rparr>) x"]
      caller_buffers(1) [OF _ wf] ok
    by (auto simp: quote_library_def with_members_def split: prod.splits)
  show "report_wf (tw_read_report2 w report) \<Longrightarrow> cm_get_quote (quote_library w) c report k x = (ret, q, x')
      \<Longrightarrow> members_wf w (fst x') \<and> snd x'"
    using run_keeps [OF get_quote_triple [OF assms(1), where rep = "Some report"],
        of "with_members (\<lambda>s. s\<lparr>out_quote := replicate (unat k) 0\<rparr>) x"] caller_buffers(3) [OF wf] ok
    by (auto simp: quote_library_def with_members_def split: prod.splits)
  show "cm_get_platform_info (quote_library w) c x = (ret, i, x') \<Longrightarrow> members_wf w (fst x') \<and> snd x'"
    using run_keeps [where Q = "\<lambda>_ _. True", OF _ wf, of "get_platform_info w c"] platform_info_triple [OF assms(1)] ok
    by (auto simp: quote_library_def split: prod.splits)
  show "cm_get_qpl_handle (quote_library w) c x = (h, x') \<Longrightarrow> members_wf w (fst x') \<and> snd x'"
  proof -
    have "triple (members_wf w) (get_qpl_handle w c) (\<lambda>y s. members_wf w s \<and> True) (\<lambda>_. members_wf w)"
      by (rule tripleI, rule keep_wf [OF get_qpl_handle_keeps], assumption) simp_all
    then show "cm_get_qpl_handle (quote_library w) c x = (h, x') \<Longrightarrow> members_wf w (fst x') \<and> snd x'"
      using run_keeps [where Q = "\<lambda>_ _. True", OF _ wf, of "get_qpl_handle w c"] ok
      by (auto simp: quote_library_def split: prod.splits)
  qed
  show "members_wf w (fst x') \<and> snd x'" if "cm_get_quote_size (quote_library w) c kt x = (ret, n, x')"
    "m_att_key_algorithm_id c \<noteq> SGX_QL_ALG_ECDSA_P256 \<Longrightarrow> snd x \<longrightarrow> snd x'"
  proof -
    note call = that(1)
    obtain y where y: "run (get_quote_size w c kt True) (with_members (\<lambda>s. s\<lparr>out_quote_size := None\<rparr>) x) = (ret, y, x')"
      using call by (auto simp: quote_library_def split: prod.splits)
    show ?thesis
      by (rule size_keeps [OF assms(1) _ y]) (use that(2) ok caller_buffers(2) [OF wf] in \<open>auto simp: with_members_def\<close>)
  qed
qed

lemma api_step_keeps:
  assumes "api_step contents n x x'" "tw_sizeof_sealed_data w0 = n" "snd x" "members_wf w0 (fst x)"
  shows "snd x' \<and> members_wf w0 (fst x')"
  using assms(1)
proof cases
  case (init w sdk ctx refresh k has_id ret k' key_id)
  then show ?thesis
    using library_keeps(1) [of contents w x] same_size [of w w0] assms(2-4)
    by (auto simp: same_enclave_def tee_att_init_quote_def split: option.splits if_splits prod.splits)
next
  case (size w sdk ctx has_size ret k)
  have "snd x' \<and> members_wf w0 (fst x')"
    if "ctx = Some c" "cm_get_quote_size (quote_library w) c PPID_RSA3072_ENCRYPTED x = (ret, k, x')" for c ret k
    using library_keeps(5) [OF _ _ assms(3) that(2)] size(1,3) that(1) same_size [of w w0] assms(2-4) by (auto simp: same_enclave_def)
  then show ?thesis
    using size(2) assms(3,4) by (auto simp: tee_att_get_quote_size_def split: option.splits if_splits prod.splits)
next
  case (quote w sdk ctx report report_size k ret quote)
  then show ?thesis
    using library_keeps(2) [of contents w x] same_size [of w w0] assms(2-4)
    by (auto simp: same_enclave_def tee_att_get_quote_def split: option.splits if_splits prod.splits)
next
  case (info w ctx has_info ret info)
  then show ?thesis
    using library_keeps(3) [of contents w x] same_size [of w w0] assms(2-4)
    by (auto simp: same_enclave_def tee_att_get_platform_info_def split: option.splits if_splits prod.splits)
next
  case (handle w ctx has_handle ret h)
  then show ?thesis
    using library_keeps(4) [of contents w x] same_size [of w w0] assms(2-4)
    by (auto simp: same_enclave_def tee_att_get_qpl_handle_def split: option.splits if_splits prod.splits)
qed

lemma new_members_wf: "members_wf w (td_new w)"
  by (simp add: members_wf_def td_new_def)

end
