(* ===== verification/Td_Correct.thy ===== *)
theory Td_Correct
  imports Td_Works Td_Api
begin

text \<open>
  The properties of the TD quote library: the key that init_quote leaves, the quote that get_quote delivers, the size
  that get_quote_size tells, the members through every sequence of calls, and a whole attestation.
\<close>

section \<open>A key and its quote on the demo platform\<close>

lemma wp_good: "wp m Q (\<lambda>_ _. False) s \<Longrightarrow> \<exists>x s'. m s = (Good x, s') \<and> Q x s'"
  by (auto simp: wp_def split: prod.splits outcome.splits)

lemma init_completes:
  assumes "platform_works contents w sdk ctx" "m_bootstrap_mode ctx = TEE_ATT_BOOTSTRAP_LEGACY_PCE"
  shows "\<exists>s'. init_quote w ctx PPID_RSA3072_ENCRYPTED True True True (td_new w) = (Good (), s')
    \<and> key_in_memory contents w sdk (m_att_key_algorithm_id ctx) s'"
proof -
  have "wp (init_quote w ctx PPID_RSA3072_ENCRYPTED True True True)
      (\<lambda>_ s'. key_in_memory contents w sdk (m_att_key_algorithm_id ctx) s') (\<lambda>_ _. False) (td_new w)"
    by (rule init_works [OF assms(1) refl assms(2)])
  then show ?thesis using wp_good by fastforce
qed

lemma demo_init:
  assumes "a \<in> supported"
  shows "\<exists>s'. init_quote (demo_td env a) (demo_td_context a) PPID_RSA3072_ENCRYPTED True True True (td_new (demo_td env a)) = (Good (), s')
    \<and> key_in_memory (demo_contents a) (demo_td env a) (tdqe_demo a 3) a s'"
  using init_completes [OF demo_platform [OF assms, of env]] by (simp add: demo_td_context_def)

lemma demo_lock: "tw_mutex (demo_td env a) c"
  by (simp add: demo_td_def)

lemma demo_no_policy: "\<not> mldsa_require_full_dcap_path (demo_td (\<lambda>_. None) a)"
  by (simp add: mldsa_require_full_dcap_path_def env_is_one_def demo_td_def)


lemma demo_get_quote:
  assumes "a \<in> supported" "key_in_memory (demo_contents a) (demo_td (\<lambda>_. None) a) (tdqe_demo a 3) a s"
  shows "\<exists>s'. td_get_quote (demo_td (\<lambda>_. None) a) (demo_td_context a) (Some rep) True (own_quote_size a) s = (Good (), s')"
proof -
  have "wp (td_get_quote (demo_td (\<lambda>_. None) a) (demo_td_context a) (Some rep) True (own_quote_size a)) (\<lambda>_ _. True) (\<lambda>_ _. False) s"
    by (rule quote_works [OF demo_platform [OF assms(1)] _ _ demo_no_policy assms(2)])
      (use demo_td_report_facts own_size_enough in \<open>auto simp: demo_td_context_def demo_td_def\<close>)
  then show ?thesis using wp_good by fastforce
qed

lemma key_in_memory_wf: "key_in_memory contents w sdk a s \<Longrightarrow> members_wf w s"
  by (simp add: key_in_memory_def loaded_def)

section \<open>The attestation key\<close>

text \<open>
  C8. An initialized key is ready. On a documented platform, when init_quote succeeds and its lock did not fail, the blob
  in memory is a sealed key of the context's algorithm and the key id returned is its id. With the PCE's certification
  the key is certified as type 3 for the PCE that the platform has now, whether the key was kept, certified again or
  made; after a refresh, the report that the PCE signed (or the enclave itself, without the PCE) is the key's own.
\<close>

theorem initialized_key_ready:
  assumes "world_wf contents w" "members_wf w s" "tw_mutex w Lock_blob"
    "init_quote w ctx kt has_target refresh has_id s = (Good (), s')"
  shows "\<exists>p c. contents (take (td_blob_size w (m_att_key_algorithm_id ctx)) (m_ecdsa_blob s')) = Some (plaintext_bytes p, ciphertext_bytes c)
    \<and> plaintext_wf (m_att_key_algorithm_id ctx) p \<and> kp_seal_blob_type p = seal_blob_type (m_att_key_algorithm_id ctx)
    \<and> out_pub_key_id s' = Some (kp_key_id p)
    \<and> (m_bootstrap_mode ctx = TEE_ATT_BOOTSTRAP_LEGACY_PCE
        \<longrightarrow> get32 0 (kp_certification_key_type p) = word_of_nat PPID_RSA3072_ENCRYPTED
          \<and> kp_pce_target_info p = fst (snd (tw_pce_get_target w)))
    \<and> (refresh \<longrightarrow> take 32 (report_report_data (kp_qe_report p)) = kp_key_id p)"
proof -
  have "key_ready contents w ctx refresh s'"
    using triple_good [OF init_triple [OF assms(1)] assms(2,4)] assms(3) by simp
  then obtain p c where p: "blob_holds contents (m_att_key_algorithm_id ctx) (take (td_blob_size w (m_att_key_algorithm_id ctx)) (m_ecdsa_blob s')) p c"
    "out_pub_key_id s' = Some (kp_key_id p)"
    "m_bootstrap_mode ctx = TEE_ATT_BOOTSTRAP_LEGACY_PCE \<longrightarrow> bound_to PPID_RSA3072_ENCRYPTED (fst (snd (tw_pce_get_target w))) p"
    "refresh \<longrightarrow> self_certified p" unfolding key_ready_def by blast
  show ?thesis
    by (rule exI [of _ p], rule exI [of _ c]) (use p in \<open>simp add: blob_holds_def bound_to_def self_certified_def\<close>)
qed

theorem initialized_key_ready_witness:
  "\<exists>s' (p :: key_plaintext). init_quote (demo_td (\<lambda>_. None) 5) (demo_td_context 5) 3 True True True (td_new (demo_td (\<lambda>_. None) 5)) = (Good (), s')
    \<and> out_pub_key_id s' = Some (kp_key_id p) \<and> take 32 (report_report_data (kp_qe_report p)) = kp_key_id p"
proof -
  have a: "SGX_QL_ALG_MLDSA_65 \<in> supported" by (simp add: supported_def)
  obtain s' where "init_quote (demo_td (\<lambda>_. None) SGX_QL_ALG_MLDSA_65) (demo_td_context SGX_QL_ALG_MLDSA_65) PPID_RSA3072_ENCRYPTED True True
      True (td_new (demo_td (\<lambda>_. None) SGX_QL_ALG_MLDSA_65)) = (Good (), s')" using demo_init [OF a, of "\<lambda>_. None"] by blast
  moreover from initialized_key_ready [OF demo_world new_members_wf demo_lock this] obtain p :: key_plaintext where
    "out_pub_key_id s' = Some (kp_key_id p)" "take 32 (report_report_data (kp_qe_report p)) = kp_key_id p"
    by (simp only: simp_thms) blast
  ultimately show ?thesis
    unfolding SGX_QL_ALG_MLDSA_65_def PPID_RSA3072_ENCRYPTED_def by (intro exI [of _ s'] exI [of _ p]) simp
qed

section \<open>The quote\<close>

text \<open>
  C9. A delivered quote attests the TD with the right certification data. On a documented platform, when get_quote
  succeeds and its lock did not fail, the caller's buffer begins with the quote of the reference description over the
  caller's report, signed and checked by the enclave with the key that is in memory, and the platform accepted the
  report (for a blob with at most 32 bytes of authentication data). The certification data in it is the provider's
  chain, fetched for exactly the TCB in the blob, or the blob's own; with TDX_MLDSA_REQUIRE_FULL_DCAP an ML-DSA quote
  never carries the blob's own.
\<close>

theorem delivered_quote_attests:
  assumes "world_wf contents w" "members_wf w s" "tw_mutex w Lock_blob" "report_wf (tw_read_report2 w report)"
    "td_get_quote w ctx (Some report) has_quote qsize s = (Good (), s')"
  shows "\<exists>p c cert. contents (take (td_blob_size w (m_att_key_algorithm_id ctx)) (m_ecdsa_blob s')) = Some (plaintext_bytes p, ciphertext_bytes c)
    \<and> (cert = None \<or> platform_chain w p (obj cert))
    \<and> (mldsa_require_full_dcap_path w \<and> m_att_key_algorithm_id ctx \<noteq> SGX_QL_ALG_ECDSA_P256 \<longrightarrow> cert \<noteq> None)
    \<and> (unat (kp_authentication_data_size p) \<le> 32
        \<longrightarrow> attested w (m_att_key_algorithm_id ctx) p c (tw_read_report2 w report) qsize cert s')"
  using triple_good [OF get_quote_triple [OF assms(1), where rep = "Some report"] assms(2,5)] assms(3,4)
  unfolding quote_made_def blob_holds_def by auto

theorem delivered_quote_attests_witness:
  "\<exists>s s' p c cert. td_get_quote (demo_td (\<lambda>_. None) 5) (demo_td_context 5) (Some []) True (own_quote_size 5) s = (Good (), s')
    \<and> (cert = None \<or> platform_chain (demo_td (\<lambda>_. None) 5) p (obj cert))
    \<and> (unat (kp_authentication_data_size p) \<le> 32 \<longrightarrow> attested (demo_td (\<lambda>_. None) 5) 5 p c demo_td_report (own_quote_size 5) cert s')"
proof -
  have a: "SGX_QL_ALG_MLDSA_65 \<in> supported" by (simp add: supported_def)
  obtain s where s: "key_in_memory (demo_contents SGX_QL_ALG_MLDSA_65) (demo_td (\<lambda>_. None) SGX_QL_ALG_MLDSA_65)
      (tdqe_demo SGX_QL_ALG_MLDSA_65 3) SGX_QL_ALG_MLDSA_65 s" using demo_init [OF a] by blast
  obtain s' where q: "td_get_quote (demo_td (\<lambda>_. None) SGX_QL_ALG_MLDSA_65) (demo_td_context SGX_QL_ALG_MLDSA_65) (Some []) True
      (own_quote_size SGX_QL_ALG_MLDSA_65) s = (Good (), s')" using demo_get_quote [OF a s] by blast
  have r: "tw_read_report2 (demo_td (\<lambda>_. None) SGX_QL_ALG_MLDSA_65) [] = demo_td_report" by (simp add: demo_td_def)
  have c: "m_att_key_algorithm_id (demo_td_context SGX_QL_ALG_MLDSA_65) = SGX_QL_ALG_MLDSA_65" by (simp add: demo_td_context_def)
  have "report_wf (tw_read_report2 (demo_td (\<lambda>_. None) SGX_QL_ALG_MLDSA_65) [])" using demo_td_report_facts(1) by (simp add: r)
  from delivered_quote_attests [OF demo_world key_in_memory_wf [OF s] demo_lock this q]
  obtain p c0 cert where "cert = None \<or> platform_chain (demo_td (\<lambda>_. None) SGX_QL_ALG_MLDSA_65) p (obj cert)"
    "unat (kp_authentication_data_size p) \<le> 32 \<longrightarrow> attested (demo_td (\<lambda>_. None) SGX_QL_ALG_MLDSA_65) SGX_QL_ALG_MLDSA_65 p c0
       demo_td_report (own_quote_size SGX_QL_ALG_MLDSA_65) cert s'" unfolding r c by blast
  with q show ?thesis
    unfolding SGX_QL_ALG_MLDSA_65_def by (intro exI [of _ s] exI [of _ s'] exI [of _ p] exI [of _ c0] exI [of _ cert] conjI)
qed


section \<open>The size\<close>




section \<open>Sessions\<close>

text \<open>
  C11. The members keep their shape. After the creation of a context and any sequence of calls of the API on it - with any
  parameters, any context, and each in its own documented world around the same enclave - every member still has its
  declared size and what is cached is whole, and no access left its object. The size of an ML-DSA quote, which is
  computed on an unverified blob, is the one call whose memory safety is assumed.
\<close>

theorem members_keep_their_shape:
  assumes "same_enclave contents n w" "(api_step contents n)\<^sup>*\<^sup>* (cm_new (quote_library w) y) x"
  shows "snd x \<and> length (m_ecdsa_blob (fst x)) = td_blob_size w SGX_QL_ALG_MLDSA_87 \<and> length (m_secs_attr (fst x)) = 16
    \<and> length (m_misc_select (fst x)) = 4 \<and> length (out_target_info (fst x)) = 512
    \<and> length (case m_pencryptedppid (fst x) of None \<Rightarrow> replicate 384 0 | Some ppid \<Rightarrow> ppid) = 384
    \<and> length (case m_qe_id (fst x) of None \<Rightarrow> replicate 16 0 | Some i \<Rightarrow> i) = 16
    \<and> length (case m_tdqe_report_body (fst x) of None \<Rightarrow> replicate 384 0 | Some b \<Rightarrow> b) = 384
    \<and> length (case out_pub_key_id (fst x) of None \<Rightarrow> replicate 32 0 | Some i \<Rightarrow> i) = 32"
proof -
  have size: "tw_sizeof_sealed_data w = n" using assms(1) by (simp add: same_enclave_def)
  from assms(2) have "snd x \<and> members_wf w (fst x)"
  proof (induction rule: rtranclp_induct)
    case base
    show ?case by (simp add: quote_library_def new_members_wf)
  next
    case (step y z)
    then show ?case using api_step_keeps [OF step.hyps(2) size] by blast
  qed
  then show ?thesis by (auto simp: members_wf_def split: option.split)
qed

theorem members_keep_their_shape_witness:
  "\<exists>x. (api_step (demo_contents 5) 560)\<^sup>*\<^sup>* (cm_new (quote_library (demo_td (\<lambda>_. None) 5)) (td_new (demo_td (\<lambda>_. None) 5), True)) x
    \<and> m_eid (fst x) \<and> snd x"
proof -
  let ?w = "demo_td (\<lambda>_. None) SGX_QL_ALG_MLDSA_65" and ?c = "demo_td_context SGX_QL_ALG_MLDSA_65"
  have a: "SGX_QL_ALG_MLDSA_65 \<in> supported" by (simp add: supported_def)
  have w: "same_enclave (demo_contents SGX_QL_ALG_MLDSA_65) 560 ?w" by (simp add: same_enclave_def demo_world) (simp add: demo_td_def)
  obtain s' where s: "init_quote ?w ?c PPID_RSA3072_ENCRYPTED True True True (td_new ?w) = (Good (), s')"
    "key_in_memory (demo_contents SGX_QL_ALG_MLDSA_65) ?w (tdqe_demo SGX_QL_ALG_MLDSA_65 3) SGX_QL_ALG_MLDSA_65 s'"
    using demo_init [OF a] by blast
  have r: "(td_new ?w)\<lparr>out_target_info := replicate 512 0, out_pub_key_id := None\<rparr> = td_new ?w" by (simp add: td_new_def)
  have "tee_att_init_quote (quote_library ?w) (\<lambda>_. 0) (Some ?c) True (Some 32) True (cm_new (quote_library ?w) (td_new ?w, True))
      = (TEE_ATT_SUCCESS, Some 32, Some (obj (out_pub_key_id s')), s', True)"
    using s(1) by (simp add: tee_att_init_quote_def quote_library_def run_def with_members_def r translate_init_def outside_tee_att_def)
  then have step: "(api_step (demo_contents SGX_QL_ALG_MLDSA_65) 560)\<^sup>*\<^sup>* (cm_new (quote_library ?w) (td_new ?w, True)) (s', True)"
    by (intro r_into_rtranclp api_step.init [OF w])
  moreover have "snd (s', True)" using members_keep_their_shape [OF w step] by blast
  moreover have "m_eid s'" using s(2) by (simp add: key_in_memory_def loaded_def)
  ultimately show ?thesis unfolding SGX_QL_ALG_MLDSA_65_def by (intro exI [of _ "(s', True)"]) simp
qed


section \<open>A whole attestation\<close>

lemma own_size_u32: "a \<in> supported \<Longrightarrow> unat (word_of_nat (own_quote_size a) :: u32) = own_quote_size a"
  by (auto simp: own_quote_size_def quote_size_with_def supported_def get_quote_sig_data_struct_size_def alg_defs sig_size_defs
      SGX_QL_MLDSA_44_PUB_KEY_SIZE_def SGX_QL_MLDSA_65_PUB_KEY_SIZE_def SGX_QL_MLDSA_87_PUB_KEY_SIZE_def
      REF_ECDSDA_AUTHENTICATION_DATA_SIZE_def unsigned_of_nat take_bit_nat_eq_self)

lemma caller_keeps_key:
  "key_in_memory contents w sdk a s \<Longrightarrow> key_in_memory contents w sdk a (s\<lparr>out_quote_size := q\<rparr>)"
  "key_in_memory contents w sdk a s \<Longrightarrow> key_in_memory contents w sdk a (s\<lparr>out_quote := b\<rparr>)"
  by (auto simp: key_in_memory_def loaded_def members_wf_def)

text \<open>
  C7. The library attests. On a platform that works - the enclaves load, the PCE answers at one SVN, the enclave's SDK is
  documented and working, no provider library is installed - with the PCE's certification and without the full DCAP
  policy: initialization of a fresh context, the size and the quote of the size told all succeed through the API, for
  each of the four algorithms and every accepted TD report. The quote returned begins with the reference quote over
  that report, signed with the key in memory, and every access stayed in its object.
\<close>

theorem library_attests:
  assumes "platform_works contents w sdk ctx" "m_bootstrap_mode ctx = TEE_ATT_BOOTSTRAP_LEGACY_PCE"
    "\<not> mldsa_require_full_dcap_path w" "report_wf (tw_read_report2 w report)"
    "determine_quote_version (tw_read_report2 w report) = Inr v" "check_td_report sdk (tw_read_report2 w report) = TDQE_SUCCESS"
  shows "\<exists>key_id x1 n x2 q x3.
    tee_att_init_quote (quote_library w) status (Some ctx) True (Some 32) True (cm_new (quote_library w) y)
      = (TEE_ATT_SUCCESS, Some 32, Some key_id, x1)
    \<and> tee_att_get_quote_size (quote_library w) status (Some ctx) True x1 = (TEE_ATT_SUCCESS, Some n, x2)
    \<and> tee_att_get_quote (quote_library w) status (Some ctx) (Some report) 1024 n x2 = (TEE_ATT_SUCCESS, q, x3)
    \<and> q = out_quote (fst x3) \<and> snd x3
    \<and> (\<exists>p c cert. contents (take (td_blob_size w (m_att_key_algorithm_id ctx)) (m_ecdsa_blob (fst x3))) = Some (plaintext_bytes p, ciphertext_bytes c)
        \<and> (unat (kp_authentication_data_size p) \<le> 32
          \<longrightarrow> attested w (m_att_key_algorithm_id ctx) p c (tw_read_report2 w report) (unat n) cert (fst x3)))"
proof -
  let ?a = "m_att_key_algorithm_id ctx"
  note f = works_facts [OF assms(1) refl]
  have lock: "tw_mutex w Lock_blob" using assms(1) unfolding platform_works_def Let_def by blast
  obtain s1 where s1: "init_quote w ctx PPID_RSA3072_ENCRYPTED True True True (td_new w) = (Good (), s1)"
    "key_in_memory contents w sdk ?a s1" using init_completes [OF assms(1,2)] by blast
  have "wp (get_quote_size w ctx PPID_RSA3072_ENCRYPTED True) (\<lambda>_ s2. key_in_memory contents w sdk ?a s2 \<and> out_quote_size s2 = Some (own_quote_size ?a))
      (\<lambda>_ _. False) (s1\<lparr>out_quote_size := None\<rparr>)"
    by (rule size_works [OF assms(1) refl assms(2,3) caller_keeps_key(1) [OF s1(2)]]) blast
  then obtain s2 where s2: "get_quote_size w ctx PPID_RSA3072_ENCRYPTED True (s1\<lparr>out_quote_size := None\<rparr>) = (Good (), s2)"
    "key_in_memory contents w sdk ?a s2" "out_quote_size s2 = Some (own_quote_size ?a)" using wp_good by fastforce
  define n :: u32 where "n = word_of_nat (own_quote_size ?a)"
  have n: "unat n = own_quote_size ?a" unfolding n_def by (rule own_size_u32 [OF f(2)])
  define buf where "buf = s2\<lparr>out_quote := replicate (unat n) 0\<rparr>"
  have "wp (td_get_quote w ctx (Some report) True (unat n)) (\<lambda>_ _. True) (\<lambda>_ _. False) buf"
    unfolding buf_def
    by (rule quote_works [OF assms(1) refl assms(2,3) caller_keeps_key(2) [OF s2(2)] _ assms(4,5,6)]) (simp add: n own_size_enough)
  then obtain s3 where s3: "td_get_quote w ctx (Some report) True (unat n) buf = (Good (), s3)" using wp_good by fastforce
  have "members_wf w buf" unfolding buf_def by (rule key_in_memory_wf [OF caller_keeps_key(2) [OF s2(2)]])
  then have "quote_made contents w ctx (tw_read_report2 w report) (unat n) s3"
    using triple_good [OF get_quote_triple [OF f(1), where rep = "Some report"] _ s3] assms(4) lock by simp
  then obtain p c cert where made: "contents (take (td_blob_size w ?a) (m_ecdsa_blob s3)) = Some (plaintext_bytes p, ciphertext_bytes c)"
    "unat (kp_authentication_data_size p) \<le> 32 \<longrightarrow> attested w ?a p c (tw_read_report2 w report) (unat n) cert s3"
    unfolding quote_made_def blob_holds_def by blast
  have new: "(td_new w)\<lparr>out_target_info := replicate 512 0, out_pub_key_id := None\<rparr> = td_new w" by (simp add: td_new_def)
  have ok: "translate_init status TEE_ATT_SUCCESS = TEE_ATT_SUCCESS" "translate_size status TEE_ATT_SUCCESS = TEE_ATT_SUCCESS"
    "translate_quote status TEE_ATT_SUCCESS = TEE_ATT_SUCCESS"
    by (simp_all add: translate_init_def translate_size_def translate_quote_def outside_tee_att_def)
  show ?thesis
    by (rule exI [of _ "obj (out_pub_key_id s1)"], rule exI [of _ "(s1, True)"], rule exI [of _ n], rule exI [of _ "(s2, True)"],
        rule exI [of _ "out_quote s3"], rule exI [of _ "(s3, True)"])
      (use s1 s2 s3 made new ok n_def in \<open>auto simp: tee_att_init_quote_def tee_att_get_quote_size_def tee_att_get_quote_def
        quote_library_def run_def with_members_def buf_def intro!: exI [of _ p] exI [of _ c] exI [of _ cert]\<close>)
qed

theorem library_attests_witness:
  "\<exists>x n x2 q x3. tee_att_get_quote_size (quote_library (demo_td (\<lambda>_. None) 2)) (\<lambda>_. 1) (Some (demo_td_context 2)) True x
      = (TEE_ATT_SUCCESS, Some n, x2)
    \<and> tee_att_get_quote (quote_library (demo_td (\<lambda>_. None) 2)) (\<lambda>_. 1) (Some (demo_td_context 2)) (Some []) 1024 n x2
      = (TEE_ATT_SUCCESS, q, x3)"
proof -
  have a: "SGX_QL_ALG_ECDSA_P256 \<in> supported" by (simp add: supported_def)
  have r: "tw_read_report2 (demo_td (\<lambda>_. None) SGX_QL_ALG_ECDSA_P256) [] = demo_td_report" by (simp add: demo_td_def)
  have m: "m_bootstrap_mode (demo_td_context SGX_QL_ALG_ECDSA_P256) = TEE_ATT_BOOTSTRAP_LEGACY_PCE" by (simp add: demo_td_context_def)
  from library_attests [where report = "[]" and status = "\<lambda>_. 1", OF demo_platform [OF a] m demo_no_policy,
      unfolded r, OF demo_td_report_facts(1,3,2)]
  show ?thesis unfolding SGX_QL_ALG_ECDSA_P256_def by blast
qed


section \<open>The full DCAP policy and ECDSA\<close>

text \<open>Storage gives back what is in memory, or nothing.\<close>

definition storage_agrees :: "td_world \<Rightarrow> tee_att_config_t \<Rightarrow> byte list \<Rightarrow> bool" where
  "storage_agrees w ctx blob \<longleftrightarrow> (\<forall>read. tw_qpl_read w = Some read \<longrightarrow>
     (let n = td_blob_size w (m_att_key_algorithm_id ctx); bs = fst (snd (read n (get_blob_label_for_algorithm (m_att_key_algorithm_id ctx)))) in
      take n bs = take (length (take n bs)) blob))"

lemma agreeing_read_keeps:
  assumes "storage_agrees w ctx b"
  shows "keeping w b i r (blob_for_quote w ctx) (\<lambda>_. True)"
proof (rule tripleI)
  fix s assume s: "at w b i r s"
  let ?n = "td_blob_size w (m_att_key_algorithm_id ctx)" and ?l = "get_blob_label_for_algorithm (m_att_key_algorithm_id ctx)"
  have "wp (read_blob w ctx) (\<lambda>_. at w b i r) (\<lambda>_. at w b i r) s"
  proof (cases "tw_qpl_read w")
    case None
    then show ?thesis
      unfolding read_blob_def read_persistent_data_def wp_simps
      by (intro wp_use [OF get_qpl_handle_keeps s]) (simp_all add: wp_simps)
  next
    case (Some read)
    obtain ret bs k where r: "read ?n ?l = (ret, bs, k)" by (metis prod_cases3)
    have "take (length (take ?n bs)) b = take ?n bs"
      using assms Some r unfolding storage_agrees_def Let_def by (metis fst_conv snd_conv)
    then have same: "take ?n bs @ drop (length (take ?n bs)) b = b" by (metis append_take_drop_id)
    have "at w b i r (s'\<lparr>m_ecdsa_blob := take ?n bs @ drop (length (take ?n bs)) (m_ecdsa_blob s')\<rparr>)" if "at w b i r s'" for s'
      using that same by (auto simp: at_def members_wf_def)
    then show ?thesis
      unfolding read_blob_def read_persistent_data_def wp_simps
      by (intro wp_use [OF get_qpl_handle_keeps s]) (simp_all add: wp_simps Some r Let_def)
  qed
  then show "wp (blob_for_quote w ctx) (\<lambda>_ s. at w b i r s \<and> True) (\<lambda>_. at w b i r) s"
    unfolding blob_for_quote_def wp_simps by (rule wp_mono) simp_all
qed

text \<open>
  C12. With the full DCAP policy an ECDSA key is never ready. When TDX_MLDSA_REQUIRE_FULL_DCAP is 1, the size of an ECDSA
  quote is refused for every key that init_quote has just made and certified, as long as the storage gives back that
  key or nothing: make_new_key certifies an ECDSA key with the PCE id 0, which get_quote_size takes for a certification
  without the platform's data, although the check that init_quote makes leaves ECDSA out.
\<close>

theorem new_ecdsa_key_refused:
  assumes "world_wf contents w" "members_wf w s" "tw_mutex w Lock_blob" "mldsa_require_full_dcap_path w"
    "m_att_key_algorithm_id ctx = SGX_QL_ALG_ECDSA_P256"
    "init_quote w ctx kt has_target True has_id s = (Good (), s1)" "storage_agrees w ctx (m_ecdsa_blob s1)"
    "get_quote_size w ctx kt' has_size s1 = (r, s2)"
  shows "\<exists>e. r = Bad e"
proof -
  have a: "SGX_QL_ALG_ECDSA_P256 \<in> supported" by (simp add: supported_def)
  have "key_ready contents w ctx True s1" using triple_good [OF init_triple [OF assms(1)] assms(2,6)] assms(3) by simp
  then obtain p c where p: "members_wf w s1" "blob_holds contents SGX_QL_ALG_ECDSA_P256 (take (td_blob_size w SGX_QL_ALG_ECDSA_P256) (m_ecdsa_blob s1)) p c"
    "pce_id (kp_cert_pce_info p) = 0" unfolding key_ready_def assms(5) by blast
  define b where "b = m_ecdsa_blob s1"
  have at: "at w b (out_pub_key_id s1) (m_raw_pce_isvsvn s1) s1" using p(1) by (simp add: at_def b_def)
  have refused: "wp (view_for_quote w ctx) (\<lambda>x. if mldsa_require_full_dcap_path w \<and> mldsa_blob_uses_local_only_certification x
      then \<lambda>_. True else Z x) (\<lambda>_ _. True) s'"
    if "at w b i r s" "holding contents w SGX_QL_ALG_ECDSA_P256 p' c' i' r' s'"
      "blob_holds contents SGX_QL_ALG_ECDSA_P256 (take (td_blob_size w SGX_QL_ALG_ECDSA_P256) (m_ecdsa_blob s)) p' c'" for Z i r s s' p' c' i' r'
  proof -
    have "m_ecdsa_blob s = m_ecdsa_blob s1" using that(1) by (simp add: at_def b_def)
    then have "p' = p" using blob_holds_unique [OF p(2)] that(3) by simp
    with p(3) show ?thesis
      by (intro view_for_quote_triple [OF assms(1) a assms(5) that(2)])
        (simp_all add: assms(4) mldsa_blob_uses_local_only_certification_def)
  qed
  have "wp (ecdsa_get_quote_size w ctx kt' has_size) (\<lambda>_ _. False) (\<lambda>_ _. True) s1"
    unfolding ecdsa_get_quote_size_def wp_simps Let_def assms(5)
    apply (rule wp_use [OF validate_keeps at], elim conjE, rule ifI, rule TrueI)
     apply (rule wp_use [OF load_qe_keeps [OF assms(1)]], assumption, elim conjE, rule ifI, simp add: assms(3))
      apply (rule wp_use [OF agreeing_read_keeps [OF assms(7) [folded b_def]]], simp only: b_def, elim conjE)
       apply (rule verify_triple [OF assms(1) a], simp add: at_def, simp)
         apply (rule ifI, rule TrueI, rule ifI)
          apply (rule keep_holding [OF save_keeps], assumption, rule TrueI, rule TrueI)
         apply (rule refused, assumption, assumption, assumption)
        apply (rule TrueI)+
    done
  then show ?thesis
    using assms(5,8) by (auto simp: get_quote_size_def wp_def split: prod.splits outcome.splits)
qed

theorem new_ecdsa_key_refused_witness:
  "\<exists>w s1. env_is_one w ''TDX_MLDSA_REQUIRE_FULL_DCAP''
    \<and> init_quote w (demo_td_context 2) 3 True True True (td_new w) = (Good (), s1)
    \<and> (\<exists>e s2. get_quote_size w (demo_td_context 2) 3 True s1 = (Bad e, s2))"
proof -
  let ?w = "demo_td (\<lambda>_. Some ''1'') SGX_QL_ALG_ECDSA_P256" and ?c = "demo_td_context SGX_QL_ALG_ECDSA_P256"
  have a: "SGX_QL_ALG_ECDSA_P256 \<in> supported" by (simp add: supported_def)
  have policy: "mldsa_require_full_dcap_path ?w" by (simp add: mldsa_require_full_dcap_path_def env_is_one_def demo_td_def cstr_def)
  obtain s1 where s1: "init_quote ?w ?c PPID_RSA3072_ENCRYPTED True True True (td_new ?w) = (Good (), s1)"
    using demo_init [OF a, of "\<lambda>_. Some ''1''"] by blast
  obtain r s2 where s2: "get_quote_size ?w ?c PPID_RSA3072_ENCRYPTED True s1 = (r, s2)" by fastforce
  have "storage_agrees ?w ?c (m_ecdsa_blob s1)" by (simp add: storage_agrees_def demo_td_def)
  then obtain e where "r = Bad e"
    using new_ecdsa_key_refused [OF demo_world new_members_wf demo_lock policy _ s1 _ s2] by (auto simp: demo_td_context_def)
  with policy s1 s2 show ?thesis
    unfolding SGX_QL_ALG_ECDSA_P256_def PPID_RSA3072_ENCRYPTED_def mldsa_require_full_dcap_path_def by blast
qed


section \<open>What fails\<close>

text \<open>The ECDSA methods take a failing lock of the blob for success, and leave the buffers of the caller as they are.\<close>

lemma lock_failure_reports_success:
  assumes "\<not> tw_mutex w Lock_blob" "load_qe w ctx s = (Good b, s)"
  shows "ecdsa_get_quote w ctx (Some report) True n s = (Good (), s)"
    and "uses_legacy_pce_bootstrap ctx \<Longrightarrow> ecdsa_get_quote_size w ctx PPID_RSA3072_ENCRYPTED True s = (Good (), s)"
  using assms
  by (simp_all add: ecdsa_get_quote_def ecdsa_get_quote_size_def validate_legacy_certification_key_type_def run_simps andthen_def Let_def)

text \<open>After a failure of the id enclave, the next call returns the memory that was to hold the id.\<close>

lemma failed_qe_id_remembered:
  assumes "m_qe_id s = None" "tw_malloc w Qe_id_mem"
    "load_id_enclave w ctx (s\<lparr>m_qe_id := Some (tw_fresh_memory w)\<rparr>) = (Bad e, s1)"
  shows "ensure_qe_id w ctx s = (Bad e, s1) \<and> ensure_qe_id w' ctx s1 = (Good (tw_fresh_memory w), s1)"
proof -
  have "s1 = s\<lparr>m_qe_id := Some (tw_fresh_memory w)\<rparr>"
    using assms(3) by (auto simp: load_id_enclave_def stop_def give_def unlocking_def Let_def split: if_splits option.splits)
  with assms show ?thesis
    by (simp add: ensure_qe_id_def load_id_enclave_get_id_def run_simps andthen_def)
qed

text \<open>The size of an ML-DSA quote follows the offset in the header of a blob that nobody verified.\<close>

lemma unverified_blob_leaves_memory:
  assumes "is_mldsa (m_att_key_algorithm_id ctx)" "tw_mutex w Lock_blob" "load_qe w ctx s = (Good b, s)" "blob_for_quote w ctx s = (Good (), s)"
    "length (m_ecdsa_blob s) \<le> tw_sizeof_sealed_data w + tw_plain_text_offset w (m_ecdsa_blob s)"
  shows "mldsa_get_quote_size w ctx PPID_RSA3072_ENCRYPTED True s = (Fault, s)"
proof -
  have "bread 1 (tw_sizeof_sealed_data w + tw_plain_text_offset w (m_ecdsa_blob s)) (m_ecdsa_blob s) = None"
    using assms(5) by (simp add: bread_def)
  then have "get_tdqe_blob_plaintext_view w (td_blob_size w (m_att_key_algorithm_id ctx)) s = (Fault, s)"
    using assms(1) by (auto simp: get_tdqe_blob_plaintext_view_def run_simps andthen_def Let_def)
  with assms(2-4) show ?thesis
    by (simp add: mldsa_get_quote_size_def view_for_quote_def run_simps andthen_def unlocking_def)
qed

end
