(* ===== verification/Spec2Isabelle.thy ===== *)
theory Spec2Isabelle
  imports Qgs_Correct Tdx_Correct Qgs_Service Pck_Correct Servtd_Correct Le_Proxy_Correct Sgxsign_Correct Bin2c Tdqe_Service Td_Correct
begin

text \<open>
  A model of the parts of Intel SGX/TDX Data Center Attestation Primitives that carry an attestation
  from a trust domain to a quote, and of the parts that decide which enclaves may launch.

  \<^bold>\<open>The program.\<close> A trust domain (TD) asks libtdx_attest for a quote (tdx_attest.c). The library obtains a
  TD report from the kernel, packs it into a request of the QGS message library (qgs_msg_lib.cpp) and
  sends it over the first transport that answers: a local QGS socket, vsock, configfs-tsm, or a TDCALL
  ioctl served by the VMM. The quote generation service unpacks the request, has the TD quote library
  (quote_wrapper/tdx_quote) sign the report, and packs the response. The quote library keeps the attestation key: it
  loads the TD quoting enclave (ae/tdqe), stores the sealed key, has the PCE certify it, and asks the provider library
  for the platform's certificates; the enclave makes, checks and uses the key. A service TD uses the same messages through a
  TDVMCALL (tdx_attest.c under SERVTD_ATTEST, tdx_verify.c, servtd_attest_wrapper.cpp), for quotes and for
  verification collateral. On Windows, the launch control driver (driver/win/FLCMSR) installs the hash of
  the launch enclave's signer in the processors, and the production launch enclave (driver/win/PLE) issues
  the tokens with which enclaves start, on the requests of a user-mode driver (driver/win/WinLeProxyUMDF). Provisioning tools choose the PCK certificate of a platform by its TCB
  (tools/PCKCertSelection).

  \<^bold>\<open>Theories and code.\<close>

  \<^descr> Prelude: bytes, words, the outcome of a C function (\<open>Good\<close>, \<open>Bad\<close> with the error code,
    \<open>Fault\<close> for an access outside an object), integer layouts, bounded reads and writes.
  \<^descr> Qgs_Msg, Qgs_Ops: qgs_msg_lib.h and qgs_msg_lib.cpp, one record per packed structure and one
    definition per gen and inflate function, sizes at their C width.
  \<^descr> Qgs_Codec, Qgs_Correct: when the inflaters accept, the codec contract (locale \<open>msg_codec\<close>,
    interpreted on the five messages with a body), and its consequences: round trips through the framed wire
    format, memory safety on arbitrary bytes, error responses, the limits of the 32-bit size sum.
  \<^descr> Tdx_Types, Tdx_Config: tdx_attest.h, the head of tdx_attest.c, its environment switches, the key id
    helpers and the parser of the vsock port (get_vsock_port).
  \<^descr> Tdx_Transport: vsock_get_quote_payload, local_qgs_get_quote_payload, tdcall_get_quote_payload,
    generate_get_quote_blob, extract_quote_from_blob_payload. The request buffer is one list of bytes,
    which each transport returns updated, since the code shares it.
  \<^descr> Tdx_Configfs: prepare_configfs, read_configfs_generation, configfs_get_quote.
  \<^descr> Tdx_Attest: tdx_att_get_report, tdx_att_get_quote (one definition per transport attempt, in the order
    of the code), tdx_att_free_quote, tdx_att_get_supported_att_key_ids, tdx_att_extend.
  \<^descr> Tdx_Flow, Tdx_Safe, Tdx_Paths, Tdx_Correct: the contract of a payload transport (locale
    \<open>payload_transport\<close>, interpreted on vsock and on the local socket), the balance and the safety of
    every stage, and the properties of the library: resources, memory safety, the ML-DSA fallback policy, key ids, delivery
    of the quote, the receive loop, the shared buffer, freshness of a configfs quote, the request that
    goes out, the port, and the measurement registers.
  \<^descr> Td_Wrapper: the API of the TD quote library (td_ql_wrapper.cpp): contexts and their keys and paths, the
    entry points, the translation of enclave and SDK errors.
  \<^descr> Qgs_Logic, Qgs_Server: the quote generation service: qgs_ql_logic.cpp (key selection, the thread's
    context, quote, collateral and platform information requests, raw reports) and the connections of
    qgs_server.cpp.
  \<^descr> Qgs_Serve, Qgs_Service: the contract of a context factory (locale \<open>context_factory\<close>, interpreted on
    tee_att_create_context and tee_att_get_keyid), the states of a service thread (\<open>thread_state\<close>), and the
    properties of the service: a request served end to end with tdx_attest.c, the invariant of a thread's
    context, the certification policy, the walk over a quote's certification data, requests in pieces,
    requests without a key, failures without an answer, the codes the API reports.
  \<^descr> Pck_Select, Pck_Correct: the PCK certificate selection (pck_sorter.cpp, tcb_manager.cpp, config_selector.cpp,
    pck_cert_selection.cpp): the comparison of TCBs as a partial order (locale \<open>tcb_order\<close>, interpreted on
    compare_tcb_components), which inputs are accepted, the buckets, and that the chosen certificate is a maximal one
    of those the platform reaches.
  \<^descr> Servtd, Servtd_Correct: tdx_att_get_quote_by_report, tdx_att_get_collateral,
    tdx_att_free_collateral, get_quote, verify_quote_integrity and init_heap of the wrapper:
    delivery of quotes and collateral, what stays allocated, the binary CRLs, the heap.
  \<^descr> Cmac: driver/win/PLE/cmac.c against RFC 4493, for every block cipher.
  \<^descr> Launch_Enclave: main.c and string.c of the launch enclave: refused
    requests, the failing EGETKEY, the address check.
  \<^descr> Le_Proxy, Le_Proxy_Correct: the user-mode driver (driver/win/WinLeProxyUMDF): the start of the launch enclave, the
    power callbacks (a step relation with the requests), and the requests, composed with the launch enclave and with
    FLCMSR: a token request answered, one enclave at a time, the leak outside D0, failures that report success.
  \<^descr> Sgxsign, Sgxsign_Correct: sgxsign.c: the measurement of the launch enclave, SIGSTRUCT, the three commands;
    what EINIT checks of the result (\<open>einit_accepts\<close>), and that the measurement is that of the enclave the
    user-mode driver loads (\<open>hw_measurement\<close>). Bin2c: bin2c.c, and a reader of the arrays it prints.
  \<^descr> Tdqe_Mldsa, Tdqe_Blob, Tdqe_Quote: the TD quoting enclave. tdqe_mldsa_adapter.c, key derivation and ML-DSA
    signing; the sealed blob of the attestation key with gen_att_key, verify_blob, store_cert_data and
    get_pce_encrypt_key; determine_quote_version and gen_quote. One definition serves the four algorithms where the
    branches of the code differ in their structures only.
  \<^descr> Tdqe_Endian, Tdqe_Key, Tdqe_Attest, Tdqe_Fields, Tdqe_Live, Tdqe_Correct: the exchanges of bytes; what each command
    does to the blob and that it keeps the key (locale \<open>keeps_key\<close> and its interpretations on the commands); the
    quote as documented (\<open>signed_quote\<close>, \<open>documented_version\<close>); an SDK on which every command
    succeeds; and the properties of the enclave over sequences of commands (\<open>blob_step\<close>).
  \<^descr> Tdqe_Service: the enclave's quotes read by the quote generation service.
  \<^descr> Effect: commands on a state that may fail or fault, with triples and the rules that compose them.
  \<^descr> Td_Host, Td_Calls, Td_Logic, Td_Quotes: td_ql_logic.cpp and td_ql_logic.h, the methods behind the API of the TD
    quote library on the members of its context (\<open>td_members\<close>), over the commands of Tdqe_Blob and
    Tdqe_Quote: loading, storage, certification, init_quote with and without the PCE, get_quote_size, get_quote,
    get_platform_info.
  \<^descr> Td_Safe, Td_Blob, Td_Init, Td_Attest, Td_Api, Td_Works, Td_Correct: these methods over a documented platform
    (\<open>world_wf\<close>): the shape of the members, the blob as the sealed key of the enclave, the key that
    init_quote leaves (\<open>key_ready\<close>), the quote that get_quote delivers (\<open>quote_made\<close>), sequences of calls
    of the API (\<open>api_step\<close>), a platform on which every call succeeds (\<open>platform_works\<close>), and the
    properties.
  \<^descr> Flc_Msr: Power.c, Queue.c, Device.c, Driver.c and Utility.c of the launch control driver. The deferred
    procedure calls that write the MSRs of each processor are a step relation, so the proofs cover
    every schedule.

  \<^bold>\<open>State and effects.\<close> A C function is a HOL function of its arguments, of the objects it changes and
  of a record of answers: what each system call, SDK call or processor instruction returns during the
  call, one field per call site in program order. The answers are arbitrary, so a theorem over all records
  covers every behaviour of the kernel, of other processes and of the host. Resources and messages are logged
  in a list of events; \<open>held\<close> replays a log and is \<open>None\<close> when something is released that is not
  held.

  \<^bold>\<open>Bounds.\<close> The only loop that may not end is the receive loop of the sockets: \<open>recv_body\<close> is a
  partial function, \<open>None\<close> exactly when the peer closes the connection early. The polls of
  configfs and of the provider file take the number of tries of the code. \<open>flc_run\<close> gives the DPC wait
  loop as many steps as there are processors left, which every schedule needs exactly. \<open>connection_reads\<close>
  terminates because each read consumes what has arrived. All other recursions are structural.

  \<^bold>\<open>Parameters.\<close> AES, RDRAND, EREPORT and EGETKEY (\<open>ple_env\<close>), mldsa-native and the SGX SDK
  (\<open>mldsa_native\<close>, \<open>tdqe_env\<close>, \<open>tdqe_sdk\<close> with its documented behaviour \<open>sdk_documented\<close>), the TDVMCALL of the service TD's core, strncpy_s and the quote
  verifier (\<open>servtd_env\<close>), the Windows kernel and driver framework (\<open>flc_env\<close>,
  \<open>umdf_env\<close>, \<open>bcrypt_env\<close>), the launch enclave's image (\<open>le_image\<close>),
  files and OpenSSL under the tools (\<open>sign_env\<close>, \<open>bin2c_env\<close>), Linux and the VMM (\<open>attest_env\<close>
  and its parts), what the TD quote library gets from the system, the PCE, the id enclave and the provider library
  (\<open>td_world\<close>), the methods of its context below the API (\<open>config_methods\<close>, which
  \<open>quote_library\<close> instantiates with those of td_ql_logic.cpp), the provider library (\<open>qpl_functions\<close>), the values of the SDK's status codes
  (\<open>sdk\<close>) and its checks of a raw TD report (\<open>legit\<close>), the parsers of TCB info and certificates
  (\<open>parsers\<close>, a submodule). What a theorem assumes of them is a premise of it.

  \<^bold>\<open>Not modelled.\<close> The text of trace and log messages and the verbose debug output; the C++ of the provisioning,
  PCE, quoting and verifying libraries and enclaves other than the functions above; the Windows branches of the TD
  quote library and its releases of the provider's answers; the platform
  registration tools; the simulation build and the debug stages of the TD quoting enclave, its unused verify_blob_internal
  and its randomised stack; the appraisal engine (its policies are WebAssembly, built elsewhere); vendored
  OpenSSL, RapidJSON, wasm-micro-runtime and SGXSSL; installers, samples and language bindings. The
  bootstrap and the AES rounds of the launch enclave are assembly; servtd_utils.c stubs libc functions
  that a service TD does not have.

  \<^bold>\<open>Left.\<close> The id enclave and the UEFI variables of the registration tools (MPUefi.cpp) are small and could follow
  the same way; the SGX quote library and the quoting enclave 3 repeat the structure of the TD ones.
\<close>

end
